(* ===== verification/Prelude.thy ===== *)
theory Prelude
  imports Main "HOL-Library.AList" "HOL-Library.Multiset" "HOL-Library.Word"
begin

text \<open>
  The vocabulary the components of the registry share: Go's \<^verbatim>\<open>error\<close> values as a datatype, the
  early-return chains of Go functions as binds over the sum type (with or without a state that is
  kept on the error path), Go maps as association lists with an arbitrary iteration order, the
  clock and the identifier source of a request, and the lemmas about them that carry the
  component proofs.
\<close>

section \<open>Errors\<close>

text \<open>
  The error values the program creates or inspects.  \<open>ServiceError\<close> is
  \<^verbatim>\<open>service.Error{Status, Code, Message}\<close>; \<open>ErrNotFound\<close> and \<open>ErrConflict\<close> are the two sentinels of
  \<^verbatim>\<open>internal/repo/errors.go\<close> (the second always travels wrapped with a text);
  \<open>EOF\<close> is \<^verbatim>\<open>io.EOF\<close>; \<open>ErrSyntax\<close> and \<open>ErrRange\<close> are the two failures of \<^verbatim>\<open>strconv.Atoi\<close> on the quoted input;
  \<open>Errorf\<close> is every other error, with its text.
\<close>

datatype goerr =
    ServiceError nat string string
  | ErrNotFound
  | ErrConflict string
  | EOF
  | ErrSyntax string
  | ErrRange string
  | Errorf string

type_synonym 'a res = "goerr + 'a"

definition newError :: "nat \<Rightarrow> string \<Rightarrow> string \<Rightarrow> goerr" where
  "newError status code message = ServiceError status code message"

fun isServiceError :: "goerr \<Rightarrow> bool" where
  "isServiceError (ServiceError _ _ _) = True"
| "isServiceError _ = False"

text \<open>
  The three shapes of \<^verbatim>\<open>if err != nil { return ..., err }\<close>: \<open>res_bind\<close> after a call in a function that
  changes nothing, \<open>rd_bind\<close> after a read in a function that changes the state (the state so far is
  kept), \<open>st_bind\<close> after a call that may itself have changed the state.  There are no transactions
  in the program: an error returned late keeps what was written before it.
\<close>

definition res_bind :: "'e + 'a \<Rightarrow> ('a \<Rightarrow> 'e + 'b) \<Rightarrow> 'e + 'b" where
  "res_bind r f = (case r of Inl e \<Rightarrow> Inl e | Inr x \<Rightarrow> f x)"

definition rd_bind :: "'e + 'a \<Rightarrow> 's \<Rightarrow> ('a \<Rightarrow> ('e + 'b) \<times> 's) \<Rightarrow> ('e + 'b) \<times> 's" where
  "rd_bind r s f = (case r of Inl e \<Rightarrow> (Inl e, s) | Inr x \<Rightarrow> f x)"

definition st_bind :: "('e + 'a) \<times> 's \<Rightarrow> ('a \<Rightarrow> 's \<Rightarrow> ('e + 'b) \<times> 's) \<Rightarrow> ('e + 'b) \<times> 's" where
  "st_bind rs f = (case fst rs of Inl e \<Rightarrow> (Inl e, snd rs) | Inr x \<Rightarrow> f x (snd rs))"

definition map_err :: "('e \<Rightarrow> 'f) \<Rightarrow> 'e + 'a \<Rightarrow> 'f + 'a" where
  "map_err f r = (case r of Inl e \<Rightarrow> Inl (f e) | Inr x \<Rightarrow> Inr x)"

definition map_err_st :: "('e \<Rightarrow> 'f) \<Rightarrow> ('e + 'a) \<times> 's \<Rightarrow> ('f + 'a) \<times> 's" where
  "map_err_st f rs = (map_err f (fst rs), snd rs)"

text \<open>
  A loop over a slice whose body may return an error: \<open>res_map\<close> collects the results of a body that
  changes nothing and stops at the first error.
\<close>

fun res_map :: "('a \<Rightarrow> 'e + 'b) \<Rightarrow> 'a list \<Rightarrow> 'e + 'b list" where
  "res_map f [] = Inr []"
| "res_map f (x # xs) = res_bind (f x) (\<lambda>y. res_bind (res_map f xs) (\<lambda>ys. Inr (y # ys)))"

named_theorems res_iff \<open>when a chain of calls returns a value or an error\<close>

lemma res_bind_simps [simp]:
  "res_bind (Inl e) f = Inl e"
  "res_bind (Inr x) f = f x"
  by (simp_all add: res_bind_def)

lemma rd_bind_simps [simp]:
  "rd_bind (Inl e) s f = (Inl e, s)"
  "rd_bind (Inr x) s f = f x"
  by (simp_all add: rd_bind_def)

lemma st_bind_simps [simp]:
  "st_bind (Inl e, s) f = (Inl e, s)"
  "st_bind (Inr x, s) f = f x s"
  by (simp_all add: st_bind_def)

lemma map_err_simps [simp]:
  "map_err f (Inl e) = Inl (f e)"
  "map_err f (Inr x) = Inr x"
  by (simp_all add: map_err_def)

lemma map_err_st_simps [simp]:
  "map_err_st f (Inl e, s) = (Inl (f e), s)"
  "map_err_st f (Inr x, s) = (Inr x, s)"
  by (simp_all add: map_err_st_def)

lemma res_bind_InrI [res_iff]: "res_bind r f = Inr y \<longleftrightarrow> (\<exists>x. r = Inr x \<and> f x = Inr y)"
  by (cases r) auto

lemma res_bind_InlI [res_iff]:
  "res_bind r f = Inl e \<longleftrightarrow> r = Inl e \<or> (\<exists>x. r = Inr x \<and> f x = Inl e)"
  by (cases r) auto

lemma map_err_Inr [res_iff]: "map_err f r = Inr x \<longleftrightarrow> r = Inr x"
  by (cases r) auto

lemma map_err_Inl [res_iff]: "map_err f r = Inl e \<longleftrightarrow> (\<exists>d. r = Inl d \<and> e = f d)"
  by (cases r) auto

lemma rd_bind_Inr [res_iff]:
  "rd_bind r s f = (Inr y, s') \<longleftrightarrow> (\<exists>x. r = Inr x \<and> f x = (Inr y, s'))"
  by (cases r) auto

lemma st_bind_Inr [res_iff]:
  "st_bind rs f = (Inr y, s') \<longleftrightarrow> (\<exists>x s1. rs = (Inr x, s1) \<and> f x s1 = (Inr y, s'))"
  by (cases rs; cases "fst rs") auto

lemma map_err_st_Inr [res_iff]: "map_err_st f rs = (Inr x, s) \<longleftrightarrow> rs = (Inr x, s)"
  by (cases rs; cases "fst rs") auto

lemma snd_map_err_st [simp]: "snd (map_err_st f rs) = snd rs"
  by (simp add: map_err_st_def)

lemma res_bind_split:
  "P (res_bind r f) \<longleftrightarrow> (\<forall>e. r = Inl e \<longrightarrow> P (Inl e)) \<and> (\<forall>x. r = Inr x \<longrightarrow> P (f x))"
  by (cases r) auto

lemma rd_bind_split:
  "P (rd_bind r s f) \<longleftrightarrow> (\<forall>e. r = Inl e \<longrightarrow> P (Inl e, s)) \<and> (\<forall>x. r = Inr x \<longrightarrow> P (f x))"
  by (cases r) auto

lemma st_bind_split:
  "P (st_bind rs f) \<longleftrightarrow>
     (\<forall>e s. rs = (Inl e, s) \<longrightarrow> P (Inl e, s)) \<and> (\<forall>x s. rs = (Inr x, s) \<longrightarrow> P (f x s))"
  by (cases rs; cases "fst rs") auto

text \<open>What every continuation keeps, the chain keeps.\<close>

lemma snd_rd_bind:
  assumes "P s" and "\<And>x. r = Inr x \<Longrightarrow> P (snd (f x))"
  shows "P (snd (rd_bind r s f))"
  using assms by (cases r) auto

lemma snd_st_bind:
  assumes "P (snd rs)" and "\<And>x. fst rs = Inr x \<Longrightarrow> P (snd (f x (snd rs)))"
  shows "P (snd (st_bind rs f))"
  using assms by (cases rs; cases "fst rs") auto

lemma res_map_length: "res_map f xs = Inr ys \<Longrightarrow> length ys = length xs"
  by (induction xs arbitrary: ys) (auto simp: res_iff)

lemma res_map_nth:
  "res_map f xs = Inr ys \<Longrightarrow> i < length xs \<Longrightarrow> f (xs ! i) = Inr (ys ! i)"
proof (induction xs arbitrary: ys i)
  case Nil
  then show ?case by simp
next
  case (Cons x xs)
  then show ?case by (cases i) (auto simp: res_iff)
qed

lemma res_map_total: "(\<And>x. x \<in> set xs \<Longrightarrow> f x = Inr (g x)) \<Longrightarrow> res_map f xs = Inr (map g xs)"
  by (induction xs) auto

section \<open>Maps and their iteration order\<close>

text \<open>
  A Go map is an association list with distinct keys.  \<^verbatim>\<open>m[k]\<close> is \<open>map_of m k\<close>, \<^verbatim>\<open>m[k] = v\<close> is
  \<open>AList.update k v m\<close>, \<^verbatim>\<open>delete(m, k)\<close> is \<open>AList.delete k m\<close>; reading a missing key of a map of slices
  or of maps gives the empty one (\<open>at_key\<close>).  The order in which \<^verbatim>\<open>range\<close> visits a map is not
  specified: it is a permutation chosen by the runtime, here a \<open>shuffle\<close> that gives for each length
  the order of the indices.  A function that is not a permutation of the indices counts as the
  identity, so a theorem about every shuffle is about exactly the orders the runtime may choose.
\<close>

type_synonym ('k, 'v) gomap = "('k \<times> 'v) list"

type_synonym shuffle = "nat \<Rightarrow> nat list"

definition go_range :: "shuffle \<Rightarrow> 'a list \<Rightarrow> 'a list" where
  "go_range p xs =
     (if mset (p (length xs)) = mset [0..<length xs] then map ((!) xs) (p (length xs)) else xs)"

definition at_key :: "('k, 'v list) gomap \<Rightarrow> 'k \<Rightarrow> 'v list" where
  "at_key m k = (case map_of m k of None \<Rightarrow> [] | Some v \<Rightarrow> v)"

abbreviation wf_map :: "('k, 'v) gomap \<Rightarrow> bool" where
  "wf_map m \<equiv> distinct (map fst m)"

definition in_order :: shuffle where
  "in_order n = [0..<n]"

lemma go_range_in_order [simp]: "go_range in_order xs = xs"
  by (simp add: go_range_def in_order_def map_nth)

lemma go_range_Nil [simp]: "go_range p [] = []"
  by (simp add: go_range_def)

lemma mset_go_range [simp]: "mset (go_range p xs) = mset xs"
proof (cases "mset (p (length xs)) = mset [0..<length xs]")
  case True
  have "mset (go_range p xs) = image_mset ((!) xs) (mset (p (length xs)))"
    using True by (simp add: go_range_def)
  also have "\<dots> = mset (map ((!) xs) [0..<length xs])"
    unfolding True by simp
  also have "\<dots> = mset xs" by (simp only: map_nth)
  finally show ?thesis .
next
  case False
  then show ?thesis by (simp add: go_range_def)
qed

lemma set_go_range [simp]: "set (go_range p xs) = set xs"
  using mset_go_range [of p xs] by (metis set_mset_mset)

lemma length_go_range [simp]: "length (go_range p xs) = length xs"
  using mset_go_range [of p xs] by (metis size_mset)

lemma distinct_go_range [simp]: "distinct (go_range p xs) = distinct xs"
  using mset_go_range [of p xs] by (metis mset_eq_imp_distinct_iff)

lemma go_range_eq_Nil [simp]: "go_range p xs = [] \<longleftrightarrow> xs = []"
  by (metis length_0_conv length_go_range)

lemma at_key_simps [simp]:
  "at_key [] k = []"
  "at_key ((k', v) # m) k = (if k = k' then v else at_key m k)"
  by (auto simp: at_key_def)

lemma at_key_update [simp]:
  "at_key (AList.update k v m) k' = (if k' = k then v else at_key m k')"
  by (simp add: at_key_def update_conv')

lemma map_of_AList_update [simp]: "map_of (AList.update k v m) k' = (if k' = k then Some v else map_of m k')"
  by (simp add: update_conv')

lemma map_of_AList_delete [simp]: "map_of (AList.delete k m) k' = (if k' = k then None else map_of m k')"
  by (simp add: delete_conv')

lemma update_same: "map_of m k = Some v \<Longrightarrow> AList.update k v m = m"
  by (induction m) auto

lemma wf_map_update [simp]: "wf_map m \<Longrightarrow> wf_map (AList.update k v m)"
  by (rule distinct_update)

lemma wf_map_delete [simp]: "wf_map m \<Longrightarrow> wf_map (AList.delete k m)"
  by (rule distinct_delete)

text \<open>Lookups stay lookups: the entries of a map are not turned into memberships.\<close>

declare map_of_eq_Some_iff [simp del] Some_eq_map_of_iff [simp del]

lemma map_of_in_snd: "map_of m k = Some v \<Longrightarrow> v \<in> set (map snd m)"
  by (force dest: map_of_SomeD)

lemma in_snd_map_of: "wf_map m \<Longrightarrow> v \<in> snd ` set m \<Longrightarrow> \<exists>k. map_of m k = Some v"
  by (auto simp: map_of_eq_Some_iff)

lemma map_of_mem: "wf_map m \<Longrightarrow> (k, v) \<in> set m \<longleftrightarrow> map_of m k = Some v"
  by (simp add: map_of_eq_Some_iff)

section \<open>Clock, identifiers, randomness\<close>

text \<open>
  \<^verbatim>\<open>time.Time\<close> is the number of nanoseconds since Go's zero time, so \<^verbatim>\<open>IsZero\<close> is equality with 0.
  A \<^verbatim>\<open>float64\<close> is never computed with: its 64 bits are kept.  What a request takes from outside is an
  \<open>oracle\<close>: the successive readings of the clock, the successive results of \<^verbatim>\<open>uuid.NewString\<close>, of the
  secure random source, and the iteration orders of the maps it ranges over.
\<close>

type_synonym time = int
type_synonym float64 = "64 word"
type_synonym byte = char
type_synonym bytes = "byte list"

definition IsZero :: "time \<Rightarrow> bool" where
  "IsZero t \<longleftrightarrow> t = 0"

record ambient =
  now :: "nat \<Rightarrow> time"
  uuid :: "nat \<Rightarrow> string"
  rand :: "bytes res"
  order :: "nat \<Rightarrow> shuffle"

text \<open>An environment to evaluate with: the clock shows \<open>t\<close>, identifiers are \<open>p0\<close>, \<open>p1\<close>, \<dots>, maps are visited
  in the order of insertion.\<close>

definition plain_ambient :: "time \<Rightarrow> (nat \<Rightarrow> string) \<Rightarrow> ambient" where
  "plain_ambient t ids =
     \<lparr>now = (\<lambda>_. t), uuid = ids, rand = Inr ''0123456789abcdef0123456789abcdef'', order = (\<lambda>_. in_order)\<rparr>"

lemma plain_ambient_simps [simp]:
  "now (plain_ambient t ids) i = t"
  "uuid (plain_ambient t ids) = ids"
  "rand (plain_ambient t ids) = Inr ''0123456789abcdef0123456789abcdef''"
  "order (plain_ambient t ids) i = in_order"
  by (simp_all add: plain_ambient_def)

section \<open>Lists\<close>

lemma find_append:
  "find P (xs @ ys) = (case find P xs of None \<Rightarrow> find P ys | Some x \<Rightarrow> Some x)"
  by (induction xs) auto

lemma find_SomeD: "find P xs = Some x \<Longrightarrow> x \<in> set xs \<and> P x"
  by (induction xs) (auto split: if_splits)

lemma find_None_all: "find P xs = None \<longleftrightarrow> (\<forall>x \<in> set xs. \<not> P x)"
  by (induction xs) auto

end
