(* ===== verification/Processes.thy ===== *)
theory Processes
  imports Prelude
begin

text \<open>
  Requests that run at the same time.  A request is a process: a sequence of calls of the store, each of them
  atomic, with what it does next depending on what the call saw.  The runtime interleaves the calls of the
  requests in progress; a request alone is the special case that the operations of the services describe.
  The rely-guarantee rule for such pools of processes is the locale \<open>protocol\<close>.
\<close>

section \<open>Processes\<close>

text \<open>\<open>Call f k\<close> turns the state \<open>s\<close> it finds into \<open>f s\<close> and goes on with \<open>k s\<close>.\<close>

datatype (dead 's, 'a) process =
    Finished 'a
  | Call "'s \<Rightarrow> 's" "'s \<Rightarrow> ('s, 'a) process"

text \<open>What a process does when no other one runs.\<close>

primrec alone :: "('s, 'a) process \<Rightarrow> 's \<Rightarrow> 'a \<times> 's" where
  "alone (Finished x) = (\<lambda>s. (x, s))"
| "alone (Call f k) = (\<lambda>s. alone (k s) (f s))"

text \<open>A query whose error ends the request, a command whose error ends the request, a command whose result
is ignored.\<close>

definition queryCall :: "('s \<Rightarrow> 'e + 'a) \<Rightarrow> ('a \<Rightarrow> ('s, 'e + 'b) process) \<Rightarrow> ('s, 'e + 'b) process" where
  "queryCall q k = Call id (\<lambda>s. case q s of Inl e \<Rightarrow> Finished (Inl e) | Inr x \<Rightarrow> k x)"

definition commandCall ::
    "('s \<Rightarrow> ('e + 'a) \<times> 's) \<Rightarrow> ('a \<Rightarrow> ('s, 'e + 'b) process) \<Rightarrow> ('s, 'e + 'b) process" where
  "commandCall c k = Call (\<lambda>s. snd (c s)) (\<lambda>s. case fst (c s) of Inl e \<Rightarrow> Finished (Inl e) | Inr x \<Rightarrow> k x)"

definition attemptCall :: "('s \<Rightarrow> 'r \<times> 's) \<Rightarrow> ('s, 'b) process \<Rightarrow> ('s, 'b) process" where
  "attemptCall c p = Call (\<lambda>s. snd (c s)) (\<lambda>_. p)"

text \<open>A computation of the request's own that may fail.\<close>

definition ownStep :: "'e + 'a \<Rightarrow> ('a \<Rightarrow> ('s, 'e + 'b) process) \<Rightarrow> ('s, 'e + 'b) process" where
  "ownStep r k = (case r of Inl e \<Rightarrow> Finished (Inl e) | Inr x \<Rightarrow> k x)"

lemma alone_simps [simp]:
  "alone (queryCall q k) = (\<lambda>s. rd_bind (q s) s (\<lambda>x. alone (k x) s))"
  "alone (commandCall c k) = (\<lambda>s. st_bind (c s) (\<lambda>x. alone (k x)))"
  "alone (attemptCall d p) = (\<lambda>s. alone p (snd (d s)))"
  "alone (ownStep r k) = (\<lambda>s. rd_bind r s (\<lambda>x. alone (k x) s))"
  by (simp_all add: fun_eq_iff queryCall_def commandCall_def attemptCall_def ownStep_def rd_bind_def st_bind_def split: sum.split)

section \<open>Interleaving\<close>

text \<open>One turn: process number \<open>i\<close> makes its next call.\<close>

inductive interleaving :: "('s, 'a) process list \<times> 's \<Rightarrow> ('s, 'a) process list \<times> 's \<Rightarrow> bool"
  for c :: "('s, 'a) process list \<times> 's" where
  start: "interleaving c c"
| turn: "interleaving c (ps, s) \<Longrightarrow> i < length ps \<Longrightarrow> ps ! i = Call f k \<Longrightarrow> interleaving c (ps[i := k s], f s)"

text \<open>A schedule names the process of each turn; a process that has finished, or that is not there, passes.\<close>

definition takeTurn :: "nat \<Rightarrow> ('s, 'a) process list \<times> 's \<Rightarrow> ('s, 'a) process list \<times> 's" where
  "takeTurn i c =
     (if i < length (fst c) then (case fst c ! i of Finished _ \<Rightarrow> c | Call f k \<Rightarrow> ((fst c)[i := k (snd c)], f (snd c))) else c)"

fun schedule :: "nat list \<Rightarrow> ('s, 'a) process list \<times> 's \<Rightarrow> ('s, 'a) process list \<times> 's" where
  "schedule [] c = c"
| "schedule (i # turns) c = schedule turns (takeTurn i c)"

lemma interleaving_takeTurn: "interleaving c c' \<Longrightarrow> interleaving c (takeTurn i c')"
  by (cases c') (auto simp: takeTurn_def intro: interleaving.turn split: process.split)

lemma interleaving_schedule: "interleaving c c' \<Longrightarrow> interleaving c (schedule turns c')"
proof (induction turns arbitrary: c')
  case (Cons i turns)
  then show ?case using interleaving_takeTurn by (metis schedule.simps(2))
qed simp

lemmas scheduled = interleaving_schedule [OF interleaving.start]

text \<open>A property of what a schedule ends with is one of some interleaving.\<close>

lemma scheduled_ex:
  assumes "case schedule turns (ps, (s, b)) of (ps', (s', b')) \<Rightarrow> P ps' s' b'"
  shows "\<exists>ps' s' b'. interleaving (ps, (s, b)) (ps', (s', b')) \<and> P ps' s' b'"
proof -
  obtain ps' s' b' where "schedule turns (ps, (s, b)) = (ps', (s', b'))" by (metis prod_cases3)
  then show ?thesis using assms scheduled [of "(ps, (s, b))" turns] by auto
qed

section \<open>Rely and guarantee\<close>

text \<open>\<open>R\<close> relates the states before and after every call of the process.\<close>

primrec obeys :: "('s \<Rightarrow> 's \<Rightarrow> bool) \<Rightarrow> ('s, 'a) process \<Rightarrow> bool" where
  "obeys R (Finished x) = True"
| "obeys R (Call f k) = (\<forall>s. R s (f s) \<and> obeys R (k s))"

text \<open>Started in the state \<open>s\<close>, the process ends with \<open>Q\<close> if the calls of the others change the state by \<open>R\<close>.\<close>

primrec secures :: "('s \<Rightarrow> 's \<Rightarrow> bool) \<Rightarrow> ('a \<Rightarrow> 's \<Rightarrow> bool) \<Rightarrow> ('s, 'a) process \<Rightarrow> 's \<Rightarrow> bool" where
  "secures R Q (Finished x) = (\<lambda>s. Q x s)"
| "secures R Q (Call f k) = (\<lambda>s. \<forall>s'. R s s' \<longrightarrow> secures R Q (k s') (f s'))"

lemma obeys_branch [simp]:
  "obeys R (case r of Inl e \<Rightarrow> Finished (Inl e) | Inr x \<Rightarrow> k x) \<longleftrightarrow> (\<forall>x. r = Inr x \<longrightarrow> obeys R (k x))"
  by (cases r) auto

lemma obeys_simps [simp]:
  "obeys R (queryCall q k) \<longleftrightarrow> (\<forall>s. R s s \<and> (\<forall>x. q s = Inr x \<longrightarrow> obeys R (k x)))"
  "obeys R (commandCall c k) \<longleftrightarrow> (\<forall>s. R s (snd (c s)) \<and> (\<forall>x. fst (c s) = Inr x \<longrightarrow> obeys R (k x)))"
  "obeys R (attemptCall d p) \<longleftrightarrow> (\<forall>s. R s (snd (d s)) \<and> obeys R p)"
  "obeys R (ownStep r k) \<longleftrightarrow> (\<forall>x. r = Inr x \<longrightarrow> obeys R (k x))"
  by (simp_all add: queryCall_def commandCall_def attemptCall_def ownStep_def)

lemma obeys_map_process [simp]: "obeys R (map_process f p) = obeys R p"
  by (induction p) auto

lemma secures_map_process: "secures R Q (map_process f p) s = secures R (\<lambda>x. Q (f x)) p s"
  by (induction p arbitrary: s) auto

locale protocol =
  fixes R :: "'s \<Rightarrow> 's \<Rightarrow> bool"
  assumes refl: "R s s"
    and trans: "R s t \<Longrightarrow> R t u \<Longrightarrow> R s u"
begin

definition stable :: "('a \<Rightarrow> 's \<Rightarrow> bool) \<Rightarrow> bool" where
  "stable Q \<longleftrightarrow> (\<forall>x s t. Q x s \<longrightarrow> R s t \<longrightarrow> Q x t)"

lemma secures_later: "secures R Q p s \<Longrightarrow> R s t \<Longrightarrow> stable Q \<Longrightarrow> secures R Q p t"
  by (cases p) (auto simp: stable_def intro: trans)

lemma secures_query:
  assumes "\<And>t x. R s t \<Longrightarrow> q t = Inr x \<Longrightarrow> secures R Q (k x) t" and "\<And>e t. Q (Inl e) t"
  shows "secures R Q (queryCall q k) s"
  using assms by (auto simp: queryCall_def split: sum.split)

lemma secures_command:
  assumes "\<And>t t' x. R s t \<Longrightarrow> c t = (Inr x, t') \<Longrightarrow> secures R Q (k x) t'" and "\<And>e t. Q (Inl e) t"
  shows "secures R Q (commandCall c k) s"
proof -
  have "secures R Q (case fst (c t) of Inl e \<Rightarrow> Finished (Inl e) | Inr x \<Rightarrow> k x) (snd (c t))" if "R s t" for t
  proof (cases "fst (c t)")
    case (Inl e)
    then show ?thesis by (simp add: assms(2))
  next
    case (Inr x)
    then have "c t = (Inr x, snd (c t))" by (metis prod.collapse)
    then show ?thesis using assms(1) [OF that] Inr by simp
  qed
  then show ?thesis by (simp add: commandCall_def)
qed

lemma secures_True: "secures R (\<lambda>x s. True) p s"
  by (induction p arbitrary: s) auto

text \<open>What holds whatever the answer, and stays, needs nothing of the rest of the process.\<close>

lemma secures_rest:
  assumes "obeys R p" and "stable Q" and "\<And>x. Q x s"
  shows "secures R Q p s"
  using assms
proof (induction p arbitrary: s)
  case (Call f k)
  have "secures R Q (k t) (f t)" if "R s t" for t
  proof (rule Call.IH)
    have "R s (f t)" using Call.prems(1) trans [OF that] by simp
    then show "Q x (f t)" for x using Call.prems(2,3) unfolding stable_def by blast
  qed (use Call.prems in auto)
  then show ?case by simp
qed simp

text \<open>The invariant of a pool.\<close>

lemma pool_invariant:
  assumes run: "interleaving (ps, s) c"
    and ob: "\<And>p. p \<in> set ps \<Longrightarrow> obeys R p"
    and st: "\<And>i. stable (Q i)"
    and sec: "\<And>i. i < length ps \<Longrightarrow> secures R (Q i) (ps ! i) s"
  shows "length (fst c) = length ps \<and> R s (snd c) \<and> (\<forall>p \<in> set (fst c). obeys R p)
     \<and> (\<forall>i < length ps. secures R (Q i) (fst c ! i) (snd c))"
  using run
proof (induction rule: interleaving.induct)
  case start
  then show ?case using ob sec by (simp add: refl)
next
  case (turn ps' t i f k)
  have IH: "length ps' = length ps" "R s t" "\<And>p. p \<in> set ps' \<Longrightarrow> obeys R p"
      "\<And>j. j < length ps \<Longrightarrow> secures R (Q j) (ps' ! j) t"
    using turn.IH by simp_all
  have call: "R t (f t)" "obeys R (k t)" using IH(3) [of "Call f k"] turn.hyps by (auto simp: in_set_conv_nth)
  have "secures R (Q j) (ps'[i := k t] ! j) (f t)" if "j < length ps" for j
  proof (cases "j = i")
    case True
    then show ?thesis using IH(4) [OF that] turn.hyps refl by simp
  next
    case False
    then show ?thesis using secures_later [OF IH(4) [OF that] call(1) st] by simp
  qed
  moreover have "obeys R p" if "p \<in> set (ps'[i := k t])" for p
    using that IH(3) call(2) set_update_subset_insert [of ps' i "k t"] by auto
  ultimately show ?case using IH(1) trans [OF IH(2) call(1)] by simp
qed

lemma pool_guarantee:
  assumes "interleaving (ps, s) (ps', s')" and "\<And>p. p \<in> set ps \<Longrightarrow> obeys R p"
  shows "R s s'"
  using pool_invariant [where Q = "\<lambda>i x s. True", OF assms] by (simp add: stable_def secures_True)

lemma pool_result:
  assumes "interleaving (ps, s) (ps', s')" and "\<And>p. p \<in> set ps \<Longrightarrow> obeys R p"
    and "\<And>i. stable (Q i)" and "\<And>i. i < length ps \<Longrightarrow> secures R (Q i) (ps ! i) s"
    and "i < length ps" and "ps' ! i = Finished x"
  shows "Q i x s'"
  using pool_invariant [where Q = Q, OF assms(1-4)] assms(5,6) by (metis fst_conv secures.simps(1) snd_conv)

end

end
