(* ===== verification/GoStrings.thy ===== *)
theory GoStrings
  imports Prelude
begin

text \<open>
  What the registry uses of Go's \<^verbatim>\<open>strings\<close>, \<^verbatim>\<open>strconv\<close>, \<^verbatim>\<open>fmt\<close> and \<^verbatim>\<open>path/filepath\<close> packages, on byte strings:
  prefixes and suffixes, searching and splitting at one byte, decimal numbers of a 64-bit
  \<^verbatim>\<open>int\<close>, trimming, lexical path cleaning.  Lower-casing is that of ASCII letters; the other bytes are
  left alone.  The round-trip lemmas at the end of each section carry the URL and object-key
  properties of the components.
\<close>

section \<open>Prefixes, suffixes, searching\<close>

definition hasPrefix :: "string \<Rightarrow> string \<Rightarrow> bool" where
  "hasPrefix s p \<longleftrightarrow> take (length p) s = p"

definition trimPrefix :: "string \<Rightarrow> string \<Rightarrow> string" where
  "trimPrefix s p = (if hasPrefix s p then drop (length p) s else s)"

definition hasSuffix :: "string \<Rightarrow> string \<Rightarrow> bool" where
  "hasSuffix s p \<longleftrightarrow> hasPrefix (rev s) (rev p)"

definition trimSuffix :: "string \<Rightarrow> string \<Rightarrow> string" where
  "trimSuffix s p = (if hasSuffix s p then take (length s - length p) s else s)"

fun containsStr :: "string \<Rightarrow> string \<Rightarrow> bool" where
  "containsStr [] p = (p = [])"
| "containsStr (c # s) p = (hasPrefix (c # s) p \<or> containsStr s p)"

text \<open>\<^verbatim>\<open>strings.Index\<close> of a one-byte separator: the text before the first one and the text after it.\<close>

fun cutFirst :: "char \<Rightarrow> string \<Rightarrow> (string \<times> string) option" where
  "cutFirst c [] = None"
| "cutFirst c (x # s) =
     (if x = c then Some ([], s)
      else case cutFirst c s of None \<Rightarrow> None | Some (a, b) \<Rightarrow> Some (x # a, b))"

text \<open>\<^verbatim>\<open>strings.LastIndex\<close> of a one-byte separator, likewise.\<close>

definition cutLast :: "char \<Rightarrow> string \<Rightarrow> (string \<times> string) option" where
  "cutLast c s = (case cutFirst c (rev s) of None \<Rightarrow> None | Some (a, b) \<Rightarrow> Some (rev b, rev a))"

text \<open>\<^verbatim>\<open>strings.Split\<close> at a one-byte separator: never empty, \<open>[s]\<close> when the separator does not occur.\<close>

fun splitOn :: "char \<Rightarrow> string \<Rightarrow> string list" where
  "splitOn c [] = [[]]"
| "splitOn c (x # s) =
     (if x = c then [] # splitOn c s
      else case splitOn c s of [] \<Rightarrow> [[x]] | p # ps \<Rightarrow> (x # p) # ps)"

definition replaceChar :: "char \<Rightarrow> string \<Rightarrow> string \<Rightarrow> string" where
  "replaceChar c r s = concat (map (\<lambda>x. if x = c then r else [x]) s)"

fun joinWith :: "string \<Rightarrow> string list \<Rightarrow> string" where
  "joinWith sep [] = []"
| "joinWith sep [x] = x"
| "joinWith sep (x # y # ys) = x @ sep @ joinWith sep (y # ys)"

lemma hasPrefix_append [simp]: "hasPrefix (p @ s) p"
  by (simp add: hasPrefix_def)

lemma hasPrefix_iff: "hasPrefix s p \<longleftrightarrow> (\<exists>t. s = p @ t)"
  by (metis append_take_drop_id hasPrefix_append hasPrefix_def)

lemma trimPrefix_append [simp]: "trimPrefix (p @ s) p = s"
  by (simp add: trimPrefix_def)

lemma hasSuffix_append [simp]: "hasSuffix (s @ p) p"
  by (simp add: hasSuffix_def)

lemma trimSuffix_append [simp]: "trimSuffix (s @ p) p = s"
  by (simp add: trimSuffix_def)

lemma cutFirst_append: "c \<notin> set a \<Longrightarrow> cutFirst c (a @ c # b) = Some (a, b)"
  by (induction a) auto

lemma cutFirst_None: "cutFirst c s = None \<longleftrightarrow> c \<notin> set s"
  by (induction s) (auto split: option.splits)

lemma cutLast_append: "c \<notin> set b \<Longrightarrow> cutLast c (a @ c # b) = Some (a, b)"
  by (simp add: cutLast_def cutFirst_append)

lemma splitOn_not_Nil [simp]: "splitOn c s \<noteq> []"
  by (induction s) (auto split: list.splits)

lemma splitOn_none: "c \<notin> set s \<Longrightarrow> splitOn c s = [s]"
  by (induction s) auto

lemma splitOn_append: "c \<notin> set a \<Longrightarrow> splitOn c (a @ c # b) = a # splitOn c b"
  by (induction a) auto

lemma splitOn_two: "c \<notin> set a \<Longrightarrow> c \<notin> set b \<Longrightarrow> splitOn c (a @ c # b) = [a, b]"
  by (simp add: splitOn_append splitOn_none)

lemma splitOn_length: "length (splitOn c s) = Suc (count_list s c)"
  by (induction s) (auto split: list.splits)

lemma containsStr_single: "containsStr s [c] \<longleftrightarrow> c \<in> set s"
  by (induction s) (auto simp: hasPrefix_def)

lemma containsStr_Nil [simp]: "containsStr s []"
  by (cases s) (auto simp: hasPrefix_def)

lemma set_replaceChar: "c \<notin> set r \<Longrightarrow> c \<notin> set (replaceChar c r s)"
  by (auto simp: replaceChar_def split: if_splits)

section \<open>Decimal numbers\<close>

definition digitChar :: "nat \<Rightarrow> char" where
  "digitChar d = char_of (48 + d)"

definition digitVal :: "char \<Rightarrow> int option" where
  "digitVal c = (let k = int (of_char c) in if 48 \<le> k \<and> k \<le> 57 then Some (k - 48) else None)"

lemma digitChar_simps [simp]:
  "digitChar 0 = CHR ''0''" "digitChar (Suc 0) = CHR ''1''" "digitChar 2 = CHR ''2''"
  "digitChar 3 = CHR ''3''" "digitChar 4 = CHR ''4''" "digitChar 5 = CHR ''5''"
  "digitChar 6 = CHR ''6''" "digitChar 7 = CHR ''7''" "digitChar 8 = CHR ''8''"
  "digitChar 9 = CHR ''9''"
  by code_simp+

fun showNat :: "nat \<Rightarrow> string" where
  "showNat n = (if n < 10 then [digitChar n] else showNat (n div 10) @ [digitChar (n mod 10)])"

declare showNat.simps [simp del]

text \<open>\<^verbatim>\<open>fmt.Sprintf("%d", i)\<close>.\<close>

definition itoa :: "int \<Rightarrow> string" where
  "itoa i = (if i < 0 then CHR ''-'' # showNat (nat (- i)) else showNat (nat i))"

text \<open>
  \<^verbatim>\<open>strconv.Atoi\<close> on 64 bits.  As in the library the value is accumulated digit by digit: a byte that
  is not a digit is a syntax error, and exceeding 64 bits is a range error at once, before the rest
  is looked at.
\<close>

fun parseUint :: "string \<Rightarrow> int \<Rightarrow> string \<Rightarrow> int res" where
  "parseUint s n [] = Inr n"
| "parseUint s n (c # cs) =
     (case digitVal c of
        None \<Rightarrow> Inl (ErrSyntax s)
      | Some d \<Rightarrow>
          if n * 10 + d \<ge> 2 ^ 64 then Inl (ErrRange s) else parseUint s (n * 10 + d) cs)"

definition atoi :: "string \<Rightarrow> int res" where
  "atoi s =
     (let neg = (case s of c # _ \<Rightarrow> c = CHR ''-'' | [] \<Rightarrow> False);
          ds = (case s of c # r \<Rightarrow> if c = CHR ''-'' \<or> c = CHR ''+'' then r else s | [] \<Rightarrow> []) in
      if ds = [] then Inl (ErrSyntax s)
      else res_bind (parseUint s 0 ds) (\<lambda>n.
        if \<not> neg \<and> n \<ge> 2 ^ 63 then Inl (ErrRange s)
        else if neg \<and> n > 2 ^ 63 then Inl (ErrRange s)
        else Inr (if neg then - n else n)))"

text \<open>
  \<^verbatim>\<open>err.Error()\<close>.  The number errors quote their input, which is given here between plain quotes:
  that is what \<^verbatim>\<open>strconv.Quote\<close> yields for printable text without quotes and backslashes.
\<close>

fun errText :: "goerr \<Rightarrow> string" where
  "errText (ServiceError status code message) = code @ '': '' @ message"
| "errText ErrNotFound = ''not found''"
| "errText (ErrConflict t) = t"
| "errText EOF = ''EOF''"
| "errText (ErrSyntax s) = ''strconv.Atoi: parsing '' @ CHR 0x22 # s @ CHR 0x22 # '': invalid syntax''"
| "errText (ErrRange s) = ''strconv.Atoi: parsing '' @ CHR 0x22 # s @ CHR 0x22 # '': value out of range''"
| "errText (Errorf t) = t"

lemma digitVal_digitChar [simp]: "d < 10 \<Longrightarrow> digitVal (digitChar d) = Some (int d)"
  by (simp add: digitVal_def digitChar_def Let_def)

lemma digitChar_neq: "d < 10 \<Longrightarrow> digitVal c = None \<Longrightarrow> digitChar d \<noteq> c"
  by auto

lemma showNat_not_Nil [simp]: "showNat n \<noteq> []"
  by (subst showNat.simps) simp

lemma set_showNat: "c \<in> set (showNat n) \<Longrightarrow> \<exists>d<10. c = digitChar d"
proof (induction n rule: showNat.induct)
  case (1 n)
  then show ?case
    by (subst (asm) (2) showNat.simps) (auto split: if_splits intro: exI [of _ "n mod 10"])
qed

lemma showNat_no_sep: "digitVal c = None \<Longrightarrow> c \<notin> set (showNat n)"
  using set_showNat digitChar_neq by blast

lemma itoa_not_Nil [simp]: "itoa i \<noteq> []"
  by (simp add: itoa_def)

lemma itoa_no_sep: "digitVal c = None \<Longrightarrow> c \<noteq> CHR ''-'' \<Longrightarrow> c \<notin> set (itoa i)"
  by (auto simp: itoa_def showNat_no_sep)

lemma parseUint_append:
  "parseUint s n (xs @ ys) = res_bind (parseUint s n xs) (\<lambda>m. parseUint s m ys)"
  by (induction xs arbitrary: n) (auto split: option.splits)

lemma parseUint_showNat: "n < 2 ^ 64 \<Longrightarrow> parseUint s 0 (showNat n) = Inr (int n)"
proof (induction n rule: showNat.induct)
  case (1 n)
  show ?case
  proof (cases "n < 10")
    case True
    then show ?thesis by (simp add: showNat.simps [of n])
  next
    case False
    with 1 have IH: "parseUint s 0 (showNat (n div 10)) = Inr (int (n div 10))" by simp
    have "n div 10 * 10 + n mod 10 = n" by simp
    then have "int (n div 10) * 10 + int (n mod 10) = int n"
      by (metis of_nat_add of_nat_mult of_nat_numeral)
    with IH False "1.prems" show ?thesis by (simp add: showNat.simps [of n] parseUint_append)
  qed
qed

lemma hd_showNat: "showNat n = c # r \<Longrightarrow> c \<noteq> CHR ''-'' \<and> c \<noteq> CHR ''+''"
  using showNat_no_sep [of "CHR ''-''" n] showNat_no_sep [of "CHR ''+''" n]
  by (auto simp: digitVal_def)

text \<open>Printing a 64-bit integer and reading it back gives the integer.\<close>

lemma atoi_itoa: "- (2 ^ 63) \<le> i \<Longrightarrow> i < 2 ^ 63 \<Longrightarrow> atoi (itoa i) = Inr i"
proof (cases "i < 0")
  case True
  assume "- (2 ^ 63) \<le> i"
  then have "nat (- i) \<le> 2 ^ 63" "nat (- i) < 2 ^ 64" using True by auto
  with True show ?thesis by (simp add: atoi_def itoa_def parseUint_showNat)
next
  case False
  assume i: "i < 2 ^ 63"
  then have n: "nat i < 2 ^ 64" using False by auto
  obtain c r where cr: "showNat (nat i) = c # r" by (cases "showNat (nat i)") auto
  then have "c \<noteq> CHR ''-''" "c \<noteq> CHR ''+''" using hd_showNat by blast+
  with cr n i False show ?thesis
    using parseUint_showNat [of "nat i" "itoa i"]
    by (simp add: atoi_def itoa_def del: parseUint.simps)
qed

section \<open>Trimming and case\<close>

text \<open>
  \<^verbatim>\<open>strings.TrimSpace\<close> removes the code points of \<^verbatim>\<open>unicode.IsSpace\<close> at both ends; here their UTF-8
  encodings, so that a byte that does not encode a space stops the trimming.
\<close>

definition spaceSeqs :: "string list" where
  "spaceSeqs =
     [[CHR 0x09], [CHR 0x0A], [CHR 0x0B], [CHR 0x0C], [CHR 0x0D], [CHR 0x20],
      [CHR 0xC2, CHR 0x85], [CHR 0xC2, CHR 0xA0], [CHR 0xE1, CHR 0x9A, CHR 0x80],
      [CHR 0xE2, CHR 0x80, CHR 0x80], [CHR 0xE2, CHR 0x80, CHR 0x81], [CHR 0xE2, CHR 0x80, CHR 0x82],
      [CHR 0xE2, CHR 0x80, CHR 0x83], [CHR 0xE2, CHR 0x80, CHR 0x84], [CHR 0xE2, CHR 0x80, CHR 0x85],
      [CHR 0xE2, CHR 0x80, CHR 0x86], [CHR 0xE2, CHR 0x80, CHR 0x87], [CHR 0xE2, CHR 0x80, CHR 0x88],
      [CHR 0xE2, CHR 0x80, CHR 0x89], [CHR 0xE2, CHR 0x80, CHR 0x8A], [CHR 0xE2, CHR 0x80, CHR 0xA8],
      [CHR 0xE2, CHR 0x80, CHR 0xA9], [CHR 0xE2, CHR 0x80, CHR 0xAF], [CHR 0xE2, CHR 0x81, CHR 0x9F],
      [CHR 0xE3, CHR 0x80, CHR 0x80]]"

definition leadingSpace :: "string list \<Rightarrow> string \<Rightarrow> nat" where
  "leadingSpace seqs s = (case find (hasPrefix s) seqs of None \<Rightarrow> 0 | Some p \<Rightarrow> length p)"

function trimSeqs :: "string list \<Rightarrow> string \<Rightarrow> string" where
  "trimSeqs seqs s =
     (if s = [] \<or> leadingSpace seqs s = 0 then s else trimSeqs seqs (drop (leadingSpace seqs s) s))"
  by pat_completeness auto
termination
  by (relation "measure (length \<circ> snd)") auto

declare trimSeqs.simps [simp del]

definition trimSpace :: "string \<Rightarrow> string" where
  "trimSpace s = rev (trimSeqs (map rev spaceSeqs) (rev (trimSeqs spaceSeqs s)))"

definition trimRightChar :: "char \<Rightarrow> string \<Rightarrow> string" where
  "trimRightChar c s = rev (dropWhile (\<lambda>x. x = c) (rev s))"

definition trimChar :: "char \<Rightarrow> string \<Rightarrow> string" where
  "trimChar c s = trimRightChar c (dropWhile (\<lambda>x. x = c) s)"

definition lowerChar :: "char \<Rightarrow> char" where
  "lowerChar c = (let k = (of_char c :: nat) in if 65 \<le> k \<and> k \<le> 90 then char_of (k + 32) else c)"

definition toLower :: "string \<Rightarrow> string" where
  "toLower s = map lowerChar s"

lemma trimSeqs_no_space: "leadingSpace seqs s = 0 \<Longrightarrow> trimSeqs seqs s = s"
  by (simp add: trimSeqs.simps [of seqs s])

text \<open>Text that starts and ends in ASCII characters other than white space is not trimmed.\<close>

definition solidChar :: "char \<Rightarrow> bool" where
  "solidChar c \<longleftrightarrow> (let k = (of_char c :: nat) in 32 < k \<and> k < 128)"

lemma spaceSeqs_not_solid:
  "list_all (\<lambda>p. p \<noteq> [] \<and> \<not> solidChar (hd p)) spaceSeqs"
  "list_all (\<lambda>p. p \<noteq> [] \<and> \<not> solidChar (hd p)) (map rev spaceSeqs)"
  by code_simp+

lemma leadingSpace_zero:
  assumes "list_all (\<lambda>p. p \<noteq> [] \<and> \<not> solidChar (hd p)) seqs" and "solidChar c"
  shows "leadingSpace seqs (c # s) = 0"
proof -
  have "\<not> hasPrefix (c # s) p" if "p \<in> set seqs" for p
    using assms that by (cases p) (auto simp: list_all_iff hasPrefix_def)
  then have "find (hasPrefix (c # s)) seqs = None" by (simp add: find_None_iff)
  then show ?thesis by (simp add: leadingSpace_def)
qed

lemmas leadingSpace_solid = leadingSpace_zero [OF spaceSeqs_not_solid(1)]
lemmas leadingSpace_solid_rev = leadingSpace_zero [OF spaceSeqs_not_solid(2)]

lemma trimSpace_solid:
  assumes "s \<noteq> []" and "solidChar (hd s)" and "solidChar (last s)"
  shows "trimSpace s = s"
proof -
  have "trimSeqs spaceSeqs s = s"
    using assms(1,2) by (cases s) (simp_all add: trimSeqs_no_space leadingSpace_solid)
  moreover have "rev s = last s # rev (butlast s)"
    using assms(1) by (metis append_butlast_last_id rev_eq_Cons_iff rev_rev_ident)
  then have "trimSeqs (map rev spaceSeqs) (rev s) = rev s"
    using assms(3) by (metis trimSeqs_no_space leadingSpace_solid_rev)
  ultimately show ?thesis by (simp add: trimSpace_def)
qed

lemma trimSpace_Nil [simp]: "trimSpace [] = []"
  by (simp add: trimSpace_def trimSeqs.simps)

lemma trimRightChar_no_end: "trimRightChar c s = [] \<or> last (trimRightChar c s) \<noteq> c"
proof (cases "dropWhile (\<lambda>x. x = c) (rev s)")
  case Nil
  then show ?thesis by (simp add: trimRightChar_def)
next
  case (Cons y ys)
  have "\<not> (\<lambda>x. x = c) (hd (dropWhile (\<lambda>x. x = c) (rev s)))"
    by (rule hd_dropWhile) (simp only: Cons list.simps not_False_eq_True)
  with Cons show ?thesis by (simp add: trimRightChar_def)
qed

section \<open>Paths\<close>

text \<open>\<^verbatim>\<open>filepath.Ext\<close>: from the last dot of the last path element on.\<close>

fun extRev :: "string \<Rightarrow> string \<Rightarrow> string" where
  "extRev acc [] = []"
| "extRev acc (c # s) =
     (if c = CHR ''/'' then [] else if c = CHR ''.'' then c # acc else extRev (c # acc) s)"

definition filepathExt :: "string \<Rightarrow> string" where
  "filepathExt p = extRev [] (rev p)"

text \<open>
  \<^verbatim>\<open>filepath.Clean\<close> on a system whose separator is the slash: the elements are pushed on a stack,
  empty and dot elements are dropped, a double dot removes the element before it, is dropped at the
  root and kept at the start of a relative path.
\<close>

fun cleanElems :: "bool \<Rightarrow> string list \<Rightarrow> string list \<Rightarrow> string list" where
  "cleanElems rooted stack [] = rev stack"
| "cleanElems rooted stack (e # es) =
     (if e = '''' \<or> e = ''.'' then cleanElems rooted stack es
      else if e = ''..'' then
        (case stack of
           [] \<Rightarrow> if rooted then cleanElems rooted [] es else cleanElems rooted [''..''] es
         | t # st \<Rightarrow> if t = ''..'' then cleanElems rooted (''..'' # t # st) es
                    else cleanElems rooted st es)
      else cleanElems rooted (e # stack) es)"

definition filepathClean :: "string \<Rightarrow> string" where
  "filepathClean p =
     (let rooted = hasPrefix p ''/'';
          body = joinWith ''/'' (cleanElems rooted [] (splitOn CHR ''/'' p)) in
      if rooted then CHR ''/'' # body else if body = [] then ''.'' else body)"

definition filepathJoin :: "string list \<Rightarrow> string" where
  "filepathJoin es =
     (case dropWhile (\<lambda>e. e = []) es of [] \<Rightarrow> [] | es' \<Rightarrow> filepathClean (joinWith ''/'' es'))"

text \<open>A name that is one path element and that cleaning keeps.\<close>

definition plainName :: "string \<Rightarrow> bool" where
  "plainName e \<longleftrightarrow> e \<noteq> [] \<and> e \<noteq> ''.'' \<and> e \<noteq> ''..'' \<and> CHR ''/'' \<notin> set e"

lemma splitOn_joinWith:
  "es \<noteq> [] \<Longrightarrow> (\<forall>e \<in> set es. c \<notin> set e) \<Longrightarrow> splitOn c (joinWith [c] es) = es"
proof (induction "[c]" es rule: joinWith.induct)
  case (2 x)
  then show ?case by (simp add: splitOn_none)
next
  case (3 x y ys)
  then show ?case by (simp add: splitOn_append)
qed simp

lemma cleanElems_plain:
  "(\<forall>e \<in> set es. plainName e) \<Longrightarrow> cleanElems rooted stack es = rev stack @ es"
  by (induction es arbitrary: stack) (auto simp: plainName_def)

lemma hasPrefix_joinWith:
  "plainName e \<Longrightarrow> \<not> hasPrefix (joinWith sep (e # es)) ''/''"
  by (cases e; cases es) (auto simp: plainName_def hasPrefix_def)

lemma filepathJoin_plain:
  assumes "es \<noteq> []" and "\<forall>e \<in> set es. plainName e"
  shows "filepathJoin es = joinWith ''/'' es"
proof -
  obtain e es' where es: "es = e # es'" using assms(1) by (cases es) auto
  have dw: "dropWhile (\<lambda>e. e = []) es = es" using assms(2) es by (simp add: plainName_def)
  have sp: "splitOn CHR ''/'' (joinWith ''/'' es) = es"
    using assms by (intro splitOn_joinWith) (auto simp: plainName_def)
  have np: "\<not> hasPrefix (joinWith ''/'' es) ''/''"
    using assms(2) by (simp add: es hasPrefix_joinWith)
  have ne: "joinWith ''/'' es \<noteq> []"
    using assms(2) es by (cases es') (auto simp: plainName_def)
  have "filepathJoin es = filepathClean (joinWith ''/'' es)"
    unfolding filepathJoin_def dw using es by (simp split: list.split)
  also have "\<dots> = joinWith ''/'' es"
    using np ne assms(2) by (simp add: filepathClean_def sp cleanElems_plain)
  finally show ?thesis .
qed

end
