(* ===== verification/Core.thy ===== *)
theory Core
  imports GoStrings
begin

text \<open>
  The data of the registry, from \<^verbatim>\<open>internal/core/types.go\<close> and \<^verbatim>\<open>internal/config/config.go\<close>: one record
  per struct, with the struct's fields in its order under a prefix of their own.  A pointer field is
  an option, a slice a list (a nil slice and an empty one are the same list: the code only takes
  their length), \<^verbatim>\<open>int\<close> and \<^verbatim>\<open>int64\<close> are \<open>int\<close>.  The last section holds the dynamic values of the
  \<^verbatim>\<open>map[string]any\<close> documents the services return.
\<close>

section \<open>Accounts, tokens, identities\<close>

record account =
  acc_ID :: string
  acc_Subject :: string
  acc_Username :: string
  acc_DisplayName :: string
  acc_Email :: string
  acc_Validation :: string
  acc_CreatedAt :: time

definition zero_account :: account where
  "zero_account =
     \<lparr>acc_ID = [], acc_Subject = [], acc_Username = [], acc_DisplayName = [], acc_Email = [],
      acc_Validation = [], acc_CreatedAt = 0\<rparr>"

record package_selector =
  sel_ID :: string
  sel_Name :: string
  sel_Type :: string

record store_token =
  tok_SessionID :: string
  tok_TokenHash :: string
  tok_AccountID :: string
  tok_Description :: "string option"
  tok_Packages :: "package_selector list"
  tok_Channels :: "string list"
  tok_Permissions :: "string list"
  tok_ValidSince :: time
  tok_ValidUntil :: time
  tok_RevokedAt :: "time option"
  tok_RevokedBy :: "string option"

record identity =
  idn_Account :: account
  idn_Token :: "store_token option"
  idn_Authenticated :: bool

text \<open>\<^verbatim>\<open>core.Identity{}\<close>, the caller without credentials.\<close>

definition anonymous :: identity where
  "anonymous = \<lparr>idn_Account = zero_account, idn_Token = None, idn_Authenticated = False\<rparr>"

section \<open>Packages and tracks\<close>

record media =
  med_Type :: string
  med_URL :: string

record track =
  trk_Name :: string
  trk_VersionPattern :: "string option"
  trk_AutomaticPhasingPercentage :: "float64 option"
  trk_CreatedAt :: time

record track_guardrail =
  grd_Pattern :: string
  grd_CreatedAt :: time

record publisher =
  pub_ID :: string
  pub_Username :: string
  pub_DisplayName :: string
  pub_Email :: string
  pub_Validation :: string

record package =
  pkg_ID :: string
  pkg_Name :: string
  pkg_Type :: string
  pkg_Private :: bool
  pkg_Status :: string
  pkg_OwnerAccountID :: string
  pkg_Authority :: "string option"
  pkg_Contact :: "string option"
  pkg_DefaultTrack :: "string option"
  pkg_Description :: "string option"
  pkg_Summary :: "string option"
  pkg_Title :: "string option"
  pkg_Website :: "string option"
  pkg_Links :: "(string, string list) gomap"
  pkg_Media :: "media list"
  pkg_TrackGuardrails :: "track_guardrail list"
  pkg_Tracks :: "track list"
  pkg_Publisher :: publisher
  pkg_Store :: string
  pkg_CreatedAt :: time
  pkg_UpdatedAt :: time

section \<open>Revisions, resources, releases, uploads\<close>

record base =
  base_Architecture :: string
  base_Architectures :: "string list"
  base_Channel :: string
  base_Name :: string

record relation =
  rlt_Interface :: string

record download =
  dl_URL :: string
  dl_Size :: int
  dl_HashSHA256 :: string
  dl_HashSHA384 :: string
  dl_HashSHA512 :: string
  dl_HashSHA3384 :: string

definition zero_download :: download where
  "zero_download =
     \<lparr>dl_URL = [], dl_Size = 0, dl_HashSHA256 = [], dl_HashSHA384 = [], dl_HashSHA512 = [],
      dl_HashSHA3384 = []\<rparr>"

record resource_revision =
  rr_ID :: string
  rr_ResourceID :: string
  rr_Name :: string
  rr_Type :: string
  rr_Description :: string
  rr_Filename :: string
  rr_Revision :: int
  rr_CreatedAt :: time
  rr_Size :: int
  rr_SHA256 :: string
  rr_SHA384 :: string
  rr_SHA512 :: string
  rr_SHA3384 :: string
  rr_ObjectKey :: string
  rr_Bases :: "base list"
  rr_Architectures :: "string list"
  rr_OCIImageDigest :: string
  rr_OCIImageBlob :: bytes
  rr_Download :: download

record revision =
  rev_ID :: string
  rev_PackageID :: string
  rev_Revision :: int
  rev_Version :: string
  rev_Status :: string
  rev_CreatedAt :: time
  rev_CreatedBy :: string
  rev_Size :: int
  rev_SHA256 :: string
  rev_SHA384 :: string
  rev_ObjectKey :: string
  rev_MetadataYAML :: string
  rev_ConfigYAML :: string
  rev_ActionsYAML :: string
  rev_BundleYAML :: string
  rev_ReadmeMD :: string
  rev_Bases :: "base list"
  rev_Attributes :: "(string, string) gomap"
  rev_Relations :: "(string, (string, relation) gomap) gomap"
  rev_Subordinate :: bool
  rev_Resources :: "resource_revision list"

record resource_definition =
  rd_ID :: string
  rd_PackageID :: string
  rd_Name :: string
  rd_Type :: string
  rd_Description :: string
  rd_Filename :: string
  rd_Optional :: bool
  rd_CreatedAt :: time

record release_ref =
  ref_Name :: string
  ref_Revision :: "int option"

record release =
  rel_ID :: string
  rel_PackageID :: string
  rel_Channel :: string
  rel_Revision :: int
  rel_Base :: "base option"
  rel_Resources :: "release_ref list"
  rel_When :: time
  rel_ExpirationDate :: "time option"
  rel_Progressive :: "float64 option"

record api_error =
  err_Code :: string
  err_Message :: string

record upload =
  upl_ID :: string
  upl_Filename :: string
  upl_ObjectKey :: string
  upl_Size :: int
  upl_SHA256 :: string
  upl_SHA384 :: string
  upl_Status :: string
  upl_Kind :: string
  upl_CreatedAt :: time
  upl_ApprovedAt :: "time option"
  upl_Revision :: "int option"
  upl_Errors :: "api_error list"

section \<open>Charm archives\<close>

text \<open>
  What the YAML decoder yields for a field of type \<^verbatim>\<open>any\<close>; \<open>YStrs\<close> is a \<^verbatim>\<open>[]string\<close>, which the decoder
  never produces but the code accepts.
\<close>

datatype yaml =
    YNull
  | YBool bool
  | YNum string
  | YStr string
  | YSeq "yaml list"
  | YMap "(string \<times> yaml) list"
  | YStrs "string list"

record charm_base =
  cb_Name :: string
  cb_Channel :: string
  cb_Architecture :: string
  cb_Architectures :: "string list"

record resource_declaration =
  crd_Type :: string
  crd_Description :: string
  crd_Filename :: string
  crd_UpstreamSource :: string

record charm_container =
  cc_Resource :: string

record charm_manifest =
  man_Name :: string
  man_DisplayName :: string
  man_Summary :: string
  man_Description :: string
  man_Docs :: string
  man_Issues :: string
  man_Source :: string
  man_Website :: yaml
  man_Subordinate :: bool
  man_Bases :: "charm_base list"
  man_Resources :: "(string, resource_declaration) gomap"
  man_Containers :: "(string, charm_container) gomap"
  man_Provides :: "(string, relation) gomap"
  man_Requires :: "(string, relation) gomap"
  man_Peers :: "(string, relation) gomap"
  man_Assumes :: yaml

record charm_archive =
  arc_MetadataYAML :: string
  arc_ManifestYAML :: string
  arc_ConfigYAML :: string
  arc_ActionsYAML :: string
  arc_BundleYAML :: string
  arc_ReadmeMD :: string
  arc_Manifest :: charm_manifest

section \<open>Configuration\<close>

text \<open>The struct \<^verbatim>\<open>config.Config\<close>; a duration is its number of nanoseconds.\<close>

record config =
  cfg_ListenAddress :: string
  cfg_PublicAPIURL :: string
  cfg_PublicStorageURL :: string
  cfg_PublicRegistryURL :: string
  cfg_DatabaseURL :: string
  cfg_S3Bucket :: string
  cfg_S3Region :: string
  cfg_S3Endpoint :: string
  cfg_S3AccessKeyID :: string
  cfg_S3SecretAccessKey :: string
  cfg_S3UsePathStyle :: bool
  cfg_S3DisableTLS :: bool
  cfg_OIDCIssuerURL :: string
  cfg_OIDCClientID :: string
  cfg_OIDCUsernameClaim :: string
  cfg_OIDCDisplayNameClaim :: string
  cfg_OIDCEmailClaim :: string
  cfg_EnableInsecureDevAuth :: bool
  cfg_RegistryUsername :: string
  cfg_RegistryPassword :: string
  cfg_RegistryRepositoryRoot :: string
  cfg_ServerReadHeaderTimeout :: int
  cfg_ServerReadTimeout :: int
  cfg_ServerWriteTimeout :: int
  cfg_ServerIdleTimeout :: int
  cfg_ServerShutdownTimeout :: int
  cfg_ServerMaxHeaderBytes :: int
  cfg_MaxJSONBodyBytes :: int
  cfg_MaxUploadBytes :: int

section \<open>Response documents\<close>

text \<open>The dynamic types that occur in the \<^verbatim>\<open>map[string]any\<close> values built by the services and the
  HTTP handlers.\<close>

datatype any =
    VNil
  | VBool bool
  | VInt int
  | VIntPtr "int option"
  | VStr string
  | VStrPtr "string option"
  | VTime time
  | VTimePtr "time option"
  | VBase "base option"
  | VBases "base list"
  | VStrings "string list"
  | VAttributes "(string, string) gomap"
  | VRelations "(string, (string, relation) gomap) gomap"
  | VLinks "(string, string list) gomap"
  | VMedia "media list"
  | VPublisher publisher
  | VRefs "release_ref list"
  | VErrors "api_error list"
  | VAPIError api_error
  | VSelectors "package_selector list"
  | VTokens "store_token list"
  | VTracks "track list"
  | VGuardrails "track_guardrail list"
  | VReleases "release list"
  | VDownload download
  | VMap "(string \<times> any) list"
  | VList "any list"

type_synonym document = "(string \<times> any) list"

text \<open>\<^verbatim>\<open>m[k]\<close> of a document.\<close>

definition doc_at :: "document \<Rightarrow> string \<Rightarrow> any option" where
  "doc_at d k = map_of d k"

lemma doc_at_simps [simp]:
  "doc_at [] k = None"
  "doc_at ((k', v) # d) k = (if k = k' then Some v else doc_at d k)"
  by (auto simp: doc_at_def)

end
