(* ===== verification/Repository.thy ===== *)
theory Repository
  imports Core
begin

text \<open>
  The interface \<^verbatim>\<open>repo.Repository\<close> (\<^verbatim>\<open>internal/repo/interface.go\<close>) as a record of its methods over
  the type \<open>'s\<close> of a store's state, in the interface's order.  A query takes the state and returns a
  value or an error; a command also returns the state it leaves behind, on the error path too.
  Beside the Go arguments a method takes what an implementation reads from outside: a reading of
  the clock where it stamps the time, and the iteration order where it ranges over a collection
  whose order is not specified.  The record stands for a Go interface value: the services call
  the store only through it.
\<close>

record 's repository =
  EnsureAccount :: "time \<Rightarrow> account \<Rightarrow> 's \<Rightarrow> account res \<times> 's"
  GetAccountByID :: "string \<Rightarrow> 's \<Rightarrow> account res"
  CreateStoreToken :: "store_token \<Rightarrow> 's \<Rightarrow> unit res \<times> 's"
  ListStoreTokens :: "(nat \<Rightarrow> time) \<Rightarrow> shuffle \<Rightarrow> string \<Rightarrow> bool \<Rightarrow> 's \<Rightarrow> store_token list res"
  RevokeStoreToken :: "time \<Rightarrow> shuffle \<Rightarrow> string \<Rightarrow> string \<Rightarrow> string \<Rightarrow> 's \<Rightarrow> unit res \<times> 's"
  FindStoreTokenByHash :: "string \<Rightarrow> 's \<Rightarrow> (store_token \<times> account) res"
  CreatePackage :: "package \<Rightarrow> 's \<Rightarrow> unit res \<times> 's"
  UpdatePackage :: "package \<Rightarrow> 's \<Rightarrow> unit res \<times> 's"
  DeletePackage :: "string \<Rightarrow> 's \<Rightarrow> unit res \<times> 's"
  GetPackageByName :: "string \<Rightarrow> 's \<Rightarrow> package res"
  GetPackageByID :: "string \<Rightarrow> 's \<Rightarrow> package res"
  ListPackagesForAccount :: "shuffle \<Rightarrow> string \<Rightarrow> bool \<Rightarrow> 's \<Rightarrow> package list res"
  SearchPackages :: "shuffle \<Rightarrow> string \<Rightarrow> 's \<Rightarrow> package list res"
  CanViewPackage :: "string \<Rightarrow> string \<Rightarrow> 's \<Rightarrow> bool res"
  CanManagePackage :: "string \<Rightarrow> string \<Rightarrow> 's \<Rightarrow> bool res"
  CreateTracks :: "string \<Rightarrow> track list \<Rightarrow> 's \<Rightarrow> nat res \<times> 's"
  ListTracks :: "shuffle \<Rightarrow> string \<Rightarrow> 's \<Rightarrow> track list res"
  CreateUpload :: "upload \<Rightarrow> 's \<Rightarrow> unit res \<times> 's"
  GetUpload :: "string \<Rightarrow> 's \<Rightarrow> upload res"
  ApproveUpload :: "time \<Rightarrow> string \<Rightarrow> int option \<Rightarrow> api_error list \<Rightarrow> 's \<Rightarrow> unit res \<times> 's"
  CreateRevision :: "revision \<Rightarrow> 's \<Rightarrow> unit res \<times> 's"
  ListRevisions :: "string \<Rightarrow> int option \<Rightarrow> 's \<Rightarrow> revision list res"
  GetRevisionByNumber :: "string \<Rightarrow> int \<Rightarrow> 's \<Rightarrow> revision res"
  GetLatestRevision :: "string \<Rightarrow> 's \<Rightarrow> revision res"
  UpsertResourceDefinition :: "resource_definition \<Rightarrow> 's \<Rightarrow> resource_definition res \<times> 's"
  GetResourceDefinition :: "string \<Rightarrow> string \<Rightarrow> 's \<Rightarrow> resource_definition res"
  ListResourceDefinitions :: "shuffle \<Rightarrow> string \<Rightarrow> 's \<Rightarrow> resource_definition list res"
  CreateResourceRevision :: "resource_revision \<Rightarrow> 's \<Rightarrow> unit res \<times> 's"
  UpdateResourceRevision :: "resource_revision \<Rightarrow> 's \<Rightarrow> unit res \<times> 's"
  ListResourceRevisions :: "string \<Rightarrow> 's \<Rightarrow> resource_revision list res"
  GetResourceRevision :: "string \<Rightarrow> int \<Rightarrow> 's \<Rightarrow> resource_revision res"
  ReplaceRelease :: "string \<Rightarrow> release \<Rightarrow> 's \<Rightarrow> unit res \<times> 's"
  ListReleases :: "shuffle \<Rightarrow> string \<Rightarrow> 's \<Rightarrow> release list res"
  ResolveRelease :: "string \<Rightarrow> string \<Rightarrow> 's \<Rightarrow> release res"
  ResolveDefaultRelease :: "shuffle \<Rightarrow> string \<Rightarrow> 's \<Rightarrow> release res"

end
