(* ===== verification/Contract.thy ===== *)
theory Contract
  imports Repository
begin

text \<open>
  What the services rely on when they call the repository through its interface, stated over the
  interface record: one locale per group of methods, each with the invariant \<open>inv\<close> under which the
  store keeps its promise.  The laws are observational, they relate what a query returns after a
  command to what it returned before.  The services' lemmas are proved once inside these locales;
  the stores discharge the laws.
\<close>

section \<open>Accounts\<close>

locale account_store =
  fixes R :: "'s repository" and inv :: "'s \<Rightarrow> bool"
  assumes ensure_get:
      "inv s \<Longrightarrow> EnsureAccount R t a s = (Inr a', s') \<Longrightarrow> GetAccountByID R (acc_ID a') s' = Inr a'"
    and ensure_fields:
      "inv s \<Longrightarrow> EnsureAccount R t a s = (Inr a', s') \<Longrightarrow>
         acc_Subject a' = acc_Subject a \<and> acc_Username a' = acc_Username a
         \<and> acc_DisplayName a' = acc_DisplayName a \<and> acc_Email a' = acc_Email a"

section \<open>Store tokens\<close>

text \<open>
  \<open>fresh\<close> says when a token may be added: its hash and its session are not in use.  A token that was
  created is found under its hash, with its account, the way the store keeps it: \<open>kept\<close>, which may
  lower the resolution of its times.  Revoking a session marks its token and leaves every other one alone.
\<close>

locale token_store = account_store +
  fixes fresh :: "store_token \<Rightarrow> 's \<Rightarrow> bool" and kept :: "store_token \<Rightarrow> store_token"
  assumes kept_unrevoked:
      "tok_RevokedAt (kept tok) = None \<longleftrightarrow> tok_RevokedAt tok = None"
    and find_created:
      "inv s \<Longrightarrow> fresh tok s \<Longrightarrow> CreateStoreToken R tok s = (Inr u, s') \<Longrightarrow>
         GetAccountByID R (tok_AccountID tok) s = Inr a \<Longrightarrow>
         FindStoreTokenByHash R (tok_TokenHash tok) s' = Inr (kept tok, a)"
    and create_keeps_inv:
      "inv s \<Longrightarrow> fresh tok s \<Longrightarrow> CreateStoreToken R tok s = (Inr u, s') \<Longrightarrow> inv s'"
    and find_revoked:
      "inv s \<Longrightarrow> FindStoreTokenByHash R h s = Inr (tok, a) \<Longrightarrow>
         RevokeStoreToken R t sh (tok_AccountID tok) (tok_SessionID tok) by s = (Inr u, s') \<Longrightarrow>
         \<exists>tok'. FindStoreTokenByHash R h s' = Inr (tok', a) \<and> tok_RevokedAt tok' \<noteq> None"
    and find_unrevoked:
      "inv s \<Longrightarrow> FindStoreTokenByHash R h s = Inr (tok, a) \<Longrightarrow>
         RevokeStoreToken R t sh aid sid by s = (r, s') \<Longrightarrow>
         tok_AccountID tok \<noteq> aid \<or> tok_SessionID tok \<noteq> sid \<Longrightarrow>
         FindStoreTokenByHash R h s' = Inr (tok, a)"

section \<open>Packages and access\<close>

text \<open>
  A package is found under its name and under its identifier, and it is the same package; whoever may
  manage a package may view it; anyone may view a public one.
\<close>

locale package_store =
  fixes R :: "'s repository" and inv :: "'s \<Rightarrow> bool"
  assumes byName_byID:
      "inv s \<Longrightarrow> GetPackageByName R n s = Inr p \<Longrightarrow>
         pkg_Name p = n \<and> GetPackageByID R (pkg_ID p) s = Inr p"
    and byID_byName:
      "inv s \<Longrightarrow> GetPackageByID R i s = Inr p \<Longrightarrow>
         pkg_ID p = i \<and> GetPackageByName R (pkg_Name p) s = Inr p"
    and manage_view:
      "inv s \<Longrightarrow> CanManagePackage R i a s = Inr True \<Longrightarrow> CanViewPackage R i a s = Inr True"
    and owner_manages:
      "inv s \<Longrightarrow> a \<noteq> [] \<Longrightarrow> GetPackageByID R i s = Inr p \<Longrightarrow> pkg_OwnerAccountID p = a \<Longrightarrow>
         CanManagePackage R i a s = Inr True"
    and view_public:
      "inv s \<Longrightarrow> GetPackageByID R i s = Inr p \<Longrightarrow> \<not> pkg_Private p \<Longrightarrow> CanViewPackage R i a s = Inr True"
    and create_conflict:
      "inv s \<Longrightarrow> GetPackageByName R (pkg_Name p) s = Inr q \<Longrightarrow>
         \<exists>w. CreatePackage R p s = (Inl (ErrConflict w), s)"

section \<open>Revisions and releases\<close>

text \<open>
  Revisions of a package are only ever added: a new one, numbered after the latest, is found under
  its number, the ones before it are found as they were, and no other command touches them.  A release
  replaces the one of its channel and leaves the other channels alone.
\<close>

text \<open>What a store must keep of a revision and of a release: everything but the time stamps, whose resolution is
the store's, the transient list of resources, and the identifier of a release that replaces another.\<close>

definition sameRevision :: "revision \<Rightarrow> revision \<Rightarrow> bool" where
  "sameRevision rv rv' \<longleftrightarrow>
     rv\<lparr>rev_CreatedAt := 0, rev_Resources := []\<rparr> = rv'\<lparr>rev_CreatedAt := 0, rev_Resources := []\<rparr>"

definition sameRelease :: "release \<Rightarrow> release \<Rightarrow> bool" where
  "sameRelease rl rl' \<longleftrightarrow>
     rel_Channel rl = rel_Channel rl' \<and> rel_Revision rl = rel_Revision rl' \<and> rel_Base rl = rel_Base rl'
     \<and> rel_Resources rl = rel_Resources rl' \<and> rel_Progressive rl = rel_Progressive rl'"

lemma same_refl [simp]: "sameRevision rv rv" "sameRelease rl rl"
  by (simp_all add: sameRevision_def sameRelease_def)

locale revision_store =
  fixes R :: "'s repository" and inv :: "'s \<Rightarrow> bool"
  assumes latest_none:
      "inv s \<Longrightarrow> GetLatestRevision R pid s = Inl ErrNotFound \<Longrightarrow> \<exists>e. GetRevisionByNumber R pid n s = Inl e"
    and latest_max:
      "inv s \<Longrightarrow> GetLatestRevision R pid s = Inr l \<Longrightarrow> GetRevisionByNumber R pid n s = Inr r \<Longrightarrow>
         n \<le> rev_Revision l"
    and created_found:
      "inv s \<Longrightarrow> GetRevisionByNumber R (rev_PackageID rv) (rev_Revision rv) s = Inl e \<Longrightarrow>
         CreateRevision R rv s = (Inr u, s') \<Longrightarrow>
         \<exists>rv'. GetRevisionByNumber R (rev_PackageID rv) (rev_Revision rv) s' = Inr rv' \<and> sameRevision rv rv'"
    and old_found:
      "inv s \<Longrightarrow> GetRevisionByNumber R pid n s = Inr r \<Longrightarrow> CreateRevision R rv s = (Inr u, s') \<Longrightarrow>
         GetRevisionByNumber R pid n s' = Inr r"
    and approve_revisions:
      "ApproveUpload R t i m errs s = (q, s') \<Longrightarrow> GetRevisionByNumber R pid n s' = GetRevisionByNumber R pid n s"
    and upsert_revisions:
      "UpsertResourceDefinition R d s = (p, s') \<Longrightarrow> GetRevisionByNumber R pid n s' = GetRevisionByNumber R pid n s"
    and update_revisions:
      "UpdatePackage R pkg s = (q, s') \<Longrightarrow> GetRevisionByNumber R pid n s' = GetRevisionByNumber R pid n s"

locale release_store = revision_store +
  assumes resolve_replaced:
      "inv s \<Longrightarrow> ReplaceRelease R pid rl s = (Inr u, s') \<Longrightarrow>
         \<exists>rl'. ResolveRelease R pid (rel_Channel rl) s' = Inr rl' \<and> sameRelease rl rl'"
    and resolve_other:
      "inv s \<Longrightarrow> ReplaceRelease R pid rl s = (Inr u, s') \<Longrightarrow> pid' \<noteq> pid \<or> ch \<noteq> rel_Channel rl \<Longrightarrow>
         ResolveRelease R pid' ch s' = ResolveRelease R pid' ch s"
    and replace_revisions:
      "inv s \<Longrightarrow> ReplaceRelease R pid rl s = (r, s') \<Longrightarrow>
         GetRevisionByNumber R pid' n s' = GetRevisionByNumber R pid' n s"
    and replace_keeps_inv:
      "inv s \<Longrightarrow> GetRevisionByNumber R pid (rel_Revision rl) s = Inr rv \<Longrightarrow>
         ReplaceRelease R pid rl s = (Inr u, s') \<Longrightarrow> inv s'"
    and update_releases:
      "UpdatePackage R pkg s = (q, s') \<Longrightarrow> ResolveRelease R pid ch s' = ResolveRelease R pid ch s"

end
