(* ===== verification/Memory.thy ===== *)
theory Memory
  imports Repository
begin

text \<open>
  The in-memory repository, \<^verbatim>\<open>internal/repo/memory.go\<close>: its ten maps as the record \<open>memory\<close>, one
  definition per method in the order of the file, and \<open>memory_repo\<close>, the interface value that
  \<^verbatim>\<open>NewMemory\<close> hands to the services.  Every method runs under the store's lock, so a method is one
  atomic step on the state.
\<close>

section \<open>State\<close>

record memory =
  accounts :: "(string, account) gomap"
  accountsByID :: "(string, account) gomap"
  tokens :: "(string, store_token) gomap"
  packages :: "(string, package) gomap"
  packagesByID :: "(string, package) gomap"
  uploads :: "(string, upload) gomap"
  revisions :: "(string, revision list) gomap"
  resourceDefs :: "(string, (string, resource_definition) gomap) gomap"
  resourceRevisions :: "(string, resource_revision list) gomap"
  releases :: "(string, (string, release) gomap) gomap"

definition NewMemory :: memory where
  "NewMemory =
     \<lparr>accounts = [], accountsByID = [], tokens = [], packages = [], packagesByID = [], uploads = [],
      revisions = [], resourceDefs = [], resourceRevisions = [], releases = []\<rparr>"

text \<open>\<^verbatim>\<open>v, ok := m[k]; if !ok { return ErrNotFound }\<close>\<close>

definition found :: "'a option \<Rightarrow> 'a res" where
  "found x = (case x of None \<Rightarrow> Inl ErrNotFound | Some v \<Rightarrow> Inr v)"

lemma found_simps [simp]: "found None = Inl ErrNotFound" "found (Some v) = Inr v"
  by (simp_all add: found_def)

lemma found_iff [res_iff]:
  "found x = Inr v \<longleftrightarrow> x = Some v"
  "found x = Inl e \<longleftrightarrow> x = None \<and> e = ErrNotFound"
  by (cases x; auto)+

section \<open>Accounts and tokens\<close>

definition Memory_EnsureAccount :: "time \<Rightarrow> account \<Rightarrow> memory \<Rightarrow> account res \<times> memory" where
  "Memory_EnsureAccount t account m =
     (case map_of (accounts m) (acc_Subject account) of
        Some existing \<Rightarrow>
          (let existing' = existing\<lparr>acc_Email := acc_Email account,
                                    acc_DisplayName := acc_DisplayName account,
                                    acc_Username := acc_Username account\<rparr> in
           (Inr existing',
            m\<lparr>accounts := AList.update (acc_Subject account) existing' (accounts m),
              accountsByID := AList.update (acc_ID existing') existing' (accountsByID m)\<rparr>))
      | None \<Rightarrow>
          (let account' = account\<lparr>acc_CreatedAt := t\<rparr> in
           (Inr account',
            m\<lparr>accounts := AList.update (acc_Subject account') account' (accounts m),
              accountsByID := AList.update (acc_ID account') account' (accountsByID m)\<rparr>)))"

definition Memory_GetAccountByID :: "string \<Rightarrow> memory \<Rightarrow> account res" where
  "Memory_GetAccountByID accountID m = found (map_of (accountsByID m) accountID)"

definition Memory_CreateStoreToken :: "store_token \<Rightarrow> memory \<Rightarrow> unit res \<times> memory" where
  "Memory_CreateStoreToken token m =
     (Inr (), m\<lparr>tokens := AList.update (tok_TokenHash token) token (tokens m)\<rparr>)"

text \<open>
  The loop of \<^verbatim>\<open>ListStoreTokens\<close>: the clock is read anew for each token whose expiry is tested, at
  the position of the token in the iteration.
\<close>

fun keepActive :: "(nat \<Rightarrow> time) \<Rightarrow> nat \<Rightarrow> string \<Rightarrow> bool \<Rightarrow> store_token list \<Rightarrow> store_token list" where
  "keepActive clk i accountID includeInactive [] = []"
| "keepActive clk i accountID includeInactive (token # ts) =
     (if tok_AccountID token \<noteq> accountID then keepActive clk (Suc i) accountID includeInactive ts
      else if \<not> includeInactive \<and> (tok_RevokedAt token \<noteq> None \<or> tok_ValidUntil token < clk i)
      then keepActive clk (Suc i) accountID includeInactive ts
      else token # keepActive clk (Suc i) accountID includeInactive ts)"

definition Memory_ListStoreTokens ::
    "(nat \<Rightarrow> time) \<Rightarrow> shuffle \<Rightarrow> string \<Rightarrow> bool \<Rightarrow> memory \<Rightarrow> store_token list res" where
  "Memory_ListStoreTokens clk sh accountID includeInactive m =
     Inr (sort_key tok_ValidSince
       (keepActive clk 0 accountID includeInactive (go_range sh (map snd (tokens m)))))"

definition Memory_RevokeStoreToken ::
    "time \<Rightarrow> shuffle \<Rightarrow> string \<Rightarrow> string \<Rightarrow> string \<Rightarrow> memory \<Rightarrow> unit res \<times> memory" where
  "Memory_RevokeStoreToken t sh accountID sessionID revokedBy m =
     (case find (\<lambda>(hash, token). tok_AccountID token = accountID \<and> tok_SessionID token = sessionID)
                (go_range sh (tokens m)) of
        Some (hash, token) \<Rightarrow>
          (Inr (), m\<lparr>tokens := AList.update hash
             (token\<lparr>tok_RevokedAt := Some t, tok_RevokedBy := Some revokedBy\<rparr>) (tokens m)\<rparr>)
      | None \<Rightarrow> (Inl ErrNotFound, m))"

definition Memory_FindStoreTokenByHash :: "string \<Rightarrow> memory \<Rightarrow> (store_token \<times> account) res" where
  "Memory_FindStoreTokenByHash hash m =
     res_bind (found (map_of (tokens m) hash)) (\<lambda>token.
     res_bind (found (map_of (accountsByID m) (tok_AccountID token))) (\<lambda>account.
     Inr (token, account)))"

section \<open>Packages and tracks\<close>

definition Memory_CreatePackage :: "package \<Rightarrow> memory \<Rightarrow> unit res \<times> memory" where
  "Memory_CreatePackage pkg m =
     (case map_of (packages m) (pkg_Name pkg) of
        Some _ \<Rightarrow> (Inl (ErrConflict ''package already exists: conflict''), m)
      | None \<Rightarrow>
          (Inr (), m\<lparr>packages := AList.update (pkg_Name pkg) pkg (packages m),
                     packagesByID := AList.update (pkg_ID pkg) pkg (packagesByID m)\<rparr>))"

definition Memory_UpdatePackage :: "package \<Rightarrow> memory \<Rightarrow> unit res \<times> memory" where
  "Memory_UpdatePackage pkg m =
     (case map_of (packages m) (pkg_Name pkg) of
        None \<Rightarrow> (Inl ErrNotFound, m)
      | Some _ \<Rightarrow>
          (Inr (), m\<lparr>packages := AList.update (pkg_Name pkg) pkg (packages m),
                     packagesByID := AList.update (pkg_ID pkg) pkg (packagesByID m)\<rparr>))"

definition Memory_DeletePackage :: "string \<Rightarrow> memory \<Rightarrow> unit res \<times> memory" where
  "Memory_DeletePackage packageID m =
     (case map_of (packagesByID m) packageID of
        None \<Rightarrow> (Inl ErrNotFound, m)
      | Some pkg \<Rightarrow>
          (Inr (), m\<lparr>packagesByID := AList.delete packageID (packagesByID m),
                     packages := AList.delete (pkg_Name pkg) (packages m)\<rparr>))"

definition Memory_GetPackageByName :: "string \<Rightarrow> memory \<Rightarrow> package res" where
  "Memory_GetPackageByName name m = found (map_of (packages m) name)"

definition Memory_GetPackageByID :: "string \<Rightarrow> memory \<Rightarrow> package res" where
  "Memory_GetPackageByID packageID m = found (map_of (packagesByID m) packageID)"

definition Memory_ListPackagesForAccount :: "shuffle \<Rightarrow> string \<Rightarrow> bool \<Rightarrow> memory \<Rightarrow> package list res" where
  "Memory_ListPackagesForAccount sh accountID includeCollaborations m =
     Inr (filter (\<lambda>pkg. pkg_OwnerAccountID pkg = accountID) (go_range sh (map snd (packages m))))"

definition Memory_SearchPackages :: "shuffle \<Rightarrow> string \<Rightarrow> memory \<Rightarrow> package list res" where
  "Memory_SearchPackages sh query m =
     (let needle = toLower (trimSpace query) in
      Inr (filter (\<lambda>pkg. needle = [] \<or> containsStr (toLower (pkg_Name pkg)) needle)
                  (go_range sh (map snd (packages m)))))"

definition Memory_CanViewPackage :: "string \<Rightarrow> string \<Rightarrow> memory \<Rightarrow> bool res" where
  "Memory_CanViewPackage packageID accountID m =
     res_bind (found (map_of (packagesByID m) packageID)) (\<lambda>pkg.
     Inr (\<not> pkg_Private pkg \<or> pkg_OwnerAccountID pkg = accountID))"

definition Memory_CanManagePackage :: "string \<Rightarrow> string \<Rightarrow> memory \<Rightarrow> bool res" where
  "Memory_CanManagePackage packageID accountID m =
     res_bind (found (map_of (packagesByID m) packageID)) (\<lambda>pkg.
     Inr (pkg_OwnerAccountID pkg = accountID))"

text \<open>The loop of \<^verbatim>\<open>CreateTracks\<close>: the tracks of the package so far, and how many were added.\<close>

fun addTracks :: "track list \<Rightarrow> nat \<Rightarrow> track list \<Rightarrow> track list \<times> nat" where
  "addTracks existing created [] = (existing, created)"
| "addTracks existing created (track # ts) =
     (if \<exists>e \<in> set existing. trk_Name e = trk_Name track
      then addTracks existing created ts
      else addTracks (existing @ [track]) (Suc created) ts)"

definition Memory_CreateTracks :: "string \<Rightarrow> track list \<Rightarrow> memory \<Rightarrow> nat res \<times> memory" where
  "Memory_CreateTracks packageID ts m =
     (case map_of (packagesByID m) packageID of
        None \<Rightarrow> (Inl ErrNotFound, m)
      | Some pkg \<Rightarrow>
          (let (all, created) = addTracks (pkg_Tracks pkg) 0 ts;
               pkg' = pkg\<lparr>pkg_Tracks := all\<rparr> in
           (Inr created,
            m\<lparr>packagesByID := AList.update packageID pkg' (packagesByID m),
              packages := AList.update (pkg_Name pkg') pkg' (packages m)\<rparr>)))"

definition Memory_ListTracks :: "shuffle \<Rightarrow> string \<Rightarrow> memory \<Rightarrow> track list res" where
  "Memory_ListTracks sh packageID m =
     res_bind (found (map_of (packagesByID m) packageID)) (\<lambda>pkg. Inr (pkg_Tracks pkg))"

section \<open>Uploads and revisions\<close>

definition Memory_CreateUpload :: "upload \<Rightarrow> memory \<Rightarrow> unit res \<times> memory" where
  "Memory_CreateUpload upload m =
     (Inr (), m\<lparr>uploads := AList.update (upl_ID upload) upload (uploads m)\<rparr>)"

definition Memory_GetUpload :: "string \<Rightarrow> memory \<Rightarrow> upload res" where
  "Memory_GetUpload uploadID m = found (map_of (uploads m) uploadID)"

definition Memory_ApproveUpload ::
    "time \<Rightarrow> string \<Rightarrow> int option \<Rightarrow> api_error list \<Rightarrow> memory \<Rightarrow> unit res \<times> memory" where
  "Memory_ApproveUpload t uploadID revision errors m =
     (case map_of (uploads m) uploadID of
        None \<Rightarrow> (Inl ErrNotFound, m)
      | Some upload \<Rightarrow>
          (let upload' = upload\<lparr>upl_ApprovedAt := Some t, upl_Errors := errors,
                 upl_Status := (if errors = [] then ''approved'' else ''rejected''),
                 upl_Revision := revision\<rparr> in
           (Inr (), m\<lparr>uploads := AList.update uploadID upload' (uploads m)\<rparr>)))"

definition Memory_CreateRevision :: "revision \<Rightarrow> memory \<Rightarrow> unit res \<times> memory" where
  "Memory_CreateRevision rv m =
     (Inr (), m\<lparr>revisions := AList.update (rev_PackageID rv)
                  (at_key (revisions m) (rev_PackageID rv) @ [rv]) (revisions m)\<rparr>)"

definition Memory_ListRevisions :: "string \<Rightarrow> int option \<Rightarrow> memory \<Rightarrow> revision list res" where
  "Memory_ListRevisions packageID revision m =
     (let all = at_key (revisions m) packageID in
      case revision of
        None \<Rightarrow> Inr all
      | Some n \<Rightarrow> (case find (\<lambda>item. rev_Revision item = n) all of
                     Some item \<Rightarrow> Inr [item]
                   | None \<Rightarrow> Inl ErrNotFound))"

definition Memory_GetRevisionByNumber :: "string \<Rightarrow> int \<Rightarrow> memory \<Rightarrow> revision res" where
  "Memory_GetRevisionByNumber packageID n m =
     found (find (\<lambda>item. rev_Revision item = n) (at_key (revisions m) packageID))"

definition Memory_GetLatestRevision :: "string \<Rightarrow> memory \<Rightarrow> revision res" where
  "Memory_GetLatestRevision packageID m =
     (let items = at_key (revisions m) packageID in
      if items = [] then Inl ErrNotFound else Inr (last items))"

section \<open>Resources\<close>

definition Memory_UpsertResourceDefinition ::
    "resource_definition \<Rightarrow> memory \<Rightarrow> resource_definition res \<times> memory" where
  "Memory_UpsertResourceDefinition resource m =
     (Inr resource,
      m\<lparr>resourceDefs := AList.update (rd_PackageID resource)
          (AList.update (rd_Name resource) resource (at_key (resourceDefs m) (rd_PackageID resource)))
          (resourceDefs m)\<rparr>)"

definition Memory_GetResourceDefinition ::
    "string \<Rightarrow> string \<Rightarrow> memory \<Rightarrow> resource_definition res" where
  "Memory_GetResourceDefinition packageID resourceName m =
     found (map_of (at_key (resourceDefs m) packageID) resourceName)"

definition Memory_ListResourceDefinitions ::
    "shuffle \<Rightarrow> string \<Rightarrow> memory \<Rightarrow> resource_definition list res" where
  "Memory_ListResourceDefinitions sh packageID m =
     Inr (go_range sh (map snd (at_key (resourceDefs m) packageID)))"

definition Memory_CreateResourceRevision :: "resource_revision \<Rightarrow> memory \<Rightarrow> unit res \<times> memory" where
  "Memory_CreateResourceRevision rv m =
     (Inr (), m\<lparr>resourceRevisions := AList.update (rr_ResourceID rv)
                  (at_key (resourceRevisions m) (rr_ResourceID rv) @ [rv]) (resourceRevisions m)\<rparr>)"

text \<open>Replaces the first entry with the revision's number; \<open>None\<close> when there is none.\<close>

fun replaceRevision :: "resource_revision \<Rightarrow> resource_revision list \<Rightarrow> resource_revision list option" where
  "replaceRevision rv [] = None"
| "replaceRevision rv (item # items) =
     (if rr_Revision item = rr_Revision rv then Some (rv # items)
      else map_option (\<lambda>r. item # r) (replaceRevision rv items))"

definition Memory_UpdateResourceRevision :: "resource_revision \<Rightarrow> memory \<Rightarrow> unit res \<times> memory" where
  "Memory_UpdateResourceRevision rv m =
     (case replaceRevision rv (at_key (resourceRevisions m) (rr_ResourceID rv)) of
        None \<Rightarrow> (Inl ErrNotFound, m)
      | Some entries \<Rightarrow>
          (Inr (), m\<lparr>resourceRevisions :=
                       AList.update (rr_ResourceID rv) entries (resourceRevisions m)\<rparr>))"

definition Memory_ListResourceRevisions :: "string \<Rightarrow> memory \<Rightarrow> resource_revision list res" where
  "Memory_ListResourceRevisions resourceID m = Inr (at_key (resourceRevisions m) resourceID)"

definition Memory_GetResourceRevision :: "string \<Rightarrow> int \<Rightarrow> memory \<Rightarrow> resource_revision res" where
  "Memory_GetResourceRevision resourceID n m =
     found (find (\<lambda>item. rr_Revision item = n) (at_key (resourceRevisions m) resourceID))"

section \<open>Releases\<close>

definition Memory_ReplaceRelease :: "string \<Rightarrow> release \<Rightarrow> memory \<Rightarrow> unit res \<times> memory" where
  "Memory_ReplaceRelease packageID release m =
     (Inr (), m\<lparr>releases := AList.update packageID
        (AList.update (rel_Channel release) release (at_key (releases m) packageID)) (releases m)\<rparr>)"

definition Memory_ListReleases :: "shuffle \<Rightarrow> string \<Rightarrow> memory \<Rightarrow> release list res" where
  "Memory_ListReleases sh packageID m = Inr (go_range sh (map snd (at_key (releases m) packageID)))"

definition Memory_ResolveRelease :: "string \<Rightarrow> string \<Rightarrow> memory \<Rightarrow> release res" where
  "Memory_ResolveRelease packageID channel m =
     found (map_of (at_key (releases m) packageID) channel)"

definition Memory_ResolveDefaultRelease :: "shuffle \<Rightarrow> string \<Rightarrow> memory \<Rightarrow> release res" where
  "Memory_ResolveDefaultRelease sh packageID m =
     (let rels = at_key (releases m) packageID in
      case map_of rels ''latest/stable'' of
        Some release \<Rightarrow> Inr release
      | None \<Rightarrow> (case go_range sh (map snd rels) of
                   release # _ \<Rightarrow> Inr release
                 | [] \<Rightarrow> Inl ErrNotFound))"

section \<open>The interface value\<close>

definition memory_repo :: "memory repository" where
  "memory_repo =
     \<lparr>EnsureAccount = Memory_EnsureAccount,
      GetAccountByID = Memory_GetAccountByID,
      CreateStoreToken = Memory_CreateStoreToken,
      ListStoreTokens = Memory_ListStoreTokens,
      RevokeStoreToken = Memory_RevokeStoreToken,
      FindStoreTokenByHash = Memory_FindStoreTokenByHash,
      CreatePackage = Memory_CreatePackage,
      UpdatePackage = Memory_UpdatePackage,
      DeletePackage = Memory_DeletePackage,
      GetPackageByName = Memory_GetPackageByName,
      GetPackageByID = Memory_GetPackageByID,
      ListPackagesForAccount = Memory_ListPackagesForAccount,
      SearchPackages = Memory_SearchPackages,
      CanViewPackage = Memory_CanViewPackage,
      CanManagePackage = Memory_CanManagePackage,
      CreateTracks = Memory_CreateTracks,
      ListTracks = Memory_ListTracks,
      CreateUpload = Memory_CreateUpload,
      GetUpload = Memory_GetUpload,
      ApproveUpload = Memory_ApproveUpload,
      CreateRevision = Memory_CreateRevision,
      ListRevisions = Memory_ListRevisions,
      GetRevisionByNumber = Memory_GetRevisionByNumber,
      GetLatestRevision = Memory_GetLatestRevision,
      UpsertResourceDefinition = Memory_UpsertResourceDefinition,
      GetResourceDefinition = Memory_GetResourceDefinition,
      ListResourceDefinitions = Memory_ListResourceDefinitions,
      CreateResourceRevision = Memory_CreateResourceRevision,
      UpdateResourceRevision = Memory_UpdateResourceRevision,
      ListResourceRevisions = Memory_ListResourceRevisions,
      GetResourceRevision = Memory_GetResourceRevision,
      ReplaceRelease = Memory_ReplaceRelease,
      ListReleases = Memory_ListReleases,
      ResolveRelease = Memory_ResolveRelease,
      ResolveDefaultRelease = Memory_ResolveDefaultRelease\<rparr>"

text \<open>Calls through the interface are calls of the implementation.\<close>

lemma memory_repo_sel [simp]:
  "EnsureAccount memory_repo = Memory_EnsureAccount"
  "GetAccountByID memory_repo = Memory_GetAccountByID"
  "CreateStoreToken memory_repo = Memory_CreateStoreToken"
  "ListStoreTokens memory_repo = Memory_ListStoreTokens"
  "RevokeStoreToken memory_repo = Memory_RevokeStoreToken"
  "FindStoreTokenByHash memory_repo = Memory_FindStoreTokenByHash"
  "CreatePackage memory_repo = Memory_CreatePackage"
  "UpdatePackage memory_repo = Memory_UpdatePackage"
  "DeletePackage memory_repo = Memory_DeletePackage"
  "GetPackageByName memory_repo = Memory_GetPackageByName"
  "GetPackageByID memory_repo = Memory_GetPackageByID"
  "ListPackagesForAccount memory_repo = Memory_ListPackagesForAccount"
  "SearchPackages memory_repo = Memory_SearchPackages"
  "CanViewPackage memory_repo = Memory_CanViewPackage"
  "CanManagePackage memory_repo = Memory_CanManagePackage"
  "CreateTracks memory_repo = Memory_CreateTracks"
  "ListTracks memory_repo = Memory_ListTracks"
  "CreateUpload memory_repo = Memory_CreateUpload"
  "GetUpload memory_repo = Memory_GetUpload"
  "ApproveUpload memory_repo = Memory_ApproveUpload"
  "CreateRevision memory_repo = Memory_CreateRevision"
  "ListRevisions memory_repo = Memory_ListRevisions"
  "GetRevisionByNumber memory_repo = Memory_GetRevisionByNumber"
  "GetLatestRevision memory_repo = Memory_GetLatestRevision"
  "UpsertResourceDefinition memory_repo = Memory_UpsertResourceDefinition"
  "GetResourceDefinition memory_repo = Memory_GetResourceDefinition"
  "ListResourceDefinitions memory_repo = Memory_ListResourceDefinitions"
  "CreateResourceRevision memory_repo = Memory_CreateResourceRevision"
  "UpdateResourceRevision memory_repo = Memory_UpdateResourceRevision"
  "ListResourceRevisions memory_repo = Memory_ListResourceRevisions"
  "GetResourceRevision memory_repo = Memory_GetResourceRevision"
  "ReplaceRelease memory_repo = Memory_ReplaceRelease"
  "ListReleases memory_repo = Memory_ListReleases"
  "ResolveRelease memory_repo = Memory_ResolveRelease"
  "ResolveDefaultRelease memory_repo = Memory_ResolveDefaultRelease"
  by (simp_all add: memory_repo_def)

end
