(* ===== verification/Blob.thy ===== *)
theory Blob
  imports Core
begin

text \<open>
  The blob stores of \<^verbatim>\<open>internal/blob/store.go\<close>: the interface \<^verbatim>\<open>Store\<close> as the record \<open>blob_store\<close> over a
  store state, \<open>MemoryStore\<close> as a map from keys to payloads, \<open>S3Store\<close> over a client that is a
  parameter (the AWS SDK), and the contract \<open>blob_contract\<close> the services rely on: a payload that was
  put is what a later get of its key returns, until that key is put again.
\<close>

section \<open>Interface\<close>

record 'b blob_store =
  blob_Put :: "string \<Rightarrow> bytes \<Rightarrow> string \<Rightarrow> 'b \<Rightarrow> unit res \<times> 'b"
  blob_Get :: "string \<Rightarrow> 'b \<Rightarrow> bytes res"

locale blob_contract =
  fixes B :: "'b blob_store"
  assumes get_after_put: "blob_Put B key payload ct b = (Inr (), b') \<Longrightarrow> blob_Get B key b' = Inr payload"
    and get_other: "blob_Put B key payload ct b = (r, b') \<Longrightarrow> key' \<noteq> key \<Longrightarrow> blob_Get B key' b' = blob_Get B key' b"
begin

text \<open>Puts of other keys never disturb a stored payload.\<close>

lemma stored_stays:
  assumes "blob_Get B key b = Inr payload" and "blob_Put B key' payload' ct b = (r, b')" and "key' \<noteq> key"
  shows "blob_Get B key b' = Inr payload"
  using assms get_other by metis

end

section \<open>The in-memory store\<close>

type_synonym memory_store = "(string, bytes) gomap"

definition NewMemoryStore :: memory_store where
  "NewMemoryStore = []"

definition MemoryStore_Put :: "string \<Rightarrow> bytes \<Rightarrow> string \<Rightarrow> memory_store \<Rightarrow> unit res \<times> memory_store" where
  "MemoryStore_Put key payload contentType b = (Inr (), AList.update key payload b)"

definition MemoryStore_Get :: "string \<Rightarrow> memory_store \<Rightarrow> bytes res" where
  "MemoryStore_Get key b =
     (case map_of b key of
        None \<Rightarrow> Inl (Errorf (''blob '' @ CHR 0x22 # key @ CHR 0x22 # '' not found''))
      | Some payload \<Rightarrow> Inr payload)"

definition memory_blobs :: "memory_store blob_store" where
  "memory_blobs = \<lparr>blob_Put = MemoryStore_Put, blob_Get = MemoryStore_Get\<rparr>"

lemma memory_blobs_sel [simp]:
  "blob_Put memory_blobs = MemoryStore_Put"
  "blob_Get memory_blobs = MemoryStore_Get"
  by (simp_all add: memory_blobs_def)

interpretation mem_blobs: blob_contract memory_blobs
  by unfold_locales (auto simp: MemoryStore_Put_def MemoryStore_Get_def)

section \<open>The S3 store\<close>

text \<open>
  \<^verbatim>\<open>s3API\<close>: the four client calls, over a state \<open>'c\<close> of the remote side.  \<open>HeadBucket\<close> reports whether
  the bucket exists; \<open>CreateBucket\<close> takes the location constraint if one is sent; the body of a
  \<open>GetObject\<close> response is read after the call and may fail on its own.
\<close>

record 'c s3_api =
  HeadBucket :: "string \<Rightarrow> 'c \<Rightarrow> unit res"
  CreateBucket :: "string \<Rightarrow> string option \<Rightarrow> 'c \<Rightarrow> unit res \<times> 'c"
  PutObject :: "string \<Rightarrow> string \<Rightarrow> bytes \<Rightarrow> string \<Rightarrow> 'c \<Rightarrow> unit res \<times> 'c"
  GetObject :: "string \<Rightarrow> string \<Rightarrow> 'c \<Rightarrow> bytes res res"

record 'c s3_store =
  s3_client :: "'c s3_api"
  s3_bucket :: string
  s3_region :: string
  s3_isS3 :: bool

definition S3Store_ensureBucket :: "'c s3_store \<Rightarrow> 'c \<Rightarrow> unit res \<times> 'c" where
  "S3Store_ensureBucket S c =
     (case HeadBucket (s3_client S) (s3_bucket S) c of
        Inr _ \<Rightarrow> (Inr (), c)
      | Inl _ \<Rightarrow>
          CreateBucket (s3_client S) (s3_bucket S)
            (if s3_isS3 S \<and> s3_region S \<noteq> [] \<and> s3_region S \<noteq> ''us-east-1''
             then Some (s3_region S) else None) c)"

definition S3Store_Put :: "'c s3_store \<Rightarrow> string \<Rightarrow> bytes \<Rightarrow> string \<Rightarrow> 'c \<Rightarrow> unit res \<times> 'c" where
  "S3Store_Put S key payload contentType c =
     PutObject (s3_client S) (s3_bucket S) key payload contentType c"

definition S3Store_Get :: "'c s3_store \<Rightarrow> string \<Rightarrow> 'c \<Rightarrow> bytes res" where
  "S3Store_Get S key c =
     (case GetObject (s3_client S) (s3_bucket S) key c of Inl e \<Rightarrow> Inl e | Inr body \<Rightarrow> body)"

definition s3_blobs :: "'c s3_store \<Rightarrow> 'c blob_store" where
  "s3_blobs S = \<lparr>blob_Put = S3Store_Put S, blob_Get = S3Store_Get S\<rparr>"

end
