(* ===== verification/Access.thy ===== *)
theory Access
  imports Memory Blob
begin

text \<open>
  The service value and its helpers: \<^verbatim>\<open>internal/service/service.go\<close> and
  \<^verbatim>\<open>internal/service/helpers.go\<close>.  The authorization guards come first, with an exact
  characterisation of when each one lets a caller through; then the URL, manifest, link and string
  helpers with the facts the other services use.
\<close>

section \<open>The service value\<close>

record ('s, 'b) service =
  svc_cfg :: config
  svc_repo :: "'s repository"
  svc_blobs :: "'b blob_store"

definition NewService :: "config \<Rightarrow> 's repository \<Rightarrow> 'b blob_store \<Rightarrow> ('s, 'b) service" where
  "NewService cfg repository blobs = \<lparr>svc_cfg = cfg, svc_repo = repository, svc_blobs = blobs\<rparr>"

text \<open>The service over the two in-memory stores.\<close>

definition mem_service :: "config \<Rightarrow> (memory, memory_store) service" where
  "mem_service cfg = NewService cfg memory_repo memory_blobs"

lemma mem_service_sel [simp]:
  "svc_cfg (mem_service cfg) = cfg"
  "svc_repo (mem_service cfg) = memory_repo"
  "svc_blobs (mem_service cfg) = memory_blobs"
  by (simp_all add: mem_service_def NewService_def)

definition RootDocument :: "('s, 'b) service \<Rightarrow> document" where
  "RootDocument S =
     [(''service-name'', VStr ''private-charm-registry''),
      (''version'', VStr ''v1''),
      (''api-url'', VStr (cfg_PublicAPIURL (svc_cfg S))),
      (''storage-url'', VStr (cfg_PublicStorageURL (svc_cfg S))),
      (''registry-url'', VStr (cfg_PublicRegistryURL (svc_cfg S)))]"

section \<open>Permissions\<close>

definition permAccountRegisterPackage :: string where
  "permAccountRegisterPackage = ''account-register-package''"
definition permAccountViewPackages :: string where
  "permAccountViewPackages = ''account-view-packages''"
definition permPackageManage :: string where
  "permPackageManage = ''package-manage''"
definition permPackageManageMetadata :: string where
  "permPackageManageMetadata = ''package-manage-metadata''"
definition permPackageManageReleases :: string where
  "permPackageManageReleases = ''package-manage-releases''"
definition permPackageManageRevisions :: string where
  "permPackageManageRevisions = ''package-manage-revisions''"
definition permPackageView :: string where
  "permPackageView = ''package-view''"
definition permPackageViewMetadata :: string where
  "permPackageViewMetadata = ''package-view-metadata''"
definition permPackageViewReleases :: string where
  "permPackageViewReleases = ''package-view-releases''"
definition permPackageViewRevisions :: string where
  "permPackageViewRevisions = ''package-view-revisions''"

lemmas perm_defs =
  permAccountRegisterPackage_def permAccountViewPackages_def permPackageManage_def
  permPackageManageMetadata_def permPackageManageReleases_def permPackageManageRevisions_def
  permPackageView_def permPackageViewMetadata_def permPackageViewReleases_def
  permPackageViewRevisions_def

definition defaultPermissions :: "string list" where
  "defaultPermissions =
     [permAccountRegisterPackage, permAccountViewPackages, permPackageManage,
      permPackageManageMetadata, permPackageManageReleases, permPackageManageRevisions,
      permPackageView, permPackageViewMetadata, permPackageViewReleases, permPackageViewRevisions]"

section \<open>Error helpers\<close>

definition translateRepoError :: "string \<Rightarrow> goerr \<Rightarrow> goerr" where
  "translateRepoError message err =
     (case err of
        ErrNotFound \<Rightarrow> newError 404 ''not-found'' message
      | ErrConflict _ \<Rightarrow> newError 409 ''already-registered'' message
      | e \<Rightarrow> e)"

lemma translateRepoError_simps [simp]:
  "translateRepoError msg ErrNotFound = ServiceError 404 ''not-found'' msg"
  "translateRepoError msg (ErrConflict w) = ServiceError 409 ''already-registered'' msg"
  "translateRepoError msg (ServiceError st c m) = ServiceError st c m"
  "translateRepoError msg (Errorf t) = Errorf t"
  by (simp_all add: translateRepoError_def newError_def)

section \<open>Authorization guards\<close>

definition requireAuth :: "identity \<Rightarrow> unit res" where
  "requireAuth identity =
     (if \<not> idn_Authenticated identity
      then Inl (newError 401 ''unauthorized'' ''authentication required'') else Inr ())"

definition requirePermission :: "identity \<Rightarrow> string \<Rightarrow> unit res" where
  "requirePermission identity permission =
     res_bind (requireAuth identity) (\<lambda>_.
     case idn_Token identity of
       None \<Rightarrow> Inr ()
     | Some token \<Rightarrow>
         if tok_Permissions token = [] then Inr ()
         else if \<exists>item \<in> set (tok_Permissions token).
                   item = permission
                   \<or> item = permPackageManage \<and> hasPrefix permission ''package-''
         then Inr ()
         else Inl (newError 403 ''forbidden'' ''token does not grant required permission''))"

definition requirePermissionOrAnonymous :: "identity \<Rightarrow> string \<Rightarrow> unit res" where
  "requirePermissionOrAnonymous identity permission =
     (if \<not> idn_Authenticated identity then Inr () else requirePermission identity permission)"

definition tokenAllowsPackage :: "store_token \<Rightarrow> package \<Rightarrow> bool" where
  "tokenAllowsPackage token pkg \<longleftrightarrow>
     (\<exists>candidate \<in> set (tok_Packages token).
        sel_ID candidate \<noteq> [] \<and> sel_ID candidate = pkg_ID pkg
        \<or> sel_Name candidate \<noteq> [] \<and> sel_Name candidate = pkg_Name pkg)"

text \<open>\<^verbatim>\<open>identity.Token != nil && len(identity.Token.Packages) > 0 && !tokenAllowsPackage(...)\<close>\<close>

definition tokenExcludesPackage :: "identity \<Rightarrow> package \<Rightarrow> bool" where
  "tokenExcludesPackage identity pkg =
     (case idn_Token identity of
        None \<Rightarrow> False
      | Some token \<Rightarrow> tok_Packages token \<noteq> [] \<and> \<not> tokenAllowsPackage token pkg)"

definition requirePackageView ::
    "('s, 'b) service \<Rightarrow> identity \<Rightarrow> package \<Rightarrow> bool \<Rightarrow> 's \<Rightarrow> unit res" where
  "requirePackageView S identity pkg requireTokenPermission s =
     (if \<not> pkg_Private pkg then
        (if requireTokenPermission then requirePermissionOrAnonymous identity permPackageView
         else Inr ())
      else
        res_bind (requireAuth identity) (\<lambda>_.
        res_bind (CanViewPackage (svc_repo S) (pkg_ID pkg) (acc_ID (idn_Account identity)) s) (\<lambda>allowed.
        if \<not> allowed then Inl (newError 403 ''forbidden'' ''package is private'')
        else if tokenExcludesPackage identity pkg
        then Inl (newError 403 ''forbidden'' ''token does not allow this package'')
        else if requireTokenPermission then requirePermission identity permPackageView
        else Inr ())))"

definition requirePackageManage ::
    "('s, 'b) service \<Rightarrow> identity \<Rightarrow> package \<Rightarrow> string \<Rightarrow> 's \<Rightarrow> unit res" where
  "requirePackageManage S identity pkg permission s =
     res_bind (requirePermission identity permission) (\<lambda>_.
     res_bind (CanManagePackage (svc_repo S) (pkg_ID pkg) (acc_ID (idn_Account identity)) s) (\<lambda>allowed.
     if \<not> allowed then Inl (newError 403 ''forbidden'' ''package management is not allowed'')
     else if tokenExcludesPackage identity pkg
     then Inl (newError 403 ''forbidden'' ''token does not allow this package'')
     else Inr ()))"

definition enforceChannelRestriction :: "identity \<Rightarrow> string \<Rightarrow> unit res" where
  "enforceChannelRestriction identity channel =
     (case idn_Token identity of
        None \<Rightarrow> Inr ()
      | Some token \<Rightarrow>
          if tok_Channels token = [] then Inr ()
          else if channel \<in> set (tok_Channels token) then Inr ()
          else Inl (newError 403 ''forbidden'' ''token does not allow this channel''))"

definition canSeePackage :: "('s, 'b) service \<Rightarrow> identity \<Rightarrow> package \<Rightarrow> 's \<Rightarrow> bool" where
  "canSeePackage S identity pkg s = (requirePackageView S identity pkg False s = Inr ())"

text \<open>
  What the guards mean, independent of how they are written: a caller may act under a permission
  when its token, if there is one and it lists permissions, lists that one or lists
  \<^verbatim>\<open>package-manage\<close> for a package permission.
\<close>

definition tokenGrants :: "identity \<Rightarrow> string \<Rightarrow> bool" where
  "tokenGrants identity permission \<longleftrightarrow>
     idn_Authenticated identity \<and>
     (\<forall>token. idn_Token identity = Some token \<longrightarrow>
        tok_Permissions token = [] \<or> permission \<in> set (tok_Permissions token)
        \<or> permPackageManage \<in> set (tok_Permissions token) \<and> hasPrefix permission ''package-'')"

lemma requireAuth_iff [res_iff]:
  "requireAuth identity = Inr u \<longleftrightarrow> idn_Authenticated identity"
  by (simp add: requireAuth_def)

lemma requirePermission_iff:
  "requirePermission identity permission = Inr u \<longleftrightarrow> tokenGrants identity permission"
  by (auto simp: requirePermission_def tokenGrants_def requireAuth_def split: option.splits)

lemma requirePackageManage_iff:
  "requirePackageManage S identity pkg permission s = Inr u \<longleftrightarrow>
     tokenGrants identity permission
     \<and> CanManagePackage (svc_repo S) (pkg_ID pkg) (acc_ID (idn_Account identity)) s = Inr True
     \<and> \<not> tokenExcludesPackage identity pkg"
  by (auto simp: requirePackageManage_def res_iff requirePermission_iff split: if_splits)

lemma requirePackageView_iff:
  "requirePackageView S identity pkg tp s = Inr u \<longleftrightarrow>
     (if pkg_Private pkg then
        idn_Authenticated identity
        \<and> CanViewPackage (svc_repo S) (pkg_ID pkg) (acc_ID (idn_Account identity)) s = Inr True
        \<and> \<not> tokenExcludesPackage identity pkg
        \<and> (tp \<longrightarrow> tokenGrants identity permPackageView)
      else tp \<longrightarrow> idn_Authenticated identity \<longrightarrow> tokenGrants identity permPackageView)"
  by (auto simp: requirePackageView_def res_iff requirePermission_iff requirePermissionOrAnonymous_def
      split: if_splits)

lemma enforceChannelRestriction_iff:
  "enforceChannelRestriction identity channel = Inr u \<longleftrightarrow>
     (\<forall>token. idn_Token identity = Some token \<longrightarrow>
        tok_Channels token = [] \<or> channel \<in> set (tok_Channels token))"
  by (auto simp: enforceChannelRestriction_def split: option.splits)

section \<open>URLs\<close>

definition charmDownloadURL :: "config \<Rightarrow> string \<Rightarrow> int \<Rightarrow> string" where
  "charmDownloadURL cfg packageID n =
     cfg_PublicAPIURL cfg @ ''/api/v1/charms/download/'' @ packageID @ ''_'' @ itoa n @ ''.charm''"

definition resourceDownloadURL :: "config \<Rightarrow> string \<Rightarrow> string \<Rightarrow> int \<Rightarrow> string" where
  "resourceDownloadURL cfg packageID resourceName n =
     cfg_PublicAPIURL cfg @ ''/api/v1/resources/download/charm_'' @ packageID @ ''.'' @ resourceName
       @ ''_'' @ itoa n"

definition registryImageName :: "config \<Rightarrow> string \<Rightarrow> string \<Rightarrow> string" where
  "registryImageName cfg charmName resourceName =
     trimPrefix (trimPrefix (cfg_PublicRegistryURL cfg) ''https://'') ''http://'' @ ''/'' @
     filepathJoin [cfg_RegistryRepositoryRoot cfg, charmName, resourceName]"

section \<open>Manifest, links, strings\<close>

definition mkBase :: "string \<Rightarrow> string \<Rightarrow> string \<Rightarrow> base" where
  "mkBase name channel architecture =
     \<lparr>base_Architecture = architecture, base_Architectures = [], base_Channel = channel, base_Name = name\<rparr>"

fun basesOf :: "charm_base list \<Rightarrow> base list" where
  "basesOf [] = []"
| "basesOf (b # bs) =
     (if cb_Architectures b \<noteq> []
      then map (mkBase (cb_Name b) (cb_Channel b)) (cb_Architectures b) @ basesOf bs
      else if cb_Architecture b \<noteq> []
      then mkBase (cb_Name b) (cb_Channel b) (cb_Architecture b) # basesOf bs
      else basesOf bs)"

definition extractBases :: "charm_manifest \<Rightarrow> base list" where
  "extractBases manifest =
     (let bases = basesOf (man_Bases manifest) in
      if bases = [] then [mkBase ''ubuntu'' ''22.04'' ''amd64''] else bases)"

text \<open>\<^verbatim>\<open>compactID\<close> strips the dashes of a fresh UUID, here the argument.\<close>

definition compactID :: "string \<Rightarrow> string" where
  "compactID uuidString = replaceChar CHR ''-'' [] uuidString"

definition sanitizeSubject :: "string \<Rightarrow> string" where
  "sanitizeSubject subject =
     map (\<lambda>c. if c = CHR '':'' \<or> c = CHR ''|'' \<or> c = CHR ''/'' then CHR ''-'' else c) subject"

definition uniqueAppend :: "string list \<Rightarrow> string \<Rightarrow> string list" where
  "uniqueAppend values candidate = (if candidate \<in> set values then values else values @ [candidate])"

text \<open>One step of \<^verbatim>\<open>mergeLinks\<close>: \<^verbatim>\<open>out[key] = uniqueAppend(out[key], value)\<close>.\<close>

definition addLink :: "string \<Rightarrow> string \<Rightarrow> (string, string list) gomap \<Rightarrow> (string, string list) gomap" where
  "addLink key value out = AList.update key (uniqueAppend (at_key out key) value) out"

definition mergeLinks ::
    "(string, string list) gomap \<Rightarrow> string \<Rightarrow> string \<Rightarrow> string \<Rightarrow> string list
       \<Rightarrow> (string, string list) gomap" where
  "mergeLinks existing docs issues source websites =
     (let out0 = existing;
          out1 = (if docs \<noteq> [] then addLink ''docs'' docs out0 else out0);
          out2 = (if issues \<noteq> [] then addLink ''issues'' issues out1 else out1);
          out3 = (if source \<noteq> [] then addLink ''source'' source out2 else out2) in
      fold (addLink ''website'') websites out3)"

definition channelOrDefault :: "string option \<Rightarrow> string" where
  "channelOrDefault channel = (case channel of None \<Rightarrow> [] | Some c \<Rightarrow> c)"

definition stringPtr :: "string \<Rightarrow> string option" where
  "stringPtr value = (if value = [] then None else Some value)"

definition stringValue :: "string option \<Rightarrow> string" where
  "stringValue value = (case value of None \<Rightarrow> [] | Some v \<Rightarrow> v)"

fun firstNonEmpty :: "string list \<Rightarrow> string" where
  "firstNonEmpty [] = []"
| "firstNonEmpty (v # vs) = (if v \<noteq> [] then v else firstNonEmpty vs)"

definition firstLink :: "string list \<Rightarrow> string" where
  "firstLink values = (case values of [] \<Rightarrow> [] | v # _ \<Rightarrow> v)"

definition detectUploadKind :: "string \<Rightarrow> string" where
  "detectUploadKind filename = (if filepathExt filename = ''.charm'' then ''revision'' else ''resource'')"

end
