(* ===== verification/Hash.thy ===== *)
theory Hash
  imports GoStrings
begin

text \<open>
  The digests of Go's \<^verbatim>\<open>crypto/sha256\<close> and \<^verbatim>\<open>crypto/sha512\<close> that the registry computes (FIPS 180-4 over
  machine words), and the two encodings it applies to bytes: \<^verbatim>\<open>encoding/hex\<close> and the unpadded URL
  alphabet of \<^verbatim>\<open>encoding/base64\<close>.  The lemmas give the lengths and the alphabets of the results, which
  is all the components need to know of them.
\<close>

unbundle bit_operations_syntax

section \<open>SHA-2\<close>

definition byteVal :: "byte \<Rightarrow> nat" where
  "byteVal c = of_char c"

definition wordOfBytes :: "bytes \<Rightarrow> 'a::len word" where
  "wordOfBytes bs = foldl (\<lambda>w b. push_bit 8 w OR of_nat (byteVal b)) 0 bs"

definition bytesOfWord :: "nat \<Rightarrow> 'a::len word \<Rightarrow> bytes" where
  "bytesOfWord n w = map (\<lambda>i. char_of (unat (take_bit 8 (drop_bit (8 * i) w)))) (rev [0..<n])"

text \<open>The message, a one bit, zeros up to a multiple of the block size, and the length in bits.\<close>

definition padMessage :: "nat \<Rightarrow> nat \<Rightarrow> bytes \<Rightarrow> bytes" where
  "padMessage block lenBytes msg =
     (let n = length msg; zeros = (2 * block - (n + 1 + lenBytes) mod block) mod block in
      msg @ [CHR 0x80] @ replicate zeros (CHR 0x00) @
      map (\<lambda>i. char_of ((8 * n) div (256 ^ i) mod 256)) (rev [0..<lenBytes]))"

fun chunks :: "nat \<Rightarrow> nat \<Rightarrow> 'a list \<Rightarrow> 'a list list" where
  "chunks 0 n xs = []"
| "chunks (Suc k) n xs = take n xs # chunks k n (drop n xs)"

text \<open>The two variants differ in the word size, the rotations and the number of rounds.\<close>

record 'w sha_params =
  shaK :: "'w list"
  shaBig0 :: "'w \<Rightarrow> 'w"
  shaBig1 :: "'w \<Rightarrow> 'w"
  shaSmall0 :: "'w \<Rightarrow> 'w"
  shaSmall1 :: "'w \<Rightarrow> 'w"

text \<open>The message schedule, newest word first.\<close>

fun extendSchedule :: "'a::len word sha_params \<Rightarrow> nat \<Rightarrow> 'a word list \<Rightarrow> 'a word list" where
  "extendSchedule P 0 ws = ws"
| "extendSchedule P (Suc k) ws =
     extendSchedule P k
       ((shaSmall1 P (ws ! 1) + ws ! 6 + shaSmall0 P (ws ! 14) + ws ! 15) # ws)"

type_synonym 'a sha_state =
  "'a word \<times> 'a word \<times> 'a word \<times> 'a word \<times> 'a word \<times> 'a word \<times> 'a word \<times> 'a word"

fun shaRound :: "'a::len word sha_params \<Rightarrow> 'a word \<times> 'a word \<Rightarrow> 'a sha_state \<Rightarrow> 'a sha_state" where
  "shaRound P (k, w) (a, b, c, d, e, f, g, h) =
     (let t1 = h + shaBig1 P e + ((e AND f) XOR (NOT e AND g)) + k + w;
          t2 = shaBig0 P a + ((a AND b) XOR (a AND c) XOR (b AND c)) in
      (t1 + t2, a, b, c, d + t1, e, f, g))"

fun addState :: "'a::len sha_state \<Rightarrow> 'a sha_state \<Rightarrow> 'a sha_state" where
  "addState (a, b, c, d, e, f, g, h) (a', b', c', d', e', f', g', h') =
     (a + a', b + b', c + c', d + d', e + e', f + f', g + g', h + h')"

definition shaBlock :: "'a::len word sha_params \<Rightarrow> nat \<Rightarrow> bytes \<Rightarrow> 'a sha_state \<Rightarrow> 'a sha_state" where
  "shaBlock P wordBytes block st =
     (let ws = rev (extendSchedule P (length (shaK P) - 16)
                      (rev (map wordOfBytes (chunks 16 wordBytes block)))) in
      addState st (fold (shaRound P) (zip (shaK P) ws) st))"

fun stateWords :: "'a sha_state \<Rightarrow> 'a word list" where
  "stateWords (a, b, c, d, e, f, g, h) = [a, b, c, d, e, f, g, h]"

definition shaDigest ::
    "'a::len word sha_params \<Rightarrow> nat \<Rightarrow> 'a sha_state \<Rightarrow> bytes \<Rightarrow> bytes" where
  "shaDigest P wordBytes init msg =
     (let padded = padMessage (16 * wordBytes) (2 * wordBytes) msg;
          blocks = chunks (length padded div (16 * wordBytes)) (16 * wordBytes) padded in
      concat (map (bytesOfWord wordBytes) (stateWords (fold (shaBlock P wordBytes) blocks init))))"

definition rotr :: "nat \<Rightarrow> 'a::len word \<Rightarrow> 'a word" where
  "rotr n w = word_rotr n w"

definition sha256_params :: "32 word sha_params" where
  "sha256_params =
     \<lparr>shaK =
     [0x428A2F98, 0x71374491, 0xB5C0FBCF, 0xE9B5DBA5, 0x3956C25B, 0x59F111F1, 0x923F82A4, 0xAB1C5ED5,
      0xD807AA98, 0x12835B01, 0x243185BE, 0x550C7DC3, 0x72BE5D74, 0x80DEB1FE, 0x9BDC06A7, 0xC19BF174,
      0xE49B69C1, 0xEFBE4786, 0x0FC19DC6, 0x240CA1CC, 0x2DE92C6F, 0x4A7484AA, 0x5CB0A9DC, 0x76F988DA,
      0x983E5152, 0xA831C66D, 0xB00327C8, 0xBF597FC7, 0xC6E00BF3, 0xD5A79147, 0x06CA6351, 0x14292967,
      0x27B70A85, 0x2E1B2138, 0x4D2C6DFC, 0x53380D13, 0x650A7354, 0x766A0ABB, 0x81C2C92E, 0x92722C85,
      0xA2BFE8A1, 0xA81A664B, 0xC24B8B70, 0xC76C51A3, 0xD192E819, 0xD6990624, 0xF40E3585, 0x106AA070,
      0x19A4C116, 0x1E376C08, 0x2748774C, 0x34B0BCB5, 0x391C0CB3, 0x4ED8AA4A, 0x5B9CCA4F, 0x682E6FF3,
      0x748F82EE, 0x78A5636F, 0x84C87814, 0x8CC70208, 0x90BEFFFA, 0xA4506CEB, 0xBEF9A3F7, 0xC67178F2],
      shaBig0 = (\<lambda>x. rotr 2 x XOR rotr 13 x XOR rotr 22 x),
      shaBig1 = (\<lambda>x. rotr 6 x XOR rotr 11 x XOR rotr 25 x),
      shaSmall0 = (\<lambda>x. rotr 7 x XOR rotr 18 x XOR drop_bit 3 x),
      shaSmall1 = (\<lambda>x. rotr 17 x XOR rotr 19 x XOR drop_bit 10 x)\<rparr>"

definition sha512_params :: "64 word sha_params" where
  "sha512_params =
     \<lparr>shaK =
     [0x428A2F98D728AE22, 0x7137449123EF65CD, 0xB5C0FBCFEC4D3B2F, 0xE9B5DBA58189DBBC,
      0x3956C25BF348B538, 0x59F111F1B605D019, 0x923F82A4AF194F9B, 0xAB1C5ED5DA6D8118,
      0xD807AA98A3030242, 0x12835B0145706FBE, 0x243185BE4EE4B28C, 0x550C7DC3D5FFB4E2,
      0x72BE5D74F27B896F, 0x80DEB1FE3B1696B1, 0x9BDC06A725C71235, 0xC19BF174CF692694,
      0xE49B69C19EF14AD2, 0xEFBE4786384F25E3, 0x0FC19DC68B8CD5B5, 0x240CA1CC77AC9C65,
      0x2DE92C6F592B0275, 0x4A7484AA6EA6E483, 0x5CB0A9DCBD41FBD4, 0x76F988DA831153B5,
      0x983E5152EE66DFAB, 0xA831C66D2DB43210, 0xB00327C898FB213F, 0xBF597FC7BEEF0EE4,
      0xC6E00BF33DA88FC2, 0xD5A79147930AA725, 0x06CA6351E003826F, 0x142929670A0E6E70,
      0x27B70A8546D22FFC, 0x2E1B21385C26C926, 0x4D2C6DFC5AC42AED, 0x53380D139D95B3DF,
      0x650A73548BAF63DE, 0x766A0ABB3C77B2A8, 0x81C2C92E47EDAEE6, 0x92722C851482353B,
      0xA2BFE8A14CF10364, 0xA81A664BBC423001, 0xC24B8B70D0F89791, 0xC76C51A30654BE30,
      0xD192E819D6EF5218, 0xD69906245565A910, 0xF40E35855771202A, 0x106AA07032BBD1B8,
      0x19A4C116B8D2D0C8, 0x1E376C085141AB53, 0x2748774CDF8EEB99, 0x34B0BCB5E19B48A8,
      0x391C0CB3C5C95A63, 0x4ED8AA4AE3418ACB, 0x5B9CCA4F7763E373, 0x682E6FF3D6B2B8A3,
      0x748F82EE5DEFB2FC, 0x78A5636F43172F60, 0x84C87814A1F0AB72, 0x8CC702081A6439EC,
      0x90BEFFFA23631E28, 0xA4506CEBDE82BDE9, 0xBEF9A3F7B2C67915, 0xC67178F2E372532B,
      0xCA273ECEEA26619C, 0xD186B8C721C0C207, 0xEADA7DD6CDE0EB1E, 0xF57D4F7FEE6ED178,
      0x06F067AA72176FBA, 0x0A637DC5A2C898A6, 0x113F9804BEF90DAE, 0x1B710B35131C471B,
      0x28DB77F523047D84, 0x32CAAB7B40C72493, 0x3C9EBE0A15C9BEBC, 0x431D67C49C100D4C,
      0x4CC5D4BECB3E42B6, 0x597F299CFC657E2A, 0x5FCB6FAB3AD6FAEC, 0x6C44198C4A475817],
      shaBig0 = (\<lambda>x. rotr 28 x XOR rotr 34 x XOR rotr 39 x),
      shaBig1 = (\<lambda>x. rotr 14 x XOR rotr 18 x XOR rotr 41 x),
      shaSmall0 = (\<lambda>x. rotr 1 x XOR rotr 8 x XOR drop_bit 7 x),
      shaSmall1 = (\<lambda>x. rotr 19 x XOR rotr 61 x XOR drop_bit 6 x)\<rparr>"

definition sha256 :: "bytes \<Rightarrow> bytes" where
  "sha256 = shaDigest sha256_params 4
     (0x6A09E667, 0xBB67AE85, 0x3C6EF372, 0xA54FF53A,
      0x510E527F, 0x9B05688C, 0x1F83D9AB, 0x5BE0CD19)"

definition sha512 :: "bytes \<Rightarrow> bytes" where
  "sha512 = shaDigest sha512_params 8
     (0x6A09E667F3BCC908, 0xBB67AE8584CAA73B, 0x3C6EF372FE94F82B, 0xA54FF53A5F1D36F1,
      0x510E527FADE682D1, 0x9B05688C2B3E6C1F, 0x1F83D9ABFB41BD6B, 0x5BE0CD19137E2179)"

definition sha384 :: "bytes \<Rightarrow> bytes" where
  "sha384 msg = take 48 (shaDigest sha512_params 8
     (0xCBBB9D5DC1059ED8, 0x629A292A367CD507, 0x9159015A3070DD17, 0x152FECD8F70E5939,
      0x67332667FFC00B31, 0x8EB44A8768581511, 0xDB0C2E0D64F98FA7, 0x47B5481DBEFA4FA4) msg)"

lemma length_bytesOfWord [simp]: "length (bytesOfWord n w) = n"
  by (simp add: bytesOfWord_def)

lemma length_stateWords [simp]: "length (stateWords st) = 8"
  by (cases st rule: stateWords.cases) simp

lemma length_concat_bytesOfWord: "length (concat (map (bytesOfWord n) ws)) = n * length ws"
  by (induction ws) simp_all

lemma length_shaDigest: "length (shaDigest P n init msg) = 8 * n"
  by (simp add: shaDigest_def Let_def length_concat_bytesOfWord del: length_concat)

lemma length_sha256 [simp]: "length (sha256 msg) = 32"
  by (simp add: sha256_def length_shaDigest)

lemma length_sha512 [simp]: "length (sha512 msg) = 64"
  by (simp add: sha512_def length_shaDigest)

lemma length_sha384 [simp]: "length (sha384 msg) = 48"
  by (simp add: sha384_def length_shaDigest)

section \<open>Encodings\<close>

definition hexDigits :: string where
  "hexDigits = ''0123456789abcdef''"

definition hexEncode :: "bytes \<Rightarrow> string" where
  "hexEncode bs = concat (map (\<lambda>b. [hexDigits ! (byteVal b div 16), hexDigits ! (byteVal b mod 16)]) bs)"

definition base64Alphabet :: string where
  "base64Alphabet = ''ABCDEFGHIJKLMNOPQRSTUVWXYZabcdefghijklmnopqrstuvwxyz0123456789-_''"

definition b64 :: "nat \<Rightarrow> char" where
  "b64 n = base64Alphabet ! (n mod 64)"

text \<open>\<^verbatim>\<open>base64.RawURLEncoding.EncodeToString\<close>\<close>

fun base64RawURL :: "bytes \<Rightarrow> string" where
  "base64RawURL (a # b # c # r) =
     (let n = byteVal a * 65536 + byteVal b * 256 + byteVal c in
      b64 (n div 262144) # b64 (n div 4096) # b64 (n div 64) # b64 n # base64RawURL r)"
| "base64RawURL [a, b] =
     (let n = byteVal a * 65536 + byteVal b * 256 in
      [b64 (n div 262144), b64 (n div 4096), b64 (n div 64)])"
| "base64RawURL [a] = (let n = byteVal a * 65536 in [b64 (n div 262144), b64 (n div 4096)])"
| "base64RawURL [] = []"

lemma length_hexEncode [simp]: "length (hexEncode bs) = 2 * length bs"
  by (induction bs) (simp_all add: hexEncode_def)

lemma b64_in_alphabet: "b64 n \<in> set base64Alphabet"
proof -
  have "length base64Alphabet = 64" by (simp add: base64Alphabet_def)
  then show ?thesis by (simp add: b64_def)
qed

lemma base64RawURL_alphabet: "set (base64RawURL bs) \<subseteq> set base64Alphabet"
  by (induction bs rule: base64RawURL.induct) (auto simp: Let_def b64_in_alphabet)

lemma base64RawURL_eq_Nil: "base64RawURL bs = [] \<longleftrightarrow> bs = []"
  by (induction bs rule: base64RawURL.induct) (simp_all add: Let_def)

end
