(* ===== verification/Auth.thy ===== *)
theory Auth
  imports Access Hash
begin

text \<open>
  \<^verbatim>\<open>internal/auth/auth.go\<close>: opaque store tokens and their stored hashes, the development bearer
  tokens, and the resolution of an \<^verbatim>\<open>Authorization\<close> header to claims and a store token.  The OIDC
  provider is not part of the repository: the verifier is a parameter, a function from the presented
  secret to an error of the verification or to the result of decoding the claims of the token.
\<close>

section \<open>Claims\<close>

record claims =
  cl_Subject :: string
  cl_Username :: string
  cl_DisplayName :: string
  cl_Email :: string

definition zero_claims :: claims where
  "zero_claims = \<lparr>cl_Subject = [], cl_Username = [], cl_DisplayName = [], cl_Email = []\<rparr>"

text \<open>A claim of an OIDC token: a string, or a value of another JSON type.\<close>

datatype claim_value = ClaimStr string | ClaimOther

type_synonym raw_claims = "(string, claim_value) gomap"
type_synonym verifier = "string \<Rightarrow> raw_claims res res"

record authenticator =
  au_config :: config
  au_verifier :: "verifier option"

fun asString :: "claim_value option \<Rightarrow> string" where
  "asString (Some (ClaimStr str)) = str"
| "asString _ = []"

definition claimsOfAccount :: "account \<Rightarrow> claims" where
  "claimsOfAccount account =
     \<lparr>cl_Subject = acc_Subject account, cl_Username = acc_Username account,
      cl_DisplayName = acc_DisplayName account, cl_Email = acc_Email account\<rparr>"

definition claimsOfRaw :: "config \<Rightarrow> raw_claims \<Rightarrow> claims" where
  "claimsOfRaw cfg raw =
     \<lparr>cl_Subject = asString (map_of raw ''sub''),
      cl_Username = firstNonEmpty
        [asString (map_of raw (cfg_OIDCUsernameClaim cfg)),
         asString (map_of raw ''preferred_username''),
         asString (map_of raw ''email'')],
      cl_DisplayName = firstNonEmpty
        [asString (map_of raw (cfg_OIDCDisplayNameClaim cfg)),
         asString (map_of raw ''name''),
         asString (map_of raw ''preferred_username'')],
      cl_Email = firstNonEmpty
        [asString (map_of raw (cfg_OIDCEmailClaim cfg)), asString (map_of raw ''email'')]\<rparr>"

section \<open>Tokens\<close>

definition HashToken :: "string \<Rightarrow> string" where
  "HashToken raw = hexEncode (sha256 raw)"

text \<open>The 32 random bytes, or the error of reading them, are the argument.\<close>

definition NewOpaqueToken :: "bytes res \<Rightarrow> (string \<times> string) res" where
  "NewOpaqueToken seed =
     res_bind seed (\<lambda>bs. let raw = ''cr_'' @ base64RawURL bs in Inr (raw, HashToken raw))"

definition parseInsecureToken :: "config \<Rightarrow> string \<Rightarrow> claims option" where
  "parseInsecureToken cfg raw =
     (if \<not> cfg_EnableInsecureDevAuth cfg then None
      else if \<not> hasPrefix raw ''dev:'' then None
      else
        let parts = splitOn CHR '':'' raw in
        if length parts < 3 then None
        else Some \<lparr>cl_Subject = parts ! 1, cl_Username = parts ! 2, cl_DisplayName = parts ! 2,
                   cl_Email = parts ! 2 @ ''@example.invalid''\<rparr>)"

section \<open>Authentication\<close>

text \<open>\<^verbatim>\<open>storeToken.RevokedAt != nil || storeToken.ValidUntil.Before(now)\<close>\<close>

definition tokenDead :: "time \<Rightarrow> store_token \<Rightarrow> bool" where
  "tokenDead t token \<longleftrightarrow> tok_RevokedAt token \<noteq> None \<or> tok_ValidUntil token < t"

definition authenticateSecret ::
    "authenticator \<Rightarrow> 's repository \<Rightarrow> time \<Rightarrow> string \<Rightarrow> 's \<Rightarrow> (claims \<times> store_token option) res" where
  "authenticateSecret A R t secret s =
     (case parseInsecureToken (au_config A) secret of
        Some c \<Rightarrow> Inr (c, None)
      | None \<Rightarrow>
          (case FindStoreTokenByHash R (HashToken secret) s of
             Inr (storeToken, account) \<Rightarrow>
               if tokenDead t storeToken
               then Inl (Errorf ''cannot authenticate: token revoked or expired'')
               else Inr (claimsOfAccount account, Some storeToken)
           | Inl _ \<Rightarrow>
               (case au_verifier A of
                  None \<Rightarrow> Inl (Errorf ''cannot authenticate: no valid credentials found'')
                | Some verify \<Rightarrow>
                    (case verify secret of
                       Inl err \<Rightarrow> Inl (Errorf (''cannot verify OIDC token: '' @ errText err))
                     | Inr (Inl err) \<Rightarrow> Inl (Errorf (''cannot decode OIDC claims: '' @ errText err))
                     | Inr (Inr raw) \<Rightarrow> Inr (claimsOfRaw (au_config A) raw, None)))))"

text \<open>\<open>Authenticate\<close> takes the value of the \<^verbatim>\<open>Authorization\<close> header, empty when it is absent.\<close>

definition Authenticate ::
    "authenticator \<Rightarrow> 's repository \<Rightarrow> time \<Rightarrow> string \<Rightarrow> 's \<Rightarrow> (claims \<times> store_token option) res" where
  "Authenticate A R t authorization s =
     (let header = trimSpace authorization in
      if header = [] then Inr (zero_claims, None)
      else
        let prefix = (if hasPrefix header ''Bearer '' then Some ''Bearer ''
                      else if hasPrefix header ''Macaroon '' then Some ''Macaroon ''
                      else None) in
        case prefix of
          None \<Rightarrow> Inl (Errorf ''cannot authenticate: unsupported authorization scheme'')
        | Some p \<Rightarrow>
            let secret = trimSpace (trimPrefix header p) in
            if secret = [] then Inr (zero_claims, None) else authenticateSecret A R t secret s)"

definition AuthenticateToken ::
    "'s repository \<Rightarrow> time \<Rightarrow> string \<Rightarrow> 's \<Rightarrow> (claims \<times> store_token option) res" where
  "AuthenticateToken R t raw s =
     (case FindStoreTokenByHash R (HashToken raw) s of
        Inl _ \<Rightarrow> Inl (Errorf ''cannot authenticate: token not found'')
      | Inr (storeToken, account) \<Rightarrow>
          if tokenDead t storeToken
          then Inl (Errorf ''cannot authenticate: token revoked or expired'')
          else Inr (claimsOfAccount account, Some storeToken))"

section \<open>Lemmas\<close>

lemma length_HashToken [simp]: "length (HashToken raw) = 64"
  by (simp add: HashToken_def)

text \<open>Whatever is authenticated as a store token is stored under the secret's hash and alive.\<close>

lemma authenticateSecret_token:
  "authenticateSecret A R t secret s = Inr (c, Some token) \<Longrightarrow>
     \<exists>account. FindStoreTokenByHash R (HashToken secret) s = Inr (token, account)
             \<and> c = claimsOfAccount account \<and> \<not> tokenDead t token"
  by (auto simp: authenticateSecret_def split: option.splits sum.splits if_splits)

lemma alphabet_solid: "c \<in> set base64Alphabet \<Longrightarrow> solidChar c"
  by (auto simp: base64Alphabet_def solidChar_def)

lemma newOpaqueToken_raw:
  assumes "NewOpaqueToken seed = Inr (raw, hash)"
  shows "hash = HashToken raw" and "hasPrefix raw ''cr_''" and "raw \<noteq> []"
    and "solidChar (hd raw)" and "solidChar (last raw)" and "\<not> hasPrefix raw ''dev:''"
proof -
  obtain bs where raw: "raw = ''cr_'' @ base64RawURL bs" and h: "hash = HashToken raw"
    using assms by (auto simp: NewOpaqueToken_def res_iff Let_def)
  show "hash = HashToken raw" by (rule h)
  show "hasPrefix raw ''cr_''" "raw \<noteq> []" "\<not> hasPrefix raw ''dev:''"
    by (auto simp: raw hasPrefix_def)
  show "solidChar (hd raw)" by (simp add: raw solidChar_def)
  show "solidChar (last raw)"
  proof (cases "base64RawURL bs = []")
    case True
    then show ?thesis by (simp add: raw solidChar_def)
  next
    case False
    then have "last (base64RawURL bs) \<in> set base64Alphabet"
      using base64RawURL_alphabet last_in_set by blast
    with False show ?thesis by (simp add: raw alphabet_solid)
  qed
qed

text \<open>A fresh opaque token in a bearer header reaches the token lookup unchanged.\<close>

lemma Authenticate_bearer:
  assumes "raw \<noteq> []" and "solidChar (hd raw)" and "solidChar (last raw)"
  shows "Authenticate A R t (''Bearer '' @ raw) s = authenticateSecret A R t raw s"
proof -
  have "trimSpace (''Bearer '' @ raw) = ''Bearer '' @ raw"
    using assms by (intro trimSpace_solid) (auto simp: solidChar_def)
  moreover have "trimSpace raw = raw" using assms by (rule trimSpace_solid)
  moreover have "hasPrefix (''Bearer '' @ raw) ''Bearer ''" by (rule hasPrefix_append)
  moreover have "trimPrefix (''Bearer '' @ raw) ''Bearer '' = raw" by (rule trimPrefix_append)
  ultimately show ?thesis using assms(1) by (simp add: Authenticate_def Let_def)
qed

lemma parseInsecureToken_disabled:
  "\<not> hasPrefix raw ''dev:'' \<or> \<not> cfg_EnableInsecureDevAuth cfg \<Longrightarrow> parseInsecureToken cfg raw = None"
  by (auto simp: parseInsecureToken_def)

end
