(* ===== verification/MemoryLaws.thy ===== *)
theory MemoryLaws
  imports Memory Contract
begin

text \<open>
  The invariant of the in-memory repository, its preservation by every method, and the proof that
  the store keeps the contracts of the interface.  The two package maps, and the two account maps,
  hold the same records under two keys; every record is stored under the key it carries; the
  revisions of a package are numbered 1, 2, and so on in the order they were added; tracks have
  distinct names; sessions are unique.
\<close>

section \<open>The invariant\<close>

definition accounts_ok :: "memory \<Rightarrow> bool" where
  "accounts_ok m \<longleftrightarrow>
     (\<forall>subj a. map_of (accounts m) subj = Some a \<longrightarrow>
        acc_Subject a = subj \<and> map_of (accountsByID m) (acc_ID a) = Some a) \<and>
     (\<forall>i a. map_of (accountsByID m) i = Some a \<longrightarrow>
        acc_ID a = i \<and> map_of (accounts m) (acc_Subject a) = Some a)"

definition tokens_ok :: "memory \<Rightarrow> bool" where
  "tokens_ok m \<longleftrightarrow>
     wf_map (tokens m) \<and>
     (\<forall>h tok. map_of (tokens m) h = Some tok \<longrightarrow> tok_TokenHash tok = h) \<and>
     (\<forall>h h' tok tok'. map_of (tokens m) h = Some tok \<longrightarrow> map_of (tokens m) h' = Some tok' \<longrightarrow>
        tok_SessionID tok = tok_SessionID tok' \<longrightarrow> h = h')"

definition packages_ok :: "memory \<Rightarrow> bool" where
  "packages_ok m \<longleftrightarrow>
     wf_map (packages m) \<and> wf_map (packagesByID m) \<and>
     (\<forall>n p. map_of (packages m) n = Some p \<longrightarrow>
        pkg_Name p = n \<and> map_of (packagesByID m) (pkg_ID p) = Some p) \<and>
     (\<forall>i p. map_of (packagesByID m) i = Some p \<longrightarrow>
        pkg_ID p = i \<and> map_of (packages m) (pkg_Name p) = Some p
        \<and> distinct (map trk_Name (pkg_Tracks p)))"

definition uploads_ok :: "memory \<Rightarrow> bool" where
  "uploads_ok m \<longleftrightarrow> (\<forall>i u. map_of (uploads m) i = Some u \<longrightarrow> upl_ID u = i)"

definition revisions_ok :: "memory \<Rightarrow> bool" where
  "revisions_ok m \<longleftrightarrow>
     (\<forall>pid. map rev_Revision (at_key (revisions m) pid) =
              map (int \<circ> Suc) [0..<length (at_key (revisions m) pid)]
          \<and> (\<forall>r \<in> set (at_key (revisions m) pid). rev_PackageID r = pid))"

definition resources_ok :: "memory \<Rightarrow> bool" where
  "resources_ok m \<longleftrightarrow>
     (\<forall>pid. wf_map (at_key (resourceDefs m) pid)) \<and>
     (\<forall>pid n d. map_of (at_key (resourceDefs m) pid) n = Some d \<longrightarrow> rd_Name d = n \<and> rd_PackageID d = pid)"

definition releases_ok :: "memory \<Rightarrow> bool" where
  "releases_ok m \<longleftrightarrow>
     (\<forall>pid. wf_map (at_key (releases m) pid)) \<and>
     (\<forall>pid ch r. map_of (at_key (releases m) pid) ch = Some r \<longrightarrow>
        rel_Channel r = ch \<and> (\<exists>rv \<in> set (at_key (revisions m) pid). rev_Revision rv = rel_Revision r))"

definition memory_inv :: "memory \<Rightarrow> bool" where
  "memory_inv m \<longleftrightarrow>
     accounts_ok m \<and> tokens_ok m \<and> packages_ok m \<and> uploads_ok m \<and> revisions_ok m
     \<and> resources_ok m \<and> releases_ok m"

lemmas memory_inv_defs =
  memory_inv_def accounts_ok_def tokens_ok_def packages_ok_def uploads_ok_def revisions_ok_def
  resources_ok_def releases_ok_def

lemma memory_inv_new: "memory_inv NewMemory"
  by (simp add: memory_inv_defs NewMemory_def)

text \<open>A component depends only on its own maps.\<close>

lemma accounts_ok_frame [simp]:
  "accounts_ok (m\<lparr>tokens := x_tokens\<rparr>) = accounts_ok m"
  "accounts_ok (m\<lparr>packages := x_packages\<rparr>) = accounts_ok m"
  "accounts_ok (m\<lparr>packagesByID := x_packagesByID\<rparr>) = accounts_ok m"
  "accounts_ok (m\<lparr>uploads := x_uploads\<rparr>) = accounts_ok m"
  "accounts_ok (m\<lparr>revisions := x_revisions\<rparr>) = accounts_ok m"
  "accounts_ok (m\<lparr>resourceDefs := x_resourceDefs\<rparr>) = accounts_ok m"
  "accounts_ok (m\<lparr>resourceRevisions := x_resourceRevisions\<rparr>) = accounts_ok m"
  "accounts_ok (m\<lparr>releases := x_releases\<rparr>) = accounts_ok m"
  by (simp_all add: accounts_ok_def)

lemma tokens_ok_frame [simp]:
  "tokens_ok (m\<lparr>accounts := x_accounts\<rparr>) = tokens_ok m"
  "tokens_ok (m\<lparr>accountsByID := x_accountsByID\<rparr>) = tokens_ok m"
  "tokens_ok (m\<lparr>packages := x_packages\<rparr>) = tokens_ok m"
  "tokens_ok (m\<lparr>packagesByID := x_packagesByID\<rparr>) = tokens_ok m"
  "tokens_ok (m\<lparr>uploads := x_uploads\<rparr>) = tokens_ok m"
  "tokens_ok (m\<lparr>revisions := x_revisions\<rparr>) = tokens_ok m"
  "tokens_ok (m\<lparr>resourceDefs := x_resourceDefs\<rparr>) = tokens_ok m"
  "tokens_ok (m\<lparr>resourceRevisions := x_resourceRevisions\<rparr>) = tokens_ok m"
  "tokens_ok (m\<lparr>releases := x_releases\<rparr>) = tokens_ok m"
  by (simp_all add: tokens_ok_def)

lemma packages_ok_frame [simp]:
  "packages_ok (m\<lparr>accounts := x_accounts\<rparr>) = packages_ok m"
  "packages_ok (m\<lparr>accountsByID := x_accountsByID\<rparr>) = packages_ok m"
  "packages_ok (m\<lparr>tokens := x_tokens\<rparr>) = packages_ok m"
  "packages_ok (m\<lparr>uploads := x_uploads\<rparr>) = packages_ok m"
  "packages_ok (m\<lparr>revisions := x_revisions\<rparr>) = packages_ok m"
  "packages_ok (m\<lparr>resourceDefs := x_resourceDefs\<rparr>) = packages_ok m"
  "packages_ok (m\<lparr>resourceRevisions := x_resourceRevisions\<rparr>) = packages_ok m"
  "packages_ok (m\<lparr>releases := x_releases\<rparr>) = packages_ok m"
  by (simp_all add: packages_ok_def)

lemma uploads_ok_frame [simp]:
  "uploads_ok (m\<lparr>accounts := x_accounts\<rparr>) = uploads_ok m"
  "uploads_ok (m\<lparr>accountsByID := x_accountsByID\<rparr>) = uploads_ok m"
  "uploads_ok (m\<lparr>tokens := x_tokens\<rparr>) = uploads_ok m"
  "uploads_ok (m\<lparr>packages := x_packages\<rparr>) = uploads_ok m"
  "uploads_ok (m\<lparr>packagesByID := x_packagesByID\<rparr>) = uploads_ok m"
  "uploads_ok (m\<lparr>revisions := x_revisions\<rparr>) = uploads_ok m"
  "uploads_ok (m\<lparr>resourceDefs := x_resourceDefs\<rparr>) = uploads_ok m"
  "uploads_ok (m\<lparr>resourceRevisions := x_resourceRevisions\<rparr>) = uploads_ok m"
  "uploads_ok (m\<lparr>releases := x_releases\<rparr>) = uploads_ok m"
  by (simp_all add: uploads_ok_def)

lemma revisions_ok_frame [simp]:
  "revisions_ok (m\<lparr>accounts := x_accounts\<rparr>) = revisions_ok m"
  "revisions_ok (m\<lparr>accountsByID := x_accountsByID\<rparr>) = revisions_ok m"
  "revisions_ok (m\<lparr>tokens := x_tokens\<rparr>) = revisions_ok m"
  "revisions_ok (m\<lparr>packages := x_packages\<rparr>) = revisions_ok m"
  "revisions_ok (m\<lparr>packagesByID := x_packagesByID\<rparr>) = revisions_ok m"
  "revisions_ok (m\<lparr>uploads := x_uploads\<rparr>) = revisions_ok m"
  "revisions_ok (m\<lparr>resourceDefs := x_resourceDefs\<rparr>) = revisions_ok m"
  "revisions_ok (m\<lparr>resourceRevisions := x_resourceRevisions\<rparr>) = revisions_ok m"
  "revisions_ok (m\<lparr>releases := x_releases\<rparr>) = revisions_ok m"
  by (simp_all add: revisions_ok_def)

lemma resources_ok_frame [simp]:
  "resources_ok (m\<lparr>accounts := x_accounts\<rparr>) = resources_ok m"
  "resources_ok (m\<lparr>accountsByID := x_accountsByID\<rparr>) = resources_ok m"
  "resources_ok (m\<lparr>tokens := x_tokens\<rparr>) = resources_ok m"
  "resources_ok (m\<lparr>packages := x_packages\<rparr>) = resources_ok m"
  "resources_ok (m\<lparr>packagesByID := x_packagesByID\<rparr>) = resources_ok m"
  "resources_ok (m\<lparr>uploads := x_uploads\<rparr>) = resources_ok m"
  "resources_ok (m\<lparr>revisions := x_revisions\<rparr>) = resources_ok m"
  "resources_ok (m\<lparr>resourceRevisions := x_resourceRevisions\<rparr>) = resources_ok m"
  "resources_ok (m\<lparr>releases := x_releases\<rparr>) = resources_ok m"
  by (simp_all add: resources_ok_def)

lemma releases_ok_frame [simp]:
  "releases_ok (m\<lparr>accounts := x_accounts\<rparr>) = releases_ok m"
  "releases_ok (m\<lparr>accountsByID := x_accountsByID\<rparr>) = releases_ok m"
  "releases_ok (m\<lparr>tokens := x_tokens\<rparr>) = releases_ok m"
  "releases_ok (m\<lparr>packages := x_packages\<rparr>) = releases_ok m"
  "releases_ok (m\<lparr>packagesByID := x_packagesByID\<rparr>) = releases_ok m"
  "releases_ok (m\<lparr>uploads := x_uploads\<rparr>) = releases_ok m"
  "releases_ok (m\<lparr>resourceDefs := x_resourceDefs\<rparr>) = releases_ok m"
  "releases_ok (m\<lparr>resourceRevisions := x_resourceRevisions\<rparr>) = releases_ok m"
  by (simp_all add: releases_ok_def)

lemmas memory_ops =
  Memory_EnsureAccount_def Memory_GetAccountByID_def Memory_CreateStoreToken_def
  Memory_RevokeStoreToken_def Memory_FindStoreTokenByHash_def Memory_CreatePackage_def
  Memory_UpdatePackage_def Memory_DeletePackage_def Memory_GetPackageByName_def
  Memory_GetPackageByID_def Memory_CanViewPackage_def Memory_CanManagePackage_def
  Memory_CreateTracks_def Memory_CreateUpload_def Memory_GetUpload_def Memory_ApproveUpload_def
  Memory_CreateRevision_def Memory_GetRevisionByNumber_def Memory_GetLatestRevision_def
  Memory_UpsertResourceDefinition_def Memory_GetResourceDefinition_def
  Memory_CreateResourceRevision_def Memory_UpdateResourceRevision_def
  Memory_GetResourceRevision_def Memory_ReplaceRelease_def Memory_ResolveRelease_def

section \<open>Preservation\<close>

lemma memory_inv_EnsureAccount:
  assumes inv: "memory_inv m"
    and new: "map_of (accounts m) (acc_Subject a) = None \<Longrightarrow> map_of (accountsByID m) (acc_ID a) = None"
  shows "memory_inv (snd (Memory_EnsureAccount t a m))"
proof -
  let ?m = "snd (Memory_EnsureAccount t a m)"
  have "accounts_ok m" using inv by (simp add: memory_inv_def)
  then have "accounts_ok ?m"
    using new by (auto simp: accounts_ok_def Memory_EnsureAccount_def Let_def split: option.splits; metis)
  then show ?thesis
    using inv by (auto simp: memory_inv_def Memory_EnsureAccount_def Let_def split: option.splits)
qed

definition fresh_token :: "store_token \<Rightarrow> memory \<Rightarrow> bool" where
  "fresh_token tok m \<longleftrightarrow>
     map_of (tokens m) (tok_TokenHash tok) = None
     \<and> (\<forall>h tok'. map_of (tokens m) h = Some tok' \<longrightarrow> tok_SessionID tok' \<noteq> tok_SessionID tok)"

lemma memory_inv_CreateStoreToken:
  assumes inv: "memory_inv m" and "fresh_token tok m"
  shows "memory_inv (snd (Memory_CreateStoreToken tok m))"
proof -
  have "tokens_ok m" using inv by (simp add: memory_inv_def)
  then have "tokens_ok (snd (Memory_CreateStoreToken tok m))"
    using assms(2) unfolding tokens_ok_def fresh_token_def Memory_CreateStoreToken_def
    by (auto split: if_splits) metis+
  then show ?thesis using inv by (simp add: memory_inv_def Memory_CreateStoreToken_def)
qed

lemma revoke_hit:
  assumes "tokens_ok m" and "find (\<lambda>(h, tok). tok_AccountID tok = aid \<and> tok_SessionID tok = sid)
             (go_range sh (tokens m)) = Some (h, tok)"
  shows "map_of (tokens m) h = Some tok \<and> tok_AccountID tok = aid \<and> tok_SessionID tok = sid"
  using assms find_SomeD [OF assms(2)] by (auto simp: tokens_ok_def)

lemma memory_inv_RevokeStoreToken:
  assumes inv: "memory_inv m"
  shows "memory_inv (snd (Memory_RevokeStoreToken t sh aid sid by m))"
proof -
  let ?m = "snd (Memory_RevokeStoreToken t sh aid sid by m)"
  have ok: "tokens_ok m" using inv by (simp add: memory_inv_def)
  have "tokens_ok ?m"
  proof (cases "find (\<lambda>(h, tok). tok_AccountID tok = aid \<and> tok_SessionID tok = sid)
                  (go_range sh (tokens m))")
    case None
    then show ?thesis using ok by (simp add: Memory_RevokeStoreToken_def)
  next
    case (Some p)
    obtain h tok where p: "p = (h, tok)" by (cases p)
    have hit: "map_of (tokens m) h = Some tok" using revoke_hit [OF ok] Some p by blast
    show ?thesis
      using ok hit Some p unfolding tokens_ok_def Memory_RevokeStoreToken_def
      by (auto split: if_splits)
  qed
  then show ?thesis
    using inv by (auto simp: memory_inv_def Memory_RevokeStoreToken_def split: option.splits)
qed

lemma packages_ok_put:
  assumes ok: "packages_ok m" and d: "distinct (map trk_Name (pkg_Tracks p))"
    and slot: "map_of (packages m) (pkg_Name p) = None \<and> map_of (packagesByID m) (pkg_ID p) = None
      \<or> (\<exists>q. map_of (packages m) (pkg_Name p) = Some q \<and> pkg_ID q = pkg_ID p)"
  shows "packages_ok (m\<lparr>packages := AList.update (pkg_Name p) p (packages m),
                        packagesByID := AList.update (pkg_ID p) p (packagesByID m)\<rparr>)"
proof -
  have other: "pkg_Name p' = pkg_Name p \<longleftrightarrow> pkg_ID p' = pkg_ID p"
    if "map_of (packages m) n = Some p'" for n p'
  proof -
    have byID: "map_of (packagesByID m) (pkg_ID p') = Some p'" and n: "pkg_Name p' = n"
      using that ok by (simp_all add: packages_ok_def)
    from slot show ?thesis
    proof (elim disjE exE conjE)
      fix q
      assume q: "map_of (packages m) (pkg_Name p) = Some q" "pkg_ID q = pkg_ID p"
      then have "map_of (packagesByID m) (pkg_ID p) = Some q" "pkg_Name q = pkg_Name p"
        using ok unfolding packages_ok_def by metis+
      then show ?thesis using q byID n that by auto
    qed (use byID n that in auto)
  qed
  then have other': "pkg_Name p' = pkg_Name p \<longleftrightarrow> pkg_ID p' = pkg_ID p"
    if "map_of (packagesByID m) i = Some p'" for i p'
    using that ok unfolding packages_ok_def by metis
  show ?thesis
    using ok d other other' by (auto simp: packages_ok_def)
qed

lemma memory_inv_CreatePackage:
  assumes inv: "memory_inv m"
    and "map_of (packagesByID m) (pkg_ID p) = None" and "distinct (map trk_Name (pkg_Tracks p))"
  shows "memory_inv (snd (Memory_CreatePackage p m))"
  using assms packages_ok_put [of m p]
  by (auto simp: memory_inv_def Memory_CreatePackage_def split: option.splits)

lemma memory_inv_UpdatePackage:
  assumes inv: "memory_inv m" and "map_of (packages m) (pkg_Name p) = Some q" and "pkg_ID p = pkg_ID q"
    and "distinct (map trk_Name (pkg_Tracks p))"
  shows "memory_inv (snd (Memory_UpdatePackage p m))"
  using assms packages_ok_put [of m p]
  by (auto simp: memory_inv_def Memory_UpdatePackage_def split: option.splits)

lemma memory_inv_DeletePackage:
  assumes inv: "memory_inv m"
  shows "memory_inv (snd (Memory_DeletePackage pid m))"
proof -
  have "packages_ok m" using inv by (simp add: memory_inv_def)
  then have "packages_ok (snd (Memory_DeletePackage pid m))"
    unfolding packages_ok_def Memory_DeletePackage_def
    by (auto split: option.splits if_splits; metis)
  then show ?thesis
    using inv by (auto simp: memory_inv_def Memory_DeletePackage_def split: option.splits)
qed

lemma addTracks_names:
  "distinct (map trk_Name ts) \<Longrightarrow> distinct (map trk_Name (fst (addTracks ts n new)))"
proof (induction ts n new rule: addTracks.induct)
  case (2 existing created track ts)
  show ?case
  proof (cases "\<exists>e \<in> set existing. trk_Name e = trk_Name track")
    case True
    with 2 show ?thesis by simp
  next
    case False
    then have "distinct (map trk_Name (existing @ [track]))" using 2 by (auto simp: image_iff)
    with 2(2) [OF False] False show ?thesis by simp
  qed
qed simp

lemma memory_inv_CreateTracks:
  assumes inv: "memory_inv m"
  shows "memory_inv (snd (Memory_CreateTracks pid ts m))"
proof (cases "map_of (packagesByID m) pid")
  case None
  then show ?thesis using inv by (simp add: Memory_CreateTracks_def)
next
  case (Some p)
  let ?p = "p\<lparr>pkg_Tracks := fst (addTracks (pkg_Tracks p) 0 ts)\<rparr>"
  have ok: "packages_ok m" using inv by (simp add: memory_inv_def)
  then have p: "pkg_ID p = pid" "map_of (packages m) (pkg_Name p) = Some p"
    "distinct (map trk_Name (pkg_Tracks p))"
    using Some by (simp_all add: packages_ok_def)
  then have "distinct (map trk_Name (pkg_Tracks ?p))" by (auto intro: addTracks_names)
  then have "packages_ok (m\<lparr>packages := AList.update (pkg_Name ?p) ?p (packages m),
                        packagesByID := AList.update (pkg_ID ?p) ?p (packagesByID m)\<rparr>)"
    using p by (intro packages_ok_put [OF ok]) auto
  moreover have "snd (Memory_CreateTracks pid ts m) =
      m\<lparr>packages := AList.update (pkg_Name ?p) ?p (packages m),
        packagesByID := AList.update (pkg_ID ?p) ?p (packagesByID m)\<rparr>"
    using Some p(1) by (simp add: Memory_CreateTracks_def Let_def case_prod_beta)
  ultimately show ?thesis using inv by (simp only: memory_inv_def) simp
qed

lemma memory_inv_CreateUpload:
  assumes inv: "memory_inv m"
  shows "memory_inv (snd (Memory_CreateUpload u m))"
  using inv by (simp add: memory_inv_def Memory_CreateUpload_def) (auto simp: uploads_ok_def)

lemma memory_inv_ApproveUpload:
  assumes inv: "memory_inv m"
  shows "memory_inv (snd (Memory_ApproveUpload t uid n errs m))"
proof -
  have "uploads_ok m" using inv by (simp add: memory_inv_def)
  then have "uploads_ok (snd (Memory_ApproveUpload t uid n errs m))"
    by (auto simp: uploads_ok_def Memory_ApproveUpload_def Let_def split: option.splits)
  then show ?thesis
    using inv by (auto simp: memory_inv_def Memory_ApproveUpload_def Let_def split: option.splits)
qed

lemma memory_inv_CreateRevision:
  assumes inv: "memory_inv m"
    and next_rev: "rev_Revision rv = int (Suc (length (at_key (revisions m) (rev_PackageID rv))))"
  shows "memory_inv (snd (Memory_CreateRevision rv m))"
proof -
  have ok: "revisions_ok m" "releases_ok m" using inv by (simp_all add: memory_inv_def)
  have "revisions_ok (snd (Memory_CreateRevision rv m))"
    using ok(1) next_rev by (auto simp: revisions_ok_def Memory_CreateRevision_def)
  moreover have "releases_ok (snd (Memory_CreateRevision rv m))"
    using ok(2) by (fastforce simp: releases_ok_def Memory_CreateRevision_def)
  ultimately show ?thesis
    using inv by (simp add: memory_inv_def Memory_CreateRevision_def)
qed

lemma memory_inv_UpsertResourceDefinition:
  assumes inv: "memory_inv m"
  shows "memory_inv (snd (Memory_UpsertResourceDefinition d m))"
proof -
  have "resources_ok m" using inv by (simp add: memory_inv_def)
  then have "resources_ok (snd (Memory_UpsertResourceDefinition d m))"
    by (auto simp: resources_ok_def Memory_UpsertResourceDefinition_def split: if_splits)
  then show ?thesis
    using inv by (simp add: memory_inv_def Memory_UpsertResourceDefinition_def)
qed

lemma memory_inv_CreateResourceRevision:
  "memory_inv m \<Longrightarrow> memory_inv (snd (Memory_CreateResourceRevision rv m))"
  by (simp add: memory_inv_def Memory_CreateResourceRevision_def)

lemma memory_inv_UpdateResourceRevision:
  "memory_inv m \<Longrightarrow> memory_inv (snd (Memory_UpdateResourceRevision rv m))"
  by (auto simp: memory_inv_def Memory_UpdateResourceRevision_def split: option.splits)

lemma memory_inv_ReplaceRelease:
  assumes inv: "memory_inv m" and "Memory_GetRevisionByNumber pid (rel_Revision rl) m = Inr rv"
  shows "memory_inv (snd (Memory_ReplaceRelease pid rl m))"
proof -
  have "rv \<in> set (at_key (revisions m) pid) \<and> rev_Revision rv = rel_Revision rl"
    using assms(2) by (auto simp: Memory_GetRevisionByNumber_def res_iff dest: find_SomeD)
  moreover have "releases_ok m" using inv by (simp add: memory_inv_def)
  ultimately have "releases_ok (snd (Memory_ReplaceRelease pid rl m))"
    by (auto simp: releases_ok_def Memory_ReplaceRelease_def split: if_splits)
  then show ?thesis
    using inv by (simp add: memory_inv_def Memory_ReplaceRelease_def)
qed


section \<open>The store keeps the contracts\<close>

interpretation mem_accounts: account_store memory_repo memory_inv
  by unfold_locales
    (auto simp: memory_ops Let_def memory_inv_def accounts_ok_def split: option.splits)

interpretation mem_tokens: token_store memory_repo memory_inv fresh_token "\<lambda>tok. tok"
proof unfold_locales
  fix tok s u s' a
  assume "memory_inv s" "fresh_token tok s" "CreateStoreToken memory_repo tok s = (Inr u, s')"
  moreover assume "GetAccountByID memory_repo (tok_AccountID tok) s = Inr a"
  ultimately show "FindStoreTokenByHash memory_repo (tok_TokenHash tok) s' = Inr (tok, a)"
    by (auto simp: memory_ops res_iff)
next
  fix tok s u s'
  assume "memory_inv s" "fresh_token tok s" "CreateStoreToken memory_repo tok s = (Inr u, s')"
  then show "memory_inv s'" using memory_inv_CreateStoreToken [of s tok] by simp
next
  fix s h tok a t sh "by" u s'
  assume inv: "memory_inv s" and f: "FindStoreTokenByHash memory_repo h s = Inr (tok, a)"
    and r: "RevokeStoreToken memory_repo t sh (tok_AccountID tok) (tok_SessionID tok) by s = (Inr u, s')"
  have ok: "tokens_ok s" using inv by (simp add: memory_inv_def)
  obtain h' tok' where hit: "find (\<lambda>(h, t). tok_AccountID t = tok_AccountID tok \<and> tok_SessionID t = tok_SessionID tok)
        (go_range sh (tokens s)) = Some (h', tok')"
    using r by (auto simp: Memory_RevokeStoreToken_def split: option.splits)
  from revoke_hit [OF ok hit] f ok have h: "h' = h"
    by (auto simp: tokens_ok_def Memory_FindStoreTokenByHash_def res_iff)
  moreover from revoke_hit [OF ok hit] f h have "tok' = tok"
    by (auto simp: Memory_FindStoreTokenByHash_def res_iff)
  ultimately show "\<exists>tok'. FindStoreTokenByHash memory_repo h s' = Inr (tok', a) \<and> tok_RevokedAt tok' \<noteq> None"
    using r hit f by (auto simp: Memory_RevokeStoreToken_def Memory_FindStoreTokenByHash_def res_iff)
next
  fix s h tok a t sh aid sid "by" r s'
  assume inv: "memory_inv s" and f: "FindStoreTokenByHash memory_repo h s = Inr (tok, a)"
    and r: "RevokeStoreToken memory_repo t sh aid sid by s = (r, s')"
    and other: "tok_AccountID tok \<noteq> aid \<or> tok_SessionID tok \<noteq> sid"
  have ok: "tokens_ok s" using inv by (simp add: memory_inv_def)
  show "FindStoreTokenByHash memory_repo h s' = Inr (tok, a)"
  proof (cases "find (\<lambda>(h, tok). tok_AccountID tok = aid \<and> tok_SessionID tok = sid) (go_range sh (tokens s))")
    case None
    then show ?thesis using r f by (simp add: Memory_RevokeStoreToken_def)
  next
    case (Some p)
    obtain h' tok' where p: "p = (h', tok')" by (cases p)
    from revoke_hit [OF ok Some [unfolded p]] other f have "h' \<noteq> h"
      by (auto simp: Memory_FindStoreTokenByHash_def res_iff)
    then show ?thesis using r f Some p
      by (auto simp: Memory_RevokeStoreToken_def Memory_FindStoreTokenByHash_def res_iff)
  qed
qed simp

interpretation mem_packages: package_store memory_repo memory_inv
  by unfold_locales (auto simp: memory_ops memory_inv_def packages_ok_def res_iff)

lemma revision_numbers:
  assumes "revisions_ok m"
  shows "r \<in> set (at_key (revisions m) pid) \<Longrightarrow>
           1 \<le> rev_Revision r \<and> rev_Revision r \<le> int (length (at_key (revisions m) pid))"
    and "i < length (at_key (revisions m) pid) \<Longrightarrow> rev_Revision (at_key (revisions m) pid ! i) = int (Suc i)"
proof -
  have eq: "map rev_Revision (at_key (revisions m) pid) =
      map (int \<circ> Suc) [0..<length (at_key (revisions m) pid)]"
    using assms by (simp add: revisions_ok_def)
  show nth: "rev_Revision (at_key (revisions m) pid ! i) = int (Suc i)"
    if "i < length (at_key (revisions m) pid)" for i
    using arg_cong [OF eq, of "\<lambda>xs. xs ! i"] that by simp
  show "1 \<le> rev_Revision r \<and> rev_Revision r \<le> int (length (at_key (revisions m) pid))"
    if "r \<in> set (at_key (revisions m) pid)"
    using that nth by (auto simp: in_set_conv_nth)
qed

lemma latest_number:
  assumes "revisions_ok m" and "Memory_GetLatestRevision pid m = Inr l"
  shows "rev_Revision l = int (length (at_key (revisions m) pid))"
  using assms(2) revision_numbers(2) [OF assms(1), of "length (at_key (revisions m) pid) - 1" pid]
  by (auto simp: Memory_GetLatestRevision_def Let_def last_conv_nth split: if_splits)

interpretation mem_revisions: revision_store memory_repo memory_inv
proof unfold_locales
  fix s pid n l r
  assume inv: "memory_inv s" and l: "GetLatestRevision memory_repo pid s = Inr l"
    and g: "GetRevisionByNumber memory_repo pid n s = Inr r"
  then have "revisions_ok s" by (simp add: memory_inv_def)
  with l g show "n \<le> rev_Revision l"
    using revision_numbers(1) [of s r pid] latest_number [of s pid l]
    by (auto simp: Memory_GetRevisionByNumber_def res_iff dest: find_SomeD)
next
  fix pkg :: package and s u s' pid n
  assume "UpdatePackage memory_repo pkg s = (u, s')"
  then show "GetRevisionByNumber memory_repo pid n s' = GetRevisionByNumber memory_repo pid n s"
    by (auto simp: Memory_UpdatePackage_def Memory_GetRevisionByNumber_def Let_def split: if_splits option.splits)
qed (auto simp: memory_ops res_iff Let_def find_append split: if_splits option.splits)

interpretation mem_releases: release_store memory_repo memory_inv
proof unfold_locales
  fix s pid rl rv u s'
  assume "memory_inv s" "GetRevisionByNumber memory_repo pid (rel_Revision rl) s = Inr rv"
    "ReplaceRelease memory_repo pid rl s = (Inr u, s')"
  then show "memory_inv s'" using memory_inv_ReplaceRelease [of s pid rl rv] by simp
next
  fix pkg :: package and s u s' pid ch
  assume "UpdatePackage memory_repo pkg s = (u, s')"
  then show "ResolveRelease memory_repo pid ch s' = ResolveRelease memory_repo pid ch s"
    by (auto simp: Memory_UpdatePackage_def Memory_ResolveRelease_def split: option.splits)
qed (auto simp: memory_ops res_iff)

text \<open>Every release of a package points to one of its revisions.\<close>

lemma release_has_revision:
  assumes "memory_inv m" and "rl \<in> set (map snd (at_key (releases m) pid))"
  shows "\<exists>rv. Memory_GetRevisionByNumber pid (rel_Revision rl) m = Inr rv"
proof -
  have ok: "releases_ok m" using assms(1) by (simp add: memory_inv_def)
  then have "wf_map (at_key (releases m) pid)" by (simp add: releases_ok_def)
  then obtain ch where "map_of (at_key (releases m) pid) ch = Some rl"
    using assms(2) in_snd_map_of [of "at_key (releases m) pid" rl] by auto
  with ok obtain rv where "rv \<in> set (at_key (revisions m) pid)" "rev_Revision rv = rel_Revision rl"
    unfolding releases_ok_def by blast
  then have "find (\<lambda>item. rev_Revision item = rel_Revision rl) (at_key (revisions m) pid) \<noteq> None"
    by (auto simp: find_None_all)
  then show ?thesis by (auto simp: Memory_GetRevisionByNumber_def)
qed

end
