(* ===== verification/Examples.thy ===== *)
theory Examples
  imports Access MemoryLaws
begin

text \<open>
  Concrete inputs for the witnesses: two accounts, a small configuration, an environment whose clock
  stands still, and an in-memory repository with one private charm that has two revisions, a resource
  and two releases.
\<close>

definition alice :: account where
  "alice =
     \<lparr>acc_ID = ''a1'', acc_Subject = ''sub-alice'', acc_Username = ''alice'', acc_DisplayName = ''Alice'',
      acc_Email = ''alice@example.com'', acc_Validation = ''verified'', acc_CreatedAt = 1\<rparr>"

definition bob :: account where
  "bob =
     \<lparr>acc_ID = ''a2'', acc_Subject = ''sub-bob'', acc_Username = ''bob'', acc_DisplayName = ''Bob'',
      acc_Email = ''bob@example.com'', acc_Validation = ''verified'', acc_CreatedAt = 1\<rparr>"

definition alice_in :: identity where
  "alice_in = \<lparr>idn_Account = alice, idn_Token = None, idn_Authenticated = True\<rparr>"

definition bob_in :: identity where
  "bob_in = \<lparr>idn_Account = bob, idn_Token = None, idn_Authenticated = True\<rparr>"

text \<open>A token of Alice's for the channel \<^verbatim>\<open>latest/edge\<close> of one package.\<close>

definition edge_token :: store_token where
  "edge_token =
     \<lparr>tok_SessionID = ''s1'', tok_TokenHash = ''h1'', tok_AccountID = ''a1'', tok_Description = None,
      tok_Packages = [\<lparr>sel_ID = [], sel_Name = ''demo'', sel_Type = []\<rparr>],
      tok_Channels = [''latest/edge''], tok_Permissions = [''package-manage''],
      tok_ValidSince = 10, tok_ValidUntil = 5000, tok_RevokedAt = None, tok_RevokedBy = None\<rparr>"

definition alice_edge :: identity where
  "alice_edge = alice_in\<lparr>idn_Token := Some edge_token\<rparr>"

definition ex_cfg :: config where
  "ex_cfg =
     \<lparr>cfg_ListenAddress = '':8080'', cfg_PublicAPIURL = ''http://api'', cfg_PublicStorageURL = ''http://st'',
      cfg_PublicRegistryURL = ''https://reg'', cfg_DatabaseURL = ''db'', cfg_S3Bucket = ''charms'',
      cfg_S3Region = ''eu'', cfg_S3Endpoint = [], cfg_S3AccessKeyID = [], cfg_S3SecretAccessKey = [],
      cfg_S3UsePathStyle = True, cfg_S3DisableTLS = False, cfg_OIDCIssuerURL = [], cfg_OIDCClientID = [],
      cfg_OIDCUsernameClaim = ''preferred_username'', cfg_OIDCDisplayNameClaim = ''name'',
      cfg_OIDCEmailClaim = ''email'', cfg_EnableInsecureDevAuth = False, cfg_RegistryUsername = ''u'',
      cfg_RegistryPassword = ''p'', cfg_RegistryRepositoryRoot = ''charms'',
      cfg_ServerReadHeaderTimeout = 10000000000, cfg_ServerReadTimeout = 30000000000,
      cfg_ServerWriteTimeout = 30000000000, cfg_ServerIdleTimeout = 120000000000,
      cfg_ServerShutdownTimeout = 30000000000, cfg_ServerMaxHeaderBytes = 1048576,
      cfg_MaxJSONBodyBytes = 1048576, cfg_MaxUploadBytes = 67108864\<rparr>"

text \<open>The clock shows 1000; the identifiers are \<^verbatim>\<open>n\<close>, \<^verbatim>\<open>nn\<close>, and so on.\<close>

definition ex_env :: ambient where
  "ex_env = plain_ambient 1000 (\<lambda>i. replicate (Suc i) CHR ''n'')"

definition demo :: package where
  "demo =
     \<lparr>pkg_ID = ''p1'', pkg_Name = ''demo'', pkg_Type = ''charm'', pkg_Private = True,
      pkg_Status = ''published'', pkg_OwnerAccountID = ''a1'', pkg_Authority = None, pkg_Contact = None,
      pkg_DefaultTrack = Some ''latest'', pkg_Description = None, pkg_Summary = Some ''A demo'',
      pkg_Title = Some ''Demo'', pkg_Website = None, pkg_Links = [], pkg_Media = [],
      pkg_TrackGuardrails = [],
      pkg_Tracks = [\<lparr>trk_Name = ''latest'', trk_VersionPattern = None,
                     trk_AutomaticPhasingPercentage = None, trk_CreatedAt = 5\<rparr>],
      pkg_Publisher = \<lparr>pub_ID = ''a1'', pub_Username = ''alice'', pub_DisplayName = ''Alice'',
                       pub_Email = ''alice@example.com'', pub_Validation = ''verified''\<rparr>,
      pkg_Store = ''http://api'', pkg_CreatedAt = 5, pkg_UpdatedAt = 5\<rparr>"

definition demo_revision :: "int \<Rightarrow> string \<Rightarrow> revision" where
  "demo_revision n key =
     \<lparr>rev_ID = ''r'' @ itoa n, rev_PackageID = ''p1'', rev_Revision = n, rev_Version = itoa n,
      rev_Status = ''approved'', rev_CreatedAt = 20, rev_CreatedBy = ''a1'', rev_Size = 3,
      rev_SHA256 = ''x'', rev_SHA384 = ''y'', rev_ObjectKey = key, rev_MetadataYAML = ''name: demo'',
      rev_ConfigYAML = [], rev_ActionsYAML = [], rev_BundleYAML = [], rev_ReadmeMD = [],
      rev_Bases = [mkBase ''ubuntu'' ''22.04'' ''amd64''], rev_Attributes = [], rev_Relations = [],
      rev_Subordinate = False, rev_Resources = []\<rparr>"

definition demo_release :: "string \<Rightarrow> int \<Rightarrow> release" where
  "demo_release channel n =
     \<lparr>rel_ID = ''l1'', rel_PackageID = [], rel_Channel = channel, rel_Revision = n, rel_Base = None,
      rel_Resources = [\<lparr>ref_Name = ''img'', ref_Revision = Some 1\<rparr>], rel_When = 30,
      rel_ExpirationDate = None, rel_Progressive = None\<rparr>"

definition demo_resource :: resource_definition where
  "demo_resource =
     \<lparr>rd_ID = ''d1'', rd_PackageID = ''p1'', rd_Name = ''img'', rd_Type = ''file'',
      rd_Description = ''an image'', rd_Filename = ''img.bin'', rd_Optional = False, rd_CreatedAt = 20\<rparr>"

definition demo_resource_revision :: resource_revision where
  "demo_resource_revision =
     \<lparr>rr_ID = ''e1'', rr_ResourceID = ''d1'', rr_Name = ''img'', rr_Type = ''file'',
      rr_Description = ''an image'', rr_Filename = ''img.bin'', rr_Revision = 1, rr_CreatedAt = 21,
      rr_Size = 3, rr_SHA256 = ''x'', rr_SHA384 = ''y'', rr_SHA512 = ''z'', rr_SHA3384 = ''y'',
      rr_ObjectKey = ''uploads/u2/img.bin'', rr_Bases = [], rr_Architectures = [],
      rr_OCIImageDigest = [], rr_OCIImageBlob = [], rr_Download = zero_download\<rparr>"

definition demo_upload :: upload where
  "demo_upload =
     \<lparr>upl_ID = ''u1'', upl_Filename = ''demo.charm'', upl_ObjectKey = ''uploads/u1/demo.charm'',
      upl_Size = 3, upl_SHA256 = ''x'', upl_SHA384 = ''y'', upl_Status = ''pending'',
      upl_Kind = ''revision'', upl_CreatedAt = 19, upl_ApprovedAt = None, upl_Revision = None,
      upl_Errors = []\<rparr>"

definition shop :: memory where
  "shop =
     \<lparr>accounts = [(''sub-alice'', alice), (''sub-bob'', bob)],
      accountsByID = [(''a1'', alice), (''a2'', bob)],
      tokens = [(''h1'', edge_token)],
      packages = [(''demo'', demo)], packagesByID = [(''p1'', demo)],
      uploads = [(''u1'', demo_upload)],
      revisions = [(''p1'', [demo_revision 1 ''uploads/u1/demo.charm'', demo_revision 2 ''uploads/u9/demo.charm''])],
      resourceDefs = [(''p1'', [(''img'', demo_resource)])],
      resourceRevisions = [(''d1'', [demo_resource_revision])],
      releases = [(''p1'', [(''latest/stable'', demo_release ''latest/stable'' 1),
                            (''latest/edge'', demo_release ''latest/edge'' 2)])]\<rparr>"

definition shop_blobs :: memory_store where
  "shop_blobs = [(''uploads/u1/demo.charm'', ''zip''), (''uploads/u2/img.bin'', ''img'')]"

lemmas ex_defs =
  alice_def bob_def alice_in_def bob_in_def edge_token_def alice_edge_def ex_cfg_def ex_env_def demo_def
  demo_revision_def demo_release_def demo_resource_def demo_resource_revision_def demo_upload_def
  shop_def shop_blobs_def

lemma shop_inv: "memory_inv shop"
proof -
  have "revisions_ok shop" by (simp add: revisions_ok_def shop_def demo_revision_def)
  moreover have "releases_ok shop"
    by (auto simp: releases_ok_def shop_def demo_revision_def demo_release_def split: if_splits)
  moreover have "accounts_ok shop" by (auto simp: accounts_ok_def shop_def alice_def bob_def split: if_splits)
  ultimately show ?thesis
    by (auto simp: memory_inv_def tokens_ok_def packages_ok_def uploads_ok_def resources_ok_def
        shop_def demo_def demo_upload_def edge_token_def demo_resource_def split: if_splits)
qed

end
