(* ===== verification/Tokens.thy ===== *)
theory Tokens
  imports Auth Examples
begin

text \<open>
  \<^verbatim>\<open>internal/service/tokens.go\<close>: from authenticated claims to an account, and the life of store tokens
  (issue, exchange, list, revoke).  The lemmas say how a token's rights and life time come from the
  request, and that an issued token authenticates its account until it expires or is revoked.
\<close>

section \<open>Identities\<close>

text \<open>The account record \<^verbatim>\<open>ResolveIdentity\<close> upserts.\<close>

definition accountOfClaims :: "string \<Rightarrow> time \<Rightarrow> claims \<Rightarrow> account" where
  "accountOfClaims accID t claims =
     \<lparr>acc_ID = accID,
      acc_Subject = cl_Subject claims,
      acc_Username =
        firstNonEmpty [cl_Username claims, replaceChar CHR ''|'' ''_'' (cl_Subject claims)],
      acc_DisplayName =
        firstNonEmpty [cl_DisplayName claims, cl_Username claims, cl_Subject claims],
      acc_Email =
        firstNonEmpty [cl_Email claims, sanitizeSubject (cl_Subject claims) @ ''@example.invalid''],
      acc_Validation = ''verified'',
      acc_CreatedAt = t\<rparr>"

definition ResolveIdentity ::
    "('s, 'b) service \<Rightarrow> ambient \<Rightarrow> claims \<Rightarrow> store_token option \<Rightarrow> 's \<Rightarrow> identity res \<times> 's" where
  "ResolveIdentity S E claims storeToken s =
     (if cl_Subject claims = [] then (Inr anonymous, s)
      else
        st_bind (EnsureAccount (svc_repo S) (now E 1) (accountOfClaims (uuid E 0) (now E 0) claims) s)
          (\<lambda>account s1.
            (Inr \<lparr>idn_Account = account, idn_Token = storeToken, idn_Authenticated = True\<rparr>, s1)))"

section \<open>Issuing\<close>

record issue_token_request =
  itr_Description :: "string option"
  itr_TTL :: "int option"
  itr_Permissions :: "string list"
  itr_Packages :: "package_selector list"
  itr_Channels :: "string list"

text \<open>\<^verbatim>\<open>time.Duration(n) * time.Second\<close>: nanoseconds in 64 bits, the product wraps around.\<close>

definition durationSeconds :: "int \<Rightarrow> int" where
  "durationSeconds n = sint (word_of_int n * word_of_int 1000000000 :: 64 word)"

text \<open>\<^verbatim>\<open>30 * time.Hour\<close>\<close>

definition defaultTTL :: int where
  "defaultTTL = 30 * 3600 * 1000000000"

definition tokenTTL :: "int option \<Rightarrow> int" where
  "tokenTTL ttl =
     (case ttl of Some n \<Rightarrow> if n > 0 then durationSeconds n else defaultTTL | None \<Rightarrow> defaultTTL)"

definition IssueStoreToken ::
    "('s, 'b) service \<Rightarrow> ambient \<Rightarrow> identity \<Rightarrow> issue_token_request \<Rightarrow> 's
       \<Rightarrow> (string \<times> store_token) res \<times> 's" where
  "IssueStoreToken S E identity req s =
     rd_bind (requireAuth identity) s (\<lambda>_.
     let permissions = (if itr_Permissions req = [] then defaultPermissions else itr_Permissions req);
         ttl = tokenTTL (itr_TTL req) in
     rd_bind (NewOpaqueToken (rand E)) s (\<lambda>(raw, hash).
     let t = now E 0;
         token = \<lparr>tok_SessionID = uuid E 0, tok_TokenHash = hash,
                  tok_AccountID = acc_ID (idn_Account identity),
                  tok_Description = itr_Description req, tok_Packages = itr_Packages req,
                  tok_Channels = itr_Channels req, tok_Permissions = permissions,
                  tok_ValidSince = t, tok_ValidUntil = t + ttl,
                  tok_RevokedAt = None, tok_RevokedBy = None\<rparr> in
     st_bind (CreateStoreToken (svc_repo S) token s) (\<lambda>_ s1. (Inr (raw, token), s1))))"

definition exchangeRequest :: "identity \<Rightarrow> string option \<Rightarrow> issue_token_request" where
  "exchangeRequest identity description =
     (case idn_Token identity of
        None \<Rightarrow> \<lparr>itr_Description = description, itr_TTL = None, itr_Permissions = [],
                 itr_Packages = [], itr_Channels = []\<rparr>
      | Some token \<Rightarrow>
          \<lparr>itr_Description = description, itr_TTL = None, itr_Permissions = tok_Permissions token,
           itr_Packages = tok_Packages token, itr_Channels = tok_Channels token\<rparr>)"

definition ExchangeStoreToken ::
    "('s, 'b) service \<Rightarrow> ambient \<Rightarrow> identity \<Rightarrow> string option \<Rightarrow> 's \<Rightarrow> string res \<times> 's" where
  "ExchangeStoreToken S E identity description s =
     st_bind (IssueStoreToken S E identity (exchangeRequest identity description) s)
       (\<lambda>(raw, _) s1. (Inr raw, s1))"

section \<open>Listing and revoking\<close>

definition Service_ListStoreTokens ::
    "('s, 'b) service \<Rightarrow> ambient \<Rightarrow> identity \<Rightarrow> bool \<Rightarrow> 's \<Rightarrow> store_token list res" where
  "Service_ListStoreTokens S E identity includeInactive s =
     res_bind (requireAuth identity) (\<lambda>_.
     ListStoreTokens (svc_repo S) (now E) (order E 0) (acc_ID (idn_Account identity)) includeInactive s)"

definition Service_RevokeStoreToken ::
    "('s, 'b) service \<Rightarrow> ambient \<Rightarrow> identity \<Rightarrow> string \<Rightarrow> 's \<Rightarrow> unit res \<times> 's" where
  "Service_RevokeStoreToken S E identity sessionID s =
     rd_bind (requireAuth identity) s (\<lambda>_.
     RevokeStoreToken (svc_repo S) (now E 0) (order E 0) (acc_ID (idn_Account identity)) sessionID
       (acc_ID (idn_Account identity)) s)"

section \<open>Who am I\<close>

definition accountFields :: "account \<Rightarrow> document" where
  "accountFields account =
     [(''display-name'', VStr (acc_DisplayName account)),
      (''email'', VStr (acc_Email account)),
      (''id'', VStr (acc_ID account)),
      (''username'', VStr (acc_Username account)),
      (''validation'', VStr (acc_Validation account))]"

definition MacaroonInfo :: "identity \<Rightarrow> document res" where
  "MacaroonInfo identity =
     res_bind (requireAuth identity) (\<lambda>_.
     let packages = (case idn_Token identity of None \<Rightarrow> [] | Some token \<Rightarrow> tok_Packages token);
         channels = (case idn_Token identity of None \<Rightarrow> [] | Some token \<Rightarrow> tok_Channels token);
         permissions = (case idn_Token identity of None \<Rightarrow> [] | Some token \<Rightarrow> tok_Permissions token) in
     Inr [(''account'', VMap (accountFields (idn_Account identity))),
          (''packages'', VSelectors packages),
          (''channels'', VStrings channels),
          (''permissions'', VStrings permissions)])"

definition DeprecatedWhoAmI :: "identity \<Rightarrow> document res" where
  "DeprecatedWhoAmI identity =
     res_bind (requireAuth identity) (\<lambda>_. Inr (accountFields (idn_Account identity)))"

section \<open>Lemmas\<close>

lemma HashToken_neq: "length h \<noteq> 64 \<Longrightarrow> HashToken raw \<noteq> h"
  by auto

lemma requireAuth_simps [simp]:
  "idn_Authenticated identity \<Longrightarrow> requireAuth identity = Inr ()"
  "\<not> idn_Authenticated identity \<Longrightarrow> requireAuth identity = Inl (ServiceError 401 ''unauthorized'' ''authentication required'')"
  by (simp_all add: requireAuth_def newError_def)

lemma IssueStoreToken_Inr:
  assumes "IssueStoreToken S E identity req s = (Inr (raw, tok), s')"
  shows "idn_Authenticated identity"
    and "NewOpaqueToken (rand E) = Inr (raw, tok_TokenHash tok)"
    and "CreateStoreToken (svc_repo S) tok s = (Inr (), s')"
    and "tok_AccountID tok = acc_ID (idn_Account identity)"
    and "tok_Packages tok = itr_Packages req" and "tok_Channels tok = itr_Channels req"
    and "tok_Permissions tok = (if itr_Permissions req = [] then defaultPermissions else itr_Permissions req)"
    and "tok_ValidSince tok = now E 0" and "tok_ValidUntil tok = now E 0 + tokenTTL (itr_TTL req)"
    and "tok_RevokedAt tok = None" and "tok_SessionID tok = uuid E 0"
  using assms by (auto simp: IssueStoreToken_def res_iff Let_def)

lemma tokenTTL_in_range:
  assumes "0 < n" and "n \<le> 9223372036"
  shows "tokenTTL (Some n) = n * 1000000000"
proof -
  have "durationSeconds n = sint (word_of_int (n * 1000000000) :: 64 word)"
    by (simp add: durationSeconds_def flip: wi_hom_mult)
  also have "\<dots> = n * 1000000000"
    using assms unfolding sint_sbintrunc' by (intro signed_take_bit_int_eq_self) simp_all
  finally show ?thesis using assms by (simp add: tokenTTL_def)
qed

context token_store
begin

lemma issued_authenticates:
  assumes S: "svc_repo S = R" and inv: "inv s" and new: "fresh tok s"
    and acc: "GetAccountByID R (acc_ID (idn_Account identity)) s = Inr account"
    and issue: "IssueStoreToken S E identity req s = (Inr (raw, tok), s')"
    and time: "t \<le> tok_ValidUntil (kept tok)"
  shows "Authenticate A R t (''Bearer '' @ raw) s' = Inr (claimsOfAccount account, Some (kept tok))"
proof -
  note i = IssueStoreToken_Inr [OF issue]
  note raw = newOpaqueToken_raw [OF i(2)]
  have "FindStoreTokenByHash R (HashToken raw) s' = Inr (kept tok, account)"
    using find_created [OF inv new] i(3,4) S acc raw(1) by simp
  moreover have "parseInsecureToken (au_config A) raw = None"
    using raw(6) by (intro parseInsecureToken_disabled) simp
  ultimately have "authenticateSecret A R t raw s' = Inr (claimsOfAccount account, Some (kept tok))"
    using i(10) time by (simp add: authenticateSecret_def tokenDead_def kept_unrevoked)
  then show ?thesis by (simp only: Authenticate_bearer [OF raw(3-5)])
qed

lemma revoked_rejected:
  assumes S: "svc_repo S = R" and inv: "inv s"
    and found: "FindStoreTokenByHash R (HashToken raw) s = Inr (tok, account)"
    and owner: "tok_AccountID tok = acc_ID (idn_Account identity)"
    and revoke: "Service_RevokeStoreToken S E identity (tok_SessionID tok) s = (Inr u, s')"
  shows "AuthenticateToken R t raw s' = Inl (Errorf ''cannot authenticate: token revoked or expired'')"
proof -
  obtain tok' where "FindStoreTokenByHash R (HashToken raw) s' = Inr (tok', account)"
      and "tok_RevokedAt tok' \<noteq> None"
    using find_revoked [OF inv found, of "now E 0" "order E 0" "acc_ID (idn_Account identity)" u s']
      revoke S owner
    by (auto simp: Service_RevokeStoreToken_def res_iff)
  then show ?thesis by (simp add: AuthenticateToken_def tokenDead_def)
qed

end

text \<open>One reading of the clock: the loop of \<^verbatim>\<open>ListStoreTokens\<close> is a filter.\<close>

lemma keepActive_spec:
  "(\<And>i. clk i = t) \<Longrightarrow> keepActive clk i aid inactive ts =
     filter (\<lambda>tok. tok_AccountID tok = aid \<and> (inactive \<or> \<not> tokenDead t tok)) ts"
  by (induction ts arbitrary: i) (auto simp: tokenDead_def)

section \<open>Properties\<close>

text \<open>A store token that was just issued authenticates its account: the raw token sent in a bearer
header is resolved to the stored token and the claims of the account, until the token's expiry.\<close>

lemma issued_token_authenticates:
  assumes "memory_inv m" and "fresh_token tok m"
    and "Memory_GetAccountByID (acc_ID (idn_Account identity)) m = Inr account"
    and "IssueStoreToken (mem_service cfg) E identity req m = (Inr (raw, tok), m')"
    and "t \<le> tok_ValidUntil tok"
  shows "Authenticate A memory_repo t (''Bearer '' @ raw) m' = Inr (claimsOfAccount account, Some tok)"
  using assms by (intro mem_tokens.issued_authenticates [where S = "mem_service cfg"]) simp_all

definition ex_token_request :: issue_token_request where
  "ex_token_request =
     \<lparr>itr_Description = None, itr_TTL = Some 60, itr_Permissions = [], itr_Packages = [],
      itr_Channels = [''latest/edge'']\<rparr>"

lemma ex_issue:
  obtains raw tok m' where
    "IssueStoreToken (mem_service ex_cfg) ex_env alice_in ex_token_request shop = (Inr (raw, tok), m')"
    and "tok_TokenHash tok = HashToken raw" and "tok_SessionID tok = ''n''" and "tok_ValidUntil tok = 60000001000"
proof -
  obtain raw h where "NewOpaqueToken (rand ex_env) = Inr (raw, h)"
    by (simp add: NewOpaqueToken_def Let_def ex_env_def)
  moreover from this have "h = HashToken raw" by (rule newOpaqueToken_raw)
  moreover have "tokenTTL (Some 60) = 60000000000" by (simp add: tokenTTL_in_range)
  ultimately show ?thesis
    by (intro that) (auto simp: IssueStoreToken_def ex_token_request_def Memory_CreateStoreToken_def
        alice_in_def ex_env_def Let_def)
qed

lemma issued_token_authenticates_witness:
  "\<exists>raw tok m'. Authenticate \<lparr>au_config = ex_cfg, au_verifier = None\<rparr> memory_repo 2000 (''Bearer '' @ raw) m'
     = Inr (claimsOfAccount alice, Some tok)"
proof -
  obtain raw tok m' where issue:
      "IssueStoreToken (mem_service ex_cfg) ex_env alice_in ex_token_request shop = (Inr (raw, tok), m')"
    and tok: "tok_TokenHash tok = HashToken raw" "tok_SessionID tok = ''n''"
      "tok_ValidUntil tok = 60000001000"
    by (rule ex_issue)
  have "tok_TokenHash tok \<noteq> ''h1''" unfolding tok(1) by (rule HashToken_neq) simp
  then have "fresh_token tok shop" using tok by (simp add: fresh_token_def shop_def edge_token_def)
  moreover have "Memory_GetAccountByID (acc_ID (idn_Account alice_in)) shop = Inr alice"
    by (simp add: Memory_GetAccountByID_def ex_defs)
  ultimately show ?thesis
    using issued_token_authenticates [OF shop_inv _ _ issue, of alice 2000] tok by auto
qed

text \<open>Once its owner has revoked it, a token is rejected at any time.\<close>

lemma revoked_token_rejected:
  assumes "memory_inv m"
    and "Memory_FindStoreTokenByHash (HashToken raw) m = Inr (tok, account)"
    and "tok_AccountID tok = acc_ID (idn_Account identity)"
    and "Service_RevokeStoreToken (mem_service cfg) E identity (tok_SessionID tok) m = (Inr u, m')"
  shows "AuthenticateToken memory_repo t raw m' =
     Inl (Errorf ''cannot authenticate: token revoked or expired'')"
  using assms by (intro mem_tokens.revoked_rejected [where S = "mem_service cfg"]) simp_all

lemma revoked_token_rejected_witness:
  "AuthenticateToken memory_repo 50 ''cr_x''
     (snd (Service_RevokeStoreToken (mem_service ex_cfg) ex_env alice_in ''s9''
       (snd (Memory_CreateStoreToken
          (edge_token\<lparr>tok_TokenHash := HashToken ''cr_x'', tok_SessionID := ''s9''\<rparr>) shop)))) =
   Inl (Errorf ''cannot authenticate: token revoked or expired'')"
proof -
  let ?tok = "edge_token\<lparr>tok_TokenHash := HashToken ''cr_x'', tok_SessionID := ''s9''\<rparr>"
  let ?m = "snd (Memory_CreateStoreToken ?tok shop)"
  let ?m' = "snd (Service_RevokeStoreToken (mem_service ex_cfg) ex_env alice_in ''s9'' ?m)"
  have h: "HashToken ''cr_x'' \<noteq> ''h1''" by (rule HashToken_neq) simp
  then have "fresh_token ?tok shop" by (simp add: fresh_token_def shop_def edge_token_def)
  then have inv: "memory_inv ?m" by (rule memory_inv_CreateStoreToken [OF shop_inv])
  have found: "Memory_FindStoreTokenByHash (HashToken ''cr_x'') ?m = Inr (?tok, alice)"
    using h by (simp add: memory_ops shop_def edge_token_def)
  have revoke: "Service_RevokeStoreToken (mem_service ex_cfg) ex_env alice_in (tok_SessionID ?tok) ?m = (Inr (), ?m')"
    using h by (simp add: Service_RevokeStoreToken_def memory_ops shop_def ex_env_def alice_in_def
        edge_token_def alice_def)
  have owner: "tok_AccountID ?tok = acc_ID (idn_Account alice_in)"
    by (simp add: edge_token_def alice_in_def alice_def)
  show ?thesis by (rule revoked_token_rejected [OF inv found owner revoke])
qed

text \<open>C30: exchanging a restricted token gives a token with the same restrictions: same packages, channels
and permissions, for the same account, valid for the default thirty hours.\<close>

theorem exchange_keeps_restrictions:
  assumes "idn_Token identity = Some parent" and "tok_Permissions parent \<noteq> []"
    and "ExchangeStoreToken S E identity description s = (Inr raw, s')"
  shows "\<exists>tok. CreateStoreToken (svc_repo S) tok s = (Inr (), s')
             \<and> tok_TokenHash tok = HashToken raw
             \<and> tok_AccountID tok = acc_ID (idn_Account identity)
             \<and> tok_Packages tok = tok_Packages parent \<and> tok_Channels tok = tok_Channels parent
             \<and> tok_Permissions tok = tok_Permissions parent
             \<and> tok_ValidUntil tok = now E 0 + defaultTTL"
proof -
  obtain tok where issue:
      "IssueStoreToken S E identity (exchangeRequest identity description) s = (Inr (raw, tok), s')"
    using assms(3) by (auto simp: ExchangeStoreToken_def res_iff)
  note i = IssueStoreToken_Inr [OF this]
  have "tok_TokenHash tok = HashToken raw" using newOpaqueToken_raw(1) [OF i(2)] .
  then show ?thesis using i(3-9) assms(1,2) by (auto simp: exchangeRequest_def tokenTTL_def)
qed

lemma exchange_keeps_restrictions_witness:
  "\<exists>tok m'. CreateStoreToken memory_repo tok shop = (Inr (), m')
     \<and> tok_Channels tok = [''latest/edge''] \<and> tok_Permissions tok = [''package-manage'']"
proof -
  obtain raw h where "NewOpaqueToken (rand ex_env) = Inr (raw, h)"
    by (simp add: NewOpaqueToken_def Let_def ex_env_def)
  then obtain m' where "ExchangeStoreToken (mem_service ex_cfg) ex_env alice_edge None shop = (Inr raw, m')"
    by (auto simp: ExchangeStoreToken_def IssueStoreToken_def Memory_CreateStoreToken_def
        alice_edge_def alice_in_def Let_def)
  moreover have "idn_Token alice_edge = Some edge_token" "tok_Permissions edge_token \<noteq> []"
    by (simp_all add: alice_edge_def edge_token_def)
  ultimately obtain tok where "CreateStoreToken memory_repo tok shop = (Inr (), m')"
      "tok_Channels tok = tok_Channels edge_token" "tok_Permissions tok = tok_Permissions edge_token"
    using exchange_keeps_restrictions [of alice_edge edge_token "mem_service ex_cfg" ex_env None shop raw m']
    unfolding mem_service_sel by blast
  then show ?thesis unfolding edge_token_def store_token.simps by blast
qed


text \<open>A requested life time of at most 9223372036 seconds is granted exactly, to the nanosecond.\<close>

lemma token_life_time:
  assumes "IssueStoreToken S E identity req s = (Inr (raw, tok), s')"
    and "itr_TTL req = Some n" and "0 < n" and "n \<le> 9223372036"
  shows "tok_ValidSince tok = now E 0 \<and> tok_ValidUntil tok = now E 0 + n * 1000000000"
  using assms IssueStoreToken_Inr(8,9) [OF assms(1)] by (simp add: tokenTTL_in_range)

lemma token_life_time_witness:
  "\<exists>raw tok m'. IssueStoreToken (mem_service ex_cfg) ex_env alice_in ex_token_request shop = (Inr (raw, tok), m')
     \<and> tok_ValidUntil tok = 60000001000"
proof -
  obtain raw tok m' where issue:
      "IssueStoreToken (mem_service ex_cfg) ex_env alice_in ex_token_request shop = (Inr (raw, tok), m')"
    by (rule ex_issue)
  have "tok_ValidUntil tok = 60000001000"
    using token_life_time [OF issue, of 60] by (simp add: ex_token_request_def ex_env_def)
  with issue show ?thesis by blast
qed

text \<open>C37: one second more and the multiplication of the duration wraps around: the token is born
expired, and every later attempt to authenticate with it fails.\<close>

theorem token_life_time_wraps:
  assumes "IssueStoreToken S E identity req s = (Inr (raw, tok), s')" and "itr_TTL req = Some 9223372037"
    and "now E 0 \<le> t"
  shows "tokenDead t tok"
proof -
  have "tokenTTL (Some 9223372037) = -9223372036709551616"
    by (simp add: tokenTTL_def durationSeconds_def)
  then show ?thesis using assms(2,3) IssueStoreToken_Inr(9) [OF assms(1)] by (simp add: tokenDead_def)
qed

lemma token_life_time_wraps_witness:
  "\<exists>raw tok m'. IssueStoreToken (mem_service ex_cfg) ex_env alice_in
       (ex_token_request\<lparr>itr_TTL := Some 9223372037\<rparr>) shop = (Inr (raw, tok), m') \<and> tokenDead 1000 tok"
proof -
  obtain raw h where "NewOpaqueToken (rand ex_env) = Inr (raw, h)"
    by (simp add: NewOpaqueToken_def Let_def ex_env_def)
  then obtain tok m' where issue: "IssueStoreToken (mem_service ex_cfg) ex_env alice_in
       (ex_token_request\<lparr>itr_TTL := Some 9223372037\<rparr>) shop = (Inr (raw, tok), m')"
    by (auto simp: IssueStoreToken_def Memory_CreateStoreToken_def alice_in_def Let_def)
  have "tokenDead 1000 tok"
    by (rule token_life_time_wraps [OF issue]) (simp_all add: ex_env_def)
  with issue show ?thesis by blast
qed

text \<open>Listing gives, ordered by creation, exactly the caller's tokens, and without the inactive
ones exactly those that would still authenticate.\<close>

lemma list_tokens_spec:
  assumes "idn_Authenticated identity" and "\<And>i. now E i = t"
  shows "\<exists>ts. Service_ListStoreTokens (mem_service cfg) E identity inactive m = Inr ts
    \<and> sorted (map tok_ValidSince ts)
    \<and> mset ts = mset (filter (\<lambda>tok. tok_AccountID tok = acc_ID (idn_Account identity)
                         \<and> (inactive \<or> \<not> tokenDead t tok)) (map snd (tokens m)))"
  using assms
  by (simp add: Service_ListStoreTokens_def Memory_ListStoreTokens_def keepActive_spec mset_filter)

lemma list_tokens_spec_witness:
  "\<exists>ts. Service_ListStoreTokens (mem_service ex_cfg) ex_env alice_in False shop = Inr ts
     \<and> mset ts = {#edge_token#}"
  using list_tokens_spec [of alice_in ex_env 1000 ex_cfg False shop]
  by (auto simp: ex_env_def alice_in_def shop_def edge_token_def alice_def tokenDead_def)

end
