(* ===== verification/Channels.thy ===== *)
theory Channels
  imports Access
begin

text \<open>
  Channel names (the end of \<^verbatim>\<open>internal/service/releases.go\<close>): splitting a name into track and risk,
  the normalised form \<open>track/risk\<close>, and the channels a package offers for its tracks.
\<close>

record channelParts =
  ch_track :: string
  ch_risk :: string

text \<open>\<^verbatim>\<open>strings.Split\<close> never returns an empty slice, so the first case below is never taken.\<close>

definition splitChannel :: "string \<Rightarrow> channelParts" where
  "splitChannel channel =
     (case splitOn CHR ''/'' channel of
        [] \<Rightarrow> \<lparr>ch_track = ''latest'', ch_risk = []\<rparr>
      | [p] \<Rightarrow> \<lparr>ch_track = ''latest'', ch_risk = p\<rparr>
      | p # q # _ \<Rightarrow> \<lparr>ch_track = p, ch_risk = q\<rparr>)"

definition normalizeChannel :: "string \<Rightarrow> string" where
  "normalizeChannel channel =
     (if channel = [] \<or> containsStr channel ''/'' then channel else ''latest/'' @ channel)"

definition channelDescriptor :: "string \<Rightarrow> string \<Rightarrow> string option \<Rightarrow> document" where
  "channelDescriptor track risk fallback =
     [(''name'', VStr (track @ ''/'' @ risk)),
      (''track'', VStr track),
      (''risk'', VStr risk),
      (''branch'', VNil),
      (''fallback'', VStrPtr fallback)]"

definition trackChannels :: "track \<Rightarrow> document list" where
  "trackChannels track =
     [channelDescriptor (trk_Name track) ''stable'' None,
      channelDescriptor (trk_Name track) ''candidate'' (stringPtr (trk_Name track @ ''/stable'')),
      channelDescriptor (trk_Name track) ''beta'' (stringPtr (trk_Name track @ ''/candidate'')),
      channelDescriptor (trk_Name track) ''edge'' (stringPtr (trk_Name track @ ''/beta''))]"

definition packageChannels :: "track list \<Rightarrow> document list" where
  "packageChannels tracks =
     concat (map trackChannels
       (if tracks = []
        then [\<lparr>trk_Name = ''latest'', trk_VersionPattern = None,
               trk_AutomaticPhasingPercentage = None, trk_CreatedAt = 0\<rparr>]
        else tracks))"

text \<open>The string in a value of a document, empty when it is something else.\<close>

fun vstr :: "any \<Rightarrow> string" where
  "vstr (VStr t) = t"
| "vstr _ = []"

section \<open>Lemmas\<close>

lemma splitChannel_qualified:
  "CHR ''/'' \<notin> set track \<Longrightarrow> CHR ''/'' \<notin> set risk \<Longrightarrow>
     splitChannel (track @ ''/'' @ risk) = \<lparr>ch_track = track, ch_risk = risk\<rparr>"
  by (simp add: splitChannel_def splitOn_two)

lemma splitChannel_bare:
  "CHR ''/'' \<notin> set risk \<Longrightarrow> splitChannel risk = \<lparr>ch_track = ''latest'', ch_risk = risk\<rparr>"
  by (simp add: splitChannel_def splitOn_none)

lemma normalizeChannel_slash: "CHR ''/'' \<in> set c \<Longrightarrow> normalizeChannel c = c"
  by (simp add: normalizeChannel_def containsStr_single)

lemma normalizeChannel_empty [simp]: "normalizeChannel [] = []"
  by (simp add: normalizeChannel_def)

lemma normalizeChannel_eq_empty [simp]: "normalizeChannel c = [] \<longleftrightarrow> c = []"
  by (simp add: normalizeChannel_def)

section \<open>Properties\<close>

text \<open>C35: normalising a channel does not change what it means: the track and the risk it is split into
are those of the name as it was given, a second normalisation changes nothing, and the result spells
the track out.\<close>

theorem normalizeChannel_meaning:
  assumes "c \<noteq> []"
  shows "splitChannel (normalizeChannel c) = splitChannel c
       \<and> normalizeChannel (normalizeChannel c) = normalizeChannel c
       \<and> CHR ''/'' \<in> set (normalizeChannel c)"
proof (cases "CHR ''/'' \<in> set c")
  case True
  then show ?thesis
    by (simp add: normalizeChannel_slash)
next
  case False
  then have "normalizeChannel c = ''latest'' @ ''/'' @ c"
    using assms by (simp add: normalizeChannel_def containsStr_single)
  moreover have "splitChannel (''latest'' @ ''/'' @ c) = \<lparr>ch_track = ''latest'', ch_risk = c\<rparr>"
    using False by (intro splitChannel_qualified) simp_all
  moreover have "normalizeChannel (''latest'' @ ''/'' @ c) = ''latest'' @ ''/'' @ c"
    by (rule normalizeChannel_slash) simp
  ultimately show ?thesis using splitChannel_bare [OF False] by auto
qed

lemma normalizeChannel_meaning_witness:
  "splitChannel (normalizeChannel ''edge'') = \<lparr>ch_track = ''latest'', ch_risk = ''edge''\<rparr>"
  using normalizeChannel_meaning [of "''edge''"] by (simp add: splitChannel_bare)

text \<open>The channels of a package are the four risks of each of its tracks in turn, of \<^verbatim>\<open>latest\<close> when it
has none; the fallback of every channel is empty or the name of another channel of the list.\<close>

lemma packageChannels_spec:
  "map (\<lambda>d. doc_at d ''name'') (packageChannels ts) =
     concat (map (\<lambda>t. map (\<lambda>risk. Some (VStr (t @ ''/'' @ risk))) [''stable'', ''candidate'', ''beta'', ''edge''])
       (if ts = [] then [''latest''] else map trk_Name ts))
   \<and> list_all (\<lambda>d. doc_at d ''fallback'' = Some (VStrPtr None)
        \<or> doc_at d ''fallback'' \<in> (\<lambda>e. map_option (\<lambda>n. VStrPtr (Some (vstr n))) (doc_at e ''name''))
             ` set (packageChannels ts))
       (packageChannels ts)"
proof
  show "map (\<lambda>d. doc_at d ''name'') (packageChannels ts) =
     concat (map (\<lambda>t. map (\<lambda>risk. Some (VStr (t @ ''/'' @ risk))) [''stable'', ''candidate'', ''beta'', ''edge''])
       (if ts = [] then [''latest''] else map trk_Name ts))"
    by (simp add: packageChannels_def trackChannels_def channelDescriptor_def map_concat comp_def)
  show "list_all (\<lambda>d. doc_at d ''fallback'' = Some (VStrPtr None)
        \<or> doc_at d ''fallback'' \<in> (\<lambda>e. map_option (\<lambda>n. VStrPtr (Some (vstr n))) (doc_at e ''name''))
             ` set (packageChannels ts)) (packageChannels ts)"
    by (auto simp: list_all_iff packageChannels_def trackChannels_def channelDescriptor_def stringPtr_def
        image_iff)
qed

end
