(* ===== verification/Views.thy ===== *)
theory Views
  imports Channels
begin

text \<open>
  The response documents the services build from stored values, and the resolution of a release's
  resource references: \<open>revisionToInfo\<close> (\<^verbatim>\<open>revisions.go\<close>), the download descriptions
  (\<^verbatim>\<open>resources.go\<close>), \<open>packageResult\<close> (\<^verbatim>\<open>packages.go\<close>), \<open>refreshEntity\<close>,
  \<open>resolveReleaseResources\<close> and \<open>applyResourceOverrides\<close> (\<^verbatim>\<open>releases.go\<close>).
\<close>

section \<open>Documents\<close>

definition revisionToInfo :: "revision \<Rightarrow> string \<Rightarrow> config \<Rightarrow> document" where
  "revisionToInfo revision packageID cfg =
     [(''actions-yaml'', VStr (rev_ActionsYAML revision)),
      (''attributes'', VAttributes (rev_Attributes revision)),
      (''bases'', VBases (rev_Bases revision)),
      (''bundle-yaml'', VStr (rev_BundleYAML revision)),
      (''config-yaml'', VStr (rev_ConfigYAML revision)),
      (''created-at'', VTime (rev_CreatedAt revision)),
      (''download'', VMap
        [(''hash-sha-256'', VStr (rev_SHA256 revision)),
         (''size'', VInt (rev_Size revision)),
         (''url'', VStr (cfg_PublicAPIURL cfg @ ''/api/v1/charms/download/'' @ packageID @ ''_''
            @ itoa (rev_Revision revision) @ ''.charm''))]),
      (''metadata-yaml'', VStr (rev_MetadataYAML revision)),
      (''readme-md'', VStr (rev_ReadmeMD revision)),
      (''relations'', VRelations (rev_Relations revision)),
      (''revision'', VInt (rev_Revision revision)),
      (''subordinate'', VBool (rev_Subordinate revision)),
      (''version'', VStr (rev_Version revision))]"

definition releaseResourceToDownload :: "string \<Rightarrow> config \<Rightarrow> resource_revision \<Rightarrow> document" where
  "releaseResourceToDownload packageID cfg resource =
     [(''name'', VStr (rr_Name resource)),
      (''revision'', VInt (rr_Revision resource)),
      (''type'', VStr (rr_Type resource)),
      (''filename'', VStr (rr_Filename resource)),
      (''description'', VStr (rr_Description resource)),
      (''download'', VMap
        [(''url'', VStr (cfg_PublicAPIURL cfg @ ''/api/v1/resources/download/charm_'' @ packageID @ ''.''
            @ rr_Name resource @ ''_'' @ itoa (rr_Revision resource))),
         (''size'', VInt (rr_Size resource)),
         (''hash-sha-256'', VStr (rr_SHA256 resource)),
         (''hash-sha-384'', VStr (rr_SHA384 resource)),
         (''hash-sha-512'', VStr (rr_SHA512 resource)),
         (''hash-sha3-384'', VStr (rr_SHA3384 resource))]),
      (''created-at'', VTime (rr_CreatedAt resource))]"

definition releaseResourcesToDownloads :: "string \<Rightarrow> resource_revision list \<Rightarrow> config \<Rightarrow> document list" where
  "releaseResourcesToDownloads packageID resources cfg =
     map (releaseResourceToDownload packageID cfg) resources"

definition packageResult :: "package \<Rightarrow> document" where
  "packageResult pkg =
     (let website = (case pkg_Website pkg of None \<Rightarrow> [] | Some w \<Rightarrow> w) in
     [(''bugs-url'', VStr (firstLink (at_key (pkg_Links pkg) ''issues''))),
      (''categories'', VList []),
      (''deployable-on'', VStrings []),
      (''description'', VStr (stringValue (pkg_Description pkg))),
      (''license'', VStr []),
      (''links'', VLinks (pkg_Links pkg)),
      (''media'', VMedia (pkg_Media pkg)),
      (''publisher'', VPublisher (pkg_Publisher pkg)),
      (''store-url'', VStr (firstNonEmpty [website, pkg_Store pkg])),
      (''store-url-old'', VStr []),
      (''summary'', VStr (stringValue (pkg_Summary pkg))),
      (''title'', VStr (stringValue (pkg_Title pkg))),
      (''unlisted'', VBool (pkg_Private pkg)),
      (''used-by'', VList []),
      (''website'', VStr website)])"

definition refreshEntity :: "package \<Rightarrow> revision \<Rightarrow> resource_revision list \<Rightarrow> config \<Rightarrow> document" where
  "refreshEntity pkg revision resources cfg =
     [(''created-at'', VTime (rev_CreatedAt revision)),
      (''download'', VMap
        [(''hash-sha-256'', VStr (rev_SHA256 revision)),
         (''size'', VInt (rev_Size revision)),
         (''url'', VStr (cfg_PublicAPIURL cfg @ ''/api/v1/charms/download/'' @ pkg_ID pkg @ ''_''
            @ itoa (rev_Revision revision) @ ''.charm''))]),
      (''id'', VStr (pkg_ID pkg)),
      (''license'', VStr []),
      (''name'', VStr (pkg_Name pkg)),
      (''publisher'', VPublisher (pkg_Publisher pkg)),
      (''resources'', VList (map VMap (releaseResourcesToDownloads (pkg_ID pkg) resources cfg))),
      (''revision'', VInt (rev_Revision revision)),
      (''summary'', VStr (stringValue (pkg_Summary pkg))),
      (''type'', VStr (pkg_Type pkg)),
      (''version'', VStr (rev_Version revision)),
      (''bases'', VBases (rev_Bases revision)),
      (''config-yaml'', VStr (rev_ConfigYAML revision)),
      (''metadata-yaml'', VStr (rev_MetadataYAML revision))]"

section \<open>Downloads of resource revisions\<close>

definition attachResourceDownload ::
    "('s, 'b) service \<Rightarrow> string \<Rightarrow> resource_revision \<Rightarrow> resource_revision" where
  "attachResourceDownload S packageID item =
     item\<lparr>rr_Download :=
       \<lparr>dl_URL = resourceDownloadURL (svc_cfg S) packageID (rr_Name item) (rr_Revision item),
        dl_Size = rr_Size item, dl_HashSHA256 = rr_SHA256 item, dl_HashSHA384 = rr_SHA384 item,
        dl_HashSHA512 = rr_SHA512 item, dl_HashSHA3384 = rr_SHA3384 item\<rparr>\<rparr>"

definition attachResourceDownloads ::
    "('s, 'b) service \<Rightarrow> resource_definition \<Rightarrow> resource_revision list res \<Rightarrow> resource_revision list res" where
  "attachResourceDownloads S def items =
     res_bind items (\<lambda>revs. Inr (map (attachResourceDownload S (rd_PackageID def)) revs))"

section \<open>The resources of a release\<close>

fun resolveReleaseRefs ::
    "('s, 'b) service \<Rightarrow> string \<Rightarrow> release_ref list \<Rightarrow> 's \<Rightarrow> resource_revision list res" where
  "resolveReleaseRefs S packageID [] s = Inr []"
| "resolveReleaseRefs S packageID (ref # refs) s =
     res_bind (GetResourceDefinition (svc_repo S) packageID (ref_Name ref) s) (\<lambda>def.
     case ref_Revision ref of
       None \<Rightarrow> resolveReleaseRefs S packageID refs s
     | Some n \<Rightarrow>
         res_bind (GetResourceRevision (svc_repo S) (rd_ID def) n s) (\<lambda>revision.
         res_bind (resolveReleaseRefs S packageID refs s) (\<lambda>out.
         Inr (attachResourceDownload S packageID revision # out))))"

text \<open>The parameter \<^verbatim>\<open>resourceDefs\<close> of \<^verbatim>\<open>resolveReleaseResources\<close> is not used by its body.\<close>

definition resolveReleaseResources ::
    "('s, 'b) service \<Rightarrow> string \<Rightarrow> resource_definition list \<Rightarrow> release \<Rightarrow> 's
       \<Rightarrow> resource_revision list res" where
  "resolveReleaseResources S packageID defs release s =
     resolveReleaseRefs S packageID (rel_Resources release) s"

text \<open>\<^verbatim>\<open>lookup[ref.Name] = *ref.Revision\<close> for the overrides in turn: a later one replaces an earlier one.\<close>

definition overrideLookup :: "release_ref list \<Rightarrow> (string, int) gomap" where
  "overrideLookup overrides =
     fold (\<lambda>ref lookup. case ref_Revision ref of
             None \<Rightarrow> lookup | Some n \<Rightarrow> AList.update (ref_Name ref) n lookup) overrides []"

definition overrideResource ::
    "('s, 'b) service \<Rightarrow> string \<Rightarrow> (string, int) gomap \<Rightarrow> 's \<Rightarrow> resource_revision \<Rightarrow> resource_revision res" where
  "overrideResource S packageID lookup s item =
     (case map_of lookup (rr_Name item) of
        None \<Rightarrow> Inr item
      | Some n \<Rightarrow>
          res_bind (GetResourceDefinition (svc_repo S) packageID (rr_Name item) s) (\<lambda>def.
          res_bind (GetResourceRevision (svc_repo S) (rd_ID def) n s) (\<lambda>overrideItem.
          Inr (attachResourceDownload S packageID overrideItem))))"

definition applyResourceOverrides ::
    "('s, 'b) service \<Rightarrow> string \<Rightarrow> resource_revision list \<Rightarrow> release_ref list \<Rightarrow> 's
       \<Rightarrow> resource_revision list res" where
  "applyResourceOverrides S packageID resources overrides s =
     (if overrides = [] then Inr resources
      else res_map (overrideResource S packageID (overrideLookup overrides) s) resources)"

section \<open>Lemmas\<close>

lemma attachResourceDownload_sel [simp]:
  "rr_Name (attachResourceDownload S pid item) = rr_Name item"
  "rr_Revision (attachResourceDownload S pid item) = rr_Revision item"
  "rr_ResourceID (attachResourceDownload S pid item) = rr_ResourceID item"
  "dl_URL (rr_Download (attachResourceDownload S pid item)) =
     resourceDownloadURL (svc_cfg S) pid (rr_Name item) (rr_Revision item)"
  by (simp_all add: attachResourceDownload_def)

lemma overrideLookup_last:
  "map_of (overrideLookup refs) name =
     (case filter (\<lambda>ref. ref_Name ref = name \<and> ref_Revision ref \<noteq> None) refs of
        [] \<Rightarrow> None | r # rs \<Rightarrow> ref_Revision (last (r # rs)))"
proof (induction refs rule: rev_induct)
  case Nil
  then show ?case by (simp add: overrideLookup_def)
next
  case (snoc ref refs)
  then show ?case by (auto simp: overrideLookup_def split: option.splits list.splits)
qed

end
