(* ===== verification/Guards.thy ===== *)
theory Guards
  imports Access MemoryLaws
begin

text \<open>
  The authorization guards over the in-memory repository: what it takes to view or to manage a stored
  package, stated on the caller and the package alone, and the errors of a refusal.
\<close>

definition mayView :: "identity \<Rightarrow> package \<Rightarrow> bool" where
  "mayView identity pkg \<longleftrightarrow>
     \<not> pkg_Private pkg
     \<or> idn_Authenticated identity \<and> pkg_OwnerAccountID pkg = acc_ID (idn_Account identity)
       \<and> \<not> tokenExcludesPackage identity pkg"

definition mayManage :: "identity \<Rightarrow> package \<Rightarrow> string \<Rightarrow> bool" where
  "mayManage identity pkg permission \<longleftrightarrow>
     tokenGrants identity permission \<and> pkg_OwnerAccountID pkg = acc_ID (idn_Account identity)
     \<and> \<not> tokenExcludesPackage identity pkg"

text \<open>A refusal: the status is 401 or 403.\<close>

fun refused :: "'a res \<Rightarrow> bool" where
  "refused (Inl (ServiceError st c msg)) = (st = 401 \<or> st = 403)"
| "refused _ = False"

text \<open>The package is in the store, under both of its keys.\<close>

definition stored :: "package \<Rightarrow> memory \<Rightarrow> bool" where
  "stored pkg m \<longleftrightarrow>
     map_of (packages m) (pkg_Name pkg) = Some pkg \<and> map_of (packagesByID m) (pkg_ID pkg) = Some pkg"

lemma stored_name:
  "memory_inv m \<Longrightarrow> map_of (packages m) n = Some p \<Longrightarrow> stored p m \<and> pkg_Name p = n"
  unfolding memory_inv_def packages_ok_def stored_def by metis

lemma stored_id:
  "memory_inv m \<Longrightarrow> map_of (packagesByID m) i = Some p \<Longrightarrow> stored p m \<and> pkg_ID p = i"
  unfolding memory_inv_def packages_ok_def stored_def by metis

lemma stored_listed: "memory_inv m \<Longrightarrow> p \<in> snd ` set (packages m) \<Longrightarrow> stored p m"
  using in_snd_map_of [of "packages m" p] stored_name unfolding memory_inv_def packages_ok_def by blast

lemma stored_unique:
  "stored p m \<Longrightarrow> stored q m \<Longrightarrow> pkg_ID p = pkg_ID q \<or> pkg_Name p = pkg_Name q \<Longrightarrow> p = q"
  unfolding stored_def by (metis option.inject)

lemma tokenExcludesPackage_cong:
  "pkg_ID p = pkg_ID q \<Longrightarrow> pkg_Name p = pkg_Name q \<Longrightarrow>
     tokenExcludesPackage identity p = tokenExcludesPackage identity q"
  by (simp add: tokenExcludesPackage_def tokenAllowsPackage_def cong: option.case_cong)

lemma tokenGrants_authenticated: "tokenGrants identity permission \<Longrightarrow> idn_Authenticated identity"
  by (simp add: tokenGrants_def)

lemma requirePackageView_mem:
  assumes "map_of (packagesByID m) (pkg_ID pkg) = Some p" and "pkg_Private p = pkg_Private pkg"
    and "pkg_OwnerAccountID p = pkg_OwnerAccountID pkg"
  shows "requirePackageView (mem_service cfg) identity pkg tp m = Inr u \<longleftrightarrow>
     mayView identity pkg \<and>
     (tp \<longrightarrow> pkg_Private pkg \<or> idn_Authenticated identity \<longrightarrow> tokenGrants identity permPackageView)"
  using assms by (auto simp: requirePackageView_iff mayView_def Memory_CanViewPackage_def)

lemma requirePackageManage_mem:
  assumes "stored pkg m"
  shows "requirePackageManage (mem_service cfg) identity pkg permission m = Inr u \<longleftrightarrow>
     mayManage identity pkg permission"
  using assms by (auto simp: requirePackageManage_iff mayManage_def Memory_CanManagePackage_def stored_def)

lemma canSeePackage_mem:
  assumes "stored p m" and "pkg_ID q = pkg_ID p" and "pkg_Name q = pkg_Name p"
    and "pkg_Private q = pkg_Private p" and "pkg_OwnerAccountID q = pkg_OwnerAccountID p"
  shows "canSeePackage (mem_service cfg) identity q m = mayView identity p"
  using assms requirePackageView_mem [of m q p cfg identity False "()"] tokenExcludesPackage_cong [of q p]
  by (simp add: canSeePackage_def mayView_def stored_def)

text \<open>Storing a new version of a package replaces it and leaves the others alone.\<close>

lemma update_stored:
  assumes inv: "memory_inv m" and old: "stored old m"
    and same: "pkg_ID new = pkg_ID old" "pkg_Name new = pkg_Name old" "pkg_Tracks new = pkg_Tracks old"
  obtains ps qs where "Memory_UpdatePackage new m = (Inr (), m\<lparr>packages := ps, packagesByID := qs\<rparr>)"
    and "memory_inv (m\<lparr>packages := ps, packagesByID := qs\<rparr>)"
    and "stored new (m\<lparr>packages := ps, packagesByID := qs\<rparr>)"
    and "\<And>p. stored p m \<Longrightarrow> p \<noteq> old \<Longrightarrow> stored p (m\<lparr>packages := ps, packagesByID := qs\<rparr>)"
proof
  let ?m = "m\<lparr>packages := AList.update (pkg_Name new) new (packages m),
              packagesByID := AList.update (pkg_ID new) new (packagesByID m)\<rparr>"
  have look: "map_of (packages m) (pkg_Name old) = Some old" "map_of (packagesByID m) (pkg_ID old) = Some old"
    using old by (simp_all add: stored_def)
  show upd: "Memory_UpdatePackage new m = (Inr (), ?m)"
    using look same by (simp add: Memory_UpdatePackage_def)
  have "distinct (map trk_Name (pkg_Tracks old))"
    using inv look(2) unfolding memory_inv_def packages_ok_def by blast
  then show "memory_inv ?m"
    using memory_inv_UpdatePackage [OF inv, of new old] look same upd by simp
  show "stored new ?m" by (simp add: stored_def)
  show "stored p ?m" if "stored p m" "p \<noteq> old" for p
  proof -
    have "pkg_ID p \<noteq> pkg_ID old" "pkg_Name p \<noteq> pkg_Name old"
      using stored_unique [OF that(1) old] that(2) by blast+
    then show ?thesis using that(1) same by (simp add: stored_def)
  qed
qed

text \<open>Tracks a package already has are not added again.\<close>

lemma addTracks_known:
  "(\<And>t. t \<in> set new \<Longrightarrow> trk_Name t \<in> trk_Name ` set ts) \<Longrightarrow> addTracks ts n new = (ts, n)"
proof (induction new)
  case (Cons a new)
  then have "\<exists>e \<in> set ts. trk_Name e = trk_Name a" by (metis image_iff list.set_intros(1))
  with Cons show ?case by simp
qed simp

lemma createTracks_known: "stored p m \<Longrightarrow> Memory_CreateTracks (pkg_ID p) (pkg_Tracks p) m = (Inr 0, m)"
  by (simp add: Memory_CreateTracks_def stored_def addTracks_known update_same)

lemma requirePermission_Inr: "tokenGrants identity permission \<Longrightarrow> requirePermission identity permission = Inr ()"
  by (simp add: requirePermission_iff)

lemma requirePackageManage_Inr:
  "stored pkg m \<Longrightarrow> mayManage identity pkg permission \<Longrightarrow>
     requirePackageManage (mem_service cfg) identity pkg permission m = Inr ()"
  by (simp add: requirePackageManage_mem)

text \<open>Refusals are errors with status 401 or 403.\<close>

lemma requirePermission_refused:
  "\<not> tokenGrants identity permission \<Longrightarrow>
     \<exists>st c msg. requirePermission identity permission = Inl (ServiceError st c msg) \<and> (st = 401 \<or> st = 403)"
  by (auto simp: requirePermission_def tokenGrants_def requireAuth_def newError_def split: option.splits)

lemma requirePackageManage_refused:
  assumes "stored pkg m" and "\<not> mayManage identity pkg permission"
  shows "\<exists>st c msg. requirePackageManage (mem_service cfg) identity pkg permission m
            = Inl (ServiceError st c msg) \<and> (st = 401 \<or> st = 403)"
proof (cases "tokenGrants identity permission")
  case True
  then have "requirePermission identity permission = Inr ()" by (simp add: requirePermission_iff)
  then show ?thesis
    using assms True
    by (auto simp: requirePackageManage_def mayManage_def Memory_CanManagePackage_def stored_def newError_def)
next
  case False
  then show ?thesis
    using requirePermission_refused [OF False] by (auto simp: requirePackageManage_def)
qed

lemma requirePackageView_refused:
  assumes "map_of (packagesByID m) (pkg_ID pkg) = Some pkg" and "\<not> mayView identity pkg"
  shows "\<exists>st c msg. requirePackageView (mem_service cfg) identity pkg tp m
            = Inl (ServiceError st c msg) \<and> (st = 401 \<or> st = 403)"
  using assms
  by (auto simp: requirePackageView_def mayView_def Memory_CanViewPackage_def newError_def requireAuth_def)

end
