(* ===== verification/Packages.thy ===== *)
theory Packages
  imports Views Guards Examples
begin

text \<open>
  \<^verbatim>\<open>internal/service/packages.go\<close>: registration, listing, metadata, removal, search and the info
  document.  A request reads the iteration orders of its queries from the environment in the order
  it makes them.
\<close>

section \<open>Enrichment\<close>

definition enrichPackage :: "('s, 'b) service \<Rightarrow> shuffle \<Rightarrow> package \<Rightarrow> 's \<Rightarrow> package res" where
  "enrichPackage S sh pkg s =
     res_bind (ListTracks (svc_repo S) sh (pkg_ID pkg) s) (\<lambda>ts.
     Inr (pkg\<lparr>pkg_Tracks := ts,
              pkg_Store := cfg_PublicAPIURL (svc_cfg S) @ ''/charms/'' @ pkg_Name pkg\<rparr>))"

text \<open>The loop over the packages; the query for the \<open>i\<close>-th one has an order of its own.\<close>

fun enrichPackages ::
    "('s, 'b) service \<Rightarrow> (nat \<Rightarrow> shuffle) \<Rightarrow> nat \<Rightarrow> package list \<Rightarrow> 's \<Rightarrow> package list res" where
  "enrichPackages S shs i [] s = Inr []"
| "enrichPackages S shs i (pkg # pkgs) s =
     res_bind (enrichPackage S (shs i) pkg s) (\<lambda>enriched.
     res_bind (enrichPackages S shs (Suc i) pkgs s) (\<lambda>out.
     Inr (enriched # out)))"

section \<open>Registration, listing, lookup\<close>

text \<open>The package \<^verbatim>\<open>RegisterPackage\<close> creates: the identifier, the time and the account are arguments.\<close>

definition newPackage :: "config \<Rightarrow> string \<Rightarrow> time \<Rightarrow> account \<Rightarrow> string \<Rightarrow> string \<Rightarrow> bool \<Rightarrow> package" where
  "newPackage cfg newID t account name packageType private =
     \<lparr>pkg_ID = newID, pkg_Name = name,
      pkg_Type = firstNonEmpty [packageType, ''charm''], pkg_Private = private,
      pkg_Status = ''registered'', pkg_OwnerAccountID = acc_ID account,
      pkg_Authority = None, pkg_Contact = None, pkg_DefaultTrack = stringPtr ''latest'',
      pkg_Description = None, pkg_Summary = None, pkg_Title = None, pkg_Website = None,
      pkg_Links = [], pkg_Media = [], pkg_TrackGuardrails = [],
      pkg_Tracks = [\<lparr>trk_Name = ''latest'', trk_VersionPattern = None,
                     trk_AutomaticPhasingPercentage = None, trk_CreatedAt = t\<rparr>],
      pkg_Publisher = \<lparr>pub_ID = acc_ID account, pub_Username = acc_Username account,
                       pub_DisplayName = acc_DisplayName account, pub_Email = acc_Email account,
                       pub_Validation = acc_Validation account\<rparr>,
      pkg_Store = cfg_PublicAPIURL cfg, pkg_CreatedAt = t, pkg_UpdatedAt = t\<rparr>"

definition RegisterPackage ::
    "('s, 'b) service \<Rightarrow> ambient \<Rightarrow> identity \<Rightarrow> string \<Rightarrow> string \<Rightarrow> bool \<Rightarrow> 's \<Rightarrow> package res \<times> 's" where
  "RegisterPackage S E identity name packageType private s =
     rd_bind (requirePermission identity permAccountRegisterPackage) s (\<lambda>_.
     let t = now E 0;
         pkg = newPackage (svc_cfg S) (compactID (uuid E 0)) t (idn_Account identity) name packageType private in
     st_bind (map_err_st (translateRepoError ''package already exists'')
                (CreatePackage (svc_repo S) pkg s)) (\<lambda>_ s1.
     st_bind (CreateTracks (svc_repo S) (pkg_ID pkg) (pkg_Tracks pkg) s1) (\<lambda>_ s2.
     (Inr pkg, s2))))"

definition ListRegisteredPackages ::
    "('s, 'b) service \<Rightarrow> ambient \<Rightarrow> identity \<Rightarrow> bool \<Rightarrow> 's \<Rightarrow> package list res" where
  "ListRegisteredPackages S E identity includeCollaborations s =
     res_bind (requirePermission identity permAccountViewPackages) (\<lambda>_.
     res_bind (ListPackagesForAccount (svc_repo S) (order E 0) (acc_ID (idn_Account identity))
                includeCollaborations s) (\<lambda>pkgs.
     enrichPackages S (order E) 1 pkgs s))"

definition GetPackage ::
    "('s, 'b) service \<Rightarrow> ambient \<Rightarrow> identity \<Rightarrow> string \<Rightarrow> bool \<Rightarrow> 's \<Rightarrow> package res" where
  "GetPackage S E identity name requireViewPermission s =
     res_bind (map_err (translateRepoError ''package not found'') (GetPackageByName (svc_repo S) name s)) (\<lambda>pkg.
     res_bind (requirePackageView S identity pkg requireViewPermission s) (\<lambda>_.
     enrichPackage S (order E 0) pkg s))"

section \<open>Metadata\<close>

record metadata_patch =
  mdp_Contact :: "string option"
  mdp_DefaultTrack :: "string option"
  mdp_Description :: "string option"
  mdp_Links :: "(string, string list) gomap option"
  mdp_Private :: "bool option"
  mdp_Summary :: "string option"
  mdp_Title :: "string option"
  mdp_Website :: "string option"

definition setIf :: "'a option \<Rightarrow> ('a \<Rightarrow> 'r \<Rightarrow> 'r) \<Rightarrow> 'r \<Rightarrow> 'r" where
  "setIf v upd r = (case v of None \<Rightarrow> r | Some x \<Rightarrow> upd x r)"

definition applyPatch :: "metadata_patch \<Rightarrow> package \<Rightarrow> package" where
  "applyPatch patch pkg =
     (let pkg = setIf (mdp_Contact patch) (\<lambda>v p. p\<lparr>pkg_Contact := Some v\<rparr>) pkg;
          pkg = setIf (mdp_DefaultTrack patch) (\<lambda>v p. p\<lparr>pkg_DefaultTrack := Some v\<rparr>) pkg;
          pkg = setIf (mdp_Description patch) (\<lambda>v p. p\<lparr>pkg_Description := Some v\<rparr>) pkg;
          pkg = setIf (mdp_Summary patch) (\<lambda>v p. p\<lparr>pkg_Summary := Some v\<rparr>) pkg;
          pkg = setIf (mdp_Title patch) (\<lambda>v p. p\<lparr>pkg_Title := Some v\<rparr>) pkg;
          pkg = setIf (mdp_Website patch) (\<lambda>v p. p\<lparr>pkg_Website := Some v\<rparr>) pkg;
          pkg = setIf (mdp_Private patch) (\<lambda>v p. p\<lparr>pkg_Private := v\<rparr>) pkg in
      setIf (mdp_Links patch) (\<lambda>v p. p\<lparr>pkg_Links := v\<rparr>) pkg)"

definition Service_UpdatePackage ::
    "('s, 'b) service \<Rightarrow> ambient \<Rightarrow> identity \<Rightarrow> string \<Rightarrow> metadata_patch \<Rightarrow> 's \<Rightarrow> package res \<times> 's" where
  "Service_UpdatePackage S E identity name patch s =
     rd_bind (map_err (translateRepoError ''package not found'') (GetPackageByName (svc_repo S) name s)) s (\<lambda>pkg0.
     rd_bind (requirePackageManage S identity pkg0 permPackageManageMetadata s) s (\<lambda>_.
     let pkg = (applyPatch patch pkg0)\<lparr>pkg_UpdatedAt := now E 0\<rparr> in
     st_bind (UpdatePackage (svc_repo S) pkg s) (\<lambda>_ s1.
     rd_bind (enrichPackage S (order E 0) pkg s1) s1 (\<lambda>enriched. (Inr enriched, s1)))))"

definition UnregisterPackage ::
    "('s, 'b) service \<Rightarrow> identity \<Rightarrow> string \<Rightarrow> 's \<Rightarrow> string res \<times> 's" where
  "UnregisterPackage S identity name s =
     rd_bind (map_err (translateRepoError ''package not found'') (GetPackageByName (svc_repo S) name s)) s (\<lambda>pkg.
     rd_bind (requirePackageManage S identity pkg permPackageManage s) s (\<lambda>_.
     rd_bind (ListRevisions (svc_repo S) (pkg_ID pkg) None s) s (\<lambda>revs.
     if revs \<noteq> []
     then (Inl (newError 400 ''invalid-request'' ''cannot unregister a package with existing revisions''), s)
     else st_bind (DeletePackage (svc_repo S) (pkg_ID pkg) s) (\<lambda>_ s1. (Inr (pkg_ID pkg), s1)))))"

section \<open>Search\<close>

definition packageFindResult ::
    "('s, 'b) service \<Rightarrow> shuffle \<Rightarrow> package \<Rightarrow> 's \<Rightarrow> document res" where
  "packageFindResult S sh pkg s =
     res_bind (ResolveDefaultRelease (svc_repo S) sh (pkg_ID pkg) s) (\<lambda>defaultRelease.
     res_bind (GetRevisionByNumber (svc_repo S) (pkg_ID pkg) (rel_Revision defaultRelease) s) (\<lambda>defaultRevision.
     let channelInfo = splitChannel (rel_Channel defaultRelease) in
     Inr [(''id'', VStr (pkg_ID pkg)),
          (''name'', VStr (pkg_Name pkg)),
          (''type'', VStr (pkg_Type pkg)),
          (''default-release'', VMap
            [(''channel'', VMap
               [(''base'', VBase (rel_Base defaultRelease)),
                (''name'', VStr (rel_Channel defaultRelease)),
                (''released-at'', VTime (rel_When defaultRelease)),
                (''risk'', VStr (ch_risk channelInfo)),
                (''track'', VStr (ch_track channelInfo))]),
             (''revision'', VMap
               [(''attributes'', VAttributes (rev_Attributes defaultRevision)),
                (''bases'', VBases (rev_Bases defaultRevision)),
                (''created-at'', VTime (rev_CreatedAt defaultRevision)),
                (''download'', VMap
                  [(''hash-sha-256'', VStr (rev_SHA256 defaultRevision)),
                   (''size'', VInt (rev_Size defaultRevision)),
                   (''url'', VStr (charmDownloadURL (svc_cfg S) (pkg_ID pkg) (rev_Revision defaultRevision)))]),
                (''revision'', VInt (rev_Revision defaultRevision)),
                (''version'', VStr (rev_Version defaultRevision))])]),
          (''result'', VMap (packageResult pkg))]))"

text \<open>The loop of \<^verbatim>\<open>Find\<close>: packages the caller may not see, and those without a release, are skipped.\<close>

fun findLoop ::
    "('s, 'b) service \<Rightarrow> (nat \<Rightarrow> shuffle) \<Rightarrow> nat \<Rightarrow> identity \<Rightarrow> package list \<Rightarrow> 's \<Rightarrow> document list res" where
  "findLoop S shs i identity [] s = Inr []"
| "findLoop S shs i identity (pkg # pkgs) s =
     (if \<not> canSeePackage S identity pkg s then findLoop S shs (Suc i) identity pkgs s
      else case packageFindResult S (shs i) pkg s of
          Inl ErrNotFound \<Rightarrow> findLoop S shs (Suc i) identity pkgs s
        | Inl err \<Rightarrow> Inl err
        | Inr item \<Rightarrow>
            res_bind (findLoop S shs (Suc i) identity pkgs s) (\<lambda>items. Inr (item # items)))"

definition Find :: "('s, 'b) service \<Rightarrow> ambient \<Rightarrow> identity \<Rightarrow> string \<Rightarrow> 's \<Rightarrow> document res" where
  "Find S E identity query s =
     res_bind (SearchPackages (svc_repo S) (order E 0) query s) (\<lambda>found_pkgs.
     res_bind (enrichPackages S (order E) 1 found_pkgs s) (\<lambda>pkgs.
     res_bind (findLoop S (order E) (Suc (length found_pkgs)) identity pkgs s) (\<lambda>items.
     Inr [(''results'', VList (map VMap items))])))"

section \<open>Info\<close>

definition channelMapEntry :: "config \<Rightarrow> string \<Rightarrow> release \<Rightarrow> revision \<Rightarrow> document" where
  "channelMapEntry cfg packageID release rv =
     (let chInfo = splitChannel (rel_Channel release) in
      [(''channel'', VMap
         [(''base'', VBase (rel_Base release)),
          (''name'', VStr (rel_Channel release)),
          (''released-at'', VTime (rel_When release)),
          (''risk'', VStr (ch_risk chInfo)),
          (''track'', VStr (ch_track chInfo))]),
       (''revision'', VMap (revisionToInfo rv packageID cfg))])"

text \<open>The loop over the releases, with the cache of loaded revisions.  A revision that cannot be loaded
leaves its release out.\<close>

fun channelMapLoop ::
    "('s, 'b) service \<Rightarrow> string \<Rightarrow> (int, revision) gomap \<Rightarrow> release list \<Rightarrow> 's \<Rightarrow> document list" where
  "channelMapLoop S packageID revisionCache [] s = []"
| "channelMapLoop S packageID revisionCache (release # rels) s =
     (case map_of revisionCache (rel_Revision release) of
        Some rv \<Rightarrow>
          channelMapEntry (svc_cfg S) packageID release rv # channelMapLoop S packageID revisionCache rels s
      | None \<Rightarrow>
          (case GetRevisionByNumber (svc_repo S) packageID (rel_Revision release) s of
             Inl _ \<Rightarrow> channelMapLoop S packageID revisionCache rels s
           | Inr rv \<Rightarrow>
               channelMapEntry (svc_cfg S) packageID release rv
               # channelMapLoop S packageID (AList.update (rel_Revision release) rv revisionCache) rels s))"

definition Info :: "('s, 'b) service \<Rightarrow> ambient \<Rightarrow> identity \<Rightarrow> string \<Rightarrow> 's \<Rightarrow> document res" where
  "Info S E identity charmName s =
     res_bind (GetPackage S E identity charmName False s) (\<lambda>pkg.
     res_bind (map_err (translateRepoError ''no released revisions found'')
                (ResolveDefaultRelease (svc_repo S) (order E 1) (pkg_ID pkg) s)) (\<lambda>defaultRelease.
     res_bind (GetRevisionByNumber (svc_repo S) (pkg_ID pkg) (rel_Revision defaultRelease) s) (\<lambda>rv0.
     res_bind (ListResourceDefinitions (svc_repo S) (order E 2) (pkg_ID pkg) s) (\<lambda>defs.
     res_bind (resolveReleaseResources S (pkg_ID pkg) defs defaultRelease s) (\<lambda>resources.
     let defaultRevision = rv0\<lparr>rev_Resources := resources\<rparr> in
     res_bind (ListReleases (svc_repo S) (order E 3) (pkg_ID pkg) s) (\<lambda>rels.
     let channelMap = channelMapLoop S (pkg_ID pkg) [(rel_Revision defaultRelease, defaultRevision)] rels s;
         channelInfo = splitChannel (rel_Channel defaultRelease) in
     Inr [(''id'', VStr (pkg_ID pkg)),
          (''name'', VStr (pkg_Name pkg)),
          (''type'', VStr (pkg_Type pkg)),
          (''default-release'', VMap
            [(''channel'', VMap
               [(''base'', VBase (rel_Base defaultRelease)),
                (''name'', VStr (rel_Channel defaultRelease)),
                (''released-at'', VTime (rel_When defaultRelease)),
                (''risk'', VStr (ch_risk channelInfo)),
                (''track'', VStr (ch_track channelInfo))]),
             (''resources'', VList (map VMap (releaseResourcesToDownloads (pkg_ID pkg) resources (svc_cfg S)))),
             (''revision'', VMap (revisionToInfo defaultRevision (pkg_ID pkg) (svc_cfg S)))]),
          (''channel-map'', VList (map VMap channelMap)),
          (''result'', VMap (packageResult pkg))]))))))"

section \<open>Lemmas\<close>

lemma newPackage_sel [simp]:
  "pkg_ID (newPackage cfg i t a name ty private) = i"
  "pkg_Name (newPackage cfg i t a name ty private) = name"
  "pkg_Private (newPackage cfg i t a name ty private) = private"
  "pkg_Type (newPackage cfg i t a name ty private) = (if ty = [] then ''charm'' else ty)"
  "pkg_OwnerAccountID (newPackage cfg i t a name ty private) = acc_ID a"
  "map trk_Name (pkg_Tracks (newPackage cfg i t a name ty private)) = [''latest'']"
  by (simp_all add: newPackage_def)

text \<open>What a patch does to each field.\<close>

lemma setIf_keep: "(\<And>x p. f (upd x p) = f p) \<Longrightarrow> f (setIf v upd r) = f r"
  by (cases v) (simp_all add: setIf_def)

lemma setIf_set:
  "(\<And>x p. f (upd x p) = g x) \<Longrightarrow> f (setIf v upd r) = (case v of None \<Rightarrow> f r | Some x \<Rightarrow> g x)"
  by (cases v) (simp_all add: setIf_def)

lemma applyPatch_keeps [simp]:
  "pkg_ID (applyPatch patch p) = pkg_ID p"
  "pkg_Name (applyPatch patch p) = pkg_Name p"
  "pkg_OwnerAccountID (applyPatch patch p) = pkg_OwnerAccountID p"
  "pkg_Status (applyPatch patch p) = pkg_Status p"
  "pkg_Tracks (applyPatch patch p) = pkg_Tracks p"
  by (simp_all add: applyPatch_def Let_def setIf_keep [of pkg_ID] setIf_keep [of pkg_Name] setIf_keep [of pkg_OwnerAccountID] setIf_keep [of pkg_Status]
     setIf_keep [of pkg_Tracks])

lemma applyPatch_sets [simp]:
  "pkg_Private (applyPatch patch p) = (case mdp_Private patch of None \<Rightarrow> pkg_Private p | Some b \<Rightarrow> b)"
  "pkg_Links (applyPatch patch p) = (case mdp_Links patch of None \<Rightarrow> pkg_Links p | Some l \<Rightarrow> l)"
  "pkg_Title (applyPatch patch p) = (case mdp_Title patch of None \<Rightarrow> pkg_Title p | Some t \<Rightarrow> Some t)"
  "pkg_Summary (applyPatch patch p) = (case mdp_Summary patch of None \<Rightarrow> pkg_Summary p | Some t \<Rightarrow> Some t)"
  "pkg_Description (applyPatch patch p) = (case mdp_Description patch of None \<Rightarrow> pkg_Description p | Some t \<Rightarrow> Some t)"
  "pkg_Website (applyPatch patch p) = (case mdp_Website patch of None \<Rightarrow> pkg_Website p | Some t \<Rightarrow> Some t)"
  "pkg_Contact (applyPatch patch p) = (case mdp_Contact patch of None \<Rightarrow> pkg_Contact p | Some t \<Rightarrow> Some t)"
  "pkg_DefaultTrack (applyPatch patch p) = (case mdp_DefaultTrack patch of None \<Rightarrow> pkg_DefaultTrack p | Some t \<Rightarrow> Some t)"
  by (simp_all add: applyPatch_def Let_def
    setIf_keep [of pkg_Private] setIf_set [of pkg_Private _ "\<lambda>b. b"]
    setIf_keep [of pkg_Links] setIf_set [of pkg_Links _ "\<lambda>l. l"]
    setIf_keep [of pkg_Title] setIf_set [of pkg_Title _ Some]
    setIf_keep [of pkg_Summary] setIf_set [of pkg_Summary _ Some]
    setIf_keep [of pkg_Description] setIf_set [of pkg_Description _ Some]
    setIf_keep [of pkg_Website] setIf_set [of pkg_Website _ Some]
    setIf_keep [of pkg_Contact] setIf_set [of pkg_Contact _ Some]
    setIf_keep [of pkg_DefaultTrack] setIf_set [of pkg_DefaultTrack _ Some]
    cong: option.case_cong)

text \<open>Packages from the in-memory store are enriched with their own tracks.\<close>

definition withStore :: "config \<Rightarrow> package \<Rightarrow> package" where
  "withStore cfg pkg = pkg\<lparr>pkg_Store := cfg_PublicAPIURL cfg @ ''/charms/'' @ pkg_Name pkg\<rparr>"

lemma withStore_sel [simp]:
  "pkg_ID (withStore cfg p) = pkg_ID p" "pkg_Name (withStore cfg p) = pkg_Name p"
  "pkg_Type (withStore cfg p) = pkg_Type p" "pkg_Private (withStore cfg p) = pkg_Private p"
  "pkg_OwnerAccountID (withStore cfg p) = pkg_OwnerAccountID p" "pkg_Tracks (withStore cfg p) = pkg_Tracks p"
  by (simp_all add: withStore_def)

lemma enrichPackage_mem:
  "map_of (packagesByID m) (pkg_ID p) = Some q \<Longrightarrow> pkg_Tracks q = pkg_Tracks p \<Longrightarrow>
     enrichPackage (mem_service cfg) sh p m = Inr (withStore cfg p)"
  by (simp add: enrichPackage_def Memory_ListTracks_def withStore_def)

lemma enrichPackages_mem:
  "(\<And>p. p \<in> set ps \<Longrightarrow> stored p m) \<Longrightarrow>
     enrichPackages (mem_service cfg) shs i ps m = Inr (map (withStore cfg) ps)"
  by (induction ps arbitrary: i) (simp_all add: enrichPackage_mem stored_def)

lemma GetPackage_mem:
  assumes "memory_inv m"
  shows "GetPackage (mem_service cfg) E identity name tp m = Inr pkg \<longleftrightarrow>
    (\<exists>p. map_of (packages m) name = Some p \<and> pkg = withStore cfg p \<and> mayView identity p \<and>
       (tp \<longrightarrow> pkg_Private p \<or> idn_Authenticated identity \<longrightarrow> tokenGrants identity permPackageView))"
proof (cases "map_of (packages m) name")
  case None
  then show ?thesis by (simp add: GetPackage_def Memory_GetPackageByName_def)
next
  case (Some p)
  with assms have "map_of (packagesByID m) (pkg_ID p) = Some p" using stored_name stored_def by blast
  then show ?thesis
    using Some requirePackageView_mem [of m p p cfg identity tp] enrichPackage_mem [of m p p cfg]
    by (auto simp: GetPackage_def Memory_GetPackageByName_def res_iff)
qed

text \<open>The default release of a package: there is one as soon as the package has a release at all, and it
points to a revision.\<close>

lemma ResolveDefaultRelease_mem:
  assumes "memory_inv m"
  shows "Memory_ResolveDefaultRelease sh pid m = Inl ErrNotFound \<and> at_key (releases m) pid = []
    \<or> (\<exists>rl rv. Memory_ResolveDefaultRelease sh pid m = Inr rl
         \<and> Memory_GetRevisionByNumber pid (rel_Revision rl) m = Inr rv
         \<and> rl \<in> set (map snd (at_key (releases m) pid)))"
proof (cases "at_key (releases m) pid = []")
  case True
  then show ?thesis by (simp add: Memory_ResolveDefaultRelease_def)
next
  case False
  then have "go_range sh (map snd (at_key (releases m) pid)) \<noteq> []" by simp
  then obtain y ys where "go_range sh (map snd (at_key (releases m) pid)) = y # ys"
    by (meson list.exhaust)
  moreover from this have "y \<in> set (map snd (at_key (releases m) pid))"
    using set_go_range [of sh "map snd (at_key (releases m) pid)"] by (metis list.set_intros(1))
  ultimately obtain rl where rl: "Memory_ResolveDefaultRelease sh pid m = Inr rl"
      "rl \<in> set (map snd (at_key (releases m) pid))"
    by (cases "map_of (at_key (releases m) pid) ''latest/stable''")
      (auto simp: Memory_ResolveDefaultRelease_def Let_def dest: map_of_in_snd)
  then obtain rv where "Memory_GetRevisionByNumber pid (rel_Revision rl) m = Inr rv"
    using release_has_revision [OF assms rl(2)] by auto
  then show ?thesis using rl by blast
qed

section \<open>Properties\<close>

text \<open>Registering a free name succeeds for a caller with the right to register: the package is stored
under its name and its identifier, owned by the caller, with the one track \<^verbatim>\<open>latest\<close>, every other package
is left as it was, and the invariant of the store is kept.\<close>

lemma register_package_stores:
  assumes "memory_inv m" and "tokenGrants identity permAccountRegisterPackage"
    and "map_of (packages m) name = None"
    and "map_of (packagesByID m) (compactID (uuid E 0)) = None"
  shows "\<exists>pkg m'. RegisterPackage (mem_service cfg) E identity name ty private m = (Inr pkg, m')
     \<and> memory_inv m' \<and> stored pkg m' \<and> pkg_Name pkg = name \<and> pkg_Private pkg = private
     \<and> pkg_Type pkg = (if ty = [] then ''charm'' else ty)
     \<and> pkg_OwnerAccountID pkg = acc_ID (idn_Account identity)
     \<and> map trk_Name (pkg_Tracks pkg) = [''latest'']
     \<and> (\<forall>p. stored p m \<longrightarrow> stored p m')"
proof -
  let ?pkg = "newPackage cfg (compactID (uuid E 0)) (now E 0) (idn_Account identity) name ty private"
  obtain m1 where created: "Memory_CreatePackage ?pkg m = (Inr (), m1)" and st: "stored ?pkg m1"
    using assms(3) by (simp add: Memory_CreatePackage_def stored_def)
  have old: "stored p m \<Longrightarrow> stored p m1" for p
    using assms(1,3,4) created by (auto simp: Memory_CreatePackage_def stored_def)
  have "RegisterPackage (mem_service cfg) E identity name ty private m = (Inr ?pkg, m1)"
    using assms(2) created createTracks_known [OF st]
    by (simp add: RegisterPackage_def requirePermission_Inr Let_def)
  moreover have "memory_inv m1"
    using memory_inv_CreatePackage [of m ?pkg] assms created by simp
  ultimately show ?thesis using st old by (intro exI [of _ ?pkg] exI [of _ m1]) simp
qed

lemma register_package_stores_witness:
  "\<exists>pkg m'. RegisterPackage (mem_service ex_cfg) ex_env bob_in ''shiny'' [] False shop = (Inr pkg, m')
     \<and> stored pkg m' \<and> stored demo m' \<and> pkg_OwnerAccountID pkg = ''a2''"
proof -
  have "tokenGrants bob_in permAccountRegisterPackage" by (simp add: tokenGrants_def bob_in_def)
  moreover have "map_of (packages shop) ''shiny'' = None"
    "map_of (packagesByID shop) (compactID (uuid ex_env 0)) = None"
    by (simp_all add: shop_def ex_env_def compactID_def replaceChar_def)
  moreover have "stored demo shop" by (simp add: stored_def shop_def demo_def)
  ultimately show ?thesis
    using register_package_stores [OF shop_inv, of bob_in "''shiny''" ex_env ex_cfg "[]" False]
    by (auto simp: bob_in_def bob_def)
qed

text \<open>A name that is taken is refused with status 409, whoever asks, and nothing changes.\<close>

lemma register_duplicate:
  assumes "tokenGrants identity permAccountRegisterPackage" and "map_of (packages m) name = Some p"
  shows "RegisterPackage (mem_service cfg) E identity name ty private m =
           (Inl (ServiceError 409 ''already-registered'' ''package already exists''), m)"
  using assms by (simp add: RegisterPackage_def requirePermission_Inr Memory_CreatePackage_def Let_def)

lemma register_duplicate_witness:
  "RegisterPackage (mem_service ex_cfg) ex_env bob_in ''demo'' [] False shop =
     (Inl (ServiceError 409 ''already-registered'' ''package already exists''), shop)"
  by (rule register_duplicate [where p = demo])
    (simp_all add: tokenGrants_def bob_in_def shop_def)

text \<open>A successful metadata update changes exactly the fields the patch names, and the time of the
update, of the one package; it takes a caller who may manage the package's metadata; identity, name,
owner, status and tracks of the package, all other packages and the invariant are kept.\<close>

lemma update_package_patch:
  assumes inv: "memory_inv m"
    and ok: "Service_UpdatePackage (mem_service cfg) E identity name patch m = (Inr pkg, m')"
  shows "memory_inv m' \<and> (\<exists>old new. stored old m \<and> mayManage identity old permPackageManageMetadata
     \<and> stored new m' \<and> pkg = withStore cfg new
     \<and> pkg_ID new = pkg_ID old \<and> pkg_Name new = name \<and> pkg_Name old = name
     \<and> pkg_OwnerAccountID new = pkg_OwnerAccountID old
     \<and> pkg_Status new = pkg_Status old \<and> pkg_Tracks new = pkg_Tracks old
     \<and> pkg_UpdatedAt new = now E 0
     \<and> pkg_Private new = (case mdp_Private patch of None \<Rightarrow> pkg_Private old | Some b \<Rightarrow> b)
     \<and> pkg_Links new = (case mdp_Links patch of None \<Rightarrow> pkg_Links old | Some l \<Rightarrow> l)
     \<and> pkg_Title new = (case mdp_Title patch of None \<Rightarrow> pkg_Title old | Some t \<Rightarrow> Some t)
     \<and> pkg_Summary new = (case mdp_Summary patch of None \<Rightarrow> pkg_Summary old | Some t \<Rightarrow> Some t)
     \<and> pkg_Description new = (case mdp_Description patch of None \<Rightarrow> pkg_Description old | Some t \<Rightarrow> Some t)
     \<and> pkg_Website new = (case mdp_Website patch of None \<Rightarrow> pkg_Website old | Some t \<Rightarrow> Some t)
     \<and> pkg_Contact new = (case mdp_Contact patch of None \<Rightarrow> pkg_Contact old | Some t \<Rightarrow> Some t)
     \<and> pkg_DefaultTrack new = (case mdp_DefaultTrack patch of None \<Rightarrow> pkg_DefaultTrack old | Some t \<Rightarrow> Some t)
     \<and> (\<forall>p. stored p m \<longrightarrow> p \<noteq> old \<longrightarrow> stored p m'))"
proof -
  obtain old where old: "map_of (packages m) name = Some old"
    using ok by (auto simp: Service_UpdatePackage_def Memory_GetPackageByName_def res_iff)
  then have st: "stored old m" "pkg_Name old = name" using stored_name [OF inv] by simp_all
  let ?new = "(applyPatch patch old)\<lparr>pkg_UpdatedAt := now E 0\<rparr>"
  have same: "pkg_ID ?new = pkg_ID old" "pkg_Name ?new = pkg_Name old" "pkg_Tracks ?new = pkg_Tracks old"
    by simp_all
  have manage: "mayManage identity old permPackageManageMetadata"
    using ok old requirePackageManage_mem [OF st(1)]
    by (auto simp: Service_UpdatePackage_def Memory_GetPackageByName_def res_iff)
  obtain m1 where m1: "Memory_UpdatePackage ?new m = (Inr (), m1)" "memory_inv m1" "stored ?new m1"
      "\<And>p. stored p m \<Longrightarrow> p \<noteq> old \<Longrightarrow> stored p m1"
    using update_stored [OF inv st(1) same] by blast
  have "enrichPackage (mem_service cfg) (order E 0) ?new m1 = Inr (withStore cfg ?new)"
    using m1(3) by (intro enrichPackage_mem [of _ _ ?new]) (simp_all add: stored_def)
  then have "Service_UpdatePackage (mem_service cfg) E identity name patch m = (Inr (withStore cfg ?new), m1)"
    using old manage m1(1)
    by (simp add: Service_UpdatePackage_def Memory_GetPackageByName_def
        requirePackageManage_Inr [OF st(1)] Let_def)
  then have eq: "pkg = withStore cfg ?new" "m' = m1" using ok by simp_all
  show ?thesis
    unfolding eq
    using st manage m1(2-4) by (intro conjI exI [of _ old] exI [of _ ?new]) simp_all
qed

definition ex_patch :: metadata_patch where
  "ex_patch =
     \<lparr>mdp_Contact = None, mdp_DefaultTrack = None, mdp_Description = None, mdp_Links = None,
      mdp_Private = Some False, mdp_Summary = None, mdp_Title = Some ''New'', mdp_Website = None\<rparr>"

lemma update_package_patch_witness:
  "\<exists>m' new. stored new m' \<and> pkg_Title new = Some ''New'' \<and> pkg_Summary new = Some ''A demo''
     \<and> \<not> pkg_Private new \<and> pkg_ID new = ''p1''"
proof -
  have demo: "stored demo shop" by (simp add: stored_def shop_def demo_def)
  have manage: "mayManage alice_in demo permPackageManageMetadata"
    by (simp add: mayManage_def tokenGrants_def tokenExcludesPackage_def alice_in_def alice_def demo_def)
  let ?new = "(applyPatch ex_patch demo)\<lparr>pkg_UpdatedAt := now ex_env 0\<rparr>"
  obtain m1 where m1: "Memory_UpdatePackage ?new shop = (Inr (), m1)" "stored ?new m1"
    using update_stored [OF shop_inv demo, of ?new] by auto
  have "enrichPackage (mem_service ex_cfg) (order ex_env 0) ?new m1 = Inr (withStore ex_cfg ?new)"
    using m1(2) by (intro enrichPackage_mem [of _ _ ?new]) (simp_all add: stored_def)
  moreover have "map_of (packages shop) ''demo'' = Some demo" by (simp add: shop_def)
  ultimately have ok: "Service_UpdatePackage (mem_service ex_cfg) ex_env alice_in ''demo'' ex_patch shop
      = (Inr (withStore ex_cfg ?new), m1)"
    using m1(1) manage
    by (simp add: Service_UpdatePackage_def Memory_GetPackageByName_def requirePackageManage_Inr [OF demo] Let_def)
  obtain old new where "stored old shop" "pkg_Name old = ''demo''" "stored new m1" "pkg_ID new = pkg_ID old"
      "pkg_Title new = Some ''New''" "pkg_Summary new = pkg_Summary old" "\<not> pkg_Private new"
    using update_package_patch [OF shop_inv ok] by (auto simp: ex_patch_def)
  moreover from this have "old = demo" by (intro stored_unique [OF _ demo]) (simp_all add: demo_def)
  ultimately show ?thesis by (auto simp: demo_def)
qed

text \<open>C33: a package with revisions is never removed: whoever manages it gets status 400 and nothing changes.
Without revisions it is removed, it and nothing else, and the invariant is kept.\<close>

theorem unregister_spec:
  assumes "memory_inv m" and "stored p m" and "mayManage identity p permPackageManage"
  shows "\<exists>m'. UnregisterPackage (mem_service cfg) identity (pkg_Name p) m =
           (if at_key (revisions m) (pkg_ID p) \<noteq> []
            then (Inl (ServiceError 400 ''invalid-request'' ''cannot unregister a package with existing revisions''), m)
            else (Inr (pkg_ID p), m'))
     \<and> memory_inv m' \<and> (\<forall>q. stored q m' \<longleftrightarrow> stored q m \<and> q \<noteq> p)"
proof -
  have look: "map_of (packages m) (pkg_Name p) = Some p" "map_of (packagesByID m) (pkg_ID p) = Some p"
    using assms(2) by (simp_all add: stored_def)
  let ?m = "m\<lparr>packagesByID := AList.delete (pkg_ID p) (packagesByID m),
              packages := AList.delete (pkg_Name p) (packages m)\<rparr>"
  have del: "Memory_DeletePackage (pkg_ID p) m = (Inr (), ?m)"
    using look by (simp add: Memory_DeletePackage_def)
  have "memory_inv ?m" using memory_inv_DeletePackage [OF assms(1), of "pkg_ID p"] del by simp
  moreover have "stored q ?m \<longleftrightarrow> stored q m \<and> q \<noteq> p" for q
    using stored_unique [OF _ assms(2), of q] look by (auto simp: stored_def)
  ultimately show ?thesis
    using look del requirePackageManage_Inr [OF assms(2,3)]
    by (intro exI [of _ ?m])
      (simp add: UnregisterPackage_def Memory_GetPackageByName_def Memory_ListRevisions_def newError_def)
qed

lemma unregister_spec_witness:
  "UnregisterPackage (mem_service ex_cfg) alice_in ''demo'' shop =
     (Inl (ServiceError 400 ''invalid-request'' ''cannot unregister a package with existing revisions''), shop)"
proof -
  have "stored demo shop" by (simp add: stored_def shop_def demo_def)
  moreover have "mayManage alice_in demo permPackageManage"
    by (simp add: mayManage_def tokenGrants_def tokenExcludesPackage_def alice_in_def alice_def demo_def)
  moreover have "at_key (revisions shop) (pkg_ID demo) \<noteq> []" by (simp add: shop_def demo_def)
  moreover have "pkg_Name demo = ''demo''" by (simp add: demo_def)
  ultimately show ?thesis using unregister_spec [OF shop_inv, of demo alice_in ex_cfg] by auto
qed

section \<open>Search and info\<close>

text \<open>A search hit matches the query, is visible to the caller and has a release.\<close>

definition findHit :: "memory \<Rightarrow> identity \<Rightarrow> string \<Rightarrow> package \<Rightarrow> bool" where
  "findHit m identity query p \<longleftrightarrow>
     (toLower (trimSpace query) = [] \<or> containsStr (toLower (pkg_Name p)) (toLower (trimSpace query)))
     \<and> mayView identity p \<and> at_key (releases m) (pkg_ID p) \<noteq> []"

lemma packageFindResult_mem:
  assumes "memory_inv m"
  shows "if at_key (releases m) (pkg_ID p) = []
         then packageFindResult (mem_service cfg) sh p m = Inl ErrNotFound
         else \<exists>item. packageFindResult (mem_service cfg) sh p m = Inr item
                \<and> doc_at item ''name'' = Some (VStr (pkg_Name p))"
  using ResolveDefaultRelease_mem [OF assms, of sh "pkg_ID p"]
  by (auto simp: packageFindResult_def Let_def Memory_ResolveDefaultRelease_def)

lemma findLoop_mem:
  assumes "memory_inv m" and "\<And>p. p \<in> set ps \<Longrightarrow> stored p m"
  shows "\<exists>items. findLoop (mem_service cfg) shs i identity (map (withStore cfg) ps) m = Inr items
     \<and> map (\<lambda>d. doc_at d ''name'') items =
         map (\<lambda>p. Some (VStr (pkg_Name p)))
           (filter (\<lambda>p. mayView identity p \<and> at_key (releases m) (pkg_ID p) \<noteq> []) ps)"
  using assms(2)
proof (induction ps arbitrary: i)
  case Nil
  then show ?case by simp
next
  case (Cons p ps)
  have see: "canSeePackage (mem_service cfg) identity (withStore cfg p) m = mayView identity p"
    using Cons.prems by (intro canSeePackage_mem) simp_all
  have hit: "if at_key (releases m) (pkg_ID p) = []
         then packageFindResult (mem_service cfg) (shs i) (withStore cfg p) m = Inl ErrNotFound
         else \<exists>item. packageFindResult (mem_service cfg) (shs i) (withStore cfg p) m = Inr item
                \<and> doc_at item ''name'' = Some (VStr (pkg_Name p))"
    using packageFindResult_mem [OF assms(1), of "withStore cfg p" cfg "shs i"]
    by (simp only: withStore_sel)
  obtain items where "findLoop (mem_service cfg) shs (Suc i) identity (map (withStore cfg) ps) m = Inr items"
      "map (\<lambda>d. doc_at d ''name'') items = map (\<lambda>p. Some (VStr (pkg_Name p)))
           (filter (\<lambda>p. mayView identity p \<and> at_key (releases m) (pkg_ID p) \<noteq> []) ps)"
    using Cons.IH [of "Suc i"] Cons.prems by auto
  then show ?case using see hit by (auto split: if_splits)
qed



text \<open>The cache of revisions does not show: with or without it a release is described by the stored revision
it points to.\<close>

lemma revisionToInfo_resources [simp]:
  "revisionToInfo (rv\<lparr>rev_Resources := rs\<rparr>) pid cfg = revisionToInfo rv pid cfg"
  by (simp add: revisionToInfo_def)

definition goodCache :: "('s, 'b) service \<Rightarrow> string \<Rightarrow> 's \<Rightarrow> (int, revision) gomap \<Rightarrow> bool" where
  "goodCache S pid s cache \<longleftrightarrow>
     (\<forall>n rv. map_of cache n = Some rv \<longrightarrow>
        (\<exists>rv0. GetRevisionByNumber (svc_repo S) pid n s = Inr rv0
             \<and> revisionToInfo rv pid (svc_cfg S) = revisionToInfo rv0 pid (svc_cfg S)))"

lemma channelMapLoop_spec:
  "goodCache S pid s cache \<Longrightarrow>
   channelMapLoop S pid cache rels s =
     concat (map (\<lambda>rl. case GetRevisionByNumber (svc_repo S) pid (rel_Revision rl) s of
                         Inl _ \<Rightarrow> []
                       | Inr rv \<Rightarrow> [channelMapEntry (svc_cfg S) pid rl rv]) rels)"
proof (induction rels arbitrary: cache)
  case Nil
  then show ?case by simp
next
  case (Cons rl rels)
  show ?case
  proof (cases "map_of cache (rel_Revision rl)")
    case (Some rv)
    with Cons.prems obtain rv0 where "GetRevisionByNumber (svc_repo S) pid (rel_Revision rl) s = Inr rv0"
        "revisionToInfo rv pid (svc_cfg S) = revisionToInfo rv0 pid (svc_cfg S)"
      unfolding goodCache_def by blast
    then show ?thesis using Cons Some by (simp add: channelMapEntry_def Let_def)
  next
    case None
    show ?thesis
    proof (cases "GetRevisionByNumber (svc_repo S) pid (rel_Revision rl) s")
      case (Inr rv)
      then have "goodCache S pid s (AList.update (rel_Revision rl) rv cache)"
        using Cons.prems by (simp add: goodCache_def)
      then show ?thesis using Cons.IH None Inr by simp
    qed (use Cons None in simp)
  qed
qed

text \<open>C32: the channel map of the info document has one entry for every release of the package, in the order
of the query, each describing the stored revision the release points to: no release is dropped and the
cache of revisions is never stale.\<close>

theorem info_channel_map:
  assumes inv: "memory_inv m" and p: "map_of (packages m) name = Some p"
    and ok: "Info (mem_service cfg) E identity name m = Inr doc"
  shows "\<exists>rels rvs. mset rels = mset (map snd (at_key (releases m) (pkg_ID p)))
     \<and> list_all2 (\<lambda>rl rv. Memory_GetRevisionByNumber (pkg_ID p) (rel_Revision rl) m = Inr rv) rels rvs
     \<and> doc_at doc ''channel-map'' =
         Some (VList (map VMap (map2 (channelMapEntry cfg (pkg_ID p)) rels rvs)))"
proof -
  let ?S = "mem_service cfg" and ?pid = "pkg_ID p"
  let ?rels = "go_range (order E 3) (map snd (at_key (releases m) ?pid))"
  have get: "GetPackage ?S E identity name False m = Inr (withStore cfg p)"
    using ok p by (auto simp: Info_def res_iff GetPackage_mem [OF inv])
  obtain rl0 rv0 defs resources where
      rl0: "Memory_ResolveDefaultRelease (order E 1) ?pid m = Inr rl0"
    and rv0: "Memory_GetRevisionByNumber ?pid (rel_Revision rl0) m = Inr rv0"
    and defs: "Memory_ListResourceDefinitions (order E 2) ?pid m = Inr defs"
    and resources: "resolveReleaseResources ?S ?pid defs rl0 m = Inr resources"
    using ok get by (auto simp: Info_def res_iff)
  then have doc: "doc_at doc ''channel-map'' = Some (VList (map VMap
        (channelMapLoop ?S ?pid [(rel_Revision rl0, rv0\<lparr>rev_Resources := resources\<rparr>)] ?rels m)))"
    using ok get by (auto simp: Info_def Let_def Memory_ListReleases_def)
  let ?rv = "\<lambda>rl. projr (Memory_GetRevisionByNumber ?pid (rel_Revision rl) m)"
  have all: "Memory_GetRevisionByNumber ?pid (rel_Revision rl) m = Inr (?rv rl)" if "rl \<in> set ?rels" for rl
  proof -
    have "rl \<in> set (map snd (at_key (releases m) ?pid))" using that unfolding set_go_range .
    then show ?thesis using release_has_revision [OF inv] by (metis sum.sel(2))
  qed
  have "goodCache ?S ?pid m [(rel_Revision rl0, rv0\<lparr>rev_Resources := resources\<rparr>)]"
    using rv0 by (simp add: goodCache_def)
  note loop = channelMapLoop_spec [OF this]
  have entry: "(case Memory_GetRevisionByNumber ?pid (rel_Revision rl) m of
        Inl _ \<Rightarrow> [] | Inr rv \<Rightarrow> [channelMapEntry cfg ?pid rl rv]) = [channelMapEntry cfg ?pid rl (?rv rl)]"
    if "rl \<in> set ?rels" for rl
    by (subst all [OF that]) simp
  have "channelMapLoop ?S ?pid [(rel_Revision rl0, rv0\<lparr>rev_Resources := resources\<rparr>)] ?rels m =
      concat (map (\<lambda>rl. [channelMapEntry cfg ?pid rl (?rv rl)]) ?rels)"
    unfolding loop mem_service_sel memory_repo_sel
    by (intro arg_cong [of _ _ concat] map_cong refl entry)
  also have "\<dots> = map2 (channelMapEntry cfg ?pid) ?rels (map ?rv ?rels)"
    by (simp add: concat_map_singleton zip_map2 zip_same_conv_map)
  finally have "doc_at doc ''channel-map'' = Some (VList (map VMap
      (map2 (channelMapEntry cfg ?pid) ?rels (map ?rv ?rels))))"
    using doc by (simp only:)
  moreover have "list_all2 (\<lambda>rl rv. Memory_GetRevisionByNumber ?pid (rel_Revision rl) m = Inr rv)
      ?rels (map ?rv ?rels)"
    unfolding list_all2_conv_all_nth using all by (simp del: set_go_range)
  ultimately show ?thesis
    by (intro exI [of _ ?rels] exI [of _ "map ?rv ?rels"]) simp
qed

lemma info_channel_map_witness:
  "\<exists>doc entries. Info (mem_service ex_cfg) ex_env alice_in ''demo'' shop = Inr doc
     \<and> doc_at doc ''channel-map'' = Some (VList entries) \<and> length entries = 2"
proof -
  have ids: "map_of (packages shop) ''demo'' = Some demo" "pkg_ID demo = ''p1''"
    "at_key (releases shop) ''p1'' = [(''latest/stable'', demo_release ''latest/stable'' 1),
       (''latest/edge'', demo_release ''latest/edge'' 2)]"
    by (simp_all add: shop_def demo_def)
  obtain doc where doc: "Info (mem_service ex_cfg) ex_env alice_in ''demo'' shop = Inr doc"
    using ids
    by (simp add: Info_def GetPackage_def Memory_GetPackageByName_def requirePackageView_def requireAuth_def
        Memory_CanViewPackage_def tokenExcludesPackage_def enrichPackage_def Memory_ListTracks_def
        Memory_ResolveDefaultRelease_def Memory_GetRevisionByNumber_def Memory_ListResourceDefinitions_def
        resolveReleaseResources_def Memory_GetResourceDefinition_def Memory_GetResourceRevision_def
        Memory_ListReleases_def Let_def ex_defs)
  obtain rels rvs where rels: "mset rels = mset (map snd (at_key (releases shop) ''p1''))"
      and all: "list_all2 (\<lambda>rl rv. Memory_GetRevisionByNumber ''p1'' (rel_Revision rl) shop = Inr rv) rels rvs"
      and cm: "doc_at doc ''channel-map'' = Some (VList (map VMap (map2 (channelMapEntry ex_cfg ''p1'') rels rvs)))"
    using info_channel_map [OF shop_inv ids(1) doc] unfolding ids(2) by blast
  have "length rels = 2" using arg_cong [OF rels, of size] by (simp add: ids(3))
  then have "length (map VMap (map2 (channelMapEntry ex_cfg ''p1'') rels rvs)) = 2"
    using list_all2_lengthD [OF all] by simp
  with doc cm show ?thesis by blast
qed

end
