(* ===== verification/Charm.thy ===== *)
theory Charm
  imports Core
begin

text \<open>
  \<^verbatim>\<open>internal/charm/archive.go\<close>: reading a charm archive.  The zip reader and the YAML decoder are not
  part of the repository: they are the fields of \<open>archive_lib\<close>.  A zip file's \<^verbatim>\<open>Open\<close> and the reading of
  its content may fail one after the other.
\<close>

section \<open>Libraries\<close>

record zip_file =
  zf_Name :: string
  zf_Open :: "bytes res res"

record archive_lib =
  lib_zip :: "bytes \<Rightarrow> zip_file list res"
  lib_manifest :: "string \<Rightarrow> charm_manifest res"
  lib_bases :: "string \<Rightarrow> charm_base list res"

section \<open>Reading an archive\<close>

text \<open>
  \<^verbatim>\<open>strings.EqualFold\<close> against an ASCII name: letters match without regard to case, and two characters
  outside ASCII fold to a letter, the long s (bytes C5 BF) and the Kelvin sign (bytes E2 84 AA).
\<close>

fun equalFold :: "string \<Rightarrow> string \<Rightarrow> bool" where
  "equalFold [] [] = True"
| "equalFold (_ # _) [] = False"
| "equalFold [] (_ # _) = False"
| "equalFold (x # s) (t # ts) =
     (if lowerChar x = lowerChar t then equalFold s ts
      else if x = CHR 0xC5 \<and> lowerChar t = CHR ''s'' then
        (case s of y # s' \<Rightarrow> y = CHR 0xBF \<and> equalFold s' ts | [] \<Rightarrow> False)
      else if x = CHR 0xE2 \<and> lowerChar t = CHR ''k'' then
        (case s of y # z # s' \<Rightarrow> y = CHR 0x84 \<and> z = CHR 0xAA \<and> equalFold s' ts | _ \<Rightarrow> False)
      else False)"

definition readZipFile :: "zip_file \<Rightarrow> bytes res" where
  "readZipFile file =
     (case zf_Open file of
        Inl err \<Rightarrow> Inl (Errorf (''open '' @ zf_Name file @ '': '' @ errText err))
      | Inr content \<Rightarrow> content)"

definition zero_manifest :: charm_manifest where
  "zero_manifest =
     \<lparr>man_Name = [], man_DisplayName = [], man_Summary = [], man_Description = [], man_Docs = [],
      man_Issues = [], man_Source = [], man_Website = YNull, man_Subordinate = False, man_Bases = [],
      man_Resources = [], man_Containers = [], man_Provides = [], man_Requires = [], man_Peers = [],
      man_Assumes = YNull\<rparr>"

definition zero_archive :: charm_archive where
  "zero_archive =
     \<lparr>arc_MetadataYAML = [], arc_ManifestYAML = [], arc_ConfigYAML = [], arc_ActionsYAML = [],
      arc_BundleYAML = [], arc_ReadmeMD = [], arc_Manifest = zero_manifest\<rparr>"

text \<open>The switch on the file name; \<^verbatim>\<open>filepath.ToSlash\<close> is the identity where the separator is the slash.\<close>

definition addFile :: "string \<Rightarrow> bytes \<Rightarrow> charm_archive \<Rightarrow> charm_archive" where
  "addFile name content archive =
     (if equalFold name ''metadata.yaml'' then archive\<lparr>arc_MetadataYAML := content\<rparr>
      else if equalFold name ''manifest.yaml'' then archive\<lparr>arc_ManifestYAML := content\<rparr>
      else if equalFold name ''config.yaml'' then archive\<lparr>arc_ConfigYAML := content\<rparr>
      else if equalFold name ''actions.yaml'' then archive\<lparr>arc_ActionsYAML := content\<rparr>
      else if equalFold name ''bundle.yaml'' then archive\<lparr>arc_BundleYAML := content\<rparr>
      else if equalFold name ''README.md'' then archive\<lparr>arc_ReadmeMD := content\<rparr>
      else archive)"

fun readFiles :: "zip_file list \<Rightarrow> charm_archive \<Rightarrow> charm_archive res" where
  "readFiles [] archive = Inr archive"
| "readFiles (file # files) archive =
     res_bind (readZipFile file) (\<lambda>content. readFiles files (addFile (zf_Name file) content archive))"

text \<open>One step of the loop of \<^verbatim>\<open>populateContainerResources\<close>.\<close>

definition addContainerResource ::
    "charm_container \<Rightarrow> (string, resource_declaration) gomap \<Rightarrow> (string, resource_declaration) gomap" where
  "addContainerResource container resources =
     (if cc_Resource container = [] then resources
      else if map_of resources (cc_Resource container) \<noteq> None then resources
      else AList.update (cc_Resource container)
             \<lparr>crd_Type = ''oci-image'', crd_Description = [], crd_Filename = [], crd_UpstreamSource = []\<rparr>
             resources)"

definition populateContainerResources :: "shuffle \<Rightarrow> charm_manifest \<Rightarrow> charm_manifest" where
  "populateContainerResources sh manifest =
     manifest\<lparr>man_Resources :=
       fold addContainerResource (go_range sh (map snd (man_Containers manifest))) (man_Resources manifest)\<rparr>"

definition ParseArchive :: "archive_lib \<Rightarrow> shuffle \<Rightarrow> bytes \<Rightarrow> charm_archive res" where
  "ParseArchive lib sh payload =
     res_bind (map_err (\<lambda>err. Errorf (''open charm archive: '' @ errText err)) (lib_zip lib payload)) (\<lambda>files.
     res_bind (readFiles files zero_archive) (\<lambda>archive.
     if arc_MetadataYAML archive = []
     then Inl (Errorf ''metadata.yaml not found in charm archive'')
     else
       res_bind (map_err (\<lambda>err. Errorf (''parse metadata.yaml: '' @ errText err))
                  (lib_manifest lib (arc_MetadataYAML archive))) (\<lambda>manifest0.
       let manifest =
             (if arc_ManifestYAML archive \<noteq> [] then
                (case lib_bases lib (arc_ManifestYAML archive) of
                   Inr bases \<Rightarrow> manifest0\<lparr>man_Bases := bases\<rparr>
                 | Inl _ \<Rightarrow> manifest0)
              else manifest0) in
       Inr (archive\<lparr>arc_Manifest := populateContainerResources sh manifest\<rparr>))))"

fun yamlString :: "yaml \<Rightarrow> string option" where
  "yamlString (YStr str) = (if str = [] then None else Some str)"
| "yamlString _ = None"

fun ExtractWebsites :: "yaml \<Rightarrow> string list" where
  "ExtractWebsites (YStr value) = (if value = [] then [] else [value])"
| "ExtractWebsites (YSeq items) = List.map_filter yamlString items"
| "ExtractWebsites (YStrs values) = values"
| "ExtractWebsites _ = []"

section \<open>Lemmas\<close>

lemma readFiles_append:
  "readFiles (fs @ gs) a = res_bind (readFiles fs a) (readFiles gs)"
proof (induction fs arbitrary: a)
  case (Cons f fs)
  then show ?case by (cases "readZipFile f") simp_all
qed simp

lemma addContainerResources_lookup:
  "map_of (fold addContainerResource cs rs) n =
     (case map_of rs n of
        Some d \<Rightarrow> Some d
      | None \<Rightarrow> if n \<noteq> [] \<and> (\<exists>c \<in> set cs. cc_Resource c = n)
                then Some \<lparr>crd_Type = ''oci-image'', crd_Description = [], crd_Filename = [],
                           crd_UpstreamSource = []\<rparr>
                else None)"
proof (induction cs arbitrary: rs)
  case Nil
  then show ?case by (simp split: option.split)
next
  case (Cons c cs)
  show ?case
    unfolding fold.simps comp_def Cons.IH
    by (auto simp: addContainerResource_def split: option.splits)
qed

text \<open>The last entry of an archive with a given name is the one that counts.\<close>

definition lastNamed :: "string \<Rightarrow> zip_file list \<Rightarrow> zip_file option" where
  "lastNamed target files = find (\<lambda>f. equalFold (zf_Name f) target) (rev files)"

definition contentOf :: "zip_file option \<Rightarrow> bytes" where
  "contentOf file = (case file of None \<Rightarrow> [] | Some f \<Rightarrow> (case readZipFile f of Inl _ \<Rightarrow> [] | Inr c \<Rightarrow> c))"

lemma readFiles_field:
  assumes step: "\<And>name c a. get (addFile name c a) = (if equalFold name target then c else get a)"
    and init: "get a = []"
  shows "readFiles files a = Inr b \<Longrightarrow> get b = contentOf (lastNamed target files)"
proof (induction files arbitrary: b rule: rev_induct)
  case Nil
  then show ?case using init by (simp add: lastNamed_def contentOf_def)
next
  case (snoc f files)
  then obtain b0 c where "readFiles files a = Inr b0" "readZipFile f = Inr c" "b = addFile (zf_Name f) c b0"
    by (auto simp: readFiles_append res_iff)
  then show ?case using snoc.IH [of b0] by (simp add: step lastNamed_def contentOf_def)
qed

text \<open>A file name does not fold to both names.\<close>

lemma lowerChar_letters [simp]:
  "lowerChar CHR ''m'' = CHR ''m''" "lowerChar CHR ''e'' = CHR ''e''" "lowerChar CHR ''a'' = CHR ''a''"
  by (simp_all add: lowerChar_def)

lemma metadata_not_manifest: "equalFold s ''metadata.yaml'' \<Longrightarrow> \<not> equalFold s ''manifest.yaml''"
proof (cases s)
  case (Cons x r)
  assume "equalFold s ''metadata.yaml''"
  then show ?thesis using Cons by (cases r) (auto split: if_splits)
qed simp

lemma readFiles_metadata:
  "readFiles files zero_archive = Inr b \<Longrightarrow>
     arc_MetadataYAML b = contentOf (lastNamed ''metadata.yaml'' files)"
  by (rule readFiles_field) (simp_all add: addFile_def zero_archive_def)

lemma readFiles_manifest:
  "readFiles files zero_archive = Inr b \<Longrightarrow>
     arc_ManifestYAML b = contentOf (lastNamed ''manifest.yaml'' files)"
  using metadata_not_manifest by (intro readFiles_field) (auto simp add: addFile_def zero_archive_def)

section \<open>Properties\<close>

text \<open>The resources of a parsed charm do not depend on the order in which the containers are visited: a
declared resource keeps its declaration, a resource only a container names is an OCI image, and there is
no other.\<close>

lemma populateContainerResources_spec:
  "map_of (man_Resources (populateContainerResources sh manifest)) n =
     (case map_of (man_Resources manifest) n of
        Some d \<Rightarrow> Some d
      | None \<Rightarrow>
          if n \<noteq> [] \<and> n \<in> cc_Resource ` snd ` set (man_Containers manifest)
          then Some \<lparr>crd_Type = ''oci-image'', crd_Description = [], crd_Filename = [], crd_UpstreamSource = []\<rparr>
          else None)"
  by (auto simp: populateContainerResources_def addContainerResources_lookup split: option.splits)

text \<open>C34: an archive is accepted only when an entry is named like \<^verbatim>\<open>metadata.yaml\<close> (in any case) and is not
empty; the last such entry is the one decoded, and the bases are those of the metadata unless the last
\<^verbatim>\<open>manifest.yaml\<close> decodes, when they are those of the manifest.\<close>

theorem parseArchive_spec:
  assumes "ParseArchive lib sh payload = Inr archive"
  shows "\<exists>files manifest. lib_zip lib payload = Inr files
     \<and> arc_MetadataYAML archive = contentOf (lastNamed ''metadata.yaml'' files)
     \<and> arc_MetadataYAML archive \<noteq> []
     \<and> lib_manifest lib (arc_MetadataYAML archive) = Inr manifest
     \<and> man_Name (arc_Manifest archive) = man_Name manifest
     \<and> man_Bases (arc_Manifest archive) =
         (case contentOf (lastNamed ''manifest.yaml'' files) of
            [] \<Rightarrow> man_Bases manifest
          | _ \<Rightarrow> (case lib_bases lib (contentOf (lastNamed ''manifest.yaml'' files)) of
                   Inr bases \<Rightarrow> bases | Inl _ \<Rightarrow> man_Bases manifest))"
proof -
  obtain files a manifest where files: "lib_zip lib payload = Inr files"
      and a: "readFiles files zero_archive = Inr a"
      and man: "lib_manifest lib (arc_MetadataYAML a) = Inr manifest" and ne: "arc_MetadataYAML a \<noteq> []"
    using assms by (auto simp: ParseArchive_def res_iff split: if_splits)
  have out: "archive = a\<lparr>arc_Manifest := populateContainerResources sh
      (if arc_ManifestYAML a \<noteq> [] then
         (case lib_bases lib (arc_ManifestYAML a) of
            Inr bases \<Rightarrow> manifest\<lparr>man_Bases := bases\<rparr> | Inl _ \<Rightarrow> manifest)
       else manifest)\<rparr>"
    using assms files a man ne by (auto simp: ParseArchive_def Let_def)
  show ?thesis
    using files man ne readFiles_metadata [OF a] readFiles_manifest [OF a]
    by (intro exI [of _ files] exI [of _ manifest])
      (auto simp: out populateContainerResources_def split: sum.splits list.splits)
qed

definition ex_lib :: archive_lib where
  "ex_lib =
     \<lparr>lib_zip = (\<lambda>payload. if payload = ''zip'' then
          Inr [\<lparr>zf_Name = ''Metadata.YAML'', zf_Open = Inr (Inr ''name: demo'')\<rparr>,
               \<lparr>zf_Name = ''manifest.yaml'', zf_Open = Inr (Inr ''bases'')\<rparr>]
          else Inl (Errorf ''zip: not a valid zip file'')),
      lib_manifest = (\<lambda>y. Inr (zero_manifest
         \<lparr>man_Name := ''demo'', man_Containers := [(''c'', \<lparr>cc_Resource = ''img''\<rparr>)]\<rparr>)),
      lib_bases = (\<lambda>y. Inr [\<lparr>cb_Name = ''ubuntu'', cb_Channel = ''24.04'', cb_Architecture = [],
                            cb_Architectures = [''arm64'', ''amd64'']\<rparr>])\<rparr>"

lemma ex_lib_parses:
  obtains archive where "ParseArchive ex_lib in_order ''zip'' = Inr archive"
proof -
  have "equalFold ''Metadata.YAML'' ''metadata.yaml''" "\<not> equalFold ''manifest.yaml'' ''metadata.yaml''"
    "equalFold ''manifest.yaml'' ''manifest.yaml''"
    by code_simp+
  then show ?thesis
    by (intro that)
      (simp add: ParseArchive_def ex_lib_def readZipFile_def addFile_def zero_archive_def Let_def
        del: equalFold.simps)
qed

lemma populate_declares:
  "(c, \<lparr>cc_Resource = n\<rparr>) \<in> set (man_Containers manifest) \<Longrightarrow> n \<noteq> [] \<Longrightarrow>
     n \<in> fst ` set (man_Resources (populateContainerResources sh manifest))"
proof -
  assume "(c, \<lparr>cc_Resource = n\<rparr>) \<in> set (man_Containers manifest)" and ne: "n \<noteq> []"
  then have "n \<in> cc_Resource ` snd ` set (man_Containers manifest)" by force
  then have "map_of (man_Resources (populateContainerResources sh manifest)) n \<noteq> None"
    using ne by (auto simp: populateContainerResources_def addContainerResources_lookup split: option.splits)
  then show ?thesis by (simp add: map_of_eq_None_iff)
qed

lemma ex_lib_declares:
  assumes "ParseArchive ex_lib in_order ''zip'' = Inr archive"
  shows "''img'' \<in> fst ` set (man_Resources (arc_Manifest archive))"
proof -
  obtain m where "arc_Manifest archive = populateContainerResources in_order m"
      and "man_Containers m = [(''c'', \<lparr>cc_Resource = ''img''\<rparr>)]"
    using assms by (auto simp: ParseArchive_def ex_lib_def res_iff Let_def split: if_splits)
  then show ?thesis using populate_declares [of "''c''" "''img''" m in_order] by simp
qed

lemma parseArchive_spec_witness:
  "\<exists>archive. ParseArchive ex_lib in_order ''zip'' = Inr archive \<and> arc_MetadataYAML archive = ''name: demo''
     \<and> length (man_Bases (arc_Manifest archive)) = 1"
proof -
  have names: "equalFold ''Metadata.YAML'' ''metadata.yaml''" "equalFold ''manifest.yaml'' ''manifest.yaml''"
    "\<not> equalFold ''manifest.yaml'' ''metadata.yaml''"
    by code_simp+
  obtain archive where a: "ParseArchive ex_lib in_order ''zip'' = Inr archive" by (rule ex_lib_parses)
  from parseArchive_spec [OF a] names
  have "arc_MetadataYAML archive = ''name: demo'' \<and> length (man_Bases (arc_Manifest archive)) = 1"
    by (auto simp: ex_lib_def lastNamed_def contentOf_def readZipFile_def simp del: equalFold.simps)
  with a show ?thesis by blast
qed

end
