(* ===== verification/Revisions.thy ===== *)
theory Revisions
  imports Views Guards Charm Hash Examples
begin

text \<open>
  \<^verbatim>\<open>internal/service/revisions.go\<close>: uploads, the publication of a charm revision from an upload, the
  review document, the list of revisions and the download of a charm.  Publishing reads the blob store
  and changes the repository; only an upload changes both.
\<close>

section \<open>Uploads\<close>

text \<open>\<^verbatim>\<open>core.Upload{...}\<close> of \<^verbatim>\<open>CreateUpload\<close>; \<^verbatim>\<open>filepath.ToSlash\<close> is the identity where the separator is the slash.\<close>

definition uploadKey :: "string \<Rightarrow> string \<Rightarrow> string" where
  "uploadKey uploadID filename = filepathJoin [''uploads'', uploadID, filename]"

definition newUpload :: "string \<Rightarrow> time \<Rightarrow> string \<Rightarrow> bytes \<Rightarrow> upload" where
  "newUpload uploadID t filename payload =
     \<lparr>upl_ID = uploadID, upl_Filename = filename, upl_ObjectKey = uploadKey uploadID filename,
      upl_Size = int (length payload), upl_SHA256 = hexEncode (sha256 payload),
      upl_SHA384 = hexEncode (sha384 payload), upl_Status = ''pending'',
      upl_Kind = detectUploadKind filename, upl_CreatedAt = t, upl_ApprovedAt = None,
      upl_Revision = None, upl_Errors = []\<rparr>"

definition Service_CreateUpload ::
    "('s, 'b) service \<Rightarrow> ambient \<Rightarrow> string \<Rightarrow> bytes \<Rightarrow> 's \<Rightarrow> 'b \<Rightarrow> upload res \<times> 's \<times> 'b" where
  "Service_CreateUpload S E filename payload s b =
     (let upload = newUpload (uuid E 0) (now E 0) filename payload in
      case blob_Put (svc_blobs S) (upl_ObjectKey upload) payload ''application/octet-stream'' b of
        (Inl err, b1) \<Rightarrow> (Inl err, s, b1)
      | (Inr _, b1) \<Rightarrow>
          (case CreateUpload (svc_repo S) upload s of
             (Inl err, s1) \<Rightarrow> (Inl err, s1, b1)
           | (Inr _, s1) \<Rightarrow> (Inr upload, s1, b1)))"

section \<open>Publishing a revision\<close>

text \<open>The revision \<^verbatim>\<open>PushRevision\<close> creates from an upload and a parsed archive.\<close>

definition newRevision ::
    "string \<Rightarrow> time \<Rightarrow> string \<Rightarrow> string \<Rightarrow> int \<Rightarrow> upload \<Rightarrow> charm_archive \<Rightarrow> revision" where
  "newRevision newID t packageID accountID n upload archive =
     \<lparr>rev_ID = newID, rev_PackageID = packageID, rev_Revision = n, rev_Version = itoa n,
      rev_Status = ''approved'', rev_CreatedAt = t, rev_CreatedBy = accountID,
      rev_Size = upl_Size upload, rev_SHA256 = upl_SHA256 upload, rev_SHA384 = upl_SHA384 upload,
      rev_ObjectKey = upl_ObjectKey upload, rev_MetadataYAML = arc_MetadataYAML archive,
      rev_ConfigYAML = arc_ConfigYAML archive, rev_ActionsYAML = arc_ActionsYAML archive,
      rev_BundleYAML = arc_BundleYAML archive, rev_ReadmeMD = arc_ReadmeMD archive,
      rev_Bases = extractBases (arc_Manifest archive),
      rev_Attributes = [(''framework'', ''operator''), (''language'', ''unknown'')],
      rev_Relations = [(''provides'', man_Provides (arc_Manifest archive)),
                       (''requires'', man_Requires (arc_Manifest archive)),
                       (''peers'', man_Peers (arc_Manifest archive))],
      rev_Subordinate = man_Subordinate (arc_Manifest archive), rev_Resources = []\<rparr>"

text \<open>The package after a publication.\<close>

definition publishedPackage :: "time \<Rightarrow> charm_manifest \<Rightarrow> package \<Rightarrow> package" where
  "publishedPackage t manifest pkg =
     (let websites = ExtractWebsites (man_Website manifest);
          pkg1 = pkg\<lparr>pkg_Status := ''published'',
            pkg_Title := stringPtr (firstNonEmpty [man_DisplayName manifest, man_Name manifest, pkg_Name pkg]),
            pkg_Summary := stringPtr (man_Summary manifest),
            pkg_Description := stringPtr (man_Description manifest),
            pkg_Links := mergeLinks (pkg_Links pkg) (man_Docs manifest) (man_Issues manifest)
                           (man_Source manifest) websites\<rparr>;
          pkg2 = (case websites of [] \<Rightarrow> pkg1 | w # _ \<Rightarrow> pkg1\<lparr>pkg_Website := Some w\<rparr>) in
      pkg2\<lparr>pkg_UpdatedAt := t\<rparr>)"

text \<open>The loop over the declared resources, in the order of the iteration; the \<open>i\<close>-th one takes the \<open>i\<close>-th
fresh identifier.\<close>

fun upsertResources ::
    "('s, 'b) service \<Rightarrow> (nat \<Rightarrow> string) \<Rightarrow> nat \<Rightarrow> time \<Rightarrow> string \<Rightarrow> (string \<times> resource_declaration) list
       \<Rightarrow> 's \<Rightarrow> unit res \<times> 's" where
  "upsertResources S ids i t packageID [] s = (Inr (), s)"
| "upsertResources S ids i t packageID ((name, resource) # rest) s =
     st_bind (UpsertResourceDefinition (svc_repo S)
                \<lparr>rd_ID = ids i, rd_PackageID = packageID, rd_Name = name, rd_Type = crd_Type resource,
                 rd_Description = crd_Description resource, rd_Filename = crd_Filename resource,
                 rd_Optional = False, rd_CreatedAt = t\<rparr> s)
       (\<lambda>_ s1. upsertResources S ids (Suc i) t packageID rest s1)"

definition reviewURL :: "string \<Rightarrow> string \<Rightarrow> string" where
  "reviewURL charmName uploadID = ''/v1/charm/'' @ charmName @ ''/revisions/review?upload-id='' @ uploadID"

text \<open>From the parsed archive on.\<close>

definition publishRevision ::
    "('s, 'b) service \<Rightarrow> ambient \<Rightarrow> identity \<Rightarrow> string \<Rightarrow> package \<Rightarrow> upload \<Rightarrow> charm_archive \<Rightarrow> 's
       \<Rightarrow> string res \<times> 's" where
  "publishRevision S E identity charmName pkg upload archive s =
     rd_bind (case GetLatestRevision (svc_repo S) (pkg_ID pkg) s of
                Inr latest \<Rightarrow> Inr (rev_Revision latest + 1)
              | Inl ErrNotFound \<Rightarrow> Inr 1
              | Inl err \<Rightarrow> Inl err) s (\<lambda>n.
     let t = now E 0;
         rv = newRevision (uuid E 0) t (pkg_ID pkg) (acc_ID (idn_Account identity)) n upload archive in
     st_bind (CreateRevision (svc_repo S) rv s) (\<lambda>_ s1.
     st_bind (ApproveUpload (svc_repo S) (now E 1) (upl_ID upload) (Some n) [] s1) (\<lambda>_ s2.
     st_bind (UpdatePackage (svc_repo S) (publishedPackage t (arc_Manifest archive) pkg) s2) (\<lambda>_ s3.
     st_bind (upsertResources S (uuid E) 1 t (pkg_ID pkg)
                (go_range (order E 1) (man_Resources (arc_Manifest archive))) s3) (\<lambda>_ s4.
     (Inr (reviewURL charmName (upl_ID upload)), s4))))))"

definition PushRevision ::
    "('s, 'b) service \<Rightarrow> archive_lib \<Rightarrow> ambient \<Rightarrow> identity \<Rightarrow> string \<Rightarrow> string \<Rightarrow> 's \<Rightarrow> 'b
       \<Rightarrow> string res \<times> 's" where
  "PushRevision S lib E identity charmName uploadID s b =
     rd_bind (map_err (translateRepoError ''package not found'') (GetPackageByName (svc_repo S) charmName s)) s (\<lambda>pkg.
     rd_bind (requirePackageManage S identity pkg permPackageManageRevisions s) s (\<lambda>_.
     rd_bind (map_err (translateRepoError ''upload not found'') (GetUpload (svc_repo S) uploadID s)) s (\<lambda>upload.
     rd_bind (blob_Get (svc_blobs S) (upl_ObjectKey upload) b) s (\<lambda>payload.
     case ParseArchive lib (order E 0) payload of
       Inl err \<Rightarrow>
         (Inl (newError 400 ''invalid-archive'' (errText err)),
          snd (ApproveUpload (svc_repo S) (now E 0) (upl_ID upload) None
                 [\<lparr>err_Code = ''invalid-archive'', err_Message = errText err\<rparr>] s))
     | Inr archive \<Rightarrow> publishRevision S E identity charmName pkg upload archive s))))"

section \<open>Reading\<close>

definition ReviewUpload ::
    "('s, 'b) service \<Rightarrow> identity \<Rightarrow> string \<Rightarrow> string \<Rightarrow> 's \<Rightarrow> document res" where
  "ReviewUpload S identity charmName uploadID s =
     res_bind (map_err (translateRepoError ''package not found'') (GetPackageByName (svc_repo S) charmName s)) (\<lambda>pkg.
     res_bind (requirePackageView S identity pkg True s) (\<lambda>_.
     res_bind (map_err (translateRepoError ''upload not found'') (GetUpload (svc_repo S) uploadID s)) (\<lambda>upload.
     Inr [(''revisions'', VList [VMap
       [(''errors'', (if upl_Errors upload = [] then VNil else VErrors (upl_Errors upload))),
        (''revision'', VIntPtr (upl_Revision upload)),
        (''status'', VStr (upl_Status upload)),
        (''upload-id'', VStr (upl_ID upload))]])])))"

definition Service_ListRevisions ::
    "('s, 'b) service \<Rightarrow> identity \<Rightarrow> string \<Rightarrow> int option \<Rightarrow> 's \<Rightarrow> revision list res" where
  "Service_ListRevisions S identity charmName revisionArg s =
     res_bind (map_err (translateRepoError ''package not found'') (GetPackageByName (svc_repo S) charmName s)) (\<lambda>pkg.
     res_bind (requirePackageView S identity pkg True s) (\<lambda>_.
     ListRevisions (svc_repo S) (pkg_ID pkg) revisionArg s))"

definition DownloadCharm ::
    "('s, 'b) service \<Rightarrow> identity \<Rightarrow> string \<Rightarrow> int \<Rightarrow> 's \<Rightarrow> 'b \<Rightarrow> bytes res" where
  "DownloadCharm S identity packageID revisionNumber s b =
     res_bind (map_err (translateRepoError ''package not found'') (GetPackageByID (svc_repo S) packageID s)) (\<lambda>pkg.
     res_bind (requirePackageView S identity pkg False s) (\<lambda>_.
     res_bind (map_err (translateRepoError ''revision not found'')
                (GetRevisionByNumber (svc_repo S) (pkg_ID pkg) revisionNumber s)) (\<lambda>revision.
     blob_Get (svc_blobs S) (rev_ObjectKey revision) b)))"

section \<open>Lemmas\<close>

lemma publishedPackage_sel [simp]:
  "pkg_ID (publishedPackage t man p) = pkg_ID p" "pkg_Name (publishedPackage t man p) = pkg_Name p"
  "pkg_Tracks (publishedPackage t man p) = pkg_Tracks p" "pkg_Private (publishedPackage t man p) = pkg_Private p"
  "pkg_OwnerAccountID (publishedPackage t man p) = pkg_OwnerAccountID p"
  "pkg_Status (publishedPackage t man p) = ''published''"
  by (simp_all add: publishedPackage_def Let_def split: list.split)

lemma newRevision_sel [simp]:
  "rev_PackageID (newRevision i t pid a n u arc) = pid"
  "rev_Revision (newRevision i t pid a n u arc) = n"
  "rev_ObjectKey (newRevision i t pid a n u arc) = upl_ObjectKey u"
  "rev_Bases (newRevision i t pid a n u arc) = extractBases (arc_Manifest arc)"
  by (simp_all add: newRevision_def)

text \<open>The definitions of the resources: nothing else changes.\<close>

lemma upsertResources_mem:
  "memory_inv m \<Longrightarrow> \<exists>x. upsertResources (mem_service cfg) ids i t pid rs m = (Inr (), m\<lparr>resourceDefs := x\<rparr>)
     \<and> memory_inv (m\<lparr>resourceDefs := x\<rparr>)
     \<and> dom (map_of (at_key x pid)) = dom (map_of (at_key (resourceDefs m) pid)) \<union> fst ` set rs"
proof (induction rs arbitrary: i m)
  case Nil
  then show ?case by (intro exI [of _ "resourceDefs m"]) simp
next
  case (Cons r rs)
  obtain name d where r: "r = (name, d)" by (cases r)
  let ?d = "\<lparr>rd_ID = ids i, rd_PackageID = pid, rd_Name = name, rd_Type = crd_Type d,
    rd_Description = crd_Description d, rd_Filename = crd_Filename d, rd_Optional = False, rd_CreatedAt = t\<rparr>"
  let ?x = "AList.update pid (AList.update name ?d (at_key (resourceDefs m) pid)) (resourceDefs m)"
  have m1: "Memory_UpsertResourceDefinition ?d m = (Inr ?d, m\<lparr>resourceDefs := ?x\<rparr>)"
    by (simp add: Memory_UpsertResourceDefinition_def)
  have inv1: "memory_inv (m\<lparr>resourceDefs := ?x\<rparr>)"
    using memory_inv_UpsertResourceDefinition [OF Cons.prems, of ?d] m1 by simp
  obtain x where x: "upsertResources (mem_service cfg) ids (Suc i) t pid rs (m\<lparr>resourceDefs := ?x\<rparr>)
        = (Inr (), (m\<lparr>resourceDefs := ?x\<rparr>)\<lparr>resourceDefs := x\<rparr>)"
      "memory_inv ((m\<lparr>resourceDefs := ?x\<rparr>)\<lparr>resourceDefs := x\<rparr>)"
      "dom (map_of (at_key x pid)) =
         dom (map_of (at_key (resourceDefs (m\<lparr>resourceDefs := ?x\<rparr>)) pid)) \<union> fst ` set rs"
    using Cons.IH [OF inv1, of "Suc i"] by blast
  have "dom (map_of (at_key ?x pid)) = insert name (dom (map_of (at_key (resourceDefs m) pid)))"
    by (simp add: update_conv')
  then show ?case
    using m1 x r by (intro exI [of _ x]) simp
qed

text \<open>Every declared resource gets a definition under a new identifier, even when it had one.\<close>

definition renewed :: "(nat \<Rightarrow> string) \<Rightarrow> (string, (string, resource_definition) gomap) gomap \<Rightarrow> string \<Rightarrow> string \<Rightarrow> bool" where
  "renewed ids x pid name \<longleftrightarrow> (\<exists>d i. map_of (at_key x pid) name = Some d \<and> rd_ID d = ids i)"

lemma upsertResources_other:
  "name \<notin> fst ` set rs \<Longrightarrow>
     map_of (at_key (resourceDefs (snd (upsertResources (mem_service cfg) ids i t pid rs m))) pid) name
       = map_of (at_key (resourceDefs m) pid) name"
proof (induction rs arbitrary: i m)
  case (Cons r rs)
  then show ?case by (cases r) (simp add: Memory_UpsertResourceDefinition_def)
qed simp

lemma upsertResources_renew:
  "name \<in> fst ` set rs \<Longrightarrow>
     renewed ids (resourceDefs (snd (upsertResources (mem_service cfg) ids i t pid rs m))) pid name"
proof (induction rs arbitrary: i m)
  case (Cons r rs)
  show ?case
  proof (cases "name \<in> fst ` set rs")
    case True
    then show ?thesis using Cons.IH by (cases r) (simp add: Memory_UpsertResourceDefinition_def)
  next
    case False
    then show ?thesis
      using Cons.prems upsertResources_other [OF False, of cfg ids "Suc i" t pid]
      by (cases r) (auto simp: Memory_UpsertResourceDefinition_def renewed_def)
  qed
qed simp

text \<open>What a publication does to the in-memory repository.\<close>

definition nextRevision :: "memory \<Rightarrow> string \<Rightarrow> int" where
  "nextRevision m packageID = int (length (at_key (revisions m) packageID)) + 1"

lemma latest_next:
  assumes "memory_inv m"
  shows "(case Memory_GetLatestRevision pid m of Inr latest \<Rightarrow> Inr (rev_Revision latest + 1)
     | Inl ErrNotFound \<Rightarrow> Inr 1 | Inl err \<Rightarrow> Inl err) = Inr (nextRevision m pid)"
proof (cases "Memory_GetLatestRevision pid m")
  case (Inl e)
  then show ?thesis
    by (auto simp: Memory_GetLatestRevision_def nextRevision_def Let_def split: if_splits)
next
  case (Inr l)
  then show ?thesis
    using latest_number [of m pid l] assms by (simp add: memory_inv_def nextRevision_def)
qed

lemma publish_mem:
  fixes cfg E identity charmName p u arc m
  defines "rv \<equiv> newRevision (uuid E 0) (now E 0) (pkg_ID p) (acc_ID (idn_Account identity))
                  (nextRevision m (pkg_ID p)) u arc"
    and "new \<equiv> publishedPackage (now E 0) (arc_Manifest arc) p"
  assumes inv: "memory_inv m" and p: "stored p m" and u: "map_of (uploads m) (upl_ID u) = Some u"
  obtains ps qs defs where
    "publishRevision (mem_service cfg) E identity charmName p u arc m =
       (Inr (reviewURL charmName (upl_ID u)),
        m\<lparr>revisions := AList.update (pkg_ID p) (at_key (revisions m) (pkg_ID p) @ [rv]) (revisions m),
          uploads := AList.update (upl_ID u)
            (u\<lparr>upl_ApprovedAt := Some (now E 1), upl_Errors := [], upl_Status := ''approved'',
               upl_Revision := Some (nextRevision m (pkg_ID p))\<rparr>) (uploads m),
          packages := ps, packagesByID := qs, resourceDefs := defs\<rparr>)"
    and "memory_inv (snd (publishRevision (mem_service cfg) E identity charmName p u arc m))"
    and "stored new (m\<lparr>packages := ps, packagesByID := qs\<rparr>)"
    and "\<And>q. stored q m \<Longrightarrow> q \<noteq> p \<Longrightarrow> stored q (m\<lparr>packages := ps, packagesByID := qs\<rparr>)"
    and "dom (map_of (at_key defs (pkg_ID p))) = dom (map_of (at_key (resourceDefs m) (pkg_ID p)))
           \<union> fst ` set (man_Resources (arc_Manifest arc))"
    and "\<And>name. name \<in> fst ` set (man_Resources (arc_Manifest arc)) \<Longrightarrow> renewed (uuid E) defs (pkg_ID p) name"
proof -
  let ?pid = "pkg_ID p" and ?n = "nextRevision m (pkg_ID p)"
  let ?u = "u\<lparr>upl_ApprovedAt := Some (now E 1), upl_Errors := [], upl_Status := ''approved'',
               upl_Revision := Some ?n\<rparr>"
  let ?m1 = "m\<lparr>revisions := AList.update ?pid (at_key (revisions m) ?pid @ [rv]) (revisions m)\<rparr>"
  let ?m2 = "?m1\<lparr>uploads := AList.update (upl_ID u) ?u (uploads m)\<rparr>"
  have s1: "Memory_CreateRevision rv m = (Inr (), ?m1)" by (simp add: Memory_CreateRevision_def rv_def)
  have s2: "Memory_ApproveUpload (now E 1) (upl_ID u) (Some ?n) [] ?m1 = (Inr (), ?m2)"
    using u by (simp add: Memory_ApproveUpload_def)
  have inv1: "memory_inv ?m1"
    using memory_inv_CreateRevision [OF inv, of rv] s1 by (simp add: rv_def nextRevision_def)
  have inv2: "memory_inv ?m2"
    using memory_inv_ApproveUpload [OF inv1, of "now E 1" "upl_ID u" "Some ?n" "[]"] s2 by simp
  have st2: "stored q ?m2 = stored q m" for q by (simp add: stored_def)
  have p2: "stored p ?m2" using p st2 by blast
  obtain ps qs where s3: "Memory_UpdatePackage new ?m2 = (Inr (), ?m2\<lparr>packages := ps, packagesByID := qs\<rparr>)"
      and inv3: "memory_inv (?m2\<lparr>packages := ps, packagesByID := qs\<rparr>)"
      and st3: "stored new (?m2\<lparr>packages := ps, packagesByID := qs\<rparr>)"
        "\<And>q. stored q ?m2 \<Longrightarrow> q \<noteq> p \<Longrightarrow> stored q (?m2\<lparr>packages := ps, packagesByID := qs\<rparr>)"
    by (rule update_stored [OF inv2 p2, of new]) (auto simp: new_def)
  let ?m3 = "?m2\<lparr>packages := ps, packagesByID := qs\<rparr>"
  obtain defs where s4: "upsertResources (mem_service cfg) (uuid E) 1 (now E 0) ?pid
        (go_range (order E 1) (man_Resources (arc_Manifest arc))) ?m3 = (Inr (), ?m3\<lparr>resourceDefs := defs\<rparr>)"
      and inv4: "memory_inv (?m3\<lparr>resourceDefs := defs\<rparr>)"
      and d: "dom (map_of (at_key defs ?pid)) = dom (map_of (at_key (resourceDefs ?m3) ?pid))
        \<union> fst ` set (go_range (order E 1) (man_Resources (arc_Manifest arc)))"
    using upsertResources_mem [OF inv3] by blast
  have run: "publishRevision (mem_service cfg) E identity charmName p u arc m =
       (Inr (reviewURL charmName (upl_ID u)), ?m3\<lparr>resourceDefs := defs\<rparr>)"
    using latest_next [OF inv] s1 s2 s3 s4
    by (simp add: publishRevision_def Let_def rv_def new_def)
  show ?thesis
  proof (rule that)
    show "publishRevision (mem_service cfg) E identity charmName p u arc m =
       (Inr (reviewURL charmName (upl_ID u)),
        m\<lparr>revisions := AList.update ?pid (at_key (revisions m) ?pid @ [rv]) (revisions m),
          uploads := AList.update (upl_ID u) ?u (uploads m),
          packages := ps, packagesByID := qs, resourceDefs := defs\<rparr>)"
      using run by simp
    show "memory_inv (snd (publishRevision (mem_service cfg) E identity charmName p u arc m))"
      unfolding run snd_conv by (rule inv4)
    show "stored new (m\<lparr>packages := ps, packagesByID := qs\<rparr>)" using st3(1) by (simp add: stored_def)
    show "stored q (m\<lparr>packages := ps, packagesByID := qs\<rparr>)" if "stored q m" "q \<noteq> p" for q
      using st3(2) [of q] that by (simp add: stored_def)
    show "dom (map_of (at_key defs ?pid)) = dom (map_of (at_key (resourceDefs m) ?pid))
           \<union> fst ` set (man_Resources (arc_Manifest arc))"
      using d by simp
    show "renewed (uuid E) defs ?pid name" if "name \<in> fst ` set (man_Resources (arc_Manifest arc))" for name
      using upsertResources_renew [of name "go_range (order E 1) (man_Resources (arc_Manifest arc))" "uuid E" cfg 1
        "now E 0" ?pid ?m3] s4 that by simp
  qed
qed

end
