(* ===== verification/Publishing.thy ===== *)
theory Publishing
  imports Revisions
begin

text \<open>
  What uploads and publications guarantee over the in-memory stores: revisions are only appended, an
  invalid archive is rejected and recorded, what was uploaded is what is downloaded, and the object
  keys of different uploads do not meet unless a file name is cleaned away.
\<close>

section \<open>Lemmas\<close>

text \<open>The run of a publication up to the parsed archive.\<close>

lemma PushRevision_Inr:
  assumes inv: "memory_inv m"
    and ok: "PushRevision (mem_service cfg) lib E identity charmName uid m b = (Inr url, m')"
  obtains p u payload arc where "stored p m" and "pkg_Name p = charmName"
    and "mayManage identity p permPackageManageRevisions"
    and "map_of (uploads m) uid = Some u" and "upl_ID u = uid"
    and "MemoryStore_Get (upl_ObjectKey u) b = Inr payload" and "ParseArchive lib (order E 0) payload = Inr arc"
    and "publishRevision (mem_service cfg) E identity charmName p u arc m = (Inr url, m')"
proof -
  obtain p where p: "map_of (packages m) charmName = Some p"
    using ok by (auto simp: PushRevision_def res_iff Memory_GetPackageByName_def)
  have g: "requirePackageManage (mem_service cfg) identity p permPackageManageRevisions m = Inr ()"
    using ok p by (auto simp: PushRevision_def res_iff Memory_GetPackageByName_def)
  obtain u where u: "map_of (uploads m) uid = Some u"
    using ok p by (auto simp: PushRevision_def res_iff Memory_GetPackageByName_def Memory_GetUpload_def)
  obtain payload where payload: "MemoryStore_Get (upl_ObjectKey u) b = Inr payload"
    using ok p u by (auto simp: PushRevision_def res_iff Memory_GetPackageByName_def Memory_GetUpload_def)
  obtain arc where arc: "ParseArchive lib (order E 0) payload = Inr arc"
      "publishRevision (mem_service cfg) E identity charmName p u arc m = (Inr url, m')"
    using ok p g u payload
    by (cases "ParseArchive lib (order E 0) payload")
      (auto simp: PushRevision_def Memory_GetPackageByName_def Memory_GetUpload_def)
  have st: "stored p m" "pkg_Name p = charmName" using stored_name [OF inv p] by simp_all
  have "upl_ID u = uid" using inv u by (auto simp: memory_inv_def uploads_ok_def)
  then show thesis
    using that [OF st _ u _ payload arc] g requirePackageManage_mem [OF st(1)] by simp
qed

lemma PushRevision_run:
  assumes "memory_inv m" and "stored p m" and "mayManage identity p permPackageManageRevisions"
    and "map_of (uploads m) uid = Some u" and "MemoryStore_Get (upl_ObjectKey u) b = Inr payload"
    and "ParseArchive lib (order E 0) payload = Inr arc"
  obtains m' where "PushRevision (mem_service cfg) lib E identity (pkg_Name p) uid m b
    = (Inr (reviewURL (pkg_Name p) uid), m')"
proof -
  have id: "upl_ID u = uid" using assms(1,4) by (auto simp: memory_inv_def uploads_ok_def)
  have "PushRevision (mem_service cfg) lib E identity (pkg_Name p) uid m b =
      publishRevision (mem_service cfg) E identity (pkg_Name p) p u arc m"
    using assms requirePackageManage_Inr [OF assms(2,3)]
    by (simp add: PushRevision_def Memory_GetPackageByName_def Memory_GetUpload_def stored_def)
  moreover have "map_of (uploads m) (upl_ID u) = Some u" using assms(4) id by simp
  from publish_mem [OF assms(1,2) this, of cfg E identity "pkg_Name p" arc] obtain m' where
    "publishRevision (mem_service cfg) E identity (pkg_Name p) p u arc m = (Inr (reviewURL (pkg_Name p) (upl_ID u)), m')"
    by metis
  ultimately show thesis using that id by simp
qed

lemma mayManage_mayView: "mayManage identity p permission \<Longrightarrow> mayView identity p"
  by (auto simp: mayManage_def mayView_def tokenGrants_def)

lemma mayView_cong:
  "pkg_ID p = pkg_ID q \<Longrightarrow> pkg_Name p = pkg_Name q \<Longrightarrow> pkg_Private p = pkg_Private q \<Longrightarrow>
     pkg_OwnerAccountID p = pkg_OwnerAccountID q \<Longrightarrow> mayView identity p = mayView identity q"
  using tokenExcludesPackage_cong [of p q] by (simp add: mayView_def)

text \<open>After a publication the package is still there, under the same name and identifier.\<close>

lemma pushed_package:
  assumes inv: "memory_inv m"
    and ok: "PushRevision (mem_service cfg) lib E identity (pkg_Name q) uid m b = (Inr url, m')" and q: "stored q m"
  shows "\<exists>p. stored p m' \<and> pkg_Name p = pkg_Name q \<and> pkg_ID p = pkg_ID q"
proof -
  obtain p u payload arc where p: "stored p m" "pkg_Name p = pkg_Name q"
    and u: "map_of (uploads m) uid = Some u" "upl_ID u = uid"
    and pub: "publishRevision (mem_service cfg) E identity (pkg_Name q) p u arc m = (Inr url, m')"
    by (rule PushRevision_Inr [OF inv ok])
  have "p = q" using stored_unique [OF p(1) q] p(2) by blast
  let ?new = "publishedPackage (now E 0) (arc_Manifest arc) p"
  have u': "map_of (uploads m) (upl_ID u) = Some u" using u by simp
  obtain ps qs where new: "stored ?new (m\<lparr>packages := ps, packagesByID := qs\<rparr>)"
      and same: "packages m' = ps" "packagesByID m' = qs"
    by (rule publish_mem [OF inv p(1) u', of cfg E identity "pkg_Name q" arc]) (use pub in auto)
  have "stored ?new m'" using new same by (simp add: stored_def)
  then show ?thesis using \<open>p = q\<close> by (intro exI [of _ ?new]) simp
qed

lemma DownloadCharm_mem:
  assumes "stored p m" and "mayView identity p"
    and "Memory_GetRevisionByNumber (pkg_ID p) n m = Inr rv"
  shows "DownloadCharm (mem_service cfg) identity (pkg_ID p) n m b = MemoryStore_Get (rev_ObjectKey rv) b"
  using assms requirePackageView_mem [of m p p cfg identity False]
  by (simp add: DownloadCharm_def Memory_GetPackageByID_def stored_def)

section \<open>Properties\<close>

text \<open>A publication appends exactly one revision to the history of its package: numbered one after the
last, from the object of the upload; every revision of every package is found as before, no release
changes, the upload is approved with the number, and the invariant of the store is kept.\<close>

lemma push_revision_appends:
  assumes inv: "memory_inv m"
    and ok: "PushRevision (mem_service cfg) lib E identity charmName uid m b = (Inr url, m')"
  shows "\<exists>p u rv. stored p m \<and> pkg_Name p = charmName
     \<and> mayManage identity p permPackageManageRevisions \<and> map_of (uploads m) uid = Some u
     \<and> memory_inv m'
     \<and> at_key (revisions m') (pkg_ID p) = at_key (revisions m) (pkg_ID p) @ [rv]
     \<and> rev_Revision rv = int (length (at_key (revisions m) (pkg_ID p))) + 1
     \<and> rev_ObjectKey rv = upl_ObjectKey u
     \<and> (\<forall>pid n r. Memory_GetRevisionByNumber pid n m = Inr r \<longrightarrow> Memory_GetRevisionByNumber pid n m' = Inr r)
     \<and> releases m' = releases m
     \<and> (\<exists>u'. map_of (uploads m') uid = Some u' \<and> upl_Status u' = ''approved''
              \<and> upl_Revision u' = Some (rev_Revision rv) \<and> upl_Errors u' = [])"
proof -
  obtain p u payload arc where p: "stored p m" "pkg_Name p = charmName"
      "mayManage identity p permPackageManageRevisions"
    and u: "map_of (uploads m) uid = Some u" "upl_ID u = uid"
    and pub: "publishRevision (mem_service cfg) E identity charmName p u arc m = (Inr url, m')"
    by (rule PushRevision_Inr [OF inv ok])
  let ?pid = "pkg_ID p" and ?n = "nextRevision m (pkg_ID p)"
  let ?rv = "newRevision (uuid E 0) (now E 0) ?pid (acc_ID (idn_Account identity)) ?n u arc"
  have u': "map_of (uploads m) (upl_ID u) = Some u" using u by simp
  obtain ps qs defs where run: "publishRevision (mem_service cfg) E identity charmName p u arc m =
       (Inr (reviewURL charmName (upl_ID u)),
        m\<lparr>revisions := AList.update ?pid (at_key (revisions m) ?pid @ [?rv]) (revisions m),
          uploads := AList.update (upl_ID u)
            (u\<lparr>upl_ApprovedAt := Some (now E 1), upl_Errors := [], upl_Status := ''approved'',
               upl_Revision := Some ?n\<rparr>) (uploads m),
          packages := ps, packagesByID := qs, resourceDefs := defs\<rparr>)"
      and inv': "memory_inv (snd (publishRevision (mem_service cfg) E identity charmName p u arc m))"
    by (rule publish_mem [OF inv p(1) u'])
  have m': "revisions m' = AList.update ?pid (at_key (revisions m) ?pid @ [?rv]) (revisions m)"
      "releases m' = releases m" "map_of (uploads m') uid = Some (u\<lparr>upl_ApprovedAt := Some (now E 1),
        upl_Errors := [], upl_Status := ''approved'', upl_Revision := Some ?n\<rparr>)"
    using run pub u(2) by auto
  have old: "Memory_GetRevisionByNumber pid n m' = Inr r" if "Memory_GetRevisionByNumber pid n m = Inr r" for pid n r
    using that m'(1) by (auto simp: Memory_GetRevisionByNumber_def find_append res_iff)
  show ?thesis
    using p u(1) inv' pub m' old
    by (intro exI [of _ p] exI [of _ u] exI [of _ ?rv]) (simp add: nextRevision_def)
qed

text \<open>C38: when the uploaded bytes are not a charm archive, the caller gets status 400 with the reason, the
upload is marked rejected with the same reason, and nothing else in the store changes.\<close>

theorem push_invalid_archive:
  assumes inv: "memory_inv m" and p: "stored p m" and manage: "mayManage identity p permPackageManageRevisions"
    and u: "map_of (uploads m) uid = Some u" and get: "MemoryStore_Get (upl_ObjectKey u) b = Inr payload"
    and bad: "ParseArchive lib (order E 0) payload = Inl err"
  shows "PushRevision (mem_service cfg) lib E identity (pkg_Name p) uid m b =
     (Inl (ServiceError 400 ''invalid-archive'' (errText err)),
      m\<lparr>uploads := AList.update uid
          (u\<lparr>upl_ApprovedAt := Some (now E 0),
             upl_Errors := [\<lparr>err_Code = ''invalid-archive'', err_Message = errText err\<rparr>],
             upl_Status := ''rejected'', upl_Revision := None\<rparr>) (uploads m)\<rparr>)"
proof -
  have "upl_ID u = uid" using inv u by (auto simp: memory_inv_def uploads_ok_def)
  moreover have "map_of (packages m) (pkg_Name p) = Some p" using p by (simp add: stored_def)
  ultimately show ?thesis
    using u get bad requirePackageManage_Inr [OF p manage]
    by (simp add: PushRevision_def Memory_GetPackageByName_def Memory_GetUpload_def Memory_ApproveUpload_def
        newError_def)
qed

text \<open>What is downloaded is what was uploaded: after an upload and a publication from it, the publisher
downloads exactly the uploaded bytes under the new revision's number.\<close>

lemma upload_push_download:
  assumes inv: "memory_inv m"
    and up: "Service_CreateUpload (mem_service cfg) E filename payload m b = (Inr u, m1, b1)"
    and push: "PushRevision (mem_service cfg) lib E' identity charmName (upl_ID u) m1 b1 = (Inr url, m2)"
  shows "\<exists>p. stored p m2 \<and> pkg_Name p = charmName
     \<and> DownloadCharm (mem_service cfg) identity (pkg_ID p)
         (int (length (at_key (revisions m) (pkg_ID p))) + 1) m2 b1 = Inr payload"
proof -
  have m1: "m1 = snd (Memory_CreateUpload u m)" and b1: "MemoryStore_Get (upl_ObjectKey u) b1 = Inr payload"
    using up by (auto simp: Service_CreateUpload_def Let_def Memory_CreateUpload_def MemoryStore_Put_def
        MemoryStore_Get_def)
  have inv1: "memory_inv m1" unfolding m1 by (rule memory_inv_CreateUpload [OF inv])
  have revs: "revisions m1 = revisions m" and up1: "map_of (uploads m1) (upl_ID u) = Some u"
    by (simp_all add: m1 Memory_CreateUpload_def)
  obtain p u0 payload0 arc where p: "stored p m1" "pkg_Name p = charmName"
      "mayManage identity p permPackageManageRevisions"
    and u0: "map_of (uploads m1) (upl_ID u) = Some u0"
    and pub: "publishRevision (mem_service cfg) E' identity charmName p u0 arc m1 = (Inr url, m2)"
    by (rule PushRevision_Inr [OF inv1 push])
  have [simp]: "u0 = u" using u0 up1 by simp
  let ?pid = "pkg_ID p" and ?n = "nextRevision m1 (pkg_ID p)"
  let ?rv = "newRevision (uuid E' 0) (now E' 0) ?pid (acc_ID (idn_Account identity)) ?n u arc"
  let ?new = "publishedPackage (now E' 0) (arc_Manifest arc) p"
  obtain ps qs defs where run: "publishRevision (mem_service cfg) E' identity charmName p u arc m1 =
       (Inr (reviewURL charmName (upl_ID u)),
        m1\<lparr>revisions := AList.update ?pid (at_key (revisions m1) ?pid @ [?rv]) (revisions m1),
          uploads := AList.update (upl_ID u)
            (u\<lparr>upl_ApprovedAt := Some (now E' 1), upl_Errors := [], upl_Status := ''approved'',
               upl_Revision := Some ?n\<rparr>) (uploads m1),
          packages := ps, packagesByID := qs, resourceDefs := defs\<rparr>)"
      and inv2: "memory_inv (snd (publishRevision (mem_service cfg) E' identity charmName p u arc m1))"
      and new: "stored ?new (m1\<lparr>packages := ps, packagesByID := qs\<rparr>)"
    by (rule publish_mem [OF inv1 p(1) up1])
  have st: "stored ?new m2" using new run pub by (auto simp: stored_def)
  have hist: "at_key (revisions m2) ?pid = at_key (revisions m1) ?pid @ [?rv]" using run pub by auto
  have none: "find (\<lambda>item. rev_Revision item = ?n) (at_key (revisions m1) ?pid) = None"
    using revision_numbers(1) [of m1 _ ?pid] inv1
    by (fastforce simp: find_None_all memory_inv_def nextRevision_def)
  then have "Memory_GetRevisionByNumber ?pid ?n m2 = Inr ?rv"
    by (simp add: Memory_GetRevisionByNumber_def hist find_append)
  moreover have "mayView identity ?new"
    using mayManage_mayView [OF p(3)] mayView_cong [of ?new p] by simp
  ultimately have "DownloadCharm (mem_service cfg) identity ?pid ?n m2 b1 = MemoryStore_Get (upl_ObjectKey u) b1"
    using DownloadCharm_mem [OF st, of identity ?n ?rv cfg b1] by simp
  then show ?thesis
    using st b1 p(2) revs by (intro exI [of _ ?new]) (simp add: nextRevision_def)
qed

section \<open>Witnesses and object keys\<close>

lemma demo_stored: "stored demo shop"
  by (simp add: stored_def shop_def demo_def)

lemma alice_manages_demo: "mayManage alice_in demo permission"
  by (simp add: mayManage_def tokenGrants_def tokenExcludesPackage_def alice_in_def alice_def demo_def)

lemma demo_upload_shop:
  "map_of (uploads shop) ''u1'' = Some demo_upload" "upl_ObjectKey demo_upload = ''uploads/u1/demo.charm''"
  "MemoryStore_Get ''uploads/u1/demo.charm'' shop_blobs = Inr ''zip''"
  by (simp_all add: shop_def demo_upload_def shop_blobs_def MemoryStore_Get_def)

lemma push_revision_appends_witness:
  "\<exists>url m'. PushRevision (mem_service ex_cfg) ex_lib ex_env alice_in ''demo'' ''u1'' shop shop_blobs = (Inr url, m')
     \<and> length (at_key (revisions m') ''p1'') = 3"
proof -
  obtain arc where "ParseArchive ex_lib (order ex_env 0) ''zip'' = Inr arc"
    unfolding ex_env_def plain_ambient_simps by (rule ex_lib_parses)
  moreover have "MemoryStore_Get (upl_ObjectKey demo_upload) shop_blobs = Inr ''zip''"
    using demo_upload_shop by simp
  ultimately obtain m' where run: "PushRevision (mem_service ex_cfg) ex_lib ex_env alice_in (pkg_Name demo) ''u1'' shop shop_blobs
      = (Inr (reviewURL (pkg_Name demo) ''u1''), m')"
    using PushRevision_run [OF shop_inv demo_stored alice_manages_demo demo_upload_shop(1)] by blast
  obtain p rv where "stored p shop" "pkg_Name p = pkg_Name demo"
      "at_key (revisions m') (pkg_ID p) = at_key (revisions shop) (pkg_ID p) @ [rv]"
    using push_revision_appends [OF shop_inv run] by blast
  moreover from this(1,2) have "p = demo" using stored_unique [OF _ demo_stored] by blast
  moreover have "pkg_ID demo = ''p1''" "pkg_Name demo = ''demo''" "length (at_key (revisions shop) ''p1'') = 2"
    by (simp_all add: demo_def shop_def)
  ultimately have "length (at_key (revisions m') ''p1'') = 3" by simp
  with run show ?thesis unfolding \<open>pkg_Name demo = ''demo''\<close> by blast
qed

lemma push_invalid_archive_witness:
  "\<exists>err m'. PushRevision (mem_service ex_cfg) ex_lib ex_env alice_in ''demo'' ''u1'' shop
      [(''uploads/u1/demo.charm'', ''junk'')] = (Inl err, m')
     \<and> revisions m' = revisions shop \<and> map_option upl_Status (map_of (uploads m') ''u1'') = Some ''rejected''"
proof -
  let ?b = "[(''uploads/u1/demo.charm'', ''junk'')]"
  let ?err = "Errorf (''open charm archive: '' @ ''zip: not a valid zip file'')"
  have "MemoryStore_Get (upl_ObjectKey demo_upload) ?b = Inr ''junk''"
    by (simp add: demo_upload_shop(2) MemoryStore_Get_def)
  moreover have "ParseArchive ex_lib (order ex_env 0) ''junk'' = Inl ?err"
    by (simp add: ParseArchive_def ex_lib_def)
  ultimately have "PushRevision (mem_service ex_cfg) ex_lib ex_env alice_in (pkg_Name demo) ''u1'' shop ?b =
     (Inl (ServiceError 400 ''invalid-archive'' (errText ?err)),
      shop\<lparr>uploads := AList.update ''u1''
          (demo_upload\<lparr>upl_ApprovedAt := Some (now ex_env 0),
             upl_Errors := [\<lparr>err_Code = ''invalid-archive'', err_Message = errText ?err\<rparr>],
             upl_Status := ''rejected'', upl_Revision := None\<rparr>) (uploads shop)\<rparr>)"
    by (rule push_invalid_archive [OF shop_inv demo_stored alice_manages_demo demo_upload_shop(1)])
  moreover have "pkg_Name demo = ''demo''" by (simp add: demo_def)
  ultimately show ?thesis by simp
qed

lemma upload_push_download_witness:
  "\<exists>u m1 b1 url m2. Service_CreateUpload (mem_service ex_cfg) ex_env ''d.charm'' ''zip'' shop shop_blobs = (Inr u, m1, b1)
     \<and> PushRevision (mem_service ex_cfg) ex_lib ex_env alice_in ''demo'' (upl_ID u) m1 b1 = (Inr url, m2)
     \<and> DownloadCharm (mem_service ex_cfg) alice_in ''p1'' 3 m2 b1 = Inr ''zip''"
proof -
  let ?u = "newUpload (uuid ex_env 0) (now ex_env 0) ''d.charm'' ''zip''"
  let ?m1 = "shop\<lparr>uploads := AList.update (upl_ID ?u) ?u (uploads shop)\<rparr>"
  let ?b1 = "AList.update (upl_ObjectKey ?u) ''zip'' shop_blobs"
  have up: "Service_CreateUpload (mem_service ex_cfg) ex_env ''d.charm'' ''zip'' shop shop_blobs = (Inr ?u, ?m1, ?b1)"
    by (simp add: Service_CreateUpload_def Let_def MemoryStore_Put_def Memory_CreateUpload_def)
  have inv1: "memory_inv ?m1"
    using memory_inv_CreateUpload [OF shop_inv, of ?u] by (simp add: Memory_CreateUpload_def)
  have st1: "stored demo ?m1" using demo_stored by (simp add: stored_def)
  obtain arc where arc: "ParseArchive ex_lib (order ex_env 0) ''zip'' = Inr arc"
    unfolding ex_env_def plain_ambient_simps by (rule ex_lib_parses)
  have "map_of (uploads ?m1) (upl_ID ?u) = Some ?u" "MemoryStore_Get (upl_ObjectKey ?u) ?b1 = Inr ''zip''"
    by (simp_all add: MemoryStore_Get_def)
  from PushRevision_run [OF inv1 st1 alice_manages_demo this arc] obtain m2 where
    push: "PushRevision (mem_service ex_cfg) ex_lib ex_env alice_in (pkg_Name demo) (upl_ID ?u) ?m1 ?b1
      = (Inr (reviewURL (pkg_Name demo) (upl_ID ?u)), m2)"
    by blast
  obtain p where p: "stored p m2" "pkg_Name p = pkg_Name demo"
    "DownloadCharm (mem_service ex_cfg) alice_in (pkg_ID p) (int (length (at_key (revisions shop) (pkg_ID p))) + 1) m2 ?b1
       = Inr ''zip''"
    using upload_push_download [OF shop_inv up push] by blast
  obtain q where q: "stored q m2" "pkg_Name q = pkg_Name demo" "pkg_ID q = ''p1''"
    using pushed_package [OF inv1 push st1] by (auto simp: demo_def)
  have "pkg_ID p = ''p1''" using stored_unique [OF p(1) q(1)] p(2) q(2,3) by auto
  moreover have "length (at_key (revisions shop) ''p1'') = 2" "pkg_Name demo = ''demo''"
    by (simp_all add: shop_def demo_def)
  ultimately show ?thesis using up push p(3) by auto
qed

text \<open>The objects of two uploads with different identifiers and proper file names do not meet: a later
upload leaves the bytes of an earlier one as they are.\<close>

lemma uploads_do_not_meet:
  assumes "plainName uid" and "plainName filename" and "plainName (uuid E 0)" and "plainName filename'"
    and "uuid E 0 \<noteq> uid"
    and "MemoryStore_Get (uploadKey uid filename) b = Inr payload"
    and "Service_CreateUpload (mem_service cfg) E filename' payload' m b = (r, m', b')"
  shows "MemoryStore_Get (uploadKey uid filename) b' = Inr payload"
proof -
  have key: "uploadKey i f = ''uploads/'' @ i @ ''/'' @ f" if "plainName i" "plainName f" for i f
    using that filepathJoin_plain [of "[''uploads'', i, f]"] by (simp add: uploadKey_def plainName_def)
  have "uploadKey uid filename \<noteq> uploadKey (uuid E 0) filename'"
  proof
    assume "uploadKey uid filename = uploadKey (uuid E 0) filename'"
    then have "uid @ ''/'' @ filename = uuid E 0 @ ''/'' @ filename'" using assms(1-4) by (simp add: key)
    then have "cutFirst CHR ''/'' (uid @ CHR ''/'' # filename) = cutFirst CHR ''/'' (uuid E 0 @ CHR ''/'' # filename')"
      by simp
    then show False using assms(1,3,5) by (simp add: cutFirst_append plainName_def)
  qed
  moreover have "b' = AList.update (uploadKey (uuid E 0) filename') payload' b"
    using assms(7) by (auto simp: Service_CreateUpload_def Let_def MemoryStore_Put_def newUpload_def
        split: prod.splits sum.splits)
  ultimately show ?thesis using assms(6) by (simp add: MemoryStore_Get_def)
qed

lemma uploads_do_not_meet_witness:
  "MemoryStore_Get ''uploads/u1/demo.charm''
     (snd (snd (Service_CreateUpload (mem_service ex_cfg) ex_env ''demo.charm'' ''new'' shop shop_blobs))) = Inr ''zip''"
proof -
  have "uploadKey ''u1'' ''demo.charm'' = ''uploads/u1/demo.charm''" by code_simp
  then show ?thesis
    using uploads_do_not_meet [of "''u1''" "''demo.charm''" ex_env "''demo.charm''" shop_blobs "''zip''" ex_cfg "''new''" shop]
      demo_upload_shop(3)
    by (auto simp: plainName_def ex_env_def) (metis prod.collapse)
qed

text \<open>With the file name \<^verbatim>\<open>..\<close> the identifier is cleaned away and every upload is stored under the one
key \<^verbatim>\<open>uploads\<close>: the second replaces the bytes of the first.\<close>

lemma dotdot_uploads_meet:
  assumes "plainName (uuid E 0)" and "plainName (uuid E' 0)"
    and "Service_CreateUpload (mem_service cfg) E ''..'' payload m b = (Inr u, m1, b1)"
    and "Service_CreateUpload (mem_service cfg) E' ''..'' payload' m1 b1 = (Inr u', m2, b2)"
  shows "upl_ObjectKey u = upl_ObjectKey u' \<and> MemoryStore_Get (upl_ObjectKey u) b2 = Inr payload'"
proof -
  have key: "uploadKey i ''..'' = ''uploads''" if "plainName i" for i
  proof -
    have "splitOn CHR ''/'' (''uploads/'' @ i @ ''/..'') = [''uploads'', i, ''..'']"
      using that splitOn_append [of "CHR ''/''" "''uploads''" "i @ ''/..''"]
        splitOn_two [of "CHR ''/''" i "''..''"] by (simp add: plainName_def)
    moreover have "dropWhile (\<lambda>e. e = []) [''uploads'', i, ''..''] = [''uploads'', i, ''..'']" by simp
    ultimately show ?thesis using that
      by (simp add: uploadKey_def filepathJoin_def filepathClean_def hasPrefix_def plainName_def Let_def)
  qed
  show ?thesis
    using assms key
    by (auto simp: Service_CreateUpload_def Let_def MemoryStore_Put_def MemoryStore_Get_def newUpload_def
        Memory_CreateUpload_def)
qed

lemma dotdot_uploads_meet_witness:
  "\<exists>u m1 b1 u' m2 b2.
     Service_CreateUpload (mem_service ex_cfg) ex_env ''..'' ''one'' shop shop_blobs = (Inr u, m1, b1)
     \<and> Service_CreateUpload (mem_service ex_cfg) (ex_env\<lparr>uuid := \<lambda>_. ''other''\<rparr>) ''..'' ''two'' m1 b1 = (Inr u', m2, b2)
     \<and> upl_ID u \<noteq> upl_ID u' \<and> MemoryStore_Get (upl_ObjectKey u) b2 = Inr ''two''"
proof -
  let ?E = "ex_env\<lparr>uuid := \<lambda>_. ''other''\<rparr>"
  let ?u = "newUpload (uuid ex_env 0) (now ex_env 0) ''..'' ''one''"
  let ?u' = "newUpload (uuid ?E 0) (now ?E 0) ''..'' ''two''"
  obtain m1 b1 where 1: "Service_CreateUpload (mem_service ex_cfg) ex_env ''..'' ''one'' shop shop_blobs = (Inr ?u, m1, b1)"
    by (simp add: Service_CreateUpload_def Let_def MemoryStore_Put_def Memory_CreateUpload_def)
  obtain m2 b2 where 2: "Service_CreateUpload (mem_service ex_cfg) ?E ''..'' ''two'' m1 b1 = (Inr ?u', m2, b2)"
    by (simp add: Service_CreateUpload_def Let_def MemoryStore_Put_def Memory_CreateUpload_def)
  have "MemoryStore_Get (upl_ObjectKey ?u) b2 = Inr ''two''"
    by (rule conjunct2 [OF dotdot_uploads_meet [OF _ _ 1 2]]) (simp_all add: plainName_def ex_env_def)
  moreover have "upl_ID ?u \<noteq> upl_ID ?u'" by (simp add: newUpload_def ex_env_def)
  ultimately show ?thesis using 1 2 by blast
qed

end
