(* ===== verification/Json.thy ===== *)
theory Json
  imports Hash GoStrings
begin

text \<open>
  The strings of Go's \<^verbatim>\<open>encoding/json\<close>: a string is written between quotes, byte by byte where the byte is
  printable ASCII, with the escapes of the package otherwise.  The three HTML characters are escaped,
  a byte that does not belong to a valid UTF-8 sequence becomes the replacement character, and so do
  the two line separators.  Objects are written with their members in the order given; for a Go map
  that is the order of the keys.
\<close>

section \<open>UTF-8\<close>

definition byteNat :: "char \<Rightarrow> nat" where
  "byteNat c = of_char c"

definition contByte :: "char \<Rightarrow> bool" where
  "contByte c \<longleftrightarrow> 128 \<le> byteNat c \<and> byteNat c < 192"

text \<open>\<^verbatim>\<open>utf8.DecodeRune\<close> on a non-empty byte string that starts outside ASCII: the length of the valid
sequence at its head, 0 when there is none.\<close>

fun runeLength :: "string \<Rightarrow> nat" where
  "runeLength (a # b # c # d # _) =
     (let n = byteNat a in
      if 194 \<le> n \<and> n < 224 \<and> contByte b then 2
      else if (n = 224 \<and> 160 \<le> byteNat b \<or> 225 \<le> n \<and> n < 240 \<and> n \<noteq> 237 \<or> n = 237 \<and> byteNat b < 160)
              \<and> contByte b \<and> contByte c then 3
      else if (n = 240 \<and> 144 \<le> byteNat b \<or> 241 \<le> n \<and> n < 244 \<or> n = 244 \<and> byteNat b < 144)
              \<and> contByte b \<and> contByte c \<and> contByte d then 4
      else 0)"
| "runeLength [a, b, c] =
     (let n = byteNat a in
      if 194 \<le> n \<and> n < 224 \<and> contByte b then 2
      else if (n = 224 \<and> 160 \<le> byteNat b \<or> 225 \<le> n \<and> n < 240 \<and> n \<noteq> 237 \<or> n = 237 \<and> byteNat b < 160)
              \<and> contByte b \<and> contByte c then 3
      else 0)"
| "runeLength [a, b] = (if 194 \<le> byteNat a \<and> byteNat a < 224 \<and> contByte b then 2 else 0)"
| "runeLength _ = 0"

section \<open>Strings\<close>

definition hexByte :: "nat \<Rightarrow> string" where
  "hexByte n = [hexDigits ! (n div 16), hexDigits ! (n mod 16)]"

definition escapeASCII :: "char \<Rightarrow> string" where
  "escapeASCII c =
     (if c = CHR 0x22 \<or> c = CHR 0x5C then [CHR 0x5C, c]
      else if byteNat c = 8 then [CHR 0x5C, CHR ''b'']
      else if byteNat c = 12 then [CHR 0x5C, CHR ''f'']
      else if byteNat c = 10 then [CHR 0x5C, CHR ''n'']
      else if byteNat c = 13 then [CHR 0x5C, CHR ''r'']
      else if byteNat c = 9 then [CHR 0x5C, CHR ''t'']
      else if byteNat c < 32 \<or> c = CHR ''<'' \<or> c = CHR ''>'' \<or> c = CHR ''&''
      then CHR 0x5C # ''u00'' @ hexByte (byteNat c)
      else [c])"

function escapeJSON :: "string \<Rightarrow> string" where
  "escapeJSON [] = []"
| "escapeJSON (c # s) =
     (if byteNat c < 128 then escapeASCII c @ escapeJSON s
      else let n = runeLength (c # s) in
        if n = 0 then CHR 0x5C # ''ufffd'' @ escapeJSON s
        else let r = take n (c # s) in
          (if r = [CHR 0xE2, CHR 0x80, CHR 0xA8] then CHR 0x5C # ''u2028''
           else if r = [CHR 0xE2, CHR 0x80, CHR 0xA9] then CHR 0x5C # ''u2029''
           else r) @ escapeJSON (drop n (c # s)))"
  by pat_completeness auto
termination by (relation "measure length") auto

definition quoteJSON :: "string \<Rightarrow> string" where
  "quoteJSON s = CHR 0x22 # escapeJSON s @ [CHR 0x22]"

definition member :: "string \<times> string \<Rightarrow> string" where
  "member kv = quoteJSON (fst kv) @ '':'' @ snd kv"

text \<open>An object, from the names and the encoded values of its members.\<close>

definition objectJSON :: "(string \<times> string) list \<Rightarrow> string" where
  "objectJSON members = ''{'' @ joinWith '','' (map member members) @ ''}''"

section \<open>Lemmas\<close>

text \<open>A string of plain characters is written as it is.\<close>

definition plainJSON :: "char \<Rightarrow> bool" where
  "plainJSON c \<longleftrightarrow> 32 \<le> byteNat c \<and> byteNat c < 128
     \<and> c \<noteq> CHR 0x22 \<and> c \<noteq> CHR 0x5C \<and> c \<noteq> CHR ''<'' \<and> c \<noteq> CHR ''>'' \<and> c \<noteq> CHR ''&''"

lemma escapeJSON_plain: "(\<And>c. c \<in> set s \<Longrightarrow> plainJSON c) \<Longrightarrow> escapeJSON s = s"
proof (induction s)
  case (Cons c s)
  have "plainJSON c" using Cons.prems by simp
  then have "escapeASCII c = [c]" "byteNat c < 128" by (auto simp: escapeASCII_def plainJSON_def)
  with Cons show ?case by simp
qed simp

text \<open>Escaping leaves no quote inside: the encoded string ends at its closing quote.\<close>

fun unquoted :: "string \<Rightarrow> bool" where
  "unquoted [] = True"
| "unquoted (c # s) =
     (if c = CHR 0x5C then (case s of [] \<Rightarrow> False | _ # s' \<Rightarrow> unquoted s')
      else c \<noteq> CHR 0x22 \<and> unquoted s)"

lemma unquoted_append: "unquoted a \<Longrightarrow> unquoted b \<Longrightarrow> unquoted (a @ b)"
  by (induction a rule: unquoted.induct) (auto split: list.splits if_splits)

lemma runeLength_bytes: "c \<in> set (take (runeLength s) s) \<Longrightarrow> 128 \<le> byteNat c"
  by (induction s rule: runeLength.induct)
    (auto simp: contByte_def Let_def split: if_splits)

lemma high_unquoted: "(\<And>c. c \<in> set r \<Longrightarrow> 128 \<le> byteNat c) \<Longrightarrow> unquoted r"
proof (induction r)
  case (Cons c r)
  have "128 \<le> byteNat c" using Cons.prems by simp
  then have "c \<noteq> CHR 0x5C" "c \<noteq> CHR 0x22" by (auto simp: byteNat_def)
  with Cons show ?case by simp
qed simp

lemma hexDigits_safe: "n < 16 \<Longrightarrow> hexDigits ! n \<noteq> CHR 0x5C \<and> hexDigits ! n \<noteq> CHR 0x22"
  by (auto simp: hexDigits_def nth_Cons split: nat.splits)

lemma escapeASCII_unquoted: "byteNat c < 128 \<Longrightarrow> unquoted (escapeASCII c)"
  using hexDigits_safe [of "byteNat c div 16"] hexDigits_safe [of "byteNat c mod 16"]
  by (auto simp: escapeASCII_def hexByte_def)

lemma escapeJSON_unquoted: "unquoted (escapeJSON s)"
proof (induction s rule: escapeJSON.induct)
  case (2 c s)
  let ?r = "take (runeLength (c # s)) (c # s)"
  have r: "unquoted ?r" by (rule high_unquoted) (rule runeLength_bytes)
  show ?case
  proof (cases "byteNat c < 128")
    case True
    then show ?thesis using 2(1) escapeASCII_unquoted [of c] by (simp add: unquoted_append)
  next
    case False
    then show ?thesis using 2(2,3) r by (auto simp: Let_def intro: unquoted_append)
  qed
qed simp

end
