(* ===== verification/Resources.thy ===== *)
theory Resources
  imports Publishing Json
begin

text \<open>
  \<^verbatim>\<open>internal/service/resources.go\<close>: the declared resources of a package, their revisions, the
  credentials and the descriptor of OCI images, and the download of a resource.  The two summaries of
  the history of a resource (\<open>ListResources\<close>, \<open>PushResource\<close>) take the first entry of the list as the
  latest; the properties say what follows for the in-memory repository, which lists oldest first.
\<close>

section \<open>Requests\<close>

record push_resource_request =
  prq_UploadID :: string
  prq_Type :: string
  prq_Bases :: "base list"
  prq_Architectures :: "string list"
  prq_PackageRevision :: "int option"

record resource_revision_update =
  rru_Revision :: int
  rru_Bases :: "base list"
  rru_Architectures :: "string list"

section \<open>Operations\<close>

definition resourceSummary :: "resource_definition \<Rightarrow> resource_revision list \<Rightarrow> document" where
  "resourceSummary def revs =
     [(''name'', VStr (rd_Name def)),
      (''optional'', VBool (rd_Optional def)),
      (''revision'', VInt (case revs of [] \<Rightarrow> 0 | r # _ \<Rightarrow> rr_Revision r)),
      (''type'', VStr (rd_Type def))]"

definition ListResources ::
    "('s, 'b) service \<Rightarrow> ambient \<Rightarrow> identity \<Rightarrow> string \<Rightarrow> 's \<Rightarrow> document list res" where
  "ListResources S E identity charmName s =
     res_bind (map_err (translateRepoError ''package not found'') (GetPackageByName (svc_repo S) charmName s)) (\<lambda>pkg.
     res_bind (requirePackageView S identity pkg True s) (\<lambda>_.
     res_bind (ListResourceDefinitions (svc_repo S) (order E 0) (pkg_ID pkg) s) (\<lambda>defs.
     res_map (\<lambda>def.
       res_bind (ListResourceRevisions (svc_repo S) (rd_ID def) s) (\<lambda>revs.
       Inr (resourceSummary def revs))) defs)))"

text \<open>The revision \<^verbatim>\<open>PushResource\<close> creates.  The field named after SHA3-384 gets the SHA-384 of the payload.\<close>

definition newResourceRevision ::
    "string \<Rightarrow> time \<Rightarrow> resource_definition \<Rightarrow> int \<Rightarrow> push_resource_request \<Rightarrow> upload \<Rightarrow> bytes
       \<Rightarrow> resource_revision" where
  "newResourceRevision newID t def n req upload payload =
     (let rr = \<lparr>rr_ID = newID, rr_ResourceID = rd_ID def, rr_Name = rd_Name def,
                rr_Type = firstNonEmpty [prq_Type req, rd_Type def], rr_Description = rd_Description def,
                rr_Filename = firstNonEmpty [rd_Filename def, upl_Filename upload], rr_Revision = n,
                rr_CreatedAt = t, rr_Size = int (length payload), rr_SHA256 = upl_SHA256 upload,
                rr_SHA384 = upl_SHA384 upload, rr_SHA512 = hexEncode (sha512 payload),
                rr_SHA3384 = hexEncode (sha384 payload), rr_ObjectKey = upl_ObjectKey upload,
                rr_Bases = prq_Bases req, rr_Architectures = prq_Architectures req,
                rr_OCIImageDigest = [], rr_OCIImageBlob = [], rr_Download = zero_download\<rparr> in
      if rr_Type rr = ''oci-image''
      then rr\<lparr>rr_OCIImageBlob := payload, rr_ObjectKey := [], rr_Size := int (length payload)\<rparr>
      else rr)"

definition PushResource ::
    "('s, 'b) service \<Rightarrow> ambient \<Rightarrow> identity \<Rightarrow> string \<Rightarrow> string \<Rightarrow> push_resource_request \<Rightarrow> 's \<Rightarrow> 'b
       \<Rightarrow> string res \<times> 's" where
  "PushResource S E identity charmName resourceName req s b =
     rd_bind (map_err (translateRepoError ''package not found'') (GetPackageByName (svc_repo S) charmName s)) s (\<lambda>pkg.
     rd_bind (requirePackageManage S identity pkg permPackageManageRevisions s) s (\<lambda>_.
     rd_bind (map_err (translateRepoError ''resource not declared'')
                (GetResourceDefinition (svc_repo S) (pkg_ID pkg) resourceName s)) s (\<lambda>def.
     rd_bind (map_err (translateRepoError ''upload not found'') (GetUpload (svc_repo S) (prq_UploadID req) s)) s (\<lambda>upload.
     rd_bind (blob_Get (svc_blobs S) (upl_ObjectKey upload) b) s (\<lambda>payload.
     rd_bind (ListResourceRevisions (svc_repo S) (rd_ID def) s) s (\<lambda>existing.
     let n = (case existing of [] \<Rightarrow> 1 | r # _ \<Rightarrow> rr_Revision r + 1) in
     st_bind (CreateResourceRevision (svc_repo S)
                (newResourceRevision (uuid E 0) (now E 0) def n req upload payload) s) (\<lambda>_ s1.
     st_bind (ApproveUpload (svc_repo S) (now E 1) (upl_ID upload) (Some n) [] s1) (\<lambda>_ s2.
     (Inr (reviewURL charmName (upl_ID upload)), s2)))))))))"

definition Service_ListResourceRevisions ::
    "('s, 'b) service \<Rightarrow> identity \<Rightarrow> string \<Rightarrow> string \<Rightarrow> 's \<Rightarrow> resource_revision list res" where
  "Service_ListResourceRevisions S identity charmName resourceName s =
     res_bind (map_err (translateRepoError ''package not found'') (GetPackageByName (svc_repo S) charmName s)) (\<lambda>pkg.
     res_bind (requirePackageView S identity pkg True s) (\<lambda>_.
     res_bind (map_err (translateRepoError ''resource not found'')
                (GetResourceDefinition (svc_repo S) (pkg_ID pkg) resourceName s)) (\<lambda>def.
     res_bind (ListResourceRevisions (svc_repo S) (rd_ID def) s) (\<lambda>revs.
     attachResourceDownloads S def (Inr revs)))))"

text \<open>The loop over the updates; the counter of the updates done is returned at its end.\<close>

fun updateLoop ::
    "('s, 'b) service \<Rightarrow> string \<Rightarrow> resource_revision_update list \<Rightarrow> int \<Rightarrow> 's \<Rightarrow> int res \<times> 's" where
  "updateLoop S resourceID [] updated s = (Inr updated, s)"
| "updateLoop S resourceID (update # updates) updated s =
     rd_bind (GetResourceRevision (svc_repo S) resourceID (rru_Revision update) s) s (\<lambda>item.
     st_bind (UpdateResourceRevision (svc_repo S)
                (item\<lparr>rr_Bases := rru_Bases update, rr_Architectures := rru_Architectures update\<rparr>) s) (\<lambda>_ s1.
     updateLoop S resourceID updates (updated + 1) s1))"

definition UpdateResourceRevisions ::
    "('s, 'b) service \<Rightarrow> identity \<Rightarrow> string \<Rightarrow> string \<Rightarrow> resource_revision_update list \<Rightarrow> 's \<Rightarrow> int res \<times> 's" where
  "UpdateResourceRevisions S identity charmName resourceName updates s =
     rd_bind (map_err (translateRepoError ''package not found'') (GetPackageByName (svc_repo S) charmName s)) s (\<lambda>pkg.
     rd_bind (requirePackageManage S identity pkg permPackageManageRevisions s) s (\<lambda>_.
     rd_bind (map_err (translateRepoError ''resource not found'')
                (GetResourceDefinition (svc_repo S) (pkg_ID pkg) resourceName s)) s (\<lambda>def.
     updateLoop S (rd_ID def) updates 0 s)))"

definition OCIImageUploadCredentials ::
    "('s, 'b) service \<Rightarrow> identity \<Rightarrow> string \<Rightarrow> string \<Rightarrow> 's \<Rightarrow> document res" where
  "OCIImageUploadCredentials S identity charmName resourceName s =
     res_bind (map_err (translateRepoError ''package not found'') (GetPackageByName (svc_repo S) charmName s)) (\<lambda>pkg.
     res_bind (requirePackageManage S identity pkg permPackageManageRevisions s) (\<lambda>_.
     res_bind (map_err (translateRepoError ''resource not found'')
                (GetResourceDefinition (svc_repo S) (pkg_ID pkg) resourceName s)) (\<lambda>_.
     Inr [(''image-name'', VStr (registryImageName (svc_cfg S) charmName resourceName)),
          (''username'', VStr (cfg_RegistryUsername (svc_cfg S))),
          (''password'', VStr (cfg_RegistryPassword (svc_cfg S)))])))"

text \<open>The identity is not looked at.  \<^verbatim>\<open>json.Marshal\<close> of a map of strings writes the members in the order of
their keys and cannot fail.\<close>

definition OCIImageBlob :: "('s, 'b) service \<Rightarrow> identity \<Rightarrow> string \<Rightarrow> string \<Rightarrow> string \<Rightarrow> string" where
  "OCIImageBlob S identity charmName resourceName digest =
     objectJSON
       [(''Digest'', quoteJSON digest),
        (''ImageName'', quoteJSON (registryImageName (svc_cfg S) charmName resourceName)),
        (''Password'', quoteJSON (cfg_RegistryPassword (svc_cfg S))),
        (''Username'', quoteJSON (cfg_RegistryUsername (svc_cfg S)))]"

definition DownloadResource ::
    "('s, 'b) service \<Rightarrow> identity \<Rightarrow> string \<Rightarrow> string \<Rightarrow> int \<Rightarrow> 's \<Rightarrow> 'b \<Rightarrow> bytes res" where
  "DownloadResource S identity packageID resourceName revisionNumber s b =
     res_bind (map_err (translateRepoError ''package not found'') (GetPackageByID (svc_repo S) packageID s)) (\<lambda>pkg.
     res_bind (requirePackageView S identity pkg False s) (\<lambda>_.
     res_bind (map_err (translateRepoError ''resource not found'')
                (GetResourceDefinition (svc_repo S) (pkg_ID pkg) resourceName s)) (\<lambda>def.
     res_bind (map_err (translateRepoError ''resource revision not found'')
                (GetResourceRevision (svc_repo S) (rd_ID def) revisionNumber s)) (\<lambda>revision.
     if rr_ObjectKey revision = [] then Inr (rr_OCIImageBlob revision)
     else blob_Get (svc_blobs S) (rr_ObjectKey revision) b))))"

section \<open>Lemmas\<close>

lemma newResourceRevision_sel [simp]:
  "rr_ResourceID (newResourceRevision i t def n req u payload) = rd_ID def"
  "rr_Revision (newResourceRevision i t def n req u payload) = n"
  "rr_Size (newResourceRevision i t def n req u payload) = int (length payload)"
  by (simp_all add: newResourceRevision_def Let_def)

lemma newResourceRevision_content:
  "rr_ObjectKey (newResourceRevision i t def n req u payload) = [] \<and>
     rr_OCIImageBlob (newResourceRevision i t def n req u payload) = payload
   \<or> rr_ObjectKey (newResourceRevision i t def n req u payload) = upl_ObjectKey u"
  by (simp add: newResourceRevision_def Let_def)

text \<open>The run of a resource publication.\<close>

definition nextResourceNumber :: "resource_revision list \<Rightarrow> int" where
  "nextResourceNumber existing = (case existing of [] \<Rightarrow> 1 | r # _ \<Rightarrow> rr_Revision r + 1)"

lemma PushResource_mem:
  assumes inv: "memory_inv m" and p: "stored p m" and manage: "mayManage identity p permPackageManageRevisions"
    and def: "map_of (at_key (resourceDefs m) (pkg_ID p)) resourceName = Some def"
    and u: "map_of (uploads m) (prq_UploadID req) = Some u"
    and payload: "MemoryStore_Get (upl_ObjectKey u) b = Inr payload"
  shows "\<exists>m'. PushResource (mem_service cfg) E identity (pkg_Name p) resourceName req m b
        = (Inr (reviewURL (pkg_Name p) (prq_UploadID req)), m')
     \<and> packages m' = packages m \<and> packagesByID m' = packagesByID m \<and> resourceDefs m' = resourceDefs m
     \<and> at_key (resourceRevisions m') (rd_ID def) = at_key (resourceRevisions m) (rd_ID def) @
          [newResourceRevision (uuid E 0) (now E 0) def
             (nextResourceNumber (at_key (resourceRevisions m) (rd_ID def))) req u payload]"
proof -
  have "upl_ID u = prq_UploadID req" using inv u by (auto simp: memory_inv_def uploads_ok_def)
  moreover have "map_of (packages m) (pkg_Name p) = Some p" using p by (simp add: stored_def)
  ultimately show ?thesis
    using def u payload requirePackageManage_Inr [OF p manage]
    by (simp add: PushResource_def Memory_GetPackageByName_def Memory_GetResourceDefinition_def
        Memory_GetUpload_def Memory_ListResourceRevisions_def Memory_CreateResourceRevision_def
        Memory_ApproveUpload_def Let_def nextResourceNumber_def)
qed

lemma DownloadResource_mem:
  assumes "stored p m" and "mayView identity p"
    and "map_of (at_key (resourceDefs m) (pkg_ID p)) resourceName = Some def"
    and "Memory_GetResourceRevision (rd_ID def) n m = Inr rv"
  shows "DownloadResource (mem_service cfg) identity (pkg_ID p) resourceName n m b =
     (if rr_ObjectKey rv = [] then Inr (rr_OCIImageBlob rv) else MemoryStore_Get (rr_ObjectKey rv) b)"
  using assms requirePackageView_mem [of m p p cfg identity False]
  by (simp add: DownloadResource_def Memory_GetPackageByID_def stored_def Memory_GetResourceDefinition_def)

lemma updateLoop_append:
  "updateLoop S rid (us @ vs) n s = st_bind (updateLoop S rid us n s) (\<lambda>k s1. updateLoop S rid vs k s1)"
proof (induction us arbitrary: n s)
  case Nil
  then show ?case by simp
next
  case (Cons u us)
  show ?case
  proof (cases "GetResourceRevision (svc_repo S) rid (rru_Revision u) s")
    case (Inr item)
    then show ?thesis
      using Cons.IH by (auto simp: st_bind_def split: sum.splits)
  qed simp
qed

section \<open>Properties\<close>

text \<open>The first two publications of a resource are numbered 1 and 2, and under the new number exactly
the uploaded bytes are downloaded, whether the resource is a file or an OCI image.\<close>

lemma resource_push_download:
  assumes inv: "memory_inv m" and p: "stored p m" and manage: "mayManage identity p permPackageManageRevisions"
    and def: "map_of (at_key (resourceDefs m) (pkg_ID p)) resourceName = Some def"
    and u: "map_of (uploads m) (prq_UploadID req) = Some u" and key: "upl_ObjectKey u \<noteq> []"
    and payload: "MemoryStore_Get (upl_ObjectKey u) b = Inr payload"
    and early: "map rr_Revision (at_key (resourceRevisions m) (rd_ID def)) \<in> {[], [1]}"
  shows "\<exists>url m'. PushResource (mem_service cfg) E identity (pkg_Name p) resourceName req m b = (Inr url, m')
     \<and> DownloadResource (mem_service cfg) identity (pkg_ID p) resourceName
         (int (length (at_key (resourceRevisions m) (rd_ID def))) + 1) m' b = Inr payload"
proof -
  let ?old = "at_key (resourceRevisions m) (rd_ID def)"
  let ?n = "int (length ?old) + 1"
  let ?rv = "newResourceRevision (uuid E 0) (now E 0) def ?n req u payload"
  have n: "nextResourceNumber ?old = ?n"
    using early by (auto simp: nextResourceNumber_def Cons_eq_map_conv)
  obtain m' where run: "PushResource (mem_service cfg) E identity (pkg_Name p) resourceName req m b
        = (Inr (reviewURL (pkg_Name p) (prq_UploadID req)), m')"
      and same: "packages m' = packages m" "packagesByID m' = packagesByID m" "resourceDefs m' = resourceDefs m"
      and hist: "at_key (resourceRevisions m') (rd_ID def) = ?old @ [?rv]"
    using PushResource_mem [OF inv p manage def u payload, of cfg E] unfolding n by blast
  have "find (\<lambda>item. rr_Revision item = ?n) ?old = None"
    using early by (auto simp: find_None_all Cons_eq_map_conv)
  then have "Memory_GetResourceRevision (rd_ID def) ?n m' = Inr ?rv"
    by (simp add: Memory_GetResourceRevision_def hist find_append)
  moreover have "stored p m'" using p same by (simp add: stored_def)
  moreover have "mayView identity p" using mayManage_mayView [OF manage] .
  ultimately have "DownloadResource (mem_service cfg) identity (pkg_ID p) resourceName ?n m' b = Inr payload"
    using DownloadResource_mem [of p m' identity resourceName def ?n ?rv cfg b] def same key payload
      newResourceRevision_content [of "uuid E 0" "now E 0" def ?n req u payload] by auto
  with run show ?thesis by blast
qed

definition ex_push_request :: push_resource_request where
  "ex_push_request = \<lparr>prq_UploadID = ''u1'', prq_Type = [], prq_Bases = [], prq_Architectures = [],
     prq_PackageRevision = None\<rparr>"

lemma demo_resource_shop:
  "map_of (at_key (resourceDefs shop) (pkg_ID demo)) ''img'' = Some demo_resource"
  "map_of (uploads shop) (prq_UploadID ex_push_request) = Some demo_upload"
  "upl_ObjectKey demo_upload \<noteq> []" "MemoryStore_Get (upl_ObjectKey demo_upload) shop_blobs = Inr ''zip''"
  "at_key (resourceRevisions shop) (rd_ID demo_resource) = [demo_resource_revision]"
  "rr_Revision demo_resource_revision = 1" "pkg_ID demo = ''p1''" "pkg_Name demo = ''demo''"
  by (simp_all add: shop_def demo_def ex_push_request_def demo_upload_def shop_blobs_def MemoryStore_Get_def
      demo_resource_def demo_resource_revision_def)

lemma resource_push_download_witness:
  "\<exists>url m'. PushResource (mem_service ex_cfg) ex_env alice_in ''demo'' ''img'' ex_push_request shop shop_blobs = (Inr url, m')
     \<and> DownloadResource (mem_service ex_cfg) alice_in ''p1'' ''img'' 2 m' shop_blobs = Inr ''zip''"
  using resource_push_download [OF shop_inv demo_stored alice_manages_demo demo_resource_shop(1-4)]
    demo_resource_shop(5-8) by auto

text \<open>From the third publication on, the in-memory repository gives out a number that is taken: the list
of revisions starts with the oldest, so the new revision is numbered 2 again, and the number keeps
standing for the older revision.\<close>

lemma resource_number_reused:
  assumes inv: "memory_inv m" and p: "stored p m" and manage: "mayManage identity p permPackageManageRevisions"
    and def: "map_of (at_key (resourceDefs m) (pkg_ID p)) resourceName = Some def"
    and u: "map_of (uploads m) (prq_UploadID req) = Some u"
    and payload: "MemoryStore_Get (upl_ObjectKey u) b = Inr payload"
    and old: "at_key (resourceRevisions m) (rd_ID def) = r1 # r2 # rest" "rr_Revision r1 = 1" "rr_Revision r2 = 2"
  shows "\<exists>url m' rv. PushResource (mem_service cfg) E identity (pkg_Name p) resourceName req m b = (Inr url, m')
     \<and> at_key (resourceRevisions m') (rd_ID def) = r1 # r2 # rest @ [rv] \<and> rr_Revision rv = 2
     \<and> Memory_GetResourceRevision (rd_ID def) 2 m' = Inr r2"
proof -
  obtain m' where run: "PushResource (mem_service cfg) E identity (pkg_Name p) resourceName req m b
        = (Inr (reviewURL (pkg_Name p) (prq_UploadID req)), m')"
      and hist: "at_key (resourceRevisions m') (rd_ID def) = at_key (resourceRevisions m) (rd_ID def) @
          [newResourceRevision (uuid E 0) (now E 0) def
             (nextResourceNumber (at_key (resourceRevisions m) (rd_ID def))) req u payload]"
    using PushResource_mem [OF inv p manage def u payload, of cfg E] by blast
  then show ?thesis
    using old by (auto simp: nextResourceNumber_def Memory_GetResourceRevision_def)
qed

lemma resource_number_reused_witness:
  "\<exists>url m' rv. PushResource (mem_service ex_cfg) ex_env alice_in ''demo'' ''img'' ex_push_request
      (shop\<lparr>resourceRevisions := [(''d1'', [demo_resource_revision, demo_resource_revision\<lparr>rr_Revision := 2\<rparr>])]\<rparr>)
      shop_blobs = (Inr url, m')
    \<and> rr_Revision rv = 2 \<and> rv \<in> set (drop 2 (at_key (resourceRevisions m') ''d1''))"
proof -
  let ?m = "shop\<lparr>resourceRevisions := [(''d1'', [demo_resource_revision, demo_resource_revision\<lparr>rr_Revision := 2\<rparr>])]\<rparr>"
  have inv: "memory_inv ?m" using shop_inv by (simp add: memory_inv_def)
  have st: "stored demo ?m" using demo_stored by (simp add: stored_def)
  have f: "map_of (at_key (resourceDefs ?m) (pkg_ID demo)) ''img'' = Some demo_resource"
    "map_of (uploads ?m) (prq_UploadID ex_push_request) = Some demo_upload" "rd_ID demo_resource = ''d1''"
    "at_key (resourceRevisions ?m) (rd_ID demo_resource) =
       demo_resource_revision # demo_resource_revision\<lparr>rr_Revision := 2\<rparr> # []"
    using demo_resource_shop by (simp_all add: demo_resource_def)
  obtain url m' rv where
    "PushResource (mem_service ex_cfg) ex_env alice_in (pkg_Name demo) ''img'' ex_push_request ?m shop_blobs = (Inr url, m')"
    "at_key (resourceRevisions m') (rd_ID demo_resource) =
       demo_resource_revision # demo_resource_revision\<lparr>rr_Revision := 2\<rparr> # [] @ [rv]" "rr_Revision rv = 2"
    using resource_number_reused [OF inv st alice_manages_demo f(1,2) demo_resource_shop(4) f(4),
        where cfg = ex_cfg and E = ex_env] demo_resource_shop(6) by auto
  then show ?thesis
    using f(3) demo_resource_shop(8) by (intro exI [of _ url] exI [of _ m'] exI [of _ rv]) simp
qed

lemma updateLoop_count:
  "updateLoop S rid ws n s = (Inr k, s') \<Longrightarrow> k = n + int (length ws)"
proof (induction ws arbitrary: n s)
  case Nil
  then show ?case by simp
next
  case (Cons u ws)
  then obtain s1 where "updateLoop S rid ws (n + 1) s1 = (Inr k, s')"
    by (auto simp: res_iff)
  from Cons.IH [OF this] show ?case by simp
qed

text \<open>An update of several resource revisions is not atomic: at the first unknown revision the request
fails with "not found", and the updates before it stay.\<close>

lemma update_resource_revisions_prefix:
  assumes inv: "memory_inv m" and p: "stored p m" and manage: "mayManage identity p permPackageManageRevisions"
    and def: "map_of (at_key (resourceDefs m) (pkg_ID p)) resourceName = Some def"
    and pre: "UpdateResourceRevisions (mem_service cfg) identity (pkg_Name p) resourceName us m = (Inr k, m1)"
    and bad: "Memory_GetResourceRevision (rd_ID def) (rru_Revision v) m1 = Inl ErrNotFound"
  shows "k = int (length us)
     \<and> UpdateResourceRevisions (mem_service cfg) identity (pkg_Name p) resourceName (us @ v # vs) m = (Inl ErrNotFound, m1)"
proof -
  have run: "UpdateResourceRevisions (mem_service cfg) identity (pkg_Name p) resourceName ws m =
      updateLoop (mem_service cfg) (rd_ID def) ws 0 m" for ws
    using p def requirePackageManage_Inr [OF p manage]
    by (simp add: UpdateResourceRevisions_def Memory_GetPackageByName_def Memory_GetResourceDefinition_def stored_def)
  show ?thesis
    using pre bad updateLoop_count [of "mem_service cfg" "rd_ID def" us 0 m k m1] unfolding run updateLoop_append
    by simp
qed

lemma update_resource_revisions_prefix_witness:
  "\<exists>m1. UpdateResourceRevisions (mem_service ex_cfg) alice_in ''demo'' ''img''
      [\<lparr>rru_Revision = 1, rru_Bases = [], rru_Architectures = [''arm64'']\<rparr>,
       \<lparr>rru_Revision = 7, rru_Bases = [], rru_Architectures = []\<rparr>] shop = (Inl ErrNotFound, m1)
    \<and> map rr_Architectures (at_key (resourceRevisions m1) ''d1'') = [[''arm64'']]"
proof -
  let ?u = "\<lparr>rru_Revision = 1, rru_Bases = [], rru_Architectures = [''arm64'']\<rparr>"
  let ?v = "\<lparr>rru_Revision = 7, rru_Bases = [], rru_Architectures = []\<rparr>"
  have id: "rd_ID demo_resource = ''d1''" by (simp add: demo_resource_def)
  obtain m1 where pre: "UpdateResourceRevisions (mem_service ex_cfg) alice_in (pkg_Name demo) ''img'' [?u] shop = (Inr 1, m1)"
      and hist: "at_key (resourceRevisions m1) ''d1'' = [demo_resource_revision\<lparr>rr_Bases := [], rr_Architectures := [''arm64'']\<rparr>]"
    using demo_resource_shop demo_stored requirePackageManage_Inr [OF demo_stored alice_manages_demo]
    by (simp add: UpdateResourceRevisions_def Memory_GetPackageByName_def Memory_GetResourceDefinition_def
        stored_def Memory_GetResourceRevision_def Memory_UpdateResourceRevision_def id demo_resource_revision_def)
  have "Memory_GetResourceRevision (rd_ID demo_resource) (rru_Revision ?v) m1 = Inl ErrNotFound"
    using hist id by (simp add: Memory_GetResourceRevision_def demo_resource_revision_def)
  from update_resource_revisions_prefix [OF shop_inv demo_stored alice_manages_demo demo_resource_shop(1) pre this, of "[]"]
  show ?thesis using hist demo_resource_shop(8) by auto
qed

lemma DownloadResource_missing:
  assumes "stored p m" and "mayView identity p"
    and "map_of (at_key (resourceDefs m) (pkg_ID p)) resourceName = Some def"
    and "at_key (resourceRevisions m) (rd_ID def) = []"
  shows "DownloadResource (mem_service cfg) identity (pkg_ID p) resourceName n m b =
     Inl (ServiceError 404 ''not-found'' ''resource revision not found'')"
  using assms requirePackageView_mem [of m p p cfg identity False]
  by (simp add: DownloadResource_def Memory_GetPackageByID_def stored_def Memory_GetResourceDefinition_def
      Memory_GetResourceRevision_def translateRepoError_def newError_def)

text \<open>In the in-memory repository a publication orphans the resources it declares: their definitions are
stored anew under fresh identifiers, so every resource revision that was pushed before answers "not found".\<close>

lemma push_orphans_resources:
  assumes inv: "memory_inv m" and p: "stored p m" and manage: "mayManage identity p permPackageManageRevisions"
    and u: "map_of (uploads m) uid = Some u" and payload: "MemoryStore_Get (upl_ObjectKey u) b = Inr payload"
    and arc: "ParseArchive lib (order E 0) payload = Inr arc"
    and declared: "resourceName \<in> fst ` set (man_Resources (arc_Manifest arc))"
    and fresh: "\<And>i. at_key (resourceRevisions m) (uuid E i) = []"
  shows "\<exists>url m'. PushRevision (mem_service cfg) lib E identity (pkg_Name p) uid m b = (Inr url, m')
     \<and> resourceRevisions m' = resourceRevisions m
     \<and> DownloadResource (mem_service cfg) identity (pkg_ID p) resourceName n m' b =
         Inl (ServiceError 404 ''not-found'' ''resource revision not found'')"
proof -
  have id: "upl_ID u = uid" using inv u by (auto simp: memory_inv_def uploads_ok_def)
  then have u': "map_of (uploads m) (upl_ID u) = Some u" using u by simp
  let ?new = "publishedPackage (now E 0) (arc_Manifest arc) p"
  have run: "PushRevision (mem_service cfg) lib E identity (pkg_Name p) uid m b =
      publishRevision (mem_service cfg) E identity (pkg_Name p) p u arc m"
    using u payload arc p requirePackageManage_Inr [OF p manage]
    by (simp add: PushRevision_def Memory_GetPackageByName_def Memory_GetUpload_def stored_def)
  obtain ps qs defs where pub: "publishRevision (mem_service cfg) E identity (pkg_Name p) p u arc m =
       (Inr (reviewURL (pkg_Name p) (upl_ID u)),
        m\<lparr>revisions := AList.update (pkg_ID p) (at_key (revisions m) (pkg_ID p) @
             [newRevision (uuid E 0) (now E 0) (pkg_ID p) (acc_ID (idn_Account identity)) (nextRevision m (pkg_ID p)) u arc])
             (revisions m),
          uploads := AList.update (upl_ID u)
            (u\<lparr>upl_ApprovedAt := Some (now E 1), upl_Errors := [], upl_Status := ''approved'',
               upl_Revision := Some (nextRevision m (pkg_ID p))\<rparr>) (uploads m),
          packages := ps, packagesByID := qs, resourceDefs := defs\<rparr>)" (is "_ = (Inr ?url, ?m')")
      and new: "stored ?new (m\<lparr>packages := ps, packagesByID := qs\<rparr>)"
      and ids: "\<And>name. name \<in> fst ` set (man_Resources (arc_Manifest arc)) \<Longrightarrow> renewed (uuid E) defs (pkg_ID p) name"
    by (rule publish_mem [OF inv p u', of cfg E identity "pkg_Name p" arc]) (rule that)
  obtain d i where d: "map_of (at_key defs (pkg_ID p)) resourceName = Some d" "rd_ID d = uuid E i"
    using ids [OF declared] unfolding renewed_def by blast
  have "stored ?new ?m'" using new by (simp add: stored_def)
  moreover have "mayView identity ?new" using mayManage_mayView [OF manage] mayView_cong [of ?new p] by simp
  ultimately have "DownloadResource (mem_service cfg) identity (pkg_ID ?new) resourceName n ?m' b =
      Inl (ServiceError 404 ''not-found'' ''resource revision not found'')"
    using DownloadResource_missing [of ?new ?m' identity resourceName d cfg n b] d fresh [of i] by simp
  then show ?thesis using run pub by simp
qed

lemma push_orphans_resources_witness:
  "DownloadResource (mem_service ex_cfg) alice_in ''p1'' ''img'' 1 shop shop_blobs = Inr ''img''
   \<and> (\<exists>url m'. PushRevision (mem_service ex_cfg) ex_lib ex_env alice_in ''demo'' ''u1'' shop shop_blobs = (Inr url, m')
     \<and> DownloadResource (mem_service ex_cfg) alice_in ''p1'' ''img'' 1 m' shop_blobs =
         Inl (ServiceError 404 ''not-found'' ''resource revision not found''))"
proof
  have "Memory_GetResourceRevision (rd_ID demo_resource) 1 shop = Inr demo_resource_revision"
    using demo_resource_shop(5,6) by (simp add: Memory_GetResourceRevision_def)
  moreover have "mayView alice_in demo" using alice_manages_demo mayManage_mayView by blast
  ultimately show "DownloadResource (mem_service ex_cfg) alice_in ''p1'' ''img'' 1 shop shop_blobs = Inr ''img''"
    using DownloadResource_mem [OF demo_stored _ demo_resource_shop(1), of alice_in 1 demo_resource_revision ex_cfg shop_blobs]
      demo_resource_shop(7)
    by (simp add: demo_resource_revision_def shop_blobs_def MemoryStore_Get_def)
next
  obtain arc where arc: "ParseArchive ex_lib (order ex_env 0) ''zip'' = Inr arc"
    unfolding ex_env_def plain_ambient_simps by (rule ex_lib_parses)
  have decl: "''img'' \<in> fst ` set (man_Resources (arc_Manifest arc))"
    using arc unfolding ex_env_def plain_ambient_simps by (rule ex_lib_declares)
  have fresh: "at_key (resourceRevisions shop) (uuid ex_env i) = []" for i
    by (simp add: shop_def ex_env_def at_key_def)
  have payload: "MemoryStore_Get (upl_ObjectKey demo_upload) shop_blobs = Inr ''zip''"
    using demo_upload_shop by simp
  show "\<exists>url m'. PushRevision (mem_service ex_cfg) ex_lib ex_env alice_in ''demo'' ''u1'' shop shop_blobs = (Inr url, m')
     \<and> DownloadResource (mem_service ex_cfg) alice_in ''p1'' ''img'' 1 m' shop_blobs =
         Inl (ServiceError 404 ''not-found'' ''resource revision not found'')"
    using push_orphans_resources [OF shop_inv demo_stored alice_manages_demo demo_upload_shop(1) payload arc decl fresh,
        of ex_cfg 1] demo_resource_shop(7,8) by auto
qed

end
