(* ===== verification/Releases.thy ===== *)
theory Releases
  imports Packages Publishing
begin

text \<open>
  The rest of \<^verbatim>\<open>internal/service/releases.go\<close>: releasing revisions to channels, the release map, the
  creation of tracks, and the refresh endpoint that resolves what a client has to install.  A release
  request is handled in the order of its entries and is not undone on an error; a refresh turns an error
  of the service into an entry of the result and passes every other error on.
\<close>

section \<open>Releasing\<close>

text \<open>The defaults of an entry: \<open>i\<close> counts the identifiers drawn so far.\<close>

definition stampRelease :: "time \<Rightarrow> string \<Rightarrow> release \<Rightarrow> release" where
  "stampRelease t newID request =
     request\<lparr>rel_When := (if IsZero (rel_When request) then t else rel_When request),
             rel_ID := (if rel_ID request = [] then newID else rel_ID request)\<rparr>"

fun releaseLoop ::
    "('s, 'b) service \<Rightarrow> (nat \<Rightarrow> string) \<Rightarrow> identity \<Rightarrow> time \<Rightarrow> string \<Rightarrow> nat \<Rightarrow> release list
       \<Rightarrow> release list \<Rightarrow> 's \<Rightarrow> release list res \<times> 's" where
  "releaseLoop S ids identity t packageID i [] released s = (Inr released, s)"
| "releaseLoop S ids identity t packageID i (request # requests) released s =
     (if rel_Channel request = [] then (Inl (newError 400 ''invalid-request'' ''channel is required''), s)
      else
        rd_bind (map_err (translateRepoError ''revision not found'')
                   (GetRevisionByNumber (svc_repo S) packageID (rel_Revision request) s)) s (\<lambda>_.
        let stamped = stampRelease t (ids i) request;
            i1 = (if rel_ID request = [] then Suc i else i) in
        rd_bind (enforceChannelRestriction identity (rel_Channel stamped)) s (\<lambda>_.
        st_bind (ReplaceRelease (svc_repo S) packageID stamped s) (\<lambda>_ s1.
        releaseLoop S ids identity t packageID i1 requests (released @ [stamped]) s1))))"

definition Release ::
    "('s, 'b) service \<Rightarrow> ambient \<Rightarrow> identity \<Rightarrow> string \<Rightarrow> release list \<Rightarrow> 's \<Rightarrow> release list res \<times> 's" where
  "Release S E identity charmName requests s =
     rd_bind (map_err (translateRepoError ''package not found'') (GetPackageByName (svc_repo S) charmName s)) s (\<lambda>pkg.
     rd_bind (requirePackageManage S identity pkg permPackageManageReleases s) s (\<lambda>_.
     st_bind (releaseLoop S (uuid E) identity (now E 0) (pkg_ID pkg) 0 requests [] s) (\<lambda>released s1.
     st_bind (UpdatePackage (svc_repo S) (pkg\<lparr>pkg_Status := ''published'', pkg_UpdatedAt := now E 0\<rparr>) s1) (\<lambda>_ s2.
     (Inr released, s2)))))"

section \<open>The release map\<close>

definition releaseRow :: "release \<Rightarrow> document" where
  "releaseRow release =
     [(''base'', VBase (rel_Base release)),
      (''channel'', VStr (rel_Channel release)),
      (''expiration-date'', VTimePtr (rel_ExpirationDate release)),
      (''resources'', VRefs (rel_Resources release)),
      (''revision'', VInt (rel_Revision release)),
      (''when'', VTime (rel_When release))]"

definition revisionRow :: "revision \<Rightarrow> document" where
  "revisionRow revision =
     [(''bases'', VBases (rev_Bases revision)),
      (''created-at'', VTime (rev_CreatedAt revision)),
      (''created-by'', VStr (rev_CreatedBy revision)),
      (''revision'', VInt (rev_Revision revision)),
      (''sha3-384'', VStr (rev_SHA384 revision)),
      (''size'', VInt (rev_Size revision)),
      (''status'', VStr (rev_Status revision)),
      (''version'', VStr (rev_Version revision))]"

text \<open>The loop over the releases: the map of the revisions they point to.\<close>

fun revisionsMapLoop ::
    "('s, 'b) service \<Rightarrow> string \<Rightarrow> (int, revision) gomap \<Rightarrow> release list \<Rightarrow> 's \<Rightarrow> (int, revision) gomap res" where
  "revisionsMapLoop S packageID revisionsMap [] s = Inr revisionsMap"
| "revisionsMapLoop S packageID revisionsMap (release # rels) s =
     res_bind (GetRevisionByNumber (svc_repo S) packageID (rel_Revision release) s) (\<lambda>rv.
     revisionsMapLoop S packageID (AList.update (rev_Revision rv) rv revisionsMap) rels s)"

text \<open>\<^verbatim>\<open>sort.Slice\<close> orders the rows by the revision number they hold; the numbers are the keys of a map, so
no two rows are equal and the result does not depend on the algorithm.\<close>

definition Service_ListReleases ::
    "('s, 'b) service \<Rightarrow> ambient \<Rightarrow> identity \<Rightarrow> string \<Rightarrow> 's \<Rightarrow> document res" where
  "Service_ListReleases S E identity charmName s =
     res_bind (map_err (translateRepoError ''package not found'') (GetPackageByName (svc_repo S) charmName s)) (\<lambda>pkg0.
     res_bind (requirePackageView S identity pkg0 True s) (\<lambda>_.
     res_bind (enrichPackage S (order E 0) pkg0 s) (\<lambda>pkg.
     res_bind (ListReleases (svc_repo S) (order E 1) (pkg_ID pkg) s) (\<lambda>rels.
     res_bind (revisionsMapLoop S (pkg_ID pkg) [] rels s) (\<lambda>revisionsMap.
     let rows = map revisionRow (sort_key rev_Revision (go_range (order E 2) (map snd revisionsMap))) in
     Inr [(''channel-map'', VList (map (VMap \<circ> releaseRow) rels)),
          (''craft-channel-map'', VList []),
          (''package'', VMap [(''channels'', VList (map VMap (packageChannels (pkg_Tracks pkg))))]),
          (''revisions'', VList (map VMap rows))])))))"

section \<open>Tracks\<close>

definition stampTrack :: "time \<Rightarrow> track \<Rightarrow> track" where
  "stampTrack t tr = (if IsZero (trk_CreatedAt tr) then tr\<lparr>trk_CreatedAt := t\<rparr> else tr)"

definition Service_CreateTracks ::
    "('s, 'b) service \<Rightarrow> ambient \<Rightarrow> identity \<Rightarrow> string \<Rightarrow> track list \<Rightarrow> 's \<Rightarrow> nat res \<times> 's" where
  "Service_CreateTracks S E identity charmName newTracks s =
     rd_bind (map_err (translateRepoError ''package not found'') (GetPackageByName (svc_repo S) charmName s)) s (\<lambda>pkg.
     rd_bind (requirePackageManage S identity pkg permPackageManageMetadata s) s (\<lambda>_.
     CreateTracks (svc_repo S) (pkg_ID pkg) (map (stampTrack (now E 0)) newTracks) s))"

section \<open>Refresh\<close>

record refresh_context =
  ctx_InstanceKey :: string
  ctx_ID :: string
  ctx_Revision :: int
  ctx_Base :: "base option"
  ctx_TrackingChannel :: string

record refresh_action =
  act_Action :: string
  act_InstanceKey :: string
  act_ID :: "string option"
  act_Name :: "string option"
  act_Revision :: "int option"
  act_Channel :: "string option"
  act_Base :: "base option"
  act_ResourceRevisions :: "release_ref list"

record refresh_request =
  rfr_Context :: "refresh_context list"
  rfr_Actions :: "refresh_action list"
  rfr_Fields :: "string list"
  rfr_Metrics :: "(string, (string, string) gomap) gomap"

text \<open>\<^verbatim>\<open>errors.As(err, &svcErr)\<close>: an error of the service becomes a result, another one stays an error.\<close>

fun errorResult :: "refresh_action \<Rightarrow> goerr \<Rightarrow> document res" where
  "errorResult action (ServiceError st code message) =
     Inr [(''instance-key'', VStr (act_InstanceKey action)),
          (''result'', VStr ''error''),
          (''error'', VAPIError \<lparr>err_Code = code, err_Message = message\<rparr>)]"
| "errorResult action err = Inl err"

definition resolvePackageForRefresh :: "('s, 'b) service \<Rightarrow> refresh_action \<Rightarrow> 's \<Rightarrow> package res" where
  "resolvePackageForRefresh S action s =
     (if stringValue (act_Name action) \<noteq> [] then
        map_err (translateRepoError ''package not found'')
          (GetPackageByName (svc_repo S) (stringValue (act_Name action)) s)
      else if stringValue (act_ID action) \<noteq> [] then
        map_err (translateRepoError ''package not found'')
          (GetPackageByID (svc_repo S) (stringValue (act_ID action)) s)
      else Inl (newError 400 ''invalid-request'' ''refresh action must include id or name''))"

text \<open>The release and the revision an action selects, the effective channel and the redirect channel.\<close>

definition explicitRelease :: "string \<Rightarrow> revision \<Rightarrow> release" where
  "explicitRelease channel revision =
     \<lparr>rel_ID = [], rel_PackageID = [], rel_Channel = channel, rel_Revision = rev_Revision revision,
      rel_Base = None, rel_Resources = [], rel_When = rev_CreatedAt revision,
      rel_ExpirationDate = None, rel_Progressive = None\<rparr>"

definition resolveReleaseAndRevision ::
    "('s, 'b) service \<Rightarrow> shuffle \<Rightarrow> package \<Rightarrow> refresh_action \<Rightarrow> 's
       \<Rightarrow> (release \<times> revision \<times> string \<times> string) res" where
  "resolveReleaseAndRevision S sh pkg action s =
     (let channel = normalizeChannel (channelOrDefault (act_Channel action)) in
      let n = (case act_Revision action of None \<Rightarrow> 0 | Some n \<Rightarrow> n) in
      if n > 0 then
        res_bind (map_err (translateRepoError ''revision not found'')
                    (GetRevisionByNumber (svc_repo S) (pkg_ID pkg) n s)) (\<lambda>revision.
        Inr (explicitRelease channel revision, revision, channel, channel))
      else if channel \<noteq> [] then
        res_bind (map_err (translateRepoError ''release not found'')
                    (ResolveRelease (svc_repo S) (pkg_ID pkg) channel s)) (\<lambda>release.
        res_bind (GetRevisionByNumber (svc_repo S) (pkg_ID pkg) (rel_Revision release) s) (\<lambda>revision.
        Inr (release, revision, channel, channel)))
      else
        res_bind (map_err (translateRepoError ''release not found'')
                    (ResolveDefaultRelease (svc_repo S) sh (pkg_ID pkg) s)) (\<lambda>release.
        res_bind (GetRevisionByNumber (svc_repo S) (pkg_ID pkg) (rel_Revision release) s) (\<lambda>revision.
        Inr (release, revision, rel_Channel release, rel_Channel release))))"

definition resolveRefreshSelection ::
    "('s, 'b) service \<Rightarrow> (nat \<Rightarrow> shuffle) \<Rightarrow> nat \<Rightarrow> package \<Rightarrow> refresh_action \<Rightarrow> 's
       \<Rightarrow> (release \<times> revision \<times> resource_revision list \<times> string \<times> string) res" where
  "resolveRefreshSelection S shs i pkg action s =
     res_bind (resolveReleaseAndRevision S (shs i) pkg action s) (\<lambda>(release, revision, channel, redirect).
     res_bind (ListResourceDefinitions (svc_repo S) (shs (i + 1)) (pkg_ID pkg) s) (\<lambda>defs.
     res_bind (resolveReleaseResources S (pkg_ID pkg) defs release s) (\<lambda>resources0.
     res_bind (applyResourceOverrides S (pkg_ID pkg) resources0 (act_ResourceRevisions action) s) (\<lambda>resources.
     Inr (release, revision, resources, channel, redirect)))))"

definition refreshItem ::
    "config \<Rightarrow> package \<Rightarrow> refresh_action \<Rightarrow> release \<Rightarrow> revision \<Rightarrow> resource_revision list \<Rightarrow> string \<Rightarrow> string
       \<Rightarrow> document" where
  "refreshItem cfg pkg action release revision resources effectiveChannel redirectChannel =
     [(''charm'', VMap (refreshEntity pkg (revision\<lparr>rev_Resources := resources\<rparr>) resources cfg)),
      (''effective-channel'', VStr effectiveChannel),
      (''id'', VStr (pkg_ID pkg)),
      (''instance-key'', VStr (act_InstanceKey action)),
      (''name'', VStr (pkg_Name pkg)),
      (''released-at'', VTime (rel_When release)),
      (''result'', VStr (act_Action action))]
     @ (if redirectChannel \<noteq> [] then [(''redirect-channel'', VStr redirectChannel)] else [])"

definition resolveRefreshAction ::
    "('s, 'b) service \<Rightarrow> (nat \<Rightarrow> shuffle) \<Rightarrow> nat \<Rightarrow> identity \<Rightarrow> refresh_action \<Rightarrow> 's \<Rightarrow> document res" where
  "resolveRefreshAction S shs i identity action s =
     (case resolvePackageForRefresh S action s of
        Inl err \<Rightarrow> errorResult action err
      | Inr pkg \<Rightarrow>
     (case requirePackageView S identity pkg False s of
        Inl err \<Rightarrow> errorResult action err
      | Inr _ \<Rightarrow>
     (case resolveRefreshSelection S shs i pkg action s of
        Inl err \<Rightarrow> errorResult action err
      | Inr (release, revision, resources, effectiveChannel, redirectChannel) \<Rightarrow>
          Inr (refreshItem (svc_cfg S) pkg action release revision resources effectiveChannel redirectChannel))))"

text \<open>The loop over the actions; each one takes two iteration orders.\<close>

fun refreshLoop ::
    "('s, 'b) service \<Rightarrow> (nat \<Rightarrow> shuffle) \<Rightarrow> nat \<Rightarrow> identity \<Rightarrow> refresh_action list \<Rightarrow> 's \<Rightarrow> document list res" where
  "refreshLoop S shs i identity [] s = Inr []"
| "refreshLoop S shs i identity (action # actions) s =
     res_bind (resolveRefreshAction S shs i identity action s) (\<lambda>item.
     res_bind (refreshLoop S shs (i + 2) identity actions s) (\<lambda>items.
     Inr (item # items)))"

definition Refresh ::
    "('s, 'b) service \<Rightarrow> ambient \<Rightarrow> identity \<Rightarrow> refresh_request \<Rightarrow> 's \<Rightarrow> document res" where
  "Refresh S E identity request s =
     res_bind (refreshLoop S (order E) 0 identity (rfr_Actions request) s) (\<lambda>results.
     Inr [(''error-list'', VList []), (''results'', VList (map VMap results))])"

section \<open>Lemmas: releasing\<close>

lemma stampRelease_sel [simp]:
  "rel_Channel (stampRelease t i r) = rel_Channel r" "rel_Revision (stampRelease t i r) = rel_Revision r"
  "rel_Base (stampRelease t i r) = rel_Base r" "rel_Resources (stampRelease t i r) = rel_Resources r"
  "rel_ExpirationDate (stampRelease t i r) = rel_ExpirationDate r"
  "rel_Progressive (stampRelease t i r) = rel_Progressive r"
  by (simp_all add: stampRelease_def)

text \<open>When an entry is released, and what the request leaves on a channel.\<close>

definition channelAllowed :: "identity \<Rightarrow> string \<Rightarrow> bool" where
  "channelAllowed identity channel \<longleftrightarrow> enforceChannelRestriction identity channel = Inr ()"

definition releasable :: "memory \<Rightarrow> identity \<Rightarrow> string \<Rightarrow> release \<Rightarrow> bool" where
  "releasable m identity packageID r \<longleftrightarrow>
     rel_Channel r \<noteq> [] \<and> (\<exists>rv. Memory_GetRevisionByNumber packageID (rel_Revision r) m = Inr rv)
     \<and> channelAllowed identity (rel_Channel r)"

definition lastOn :: "string \<Rightarrow> release list \<Rightarrow> release option" where
  "lastOn channel rs = find (\<lambda>r. rel_Channel r = channel) (rev rs)"

lemma lastOn_simps [simp]:
  "lastOn channel [] = None"
  "lastOn channel (r # rs) =
     (case lastOn channel rs of None \<Rightarrow> if rel_Channel r = channel then Some r else None | Some x \<Rightarrow> Some x)"
  by (simp_all add: lastOn_def find_append split: option.split)

lemma lastOn_None: "lastOn channel rs = None \<longleftrightarrow> channel \<notin> rel_Channel ` set rs"
  by (auto simp: lastOn_def find_None_all)

text \<open>What a store holds on a channel after the releases \<open>out\<close> of a package.\<close>

definition released_to :: "string \<Rightarrow> release list \<Rightarrow> memory \<Rightarrow> memory \<Rightarrow> bool" where
  "released_to packageID out m m' \<longleftrightarrow>
     (\<exists>x. m' = m\<lparr>releases := x\<rparr>) \<and>
     (\<forall>pid channel. map_of (at_key (releases m') pid) channel =
        (if pid = packageID
         then case lastOn channel out of None \<Rightarrow> map_of (at_key (releases m) pid) channel | Some r \<Rightarrow> Some r
         else map_of (at_key (releases m) pid) channel))"

lemma released_to_Nil [simp]: "released_to pid [] m m"
  by (auto simp: released_to_def intro: exI [of _ "releases m"])

lemma released_to_revision:
  "released_to pid out m m' \<Longrightarrow> Memory_GetRevisionByNumber q n m' = Memory_GetRevisionByNumber q n m"
  by (auto simp: released_to_def Memory_GetRevisionByNumber_def)

lemma released_to_Cons:
  assumes "Memory_ReplaceRelease pid r m = (Inr (), m1)" and "released_to pid out m1 m'"
  shows "released_to pid (r # out) m m'"
proof -
  have m1: "m1 = m\<lparr>releases := AList.update pid
      (AList.update (rel_Channel r) r (at_key (releases m) pid)) (releases m)\<rparr>"
    using assms(1) by (simp add: Memory_ReplaceRelease_def)
  obtain x where "m' = m1\<lparr>releases := x\<rparr>" using assms(2) by (auto simp: released_to_def)
  then have "\<exists>x. m' = m\<lparr>releases := x\<rparr>" unfolding m1 by auto
  moreover have "map_of (at_key (releases m') q) channel =
      (if q = pid then case lastOn channel (r # out) of
           None \<Rightarrow> map_of (at_key (releases m) q) channel | Some r \<Rightarrow> Some r
       else map_of (at_key (releases m) q) channel)" for q channel
    using assms(2) unfolding released_to_def m1 by (auto split: option.split)
  ultimately show ?thesis by (simp add: released_to_def)
qed

text \<open>The loop over entries that can all be released.\<close>

lemma releaseLoop_run:
  assumes "memory_inv m" and "\<And>r. r \<in> set requests \<Longrightarrow> releasable m identity pid r"
  shows "\<exists>out m'. releaseLoop (mem_service cfg) ids identity t pid i requests acc m = (Inr (acc @ out), m')
     \<and> list_all2 (\<lambda>r r'. \<exists>newID. r' = stampRelease t newID r) requests out
     \<and> released_to pid out m m' \<and> memory_inv m'"
  using assms
proof (induction requests arbitrary: i "acc" m)
  case Nil
  then show ?case by auto
next
  case (Cons r requests)
  let ?r = "stampRelease t (ids i) r"
  obtain rv where r: "rel_Channel r \<noteq> []" "Memory_GetRevisionByNumber pid (rel_Revision r) m = Inr rv"
      "enforceChannelRestriction identity (rel_Channel r) = Inr ()"
    using Cons.prems(2) [of r] by (auto simp: releasable_def channelAllowed_def)
  obtain m1 where m1: "Memory_ReplaceRelease pid ?r m = (Inr (), m1)"
    by (simp add: Memory_ReplaceRelease_def)
  have inv1: "memory_inv m1"
    using memory_inv_ReplaceRelease [OF Cons.prems(1), of pid ?r rv] r(2) m1 by simp
  have "released_to pid [?r] m m1" by (rule released_to_Cons [OF m1 released_to_Nil])
  then have "releasable m1 identity pid r'" if "r' \<in> set requests" for r'
    using Cons.prems(2) [of r'] that released_to_revision [of pid "[?r]" m m1] by (simp add: releasable_def)
  then obtain out m' where IH: "releaseLoop (mem_service cfg) ids identity t pid
        (if rel_ID r = [] then Suc i else i) requests (acc @ [?r]) m1 = (Inr ((acc @ [?r]) @ out), m')"
      "list_all2 (\<lambda>r r'. \<exists>newID. r' = stampRelease t newID r) requests out"
      "released_to pid out m1 m'" "memory_inv m'"
    using Cons.IH [OF inv1] by blast
  have "releaseLoop (mem_service cfg) ids identity t pid i (r # requests) acc m
      = (Inr (acc @ ?r # out), m')"
    using r m1 IH(1) by (simp add: Let_def)
  then show ?case
    using IH(2,4) released_to_Cons [OF m1 IH(3)] by (intro exI [of _ "?r # out"] exI [of _ m']) auto
qed

lemma releaseLoop_start:
  assumes "memory_inv m" and "\<forall>r \<in> set requests. releasable m identity pid r"
  shows "\<exists>out m'. releaseLoop (mem_service cfg) ids identity t pid 0 requests [] m = (Inr out, m')
     \<and> list_all2 (\<lambda>r r'. \<exists>newID. r' = stampRelease t newID r) requests out
     \<and> released_to pid out m m' \<and> memory_inv m'"
  using releaseLoop_run [of m requests identity pid cfg ids t 0 "[]"] assms by simp

text \<open>A first entry that cannot be released ends the loop and changes nothing.\<close>

definition releaseError :: "memory \<Rightarrow> identity \<Rightarrow> string \<Rightarrow> release \<Rightarrow> goerr" where
  "releaseError m identity packageID r =
     (if rel_Channel r = [] then ServiceError 400 ''invalid-request'' ''channel is required''
      else case Memory_GetRevisionByNumber packageID (rel_Revision r) m of
        Inl _ \<Rightarrow> ServiceError 404 ''not-found'' ''revision not found''
      | Inr _ \<Rightarrow> ServiceError 403 ''forbidden'' ''token does not allow this channel'')"

lemma releaseLoop_stop:
  assumes "\<not> releasable m identity pid r"
  shows "releaseLoop (mem_service cfg) ids identity t pid i (r # requests) acc m
     = (Inl (releaseError m identity pid r), m)"
proof (cases "rel_Channel r = []")
  case True
  then show ?thesis by (simp add: releaseError_def newError_def)
next
  case ch: False
  show ?thesis
  proof (cases "Memory_GetRevisionByNumber pid (rel_Revision r) m")
    case (Inl err)
    then have "err = ErrNotFound" by (auto simp: Memory_GetRevisionByNumber_def res_iff)
    then show ?thesis using ch Inl by (simp add: releaseError_def)
  next
    case (Inr rv)
    then have "\<not> channelAllowed identity (rel_Channel r)" using assms ch by (auto simp: releasable_def)
    then have "enforceChannelRestriction identity (rel_Channel r) =
        Inl (ServiceError 403 ''forbidden'' ''token does not allow this channel'')"
      by (auto simp: channelAllowed_def enforceChannelRestriction_def newError_def
          split: option.splits if_splits)
    then show ?thesis using ch Inr by (simp add: releaseError_def Let_def)
  qed
qed

lemma releaseLoop_append:
  "\<exists>j. releaseLoop S ids identity t pid i (us @ vs) acc s =
     st_bind (releaseLoop S ids identity t pid i us acc s)
       (\<lambda>acc1 s1. releaseLoop S ids identity t pid j vs acc1 s1)"
proof (induction us arbitrary: i "acc" s)
  case Nil
  show ?case by (auto intro: exI [of _ i])
next
  case (Cons u us)
  let ?i = "if rel_ID u = [] then Suc i else i" and ?u = "stampRelease t (ids i) u"
  obtain s1 r where r: "ReplaceRelease (svc_repo S) pid ?u s = (r, s1)" by fastforce
  obtain j where j: "releaseLoop S ids identity t pid ?i (us @ vs) (acc @ [?u]) s1 =
     st_bind (releaseLoop S ids identity t pid ?i us (acc @ [?u]) s1)
       (\<lambda>acc1 s1. releaseLoop S ids identity t pid j vs acc1 s1)"
    using Cons.IH by blast
  show ?case
  proof (cases "GetRevisionByNumber (svc_repo S) pid (rel_Revision u) s")
    case (Inr rv)
    then show ?thesis
      using j r by (cases "enforceChannelRestriction identity (rel_Channel u)"; cases r)
        (auto simp: Let_def)
  qed (auto simp: Let_def)
qed

text \<open>What a whole request leaves behind, when it is accepted and when it stops.\<close>

lemma Release_start:
  assumes "stored p m" and "mayManage identity p permPackageManageReleases"
  shows "Release (mem_service cfg) E identity (pkg_Name p) requests m =
     st_bind (releaseLoop (mem_service cfg) (uuid E) identity (now E 0) (pkg_ID p) 0 requests [] m) (\<lambda>out m1.
     st_bind (Memory_UpdatePackage (p\<lparr>pkg_Status := ''published'', pkg_UpdatedAt := now E 0\<rparr>) m1) (\<lambda>_ m2.
     (Inr out, m2)))"
  using assms requirePackageManage_Inr [OF assms]
  by (simp add: Release_def Memory_GetPackageByName_def stored_def)

lemma Release_mem:
  assumes inv: "memory_inv m" and p: "stored p m" and manage: "mayManage identity p permPackageManageReleases"
    and ok: "\<And>r. r \<in> set requests \<Longrightarrow> releasable m identity (pkg_ID p) r"
  obtains out m1 ps qs where
    "Release (mem_service cfg) E identity (pkg_Name p) requests m
       = (Inr out, m1\<lparr>packages := ps, packagesByID := qs\<rparr>)"
    and "list_all2 (\<lambda>r r'. \<exists>newID. r' = stampRelease (now E 0) newID r) requests out"
    and "released_to (pkg_ID p) out m m1" and "memory_inv (m1\<lparr>packages := ps, packagesByID := qs\<rparr>)"
    and "stored (p\<lparr>pkg_Status := ''published'', pkg_UpdatedAt := now E 0\<rparr>) (m1\<lparr>packages := ps, packagesByID := qs\<rparr>)"
    and "\<And>q. stored q m \<Longrightarrow> q \<noteq> p \<Longrightarrow> stored q (m1\<lparr>packages := ps, packagesByID := qs\<rparr>)"
proof -
  let ?new = "p\<lparr>pkg_Status := ''published'', pkg_UpdatedAt := now E 0\<rparr>"
  obtain out m1 where loop: "releaseLoop (mem_service cfg) (uuid E) identity (now E 0) (pkg_ID p) 0 requests [] m
        = (Inr out, m1)"
      and out: "list_all2 (\<lambda>r r'. \<exists>newID. r' = stampRelease (now E 0) newID r) requests out"
      and rel: "released_to (pkg_ID p) out m m1" and inv1: "memory_inv m1"
    using releaseLoop_start [OF inv] ok by blast
  have st: "stored q m1 = stored q m" for q using rel by (auto simp: released_to_def stored_def)
  have p1: "stored p m1" using p st by blast
  obtain ps qs where upd: "Memory_UpdatePackage ?new m1 = (Inr (), m1\<lparr>packages := ps, packagesByID := qs\<rparr>)"
      and inv2: "memory_inv (m1\<lparr>packages := ps, packagesByID := qs\<rparr>)"
      and st2: "stored ?new (m1\<lparr>packages := ps, packagesByID := qs\<rparr>)"
        "\<And>q. stored q m1 \<Longrightarrow> q \<noteq> p \<Longrightarrow> stored q (m1\<lparr>packages := ps, packagesByID := qs\<rparr>)"
    by (rule update_stored [OF inv1 p1, of ?new]) auto
  show ?thesis
  proof (rule that)
    show "Release (mem_service cfg) E identity (pkg_Name p) requests m
       = (Inr out, m1\<lparr>packages := ps, packagesByID := qs\<rparr>)"
      using Release_start [OF p manage, of cfg E requests] loop upd by simp
  qed (use out rel inv2 st2 st in blast)+
qed

lemma Release_stop:
  assumes inv: "memory_inv m" and p: "stored p m" and manage: "mayManage identity p permPackageManageReleases"
    and ok: "\<And>r. r \<in> set us \<Longrightarrow> releasable m identity (pkg_ID p) r"
    and bad: "\<not> releasable m identity (pkg_ID p) v"
  shows "\<exists>out m1. Release (mem_service cfg) E identity (pkg_Name p) (us @ v # vs) m
       = (Inl (releaseError m identity (pkg_ID p) v), m1)
     \<and> list_all2 (\<lambda>r r'. \<exists>newID. r' = stampRelease (now E 0) newID r) us out
     \<and> released_to (pkg_ID p) out m m1 \<and> memory_inv m1"
proof -
  obtain out m1 where loop: "releaseLoop (mem_service cfg) (uuid E) identity (now E 0) (pkg_ID p) 0 us [] m
        = (Inr out, m1)"
      and out: "list_all2 (\<lambda>r r'. \<exists>newID. r' = stampRelease (now E 0) newID r) us out"
      and rel: "released_to (pkg_ID p) out m m1" and inv1: "memory_inv m1"
    using releaseLoop_start [OF inv] ok by blast
  note rev = released_to_revision [OF rel]
  have bad1: "\<not> releasable m1 identity (pkg_ID p) v" using bad rev by (simp add: releasable_def)
  have err: "releaseError m1 identity (pkg_ID p) v = releaseError m identity (pkg_ID p) v"
    by (simp add: releaseError_def rev)
  obtain j where "releaseLoop (mem_service cfg) (uuid E) identity (now E 0) (pkg_ID p) 0 (us @ v # vs) [] m
      = st_bind (Inr out, m1) (\<lambda>acc1 s1.
          releaseLoop (mem_service cfg) (uuid E) identity (now E 0) (pkg_ID p) j (v # vs) acc1 s1)"
    using releaseLoop_append [of "mem_service cfg" "uuid E" identity "now E 0" "pkg_ID p" 0 us "v # vs" "[]" m]
    unfolding loop by blast
  then have "releaseLoop (mem_service cfg) (uuid E) identity (now E 0) (pkg_ID p) 0 (us @ v # vs) [] m
      = (Inl (releaseError m identity (pkg_ID p) v), m1)"
    by (simp only: st_bind_simps releaseLoop_stop [OF bad1] err)
  then have "Release (mem_service cfg) E identity (pkg_Name p) (us @ v # vs) m
      = (Inl (releaseError m identity (pkg_ID p) v), m1)"
    using Release_start [OF p manage, of cfg E "us @ v # vs"] by simp
  then show ?thesis using out rel inv1 by blast
qed

end
