(* ===== verification/JsonScan.thy ===== *)
theory JsonScan
  imports Json
begin

text \<open>
  The scanner of \<^verbatim>\<open>encoding/json\<close>, through which every request body and the macaroons header pass: a machine
  that reads bytes under a stack of open arrays and objects, at most 10000 deep, and stops with a value and the
  bytes after it, with a syntax error, or at the end of its input.  Literals are kept as they are written;
  \<open>unquote\<close> is the conversion of a string literal to its bytes.
\<close>

section \<open>Values and outcomes\<close>

text \<open>Numbers by their literals, strings and names by the bytes between the quotes.\<close>

datatype json =
    JNull
  | JBool bool
  | JNumber string
  | JString string
  | JArray "json list"
  | JObject "(string \<times> json) list"

text \<open>A token, or a value, and the rest; the input ended inside it; it is not JSON.\<close>

datatype 'a scan = Got 'a bytes | Short | Bad goerr

definition mapScan :: "('a \<Rightarrow> 'b) \<Rightarrow> 'a scan \<Rightarrow> 'b scan" where
  "mapScan f r = (case r of Got x rest \<Rightarrow> Got (f x) rest | Short \<Rightarrow> Short | Bad err \<Rightarrow> Bad err)"

text \<open>\<^verbatim>\<open>quoteChar\<close>, with the escapes of \<^verbatim>\<open>strconv.Quote\<close> for the code point of the byte.\<close>

definition quoteChar :: "char \<Rightarrow> string" where
  "quoteChar c =
     (let n = byteNat c in
      CHR 0x27 #
      (if c = CHR 0x27 then [CHR 0x5C, c]
       else if c = CHR 0x22 then [c]
       else if c = CHR 0x5C then [c, c]
       else if n = 7 then [CHR 0x5C, CHR ''a'']
       else if n = 8 then [CHR 0x5C, CHR ''b'']
       else if n = 9 then [CHR 0x5C, CHR ''t'']
       else if n = 10 then [CHR 0x5C, CHR ''n'']
       else if n = 11 then [CHR 0x5C, CHR ''v'']
       else if n = 12 then [CHR 0x5C, CHR ''f'']
       else if n = 13 then [CHR 0x5C, CHR ''r'']
       else if n < 32 \<or> n = 127 then CHR 0x5C # CHR ''x'' # hexByte n
       else if n < 127 then [c]
       else if n < 161 \<or> n = 173 then CHR 0x5C # ''u00'' @ hexByte n
       else [char_of (192 + n div 64), char_of (128 + n mod 64)])
      @ [CHR 0x27])"

definition invalidCharacter :: "char \<Rightarrow> string \<Rightarrow> goerr" where
  "invalidCharacter c during = Errorf (''invalid character '' @ quoteChar c @ '' '' @ during)"

section \<open>Literals\<close>

definition isSpaceJSON :: "char \<Rightarrow> bool" where
  "isSpaceJSON c \<longleftrightarrow> c = CHR '' '' \<or> c = CHR 0x09 \<or> c = CHR 0x0D \<or> c = CHR 0x0A"

definition isDigit :: "char \<Rightarrow> bool" where
  "isDigit c \<longleftrightarrow> digitVal c \<noteq> None"

definition hexVal :: "char \<Rightarrow> nat option" where
  "hexVal c =
     (let n = byteNat c in
      if 48 \<le> n \<and> n \<le> 57 then Some (n - 48)
      else if 97 \<le> n \<and> n \<le> 102 then Some (n - 87)
      else if 65 \<le> n \<and> n \<le> 70 then Some (n - 55)
      else None)"

fun scanHex :: "nat \<Rightarrow> bytes \<Rightarrow> string scan" where
  "scanHex 0 s = Got [] s"
| "scanHex (Suc n) [] = Short"
| "scanHex (Suc n) (c # s) =
     (if hexVal c = None
      then Bad (invalidCharacter c (''in '' @ CHR 0x5C # ''u hexadecimal character escape''))
      else mapScan (Cons c) (scanHex n s))"

lemma mapScan_Got [simp]: "mapScan f r = Got y rest \<longleftrightarrow> (\<exists>x. r = Got x rest \<and> y = f x)"
  by (auto simp: mapScan_def split: scan.splits)

lemma mapScan_simps [simp]:
  "mapScan f (Got x rest) = Got (f x) rest" "mapScan f Short = Short" "mapScan f (Bad err) = Bad err"
  by (simp_all add: mapScan_def)

lemma scanHex_shorter: "scanHex n s = Got h rest \<Longrightarrow> length rest \<le> length s"
  by (induction n s arbitrary: h rule: scanHex.induct) (auto split: if_splits)

text \<open>From the byte after the opening quote to the closing quote.\<close>

function scanString :: "bytes \<Rightarrow> string scan" where
  "scanString [] = Short"
| "scanString (c # s) =
     (if c = CHR 0x22 then Got [] s
      else if c = CHR 0x5C then
        (case s of
           [] \<Rightarrow> Short
         | e # s1 \<Rightarrow>
             if e = CHR ''u'' then
               (case scanHex 4 s1 of
                  Got h s2 \<Rightarrow> mapScan (\<lambda>r. c # e # h @ r) (scanString s2)
                | Short \<Rightarrow> Short
                | Bad err \<Rightarrow> Bad err)
             else if e \<in> {CHR 0x22, CHR 0x5C, CHR ''/'', CHR ''b'', CHR ''f'', CHR ''n'', CHR ''r'', CHR ''t''}
             then mapScan (\<lambda>r. c # e # r) (scanString s1)
             else Bad (invalidCharacter e ''in string escape code''))
      else if byteNat c < 32 then Bad (invalidCharacter c ''in string literal'')
      else mapScan (Cons c) (scanString s))"
  by pat_completeness auto
termination by (relation "measure length") (auto dest: scanHex_shorter)

lemma scanString_shorter: "scanString s = Got x rest \<Longrightarrow> length rest < length s"
proof (induction s arbitrary: x rule: scanString.induct)
  case (2 c s)
  then show ?case
    by (fastforce split: if_splits list.splits scan.splits dest: scanHex_shorter)
qed simp

text \<open>The digits at the head, and the parts of a number after its sign.\<close>

definition digits :: "bytes \<Rightarrow> string \<times> bytes" where
  "digits s = (takeWhile isDigit s, dropWhile isDigit s)"

definition scanDigits1 :: "string \<Rightarrow> bytes \<Rightarrow> string scan" where
  "scanDigits1 during s =
     (case s of
        [] \<Rightarrow> Short
      | c # _ \<Rightarrow> if isDigit c then (let (ds, rest) = digits s in Got ds rest) else Bad (invalidCharacter c during))"

definition scanExponent :: "bytes \<Rightarrow> string scan" where
  "scanExponent s =
     (case s of
        c # s1 \<Rightarrow>
          if c = CHR ''e'' \<or> c = CHR ''E'' then
            (case s1 of
               d # s2 \<Rightarrow>
                 if d = CHR ''+'' \<or> d = CHR ''-''
                 then mapScan (\<lambda>ds. c # d # ds) (scanDigits1 ''in exponent of numeric literal'' s2)
                 else mapScan (Cons c) (scanDigits1 ''in exponent of numeric literal'' s1)
             | [] \<Rightarrow> Short)
          else Got [] s
      | [] \<Rightarrow> Got [] s)"

definition scanFraction :: "bytes \<Rightarrow> string scan" where
  "scanFraction s =
     (case s of
        c # s1 \<Rightarrow>
          if c = CHR ''.'' then
            (case scanDigits1 ''after decimal point in numeric literal'' s1 of
               Got ds s2 \<Rightarrow> mapScan (\<lambda>r. c # ds @ r) (scanExponent s2)
             | Short \<Rightarrow> Short
             | Bad err \<Rightarrow> Bad err)
          else scanExponent s
      | [] \<Rightarrow> Got [] s)"

definition scanUnsigned :: "bytes \<Rightarrow> string scan" where
  "scanUnsigned s =
     (case s of
        [] \<Rightarrow> Short
      | c # s1 \<Rightarrow>
          if c = CHR ''0'' then mapScan (Cons c) (scanFraction s1)
          else if isDigit c then (let (ds, rest) = digits s in mapScan ((@) ds) (scanFraction rest))
          else Bad (invalidCharacter c ''in numeric literal''))"

text \<open>\<^verbatim>\<open>true\<close>, \<^verbatim>\<open>false\<close>, \<^verbatim>\<open>null\<close>: the name, the letters that are left, the value.\<close>

fun scanName :: "string \<Rightarrow> string \<Rightarrow> json \<Rightarrow> bytes \<Rightarrow> json scan" where
  "scanName name [] v s = Got v s"
| "scanName name (x # xs) v [] = Short"
| "scanName name (x # xs) v (c # s) =
     (if c = x then scanName name xs v s
      else Bad (invalidCharacter c
        (''in literal '' @ name @ '' (expecting '' @ CHR 0x27 # x # CHR 0x27 # '')'')))"

lemma digits_shorter: "snd (digits s) = rest \<Longrightarrow> length rest \<le> length s"
  by (auto simp: digits_def length_dropWhile_le)

lemma scanDigits1_shorter: "scanDigits1 during s = Got ds rest \<Longrightarrow> length rest \<le> length s"
  by (auto simp: scanDigits1_def digits_def length_dropWhile_le le_SucI split: list.splits if_splits)

lemma scanExponent_shorter: "scanExponent s = Got x rest \<Longrightarrow> length rest \<le> length s"
  by (auto simp: scanExponent_def split: list.splits if_splits dest: scanDigits1_shorter)

lemma scanFraction_shorter: "scanFraction s = Got x rest \<Longrightarrow> length rest \<le> length s"
  by (fastforce simp: scanFraction_def split: list.splits if_splits scan.splits
      dest: scanDigits1_shorter scanExponent_shorter)

lemma scanUnsigned_shorter: "scanUnsigned s = Got x rest \<Longrightarrow> length rest < length s"
  by (auto simp: scanUnsigned_def digits_def less_Suc_eq_le split: list.splits if_splits
      dest!: scanFraction_shorter intro: order_trans [OF _ length_dropWhile_le])

lemma scanName_shorter: "scanName name xs v s = Got x rest \<Longrightarrow> length rest \<le> length s"
  by (induction name xs v s rule: scanName.induct) (auto split: if_splits)

section \<open>The machine\<close>

text \<open>An open array with its elements so far, an open object with its members so far and the name of the next one.\<close>

datatype frame = InArray "json list" | InObject "(string \<times> json) list" string

text \<open>What the next byte that is not a space has to begin or to follow.\<close>

datatype awaiting = AwaitValue | AwaitValueOrEnd | AwaitKey | AwaitKeyOrEnd | AwaitColon | After json

datatype scanner = Scanner "frame list" awaiting bytes

definition maxNestingDepth :: nat where
  "maxNestingDepth = 10000"

definition pushFrame :: "frame \<Rightarrow> frame list \<Rightarrow> awaiting \<Rightarrow> char \<Rightarrow> bytes \<Rightarrow> json scan + scanner" where
  "pushFrame f st m c s =
     (if Suc (length st) > maxNestingDepth then Inl (Bad (invalidCharacter c ''exceeded max depth''))
      else Inr (Scanner (f # st) m s))"

definition scalar :: "frame list \<Rightarrow> json scan \<Rightarrow> json scan + scanner" where
  "scalar st r =
     (case r of Got v rest \<Rightarrow> Inr (Scanner st (After v) rest) | Short \<Rightarrow> Inl Short | Bad err \<Rightarrow> Inl (Bad err))"

definition beginValue :: "frame list \<Rightarrow> char \<Rightarrow> bytes \<Rightarrow> json scan + scanner" where
  "beginValue st c s =
     (if c = CHR ''{'' then pushFrame (InObject [] []) st AwaitKeyOrEnd c s
      else if c = CHR ''['' then pushFrame (InArray []) st AwaitValueOrEnd c s
      else if c = CHR 0x22 then scalar st (mapScan JString (scanString s))
      else if c = CHR ''-'' then scalar st (mapScan (\<lambda>d. JNumber (c # d)) (scanUnsigned s))
      else if isDigit c then scalar st (mapScan JNumber (scanUnsigned (c # s)))
      else if c = CHR ''t'' then scalar st (scanName ''true'' ''rue'' (JBool True) s)
      else if c = CHR ''f'' then scalar st (scanName ''false'' ''alse'' (JBool False) s)
      else if c = CHR ''n'' then scalar st (scanName ''null'' ''ull'' JNull s)
      else Inl (Bad (invalidCharacter c ''looking for beginning of value'')))"

fun setKey :: "string \<Rightarrow> frame list \<Rightarrow> frame list" where
  "setKey k (InObject ms _ # st) = InObject ms k # st"
| "setKey k st = st"

definition beginKey :: "frame list \<Rightarrow> char \<Rightarrow> bytes \<Rightarrow> json scan + scanner" where
  "beginKey st c s =
     (if c = CHR 0x22 then
        (case scanString s of
           Got k rest \<Rightarrow> Inr (Scanner (setKey k st) AwaitColon rest)
         | Short \<Rightarrow> Inl Short
         | Bad err \<Rightarrow> Inl (Bad err))
      else Inl (Bad (invalidCharacter c ''looking for beginning of object key string'')))"

fun endValue :: "frame list \<Rightarrow> json \<Rightarrow> char \<Rightarrow> bytes \<Rightarrow> json scan + scanner" where
  "endValue [] v c s = Inl (Got v (c # s))"
| "endValue (InArray vs # st) v c s =
     (if c = CHR '','' then Inr (Scanner (InArray (vs @ [v]) # st) AwaitValue s)
      else if c = CHR '']'' then Inr (Scanner st (After (JArray (vs @ [v]))) s)
      else Inl (Bad (invalidCharacter c ''after array element'')))"
| "endValue (InObject ms k # st) v c s =
     (if c = CHR '','' then Inr (Scanner (InObject (ms @ [(k, v)]) [] # st) AwaitKey s)
      else if c = CHR ''}'' then Inr (Scanner st (After (JObject (ms @ [(k, v)]))) s)
      else Inl (Bad (invalidCharacter c ''after object key:value pair'')))"

text \<open>One step: a space is passed over, anything else is what is awaited or an error.  A value that is not inside
another one ends the scan.\<close>

fun finished :: "frame list \<Rightarrow> awaiting \<Rightarrow> json option" where
  "finished [] (After v) = Some v"
| "finished _ _ = None"

definition consume :: "frame list \<Rightarrow> awaiting \<Rightarrow> char \<Rightarrow> bytes \<Rightarrow> json scan + scanner" where
  "consume st m c s =
     (if isSpaceJSON c then Inr (Scanner st m s)
      else case m of
        AwaitValue \<Rightarrow> beginValue st c s
      | AwaitValueOrEnd \<Rightarrow>
          if c = CHR '']'' then Inr (Scanner (tl st) (After (JArray [])) s) else beginValue st c s
      | AwaitKey \<Rightarrow> beginKey st c s
      | AwaitKeyOrEnd \<Rightarrow>
          if c = CHR ''}'' then Inr (Scanner (tl st) (After (JObject [])) s) else beginKey st c s
      | AwaitColon \<Rightarrow>
          if c = CHR '':'' then Inr (Scanner st AwaitValue s)
          else Inl (Bad (invalidCharacter c ''after object key''))
      | After v \<Rightarrow> endValue st v c s)"

fun scanStep :: "scanner \<Rightarrow> json scan + scanner" where
  "scanStep (Scanner st m s) =
     (case finished st m of
        Some v \<Rightarrow> Inl (Got v s)
      | None \<Rightarrow> (case s of [] \<Rightarrow> Inl Short | c # s' \<Rightarrow> consume st m c s'))"

fun unread :: "scanner \<Rightarrow> bytes" where
  "unread (Scanner st m s) = s"

fun depth :: "scanner \<Rightarrow> nat" where
  "depth (Scanner st m s) = length st"

lemma scalar_shorter:
  "scalar st r = Inr m \<Longrightarrow> (\<And>v rest. r = Got v rest \<Longrightarrow> length rest \<le> n) \<Longrightarrow> length (unread m) \<le> n"
  by (auto simp: scalar_def split: scan.splits)

lemma beginValue_shorter:
  assumes "beginValue st c s = Inr m"
  shows "length (unread m) \<le> length s"
proof -
  have "length rest \<le> length s" if "scanUnsigned (c # s) = Got x rest" for x rest
    using scanUnsigned_shorter [OF that] by simp
  then show ?thesis
    using assms
    by (auto simp: beginValue_def pushFrame_def split: if_splits
        elim!: scalar_shorter dest!: scanUnsigned_shorter scanString_shorter scanName_shorter)
qed

lemma setKey_length [simp]: "length (setKey k st) = length st"
  by (induction k st rule: setKey.induct) simp_all

text \<open>Every step that does not end the scan consumes a byte.\<close>

lemma consume_shorter: "consume st m c s = Inr m' \<Longrightarrow> length (unread m') \<le> length s"
proof -
  have "length (unread m') \<le> length s" if "endValue st v c s = Inr m'" for v
    using that by (cases "(st, v, c, s)" rule: endValue.cases) (auto split: if_splits)
  then show "consume st m c s = Inr m' \<Longrightarrow> length (unread m') \<le> length s"
    by (auto simp: consume_def beginKey_def split: if_splits awaiting.splits scan.splits
        dest: beginValue_shorter scanString_shorter)
qed

lemma scanStep_shorter: "scanStep m = Inr m' \<Longrightarrow> length (unread m') < length (unread m)"
  by (cases m) (auto simp: less_Suc_eq_le split: option.splits list.splits dest: consume_shorter)

text \<open>The loop of \<^verbatim>\<open>readValue\<close> and of \<^verbatim>\<open>checkValid\<close>.\<close>

function scanFrom :: "scanner \<Rightarrow> json scan" where
  "scanFrom m = (case scanStep m of Inl r \<Rightarrow> r | Inr m' \<Rightarrow> scanFrom m')"
  by pat_completeness auto
termination by (relation "measure (length \<circ> unread)") (auto dest: scanStep_shorter)

declare scanFrom.simps [simp del]

definition scanValue :: "bytes \<Rightarrow> json scan" where
  "scanValue s = scanFrom (Scanner [] AwaitValue s)"

text \<open>The same loop, given up after a number of rounds.\<close>

fun scanWithin :: "nat \<Rightarrow> scanner \<Rightarrow> json scan option" where
  "scanWithin 0 m = None"
| "scanWithin (Suc n) m = (case scanStep m of Inl r \<Rightarrow> Some r | Inr m' \<Rightarrow> scanWithin n m')"

text \<open>One round per byte and one to notice the end are enough, whatever the bytes are.\<close>

lemma scanWithin_enough: "length (unread m) < n \<Longrightarrow> scanWithin n m = Some (scanFrom m)"
proof (induction n arbitrary: m)
  case (Suc n)
  show ?case
  proof (cases "scanStep m")
    case (Inr m')
    with scanStep_shorter [OF this] Suc show ?thesis by (simp add: scanFrom.simps [of m])
  qed (simp add: scanFrom.simps [of m])
qed simp

end
