(* ===== verification/JsonDecode.thy ===== *)
theory JsonDecode
  imports JsonScan
begin

text \<open>
  \<^verbatim>\<open>encoding/json\<close> from a scanned value to a Go value: a decoder takes the value and what the target holds, and
  yields what the target holds afterwards.  A \<^verbatim>\<open>null\<close> leaves a string, a number or a struct as it is, and empties
  a pointer, a slice or a map; the names of the members of a struct are looked up exactly first and without regard
  to case then; a member that occurs twice is decoded twice into the same field.  The library goes on after a
  value of the wrong type and reports the first such error at the end, which is the error given here; the texts of
  these errors are cut off after their first words.
\<close>

section \<open>Strings\<close>

text \<open>\<^verbatim>\<open>utf8.EncodeRune\<close>\<close>

definition encodeRune :: "nat \<Rightarrow> bytes" where
  "encodeRune n =
     (if n < 128 then [char_of n]
      else if n < 2048 then [char_of (192 + n div 64), char_of (128 + n mod 64)]
      else if n < 65536 then
        [char_of (224 + n div 4096), char_of (128 + n div 64 mod 64), char_of (128 + n mod 64)]
      else
        [char_of (240 + n div 262144), char_of (128 + n div 4096 mod 64), char_of (128 + n div 64 mod 64),
         char_of (128 + n mod 64)])"

definition replacementChar :: bytes where
  "replacementChar = [CHR 0xEF, CHR 0xBF, CHR 0xBD]"

text \<open>Four hexadecimal digits and what follows them.\<close>

fun getu4 :: "string \<Rightarrow> (nat \<times> string) option" where
  "getu4 (a # b # c # d # s) =
     (case (hexVal a, hexVal b, hexVal c, hexVal d) of
        (Some w, Some x, Some y, Some z) \<Rightarrow> Some (w * 4096 + x * 256 + y * 16 + z, s)
      | _ \<Rightarrow> None)"
| "getu4 _ = None"

text \<open>After an escaped code unit: a surrogate pair, if the next escape completes one, is one character.\<close>

definition escapedRune :: "nat \<Rightarrow> string \<Rightarrow> bytes \<times> string" where
  "escapedRune n s =
     (if n < 0xD800 \<or> 0xDFFF < n then (encodeRune n, s)
      else case s of
        b # u # s1 \<Rightarrow>
          if b = CHR 0x5C \<and> u = CHR ''u'' then
            (case getu4 s1 of
               Some (m, s2) \<Rightarrow>
                 if n < 0xDC00 \<and> 0xDC00 \<le> m \<and> m \<le> 0xDFFF
                 then (encodeRune (0x10000 + (n - 0xD800) * 1024 + (m - 0xDC00)), s2)
                 else (replacementChar, s)
             | None \<Rightarrow> (replacementChar, s))
          else (replacementChar, s)
      | _ \<Rightarrow> (replacementChar, s))"

definition unescape :: "char \<Rightarrow> char" where
  "unescape c =
     (if c = CHR ''b'' then CHR 0x08 else if c = CHR ''f'' then CHR 0x0C else if c = CHR ''n'' then CHR 0x0A
      else if c = CHR ''r'' then CHR 0x0D else if c = CHR ''t'' then CHR 0x09 else c)"

lemma getu4_shorter: "getu4 s = Some (n, t) \<Longrightarrow> length t < length s"
  by (cases s rule: getu4.cases) (auto split: option.splits)

lemma escapedRune_shorter: "escapedRune n s = (r, t) \<Longrightarrow> length t \<le> length s"
  by (auto simp: escapedRune_def split: if_splits list.splits option.splits dest!: getu4_shorter)

text \<open>\<^verbatim>\<open>unquote\<close> on what the scanner accepted.\<close>

function unquote :: "string \<Rightarrow> bytes" where
  "unquote [] = []"
| "unquote (c # s) =
     (if c = CHR 0x5C then
        (case s of
           [] \<Rightarrow> []
         | e # s1 \<Rightarrow>
             if e = CHR ''u'' then
               (case getu4 s1 of
                  None \<Rightarrow> []
                | Some (n, s2) \<Rightarrow> (case escapedRune n s2 of (r, s3) \<Rightarrow> r @ unquote s3))
             else unescape e # unquote s1)
      else if byteNat c < 128 then c # unquote s
      else if runeLength (c # s) = 0 then replacementChar @ unquote s
      else take (runeLength (c # s)) (c # s) @ unquote (drop (runeLength (c # s)) (c # s)))"
  by pat_completeness auto
termination by (relation "measure length") (auto dest!: getu4_shorter escapedRune_shorter [OF sym])

section \<open>Numbers\<close>

fun bitLength :: "nat \<Rightarrow> nat" where
  "bitLength n = (if n = 0 then 0 else Suc (bitLength (n div 2)))"

declare bitLength.simps [simp del]

text \<open>\<open>\<lfloor>log\<^sub>2 (p / q)\<rfloor>\<close> of a positive fraction.\<close>

definition log2Floor :: "nat \<Rightarrow> nat \<Rightarrow> int" where
  "log2Floor p q =
     (if q \<le> p then int (bitLength (p div q)) - 1 else - int (bitLength ((q - 1) div p)))"

definition roundHalfEven :: "nat \<Rightarrow> nat \<Rightarrow> nat" where
  "roundHalfEven p q =
     (let n = p div q; r = p mod q in
      if 2 * r < q \<or> 2 * r = q \<and> even n then n else n + 1)"

text \<open>The bits of the double nearest to a fraction, none when it is too large: 52 bits after the leading one, the
exponent at least -1074.\<close>

definition nearestDouble :: "nat \<Rightarrow> nat \<Rightarrow> nat option" where
  "nearestDouble p q =
     (if p = 0 then Some 0
      else
        let e = max (log2Floor p q - 52) (-1074);
            m = (if 0 \<le> e then roundHalfEven p (q * 2 ^ nat e) else roundHalfEven (p * 2 ^ nat (- e)) q);
            bits = (if m < 2 ^ 52 then m else nat (e + 1075) * 2 ^ 52 + (m - 2 ^ 52)) in
        if bits < 0x7FF0000000000000 then Some bits else None)"

definition digitsNat :: "string \<Rightarrow> nat" where
  "digitsNat ds = foldl (\<lambda>n d. n * 10 + (byteNat d - 48)) 0 ds"

text \<open>\<^verbatim>\<open>strconv.ParseFloat(literal, 64)\<close> on the literal of a JSON number.\<close>

definition parseFloat :: "string \<Rightarrow> float64 option" where
  "parseFloat literal =
     (let neg = hasPrefix literal ''-'';
          body = trimPrefix literal ''-'';
          whole = takeWhile isDigit body;
          s1 = dropWhile isDigit body;
          frac = (if hasPrefix s1 ''.'' then takeWhile isDigit (tl s1) else []);
          s2 = (if hasPrefix s1 ''.'' then dropWhile isDigit (tl s1) else s1);
          expo = (case s2 of
                    [] \<Rightarrow> 0
                  | _ # s3 \<Rightarrow> (if hasPrefix s3 ''-'' then - int (digitsNat (tl s3))
                              else int (digitsNat (trimPrefix s3 ''+''))));
          n = digitsNat (whole @ frac);
          k = expo - int (length frac) in
      map_option (\<lambda>bits. word_of_nat (if neg then bits + 2 ^ 63 else bits))
        (if 0 \<le> k then nearestDouble (n * 10 ^ nat k) 1 else nearestDouble n (10 ^ nat (- k))))"

section \<open>Decoders\<close>

type_synonym 'a decoder = "json \<Rightarrow> 'a \<Rightarrow> 'a res"

definition typeError :: goerr where
  "typeError = Errorf ''json: cannot unmarshal''"

definition decodeString :: "string decoder" where
  "decodeString v old =
     (case v of JNull \<Rightarrow> Inr old | JString s \<Rightarrow> Inr (unquote s) | _ \<Rightarrow> Inl typeError)"

definition decodeBool :: "bool decoder" where
  "decodeBool v old = (case v of JNull \<Rightarrow> Inr old | JBool b \<Rightarrow> Inr b | _ \<Rightarrow> Inl typeError)"

definition decodeInt :: "int decoder" where
  "decodeInt v old =
     (case v of JNull \<Rightarrow> Inr old | JNumber d \<Rightarrow> map_err (\<lambda>_. typeError) (atoi d) | _ \<Rightarrow> Inl typeError)"

definition decodeFloat :: "float64 decoder" where
  "decodeFloat v old =
     (case v of
        JNull \<Rightarrow> Inr old
      | JNumber d \<Rightarrow> (case parseFloat d of Some x \<Rightarrow> Inr x | None \<Rightarrow> Inl typeError)
      | _ \<Rightarrow> Inl typeError)"

text \<open>A pointer is set to a new zero value before something is decoded into it.\<close>

definition decodePtr :: "'a \<Rightarrow> 'a decoder \<Rightarrow> 'a option decoder" where
  "decodePtr zero d v old =
     (if v = JNull then Inr None
      else map_sum id Some (d v (case old of None \<Rightarrow> zero | Some x \<Rightarrow> x)))"

text \<open>The elements of a slice are decoded into the ones it has, then into new ones.\<close>

fun decodeElems :: "'a \<Rightarrow> 'a decoder \<Rightarrow> json list \<Rightarrow> 'a list \<Rightarrow> 'a list res" where
  "decodeElems zero d [] old = Inr []"
| "decodeElems zero d (v # vs) old =
     res_bind (d v (case old of [] \<Rightarrow> zero | x # _ \<Rightarrow> x)) (\<lambda>x.
     res_bind (decodeElems zero d vs (tl old)) (\<lambda>xs. Inr (x # xs)))"

definition decodeSlice :: "'a \<Rightarrow> 'a decoder \<Rightarrow> 'a list decoder" where
  "decodeSlice zero d v old =
     (case v of JNull \<Rightarrow> Inr [] | JArray vs \<Rightarrow> decodeElems zero d vs old | _ \<Rightarrow> Inl typeError)"

text \<open>An element of a map is decoded into a new zero value and put under its name.\<close>

fun decodeMembers :: "'a \<Rightarrow> 'a decoder \<Rightarrow> (string \<times> json) list \<Rightarrow> (string, 'a) gomap \<Rightarrow> (string, 'a) gomap res" where
  "decodeMembers zero d [] m = Inr m"
| "decodeMembers zero d ((k, v) # ms) m =
     res_bind (d v zero) (\<lambda>x. decodeMembers zero d ms (AList.update (unquote k) x m))"

definition decodeMap :: "'a \<Rightarrow> 'a decoder \<Rightarrow> (string, 'a) gomap option decoder" where
  "decodeMap zero d v old =
     (case v of
        JNull \<Rightarrow> Inr None
      | JObject ms \<Rightarrow> map_sum id Some (decodeMembers zero d ms (case old of None \<Rightarrow> [] | Some m \<Rightarrow> m))
      | _ \<Rightarrow> Inl typeError)"

text \<open>\<^verbatim>\<open>foldName\<close>: letters without their case; two characters outside ASCII fold to ASCII letters.\<close>

fun foldName :: "string \<Rightarrow> string" where
  "foldName s =
     (case s of
        [] \<Rightarrow> []
      | [a] \<Rightarrow> [lowerChar a]
      | [a, b] \<Rightarrow> if [a, b] = [CHR 0xC5, CHR 0xBF] then ''s'' else lowerChar a # foldName [b]
      | a # b # c # r \<Rightarrow>
          if [a, b] = [CHR 0xC5, CHR 0xBF] then CHR ''s'' # foldName (c # r)
          else if [a, b, c] = [CHR 0xE2, CHR 0x84, CHR 0xAA] then CHR ''k'' # foldName r
          else lowerChar a # foldName (b # c # r))"

declare foldName.simps [simp del]

type_synonym 'r fields = "(string \<times> 'r decoder) list"

definition fieldFor :: "'r fields \<Rightarrow> string \<Rightarrow> 'r decoder option" where
  "fieldFor fs key =
     (case map_of fs key of
        Some d \<Rightarrow> Some d
      | None \<Rightarrow> map_of (map (\<lambda>(name, d). (foldName name, d)) fs) (foldName key))"

text \<open>The decoder of the program is set to \<^verbatim>\<open>DisallowUnknownFields\<close>.\<close>

fun decodeFields :: "'r fields \<Rightarrow> (string \<times> json) list \<Rightarrow> 'r \<Rightarrow> 'r res" where
  "decodeFields fs [] r = Inr r"
| "decodeFields fs ((k, v) # ms) r =
     (case fieldFor fs (unquote k) of
        None \<Rightarrow> Inl (Errorf ''json: unknown field'')
      | Some d \<Rightarrow> res_bind (d v r) (decodeFields fs ms))"

definition decodeStruct :: "'r fields \<Rightarrow> 'r decoder" where
  "decodeStruct fs v old =
     (case v of JNull \<Rightarrow> Inr old | JObject ms \<Rightarrow> decodeFields fs ms old | _ \<Rightarrow> Inl typeError)"

text \<open>A field of a record, by its selector and its update.\<close>

definition field ::
    "string \<Rightarrow> ('r \<Rightarrow> 'a) \<Rightarrow> (('a \<Rightarrow> 'a) \<Rightarrow> 'r \<Rightarrow> 'r) \<Rightarrow> 'a decoder \<Rightarrow> string \<times> 'r decoder" where
  "field name get upd d = (name, \<lambda>v r. map_sum id (\<lambda>x. upd (\<lambda>_. x) r) (d v (get r)))"

section \<open>Documents\<close>

text \<open>\<^verbatim>\<open>checkValid\<close> and \<^verbatim>\<open>json.Unmarshal\<close>: the whole input is one value, with spaces around it.\<close>

definition parseDocument :: "bytes \<Rightarrow> json res" where
  "parseDocument s =
     (case scanValue s of
        Bad err \<Rightarrow> Inl err
      | Short \<Rightarrow> Inl (Errorf ''unexpected end of JSON input'')
      | Got v rest \<Rightarrow>
          (case dropWhile isSpaceJSON rest of
             [] \<Rightarrow> Inr v
           | c # _ \<Rightarrow> Inl (invalidCharacter c ''after top-level value'')))"

definition Unmarshal :: "'a decoder \<Rightarrow> 'a \<Rightarrow> bytes \<Rightarrow> 'a res" where
  "Unmarshal d zero s = res_bind (parseDocument s) (\<lambda>v. d v zero)"

text \<open>
  The first \<^verbatim>\<open>Decode\<close> of a reader that yields the bytes \<open>s\<close> and then \<^verbatim>\<open>io.EOF\<close> or, when \<open>limited\<close>, the error of a
  limit.  That an object or an array has ended is known with its last byte, that another value has ended only with
  the next byte or at the end of the input.
\<close>

datatype read_error = LimitReached | ReadErr goerr

fun openEnded :: "json \<Rightarrow> bool" where
  "openEnded (JArray _) = False"
| "openEnded (JObject _) = False"
| "openEnded _ = True"

definition afterScan :: "bool \<Rightarrow> bytes \<Rightarrow> json scan \<Rightarrow> read_error + json \<times> bytes" where
  "afterScan limited s r =
     (case r of
        Bad err \<Rightarrow> Inl (ReadErr err)
      | Short \<Rightarrow>
          if limited then Inl LimitReached
          else if list_all isSpaceJSON s then Inl (ReadErr EOF)
          else Inl (ReadErr (Errorf ''unexpected EOF''))
      | Got v rest \<Rightarrow> if limited \<and> rest = [] \<and> openEnded v then Inl LimitReached else Inr (v, rest))"

definition readValue :: "bool \<Rightarrow> bytes \<Rightarrow> read_error + json \<times> bytes" where
  "readValue limited s = afterScan limited s (scanValue s)"

section \<open>Lemmas\<close>

text \<open>The errors of scanning and decoding are texts: none is \<^verbatim>\<open>io.EOF\<close> and none has a status of its own.\<close>

definition textError :: "goerr \<Rightarrow> bool" where
  "textError err \<longleftrightarrow> (\<exists>t. err = Errorf t)"

definition textErrors :: "'a decoder \<Rightarrow> bool" where
  "textErrors d \<longleftrightarrow> (\<forall>v old err. d v old = Inl err \<longrightarrow> textError err)"

named_theorems text_errors

lemma textErrorsD: "textErrors d \<Longrightarrow> d v old = Inl err \<Longrightarrow> textError err"
  by (auto simp: textErrors_def)

lemma textError_simps [simp]: "textError (Errorf t)" "textError typeError" "textError (invalidCharacter c during)"
  by (simp_all add: textError_def typeError_def invalidCharacter_def)

lemma text_errors_basic [text_errors]:
  "textErrors decodeString" "textErrors decodeBool" "textErrors decodeInt" "textErrors decodeFloat"
  by (auto simp: textErrors_def decodeString_def decodeBool_def decodeInt_def decodeFloat_def map_err_def
      split: json.splits sum.splits option.splits)

lemma text_errors_ptr [text_errors]: "textErrors d \<Longrightarrow> textErrors (decodePtr zero d)"
  by (auto simp: textErrors_def decodePtr_def map_sum_def split: sum.splits if_splits)

lemma decodeElems_text: "textErrors d \<Longrightarrow> decodeElems zero d vs old = Inl err \<Longrightarrow> textError err"
  by (induction vs arbitrary: old) (auto simp: res_iff dest: textErrorsD)

lemma text_errors_slice [text_errors]: "textErrors d \<Longrightarrow> textErrors (decodeSlice zero d)"
  by (subst textErrors_def) (auto simp: decodeSlice_def decodeElems_text split: json.splits)

lemma decodeMembers_text: "textErrors d \<Longrightarrow> decodeMembers zero d ms m = Inl err \<Longrightarrow> textError err"
  by (induction ms arbitrary: m) (auto simp: res_iff dest: textErrorsD)

lemma text_errors_map [text_errors]: "textErrors d \<Longrightarrow> textErrors (decodeMap zero d)"
  by (subst textErrors_def)
    (auto simp: decodeMap_def map_sum_def dest: decodeMembers_text split: json.splits sum.splits)

lemma text_errors_field [text_errors]: "textErrors d \<Longrightarrow> textErrors (snd (field name get upd d))"
  by (auto simp: textErrors_def field_def map_sum_def split: sum.splits)

lemma fieldFor_mem: "fieldFor fs key = Some d \<Longrightarrow> d \<in> snd ` set fs"
  by (auto simp: fieldFor_def image_iff split: option.splits dest!: map_of_SomeD) (metis snd_conv)+

lemma decodeFields_text:
  "list_all (\<lambda>f. textErrors (snd f)) fs \<Longrightarrow> decodeFields fs ms r = Inl err \<Longrightarrow> textError err"
proof (induction fs ms r rule: decodeFields.induct)
  case (2 fs k v ms r)
  then show ?case
    by (fastforce simp: res_iff list_all_iff split: option.splits dest: fieldFor_mem textErrorsD)
qed simp

lemma text_errors_struct [text_errors]: "list_all (\<lambda>f. textErrors (snd f)) fs \<Longrightarrow> textErrors (decodeStruct fs)"
  by (subst textErrors_def) (auto simp: decodeStruct_def decodeFields_text split: json.splits)

lemma mapScan_Bad [simp]: "mapScan f r = Bad err \<longleftrightarrow> r = Bad err"
  by (auto simp: mapScan_def split: scan.splits)

lemma scanHex_text: "scanHex n s = Bad err \<Longrightarrow> textError err"
  by (induction n s rule: scanHex.induct) (auto split: if_splits)

lemma scanString_text: "scanString s = Bad err \<Longrightarrow> textError err"
proof (induction s rule: scanString.induct)
  case (2 c s)
  then show ?case by (fastforce split: if_splits list.splits scan.splits dest: scanHex_text)
qed simp

lemma scanUnsigned_text: "scanUnsigned s = Bad err \<Longrightarrow> textError err"
  by (auto simp: scanUnsigned_def scanFraction_def scanExponent_def scanDigits1_def digits_def
      split: list.splits if_splits scan.splits)

lemma scanName_text: "scanName name xs v s = Bad err \<Longrightarrow> textError err"
  by (induction name xs v s rule: scanName.induct) (auto simp: textError_def invalidCharacter_def split: if_splits)

lemma scalar_text: "scalar st r = Inl (Bad err) \<Longrightarrow> r = Bad err"
  by (auto simp: scalar_def split: scan.splits)

lemma consume_text:
  assumes "consume st m c s = Inl (Bad err)"
  shows "textError err"
proof -
  have begun: "textError err" if "beginValue st c s = Inl (Bad err)" for st
    using that
    by (auto simp: beginValue_def pushFrame_def split: if_splits
        dest!: scalar_text scanString_text scanUnsigned_text scanName_text)
  have named: "textError err" if "beginKey st c s = Inl (Bad err)" for st
    using that by (auto simp: beginKey_def split: if_splits scan.splits dest: scanString_text)
  have "textError err" if "endValue st v c s = Inl (Bad err)" for v
    using that by (cases "(st, v, c, s)" rule: endValue.cases) (auto split: if_splits)
  with assms begun named show ?thesis
    by (auto simp: consume_def split: if_splits awaiting.splits)
qed

lemma scanFrom_text: "scanFrom m = Bad err \<Longrightarrow> textError err"
proof (induction m rule: scanFrom.induct)
  case (1 m)
  show ?case
  proof (cases "scanStep m")
    case (Inl r)
    then have "scanStep m = Inl (Bad err)" using 1(2) by (simp add: scanFrom.simps [of m])
    then show ?thesis by (cases m) (auto split: option.splits list.splits dest: consume_text)
  next
    case (Inr m')
    with 1 show ?thesis by (simp add: scanFrom.simps [of m])
  qed
qed

lemma scalar_not_Got: "scalar st r \<noteq> Inl (Got v rest)"
  by (simp add: scalar_def split: scan.split)

lemma begin_not_Got: "beginValue st c s \<noteq> Inl (Got v rest)" "beginKey st c s \<noteq> Inl (Got v rest)"
  by (simp_all add: beginValue_def beginKey_def pushFrame_def scalar_not_Got split: scan.split)

lemma consume_Got: "consume st m c s = Inl (Got v rest) \<Longrightarrow> length rest \<le> Suc (length s)"
proof -
  have "length rest \<le> Suc (length s)" if "endValue st w c s = Inl (Got v rest)" for w
    using that by (cases "(st, w, c, s)" rule: endValue.cases) (auto split: if_splits)
  then show "consume st m c s = Inl (Got v rest) \<Longrightarrow> length rest \<le> Suc (length s)"
    by (auto simp: consume_def begin_not_Got split: if_splits awaiting.splits)
qed

end
