(* ===== verification/JsonText.thy ===== *)
theory JsonText
  imports JsonDecode
begin

text \<open>
  Round trips of \<^verbatim>\<open>encoding/json\<close>: what the encoder writes for a value, the scanner reads back as the value, and
  the escapes of a string in UTF-8 are undone.
\<close>

section \<open>Writing a value\<close>

fun render :: "json \<Rightarrow> string" where
  "render JNull = ''null''"
| "render (JBool b) = (if b then ''true'' else ''false'')"
| "render (JNumber d) = d"
| "render (JString s) = CHR 0x22 # s @ [CHR 0x22]"
| "render (JArray vs) = ''['' @ joinWith '','' (map render vs) @ '']''"
| "render (JObject ms) =
     ''{'' @ joinWith '','' (map (\<lambda>(k, v). CHR 0x22 # k @ CHR 0x22 # CHR '':'' # render v) ms) @ ''}''"

text \<open>The literals a value may have, and how deep it is.\<close>

definition stringLiteral :: "string \<Rightarrow> bool" where
  "stringLiteral s \<longleftrightarrow> (\<forall>rest. scanString (s @ CHR 0x22 # rest) = Got s rest)"

definition afterNumber :: "bytes \<Rightarrow> bool" where
  "afterNumber s \<longleftrightarrow> (case s of [] \<Rightarrow> True | c # _ \<Rightarrow> c \<in> {CHR '','', CHR '']'', CHR ''}''} \<or> isSpaceJSON c)"

text \<open>A decimal integer, the only form of number the program writes and reads.\<close>

definition integerLiteral :: "string \<Rightarrow> bool" where
  "integerLiteral d \<longleftrightarrow> (\<exists>i. d = itoa i)"

fun rendersAs :: "json \<Rightarrow> bool" where
  "rendersAs (JNumber d) = integerLiteral d"
| "rendersAs (JString s) = stringLiteral s"
| "rendersAs (JArray vs) = list_all rendersAs vs"
| "rendersAs (JObject ms) = list_all (\<lambda>(k, v). stringLiteral k \<and> rendersAs v) ms"
| "rendersAs _ = True"

fun nesting :: "json \<Rightarrow> nat" where
  "nesting (JArray vs) = Suc (fold max (map nesting vs) 0)"
| "nesting (JObject ms) = Suc (fold max (map (nesting \<circ> snd) ms) 0)"
| "nesting _ = 0"

section \<open>Reading it back\<close>

lemma scanFrom_consume:
  "finished st m = None \<Longrightarrow>
     scanFrom (Scanner st m (c # s)) = (case consume st m c s of Inl r \<Rightarrow> r | Inr m' \<Rightarrow> scanFrom m')"
  by (simp add: scanFrom.simps [of "Scanner st m (c # s)"])

lemma scanFrom_After: "scanFrom (Scanner [] (After v) s) = Got v s"
  by (simp add: scanFrom.simps)

lemma finished_simps [simp]:
  "finished (f # st) m = None" "finished st AwaitValue = None" "finished st AwaitValueOrEnd = None"
  "finished st AwaitKey = None" "finished st AwaitKeyOrEnd = None" "finished st AwaitColon = None"
  by (cases st; simp)+

text \<open>Numbers.\<close>

lemma isDigit_digitChar: "d < 10 \<Longrightarrow> isDigit (digitChar d)"
  by (simp add: isDigit_def)

lemma showNat_digits: "list_all isDigit (showNat n)"
  by (auto simp: list_all_iff isDigit_digitChar dest!: set_showNat)

lemma afterNumber_stops: "afterNumber s \<Longrightarrow> takeWhile isDigit s = [] \<and> dropWhile isDigit s = s"
  by (cases s) (auto simp: afterNumber_def isSpaceJSON_def isDigit_def digitVal_def)

lemma scanFraction_after: "afterNumber s \<Longrightarrow> scanFraction s = Got [] s"
  by (cases s) (auto simp: afterNumber_def isSpaceJSON_def scanFraction_def scanExponent_def)

lemma digits_append: "list_all isDigit ds \<Longrightarrow> afterNumber s \<Longrightarrow> digits (ds @ s) = (ds, s)"
  by (simp add: digits_def list_all_iff takeWhile_append2 dropWhile_append2 afterNumber_stops)

lemma showNat_leading_zero: "showNat n = CHR ''0'' # r \<Longrightarrow> n = 0"
proof (induction n arbitrary: r rule: showNat.induct)
  case (1 n)
  show ?case
  proof (cases "n < 10")
    case True
    then have "digitChar n = CHR ''0''" using "1.prems" by (simp add: showNat.simps)
    then have "digitVal (digitChar n) = digitVal (CHR ''0'')" by simp
    then show ?thesis using True by (simp add: digitVal_def [of "CHR ''0''"])
  next
    case False
    then have "showNat (n div 10) @ [digitChar (n mod 10)] = CHR ''0'' # r"
      using "1.prems" by (simp add: showNat.simps [of n])
    then obtain q where "showNat (n div 10) = CHR ''0'' # q" by (cases "showNat (n div 10)") auto
    then have "n div 10 = 0" by (rule "1.IH" [OF False])
    with False show ?thesis by simp
  qed
qed

lemma scanUnsigned_showNat:
  assumes "afterNumber s"
  shows "scanUnsigned (showNat n @ s) = Got (showNat n) s"
proof (cases "n = 0")
  case True
  have "showNat 0 = ''0''" by (simp add: showNat.simps)
  with True assms show ?thesis by (simp add: scanUnsigned_def scanFraction_after)
next
  case False
  obtain c r where c: "showNat n = c # r" using showNat_not_Nil by (cases "showNat n") blast+
  have "c \<noteq> CHR ''0''" using False showNat_leading_zero c by blast
  moreover have "isDigit c" using showNat_digits [of n] c by simp
  ultimately show ?thesis
    using digits_append [OF showNat_digits assms, of n] assms c
    by (simp add: scanUnsigned_def scanFraction_after)
qed

lemma beginValue_number:
  assumes "integerLiteral d" and "afterNumber s" and "d = c # r"
  shows "beginValue st c (r @ s) = Inr (Scanner st (After (JNumber d)) s)"
proof -
  obtain i where i: "d = itoa i" using assms(1) by (auto simp: integerLiteral_def)
  show ?thesis
  proof (cases "i < 0")
    case True
    then have "c = CHR ''-''" "r = showNat (nat (- i))" using i assms(3) by (simp_all add: itoa_def)
    then show ?thesis using assms(2,3)
      by (simp add: beginValue_def scanUnsigned_showNat scalar_def)
  next
    case False
    then have d: "d = showNat (nat i)" using i by (simp add: itoa_def)
    have "list_all isDigit (c # r)" unfolding assms(3) [symmetric] d by (rule showNat_digits)
    then have "isDigit c" by simp
    moreover from this have "c \<noteq> CHR ''{''" "c \<noteq> CHR ''[''" "c \<noteq> CHR 0x22" "c \<noteq> CHR ''-''"
      by (auto simp: isDigit_def digitVal_def)
    moreover have "scanUnsigned ((c # r) @ s) = Got d s"
      unfolding assms(3) [symmetric] d by (rule scanUnsigned_showNat [OF assms(2)])
    ultimately show ?thesis by (simp add: beginValue_def scalar_def)
  qed
qed

text \<open>The first byte of a value begins it, and is neither a space nor the end of an array.\<close>

lemma head_render:
  assumes "rendersAs v"
  obtains c r where "render v = c # r" and "\<not> isSpaceJSON c" and "c \<noteq> CHR '']''" and "c \<noteq> CHR ''}''"
proof -
  have "\<exists>c r. d = c # r \<and> \<not> isSpaceJSON c \<and> c \<noteq> CHR '']'' \<and> c \<noteq> CHR ''}''" if "integerLiteral d" for d
  proof -
    obtain i where i: "d = itoa i" using \<open>integerLiteral d\<close> by (auto simp: integerLiteral_def)
    obtain c r where c: "showNat (nat i) = c # r" using showNat_not_Nil by (cases "showNat (nat i)") blast+
    have "isDigit c" using showNat_digits [of "nat i"] c by simp
    then show ?thesis using i c by (auto simp: itoa_def isDigit_def digitVal_def isSpaceJSON_def)
  qed
  then have "\<exists>c r. render v = c # r \<and> \<not> isSpaceJSON c \<and> c \<noteq> CHR '']'' \<and> c \<noteq> CHR ''}''"
    using assms by (cases v) (simp_all add: isSpaceJSON_def)
  then show thesis using that by blast
qed

text \<open>Where a value is awaited, its text takes the machine to the value.\<close>

definition readsBack :: "json \<Rightarrow> bool" where
  "readsBack v \<longleftrightarrow> (\<forall>st s. length st + nesting v \<le> maxNestingDepth \<longrightarrow> afterNumber s \<longrightarrow>
     scanFrom (Scanner st AwaitValue (render v @ s)) = scanFrom (Scanner st (After v) s))"

lemma readsBackD:
  "readsBack v \<Longrightarrow> length st + nesting v \<le> maxNestingDepth \<Longrightarrow> afterNumber s \<Longrightarrow>
     scanFrom (Scanner st AwaitValue (render v @ s)) = scanFrom (Scanner st (After v) s)"
  by (simp add: readsBack_def)

lemma afterNumber_close [simp]:
  "afterNumber []" "afterNumber (CHR '','' # s)" "afterNumber (CHR '']'' # s)" "afterNumber (CHR ''}'' # s)"
  by (simp_all add: afterNumber_def)

lemma scanFrom_elements:
  assumes "list_all readsBack vs" and "vs \<noteq> []"
    and "list_all (\<lambda>v. Suc (length st) + nesting v \<le> maxNestingDepth) vs"
  shows "scanFrom (Scanner (InArray us # st) AwaitValue (joinWith '','' (map render vs) @ CHR '']'' # s))
    = scanFrom (Scanner st (After (JArray (us @ vs))) s)"
  using assms
proof (induction vs arbitrary: us rule: induct_list012)
  case (2 v)
  then show ?case
    by (simp add: readsBackD scanFrom_consume consume_def isSpaceJSON_def)
next
  case (3 v w vs)
  have "scanFrom (Scanner (InArray us # st) AwaitValue
          (render v @ CHR '','' # joinWith '','' (map render (w # vs)) @ CHR '']'' # s))
      = scanFrom (Scanner (InArray (us @ [v]) # st) AwaitValue (joinWith '','' (map render (w # vs)) @ CHR '']'' # s))"
    using 3(3,5) by (simp add: readsBackD scanFrom_consume consume_def isSpaceJSON_def)
  then show ?case using 3 by simp
qed simp

definition renderMember :: "string \<times> json \<Rightarrow> string" where
  "renderMember m = CHR 0x22 # fst m @ CHR 0x22 # CHR '':'' # render (snd m)"

lemma render_JObject: "render (JObject ms) = ''{'' @ joinWith '','' (map renderMember ms) @ ''}''"
  by (simp add: renderMember_def [abs_def] case_prod_unfold)

lemma scanFrom_key:
  assumes "stringLiteral k"
  shows "scanFrom (Scanner (InObject ms l # st) AwaitKey (CHR 0x22 # k @ CHR 0x22 # CHR '':'' # s))
    = scanFrom (Scanner (InObject ms k # st) AwaitValue s)"
  using assms
  by (simp add: scanFrom_consume consume_def beginKey_def stringLiteral_def isSpaceJSON_def)

lemma scanFrom_member:
  assumes "stringLiteral (fst m)" and "readsBack (snd m)" and "Suc (length st) + nesting (snd m) \<le> maxNestingDepth"
    and "afterNumber s"
  shows "scanFrom (Scanner (InObject ms l # st) AwaitKey (renderMember m @ s))
    = scanFrom (Scanner (InObject ms (fst m) # st) (After (snd m)) s)"
  using assms by (simp add: renderMember_def scanFrom_key readsBackD)

lemma scanFrom_members:
  assumes "list_all (\<lambda>m. stringLiteral (fst m) \<and> readsBack (snd m)
      \<and> Suc (length st) + nesting (snd m) \<le> maxNestingDepth) ms" and "ms \<noteq> []"
  shows "scanFrom (Scanner (InObject us l # st) AwaitKey (joinWith '','' (map renderMember ms) @ CHR ''}'' # s))
    = scanFrom (Scanner st (After (JObject (us @ ms))) s)"
  using assms
proof (induction ms arbitrary: us l rule: induct_list012)
  case (2 m)
  then show ?case
    by (simp add: scanFrom_member scanFrom_consume consume_def isSpaceJSON_def)
next
  case (3 m n ms)
  have "scanFrom (Scanner (InObject us l # st) AwaitKey
          (renderMember m @ CHR '','' # joinWith '','' (map renderMember (n # ms)) @ CHR ''}'' # s))
      = scanFrom (Scanner (InObject (us @ [m]) [] # st) AwaitKey
          (joinWith '','' (map renderMember (n # ms)) @ CHR ''}'' # s))"
    using 3(3) by (simp add: scanFrom_member scanFrom_consume consume_def isSpaceJSON_def)
  then show ?case using 3 by simp
qed simp

lemma fold_max_le: "(fold max ns (a :: nat) \<le> n) = (a \<le> n \<and> list_all (\<lambda>x. x \<le> n) ns)"
  by (induction ns arbitrary: a) auto

lemma scanFrom_open:
  assumes "c \<noteq> CHR '']''" and "c \<noteq> CHR ''}''" and "\<not> isSpaceJSON c"
  shows "scanFrom (Scanner (f # st) AwaitValueOrEnd (c # s)) = scanFrom (Scanner (f # st) AwaitValue (c # s))"
    and "scanFrom (Scanner (f # st) AwaitKeyOrEnd (c # s)) = scanFrom (Scanner (f # st) AwaitKey (c # s))"
  using assms by (simp_all add: scanFrom_consume consume_def)

lemma joinWith_Cons: "joinWith sep (x # xs) = x @ (if xs = [] then [] else sep @ joinWith sep xs)"
  by (cases xs) simp_all

lemma readsBack_array:
  assumes "list_all rendersAs vs" and "list_all readsBack vs"
  shows "readsBack (JArray vs)"
  unfolding readsBack_def
proof (intro allI impI)
  fix st :: "frame list" and s
  assume fits: "length st + nesting (JArray vs) \<le> maxNestingDepth"
  then have room: "Suc (length st) \<le> maxNestingDepth" by simp
  have deep: "list_all (\<lambda>v. Suc (length st) + nesting v \<le> maxNestingDepth) vs"
    using fits fold_max_le [of "map nesting vs" 0 "maxNestingDepth - Suc (length st)"] room
    by (auto simp: list_all_iff)
  let ?inner = "joinWith '','' (map render vs) @ CHR '']'' # s"
  have "scanFrom (Scanner st AwaitValue (render (JArray vs) @ s)) = scanFrom (Scanner (InArray [] # st) AwaitValueOrEnd ?inner)"
    using room by (simp add: scanFrom_consume consume_def isSpaceJSON_def beginValue_def pushFrame_def)
  also have "\<dots> = scanFrom (Scanner st (After (JArray vs)) s)"
  proof (cases vs)
    case Nil
    then show ?thesis by (simp add: scanFrom_consume consume_def isSpaceJSON_def)
  next
    case (Cons v ws)
    with assms(1) obtain c r where "render v = c # r" "\<not> isSpaceJSON c" "c \<noteq> CHR '']''" "c \<noteq> CHR ''}''"
      by (auto elim: head_render)
    with Cons have "scanFrom (Scanner (InArray [] # st) AwaitValueOrEnd ?inner)
        = scanFrom (Scanner (InArray [] # st) AwaitValue ?inner)"
      by (simp add: joinWith_Cons scanFrom_open)
    then show ?thesis using scanFrom_elements [OF assms(2) _ deep, of "[]" s] Cons by simp
  qed
  finally show "scanFrom (Scanner st AwaitValue (render (JArray vs) @ s)) = scanFrom (Scanner st (After (JArray vs)) s)" .
qed

lemma readsBack_object:
  assumes "list_all (\<lambda>m. stringLiteral (fst m) \<and> readsBack (snd m)) ms"
  shows "readsBack (JObject ms)"
  unfolding readsBack_def
proof (intro allI impI)
  fix st :: "frame list" and s
  assume fits: "length st + nesting (JObject ms) \<le> maxNestingDepth"
  then have room: "Suc (length st) \<le> maxNestingDepth" by simp
  have deep: "list_all (\<lambda>m. stringLiteral (fst m) \<and> readsBack (snd m)
      \<and> Suc (length st) + nesting (snd m) \<le> maxNestingDepth) ms"
    using fits fold_max_le [of "map (nesting \<circ> snd) ms" 0 "maxNestingDepth - Suc (length st)"] room assms
    by (auto simp: list_all_iff)
  let ?inner = "joinWith '','' (map renderMember ms) @ CHR ''}'' # s"
  have "scanFrom (Scanner st AwaitValue (render (JObject ms) @ s))
      = scanFrom (Scanner (InObject [] [] # st) AwaitKeyOrEnd ?inner)"
    using room
    by (simp add: render_JObject scanFrom_consume consume_def isSpaceJSON_def beginValue_def pushFrame_def del: render.simps)
  also have "\<dots> = scanFrom (Scanner st (After (JObject ms)) s)"
  proof (cases ms)
    case Nil
    then show ?thesis by (simp add: scanFrom_consume consume_def isSpaceJSON_def)
  next
    case (Cons m ns)
    then have "scanFrom (Scanner (InObject [] [] # st) AwaitKeyOrEnd ?inner)
        = scanFrom (Scanner (InObject [] [] # st) AwaitKey ?inner)"
      by (simp add: joinWith_Cons renderMember_def scanFrom_open isSpaceJSON_def)
    then show ?thesis using scanFrom_members [OF deep, of "[]" "[]" s] Cons by simp
  qed
  finally show "scanFrom (Scanner st AwaitValue (render (JObject ms) @ s)) = scanFrom (Scanner st (After (JObject ms)) s)" .
qed

lemma readsBack_all: "rendersAs v \<Longrightarrow> readsBack v"
proof (induction v)
  case (JNumber d)
  from head_render [OF JNumber] obtain c r where "render (JNumber d) = c # r" "\<not> isSpaceJSON c" .
  then show ?case using JNumber
    by (auto simp: readsBack_def scanFrom_consume consume_def beginValue_number)
next
  case (JArray vs)
  then show ?case by (intro readsBack_array) (auto simp: list_all_iff)
next
  case (JObject ms)
  have "\<And>k v. (k, v) \<in> set ms \<Longrightarrow> readsBack v"
    using JObject by (auto simp: list_all_iff)
  then show ?case using JObject.prems by (intro readsBack_object) (auto simp: list_all_iff)
qed (auto simp: readsBack_def scanFrom_consume consume_def isSpaceJSON_def beginValue_def isDigit_def digitVal_def
      scalar_def stringLiteral_def)

text \<open>The text of a value, alone in a document or in front of other bytes, is scanned to the value.\<close>

lemma scanValue_render:
  assumes "rendersAs v" and "nesting v \<le> maxNestingDepth" and "afterNumber rest"
  shows "scanValue (render v @ rest) = Got v rest"
  using readsBackD [OF readsBack_all [OF assms(1)], of "[]" rest] assms
  by (simp add: scanValue_def scanFrom_After)

lemma parseDocument_render:
  "rendersAs v \<Longrightarrow> nesting v \<le> maxNestingDepth \<Longrightarrow> parseDocument (render v) = Inr v"
  using scanValue_render [of v "[]"] by (simp add: parseDocument_def)

section \<open>Escapes\<close>

text \<open>Text in UTF-8.\<close>

function validUTF8 :: "string \<Rightarrow> bool" where
  "validUTF8 [] = True"
| "validUTF8 (c # s) =
     (if byteNat c < 128 then validUTF8 s
      else if runeLength (c # s) = 0 then False
      else validUTF8 (drop (runeLength (c # s)) (c # s)))"
  by pat_completeness auto
termination by (relation "measure length") auto

lemma hexVal_hexDigits:
  assumes "n < 16"
  shows "hexVal (hexDigits ! n) = Some n"
proof -
  have "list_all (\<lambda>n. hexVal (hexDigits ! n) = Some n) [0..<16]" by code_simp
  with assms show ?thesis by (simp add: list_all_iff)
qed

lemma byteNat_less: "byteNat c < 256"
  by (simp add: byteNat_def)

lemma hexVal_0 [simp]: "hexVal (CHR ''0'') = Some 0"
  by (simp add: hexVal_def byteNat_def)

lemma scanHex_append:
  "list_all (\<lambda>c. hexVal c \<noteq> None) h \<Longrightarrow> length h = n \<Longrightarrow> scanHex n (h @ s) = Got h s"
  by (induction h arbitrary: n) auto

lemma scanHex_hexByte: "n < 256 \<Longrightarrow> scanHex 4 (''00'' @ hexByte n @ s) = Got (''00'' @ hexByte n) s"
  using scanHex_append [of "''00'' @ hexByte n" 4 s] by (simp add: hexByte_def hexVal_hexDigits)

lemma getu4_hexByte: "n < 256 \<Longrightarrow> getu4 (''00'' @ hexByte n @ s) = Some (n, s)"
  by (simp add: hexByte_def hexVal_hexDigits)

lemma byteNat_control:
  "byteNat c = 8 \<longleftrightarrow> c = CHR 0x08" "byteNat c = 9 \<longleftrightarrow> c = CHR 0x09" "byteNat c = 10 \<longleftrightarrow> c = CHR 0x0A"
  "byteNat c = 12 \<longleftrightarrow> c = CHR 0x0C" "byteNat c = 13 \<longleftrightarrow> c = CHR 0x0D"
proof -
  have inj: "byteNat c = byteNat d \<longleftrightarrow> c = d" for d by (auto simp: byteNat_def)
  have code: "byteNat (CHR 0x08) = 8" "byteNat (CHR 0x09) = 9" "byteNat (CHR 0x0A) = 10"
    "byteNat (CHR 0x0C) = 12" "byteNat (CHR 0x0D) = 13" by (simp_all add: byteNat_def)
  show "byteNat c = 8 \<longleftrightarrow> c = CHR 0x08" "byteNat c = 9 \<longleftrightarrow> c = CHR 0x09" "byteNat c = 10 \<longleftrightarrow> c = CHR 0x0A"
    "byteNat c = 12 \<longleftrightarrow> c = CHR 0x0C" "byteNat c = 13 \<longleftrightarrow> c = CHR 0x0D"
    unfolding code [symmetric] by (rule inj)+
qed

lemma escapeASCII_cases:
  obtains (itself) "escapeASCII c = [c]" "c \<noteq> CHR 0x22" "c \<noteq> CHR 0x5C" "32 \<le> byteNat c"
    | (short) e where "escapeASCII c = [CHR 0x5C, e]" "unescape e = c"
        "e \<in> {CHR 0x22, CHR 0x5C, CHR ''/'', CHR ''b'', CHR ''f'', CHR ''n'', CHR ''r'', CHR ''t''}"
    | (hex) "escapeASCII c = CHR 0x5C # CHR ''u'' # ''00'' @ hexByte (byteNat c)"
proof (cases "c \<in> {CHR 0x22, CHR 0x5C, CHR 0x08, CHR 0x09, CHR 0x0A, CHR 0x0C, CHR 0x0D}")
  case True
  then have "\<exists>e. escapeASCII c = [CHR 0x5C, e] \<and> unescape e = c
      \<and> e \<in> {CHR 0x22, CHR 0x5C, CHR ''/'', CHR ''b'', CHR ''f'', CHR ''n'', CHR ''r'', CHR ''t''}"
    by (elim insertE emptyE) (simp_all add: escapeASCII_def unescape_def byteNat_control)
  then show thesis using short by blast
next
  case False
  then have plain: "c \<noteq> CHR 0x22" "c \<noteq> CHR 0x5C" "byteNat c \<noteq> 8" "byteNat c \<noteq> 9" "byteNat c \<noteq> 10"
      "byteNat c \<noteq> 12" "byteNat c \<noteq> 13"
    by (simp_all add: byteNat_control)
  show thesis
  proof (cases "byteNat c < 32 \<or> c = CHR ''<'' \<or> c = CHR ''>'' \<or> c = CHR ''&''")
    case True
    then show thesis using plain by (intro hex) (simp add: escapeASCII_def)
  next
    case False
    then show thesis using plain by (intro itself) (simp_all add: escapeASCII_def)
  qed
qed

lemma scanString_u:
  "scanHex 4 s = Got h t \<Longrightarrow>
     scanString (CHR 0x5C # CHR ''u'' # s) = mapScan ((@) (CHR 0x5C # CHR ''u'' # h)) (scanString t)"
  by (simp add: mapScan_def split: scan.split)

lemma scanString_ASCII: "scanString (escapeASCII c @ s) = mapScan ((@) (escapeASCII c)) (scanString s)"
proof (cases rule: escapeASCII_cases [of c])
  case itself
  then show ?thesis by (simp add: mapScan_def split: scan.split)
next
  case (short e)
  then have "e \<noteq> CHR ''u''" by auto
  with short show ?thesis by (simp add: mapScan_def split: scan.split)
next
  case hex
  then show ?thesis using scanString_u [OF scanHex_hexByte [OF byteNat_less], of c s] by simp
qed

lemma scanString_high: "list_all (\<lambda>c. 128 \<le> byteNat c) r \<Longrightarrow> scanString (r @ s) = mapScan ((@) r) (scanString s)"
proof (induction r)
  case Nil
  then show ?case by (simp add: mapScan_def split: scan.split)
next
  case (Cons c r)
  then have "128 \<le> byteNat c" by simp
  then have "c \<noteq> CHR 0x22" "c \<noteq> CHR 0x5C" by (auto simp: byteNat_def)
  with Cons show ?case by (simp add: mapScan_def split: scan.split)
qed

lemma runeLength_high: "list_all (\<lambda>c. 128 \<le> byteNat c) (take (runeLength s) s)"
  using runeLength_bytes [of _ s] by (auto simp: list_all_iff)

text \<open>What the encoder writes between the quotes is one string literal.\<close>

lemma scanString_escape: "scanString (escapeJSON s @ t) = mapScan ((@) (escapeJSON s)) (scanString t)"
proof (induction s rule: escapeJSON.induct)
  case 1
  then show ?case by (simp add: mapScan_def split: scan.split)
next
  case (2 c s)
  have hex: "list_all (\<lambda>c. hexVal c \<noteq> None) ''2028''" "list_all (\<lambda>c. hexVal c \<noteq> None) ''2029''"
    "list_all (\<lambda>c. hexVal c \<noteq> None) ''fffd''" by code_simp+
  have sep: "scanString (CHR 0x5C # ''u2028'' @ u) = mapScan ((@) (CHR 0x5C # ''u2028'')) (scanString u)"
    "scanString (CHR 0x5C # ''u2029'' @ u) = mapScan ((@) (CHR 0x5C # ''u2029'')) (scanString u)"
    "scanString (CHR 0x5C # ''ufffd'' @ u) = mapScan ((@) (CHR 0x5C # ''ufffd'')) (scanString u)" for u
    using scanString_u [OF scanHex_append [OF hex(1)], of u] scanString_u [OF scanHex_append [OF hex(2)], of u]
      scanString_u [OF scanHex_append [OF hex(3)], of u]
    by simp_all
  have comp: "mapScan ((@) a) (mapScan ((@) b) r) = mapScan (\<lambda>x. a @ b @ x) r"
    "mapScan ((@) (a @ b)) r = mapScan (\<lambda>x. a @ b @ x) r" for a b and r :: "string scan"
    by (simp_all add: mapScan_def split: scan.split)
  show ?case
  proof (cases "byteNat c < 128")
    case True
    then show ?thesis using 2(1) by (simp add: scanString_ASCII comp)
  next
    case False
    then show ?thesis
      using 2(2,3) sep scanString_high [OF runeLength_high, of "c # s"]
      by (simp add: Let_def comp del: scanString.simps)
  qed
qed

lemma stringLiteral_escape: "stringLiteral (escapeJSON s)"
  by (simp add: stringLiteral_def scanString_escape)

text \<open>And \<open>unquote\<close> yields the string it was written for.\<close>

lemma encodeRune_byte: "byteNat c < 128 \<Longrightarrow> encodeRune (byteNat c) = [c]"
  by (simp add: encodeRune_def byteNat_def)

lemma unquote_u:
  "getu4 s = Some (n, t) \<Longrightarrow> n < 0xD800 \<Longrightarrow> unquote (CHR 0x5C # CHR ''u'' # s) = encodeRune n @ unquote t"
  by (simp add: escapedRune_def)

lemma unquote_ASCII: "byteNat c < 128 \<Longrightarrow> unquote (escapeASCII c @ s) = c # unquote s"
proof (cases rule: escapeASCII_cases [of c])
  case (short e)
  then have "e \<noteq> CHR ''u''" by auto
  with short show ?thesis by simp
next
  case hex
  then show "byteNat c < 128 \<Longrightarrow> ?thesis"
    using unquote_u [OF getu4_hexByte [OF byteNat_less], of c s] by (simp add: encodeRune_byte)
qed simp

text \<open>The length of a sequence depends on its own bytes only.\<close>

lemma runeLength_0:
  "byteNat a < 194 \<or> 244 < byteNat a \<Longrightarrow> runeLength (a # s) = 0"
  by (cases "a # s" rule: runeLength.cases) (auto simp: Let_def)

lemma runeLength_2:
  "194 \<le> byteNat a \<Longrightarrow> byteNat a < 224 \<Longrightarrow>
     runeLength (a # s) = (case s of b # _ \<Rightarrow> if contByte b then 2 else 0 | [] \<Rightarrow> 0)"
  by (cases "a # s" rule: runeLength.cases) (auto simp: Let_def)

lemma runeLength_3:
  "224 \<le> byteNat a \<Longrightarrow> byteNat a < 240 \<Longrightarrow>
     runeLength (a # s) = (case s of
           b # c # _ \<Rightarrow>
             if (byteNat a = 224 \<longrightarrow> 160 \<le> byteNat b) \<and> (byteNat a = 237 \<longrightarrow> byteNat b < 160) \<and> contByte b \<and> contByte c then 3 else 0
         | _ \<Rightarrow> 0)"
  by (cases "byteNat a = 224"; cases "byteNat a = 237"; cases "a # s" rule: runeLength.cases; simp add: Let_def)

lemma runeLength_4:
  "240 \<le> byteNat a \<Longrightarrow> byteNat a \<le> 244 \<Longrightarrow>
     runeLength (a # s) = (case s of
           b # c # d # _ \<Rightarrow>
             if (byteNat a = 240 \<longrightarrow> 144 \<le> byteNat b) \<and> (byteNat a = 244 \<longrightarrow> byteNat b < 144)
               \<and> contByte b \<and> contByte c \<and> contByte d then 4 else 0
         | _ \<Rightarrow> 0)"
  by (cases "byteNat a = 240"; cases "byteNat a = 244"; cases "a # s" rule: runeLength.cases; simp add: Let_def)

lemma runeLength_take:
  assumes "runeLength s \<noteq> 0"
  shows "runeLength (take (runeLength s) s @ t) = runeLength s \<and> length (take (runeLength s) s) = runeLength s"
proof (cases s)
  case (Cons a r)
  consider "byteNat a < 194 \<or> 244 < byteNat a" | "194 \<le> byteNat a" "byteNat a < 224" | "224 \<le> byteNat a" "byteNat a < 240"
    | "240 \<le> byteNat a" "byteNat a \<le> 244" by linarith
  then show ?thesis
  proof cases
    case 1
    then show ?thesis using assms Cons runeLength_0 by simp
  next
    case 2
    then show ?thesis using assms unfolding Cons
      by (auto simp: runeLength_2 simp del: runeLength.simps split: list.splits if_splits)
  next
    case 3
    then show ?thesis using assms unfolding Cons
      by (auto simp: runeLength_3 eval_nat_numeral simp del: runeLength.simps split: list.splits if_splits)
  next
    case 4
    then show ?thesis using assms unfolding Cons
      by (auto simp: runeLength_4 simp del: runeLength.simps split: list.splits if_splits)
  qed
qed (use assms in simp)

lemma unquote_rune:
  assumes "runeLength (c # s) \<noteq> 0" and "\<not> byteNat c < 128"
  shows "unquote (take (runeLength (c # s)) (c # s) @ t) = take (runeLength (c # s)) (c # s) @ unquote t"
proof -
  let ?n = "runeLength (c # s)"
  obtain n where n: "?n = Suc n" using assms(1) not0_implies_Suc by blast
  have "c \<noteq> CHR 0x5C" using assms(2) by (auto simp: byteNat_def)
  moreover note runeLength_take [OF assms(1), of t]
  ultimately show ?thesis using assms(2) n by (simp del: runeLength.simps)
qed

lemma unquote_escape: "validUTF8 s \<Longrightarrow> unquote (escapeJSON s) = s"
proof (induction s rule: escapeJSON.induct)
  case (2 c s)
  show ?case
  proof (cases "byteNat c < 128")
    case True
    then show ?thesis using 2 by (simp add: unquote_ASCII del: unquote.simps)
  next
    case False
    let ?n = "runeLength (c # s)"
    let ?r = "take ?n (c # s)"
    have n: "?n \<noteq> 0" and rest: "unquote (escapeJSON (drop ?n (c # s))) = drop ?n (c # s)"
      using False 2 by (auto split: if_splits)
    have rune: "encodeRune 0x2028 = [CHR 0xE2, CHR 0x80, CHR 0xA8]" "encodeRune 0x2029 = [CHR 0xE2, CHR 0x80, CHR 0xA9]"
      by (simp_all add: encodeRune_def char_of_def bit_Suc_0_iff)
    have sep: "unquote (CHR 0x5C # CHR ''u'' # ''2028'' @ u) = [CHR 0xE2, CHR 0x80, CHR 0xA8] @ unquote u"
      "unquote (CHR 0x5C # CHR ''u'' # ''2029'' @ u) = [CHR 0xE2, CHR 0x80, CHR 0xA9] @ unquote u" for u
      unfolding rune [symmetric] by (rule unquote_u; simp add: hexVal_def byteNat_def)+
    have "unquote (escapeJSON (c # s)) = ?r @ unquote (escapeJSON (drop ?n (c # s)))"
      using False n sep unquote_rune [OF n False] by (simp add: Let_def del: unquote.simps runeLength.simps)
    then show ?thesis by (simp only: rest append_take_drop_id)
  qed
qed simp

lemma validUTF8_plain: "(\<And>c. c \<in> set s \<Longrightarrow> plainJSON c) \<Longrightarrow> validUTF8 s"
  by (induction s) (auto simp: plainJSON_def)

text \<open>Plain text is its own literal.\<close>

lemma plain_literal:
  assumes "list_all plainJSON s"
  shows "escapeJSON s = s" and "stringLiteral s" and "unquote s = s"
proof -
  show "escapeJSON s = s" using assms by (intro escapeJSON_plain) (simp add: list_all_iff)
  then show "stringLiteral s" and "unquote s = s"
    using stringLiteral_escape [of s] unquote_escape [of s] validUTF8_plain [of s] assms by (simp_all add: list_all_iff)
qed

end
