(* ===== verification/Macaroon.thy ===== *)
theory Macaroon
  imports Auth JsonText
begin

text \<open>
  \<^verbatim>\<open>internal/auth/macaroon.go\<close>: the JSON wrapping of a store token that the client's login expects, and
  the extraction of the token from the header the client sends back, with the HMAC of the signature, the two base64
  decoders of the header and the decoding of its JSON array.
\<close>

unbundle bit_operations_syntax

section \<open>HMAC\<close>

definition xorByte :: "nat \<Rightarrow> char \<Rightarrow> char" where
  "xorByte k c = char_of (byteVal c XOR k)"

text \<open>\<^verbatim>\<open>hmac.New(sha256.New, key)\<close>, one write and \<^verbatim>\<open>Sum\<close>; the block size is 64.\<close>

definition hmacSHA256 :: "bytes \<Rightarrow> bytes \<Rightarrow> bytes" where
  "hmacSHA256 key msg =
     (let k = (if length key > 64 then sha256 key else key);
          padded = k @ replicate (64 - length k) (CHR 0x00) in
      sha256 (map (xorByte 0x5C) padded @ sha256 (map (xorByte 0x36) padded @ msg)))"

section \<open>Base64\<close>

definition b64val :: "char \<Rightarrow> nat option" where
  "b64val c =
     (if c \<in> set base64Alphabet then Some (length (takeWhile (\<lambda>x. x \<noteq> c) base64Alphabet)) else None)"

definition quantum :: "nat \<Rightarrow> nat \<Rightarrow> nat \<Rightarrow> nat \<Rightarrow> bytes" where
  "quantum a b c d =
     (let n = a * 262144 + b * 4096 + c * 64 + d in
      [char_of (n div 65536), char_of (n div 256 mod 256), char_of (n mod 256)])"

text \<open>
  \<^verbatim>\<open>decodeQuantum\<close> of \<^verbatim>\<open>encoding/base64\<close> over the input without its line ends, which the decoder skips
  everywhere: four digits are three bytes, and the last group is padded with \<open>pad\<close> and may be short without.  The
  unused bits of a short group are not looked at.
\<close>

fun decodeQuanta :: "bool \<Rightarrow> string \<Rightarrow> bytes option" where
  "decodeQuanta pad [] = Some []"
| "decodeQuanta pad [a] = None"
| "decodeQuanta pad [a, b] =
     (case (b64val a, b64val b) of
        (Some x, Some y) \<Rightarrow> if pad then None else Some (take 1 (quantum x y 0 0))
      | _ \<Rightarrow> None)"
| "decodeQuanta pad [a, b, c] =
     (case (b64val a, b64val b, b64val c) of
        (Some x, Some y, Some z) \<Rightarrow> if pad then None else Some (take 2 (quantum x y z 0))
      | _ \<Rightarrow> None)"
| "decodeQuanta pad (a # b # c # d # r) =
     (case (b64val a, b64val b) of
        (Some x, Some y) \<Rightarrow>
          if pad \<and> c = CHR ''='' then (if d = CHR ''='' \<and> r = [] then Some (take 1 (quantum x y 0 0)) else None)
          else (case b64val c of
             None \<Rightarrow> None
           | Some z \<Rightarrow>
               if pad \<and> d = CHR ''='' then (if r = [] then Some (take 2 (quantum x y z 0)) else None)
               else (case b64val d of
                  None \<Rightarrow> None
                | Some w \<Rightarrow> map_option ((@) (quantum x y z w)) (decodeQuanta pad r)))
      | _ \<Rightarrow> None)"

definition decodeBase64URL :: "bool \<Rightarrow> string \<Rightarrow> bytes option" where
  "decodeBase64URL pad s = decodeQuanta pad (filter (\<lambda>c. c \<noteq> CHR 0x0A \<and> c \<noteq> CHR 0x0D) s)"

section \<open>Wrapping and extracting\<close>

definition WrapInMacaroon :: "string \<Rightarrow> string \<Rightarrow> string" where
  "WrapInMacaroon raw location =
     objectJSON
       [(''identifier'', quoteJSON raw),
        (''location'', quoteJSON location),
        (''signature'', quoteJSON (hexEncode (hmacSHA256 (sha256 raw) raw))),
        (''caveats'', ''[]'')]"

text \<open>A value of type \<^verbatim>\<open>any\<close>: a string, or something else; a number outside the range of \<^verbatim>\<open>float64\<close> is an
error wherever it stands.\<close>

fun floatsFit :: "json \<Rightarrow> bool" where
  "floatsFit (JNumber d) \<longleftrightarrow> parseFloat d \<noteq> None"
| "floatsFit (JArray vs) \<longleftrightarrow> list_all floatsFit vs"
| "floatsFit (JObject ms) \<longleftrightarrow> list_all (\<lambda>(_, v). floatsFit v) ms"
| "floatsFit _ \<longleftrightarrow> True"

definition decodeAny :: "claim_value decoder" where
  "decodeAny v old =
     (if floatsFit v then Inr (case v of JString s \<Rightarrow> ClaimStr (unquote s) | _ \<Rightarrow> ClaimOther) else Inl typeError)"

text \<open>\<^verbatim>\<open>[]map[string]any\<close>\<close>

definition decodeMacaroons :: "raw_claims option list decoder" where
  "decodeMacaroons = decodeSlice None (decodeMap ClaimOther decodeAny)"

text \<open>The text of a base64 error, whose offset no caller reads, is not spelled out.\<close>

definition ExtractTokenFromMacaroons :: "string \<Rightarrow> string res" where
  "ExtractTokenFromMacaroons header =
     (let decoded = (case decodeBase64URL True header of
                       Some bs \<Rightarrow> Some bs
                     | None \<Rightarrow> decodeBase64URL False header) in
      case decoded of
        None \<Rightarrow> Inl (Errorf ''cannot decode Macaroons header'')
      | Some bs \<Rightarrow>
          (case Unmarshal decodeMacaroons [] bs of
             Inl err \<Rightarrow> Inl (Errorf (''cannot parse macaroon JSON array: '' @ errText err))
           | Inr [] \<Rightarrow> Inl (Errorf ''empty macaroon array in Macaroons header'')
           | Inr (first # _) \<Rightarrow>
               (case first of
                  None \<Rightarrow> Inl (Errorf ''macaroon missing identifier field'')
                | Some m \<Rightarrow>
                    (case map_of m ''identifier'' of
                       Some (ClaimStr identifier) \<Rightarrow>
                         if identifier = [] then Inl (Errorf ''macaroon missing identifier field'')
                         else Inr identifier
                     | _ \<Rightarrow> Inl (Errorf ''macaroon missing identifier field'')))))"

section \<open>Base64 round trips\<close>

lemma length_base64Alphabet: "length base64Alphabet = 64" and distinct_base64Alphabet: "distinct base64Alphabet"
  by (simp_all add: base64Alphabet_def)

lemma takeWhile_neq_nth: "distinct xs \<Longrightarrow> i < length xs \<Longrightarrow> length (takeWhile (\<lambda>x. x \<noteq> xs ! i) xs) = i"
proof (induction xs arbitrary: i)
  case (Cons x xs)
  then show ?case by (cases i) (auto simp: nth_mem)
qed simp

lemma b64val_b64 [simp]: "b64val (b64 n) = Some (n mod 64)"
proof -
  have "n mod 64 < length base64Alphabet" by (simp add: length_base64Alphabet)
  then show ?thesis
    using takeWhile_neq_nth [OF distinct_base64Alphabet, of "n mod 64"] by (simp add: b64val_def b64_def)
qed

lemma b64_neq [simp]: "b64 n \<noteq> CHR ''=''" "b64 n \<noteq> CHR 0x0A" "b64 n \<noteq> CHR 0x0D"
  using b64_in_alphabet [of n] by (auto simp: base64Alphabet_def)

lemma digits_sum:
  fixes n :: nat
  assumes "n < 16777216"
  shows "n div 262144 mod 64 * 262144 + n div 4096 mod 64 * 4096 + n div 64 mod 64 * 64 + n mod 64 = n"
proof -
  have "n div 262144 mod 64 = n div 262144" using assms by simp
  moreover have "n div 4096 = n div 262144 * 64 + n div 4096 mod 64"
    using div_mult_mod_eq [of "n div 4096" 64] by (simp add: div_mult2_eq [symmetric])
  moreover have "n div 64 = n div 4096 * 64 + n div 64 mod 64"
    using div_mult_mod_eq [of "n div 64" 64] by (simp add: div_mult2_eq [symmetric])
  moreover have "n = n div 64 * 64 + n mod 64" by simp
  ultimately show ?thesis by linarith
qed

lemma byteVal_less: "byteVal c < 256"
  by (simp add: byteVal_def)

lemma char_of_byteVal [simp]: "char_of (byteVal c) = c"
  by (simp add: byteVal_def)

lemma three_bytes:
  fixes a b c n :: nat
  assumes "n = a * 65536 + b * 256 + c" and "a < 256" and "b < 256" and "c < 256"
  shows "n < 16777216" and "n div 65536 = a" and "n div 256 mod 256 = b" and "n mod 256 = c"
proof -
  have "n div 256 = a * 256 + b" by (rule div_nat_eqI) (use assms in auto)
  moreover have "n mod 256 = n - n div 256 * 256" by (simp add: minus_div_mult_eq_mod)
  ultimately show "n div 256 mod 256 = b" and "n mod 256 = c" using assms by auto
  show "n div 65536 = a" by (rule div_nat_eqI) (use assms in auto)
  show "n < 16777216" using assms by linarith
qed

lemma quantum_bytes:
  assumes "n = byteVal a * 65536 + byteVal b * 256 + byteVal c"
  shows "quantum (n div 262144 mod 64) (n div 4096 mod 64) (n div 64 mod 64) (n mod 64) = [a, b, c]"
proof -
  note bytes = three_bytes [OF assms byteVal_less byteVal_less byteVal_less]
  show ?thesis
    unfolding quantum_def Let_def digits_sum [OF bytes(1)] by (simp only: bytes char_of_byteVal)
qed

lemma byteVal_zero [simp]: "byteVal (CHR 0x00) = 0"
  by (simp add: byteVal_def)

text \<open>What the encoder writes, the decoder reads: without padding, and with the padding of the other encoder.\<close>

lemma decode_raw: "decodeQuanta False (base64RawURL bs) = Some bs"
proof (induction bs rule: base64RawURL.induct)
  case (1 a b c r)
  show ?case using 1 quantum_bytes [OF refl, of a b c] by (simp add: Let_def)
next
  case (2 a b)
  have "(byteVal a * 65536 + byteVal b * 256) mod 64 = 0" by (simp add: mod_add_eq [symmetric])
  then show ?case using quantum_bytes [of _ a b "CHR 0x00"] by (simp add: Let_def)
next
  case (3 a)
  have "(byteVal a * 65536) mod 64 = 0" "byteVal a * 65536 div 64 mod 64 = 0" by (simp_all add: mod_mult_left_eq)
  then show ?case using quantum_bytes [of _ a "CHR 0x00" "CHR 0x00"] by (simp add: Let_def)
qed simp

text \<open>The encoding with padding, as the client's \<^verbatim>\<open>urlsafe_b64encode\<close> writes it.\<close>

fun base64URL :: "bytes \<Rightarrow> string" where
  "base64URL (a # b # c # r) = base64RawURL [a, b, c] @ base64URL r"
| "base64URL [a, b] = base64RawURL [a, b] @ ''=''"
| "base64URL [a] = base64RawURL [a] @ ''==''"
| "base64URL [] = []"

lemma decode_padded: "decodeQuanta True (base64URL bs) = Some bs"
proof (induction bs rule: base64URL.induct)
  case (1 a b c r)
  show ?case using 1 quantum_bytes [OF refl, of a b c] by (simp add: Let_def)
next
  case (2 a b)
  have "(byteVal a * 65536 + byteVal b * 256) mod 64 = 0" by (simp add: mod_add_eq [symmetric])
  then show ?case using quantum_bytes [of _ a b "CHR 0x00"] by (simp add: Let_def)
next
  case (3 a)
  have "(byteVal a * 65536) mod 64 = 0" "byteVal a * 65536 div 64 mod 64 = 0" by (simp_all add: mod_mult_left_eq)
  then show ?case using quantum_bytes [of _ a "CHR 0x00" "CHR 0x00"] by (simp add: Let_def)
qed simp

lemma decode_raw_padded: "decodeQuanta True (base64RawURL bs) = (if length bs mod 3 = 0 then Some bs else None)"
proof (induction bs rule: base64RawURL.induct)
  case (1 a b c r)
  show ?case using 1 quantum_bytes [OF refl, of a b c] by (simp add: Let_def)
qed (simp_all add: Let_def)

lemma base64_no_line_ends:
  "filter (\<lambda>c. c \<noteq> CHR 0x0A \<and> c \<noteq> CHR 0x0D) (base64RawURL bs) = base64RawURL bs"
  "filter (\<lambda>c. c \<noteq> CHR 0x0A \<and> c \<noteq> CHR 0x0D) (base64URL bs) = base64URL bs"
proof -
  show "filter (\<lambda>c. c \<noteq> CHR 0x0A \<and> c \<noteq> CHR 0x0D) (base64RawURL bs) = base64RawURL bs" for bs
    by (induction bs rule: base64RawURL.induct) (simp_all add: Let_def)
  then show "filter (\<lambda>c. c \<noteq> CHR 0x0A \<and> c \<noteq> CHR 0x0D) (base64URL bs) = base64URL bs"
    by (induction bs rule: base64URL.induct) (simp_all del: base64RawURL.simps)
qed

lemma decode_header:
  assumes "header = base64URL bs \<or> header = base64RawURL bs"
  shows "(case decodeBase64URL True header of Some bs \<Rightarrow> Some bs | None \<Rightarrow> decodeBase64URL False header) = Some bs"
  using assms
  by (auto simp: decodeBase64URL_def base64_no_line_ends decode_raw decode_padded decode_raw_padded)

section \<open>The macaroon and back\<close>

text \<open>The macaroon as a JSON value.\<close>

definition wrapped :: "string \<Rightarrow> string \<Rightarrow> json" where
  "wrapped raw location =
     JObject
       [(''identifier'', JString (escapeJSON raw)),
        (''location'', JString (escapeJSON location)),
        (''signature'', JString (escapeJSON (hexEncode (hmacSHA256 (sha256 raw) raw)))),
        (''caveats'', JArray [])]"

lemma plain_names:
  "list_all plainJSON ''identifier''" "list_all plainJSON ''location''" "list_all plainJSON ''signature''"
  "list_all plainJSON ''caveats''"
  by code_simp+

lemmas member_names = plain_names [THEN plain_literal(1)] plain_names [THEN plain_literal(2)]
  plain_names [THEN plain_literal(3)]

lemma WrapInMacaroon_render: "WrapInMacaroon raw location = render (wrapped raw location)"
  by (simp add: WrapInMacaroon_def wrapped_def objectJSON_def member_def quoteJSON_def member_names del: escapeJSON.simps)

lemma rendersAs_wrapped: "rendersAs (wrapped raw location)" "nesting (wrapped raw location) = 2"
  by (simp_all add: wrapped_def stringLiteral_escape member_names)

lemma decode_wrapped:
  "\<exists>m. decodeMap ClaimOther decodeAny (wrapped raw location) None = Inr (Some m)
     \<and> map_of m ''identifier'' = Some (ClaimStr (unquote (escapeJSON raw)))"
  by (simp add: wrapped_def decodeMap_def decodeAny_def res_bind_def member_names del: unquote.simps escapeJSON.simps)

text \<open>What else the client puts into its array: objects, whose numbers are in range.\<close>

definition macaroonLike :: "json \<Rightarrow> bool" where
  "macaroonLike v \<longleftrightarrow> rendersAs v \<and> floatsFit v \<and> Suc (nesting v) \<le> maxNestingDepth \<and> (\<exists>ms. v = JObject ms)"

lemma decodeMembers_any:
  "list_all (\<lambda>(_, v). floatsFit v) ms \<Longrightarrow> \<exists>m'. decodeMembers ClaimOther decodeAny ms m = Inr m'"
  by (induction ClaimOther decodeAny ms m rule: decodeMembers.induct) (auto simp: decodeAny_def res_bind_def)

lemma decodeElems_macaroons:
  "list_all macaroonLike vs \<Longrightarrow> \<exists>ms. decodeElems None (decodeMap ClaimOther decodeAny) vs [] = Inr ms"
proof (induction vs)
  case (Cons v vs)
  then obtain ms where "v = JObject ms" "list_all (\<lambda>(_, v). floatsFit v) ms" by (auto simp: macaroonLike_def)
  with decodeMembers_any [of ms "[]"] Cons show ?case by (auto simp: decodeMap_def res_bind_def)
qed simp

text \<open>The login of \<^verbatim>\<open>charmcraft\<close>: it puts the macaroon it was issued, before any it discharged, into an array,
encodes the text in either base64 form, and the server finds the token in the header again.\<close>

lemma extract_wrapped:
  assumes header: "header = base64URL bs \<or> header = base64RawURL bs"
    and bs: "bs = ''['' @ joinWith '','' (WrapInMacaroon raw location # map render discharges) @ '']''"
    and "validUTF8 raw" and "raw \<noteq> []" and d: "list_all macaroonLike discharges"
  shows "ExtractTokenFromMacaroons header = Inr raw"
proof -
  let ?v = "JArray (wrapped raw location # discharges)"
  have written: "bs = render ?v" using bs by (simp add: WrapInMacaroon_render)
  have "rendersAs ?v" using d by (auto simp: rendersAs_wrapped macaroonLike_def list_all_iff)
  moreover have "fold max (map nesting discharges) 2 \<le> 9999"
    using d by (auto simp: fold_max_le macaroonLike_def list_all_iff maxNestingDepth_def)
  then have "nesting ?v \<le> maxNestingDepth" by (simp add: rendersAs_wrapped maxNestingDepth_def)
  ultimately have doc: "parseDocument bs = Inr ?v" using parseDocument_render written by metis
  obtain m where "decodeMap ClaimOther decodeAny (wrapped raw location) None = Inr (Some m)"
    and "map_of m ''identifier'' = Some (ClaimStr raw)"
    using decode_wrapped [of raw location] unquote_escape [OF assms(3)] by auto
  moreover obtain ms where "decodeElems None (decodeMap ClaimOther decodeAny) discharges [] = Inr ms"
    using decodeElems_macaroons [OF d] by blast
  ultimately show ?thesis
    using decode_header [OF header] doc assms(4)
    by (simp add: ExtractTokenFromMacaroons_def Unmarshal_def decodeMacaroons_def decodeSlice_def res_bind_def Let_def)
qed

end
