(* ===== verification/Http.thy ===== *)
theory Http
  imports Tokens Packages Revisions Resources Releases Macaroon "HOL-Library.List_Lexorder" "HOL-Library.Char_ord"
begin

text \<open>
  The common part of the HTTP layer, \<^verbatim>\<open>internal/api/http.go\<close>: the caller's identity, the decoding of a
  request body, the rendering of errors, the metadata document and the two file name parsers of the
  download routes.  A request is what the router and \<^verbatim>\<open>net/http\<close> hand to a handler: two headers, the
  query and path parameters, and what the JSON decoder makes of the body.  A response is the status, the
  headers the handler sets and a JSON document or raw bytes; rendering the document is left to
  \<^verbatim>\<open>encoding/json\<close>.
\<close>

section \<open>Requests and responses\<close>

text \<open>What the first \<^verbatim>\<open>Decode\<close> of a body yields; \<open>DecodeTooLarge\<close> is \<^verbatim>\<open>*http.MaxBytesError\<close>.\<close>

datatype 'a decoded = Decoded 'a | DecodeTooLarge | DecodeErr goerr

text \<open>\<open>body_ends\<close> tells whether a second \<^verbatim>\<open>Decode\<close> returns \<^verbatim>\<open>io.EOF\<close>.\<close>

record 'a body =
  body_first :: "'a decoded"
  body_ends :: bool

record 'a http_request =
  hr_Authorization :: string
  hr_Macaroons :: string
  hr_Query :: "string \<Rightarrow> string"
  hr_Param :: "string \<Rightarrow> string"
  hr_Body :: "'a body"

datatype http_body = JSON document | Raw bytes

record http_response =
  rs_Status :: nat
  rs_Headers :: "(string \<times> string) list"
  rs_Body :: http_body

text \<open>The API value.\<close>

record ('s, 'b) api =
  api_cfg :: config
  api_svc :: "('s, 'b) service"
  api_auth :: authenticator

section \<open>Responses\<close>

definition writeJSON :: "nat \<Rightarrow> document \<Rightarrow> http_response" where
  "writeJSON status payload =
     \<lparr>rs_Status = status, rs_Headers = [(''Content-Type'', ''application/json; charset=utf-8'')],
      rs_Body = JSON payload\<rparr>"

definition errorList :: "string \<Rightarrow> string \<Rightarrow> document" where
  "errorList code message =
     [(''error-list'', VList [VMap [(''code'', VStr code), (''message'', VStr message)]])]"

definition writeError :: "goerr \<Rightarrow> http_response" where
  "writeError err =
     (case err of
        ServiceError status code message \<Rightarrow> writeJSON status (errorList code message)
      | ErrNotFound \<Rightarrow> writeJSON 404 (errorList ''not-found'' ''resource not found'')
      | _ \<Rightarrow> writeJSON 500 (errorList ''internal-error'' ''internal server error''))"

definition serviceError :: "nat \<Rightarrow> string \<Rightarrow> string \<Rightarrow> goerr" where
  "serviceError status code message = ServiceError status code message"

definition invalidRequestError :: "goerr \<Rightarrow> goerr" where
  "invalidRequestError err =
     (if isServiceError err then err else serviceError 400 ''invalid-request'' (errText err))"

text \<open>The headers the middleware sets before the handler runs.\<close>

definition securityHeaders :: "http_response \<Rightarrow> http_response" where
  "securityHeaders r = r\<lparr>rs_Headers :=
     [(''Content-Security-Policy'',
       ''default-src '' @ [CHR 0x27] @ ''none'' @ [CHR 0x27] @ ''; frame-ancestors '' @ [CHR 0x27] @ ''none'' @ [CHR 0x27]
       @ ''; base-uri '' @ [CHR 0x27] @ ''none'' @ [CHR 0x27] @ ''; form-action '' @ [CHR 0x27] @ ''none'' @ [CHR 0x27]),
      (''Referrer-Policy'', ''no-referrer''),
      (''X-Content-Type-Options'', ''nosniff''),
      (''X-Frame-Options'', ''DENY'')] @ rs_Headers r\<rparr>"

text \<open>\<^verbatim>\<open>if err != nil { writeError(w, err); return }\<close> after a call without and with an effect.\<close>

definition orError :: "'a res \<Rightarrow> 's \<Rightarrow> ('a \<Rightarrow> http_response \<times> 's) \<Rightarrow> http_response \<times> 's" where
  "orError r s f = (case r of Inl err \<Rightarrow> (writeError err, s) | Inr x \<Rightarrow> f x)"

definition orErrorSt :: "'a res \<times> 's \<Rightarrow> ('a \<Rightarrow> 's \<Rightarrow> http_response \<times> 's) \<Rightarrow> http_response \<times> 's" where
  "orErrorSt rs f = (case fst rs of Inl err \<Rightarrow> (writeError err, snd rs) | Inr x \<Rightarrow> f x (snd rs))"

lemma orError_simps [simp]:
  "orError (Inl err) s f = (writeError err, s)"
  "orError (Inr x) s f = f x"
  "orErrorSt (Inl err, s) g = (writeError err, s)"
  "orErrorSt (Inr x, s) g = g x s"
  by (simp_all add: orError_def orErrorSt_def)

section \<open>Requests\<close>

text \<open>The part of the environment that is left after \<open>k\<close> readings of each kind.\<close>

definition skip :: "nat \<Rightarrow> ambient \<Rightarrow> ambient" where
  "skip k E = E\<lparr>now := (\<lambda>i. now E (i + k)), uuid := (\<lambda>i. uuid E (i + k)), order := (\<lambda>i. order E (i + k))\<rparr>"

definition identityOf :: "('s, 'b) api \<Rightarrow> ambient \<Rightarrow> 'a http_request \<Rightarrow> 's \<Rightarrow> identity res \<times> 's" where
  "identityOf A E r s =
     (case Authenticate (api_auth A) (svc_repo (api_svc A)) (now E 0) (hr_Authorization r) s of
        Inl _ \<Rightarrow> (Inl (serviceError 401 ''unauthorized'' ''authentication required''), s)
      | Inr (claims, token) \<Rightarrow> ResolveIdentity (api_svc A) (skip 1 E) claims token s)"

definition decodeJSON :: "config \<Rightarrow> 'a body \<Rightarrow> 'a res" where
  "decodeJSON cfg body =
     (case body_first body of
        DecodeTooLarge \<Rightarrow>
          Inl (serviceError 413 ''request-too-large''
            (''request body exceeds '' @ itoa (cfg_MaxJSONBodyBytes cfg) @ '' bytes''))
      | DecodeErr err \<Rightarrow> Inl err
      | Decoded x \<Rightarrow>
          if body_ends body then Inr x
          else Inl (Errorf ''cannot decode request: body must contain a single JSON document''))"

section \<open>Documents\<close>

text \<open>\<^verbatim>\<open>sort.Slice\<close> by name; the names of a package's tracks are distinct.\<close>

definition packageMetadata :: "package \<Rightarrow> document" where
  "packageMetadata pkg =
     [(''authority'', VStrPtr (pkg_Authority pkg)),
      (''contact'', VStrPtr (pkg_Contact pkg)),
      (''default-track'', VStrPtr (pkg_DefaultTrack pkg)),
      (''description'', VStrPtr (pkg_Description pkg)),
      (''id'', VStr (pkg_ID pkg)),
      (''links'', VLinks (pkg_Links pkg)),
      (''media'', VMedia (pkg_Media pkg)),
      (''name'', VStr (pkg_Name pkg)),
      (''private'', VBool (pkg_Private pkg)),
      (''publisher'', VPublisher (pkg_Publisher pkg)),
      (''status'', VStr (pkg_Status pkg)),
      (''store'', VStr (pkg_Store pkg)),
      (''summary'', VStrPtr (pkg_Summary pkg)),
      (''title'', VStrPtr (pkg_Title pkg)),
      (''track-guardrails'', VGuardrails (pkg_TrackGuardrails pkg)),
      (''tracks'', VTracks (sort_key trk_Name (pkg_Tracks pkg))),
      (''type'', VStr (pkg_Type pkg)),
      (''website'', VStrPtr (pkg_Website pkg))]"

section \<open>File names\<close>

definition parseCharmDownloadFilename :: "string \<Rightarrow> (string \<times> int) res" where
  "parseCharmDownloadFilename filename =
     (let trimmed = trimSuffix filename ''.charm'';
          parts = splitOn CHR ''_'' trimmed in
      if length parts \<noteq> 2 then Inl (Errorf ''cannot parse charm download path'')
      else res_bind (atoi (parts ! 1)) (\<lambda>revision. Inr (parts ! 0, revision)))"

definition parseResourceDownloadFilename :: "string \<Rightarrow> (string \<times> string \<times> int) res" where
  "parseResourceDownloadFilename filename =
     (let trimmed = trimPrefix filename ''charm_'' in
      case cutFirst CHR ''.'' trimmed of
        None \<Rightarrow> Inl (Errorf ''cannot parse resource download path'')
      | Some (packageID, resourcePart) \<Rightarrow>
          (case cutLast CHR ''_'' resourcePart of
             None \<Rightarrow> Inl (Errorf ''cannot parse resource download path'')
           | Some (name, number) \<Rightarrow>
               res_bind (atoi number) (\<lambda>revision. Inr (packageID, name, revision))))"

section \<open>Properties\<close>

text \<open>The file names in the download URLs of charms and resources are parsed back to exactly what they
were built from: the package identifier, the resource name (whatever dots and underscores it contains) and
the number.\<close>

lemma download_names_roundtrip:
  assumes n: "0 \<le> n" "n < 2 ^ 63"
    and charm: "CHR ''_'' \<notin> set packageID" and resource: "CHR ''.'' \<notin> set packageID"
  shows "(\<exists>name. charmDownloadURL cfg packageID n = cfg_PublicAPIURL cfg @ ''/api/v1/charms/download/'' @ name
       \<and> parseCharmDownloadFilename name = Inr (packageID, n))
     \<and> (\<exists>name. resourceDownloadURL cfg packageID resourceName n
           = cfg_PublicAPIURL cfg @ ''/api/v1/resources/download/'' @ name
       \<and> parseResourceDownloadFilename name = Inr (packageID, resourceName, n))"
proof
  have num: "CHR ''_'' \<notin> set (itoa n)" by (rule itoa_no_sep) (simp_all add: digitVal_def)
  have "trimSuffix ((packageID @ ''_'' @ itoa n) @ ''.charm'') ''.charm'' = packageID @ ''_'' @ itoa n"
    by (rule trimSuffix_append)
  then have "parseCharmDownloadFilename (packageID @ ''_'' @ itoa n @ ''.charm'') = Inr (packageID, n)"
    using charm num n by (simp add: parseCharmDownloadFilename_def splitOn_two atoi_itoa)
  then show "\<exists>name. charmDownloadURL cfg packageID n = cfg_PublicAPIURL cfg @ ''/api/v1/charms/download/'' @ name
       \<and> parseCharmDownloadFilename name = Inr (packageID, n)"
    by (auto simp: charmDownloadURL_def)
next
  have num: "CHR ''_'' \<notin> set (itoa n)" by (rule itoa_no_sep) (simp_all add: digitVal_def)
  have "trimPrefix (''charm_'' @ packageID @ ''.'' @ resourceName @ ''_'' @ itoa n) ''charm_''
      = packageID @ ''.'' @ resourceName @ ''_'' @ itoa n"
    by (rule trimPrefix_append)
  then have "parseResourceDownloadFilename (''charm_'' @ packageID @ ''.'' @ resourceName @ ''_'' @ itoa n)
      = Inr (packageID, resourceName, n)"
    using resource num n cutFirst_append [of "CHR ''.''" packageID] cutLast_append [of "CHR ''_''" "itoa n" resourceName]
    by (simp add: parseResourceDownloadFilename_def atoi_itoa)
  then show "\<exists>name. resourceDownloadURL cfg packageID resourceName n
           = cfg_PublicAPIURL cfg @ ''/api/v1/resources/download/'' @ name
       \<and> parseResourceDownloadFilename name = Inr (packageID, resourceName, n)"
    by (intro exI [of _ "''charm_'' @ packageID @ ''.'' @ resourceName @ ''_'' @ itoa n"])
      (simp add: resourceDownloadURL_def)
qed

lemma download_names_roundtrip_witness:
  "\<exists>name. resourceDownloadURL ex_cfg ''p1'' ''my.img_2'' 7 = cfg_PublicAPIURL ex_cfg @ ''/api/v1/resources/download/'' @ name
     \<and> parseResourceDownloadFilename name = Inr (''p1'', ''my.img_2'', 7)"
  using download_names_roundtrip [of 7 "''p1''" ex_cfg "''my.img_2''"] by simp

end
