(* ===== verification/Pages.thy ===== *)
theory Pages
  imports Http
begin

text \<open>
  The two pages of constant text: \<^verbatim>\<open>spec.go\<close> with the OpenAPI document and the page that points to it.  The
  document is kept line by line, so that the operations it describes can be read from it.
\<close>

definition newline :: char where
  "newline = CHR 0x0A"

definition openAPILines :: "string list" where
  "openAPILines =
     [''openapi: 3.1.0'',
      ''info:'',
      ''  title: Private Charm Registry MVP'',
      ''  version: 0.1.0'',
      ''paths:'',
      ''  /v1/charm:'',
      ''    get:'',
      ''      summary: List registered charm names for the authenticated account'',
      ''    post:'',
      ''      summary: Register a charm name'',
      ''  /v1/charm/{name}:'',
      ''    get:'',
      ''      summary: Get package metadata'',
      ''    patch:'',
      ''      summary: Update package metadata'',
      ''    delete:'',
      ''      summary: Unregister an unpublished package'',
      ''  /v1/charm/{name}/revisions:'',
      ''    get:'',
      ''      summary: List package revisions'',
      ''    post:'',
      ''      summary: Create a package revision from an upload'',
      ''  /v1/charm/{name}/resources/{resource}/revisions:'',
      ''    get:'',
      ''      summary: List resource revisions'',
      ''    post:'',
      ''      summary: Create a resource revision from an upload'',
      ''  /v1/charm/{name}/releases:'',
      ''    get:'',
      ''      summary: List releases for a package'',
      ''    post:'',
      ''      summary: Release one or more revisions to channels'',
      ''  /v1/charm/{name}/tracks:'',
      ''    post:'',
      ''      summary: Create tracks for a package'',
      ''  /v1/tokens:'',
      ''    get:'',
      ''      summary: List store tokens for the authenticated account'',
      ''    post:'',
      ''      summary: Issue a store token'',
      ''  /v1/tokens/whoami:'',
      ''    get:'',
      ''      summary: Describe the currently authenticated store token'',
      ''  /v1/tokens/dashboard/exchange:'',
      ''    post:'',
      ''      summary: Exchange an OIDC-authenticated session for a store token'',
      ''  /v2/charms/find:'',
      ''    get:'',
      ''      summary: Search charms'',
      ''  /v2/charms/info/{name}:'',
      ''    get:'',
      ''      summary: Get charm info'',
      ''  /v2/charms/refresh:'',
      ''    post:'',
      ''      summary: Resolve revisions and resources for Juju refresh/install flows'']"

definition openAPISpec :: string where
  "openAPISpec = concat (map (\<lambda>line. line @ [newline]) openAPILines)"

definition docsLines :: "string list" where
  "docsLines =
     [''<!doctype html>'',
      ''<html>'',
      ''  <head><meta charset='' @ [CHR 0x22] @ ''utf-8'' @ [CHR 0x22] @ ''><title>Charm Registry Docs</title></head>'',
      ''  <body>'',
      ''    <h1>Private Charm Registry</h1>'',
      ''    <p>OpenAPI document: <a href='' @ [CHR 0x22] @ ''/openapi.yaml'' @ [CHR 0x22] @ ''>/openapi.yaml</a></p>'',
      ''    <p>This MVP intentionally exposes the API first and keeps the browse UI out of scope.</p>'',
      ''  </body>'',
      ''</html>'']"

definition handleOpenAPI :: http_response where
  "handleOpenAPI =
     \<lparr>rs_Status = 200, rs_Headers = [(''Content-Type'', ''application/yaml'')], rs_Body = Raw openAPISpec\<rparr>"

definition handleDocs :: http_response where
  "handleDocs =
     \<lparr>rs_Status = 200, rs_Headers = [(''Content-Type'', ''text/html; charset=utf-8'')],
      rs_Body = Raw (joinWith [newline] docsLines)\<rparr>"

text \<open>The operations of the document: a path stands two columns in, its methods four.\<close>

fun specOperations :: "string \<Rightarrow> string list \<Rightarrow> (string \<times> string) list" where
  "specOperations path [] = []"
| "specOperations path (line # rest) =
     (if hasPrefix line ''  /'' then specOperations (trimSuffix (drop 2 line) '':'') rest
      else if hasPrefix line ''    '' \<and> \<not> hasPrefix line ''      '' \<and> path \<noteq> []
      then (trimSuffix (drop 4 line) '':'', path) # specOperations path rest
      else specOperations path rest)"

end
