(* ===== verification/Handlers.thy ===== *)
theory Handlers
  imports Pages
begin

text \<open>
  The HTTP handlers, \<^verbatim>\<open>internal/api/http_*.go\<close>: one definition per handler, from the request to the response
  and the state it leaves behind.  Every handler but three resolves the identity first, which may create
  the account of the caller; the rest of its environment is that of the service call.
\<close>

section \<open>Without a caller\<close>

definition handleRoot :: "('s, 'b) api \<Rightarrow> http_response" where
  "handleRoot A = writeJSON 200 (RootDocument (api_svc A))"

definition handleLibrariesBulk :: http_response where
  "handleLibrariesBulk = writeJSON 200 [(''libraries'', VList [])]"

definition withIdentity ::
    "('s, 'b) api \<Rightarrow> ambient \<Rightarrow> 'a http_request \<Rightarrow> 's \<Rightarrow> (identity \<Rightarrow> 's \<Rightarrow> http_response \<times> 's)
       \<Rightarrow> http_response \<times> 's" where
  "withIdentity A E r s f = orErrorSt (identityOf A E r s) f"

text \<open>The decoded body of a request, or the answer to one that cannot be decoded.\<close>

definition withBody ::
    "('s, 'b) api \<Rightarrow> 'a http_request \<Rightarrow> 's \<Rightarrow> ('a \<Rightarrow> http_response \<times> 's) \<Rightarrow> http_response \<times> 's" where
  "withBody A r s f = orError (map_err invalidRequestError (decodeJSON (api_cfg A) (hr_Body r))) s f"

text \<open>The environment after the identity was resolved.\<close>

abbreviation after_identity :: "ambient \<Rightarrow> ambient" where
  "after_identity E \<equiv> skip 3 E"

section \<open>Tokens\<close>

text \<open>Members with \<^verbatim>\<open>omitempty\<close> are left out when they are nil.\<close>

definition tokenView :: "store_token \<Rightarrow> document" where
  "tokenView token =
     (case tok_Description token of None \<Rightarrow> [] | Some d \<Rightarrow> [(''description'', VStr d)]) @
     (case tok_RevokedAt token of None \<Rightarrow> [] | Some t \<Rightarrow> [(''revoked-at'', VTime t)]) @
     (case tok_RevokedBy token of None \<Rightarrow> [] | Some b \<Rightarrow> [(''revoked-by'', VStr b)]) @
     [(''session-id'', VStr (tok_SessionID token)),
      (''valid-since'', VTime (tok_ValidSince token)),
      (''valid-until'', VTime (tok_ValidUntil token))]"

definition handleGetTokens ::
    "('s, 'b) api \<Rightarrow> ambient \<Rightarrow> 'a http_request \<Rightarrow> 's \<Rightarrow> http_response \<times> 's" where
  "handleGetTokens A E r s =
     withIdentity A E r s (\<lambda>identity s1.
     if \<not> idn_Authenticated identity
     then (writeJSON 200 [(''macaroon'', VStr ''oidc-login-required'')], s1)
     else
       orError (Service_ListStoreTokens (api_svc A) (after_identity E) identity
                  (hr_Query r ''include-inactive'' = ''true'') s1) s1 (\<lambda>toks.
       (writeJSON 200 [(''macaroons'', VList (map (VMap \<circ> tokenView) toks))], s1)))"

text \<open>The claims of the automatic development login.\<close>

definition devClaims :: claims where
  "devClaims =
     \<lparr>cl_Subject = ''dev-auto'', cl_Username = ''developer'', cl_DisplayName = ''Developer'',
      cl_Email = ''developer@example.invalid''\<rparr>"

definition handleIssueToken ::
    "('s, 'b) api \<Rightarrow> ambient \<Rightarrow> issue_token_request http_request \<Rightarrow> 's \<Rightarrow> http_response \<times> 's" where
  "handleIssueToken A E r s =
     withIdentity A E r s (\<lambda>identity0 s1.
     orErrorSt
       (if \<not> idn_Authenticated identity0 \<and> cfg_EnableInsecureDevAuth (api_cfg A)
        then ResolveIdentity (api_svc A) (after_identity E) devClaims None s1
        else (Inr identity0, s1)) (\<lambda>identity s2.
     withBody A r s2 (\<lambda>req.
     orErrorSt (IssueStoreToken (api_svc A) (skip 2 (after_identity E)) identity req s2) (\<lambda>(raw, _) s3.
     (writeJSON 200 [(''macaroon'', VStr (WrapInMacaroon raw (cfg_PublicAPIURL (api_cfg A))))], s3)))))"

text \<open>The caller of the exchange route: the macaroons header counts when the request is not authenticated, and a
header that cannot be read, or whose token is not valid, leaves the caller anonymous.\<close>

definition exchangeIdentity ::
    "('s, 'b) api \<Rightarrow> ambient \<Rightarrow> 'a http_request \<Rightarrow> identity \<Rightarrow> 's \<Rightarrow> identity res \<times> 's" where
  "exchangeIdentity A E r identity s =
     (if idn_Authenticated identity \<or> hr_Macaroons r = [] then (Inr identity, s)
      else case ExtractTokenFromMacaroons (hr_Macaroons r) of
        Inl _ \<Rightarrow> (Inr identity, s)
      | Inr rawToken \<Rightarrow>
          (case AuthenticateToken (svc_repo (api_svc A)) (now E 0) rawToken s of
             Inl _ \<Rightarrow> (Inr identity, s)
           | Inr (claims, storeToken) \<Rightarrow> ResolveIdentity (api_svc A) (skip 1 E) claims storeToken s))"

definition handleExchangeToken ::
    "('s, 'b) api \<Rightarrow> ambient \<Rightarrow> 'a http_request \<Rightarrow> 's \<Rightarrow> http_response \<times> 's" where
  "handleExchangeToken A E r s =
     withIdentity A E r s (\<lambda>identity0 s1.
     orErrorSt (exchangeIdentity A (after_identity E) r identity0 s1) (\<lambda>identity s2.
     orErrorSt (ExchangeStoreToken (api_svc A) (skip 3 (after_identity E)) identity None s2) (\<lambda>raw s3.
     (writeJSON 200 [(''macaroon'', VStr raw)], s3))))"

text \<open>An empty body is accepted: it leaves the request at its zero value.\<close>

definition handleDashboardExchange ::
    "('s, 'b) api \<Rightarrow> ambient \<Rightarrow> string option http_request \<Rightarrow> 's \<Rightarrow> http_response \<times> 's" where
  "handleDashboardExchange A E r s =
     withIdentity A E r s (\<lambda>identity s1.
     orError (case decodeJSON (api_cfg A) (hr_Body r) of
                Inl EOF \<Rightarrow> Inr None
              | Inl err \<Rightarrow> Inl (invalidRequestError err)
              | Inr description \<Rightarrow> Inr description) s1 (\<lambda>description.
     orErrorSt (ExchangeStoreToken (api_svc A) (after_identity E) identity description s1) (\<lambda>raw s2.
     (writeJSON 200 [(''macaroon'', VStr raw)], s2))))"

definition handleRevokeToken ::
    "('s, 'b) api \<Rightarrow> ambient \<Rightarrow> string http_request \<Rightarrow> 's \<Rightarrow> http_response \<times> 's" where
  "handleRevokeToken A E r s =
     withIdentity A E r s (\<lambda>identity s1.
     withBody A r s1 (\<lambda>sessionID.
     orErrorSt (Service_RevokeStoreToken (api_svc A) (after_identity E) identity sessionID s1) (\<lambda>_ s2.
     orError (Service_ListStoreTokens (api_svc A) (skip 1 (after_identity E)) identity True s2) s2 (\<lambda>toks.
     (writeJSON 200 [(''macaroons'', VTokens toks)], s2)))))"

definition handleTokenWhoAmI ::
    "('s, 'b) api \<Rightarrow> ambient \<Rightarrow> 'a http_request \<Rightarrow> 's \<Rightarrow> http_response \<times> 's" where
  "handleTokenWhoAmI A E r s =
     withIdentity A E r s (\<lambda>identity s1.
     orError (MacaroonInfo identity) s1 (\<lambda>payload. (writeJSON 200 payload, s1)))"

definition handleWhoAmI ::
    "('s, 'b) api \<Rightarrow> ambient \<Rightarrow> 'a http_request \<Rightarrow> 's \<Rightarrow> http_response \<times> 's" where
  "handleWhoAmI A E r s =
     withIdentity A E r s (\<lambda>identity s1.
     orError (DeprecatedWhoAmI identity) s1 (\<lambda>payload. (writeJSON 200 payload, s1)))"

section \<open>Packages\<close>

record register_body =
  rgb_Name :: string
  rgb_Private :: "bool option"
  rgb_Type :: string

definition handleRegisterPackage ::
    "('s, 'b) api \<Rightarrow> ambient \<Rightarrow> register_body http_request \<Rightarrow> 's \<Rightarrow> http_response \<times> 's" where
  "handleRegisterPackage A E r s =
     withIdentity A E r s (\<lambda>identity s1.
     withBody A r s1 (\<lambda>req.
     let private = (case rgb_Private req of None \<Rightarrow> False | Some p \<Rightarrow> p) in
     orErrorSt (RegisterPackage (api_svc A) (after_identity E) identity (rgb_Name req) (rgb_Type req) private s1)
       (\<lambda>pkg s2. (writeJSON 200 [(''id'', VStr (pkg_ID pkg))], s2))))"

definition handleListPackages ::
    "('s, 'b) api \<Rightarrow> ambient \<Rightarrow> 'a http_request \<Rightarrow> 's \<Rightarrow> http_response \<times> 's" where
  "handleListPackages A E r s =
     withIdentity A E r s (\<lambda>identity s1.
     orError (ListRegisteredPackages (api_svc A) (after_identity E) identity
                (hr_Query r ''include-collaborations'' = ''true'') s1) s1 (\<lambda>pkgs.
     (writeJSON 200 [(''results'', VList (map (VMap \<circ> packageMetadata) pkgs))], s1)))"

definition handleGetPackage ::
    "('s, 'b) api \<Rightarrow> ambient \<Rightarrow> 'a http_request \<Rightarrow> 's \<Rightarrow> http_response \<times> 's" where
  "handleGetPackage A E r s =
     withIdentity A E r s (\<lambda>identity s1.
     orError (GetPackage (api_svc A) (after_identity E) identity (hr_Param r ''name'') True s1) s1 (\<lambda>pkg.
     (writeJSON 200 [(''metadata'', VMap (packageMetadata pkg))], s1)))"

definition handlePatchPackage ::
    "('s, 'b) api \<Rightarrow> ambient \<Rightarrow> metadata_patch http_request \<Rightarrow> 's \<Rightarrow> http_response \<times> 's" where
  "handlePatchPackage A E r s =
     withIdentity A E r s (\<lambda>identity s1.
     withBody A r s1 (\<lambda>patch.
     orErrorSt (Service_UpdatePackage (api_svc A) (after_identity E) identity (hr_Param r ''name'') patch s1) (\<lambda>pkg s2.
     (writeJSON 200 [(''metadata'', VMap (packageMetadata pkg))], s2))))"

definition handleDeletePackage ::
    "('s, 'b) api \<Rightarrow> ambient \<Rightarrow> 'a http_request \<Rightarrow> 's \<Rightarrow> http_response \<times> 's" where
  "handleDeletePackage A E r s =
     withIdentity A E r s (\<lambda>identity s1.
     orErrorSt (UnregisterPackage (api_svc A) identity (hr_Param r ''name'') s1) (\<lambda>packageID s2.
     (writeJSON 200 [(''package-id'', VStr packageID)], s2)))"

section \<open>Uploads and revisions\<close>

definition revisionListRow :: "revision \<Rightarrow> document" where
  "revisionListRow revision =
     [(''bases'', VBases (rev_Bases revision)),
      (''created-at'', VTime (rev_CreatedAt revision)),
      (''created-by'', VStr (rev_CreatedBy revision)),
      (''errors'', VList []),
      (''revision'', VInt (rev_Revision revision)),
      (''sha3-384'', VStr (rev_SHA384 revision)),
      (''size'', VInt (rev_Size revision)),
      (''status'', VStr (rev_Status revision)),
      (''version'', VStr (rev_Version revision))]"

definition handleListRevisions ::
    "('s, 'b) api \<Rightarrow> ambient \<Rightarrow> 'a http_request \<Rightarrow> 's \<Rightarrow> http_response \<times> 's" where
  "handleListRevisions A E r s =
     withIdentity A E r s (\<lambda>identity s1.
     let raw = hr_Query r ''revision'' in
     orError (if raw = [] then Inr None
              else map_err (\<lambda>err. serviceError 400 ''invalid-request'' (errText err)) (map_sum id Some (atoi raw))) s1
       (\<lambda>revision.
     orError (Service_ListRevisions (api_svc A) identity (hr_Param r ''name'') revision s1) s1 (\<lambda>revs.
     (writeJSON 200 [(''revisions'', VList (map (VMap \<circ> revisionListRow) revs))], s1))))"

definition handlePushRevision ::
    "('s, 'b) api \<Rightarrow> archive_lib \<Rightarrow> ambient \<Rightarrow> string http_request \<Rightarrow> 's \<Rightarrow> 'b \<Rightarrow> http_response \<times> 's" where
  "handlePushRevision A lib E r s b =
     withIdentity A E r s (\<lambda>identity s1.
     withBody A r s1 (\<lambda>uploadID.
     orErrorSt (PushRevision (api_svc A) lib (after_identity E) identity (hr_Param r ''name'') uploadID s1 b)
       (\<lambda>statusURL s2. (writeJSON 200 [(''status-url'', VStr statusURL)], s2))))"

definition handleReviewUpload ::
    "('s, 'b) api \<Rightarrow> ambient \<Rightarrow> 'a http_request \<Rightarrow> 's \<Rightarrow> http_response \<times> 's" where
  "handleReviewUpload A E r s =
     withIdentity A E r s (\<lambda>identity s1.
     orError (ReviewUpload (api_svc A) identity (hr_Param r ''name'') (hr_Query r ''upload-id'') s1) s1 (\<lambda>payload.
     (writeJSON 200 payload, s1)))"

text \<open>The multipart form, read under the size limit, is an error or the name and the content of the file
\<^verbatim>\<open>binary\<close>; no caller is asked for.\<close>

definition uploadAnswer :: "nat \<Rightarrow> string option \<Rightarrow> http_response" where
  "uploadAnswer status uploadID =
     writeJSON status
       [(''successful'', VBool (uploadID \<noteq> None)),
        (''upload_id'', case uploadID of None \<Rightarrow> VNil | Some u \<Rightarrow> VStr u)]"

definition handleUnscannedUpload ::
    "('s, 'b) api \<Rightarrow> ambient \<Rightarrow> (string \<times> bytes) res \<Rightarrow> 's \<Rightarrow> 'b \<Rightarrow> http_response \<times> 's \<times> 'b" where
  "handleUnscannedUpload A E form s b =
     (case form of
        Inl _ \<Rightarrow> (uploadAnswer 400 None, s, b)
      | Inr (filename, payload) \<Rightarrow>
          (case Service_CreateUpload (api_svc A) E filename payload s b of
             (Inl _, s1, b1) \<Rightarrow> (uploadAnswer 500 None, s1, b1)
           | (Inr upload, s1, b1) \<Rightarrow> (uploadAnswer 200 (Some (upl_ID upload)), s1, b1)))"

definition attachment :: "string \<Rightarrow> string \<Rightarrow> bytes \<Rightarrow> http_response" where
  "attachment name contentType payload =
     \<lparr>rs_Status = 200,
      rs_Headers = [(''Content-Disposition'', ''attachment; filename='' @ [CHR 0x22] @ name @ [CHR 0x22]),
                    (''Content-Type'', contentType)],
      rs_Body = Raw payload\<rparr>"

definition handleCharmDownload ::
    "('s, 'b) api \<Rightarrow> ambient \<Rightarrow> 'a http_request \<Rightarrow> 's \<Rightarrow> 'b \<Rightarrow> http_response \<times> 's" where
  "handleCharmDownload A E r s b =
     withIdentity A E r s (\<lambda>identity s1.
     orError (map_err (\<lambda>err. serviceError 400 ''invalid-request'' (errText err))
                (parseCharmDownloadFilename (hr_Param r ''filename''))) s1 (\<lambda>(packageID, revision).
     orError (DownloadCharm (api_svc A) identity packageID revision s1 b) s1 (\<lambda>payload.
     (attachment ''artifact.charm'' ''application/octet-stream'' payload, s1))))"

section \<open>Resources\<close>

definition handleListResources ::
    "('s, 'b) api \<Rightarrow> ambient \<Rightarrow> 'a http_request \<Rightarrow> 's \<Rightarrow> http_response \<times> 's" where
  "handleListResources A E r s =
     withIdentity A E r s (\<lambda>identity s1.
     orError (ListResources (api_svc A) (after_identity E) identity (hr_Param r ''name'') s1) s1 (\<lambda>items.
     (writeJSON 200 [(''resources'', VList (map VMap items))], s1)))"

definition resourceRevisionRow :: "resource_revision \<Rightarrow> document" where
  "resourceRevisionRow revision =
     [(''architectures'', VStrings (rr_Architectures revision)),
      (''bases'', VBases (rr_Bases revision)),
      (''created-at'', VTime (rr_CreatedAt revision)),
      (''download'', VDownload (rr_Download revision)),
      (''filename'', VStr (rr_Filename revision)),
      (''revision'', VInt (rr_Revision revision))]"

definition handleListResourceRevisions ::
    "('s, 'b) api \<Rightarrow> ambient \<Rightarrow> 'a http_request \<Rightarrow> 's \<Rightarrow> http_response \<times> 's" where
  "handleListResourceRevisions A E r s =
     withIdentity A E r s (\<lambda>identity s1.
     orError (Service_ListResourceRevisions (api_svc A) identity (hr_Param r ''name'') (hr_Param r ''resource'') s1) s1
       (\<lambda>revs. (writeJSON 200 [(''revisions'', VList (map (VMap \<circ> resourceRevisionRow) revs))], s1)))"

definition handlePushResource ::
    "('s, 'b) api \<Rightarrow> ambient \<Rightarrow> push_resource_request http_request \<Rightarrow> 's \<Rightarrow> 'b \<Rightarrow> http_response \<times> 's" where
  "handlePushResource A E r s b =
     withIdentity A E r s (\<lambda>identity s1.
     withBody A r s1 (\<lambda>req.
     orErrorSt (PushResource (api_svc A) (after_identity E) identity (hr_Param r ''name'') (hr_Param r ''resource'') req s1 b)
       (\<lambda>statusURL s2. (writeJSON 200 [(''status-url'', VStr statusURL)], s2))))"

definition handleUpdateResourceRevisions ::
    "('s, 'b) api \<Rightarrow> ambient \<Rightarrow> resource_revision_update list http_request \<Rightarrow> 's \<Rightarrow> http_response \<times> 's" where
  "handleUpdateResourceRevisions A E r s =
     withIdentity A E r s (\<lambda>identity s1.
     withBody A r s1 (\<lambda>updates.
     orErrorSt (UpdateResourceRevisions (api_svc A) identity (hr_Param r ''name'') (hr_Param r ''resource'') updates s1)
       (\<lambda>updated s2. (writeJSON 200 [(''num-resource-revisions-updated'', VInt updated)], s2))))"

definition handleOCIUploadCredentials ::
    "('s, 'b) api \<Rightarrow> ambient \<Rightarrow> 'a http_request \<Rightarrow> 's \<Rightarrow> http_response \<times> 's" where
  "handleOCIUploadCredentials A E r s =
     withIdentity A E r s (\<lambda>identity s1.
     orError (OCIImageUploadCredentials (api_svc A) identity (hr_Param r ''name'') (hr_Param r ''resource'') s1) s1
       (\<lambda>payload. (writeJSON 200 payload, s1)))"

definition handleOCIImageBlob ::
    "('s, 'b) api \<Rightarrow> ambient \<Rightarrow> string http_request \<Rightarrow> 's \<Rightarrow> http_response \<times> 's" where
  "handleOCIImageBlob A E r s =
     withIdentity A E r s (\<lambda>identity s1.
     withBody A r s1 (\<lambda>imageDigest.
     (attachment ''oci-image-blob.json'' ''text/plain; charset=utf-8''
        (OCIImageBlob (api_svc A) identity (hr_Param r ''name'') (hr_Param r ''resource'') imageDigest), s1)))"

definition handleResourceDownload ::
    "('s, 'b) api \<Rightarrow> ambient \<Rightarrow> 'a http_request \<Rightarrow> 's \<Rightarrow> 'b \<Rightarrow> http_response \<times> 's" where
  "handleResourceDownload A E r s b =
     withIdentity A E r s (\<lambda>identity s1.
     orError (map_err (\<lambda>err. serviceError 400 ''invalid-request'' (errText err))
                (parseResourceDownloadFilename (hr_Param r ''filename''))) s1 (\<lambda>(packageID, resourceName, revision).
     orError (DownloadResource (api_svc A) identity packageID resourceName revision s1 b) s1 (\<lambda>payload.
     (attachment ''resource.bin'' ''application/octet-stream'' payload, s1))))"

section \<open>Releases, search, refresh\<close>

definition handleListReleases ::
    "('s, 'b) api \<Rightarrow> ambient \<Rightarrow> 'a http_request \<Rightarrow> 's \<Rightarrow> http_response \<times> 's" where
  "handleListReleases A E r s =
     withIdentity A E r s (\<lambda>identity s1.
     orError (Service_ListReleases (api_svc A) (after_identity E) identity (hr_Param r ''name'') s1) s1 (\<lambda>payload.
     (writeJSON 200 payload, s1)))"

record release_item =
  rit_Channel :: string
  rit_Revision :: int
  rit_Resources :: "release_ref list"

definition releaseOfItem :: "release_item \<Rightarrow> release" where
  "releaseOfItem item =
     \<lparr>rel_ID = [], rel_PackageID = [], rel_Channel = rit_Channel item, rel_Revision = rit_Revision item,
      rel_Base = None, rel_Resources = rit_Resources item, rel_When = 0, rel_ExpirationDate = None,
      rel_Progressive = None\<rparr>"

definition handleRelease ::
    "('s, 'b) api \<Rightarrow> ambient \<Rightarrow> release_item list http_request \<Rightarrow> 's \<Rightarrow> http_response \<times> 's" where
  "handleRelease A E r s =
     withIdentity A E r s (\<lambda>identity s1.
     withBody A r s1 (\<lambda>req.
     orErrorSt (Release (api_svc A) (after_identity E) identity (hr_Param r ''name'') (map releaseOfItem req) s1)
       (\<lambda>released s2. (writeJSON 200 [(''released'', VReleases released)], s2))))"

definition handleCreateTracks ::
    "('s, 'b) api \<Rightarrow> ambient \<Rightarrow> track list http_request \<Rightarrow> 's \<Rightarrow> http_response \<times> 's" where
  "handleCreateTracks A E r s =
     withIdentity A E r s (\<lambda>identity s1.
     withBody A r s1 (\<lambda>req.
     orErrorSt (Service_CreateTracks (api_svc A) (after_identity E) identity (hr_Param r ''name'') req s1)
       (\<lambda>created s2. (writeJSON 200 [(''num-tracks-created'', VInt (int created))], s2))))"

definition handleFind ::
    "('s, 'b) api \<Rightarrow> ambient \<Rightarrow> 'a http_request \<Rightarrow> 's \<Rightarrow> http_response \<times> 's" where
  "handleFind A E r s =
     withIdentity A E r s (\<lambda>identity s1.
     orError (Find (api_svc A) (after_identity E) identity (hr_Query r ''q'') s1) s1 (\<lambda>payload.
     (writeJSON 200 payload, s1)))"

definition handleInfo ::
    "('s, 'b) api \<Rightarrow> ambient \<Rightarrow> 'a http_request \<Rightarrow> 's \<Rightarrow> http_response \<times> 's" where
  "handleInfo A E r s =
     withIdentity A E r s (\<lambda>identity s1.
     orError (Info (api_svc A) (after_identity E) identity (hr_Param r ''name'') s1) s1 (\<lambda>payload.
     (writeJSON 200 payload, s1)))"

definition handleRefresh ::
    "('s, 'b) api \<Rightarrow> ambient \<Rightarrow> refresh_request http_request \<Rightarrow> 's \<Rightarrow> http_response \<times> 's" where
  "handleRefresh A E r s =
     withIdentity A E r s (\<lambda>identity s1.
     withBody A r s1 (\<lambda>req.
     orError (Refresh (api_svc A) (after_identity E) identity req s1) s1 (\<lambda>payload.
     (writeJSON 200 payload, s1))))"

end
