(* ===== verification/Dispatch.thy ===== *)
theory Dispatch
  imports Handlers
begin

text \<open>
  The routes of \<^verbatim>\<open>api.New\<close> (\<^verbatim>\<open>internal/api/http.go\<close>) as one function: a call names the route and carries the
  decoded request, \<open>dispatch\<close> runs its handler on the two stores.
\<close>

datatype call =
    GetRoot
  | GetOpenAPI
  | GetDocs
  | GetTokens "unit http_request"
  | IssueToken "issue_token_request http_request"
  | ExchangeToken "unit http_request"
  | RevokeToken "string http_request"
  | TokenWhoAmI "unit http_request"
  | DashboardExchange "string option http_request"
  | WhoAmI "unit http_request"
  | LibrariesBulk
  | ListPackages "unit http_request"
  | RegisterName "register_body http_request"
  | GetMetadata "unit http_request"
  | PatchMetadata "metadata_patch http_request"
  | DeleteName "unit http_request"
  | ListRevisionsOf "unit http_request"
  | PushRevisionTo "string http_request"
  | Review "unit http_request"
  | ListResourcesOf "unit http_request"
  | ListResourceRevisionsOf "unit http_request"
  | PushResourceTo "push_resource_request http_request"
  | UpdateResourceRevisionsOf "resource_revision_update list http_request"
  | OCIUploadCredentials "unit http_request"
  | OCIBlob "string http_request"
  | ListReleasesOf "unit http_request"
  | ReleaseTo "release_item list http_request"
  | CreateTracksOf "track list http_request"
  | UnscannedUpload "(string \<times> bytes) res"
  | FindCharms "unit http_request"
  | InfoOf "unit http_request"
  | RefreshCharms "refresh_request http_request"
  | CharmDownload "unit http_request"
  | ResourceDownload "unit http_request"

text \<open>A handler that does not touch the blob store.\<close>

definition keepBlobs :: "http_response \<times> 's \<Rightarrow> 'b \<Rightarrow> http_response \<times> 's \<times> 'b" where
  "keepBlobs rs b = (fst rs, snd rs, b)"

fun route :: "('s, 'b) api \<Rightarrow> archive_lib \<Rightarrow> ambient \<Rightarrow> call \<Rightarrow> 's \<Rightarrow> 'b \<Rightarrow> http_response \<times> 's \<times> 'b" where
  "route A lib E GetRoot s b = (handleRoot A, s, b)"
| "route A lib E GetOpenAPI s b = (handleOpenAPI, s, b)"
| "route A lib E GetDocs s b = (handleDocs, s, b)"
| "route A lib E (GetTokens r) s b = keepBlobs (handleGetTokens A E r s) b"
| "route A lib E (IssueToken r) s b = keepBlobs (handleIssueToken A E r s) b"
| "route A lib E (ExchangeToken r) s b = keepBlobs (handleExchangeToken A E r s) b"
| "route A lib E (RevokeToken r) s b = keepBlobs (handleRevokeToken A E r s) b"
| "route A lib E (TokenWhoAmI r) s b = keepBlobs (handleTokenWhoAmI A E r s) b"
| "route A lib E (DashboardExchange r) s b = keepBlobs (handleDashboardExchange A E r s) b"
| "route A lib E (WhoAmI r) s b = keepBlobs (handleWhoAmI A E r s) b"
| "route A lib E LibrariesBulk s b = (handleLibrariesBulk, s, b)"
| "route A lib E (ListPackages r) s b = keepBlobs (handleListPackages A E r s) b"
| "route A lib E (RegisterName r) s b = keepBlobs (handleRegisterPackage A E r s) b"
| "route A lib E (GetMetadata r) s b = keepBlobs (handleGetPackage A E r s) b"
| "route A lib E (PatchMetadata r) s b = keepBlobs (handlePatchPackage A E r s) b"
| "route A lib E (DeleteName r) s b = keepBlobs (handleDeletePackage A E r s) b"
| "route A lib E (ListRevisionsOf r) s b = keepBlobs (handleListRevisions A E r s) b"
| "route A lib E (PushRevisionTo r) s b = keepBlobs (handlePushRevision A lib E r s b) b"
| "route A lib E (Review r) s b = keepBlobs (handleReviewUpload A E r s) b"
| "route A lib E (ListResourcesOf r) s b = keepBlobs (handleListResources A E r s) b"
| "route A lib E (ListResourceRevisionsOf r) s b = keepBlobs (handleListResourceRevisions A E r s) b"
| "route A lib E (PushResourceTo r) s b = keepBlobs (handlePushResource A E r s b) b"
| "route A lib E (UpdateResourceRevisionsOf r) s b = keepBlobs (handleUpdateResourceRevisions A E r s) b"
| "route A lib E (OCIUploadCredentials r) s b = keepBlobs (handleOCIUploadCredentials A E r s) b"
| "route A lib E (OCIBlob r) s b = keepBlobs (handleOCIImageBlob A E r s) b"
| "route A lib E (ListReleasesOf r) s b = keepBlobs (handleListReleases A E r s) b"
| "route A lib E (ReleaseTo r) s b = keepBlobs (handleRelease A E r s) b"
| "route A lib E (CreateTracksOf r) s b = keepBlobs (handleCreateTracks A E r s) b"
| "route A lib E (UnscannedUpload form) s b = handleUnscannedUpload A E form s b"
| "route A lib E (FindCharms r) s b = keepBlobs (handleFind A E r s) b"
| "route A lib E (InfoOf r) s b = keepBlobs (handleInfo A E r s) b"
| "route A lib E (RefreshCharms r) s b = keepBlobs (handleRefresh A E r s) b"
| "route A lib E (CharmDownload r) s b = keepBlobs (handleCharmDownload A E r s b) b"
| "route A lib E (ResourceDownload r) s b = keepBlobs (handleResourceDownload A E r s b) b"

text \<open>The middleware wraps every route.\<close>

definition dispatch :: "('s, 'b) api \<Rightarrow> archive_lib \<Rightarrow> ambient \<Rightarrow> call \<Rightarrow> 's \<Rightarrow> 'b \<Rightarrow> http_response \<times> 's \<times> 'b" where
  "dispatch A lib E c s b = (let (r, s', b') = route A lib E c s b in (securityHeaders r, s', b'))"

end
