(* ===== verification/Keeping.thy ===== *)
theory Keeping
  imports Contract Dispatch
begin

text \<open>
  A property of the repository's state that every command of the interface keeps, every request keeps,
  whatever the repository and the blob store are.  The locale names the commands, its lemmas follow the
  service operations, the handlers and the routes.
\<close>

section \<open>Commands\<close>

locale command_invariant =
  fixes R :: "'s repository" and I :: "'s \<Rightarrow> bool"
  assumes keep_EnsureAccount: "I s \<Longrightarrow> I (snd (EnsureAccount R t a s))"
    and keep_CreateStoreToken: "I s \<Longrightarrow> I (snd (CreateStoreToken R tok s))"
    and keep_RevokeStoreToken: "I s \<Longrightarrow> I (snd (RevokeStoreToken R t sh aid sid who s))"
    and keep_CreatePackage: "I s \<Longrightarrow> I (snd (CreatePackage R p s))"
    and keep_UpdatePackage: "I s \<Longrightarrow> I (snd (UpdatePackage R p s))"
    and keep_DeletePackage: "I s \<Longrightarrow> I (snd (DeletePackage R pid s))"
    and keep_CreateTracks: "I s \<Longrightarrow> I (snd (CreateTracks R pid ts s))"
    and keep_CreateUpload: "I s \<Longrightarrow> I (snd (CreateUpload R u s))"
    and keep_ApproveUpload: "I s \<Longrightarrow> I (snd (ApproveUpload R t uid n errs s))"
    and keep_CreateRevision: "I s \<Longrightarrow> I (snd (CreateRevision R rv s))"
    and keep_UpsertResourceDefinition: "I s \<Longrightarrow> I (snd (UpsertResourceDefinition R d s))"
    and keep_CreateResourceRevision: "I s \<Longrightarrow> I (snd (CreateResourceRevision R rr s))"
    and keep_UpdateResourceRevision: "I s \<Longrightarrow> I (snd (UpdateResourceRevision R rr s))"
    and keep_ReplaceRelease: "I s \<Longrightarrow> I (snd (ReplaceRelease R pid rl s))"

section \<open>Services, handlers, routes\<close>

context command_invariant
begin

lemmas keep_binds = snd_rd_bind [of I] snd_st_bind [of I]

lemma keep_ResolveIdentity:
  assumes S: "svc_repo S = R" and "I s"
  shows "I (snd (ResolveIdentity S E c t s))"
  unfolding ResolveIdentity_def S using assms(2) by (auto intro!: keep_binds keep_EnsureAccount)

lemma keep_IssueStoreToken:
  assumes S: "svc_repo S = R" and "I s"
  shows "I (snd (IssueStoreToken S E identity req s))"
  unfolding IssueStoreToken_def S Let_def
  using assms(2) by (auto intro!: keep_binds keep_CreateStoreToken split: prod.split)

lemma keep_ExchangeStoreToken:
  assumes S: "svc_repo S = R" and "I s"
  shows "I (snd (ExchangeStoreToken S E identity d s))"
  unfolding ExchangeStoreToken_def by (auto intro!: keep_binds keep_IssueStoreToken [OF assms] split: prod.split)

lemma keep_RevokeStoreToken_service:
  assumes S: "svc_repo S = R" and "I s"
  shows "I (snd (Service_RevokeStoreToken S E identity sid s))"
  unfolding Service_RevokeStoreToken_def S using assms(2) by (auto intro!: keep_binds keep_RevokeStoreToken)

lemma keep_RegisterPackage:
  assumes S: "svc_repo S = R" and "I s"
  shows "I (snd (RegisterPackage S E identity name ty priv s))"
  unfolding RegisterPackage_def S Let_def
  using assms(2) by (auto intro!: keep_binds keep_CreatePackage keep_CreateTracks)

lemma keep_UpdatePackage_service:
  assumes S: "svc_repo S = R" and "I s"
  shows "I (snd (Service_UpdatePackage S E identity name patch s))"
  unfolding Service_UpdatePackage_def S Let_def using assms(2) by (auto intro!: keep_binds keep_UpdatePackage)

lemma keep_UnregisterPackage:
  assumes S: "svc_repo S = R" and "I s"
  shows "I (snd (UnregisterPackage S identity name s))"
  unfolding UnregisterPackage_def S using assms(2) by (auto intro!: keep_binds keep_DeletePackage)

lemma keep_CreateTracks_service:
  assumes S: "svc_repo S = R" and "I s"
  shows "I (snd (Service_CreateTracks S E identity name ts s))"
  unfolding Service_CreateTracks_def S using assms(2) by (auto intro!: keep_binds keep_CreateTracks)

lemma keep_releaseLoop:
  assumes S: "svc_repo S = R"
  shows "I s \<Longrightarrow> I (snd (releaseLoop S ids identity t pid i requests acc s))"
proof (induction requests arbitrary: i "acc" s)
  case (Cons r rs)
  show ?case
    unfolding releaseLoop.simps S Let_def
    using Cons by (auto intro!: keep_binds keep_ReplaceRelease)
qed simp

lemma keep_Release:
  assumes S: "svc_repo S = R" and "I s"
  shows "I (snd (Release S E identity name requests s))"
  unfolding Release_def S using assms(2)
  by (auto intro!: keep_binds keep_releaseLoop [OF S] keep_UpdatePackage)

lemma keep_upsertResources:
  assumes S: "svc_repo S = R"
  shows "I s \<Longrightarrow> I (snd (upsertResources S ids i t pid rs s))"
proof (induction rs arbitrary: i s)
  case (Cons r rs)
  then show ?case
    by (cases r) (auto simp: S intro!: keep_binds keep_UpsertResourceDefinition)
qed simp

lemma keep_publishRevision:
  assumes S: "svc_repo S = R" and "I s"
  shows "I (snd (publishRevision S E identity name p u arc s))"
  unfolding publishRevision_def Let_def S using assms(2)
  by (auto intro!: keep_binds keep_upsertResources [OF S] keep_CreateRevision keep_ApproveUpload keep_UpdatePackage)

lemma keep_PushRevision:
  assumes S: "svc_repo S = R" and "I s"
  shows "I (snd (PushRevision S lib E identity name uid s b))"
  unfolding PushRevision_def using assms(2)
  by (auto intro!: keep_binds keep_publishRevision [OF S] keep_ApproveUpload simp: S split: sum.split)

lemma keep_PushResource:
  assumes S: "svc_repo S = R" and "I s"
  shows "I (snd (PushResource S E identity name res rq s b))"
  unfolding PushResource_def Let_def S using assms(2)
  by (auto intro!: keep_binds keep_CreateResourceRevision keep_ApproveUpload)

lemma keep_updateLoop:
  assumes S: "svc_repo S = R"
  shows "I s \<Longrightarrow> I (snd (updateLoop S rid us n s))"
proof (induction us arbitrary: n s)
  case (Cons u us)
  then show ?case by (auto simp: S intro!: keep_binds keep_UpdateResourceRevision)
qed simp

lemma keep_UpdateResourceRevisions:
  assumes S: "svc_repo S = R" and "I s"
  shows "I (snd (UpdateResourceRevisions S identity name res us s))"
  unfolding UpdateResourceRevisions_def using assms(2) by (auto intro!: keep_binds keep_updateLoop [OF S])

lemma keep_CreateUpload_service:
  assumes S: "svc_repo S = R" and "I s" and "Service_CreateUpload S E filename payload s b = (r, s', b')"
  shows "I s'"
  using assms keep_CreateUpload [OF assms(2), of "newUpload (uuid E 0) (now E 0) filename payload"]
  by (auto simp: Service_CreateUpload_def Let_def split: prod.splits sum.splits)

lemma keep_orError: "I s \<Longrightarrow> (\<And>x. r = Inr x \<Longrightarrow> I (snd (f x))) \<Longrightarrow> I (snd (orError r s f))"
  by (cases r) auto

lemma keep_orErrorSt:
  "I (snd rs) \<Longrightarrow> (\<And>x. fst rs = Inr x \<Longrightarrow> I (snd (f x (snd rs)))) \<Longrightarrow> I (snd (orErrorSt rs f))"
  by (cases rs; cases "fst rs") auto

lemma keep_withBody: "I s \<Longrightarrow> (\<And>x. I (snd (f x))) \<Longrightarrow> I (snd (withBody A r s f))"
  unfolding withBody_def by (rule keep_orError)

lemma keep_withIdentity:
  assumes A: "svc_repo (api_svc A) = R" and "I s" and "\<And>identity s1. I s1 \<Longrightarrow> I (snd (f identity s1))"
  shows "I (snd (withIdentity A E r s f))"
  unfolding withIdentity_def identityOf_def
  using assms(2,3) keep_ResolveIdentity [OF A]
  by (intro keep_orErrorSt) (auto split: sum.split prod.split)

lemmas keep_handlers = keep_withBody keep_orError keep_orErrorSt

lemma keep_reading:
  assumes A: "svc_repo (api_svc A) = R" and ok: "I s"
  shows "I (snd (handleGetTokens A E r s))" and "I (snd (handleTokenWhoAmI A E r s))"
    and "I (snd (handleWhoAmI A E r s))" and "I (snd (handleListPackages A E r s))"
    and "I (snd (handleGetPackage A E r s))" and "I (snd (handleListRevisions A E r s))"
    and "I (snd (handleReviewUpload A E r s))" and "I (snd (handleListResources A E r s))"
    and "I (snd (handleListResourceRevisions A E r s))" and "I (snd (handleOCIUploadCredentials A E r s))"
    and "I (snd (handleOCIImageBlob A E rs s))" and "I (snd (handleListReleases A E r s))"
    and "I (snd (handleFind A E r s))" and "I (snd (handleInfo A E r s))"
    and "I (snd (handleRefresh A E rr s))" and "I (snd (handleCharmDownload A E r s b))"
    and "I (snd (handleResourceDownload A E r s b))"
  unfolding handleGetTokens_def handleTokenWhoAmI_def handleWhoAmI_def handleListPackages_def handleGetPackage_def
    handleListRevisions_def handleReviewUpload_def handleListResources_def handleListResourceRevisions_def
    handleOCIUploadCredentials_def handleOCIImageBlob_def handleListReleases_def handleFind_def handleInfo_def
    handleRefresh_def handleCharmDownload_def handleResourceDownload_def Let_def
  by (rule keep_withIdentity [OF A ok]; auto intro!: keep_handlers split: prod.split)+

lemma keep_exchangeIdentity:
  assumes A: "svc_repo (api_svc A) = R" and ok: "I s"
  shows "I (snd (exchangeIdentity A E r identity s))"
  using ok keep_ResolveIdentity [OF A ok] by (auto simp: exchangeIdentity_def split: sum.split prod.split)

lemma keep_writing:
  assumes A: "svc_repo (api_svc A) = R" and ok: "I s"
  shows "I (snd (handleRegisterPackage A E r1 s))" and "I (snd (handlePatchPackage A E r2 s))"
    and "I (snd (handleDeletePackage A E r3 s))" and "I (snd (handlePushRevision A lib E r4 s b))"
    and "I (snd (handlePushResource A E r5 s b))" and "I (snd (handleUpdateResourceRevisions A E r6 s))"
    and "I (snd (handleRelease A E r7 s))" and "I (snd (handleCreateTracks A E r8 s))"
    and "I (snd (handleDashboardExchange A E r9 s))" and "I (snd (handleRevokeToken A E r4 s))"
    and "I (snd (handleExchangeToken A E r3 s))" and "I (snd (handleIssueToken A E r10 s))"
  unfolding handleRegisterPackage_def handlePatchPackage_def handleDeletePackage_def handlePushRevision_def
    handlePushResource_def handleUpdateResourceRevisions_def handleRelease_def handleCreateTracks_def
    handleDashboardExchange_def handleRevokeToken_def handleExchangeToken_def handleIssueToken_def Let_def
  by (rule keep_withIdentity [OF A ok];
      auto intro!: keep_handlers keep_RegisterPackage [OF A] keep_UpdatePackage_service [OF A] keep_UnregisterPackage [OF A]
        keep_PushRevision [OF A] keep_PushResource [OF A] keep_UpdateResourceRevisions [OF A] keep_Release [OF A]
        keep_CreateTracks_service [OF A] keep_ExchangeStoreToken [OF A] keep_RevokeStoreToken_service [OF A]
        keep_exchangeIdentity [OF A] keep_IssueStoreToken [OF A] keep_ResolveIdentity [OF A] split: prod.split)+

lemma keep_route:
  assumes A: "svc_repo (api_svc A) = R" and ok: "I s" and run: "route A lib E c s b = (resp, s', b')"
  shows "I s'"
proof (cases c)
  case (UnscannedUpload form)
  show ?thesis
  proof (cases form)
    case (Inr np)
    obtain name payload r s1 b1 where "np = (name, payload)"
        and up: "Service_CreateUpload (api_svc A) E name payload s b = (r, s1, b1)"
      by (metis prod.exhaust)
    then show ?thesis
      using run UnscannedUpload Inr keep_CreateUpload_service [OF A ok up]
      by (cases r) (auto simp: handleUnscannedUpload_def)
  qed (use run ok UnscannedUpload in \<open>simp add: handleUnscannedUpload_def\<close>)
qed (use run ok keep_reading [OF A ok] keep_writing [OF A ok] in \<open>auto simp: keepBlobs_def\<close>)

end

section \<open>Sequences of requests\<close>

text \<open>Any sequence of requests, each with an environment of its own.\<close>

inductive serves :: "('s, 'b) api \<Rightarrow> archive_lib \<Rightarrow> 's \<times> 'b \<Rightarrow> 's \<times> 'b \<Rightarrow> bool"
  for A :: "('s, 'b) api" and lib :: archive_lib and start :: "'s \<times> 'b" where
  none: "serves A lib start start"
| one: "serves A lib start (s, b) \<Longrightarrow> dispatch A lib E c s b = (resp, s', b') \<Longrightarrow> serves A lib start (s', b')"

context command_invariant
begin

lemma keep_serves:
  assumes "serves A lib start final" and A: "svc_repo (api_svc A) = R" and ok: "I (fst start)"
  shows "I (fst final)"
  using assms(1)
proof induction
  case (one s b E c resp s' b')
  then obtain r where "route A lib E c s b = (r, s', b')" by (auto simp: dispatch_def split: prod.splits)
  with one.IH show ?case using keep_route [OF A] by simp
qed (use ok in simp)

end

end
