(* ===== verification/Concurrent.thy ===== *)
theory Concurrent
  imports Processes Keeping
begin

text \<open>
  The requests that change the stores, as processes over the pair of the two stores, one call per call of the
  repository or of the blob store.  The server runs every request in a goroutine of its own and the services take no
  lock, so any interleaving of the calls may happen.  A call of the repository is one atomic step: the in-memory
  repository holds its lock for the whole method, a method of the PostgreSQL repository is one statement (only
  \<open>CreateTracks\<close> sends one statement per track, and a registration creates one track).
\<close>

section \<open>Calls of the two stores\<close>

definition askRepo :: "('s \<Rightarrow> 'a res) \<Rightarrow> ('a \<Rightarrow> ('s \<times> 'b, 'c res) process) \<Rightarrow> ('s \<times> 'b, 'c res) process" where
  "askRepo q k = queryCall (\<lambda>(s, b). q s) k"

definition tellRepo ::
    "('s \<Rightarrow> 'a res \<times> 's) \<Rightarrow> ('a \<Rightarrow> ('s \<times> 'b, 'c res) process) \<Rightarrow> ('s \<times> 'b, 'c res) process" where
  "tellRepo c k = commandCall (\<lambda>(s, b). case c s of (r, s') \<Rightarrow> (r, (s', b))) k"

definition tellAnyway :: "('s \<Rightarrow> 'a res \<times> 's) \<Rightarrow> ('s \<times> 'b, 'c) process \<Rightarrow> ('s \<times> 'b, 'c) process" where
  "tellAnyway c p = attemptCall (\<lambda>(s, b). case c s of (r, s') \<Rightarrow> (r, (s', b))) p"

definition askBlobs :: "('b \<Rightarrow> 'a res) \<Rightarrow> ('a \<Rightarrow> ('s \<times> 'b, 'c res) process) \<Rightarrow> ('s \<times> 'b, 'c res) process" where
  "askBlobs q k = queryCall (\<lambda>(s, b). q b) k"

definition tellBlobs :: "('b \<Rightarrow> 'a res \<times> 'b) \<Rightarrow> ('a \<Rightarrow> ('s \<times> 'b, 'c res) process) \<Rightarrow> ('s \<times> 'b, 'c res) process" where
  "tellBlobs c k = commandCall (\<lambda>(s, b). case c b of (r, b') \<Rightarrow> (r, (s, b'))) k"

section \<open>The requests as processes\<close>

definition ResolveIdentity_calls ::
    "('s, 'b) service \<Rightarrow> ambient \<Rightarrow> claims \<Rightarrow> store_token option \<Rightarrow> ('s \<times> 'b, identity res) process" where
  "ResolveIdentity_calls S E claims storeToken =
     (if cl_Subject claims = [] then Finished (Inr anonymous)
      else
        tellRepo (EnsureAccount (svc_repo S) (now E 1) (accountOfClaims (uuid E 0) (now E 0) claims)) (\<lambda>account.
        Finished (Inr \<lparr>idn_Account = account, idn_Token = storeToken, idn_Authenticated = True\<rparr>)))"

definition IssueStoreToken_calls ::
    "('s, 'b) service \<Rightarrow> ambient \<Rightarrow> identity \<Rightarrow> issue_token_request
       \<Rightarrow> ('s \<times> 'b, (string \<times> store_token) res) process" where
  "IssueStoreToken_calls S E identity req =
     ownStep (requireAuth identity) (\<lambda>_.
     let permissions = (if itr_Permissions req = [] then defaultPermissions else itr_Permissions req);
         ttl = tokenTTL (itr_TTL req) in
     ownStep (NewOpaqueToken (rand E)) (\<lambda>(raw, hash).
     let t = now E 0;
         token = \<lparr>tok_SessionID = uuid E 0, tok_TokenHash = hash,
                  tok_AccountID = acc_ID (idn_Account identity),
                  tok_Description = itr_Description req, tok_Packages = itr_Packages req,
                  tok_Channels = itr_Channels req, tok_Permissions = permissions,
                  tok_ValidSince = t, tok_ValidUntil = t + ttl,
                  tok_RevokedAt = None, tok_RevokedBy = None\<rparr> in
     tellRepo (CreateStoreToken (svc_repo S) token) (\<lambda>_. Finished (Inr (raw, token)))))"

definition ExchangeStoreToken_calls ::
    "('s, 'b) service \<Rightarrow> ambient \<Rightarrow> identity \<Rightarrow> string option \<Rightarrow> ('s \<times> 'b, string res) process" where
  "ExchangeStoreToken_calls S E identity description =
     map_process (map_sum id fst) (IssueStoreToken_calls S E identity (exchangeRequest identity description))"

definition RevokeStoreToken_calls ::
    "('s, 'b) service \<Rightarrow> ambient \<Rightarrow> identity \<Rightarrow> string \<Rightarrow> ('s \<times> 'b, unit res) process" where
  "RevokeStoreToken_calls S E identity sessionID =
     ownStep (requireAuth identity) (\<lambda>_.
     tellRepo (RevokeStoreToken (svc_repo S) (now E 0) (order E 0) (acc_ID (idn_Account identity)) sessionID
             (acc_ID (idn_Account identity))) (\<lambda>x. Finished (Inr x)))"

definition RegisterPackage_calls ::
    "('s, 'b) service \<Rightarrow> ambient \<Rightarrow> identity \<Rightarrow> string \<Rightarrow> string \<Rightarrow> bool \<Rightarrow> ('s \<times> 'b, package res) process" where
  "RegisterPackage_calls S E identity name packageType private =
     ownStep (requirePermission identity permAccountRegisterPackage) (\<lambda>_.
     let t = now E 0;
         pkg = newPackage (svc_cfg S) (compactID (uuid E 0)) t (idn_Account identity) name packageType private in
     tellRepo (\<lambda>s. map_err_st (translateRepoError ''package already exists'') (CreatePackage (svc_repo S) pkg s)) (\<lambda>_.
     tellRepo (CreateTracks (svc_repo S) (pkg_ID pkg) (pkg_Tracks pkg)) (\<lambda>_.
     Finished (Inr pkg))))"

definition UpdatePackage_calls ::
    "('s, 'b) service \<Rightarrow> ambient \<Rightarrow> identity \<Rightarrow> string \<Rightarrow> metadata_patch \<Rightarrow> ('s \<times> 'b, package res) process" where
  "UpdatePackage_calls S E identity name patch =
     askRepo (\<lambda>s. map_err (translateRepoError ''package not found'') (GetPackageByName (svc_repo S) name s)) (\<lambda>pkg0.
     askRepo (requirePackageManage S identity pkg0 permPackageManageMetadata) (\<lambda>_.
     let pkg = (applyPatch patch pkg0)\<lparr>pkg_UpdatedAt := now E 0\<rparr> in
     tellRepo (UpdatePackage (svc_repo S) pkg) (\<lambda>_.
     askRepo (enrichPackage S (order E 0) pkg) (\<lambda>enriched. Finished (Inr enriched)))))"

definition UnregisterPackage_calls :: "('s, 'b) service \<Rightarrow> identity \<Rightarrow> string \<Rightarrow> ('s \<times> 'b, string res) process" where
  "UnregisterPackage_calls S identity name =
     askRepo (\<lambda>s. map_err (translateRepoError ''package not found'') (GetPackageByName (svc_repo S) name s)) (\<lambda>pkg.
     askRepo (requirePackageManage S identity pkg permPackageManage) (\<lambda>_.
     askRepo (ListRevisions (svc_repo S) (pkg_ID pkg) None) (\<lambda>revs.
     if revs \<noteq> []
     then Finished (Inl (newError 400 ''invalid-request'' ''cannot unregister a package with existing revisions''))
     else tellRepo (DeletePackage (svc_repo S) (pkg_ID pkg)) (\<lambda>_. Finished (Inr (pkg_ID pkg))))))"

definition CreateUpload_calls ::
    "('s, 'b) service \<Rightarrow> ambient \<Rightarrow> string \<Rightarrow> bytes \<Rightarrow> ('s \<times> 'b, upload res) process" where
  "CreateUpload_calls S E filename payload =
     (let upload = newUpload (uuid E 0) (now E 0) filename payload in
      tellBlobs (blob_Put (svc_blobs S) (upl_ObjectKey upload) payload ''application/octet-stream'') (\<lambda>_.
      tellRepo (CreateUpload (svc_repo S) upload) (\<lambda>_. Finished (Inr upload))))"

fun upsertResources_calls ::
    "('s, 'b) service \<Rightarrow> (nat \<Rightarrow> string) \<Rightarrow> nat \<Rightarrow> time \<Rightarrow> string \<Rightarrow> (string \<times> resource_declaration) list
       \<Rightarrow> ('s \<times> 'b, 'a res) process \<Rightarrow> ('s \<times> 'b, 'a res) process" where
  "upsertResources_calls S ids i t packageID [] p = p"
| "upsertResources_calls S ids i t packageID ((name, resource) # rest) p =
     tellRepo (UpsertResourceDefinition (svc_repo S)
                \<lparr>rd_ID = ids i, rd_PackageID = packageID, rd_Name = name, rd_Type = crd_Type resource,
                 rd_Description = crd_Description resource, rd_Filename = crd_Filename resource,
                 rd_Optional = False, rd_CreatedAt = t\<rparr>)
       (\<lambda>_. upsertResources_calls S ids (Suc i) t packageID rest p)"

definition nextNumber :: "'s repository \<Rightarrow> string \<Rightarrow> 's \<Rightarrow> int res" where
  "nextNumber R packageID s =
     (case GetLatestRevision R packageID s of
        Inr latest \<Rightarrow> Inr (rev_Revision latest + 1)
      | Inl ErrNotFound \<Rightarrow> Inr 1
      | Inl err \<Rightarrow> Inl err)"

definition publishRevision_calls ::
    "('s, 'b) service \<Rightarrow> ambient \<Rightarrow> identity \<Rightarrow> string \<Rightarrow> package \<Rightarrow> upload \<Rightarrow> charm_archive
       \<Rightarrow> ('s \<times> 'b, string res) process" where
  "publishRevision_calls S E identity charmName pkg upload archive =
     askRepo (nextNumber (svc_repo S) (pkg_ID pkg)) (\<lambda>n.
     let t = now E 0;
         rv = newRevision (uuid E 0) t (pkg_ID pkg) (acc_ID (idn_Account identity)) n upload archive in
     tellRepo (CreateRevision (svc_repo S) rv) (\<lambda>_.
     tellRepo (ApproveUpload (svc_repo S) (now E 1) (upl_ID upload) (Some n) []) (\<lambda>_.
     tellRepo (UpdatePackage (svc_repo S) (publishedPackage t (arc_Manifest archive) pkg)) (\<lambda>_.
     upsertResources_calls S (uuid E) 1 t (pkg_ID pkg) (go_range (order E 1) (man_Resources (arc_Manifest archive)))
       (Finished (Inr (reviewURL charmName (upl_ID upload))))))))"

definition PushRevision_calls ::
    "('s, 'b) service \<Rightarrow> archive_lib \<Rightarrow> ambient \<Rightarrow> identity \<Rightarrow> string \<Rightarrow> string \<Rightarrow> ('s \<times> 'b, string res) process" where
  "PushRevision_calls S lib E identity charmName uploadID =
     askRepo (\<lambda>s. map_err (translateRepoError ''package not found'') (GetPackageByName (svc_repo S) charmName s)) (\<lambda>pkg.
     askRepo (requirePackageManage S identity pkg permPackageManageRevisions) (\<lambda>_.
     askRepo (\<lambda>s. map_err (translateRepoError ''upload not found'') (GetUpload (svc_repo S) uploadID s)) (\<lambda>upload.
     askBlobs (blob_Get (svc_blobs S) (upl_ObjectKey upload)) (\<lambda>payload.
     case ParseArchive lib (order E 0) payload of
       Inl err \<Rightarrow>
         tellAnyway (ApproveUpload (svc_repo S) (now E 0) (upl_ID upload) None
                    [\<lparr>err_Code = ''invalid-archive'', err_Message = errText err\<rparr>])
           (Finished (Inl (newError 400 ''invalid-archive'' (errText err))))
     | Inr archive \<Rightarrow> publishRevision_calls S E identity charmName pkg upload archive))))"

definition PushResource_calls ::
    "('s, 'b) service \<Rightarrow> ambient \<Rightarrow> identity \<Rightarrow> string \<Rightarrow> string \<Rightarrow> push_resource_request
       \<Rightarrow> ('s \<times> 'b, string res) process" where
  "PushResource_calls S E identity charmName resourceName req =
     askRepo (\<lambda>s. map_err (translateRepoError ''package not found'') (GetPackageByName (svc_repo S) charmName s)) (\<lambda>pkg.
     askRepo (requirePackageManage S identity pkg permPackageManageRevisions) (\<lambda>_.
     askRepo (\<lambda>s. map_err (translateRepoError ''resource not declared'')
              (GetResourceDefinition (svc_repo S) (pkg_ID pkg) resourceName s)) (\<lambda>def.
     askRepo (\<lambda>s. map_err (translateRepoError ''upload not found'') (GetUpload (svc_repo S) (prq_UploadID req) s)) (\<lambda>upload.
     askBlobs (blob_Get (svc_blobs S) (upl_ObjectKey upload)) (\<lambda>payload.
     askRepo (ListResourceRevisions (svc_repo S) (rd_ID def)) (\<lambda>existing.
     let n = (case existing of [] \<Rightarrow> 1 | r # _ \<Rightarrow> rr_Revision r + 1) in
     tellRepo (CreateResourceRevision (svc_repo S)
                (newResourceRevision (uuid E 0) (now E 0) def n req upload payload)) (\<lambda>_.
     tellRepo (ApproveUpload (svc_repo S) (now E 1) (upl_ID upload) (Some n) []) (\<lambda>_.
     Finished (Inr (reviewURL charmName (upl_ID upload)))))))))))"

fun updateLoop_calls ::
    "('s, 'b) service \<Rightarrow> string \<Rightarrow> resource_revision_update list \<Rightarrow> int \<Rightarrow> ('s \<times> 'b, int res) process" where
  "updateLoop_calls S resourceID [] updated = Finished (Inr updated)"
| "updateLoop_calls S resourceID (update # updates) updated =
     askRepo (GetResourceRevision (svc_repo S) resourceID (rru_Revision update)) (\<lambda>item.
     tellRepo (UpdateResourceRevision (svc_repo S)
             (item\<lparr>rr_Bases := rru_Bases update, rr_Architectures := rru_Architectures update\<rparr>)) (\<lambda>_.
     updateLoop_calls S resourceID updates (updated + 1)))"

definition UpdateResourceRevisions_calls ::
    "('s, 'b) service \<Rightarrow> identity \<Rightarrow> string \<Rightarrow> string \<Rightarrow> resource_revision_update list
       \<Rightarrow> ('s \<times> 'b, int res) process" where
  "UpdateResourceRevisions_calls S identity charmName resourceName updates =
     askRepo (\<lambda>s. map_err (translateRepoError ''package not found'') (GetPackageByName (svc_repo S) charmName s)) (\<lambda>pkg.
     askRepo (requirePackageManage S identity pkg permPackageManageRevisions) (\<lambda>_.
     askRepo (\<lambda>s. map_err (translateRepoError ''resource not found'')
              (GetResourceDefinition (svc_repo S) (pkg_ID pkg) resourceName s)) (\<lambda>def.
     updateLoop_calls S (rd_ID def) updates 0)))"

definition CreateTracks_calls ::
    "('s, 'b) service \<Rightarrow> ambient \<Rightarrow> identity \<Rightarrow> string \<Rightarrow> track list \<Rightarrow> ('s \<times> 'b, nat res) process" where
  "CreateTracks_calls S E identity charmName newTracks =
     askRepo (\<lambda>s. map_err (translateRepoError ''package not found'') (GetPackageByName (svc_repo S) charmName s)) (\<lambda>pkg.
     askRepo (requirePackageManage S identity pkg permPackageManageMetadata) (\<lambda>_.
     tellRepo (CreateTracks (svc_repo S) (pkg_ID pkg) (map (stampTrack (now E 0)) newTracks)) (\<lambda>x. Finished (Inr x))))"

fun releaseLoop_calls ::
    "('s, 'b) service \<Rightarrow> (nat \<Rightarrow> string) \<Rightarrow> identity \<Rightarrow> time \<Rightarrow> string \<Rightarrow> nat \<Rightarrow> release list
       \<Rightarrow> release list \<Rightarrow> (release list \<Rightarrow> ('s \<times> 'b, 'a res) process) \<Rightarrow> ('s \<times> 'b, 'a res) process" where
  "releaseLoop_calls S ids identity t packageID i [] released p = p released"
| "releaseLoop_calls S ids identity t packageID i (request # requests) released p =
     (if rel_Channel request = [] then Finished (Inl (newError 400 ''invalid-request'' ''channel is required''))
      else
        askRepo (\<lambda>s. map_err (translateRepoError ''revision not found'')
                 (GetRevisionByNumber (svc_repo S) packageID (rel_Revision request) s)) (\<lambda>_.
        let stamped = stampRelease t (ids i) request;
            i1 = (if rel_ID request = [] then Suc i else i) in
        ownStep (enforceChannelRestriction identity (rel_Channel stamped)) (\<lambda>_.
        tellRepo (ReplaceRelease (svc_repo S) packageID stamped) (\<lambda>_.
        releaseLoop_calls S ids identity t packageID i1 requests (released @ [stamped]) p))))"

definition Release_calls ::
    "('s, 'b) service \<Rightarrow> ambient \<Rightarrow> identity \<Rightarrow> string \<Rightarrow> release list \<Rightarrow> ('s \<times> 'b, release list res) process" where
  "Release_calls S E identity charmName requests =
     askRepo (\<lambda>s. map_err (translateRepoError ''package not found'') (GetPackageByName (svc_repo S) charmName s)) (\<lambda>pkg.
     askRepo (requirePackageManage S identity pkg permPackageManageReleases) (\<lambda>_.
     releaseLoop_calls S (uuid E) identity (now E 0) (pkg_ID pkg) 0 requests [] (\<lambda>released.
     tellRepo (UpdatePackage (svc_repo S) (pkg\<lparr>pkg_Status := ''published'', pkg_UpdatedAt := now E 0\<rparr>)) (\<lambda>_.
     Finished (Inr released)))))"

section \<open>A request alone\<close>

text \<open>A request that changes the stores, its answer, its process.\<close>

datatype request =
    Identify claims "store_token option"
  | Issue identity issue_token_request
  | Exchange identity "string option"
  | Revoke identity string
  | Register identity string string bool
  | Patch identity string metadata_patch
  | Unregister identity string
  | MakeTracks identity string "track list"
  | Upload string bytes
  | Publish identity string string
  | PushRes identity string string push_resource_request
  | UpdateRes identity string string "resource_revision_update list"
  | MakeReleases identity string "release list"

datatype answer =
    AnIdentity identity
  | AToken "string \<times> store_token"
  | AText string
  | Done unit
  | APackage package
  | ACount nat
  | AnUpload upload
  | ANumber int
  | TheReleases "release list"

abbreviation answers :: "('a \<Rightarrow> answer) \<Rightarrow> ('s, 'a res) process \<Rightarrow> ('s, answer res) process" where
  "answers f p \<equiv> map_process (map_sum id f) p"

fun request_calls :: "('s, 'b) service \<Rightarrow> archive_lib \<Rightarrow> ambient \<Rightarrow> request \<Rightarrow> ('s \<times> 'b, answer res) process" where
  "request_calls S lib E (Identify claims storeToken) = answers AnIdentity (ResolveIdentity_calls S E claims storeToken)"
| "request_calls S lib E (Issue identity req) = answers AToken (IssueStoreToken_calls S E identity req)"
| "request_calls S lib E (Exchange identity description) = answers AText (ExchangeStoreToken_calls S E identity description)"
| "request_calls S lib E (Revoke identity sessionID) = answers Done (RevokeStoreToken_calls S E identity sessionID)"
| "request_calls S lib E (Register identity name ty priv) = answers APackage (RegisterPackage_calls S E identity name ty priv)"
| "request_calls S lib E (Patch identity name patch) = answers APackage (UpdatePackage_calls S E identity name patch)"
| "request_calls S lib E (Unregister identity name) = answers AText (UnregisterPackage_calls S identity name)"
| "request_calls S lib E (MakeTracks identity name newTracks) = answers ACount (CreateTracks_calls S E identity name newTracks)"
| "request_calls S lib E (Upload filename payload) = answers AnUpload (CreateUpload_calls S E filename payload)"
| "request_calls S lib E (Publish identity name uploadID) = answers AText (PushRevision_calls S lib E identity name uploadID)"
| "request_calls S lib E (PushRes identity name resource req) = answers AText (PushResource_calls S E identity name resource req)"
| "request_calls S lib E (UpdateRes identity name resource updates) =
     answers ANumber (UpdateResourceRevisions_calls S identity name resource updates)"
| "request_calls S lib E (MakeReleases identity name requests) = answers TheReleases (Release_calls S E identity name requests)"

text \<open>The same requests as the operations of the services.\<close>

definition answering :: "('a \<Rightarrow> answer) \<Rightarrow> 'b \<Rightarrow> 'a res \<times> 's \<Rightarrow> answer res \<times> 's \<times> 'b" where
  "answering f b rs = (map_sum id f (fst rs), (snd rs, b))"

fun request_atomic :: "('s, 'b) service \<Rightarrow> archive_lib \<Rightarrow> ambient \<Rightarrow> request \<Rightarrow> 's \<Rightarrow> 'b \<Rightarrow> answer res \<times> 's \<times> 'b" where
  "request_atomic S lib E (Identify claims storeToken) s b = answering AnIdentity b (ResolveIdentity S E claims storeToken s)"
| "request_atomic S lib E (Issue identity req) s b = answering AToken b (IssueStoreToken S E identity req s)"
| "request_atomic S lib E (Exchange identity description) s b = answering AText b (ExchangeStoreToken S E identity description s)"
| "request_atomic S lib E (Revoke identity sessionID) s b = answering Done b (Service_RevokeStoreToken S E identity sessionID s)"
| "request_atomic S lib E (Register identity name ty priv) s b = answering APackage b (RegisterPackage S E identity name ty priv s)"
| "request_atomic S lib E (Patch identity name patch) s b = answering APackage b (Service_UpdatePackage S E identity name patch s)"
| "request_atomic S lib E (Unregister identity name) s b = answering AText b (UnregisterPackage S identity name s)"
| "request_atomic S lib E (MakeTracks identity name newTracks) s b =
     answering ACount b (Service_CreateTracks S E identity name newTracks s)"
| "request_atomic S lib E (Upload filename payload) s b =
     (case Service_CreateUpload S E filename payload s b of (r, s', b') \<Rightarrow> (map_sum id AnUpload r, (s', b')))"
| "request_atomic S lib E (Publish identity name uploadID) s b =
     answering AText b (PushRevision S lib E identity name uploadID s b)"
| "request_atomic S lib E (PushRes identity name resource req) s b =
     answering AText b (PushResource S E identity name resource req s b)"
| "request_atomic S lib E (UpdateRes identity name resource updates) s b =
     answering ANumber b (UpdateResourceRevisions S identity name resource updates s)"
| "request_atomic S lib E (MakeReleases identity name requests) s b =
     answering TheReleases b (Release S E identity name requests s)"

section \<open>Lemmas\<close>

text \<open>\<open>keepB\<close> puts the blob store beside what an operation of the repository leaves.\<close>

definition keepB :: "'b \<Rightarrow> 'a \<times> 's \<Rightarrow> 'a \<times> 's \<times> 'b" where
  "keepB b rs = (fst rs, (snd rs, b))"

definition bindB :: "'b \<Rightarrow> ('e + 'a) \<times> 's \<Rightarrow> ('a \<Rightarrow> 's \<Rightarrow> ('e + 'c) \<times> 's \<times> 'b) \<Rightarrow> ('e + 'c) \<times> 's \<times> 'b" where
  "bindB b rs f = (case fst rs of Inl e \<Rightarrow> (Inl e, (snd rs, b)) | Inr x \<Rightarrow> f x (snd rs))"

lemma keepB_simps [simp]:
  "keepB b (x, s) = (x, (s, b))"
  "keepB b (rd_bind r s f) = rd_bind r (s, b) (\<lambda>x. keepB b (f x))"
  "keepB b (st_bind rs g) = bindB b rs (\<lambda>x s. keepB b (g x s))"
  by (simp_all add: keepB_def bindB_def rd_bind_def st_bind_def split: sum.split)

lemma bindB_assoc:
  "bindB b (st_bind rs f) g = bindB b rs (\<lambda>x s. bindB b (f x s) g)"
  "bindB b (rd_bind r s h) g = rd_bind r (s, b) (\<lambda>x. bindB b (h x) g)"
  by (simp_all add: bindB_def st_bind_def rd_bind_def split: sum.split)

lemma bindB_simps [simp]:
  "bindB b (Inl e, s) f = (Inl e, (s, b))"
  "bindB b (Inr x, s) f = f x s"
  "bindB b rs (\<lambda>x s. (Inr x, (s, b))) = keepB b rs"
  by (simp_all add: bindB_def keepB_def split: sum.split)

lemma bindB_unit [simp]: "bindB b rs (\<lambda>x s. (Inr (), (s, b))) = keepB b rs"
  by (simp add: bindB_def keepB_def split: sum.split)

lemma alone_calls [simp]:
  "alone (askRepo q k) (s, b) = rd_bind (q s) (s, b) (\<lambda>x. alone (k x) (s, b))"
  "alone (tellRepo c k) (s, b) = bindB b (c s) (\<lambda>x s. alone (k x) (s, b))"
  "alone (tellAnyway d p) (s, b) = alone p (snd (d s), b)"
  "alone (askBlobs qb k) (s, b) = rd_bind (qb b) (s, b) (\<lambda>x. alone (k x) (s, b))"
  by (simp_all add: askRepo_def tellRepo_def tellAnyway_def askBlobs_def bindB_def rd_bind_def st_bind_def split: sum.split prod.split)

lemma alone_put:
  "alone (tellBlobs c k) (s, b) = (case c b of (Inl e, b') \<Rightarrow> (Inl e, (s, b')) | (Inr x, b') \<Rightarrow> alone (k x) (s, b'))"
  by (simp add: tellBlobs_def st_bind_def split: sum.split prod.split)

lemma alone_map_process: "alone (map_process f p) s = map_prod f id (alone p s)"
  by (induction p arbitrary: s) auto

lemma answering_keepB: "answering f b rs = map_prod (map_sum id f) id (keepB b rs)"
  by (simp add: answering_def keepB_def)

lemma alone_branch:
  "alone (if c then Finished x else p) s = (if c then (x, s) else alone p s)"
  "keepB b (if c then rs else rs') = (if c then keepB b rs else keepB b rs')"
  by simp_all

lemma alone_upsertResources:
  "alone (upsertResources_calls S ids i t pid rs p) (s, b)
     = bindB b (upsertResources S ids i t pid rs s) (\<lambda>_ s. alone p (s, b))"
proof (induction rs arbitrary: i s)
  case (Cons r rs)
  obtain name resource where "r = (name, resource)" by (cases r)
  then show ?case by (simp add: Cons.IH bindB_assoc)
qed simp

lemma alone_updateLoop: "alone (updateLoop_calls S i us n) (s, b) = keepB b (updateLoop S i us n s)"
  by (induction us arbitrary: n s) simp_all

lemma alone_releaseLoop:
  "alone (releaseLoop_calls S ids identity t pid i rs out p) (s, b)
     = bindB b (releaseLoop S ids identity t pid i rs out s) (\<lambda>x s. alone (p x) (s, b))"
  by (induction rs arbitrary: i out s) (simp_all add: Let_def bindB_assoc)

lemma alone_publishRevision:
  "alone (publishRevision_calls S E identity name pkg upload archive) (s, b)
     = keepB b (publishRevision S E identity name pkg upload archive s)"
  by (simp add: publishRevision_calls_def publishRevision_def Let_def alone_upsertResources nextNumber_def)

lemma alone_PushRevision:
  "alone (PushRevision_calls S lib E identity name uploadID) (s, b) = keepB b (PushRevision S lib E identity name uploadID s b)"
proof -
  have archive: "alone (case r of Inl err \<Rightarrow> tellAnyway (f err) (Finished (g err))
        | Inr x \<Rightarrow> publishRevision_calls S E identity name pkg upload x) (s, b)
      = keepB b (case r of Inl err \<Rightarrow> (g err, snd (f err s)) | Inr x \<Rightarrow> publishRevision S E identity name pkg upload x s)"
    for r :: "charm_archive res" and f g pkg upload by (simp add: alone_publishRevision split: sum.split)
  show ?thesis by (simp add: PushRevision_calls_def PushRevision_def archive)
qed

lemma alone_IssueStoreToken:
  "alone (IssueStoreToken_calls S E identity req) (s, b) = keepB b (IssueStoreToken S E identity req s)"
proof -
  have pair: "alone (case p of (raw, hash) \<Rightarrow> f raw hash) sb = (case p of (raw, hash) \<Rightarrow> alone (f raw hash) sb)"
    "keepB b (case p of (raw, hash) \<Rightarrow> h raw hash) = (case p of (raw, hash) \<Rightarrow> keepB b (h raw hash))"
    for p f sb h by (simp_all split: prod.split)
  show ?thesis by (simp add: IssueStoreToken_calls_def IssueStoreToken_def Let_def pair)
qed

lemma alone_ExchangeStoreToken:
  "alone (ExchangeStoreToken_calls S E identity d) (s, b) = keepB b (ExchangeStoreToken S E identity d s)"
  by (simp add: ExchangeStoreToken_calls_def ExchangeStoreToken_def alone_map_process alone_IssueStoreToken
      keepB_def st_bind_def split: sum.split prod.split)

section \<open>The operations are the requests alone\<close>


section \<open>What every call keeps\<close>

text \<open>A relation between the states of the repository that every command establishes; \<open>del\<close> says whether the
removal of packages is among the commands.\<close>

fun removes :: "request \<Rightarrow> bool" where
  "removes (Unregister _ _) = True"
| "removes _ = False"

locale command_relation =
  fixes R :: "'s repository" and G :: "'s \<Rightarrow> 's \<Rightarrow> bool" and del :: bool
  assumes G_refl: "G s s"
    and G_trans: "G s s1 \<Longrightarrow> G s1 s2 \<Longrightarrow> G s s2"
    and G_EnsureAccount: "G s (snd (EnsureAccount R t a s))"
    and G_CreateStoreToken: "G s (snd (CreateStoreToken R tok s))"
    and G_RevokeStoreToken: "G s (snd (RevokeStoreToken R t sh aid sid who s))"
    and G_CreatePackage: "G s (snd (CreatePackage R p s))"
    and G_UpdatePackage: "G s (snd (UpdatePackage R p s))"
    and G_DeletePackage: "del \<Longrightarrow> G s (snd (DeletePackage R pid s))"
    and G_CreateTracks: "G s (snd (CreateTracks R pid ts s))"
    and G_CreateUpload: "G s (snd (CreateUpload R u s))"
    and G_ApproveUpload: "G s (snd (ApproveUpload R t uid n errs s))"
    and G_CreateRevision: "G s (snd (CreateRevision R rv s))"
    and G_UpsertResourceDefinition: "G s (snd (UpsertResourceDefinition R d s))"
    and G_CreateResourceRevision: "G s (snd (CreateResourceRevision R rr s))"
    and G_UpdateResourceRevision: "G s (snd (UpdateResourceRevision R rr s))"
    and G_ReplaceRelease: "G s (snd (ReplaceRelease R pid rl s))"
begin

abbreviation both :: "'s \<times> 'b \<Rightarrow> 's \<times> 'b \<Rightarrow> bool" where
  "both sb sb' \<equiv> G (fst sb) (fst sb')"

lemma both_protocol: "protocol both"
  by unfold_locales (rule G_refl, erule G_trans)

lemma obeys_calls:
  "(\<And>x. obeys both (k x)) \<Longrightarrow> obeys both (askRepo q k)"
  "(\<And>s. G s (snd (c s))) \<Longrightarrow> (\<And>x. obeys both (k x)) \<Longrightarrow> obeys both (tellRepo c k)"
  "(\<And>s. G s (snd (d s))) \<Longrightarrow> obeys both p \<Longrightarrow> obeys both (tellAnyway d p)"
  "(\<And>x. obeys both (k x)) \<Longrightarrow> obeys both (askBlobs qb k)"
  "(\<And>x. obeys both (k' x)) \<Longrightarrow> obeys both (tellBlobs cb k')"
  "(\<And>x. r = Inr x \<Longrightarrow> obeys both (k x)) \<Longrightarrow> obeys both (ownStep r k)"
  by (simp_all add: askRepo_def tellRepo_def tellAnyway_def askBlobs_def tellBlobs_def case_prod_beta G_refl)

lemmas G_commands =
  G_EnsureAccount G_CreateStoreToken G_RevokeStoreToken G_CreatePackage G_UpdatePackage G_CreateTracks G_CreateUpload
  G_ApproveUpload G_CreateRevision G_UpsertResourceDefinition G_CreateResourceRevision G_UpdateResourceRevision G_ReplaceRelease

lemma obeys_upsertResources:
  assumes S: "svc_repo S = R" and p: "obeys both p"
  shows "obeys both (upsertResources_calls S ids i t pid rs p)"
proof (induction rs arbitrary: i)
  case (Cons r rs)
  then show ?case by (cases r) (auto simp: S intro!: obeys_calls G_commands)
qed (simp add: p)

lemma obeys_publishRevision:
  assumes S: "svc_repo S = R"
  shows "obeys both (publishRevision_calls S E identity name pkg upload archive)"
  unfolding publishRevision_calls_def Let_def S by (auto intro!: obeys_calls obeys_upsertResources [OF S] G_commands)

lemma obeys_PushRevision:
  assumes S: "svc_repo S = R"
  shows "obeys both (PushRevision_calls S lib E identity name uploadID)"
  unfolding PushRevision_calls_def S
  by (auto intro!: obeys_calls obeys_publishRevision [OF S] G_commands split: sum.split)

lemma obeys_releaseLoop:
  assumes S: "svc_repo S = R" and p: "\<And>out. obeys both (p out)"
  shows "obeys both (releaseLoop_calls S ids identity t pid i rs out p)"
  by (induction rs arbitrary: i out) (auto simp: S p Let_def intro!: obeys_calls G_commands)

lemma obeys_updateLoop:
  assumes S: "svc_repo S = R"
  shows "obeys both (updateLoop_calls S i us n)"
  by (induction us arbitrary: n) (auto simp: S intro!: obeys_calls G_commands)

lemma obeys_IssueStoreToken:
  assumes S: "svc_repo S = R"
  shows "obeys both (IssueStoreToken_calls S E identity req)"
  unfolding IssueStoreToken_calls_def Let_def S by (auto intro!: obeys_calls G_commands split: prod.split)

lemma obeys_request:
  assumes S: "svc_repo S = R" and "removes r \<Longrightarrow> del"
  shows "obeys both (request_calls S lib E r)"
  using assms(2)
proof (cases r)
  case (Publish identity name uploadID)
  show ?thesis by (simp add: Publish obeys_PushRevision [OF S])
qed (auto simp: S Let_def ResolveIdentity_calls_def ExchangeStoreToken_calls_def RevokeStoreToken_calls_def
      RegisterPackage_calls_def UpdatePackage_calls_def UnregisterPackage_calls_def CreateTracks_calls_def
      CreateUpload_calls_def PushResource_calls_def UpdateResourceRevisions_calls_def Release_calls_def
      intro!: obeys_calls obeys_releaseLoop [OF S] obeys_updateLoop [OF S] obeys_IssueStoreToken [OF S] G_commands G_DeletePackage)

text \<open>Any interleaving of requests.\<close>

lemma pool_keeps:
  assumes "svc_repo S = R" and "\<And>E r. (E, r) \<in> set requests \<Longrightarrow> removes r \<Longrightarrow> del"
    and "interleaving (map (\<lambda>(E, r). request_calls S lib E r) requests, sb) (ps, sb')"
  shows "G (fst sb) (fst sb')"
proof -
  have "obeys both p" if "p \<in> set (map (\<lambda>(E, r). request_calls S lib E r) requests)" for p
    using that assms(2) obeys_request [OF assms(1)] by fastforce
  then show ?thesis by (rule protocol.pool_guarantee [OF both_protocol assms(3)])
qed

end

text \<open>An invariant of the commands is such a relation.\<close>

sublocale command_invariant \<subseteq> step: command_relation R "\<lambda>s s'. I s \<longrightarrow> I s'" True
  by unfold_locales (auto intro: keep_EnsureAccount keep_CreateStoreToken keep_RevokeStoreToken keep_CreatePackage
    keep_UpdatePackage keep_DeletePackage keep_CreateTracks keep_CreateUpload keep_ApproveUpload keep_CreateRevision
    keep_UpsertResourceDefinition keep_CreateResourceRevision keep_UpdateResourceRevision keep_ReplaceRelease)

end
