(* ===== verification/Database.thy ===== *)
theory Database
  imports Repository
begin

text \<open>
  The tables of \<^verbatim>\<open>internal/repo/migrations/0001_init.sql\<close> and what the SQL statements of the PostgreSQL
  repository use of the language: selection, joins, \<^verbatim>\<open>UPDATE\<close>, \<^verbatim>\<open>DELETE\<close> with its cascades, \<^verbatim>\<open>INSERT\<close> under
  the constraints of the tables, \<^verbatim>\<open>LIKE\<close> patterns, \<^verbatim>\<open>INTEGER\<close> parameters and the microsecond resolution of
  \<^verbatim>\<open>TIMESTAMPTZ\<close>.  A table is a list of rows in an unspecified physical order.  A column of type \<^verbatim>\<open>JSONB\<close> holds
  the value that was encoded.  Text is taken to be valid UTF-8 without zero bytes, the connection to be up.
\<close>

section \<open>Tables\<close>

text \<open>The rows are the records of the data model; the columns a table does not have are at their zero values.\<close>

record package_acl =
  acl_PackageID :: string
  acl_PrincipalType :: string
  acl_PrincipalID :: string
  acl_Role :: string

record track_row =
  tr_PackageID :: string
  tr_Track :: track

record database =
  db_accounts :: "account list"
  db_group_members :: "(string \<times> string) list"
  db_packages :: "package list"
  db_package_acl :: "package_acl list"
  db_tracks :: "track_row list"
  db_uploads :: "upload list"
  db_revisions :: "revision list"
  db_resource_definitions :: "resource_definition list"
  db_resource_revisions :: "resource_revision list"
  db_releases :: "release list"
  db_store_tokens :: "store_token list"

definition empty_database :: database where
  "empty_database =
     \<lparr>db_accounts = [], db_group_members = [], db_packages = [], db_package_acl = [], db_tracks = [],
      db_uploads = [], db_revisions = [], db_resource_definitions = [], db_resource_revisions = [],
      db_releases = [], db_store_tokens = []\<rparr>"

section \<open>Errors of the server\<close>

text \<open>\<^verbatim>\<open>(*pgconn.PgError).Error()\<close>\<close>

definition pgError :: "string \<Rightarrow> string \<Rightarrow> goerr" where
  "pgError message code = Errorf (''ERROR: '' @ message @ '' (SQLSTATE '' @ code @ '')'')"

definition uniqueViolation :: "string \<Rightarrow> goerr" where
  "uniqueViolation name =
     pgError (''duplicate key value violates unique constraint '' @ [CHR 0x22] @ name @ [CHR 0x22]) ''23505''"

definition foreignKeyViolation :: "string \<Rightarrow> string \<Rightarrow> goerr" where
  "foreignKeyViolation tab name =
     pgError (''insert or update on table '' @ [CHR 0x22] @ tab @ [CHR 0x22] @ '' violates foreign key constraint ''
       @ [CHR 0x22] @ name @ [CHR 0x22]) ''23503''"

section \<open>Statements\<close>

text \<open>The row of a query that returns one, \<^verbatim>\<open>pgx.ErrNoRows\<close> mapped to \<^verbatim>\<open>ErrNotFound\<close> as every caller does.\<close>

definition queryRow :: "'a list \<Rightarrow> 'a res" where
  "queryRow rows = (case rows of [] \<Rightarrow> Inl ErrNotFound | r # _ \<Rightarrow> Inr r)"

definition updateWhere :: "('a \<Rightarrow> bool) \<Rightarrow> ('a \<Rightarrow> 'a) \<Rightarrow> 'a list \<Rightarrow> 'a list" where
  "updateWhere P f rows = map (\<lambda>r. if P r then f r else r) rows"

text \<open>\<^verbatim>\<open>if tag.RowsAffected() == 0 { return ErrNotFound }\<close>\<close>

definition affected :: "('a \<Rightarrow> bool) \<Rightarrow> 'a list \<Rightarrow> 'd \<Rightarrow> 'd \<Rightarrow> unit res \<times> 'd" where
  "affected P rows db db' = (if \<exists>r \<in> set rows. P r then (Inr (), db') else (Inl ErrNotFound, db))"

text \<open>The checks of an \<^verbatim>\<open>INSERT\<close>: the first that fails is the error of the statement.\<close>

fun checks :: "(bool \<times> goerr) list \<Rightarrow> goerr option" where
  "checks [] = None"
| "checks ((ok, err) # rest) = (if ok then checks rest else Some err)"

definition insertUnless :: "(bool \<times> goerr) list \<Rightarrow> 'd \<Rightarrow> 'd \<Rightarrow> unit res \<times> 'd" where
  "insertUnless cs db db' = (case checks cs of Some err \<Rightarrow> (Inl err, db) | None \<Rightarrow> (Inr (), db'))"

text \<open>A value that no row of a column has; a value that some row has.\<close>

definition unused :: "('a \<Rightarrow> 'k) \<Rightarrow> 'k \<Rightarrow> 'a list \<Rightarrow> bool" where
  "unused key k rows = list_all (\<lambda>r. key r \<noteq> k) rows"

definition references :: "('a \<Rightarrow> 'k) \<Rightarrow> 'k \<Rightarrow> 'a list \<Rightarrow> bool" where
  "references key k rows = list_ex (\<lambda>r. key r = k) rows"

section \<open>Types\<close>

text \<open>A time stamp is stored in microseconds; the driver cuts off the rest.\<close>

definition timestamptz :: "time \<Rightarrow> time" where
  "timestamptz t = t - t mod 1000"

text \<open>A parameter for an \<^verbatim>\<open>INTEGER\<close> column is encoded in 32 bits.\<close>

definition int4 :: "int \<Rightarrow> bool" where
  "int4 n \<longleftrightarrow> - (2 ^ 31) \<le> n \<and> n < 2 ^ 31"

definition int4Error :: "int \<Rightarrow> goerr" where
  "int4Error n = Errorf (''unable to encode '' @ itoa n @ '' into binary format for int4'')"

text \<open>The check of a parameter that may be \<^verbatim>\<open>NULL\<close>.\<close>

definition int4Option :: "int option \<Rightarrow> (bool \<times> goerr) list" where
  "int4Option n = (case n of None \<Rightarrow> [] | Some i \<Rightarrow> [(int4 i, int4Error i)])"

lemma int4Option_simps [simp]: "int4Option None = []" "int4Option (Some i) = [(int4 i, int4Error i)]"
  by (simp_all add: int4Option_def)

section \<open>LIKE\<close>

text \<open>\<^verbatim>\<open>%\<close> matches any text, \<^verbatim>\<open>_\<close> any character, a backslash takes the next character literally.\<close>

fun like :: "string \<Rightarrow> string \<Rightarrow> bool" where
  "like [] s = (s = [])"
| "like (p # ps) s =
     (if p = CHR ''%'' then like ps s \<or> (case s of [] \<Rightarrow> False | _ # t \<Rightarrow> like (p # ps) t)
      else case s of
        [] \<Rightarrow> False
      | c # t \<Rightarrow>
          (if p = CHR ''_'' then like ps t
           else if p = CHR 0x5C
             then (case ps of [] \<Rightarrow> False | q # qs \<Rightarrow> q = c \<and> like qs t)
           else p = c \<and> like ps t))"

text \<open>\<^verbatim>\<open>ILIKE\<close> compares without regard to case.\<close>

definition ilike :: "string \<Rightarrow> string \<Rightarrow> bool" where
  "ilike s pattern = like (toLower pattern) (toLower s)"

section \<open>Lemmas\<close>

lemma queryRow_iff [res_iff]:
  "queryRow rows = Inr r \<longleftrightarrow> (\<exists>rest. rows = r # rest)"
  "queryRow rows = Inl e \<longleftrightarrow> rows = [] \<and> e = ErrNotFound"
  by (cases rows; auto simp: queryRow_def)+

lemma queryRow_simps [simp]: "queryRow [] = Inl ErrNotFound" "queryRow (r # rs) = Inr r"
  by (simp_all add: queryRow_def)

lemma set_updateWhere: "set (updateWhere P f rows) = (\<lambda>r. if P r then f r else r) ` set rows"
  by (simp add: updateWhere_def)

lemma map_updateWhere: "(\<And>r. key (f r) = key r) \<Longrightarrow> map key (updateWhere P f rows) = map key rows"
  by (simp add: updateWhere_def)

lemma updateWhere_append [simp]: "updateWhere P f (xs @ ys) = updateWhere P f xs @ updateWhere P f ys"
  by (simp add: updateWhere_def)

lemma filter_updateWhere:
  "(\<And>r. Q (f r) = Q r) \<Longrightarrow> filter Q (updateWhere P f rows) = updateWhere P f (filter Q rows)"
  by (induction rows) (auto simp: updateWhere_def)

lemma affected_simps:
  "affected P rows db db' = (Inr (), d) \<longleftrightarrow> (\<exists>r \<in> set rows. P r) \<and> d = db'"
  "snd (affected P rows db db') = (if \<exists>r \<in> set rows. P r then db' else db)"
  by (auto simp: affected_def)

lemma insertUnless_Inr: "insertUnless cs db db' = (Inr u, d) \<longleftrightarrow> list_all fst cs \<and> d = db'"
proof -
  have "checks cs = None \<longleftrightarrow> list_all fst cs" by (induction cs rule: checks.induct) auto
  then show ?thesis by (auto simp: insertUnless_def split: option.split)
qed

lemma insertUnless_ok: "list_all fst cs \<Longrightarrow> insertUnless cs db db' = (Inr (), db')"
  by (simp add: insertUnless_Inr)

lemma unused_iff: "unused key k rows \<longleftrightarrow> k \<notin> key ` set rows"
  by (auto simp: unused_def list_all_iff)

lemma references_iff: "references key k rows \<longleftrightarrow> k \<in> key ` set rows"
  by (auto simp: references_def list_ex_iff)

lemma timestamptz_bounds: "timestamptz t \<le> t" "t < timestamptz t + 1000"
  by (simp_all add: timestamptz_def)

lemma timestamptz_eq: "timestamptz t = 1000 * (t div 1000)"
  unfolding timestamptz_def by (simp add: minus_mod_eq_mult_div)

lemma timestamptz_idem [simp]: "timestamptz (timestamptz t) = timestamptz t"
  by (simp add: timestamptz_eq)

lemma timestamptz_mono: "s \<le> t \<Longrightarrow> timestamptz s \<le> timestamptz t"
  unfolding timestamptz_eq using zdiv_mono1 [of s t 1000] by simp

end
