(* ===== verification/Postgres.thy ===== *)
theory Postgres
  imports Database
begin

text \<open>
  The PostgreSQL repository, \<^verbatim>\<open>internal/repo/postgres*.go\<close>: one definition per method over the tables, each
  the meaning of the method's SQL statements and of the Go code around them.  \<^verbatim>\<open>NOW()\<close> is the reading of the
  clock the interface passes; an order the statement leaves open, or leaves to the collation of the
  database, is the iteration order of the interface.
\<close>

section \<open>Rows\<close>

text \<open>What is stored of a value, and what a scan makes of a row.\<close>

definition zero_publisher :: publisher where
  "zero_publisher = \<lparr>pub_ID = [], pub_Username = [], pub_DisplayName = [], pub_Email = [], pub_Validation = []\<rparr>"

definition packageRow :: "package \<Rightarrow> package" where
  "packageRow pkg = pkg\<lparr>pkg_Tracks := [], pkg_Publisher := zero_publisher, pkg_Store := [],
     pkg_CreatedAt := timestamptz (pkg_CreatedAt pkg), pkg_UpdatedAt := timestamptz (pkg_UpdatedAt pkg)\<rparr>"

definition scanPackage :: "package \<Rightarrow> account \<Rightarrow> package" where
  "scanPackage pkg a = pkg\<lparr>pkg_Publisher :=
     \<lparr>pub_ID = acc_ID a, pub_Username = acc_Username a, pub_DisplayName = acc_DisplayName a,
      pub_Email = acc_Email a, pub_Validation = acc_Validation a\<rparr>, pkg_Store := []\<rparr>"

definition tokenRow :: "store_token \<Rightarrow> store_token" where
  "tokenRow tok = tok\<lparr>tok_ValidSince := timestamptz (tok_ValidSince tok), tok_ValidUntil := timestamptz (tok_ValidUntil tok),
     tok_RevokedAt := map_option timestamptz (tok_RevokedAt tok)\<rparr>"

definition trackRow :: "track \<Rightarrow> track" where
  "trackRow t = t\<lparr>trk_CreatedAt := timestamptz (trk_CreatedAt t)\<rparr>"

definition uploadRow :: "upload \<Rightarrow> upload" where
  "uploadRow u = u\<lparr>upl_CreatedAt := timestamptz (upl_CreatedAt u), upl_ApprovedAt := map_option timestamptz (upl_ApprovedAt u)\<rparr>"

definition revisionRowOf :: "revision \<Rightarrow> revision" where
  "revisionRowOf rv = rv\<lparr>rev_CreatedAt := timestamptz (rev_CreatedAt rv), rev_Resources := []\<rparr>"

definition definitionRow :: "resource_definition \<Rightarrow> resource_definition" where
  "definitionRow d = d\<lparr>rd_CreatedAt := timestamptz (rd_CreatedAt d)\<rparr>"

definition resourceRow :: "resource_revision \<Rightarrow> resource_revision" where
  "resourceRow rr = rr\<lparr>rr_CreatedAt := timestamptz (rr_CreatedAt rr), rr_Download := zero_download\<rparr>"

definition releaseRowOf :: "string \<Rightarrow> release \<Rightarrow> release" where
  "releaseRowOf packageID rl = rl\<lparr>rel_PackageID := packageID, rel_When := timestamptz (rel_When rl),
     rel_ExpirationDate := map_option timestamptz (rel_ExpirationDate rl)\<rparr>"

section \<open>Accounts and tokens\<close>

definition Postgres_EnsureAccount :: "time \<Rightarrow> account \<Rightarrow> database \<Rightarrow> account res \<times> database" where
  "Postgres_EnsureAccount t account db =
     (case filter (\<lambda>r. acc_Subject r = acc_Subject account) (db_accounts db) of
        existing # _ \<Rightarrow>
          (let excluded = (\<lambda>r. r\<lparr>acc_Username := acc_Username account, acc_DisplayName := acc_DisplayName account,
                                acc_Email := acc_Email account, acc_Validation := acc_Validation account\<rparr>) in
           (Inr (excluded existing),
            db\<lparr>db_accounts := updateWhere (\<lambda>r. acc_Subject r = acc_Subject account) excluded (db_accounts db)\<rparr>))
      | [] \<Rightarrow>
          (let stored = account\<lparr>acc_CreatedAt := timestamptz (acc_CreatedAt account)\<rparr> in
           st_bind (insertUnless [(unused acc_ID (acc_ID account) (db_accounts db), uniqueViolation ''accounts_pkey'')]
                      db (db\<lparr>db_accounts := db_accounts db @ [stored]\<rparr>))
             (\<lambda>_ db1. (Inr stored, db1))))"

definition Postgres_GetAccountByID :: "string \<Rightarrow> database \<Rightarrow> account res" where
  "Postgres_GetAccountByID accountID db = queryRow (filter (\<lambda>r. acc_ID r = accountID) (db_accounts db))"

definition Postgres_CreateStoreToken :: "store_token \<Rightarrow> database \<Rightarrow> unit res \<times> database" where
  "Postgres_CreateStoreToken token db =
     insertUnless
       [(unused tok_SessionID (tok_SessionID token) (db_store_tokens db), uniqueViolation ''store_tokens_pkey''),
        (unused tok_TokenHash (tok_TokenHash token) (db_store_tokens db), uniqueViolation ''store_tokens_token_hash_key''),
        (references acc_ID (tok_AccountID token) (db_accounts db),
         foreignKeyViolation ''store_tokens'' ''store_tokens_account_id_fkey'')]
       db (db\<lparr>db_store_tokens := db_store_tokens db @ [tokenRow token]\<rparr>)"

definition Postgres_ListStoreTokens ::
    "(nat \<Rightarrow> time) \<Rightarrow> shuffle \<Rightarrow> string \<Rightarrow> bool \<Rightarrow> database \<Rightarrow> store_token list res" where
  "Postgres_ListStoreTokens clk sh accountID includeInactive db =
     Inr (sort_key tok_ValidSince (go_range sh (filter (\<lambda>r. tok_AccountID r = accountID
       \<and> (includeInactive \<or> tok_RevokedAt r = None \<and> timestamptz (clk 0) < tok_ValidUntil r)) (db_store_tokens db))))"

definition Postgres_RevokeStoreToken ::
    "time \<Rightarrow> shuffle \<Rightarrow> string \<Rightarrow> string \<Rightarrow> string \<Rightarrow> database \<Rightarrow> unit res \<times> database" where
  "Postgres_RevokeStoreToken t sh accountID sessionID revokedBy db =
     affected (\<lambda>r. tok_AccountID r = accountID \<and> tok_SessionID r = sessionID) (db_store_tokens db) db
       (db\<lparr>db_store_tokens := updateWhere (\<lambda>r. tok_AccountID r = accountID \<and> tok_SessionID r = sessionID)
          (\<lambda>r. r\<lparr>tok_RevokedAt := Some (timestamptz t), tok_RevokedBy := Some revokedBy\<rparr>) (db_store_tokens db)\<rparr>)"

definition Postgres_FindStoreTokenByHash :: "string \<Rightarrow> database \<Rightarrow> (store_token \<times> account) res" where
  "Postgres_FindStoreTokenByHash hash db =
     queryRow (concat (map (\<lambda>t. map (\<lambda>a. (t, a)) (filter (\<lambda>a. acc_ID a = tok_AccountID t) (db_accounts db)))
       (filter (\<lambda>t. tok_TokenHash t = hash) (db_store_tokens db))))"

section \<open>Packages\<close>

definition insertPackage :: "package \<Rightarrow> database \<Rightarrow> unit res \<times> database" where
  "insertPackage pkg db =
     insertUnless
       [(unused pkg_ID (pkg_ID pkg) (db_packages db), uniqueViolation ''packages_pkey''),
        (unused pkg_Name (pkg_Name pkg) (db_packages db), uniqueViolation ''packages_name_key''),
        (references acc_ID (pkg_OwnerAccountID pkg) (db_accounts db),
         foreignKeyViolation ''packages'' ''packages_owner_account_id_fkey'')]
       db (db\<lparr>db_packages := db_packages db @ [packageRow pkg]\<rparr>)"

definition Postgres_CreatePackage :: "package \<Rightarrow> database \<Rightarrow> unit res \<times> database" where
  "Postgres_CreatePackage pkg db =
     map_err_st (\<lambda>err. if containsStr (errText err) ''duplicate key''
       then ErrConflict ''package already exists: conflict'' else err) (insertPackage pkg db)"

definition Postgres_UpdatePackage :: "package \<Rightarrow> database \<Rightarrow> unit res \<times> database" where
  "Postgres_UpdatePackage pkg db =
     affected (\<lambda>r. pkg_ID r = pkg_ID pkg) (db_packages db) db
       (db\<lparr>db_packages := updateWhere (\<lambda>r. pkg_ID r = pkg_ID pkg)
          (\<lambda>r. r\<lparr>pkg_Private := pkg_Private pkg, pkg_Status := pkg_Status pkg, pkg_Authority := pkg_Authority pkg,
                 pkg_Contact := pkg_Contact pkg, pkg_DefaultTrack := pkg_DefaultTrack pkg,
                 pkg_Description := pkg_Description pkg, pkg_Summary := pkg_Summary pkg, pkg_Title := pkg_Title pkg,
                 pkg_Website := pkg_Website pkg, pkg_Links := pkg_Links pkg, pkg_Media := pkg_Media pkg,
                 pkg_TrackGuardrails := pkg_TrackGuardrails pkg, pkg_UpdatedAt := timestamptz (pkg_UpdatedAt pkg)\<rparr>)
          (db_packages db)\<rparr>)"

text \<open>\<^verbatim>\<open>DELETE FROM packages\<close> with the cascades of the tables that reference it, directly or through the
resource definitions.\<close>

definition cascade :: "string \<Rightarrow> database \<Rightarrow> database" where
  "cascade packageID db =
     (let gone = map rd_ID (filter (\<lambda>d. rd_PackageID d = packageID) (db_resource_definitions db)) in
      db\<lparr>db_packages := filter (\<lambda>r. pkg_ID r \<noteq> packageID) (db_packages db),
         db_package_acl := filter (\<lambda>r. acl_PackageID r \<noteq> packageID) (db_package_acl db),
         db_tracks := filter (\<lambda>r. tr_PackageID r \<noteq> packageID) (db_tracks db),
         db_revisions := filter (\<lambda>r. rev_PackageID r \<noteq> packageID) (db_revisions db),
         db_resource_definitions := filter (\<lambda>r. rd_PackageID r \<noteq> packageID) (db_resource_definitions db),
         db_resource_revisions := filter (\<lambda>r. rr_ResourceID r \<notin> set gone) (db_resource_revisions db),
         db_releases := filter (\<lambda>r. rel_PackageID r \<noteq> packageID) (db_releases db)\<rparr>)"

definition Postgres_DeletePackage :: "string \<Rightarrow> database \<Rightarrow> unit res \<times> database" where
  "Postgres_DeletePackage packageID db =
     affected (\<lambda>r. pkg_ID r = packageID) (db_packages db) db (cascade packageID db)"

text \<open>\<^verbatim>\<open>packageQuery\<close>: the packages that satisfy a condition, joined with their owners.\<close>

definition packageQuery :: "(package \<Rightarrow> bool) \<Rightarrow> database \<Rightarrow> package list" where
  "packageQuery P db =
     concat (map (\<lambda>p. map (scanPackage p) (filter (\<lambda>a. acc_ID a = pkg_OwnerAccountID p) (db_accounts db)))
       (filter P (db_packages db)))"

definition Postgres_GetPackageByName :: "string \<Rightarrow> database \<Rightarrow> package res" where
  "Postgres_GetPackageByName name db = queryRow (packageQuery (\<lambda>p. pkg_Name p = name) db)"

definition Postgres_GetPackageByID :: "string \<Rightarrow> database \<Rightarrow> package res" where
  "Postgres_GetPackageByID packageID db = queryRow (packageQuery (\<lambda>p. pkg_ID p = packageID) db)"

text \<open>The access list of a package, joined with the members of its groups: the rows that name the account.\<close>

definition aclNames :: "string \<Rightarrow> string \<Rightarrow> package_acl \<Rightarrow> database \<Rightarrow> bool" where
  "aclNames packageID accountID acl db \<longleftrightarrow>
     acl_PackageID acl = packageID \<and>
     (acl_PrincipalType acl = ''account'' \<and> acl_PrincipalID acl = accountID \<or>
      acl_PrincipalType acl = ''group'' \<and> list_ex (\<lambda>gm. gm = (acl_PrincipalID acl, accountID)) (db_group_members db))"

definition Postgres_ListPackagesForAccount :: "shuffle \<Rightarrow> string \<Rightarrow> bool \<Rightarrow> database \<Rightarrow> package list res" where
  "Postgres_ListPackagesForAccount sh accountID includeCollaborations db =
     Inr (go_range sh (packageQuery (\<lambda>p. pkg_OwnerAccountID p = accountID
       \<or> includeCollaborations \<and> list_ex (\<lambda>acl. aclNames (pkg_ID p) accountID acl db) (db_package_acl db)) db))"

definition searchPattern :: "string \<Rightarrow> string" where
  "searchPattern query = (let trimmed = trimSpace query in if trimmed \<noteq> [] then ''%'' @ trimmed @ ''%'' else ''%'')"

definition Postgres_SearchPackages :: "shuffle \<Rightarrow> string \<Rightarrow> database \<Rightarrow> package list res" where
  "Postgres_SearchPackages sh query db =
     Inr (go_range sh (packageQuery (\<lambda>p. ilike (pkg_Name p) (searchPattern query)) db))"

definition canAccess :: "string \<Rightarrow> string \<Rightarrow> bool \<Rightarrow> database \<Rightarrow> bool res" where
  "canAccess packageID accountID manage db =
     res_bind (queryRow (map (\<lambda>p. (pkg_Private p, pkg_OwnerAccountID p))
                 (filter (\<lambda>p. pkg_ID p = packageID) (db_packages db)))) (\<lambda>(isPrivate, ownerID).
     if \<not> manage \<and> \<not> isPrivate then Inr True
     else if accountID = [] then Inr False
     else if ownerID = accountID then Inr True
     else
       let roles = (if manage then [''editor'', ''owner''] else [''viewer'', ''editor'', ''owner'']) in
       Inr (list_ex (\<lambda>acl. aclNames packageID accountID acl db \<and> acl_Role acl \<in> set roles) (db_package_acl db)))"

definition Postgres_CanViewPackage :: "string \<Rightarrow> string \<Rightarrow> database \<Rightarrow> bool res" where
  "Postgres_CanViewPackage packageID accountID db = canAccess packageID accountID False db"

definition Postgres_CanManagePackage :: "string \<Rightarrow> string \<Rightarrow> database \<Rightarrow> bool res" where
  "Postgres_CanManagePackage packageID accountID db = canAccess packageID accountID True db"

section \<open>Tracks\<close>

text \<open>One statement per track; an error keeps the tracks before it.\<close>

fun insertTracks :: "string \<Rightarrow> nat \<Rightarrow> track list \<Rightarrow> database \<Rightarrow> nat res \<times> database" where
  "insertTracks packageID created [] db = (Inr created, db)"
| "insertTracks packageID created (track # ts) db =
     (if list_ex (\<lambda>r. tr_PackageID r = packageID \<and> trk_Name (tr_Track r) = trk_Name track) (db_tracks db)
      then insertTracks packageID created ts db
      else
        st_bind (insertUnless [(references pkg_ID packageID (db_packages db),
                                foreignKeyViolation ''tracks'' ''tracks_package_id_fkey'')]
                   db (db\<lparr>db_tracks := db_tracks db @ [\<lparr>tr_PackageID = packageID, tr_Track = trackRow track\<rparr>]\<rparr>))
          (\<lambda>_ db1. insertTracks packageID (Suc created) ts db1))"

definition Postgres_CreateTracks :: "string \<Rightarrow> track list \<Rightarrow> database \<Rightarrow> nat res \<times> database" where
  "Postgres_CreateTracks packageID ts db = insertTracks packageID 0 ts db"

definition Postgres_ListTracks :: "shuffle \<Rightarrow> string \<Rightarrow> database \<Rightarrow> track list res" where
  "Postgres_ListTracks sh packageID db =
     Inr (sort_key trk_CreatedAt (go_range sh (map tr_Track (filter (\<lambda>r. tr_PackageID r = packageID) (db_tracks db)))))"

section \<open>Uploads and revisions\<close>

definition Postgres_CreateUpload :: "upload \<Rightarrow> database \<Rightarrow> unit res \<times> database" where
  "Postgres_CreateUpload upload db =
     insertUnless (int4Option (upl_Revision upload)
         @ [(unused upl_ID (upl_ID upload) (db_uploads db), uniqueViolation ''uploads_pkey'')])
       db (db\<lparr>db_uploads := db_uploads db @ [uploadRow upload]\<rparr>)"

definition Postgres_GetUpload :: "string \<Rightarrow> database \<Rightarrow> upload res" where
  "Postgres_GetUpload uploadID db = queryRow (filter (\<lambda>r. upl_ID r = uploadID) (db_uploads db))"

definition Postgres_ApproveUpload ::
    "time \<Rightarrow> string \<Rightarrow> int option \<Rightarrow> api_error list \<Rightarrow> database \<Rightarrow> unit res \<times> database" where
  "Postgres_ApproveUpload t uploadID revision apiErrors db =
     (let status = (if apiErrors \<noteq> [] then ''rejected'' else ''approved'') in
      case revision of
        Some n \<Rightarrow> if \<not> int4 n then (Inl (int4Error n), db)
                  else affected (\<lambda>r. upl_ID r = uploadID) (db_uploads db) db
                    (db\<lparr>db_uploads := updateWhere (\<lambda>r. upl_ID r = uploadID) (\<lambda>r. r\<lparr>upl_ApprovedAt := Some (timestamptz t),
                       upl_Revision := Some n, upl_Errors := apiErrors, upl_Status := status\<rparr>) (db_uploads db)\<rparr>)
      | None \<Rightarrow> affected (\<lambda>r. upl_ID r = uploadID) (db_uploads db) db
                    (db\<lparr>db_uploads := updateWhere (\<lambda>r. upl_ID r = uploadID) (\<lambda>r. r\<lparr>upl_ApprovedAt := Some (timestamptz t),
                       upl_Revision := None, upl_Errors := apiErrors, upl_Status := status\<rparr>) (db_uploads db)\<rparr>))"

definition Postgres_CreateRevision :: "revision \<Rightarrow> database \<Rightarrow> unit res \<times> database" where
  "Postgres_CreateRevision rv db =
     insertUnless
       [(int4 (rev_Revision rv), int4Error (rev_Revision rv)),
        (unused rev_ID (rev_ID rv) (db_revisions db), uniqueViolation ''revisions_pkey''),
        (unused (\<lambda>r. (rev_PackageID r, rev_Revision r)) (rev_PackageID rv, rev_Revision rv) (db_revisions db),
         uniqueViolation ''revisions_package_id_revision_key''),
        (references pkg_ID (rev_PackageID rv) (db_packages db),
         foreignKeyViolation ''revisions'' ''revisions_package_id_fkey'')]
       db (db\<lparr>db_revisions := db_revisions db @ [revisionRowOf rv]\<rparr>)"

text \<open>\<^verbatim>\<open>ORDER BY revision DESC\<close>; the numbers of a package are distinct.\<close>

definition Postgres_ListRevisions :: "string \<Rightarrow> int option \<Rightarrow> database \<Rightarrow> revision list res" where
  "Postgres_ListRevisions packageID revision db =
     (let rows = filter (\<lambda>r. rev_PackageID r = packageID) (db_revisions db) in
      case revision of
        None \<Rightarrow> Inr (sort_key (\<lambda>r. - rev_Revision r) rows)
      | Some n \<Rightarrow>
          if \<not> int4 n then Inl (int4Error n)
          else Inr (sort_key (\<lambda>r. - rev_Revision r) (filter (\<lambda>r. rev_Revision r = n) rows)))"

definition Postgres_GetRevisionByNumber :: "string \<Rightarrow> int \<Rightarrow> database \<Rightarrow> revision res" where
  "Postgres_GetRevisionByNumber packageID n db =
     res_bind (Postgres_ListRevisions packageID (Some n) db) (\<lambda>rows.
     case rows of [] \<Rightarrow> Inl ErrNotFound | r # _ \<Rightarrow> Inr r)"

definition Postgres_GetLatestRevision :: "string \<Rightarrow> database \<Rightarrow> revision res" where
  "Postgres_GetLatestRevision packageID db =
     res_bind (Postgres_ListRevisions packageID None db) (\<lambda>rows.
     case rows of [] \<Rightarrow> Inl ErrNotFound | r # _ \<Rightarrow> Inr r)"

section \<open>Resources\<close>

definition Postgres_UpsertResourceDefinition ::
    "resource_definition \<Rightarrow> database \<Rightarrow> resource_definition res \<times> database" where
  "Postgres_UpsertResourceDefinition resource db =
     (let same = (\<lambda>r. rd_PackageID r = rd_PackageID resource \<and> rd_Name r = rd_Name resource) in
      case filter same (db_resource_definitions db) of
        existing # _ \<Rightarrow>
          (let excluded = (\<lambda>r. r\<lparr>rd_Type := rd_Type resource, rd_Description := rd_Description resource,
                                rd_Filename := rd_Filename resource, rd_Optional := rd_Optional resource\<rparr>) in
           (Inr (excluded existing),
            db\<lparr>db_resource_definitions := updateWhere same excluded (db_resource_definitions db)\<rparr>))
      | [] \<Rightarrow>
          st_bind (insertUnless
             [(unused rd_ID (rd_ID resource) (db_resource_definitions db), uniqueViolation ''resource_definitions_pkey''),
              (references pkg_ID (rd_PackageID resource) (db_packages db),
               foreignKeyViolation ''resource_definitions'' ''resource_definitions_package_id_fkey'')]
             db (db\<lparr>db_resource_definitions := db_resource_definitions db @ [definitionRow resource]\<rparr>))
           (\<lambda>_ db1. (Inr (definitionRow resource), db1)))"

definition Postgres_GetResourceDefinition :: "string \<Rightarrow> string \<Rightarrow> database \<Rightarrow> resource_definition res" where
  "Postgres_GetResourceDefinition packageID resourceName db =
     queryRow (filter (\<lambda>r. rd_PackageID r = packageID \<and> rd_Name r = resourceName) (db_resource_definitions db))"

definition Postgres_ListResourceDefinitions :: "shuffle \<Rightarrow> string \<Rightarrow> database \<Rightarrow> resource_definition list res" where
  "Postgres_ListResourceDefinitions sh packageID db =
     Inr (go_range sh (filter (\<lambda>r. rd_PackageID r = packageID) (db_resource_definitions db)))"

definition Postgres_CreateResourceRevision :: "resource_revision \<Rightarrow> database \<Rightarrow> unit res \<times> database" where
  "Postgres_CreateResourceRevision rv db =
     insertUnless
       [(int4 (rr_Revision rv), int4Error (rr_Revision rv)),
        (unused rr_ID (rr_ID rv) (db_resource_revisions db), uniqueViolation ''resource_revisions_pkey''),
        (unused (\<lambda>r. (rr_ResourceID r, rr_Revision r)) (rr_ResourceID rv, rr_Revision rv) (db_resource_revisions db),
         uniqueViolation ''resource_revisions_resource_id_revision_key''),
        (references rd_ID (rr_ResourceID rv) (db_resource_definitions db),
         foreignKeyViolation ''resource_revisions'' ''resource_revisions_resource_id_fkey'')]
       db (db\<lparr>db_resource_revisions := db_resource_revisions db @ [resourceRow rv]\<rparr>)"

definition Postgres_UpdateResourceRevision :: "resource_revision \<Rightarrow> database \<Rightarrow> unit res \<times> database" where
  "Postgres_UpdateResourceRevision rv db =
     (let same = (\<lambda>r. rr_ResourceID r = rr_ResourceID rv \<and> rr_Revision r = rr_Revision rv \<and> rr_ID r = rr_ID rv) in
      if \<not> int4 (rr_Revision rv) then (Inl (int4Error (rr_Revision rv)), db)
      else affected same (db_resource_revisions db) db
        (db\<lparr>db_resource_revisions := updateWhere same
           (\<lambda>r. r\<lparr>rr_Bases := rr_Bases rv, rr_Architectures := rr_Architectures rv,
                  rr_OCIImageDigest := rr_OCIImageDigest rv, rr_OCIImageBlob := rr_OCIImageBlob rv\<rparr>)
           (db_resource_revisions db)\<rparr>))"

definition Postgres_ListResourceRevisions :: "string \<Rightarrow> database \<Rightarrow> resource_revision list res" where
  "Postgres_ListResourceRevisions resourceID db =
     Inr (sort_key (\<lambda>r. - rr_Revision r) (filter (\<lambda>r. rr_ResourceID r = resourceID) (db_resource_revisions db)))"

definition Postgres_GetResourceRevision :: "string \<Rightarrow> int \<Rightarrow> database \<Rightarrow> resource_revision res" where
  "Postgres_GetResourceRevision resourceID revision db =
     res_bind (Postgres_ListResourceRevisions resourceID db) (\<lambda>rows.
     case find (\<lambda>item. rr_Revision item = revision) rows of None \<Rightarrow> Inl ErrNotFound | Some item \<Rightarrow> Inr item)"

section \<open>Releases\<close>

definition Postgres_ReplaceRelease :: "string \<Rightarrow> release \<Rightarrow> database \<Rightarrow> unit res \<times> database" where
  "Postgres_ReplaceRelease packageID release db =
     (let row = releaseRowOf packageID release;
          same = (\<lambda>r. rel_PackageID r = packageID \<and> rel_Channel r = rel_Channel release) in
      if \<not> int4 (rel_Revision release) then (Inl (int4Error (rel_Revision release)), db)
      else if list_ex same (db_releases db)
      then (Inr (), db\<lparr>db_releases := updateWhere same
              (\<lambda>r. r\<lparr>rel_Revision := rel_Revision row, rel_Base := rel_Base row, rel_Resources := rel_Resources row,
                     rel_When := rel_When row, rel_ExpirationDate := rel_ExpirationDate row,
                     rel_Progressive := rel_Progressive row\<rparr>) (db_releases db)\<rparr>)
      else insertUnless
        [(unused rel_ID (rel_ID release) (db_releases db), uniqueViolation ''releases_pkey''),
         (references pkg_ID packageID (db_packages db), foreignKeyViolation ''releases'' ''releases_package_id_fkey'')]
        db (db\<lparr>db_releases := db_releases db @ [row]\<rparr>))"

definition releasesOf :: "string \<Rightarrow> database \<Rightarrow> release list" where
  "releasesOf packageID db = filter (\<lambda>r. rel_PackageID r = packageID) (db_releases db)"

definition Postgres_ListReleases :: "shuffle \<Rightarrow> string \<Rightarrow> database \<Rightarrow> release list res" where
  "Postgres_ListReleases sh packageID db = Inr (go_range sh (releasesOf packageID db))"

definition Postgres_ResolveRelease :: "string \<Rightarrow> string \<Rightarrow> database \<Rightarrow> release res" where
  "Postgres_ResolveRelease packageID channel db =
     queryRow (filter (\<lambda>r. rel_Channel r = channel) (releasesOf packageID db))"

text \<open>First the release of the package's default channel, then the one released last.\<close>

definition Postgres_ResolveDefaultRelease :: "shuffle \<Rightarrow> string \<Rightarrow> database \<Rightarrow> release res" where
  "Postgres_ResolveDefaultRelease sh packageID db =
     (let defaults = concat (map (\<lambda>p. filter (\<lambda>r. rel_Channel r =
              (case pkg_DefaultTrack p of Some track \<Rightarrow> track @ ''/stable'' | None \<Rightarrow> ''latest/stable''))
              (releasesOf packageID db)) (filter (\<lambda>p. pkg_ID p = packageID) (db_packages db))) in
      case queryRow (sort_key (\<lambda>r. - rel_When r) defaults) of
        Inl ErrNotFound \<Rightarrow> queryRow (sort_key (\<lambda>r. - rel_When r) (go_range sh (releasesOf packageID db)))
      | r \<Rightarrow> r)"

section \<open>The interface value\<close>

definition postgres_repo :: "database repository" where
  "postgres_repo =
     \<lparr>EnsureAccount = Postgres_EnsureAccount,
      GetAccountByID = Postgres_GetAccountByID,
      CreateStoreToken = Postgres_CreateStoreToken,
      ListStoreTokens = Postgres_ListStoreTokens,
      RevokeStoreToken = Postgres_RevokeStoreToken,
      FindStoreTokenByHash = Postgres_FindStoreTokenByHash,
      CreatePackage = Postgres_CreatePackage,
      UpdatePackage = Postgres_UpdatePackage,
      DeletePackage = Postgres_DeletePackage,
      GetPackageByName = Postgres_GetPackageByName,
      GetPackageByID = Postgres_GetPackageByID,
      ListPackagesForAccount = Postgres_ListPackagesForAccount,
      SearchPackages = Postgres_SearchPackages,
      CanViewPackage = Postgres_CanViewPackage,
      CanManagePackage = Postgres_CanManagePackage,
      CreateTracks = Postgres_CreateTracks,
      ListTracks = Postgres_ListTracks,
      CreateUpload = Postgres_CreateUpload,
      GetUpload = Postgres_GetUpload,
      ApproveUpload = Postgres_ApproveUpload,
      CreateRevision = Postgres_CreateRevision,
      ListRevisions = Postgres_ListRevisions,
      GetRevisionByNumber = Postgres_GetRevisionByNumber,
      GetLatestRevision = Postgres_GetLatestRevision,
      UpsertResourceDefinition = Postgres_UpsertResourceDefinition,
      GetResourceDefinition = Postgres_GetResourceDefinition,
      ListResourceDefinitions = Postgres_ListResourceDefinitions,
      CreateResourceRevision = Postgres_CreateResourceRevision,
      UpdateResourceRevision = Postgres_UpdateResourceRevision,
      ListResourceRevisions = Postgres_ListResourceRevisions,
      GetResourceRevision = Postgres_GetResourceRevision,
      ReplaceRelease = Postgres_ReplaceRelease,
      ListReleases = Postgres_ListReleases,
      ResolveRelease = Postgres_ResolveRelease,
      ResolveDefaultRelease = Postgres_ResolveDefaultRelease\<rparr>"

lemma postgres_repo_sel [simp]:
  "EnsureAccount postgres_repo = Postgres_EnsureAccount"
  "GetAccountByID postgres_repo = Postgres_GetAccountByID"
  "CreateStoreToken postgres_repo = Postgres_CreateStoreToken"
  "ListStoreTokens postgres_repo = Postgres_ListStoreTokens"
  "RevokeStoreToken postgres_repo = Postgres_RevokeStoreToken"
  "FindStoreTokenByHash postgres_repo = Postgres_FindStoreTokenByHash"
  "CreatePackage postgres_repo = Postgres_CreatePackage"
  "UpdatePackage postgres_repo = Postgres_UpdatePackage"
  "DeletePackage postgres_repo = Postgres_DeletePackage"
  "GetPackageByName postgres_repo = Postgres_GetPackageByName"
  "GetPackageByID postgres_repo = Postgres_GetPackageByID"
  "ListPackagesForAccount postgres_repo = Postgres_ListPackagesForAccount"
  "SearchPackages postgres_repo = Postgres_SearchPackages"
  "CanViewPackage postgres_repo = Postgres_CanViewPackage"
  "CanManagePackage postgres_repo = Postgres_CanManagePackage"
  "CreateTracks postgres_repo = Postgres_CreateTracks"
  "ListTracks postgres_repo = Postgres_ListTracks"
  "CreateUpload postgres_repo = Postgres_CreateUpload"
  "GetUpload postgres_repo = Postgres_GetUpload"
  "ApproveUpload postgres_repo = Postgres_ApproveUpload"
  "CreateRevision postgres_repo = Postgres_CreateRevision"
  "ListRevisions postgres_repo = Postgres_ListRevisions"
  "GetRevisionByNumber postgres_repo = Postgres_GetRevisionByNumber"
  "GetLatestRevision postgres_repo = Postgres_GetLatestRevision"
  "UpsertResourceDefinition postgres_repo = Postgres_UpsertResourceDefinition"
  "GetResourceDefinition postgres_repo = Postgres_GetResourceDefinition"
  "ListResourceDefinitions postgres_repo = Postgres_ListResourceDefinitions"
  "CreateResourceRevision postgres_repo = Postgres_CreateResourceRevision"
  "UpdateResourceRevision postgres_repo = Postgres_UpdateResourceRevision"
  "ListResourceRevisions postgres_repo = Postgres_ListResourceRevisions"
  "GetResourceRevision postgres_repo = Postgres_GetResourceRevision"
  "ReplaceRelease postgres_repo = Postgres_ReplaceRelease"
  "ListReleases postgres_repo = Postgres_ListReleases"
  "ResolveRelease postgres_repo = Postgres_ResolveRelease"
  "ResolveDefaultRelease postgres_repo = Postgres_ResolveDefaultRelease"
  by (simp_all add: postgres_repo_def)

end
