(* ===== verification/PostgresLaws.thy ===== *)
theory PostgresLaws
  imports Postgres
begin

text \<open>
  The integrity of the tables, kept by every method of the PostgreSQL repository: keys are unique, references
  resolve, revision numbers fit their column.
\<close>

section \<open>Constraints\<close>

definition uniqueBy :: "('a \<Rightarrow> 'k) \<Rightarrow> 'a list \<Rightarrow> bool" where
  "uniqueBy key rows \<longleftrightarrow> distinct (map key rows)"

definition refersTo :: "('a \<Rightarrow> 'k) \<Rightarrow> 'a list \<Rightarrow> ('b \<Rightarrow> 'k) \<Rightarrow> 'b list \<Rightarrow> bool" where
  "refersTo key rows key' rows' \<longleftrightarrow> key ` set rows \<subseteq> key' ` set rows'"

definition accounts_table :: "account list \<Rightarrow> bool" where
  "accounts_table accounts \<longleftrightarrow> uniqueBy acc_ID accounts \<and> uniqueBy acc_Subject accounts"

definition tokens_table :: "store_token list \<Rightarrow> account list \<Rightarrow> bool" where
  "tokens_table tokens accounts \<longleftrightarrow> uniqueBy tok_SessionID tokens \<and> uniqueBy tok_TokenHash tokens
     \<and> refersTo tok_AccountID tokens acc_ID accounts"

definition packages_table :: "package list \<Rightarrow> account list \<Rightarrow> bool" where
  "packages_table packages accounts \<longleftrightarrow> uniqueBy pkg_ID packages \<and> uniqueBy pkg_Name packages
     \<and> refersTo pkg_OwnerAccountID packages acc_ID accounts"

definition tracks_table :: "track_row list \<Rightarrow> package list \<Rightarrow> bool" where
  "tracks_table tracks packages \<longleftrightarrow> uniqueBy (\<lambda>r. (tr_PackageID r, trk_Name (tr_Track r))) tracks
     \<and> refersTo tr_PackageID tracks pkg_ID packages"

definition uploads_table :: "upload list \<Rightarrow> bool" where
  "uploads_table uploads \<longleftrightarrow> uniqueBy upl_ID uploads"

definition revisions_table :: "revision list \<Rightarrow> package list \<Rightarrow> bool" where
  "revisions_table revisions packages \<longleftrightarrow> uniqueBy rev_ID revisions
     \<and> uniqueBy (\<lambda>r. (rev_PackageID r, rev_Revision r)) revisions
     \<and> list_all (\<lambda>r. int4 (rev_Revision r)) revisions \<and> refersTo rev_PackageID revisions pkg_ID packages"

definition definitions_table :: "resource_definition list \<Rightarrow> package list \<Rightarrow> bool" where
  "definitions_table defs packages \<longleftrightarrow> uniqueBy rd_ID defs \<and> uniqueBy (\<lambda>r. (rd_PackageID r, rd_Name r)) defs
     \<and> refersTo rd_PackageID defs pkg_ID packages"

definition resources_table :: "resource_revision list \<Rightarrow> resource_definition list \<Rightarrow> bool" where
  "resources_table revisions defs \<longleftrightarrow> uniqueBy rr_ID revisions
     \<and> uniqueBy (\<lambda>r. (rr_ResourceID r, rr_Revision r)) revisions \<and> refersTo rr_ResourceID revisions rd_ID defs"

definition releases_table :: "release list \<Rightarrow> package list \<Rightarrow> bool" where
  "releases_table releases packages \<longleftrightarrow> uniqueBy rel_ID releases
     \<and> uniqueBy (\<lambda>r. (rel_PackageID r, rel_Channel r)) releases \<and> refersTo rel_PackageID releases pkg_ID packages"

definition pg_inv :: "database \<Rightarrow> bool" where
  "pg_inv db \<longleftrightarrow> accounts_table (db_accounts db) \<and> tokens_table (db_store_tokens db) (db_accounts db)
     \<and> packages_table (db_packages db) (db_accounts db) \<and> tracks_table (db_tracks db) (db_packages db)
     \<and> uploads_table (db_uploads db) \<and> revisions_table (db_revisions db) (db_packages db)
     \<and> definitions_table (db_resource_definitions db) (db_packages db)
     \<and> resources_table (db_resource_revisions db) (db_resource_definitions db) \<and> releases_table (db_releases db) (db_packages db)"

lemmas table_defs =
  accounts_table_def tokens_table_def packages_table_def tracks_table_def uploads_table_def revisions_table_def
  definitions_table_def resources_table_def releases_table_def

lemma pg_inv_empty: "pg_inv empty_database"
  by (simp add: pg_inv_def table_defs empty_database_def uniqueBy_def refersTo_def)

lemma uniqueBy_append [simp]: "uniqueBy key (rows @ [r]) \<longleftrightarrow> uniqueBy key rows \<and> unused key (key r) rows"
  by (auto simp: uniqueBy_def unused_iff)

lemma uniqueBy_updateWhere [simp]: "(\<And>r. key (f r) = key r) \<Longrightarrow> uniqueBy key (updateWhere P f rows) = uniqueBy key rows"
  by (simp add: uniqueBy_def map_updateWhere)

lemma uniqueBy_filter [intro]: "uniqueBy key rows \<Longrightarrow> uniqueBy key (filter P rows)"
  unfolding uniqueBy_def by (rule distinct_map_filter)

lemma refersTo_append [simp]:
  "refersTo key (rows @ [r]) key' rows' \<longleftrightarrow> refersTo key rows key' rows' \<and> references key' (key r) rows'"
  by (auto simp: refersTo_def references_iff)

lemma refersTo_grow: "refersTo key rows key' rows' \<Longrightarrow> refersTo key rows key' (rows' @ xs)"
  by (auto simp: refersTo_def)

lemma image_updateWhere: "(\<And>r. k (h r) = k r) \<Longrightarrow> k ` set (updateWhere P h xs) = k ` set xs"
  using arg_cong [OF map_updateWhere [of k h P xs], of set] by simp

lemma refersTo_rewrite [simp]:
  "(\<And>r. key (f r) = key r) \<Longrightarrow> refersTo key (updateWhere P f rows) key' rows' = refersTo key rows key' rows'"
  by (simp add: refersTo_def image_updateWhere)

lemma refersTo_rewritten [simp]:
  "(\<And>r. key' (g r) = key' r) \<Longrightarrow> refersTo key rows key' (updateWhere P g rows') = refersTo key rows key' rows'"
  by (simp add: refersTo_def image_updateWhere)

text \<open>At most one row has a key.\<close>

lemma uniqueBy_filter_eq:
  assumes "uniqueBy key rows" and "r \<in> set rows"
  shows "filter (\<lambda>x. key x = key r) rows = [r]"
  using assms
proof (induction rows)
  case (Cons x xs)
  have none: "filter (\<lambda>y. key y = key x) xs = []" using Cons.prems(1) by (auto simp: uniqueBy_def filter_empty_conv intro: rev_image_eqI)
  show ?case
  proof (cases "r \<in> set xs")
    case True
    then have "key x \<noteq> key r" using Cons.prems(1) by (auto simp: uniqueBy_def)
    then show ?thesis using Cons True by (simp add: uniqueBy_def)
  qed (use Cons.prems(2) none in simp)
qed simp

lemma uniqueBy_cases:
  assumes "uniqueBy key rows"
  obtains "filter (\<lambda>x. key x = k) rows = []" and "unused key k rows"
  | r where "filter (\<lambda>x. key x = k) rows = [r]" and "r \<in> set rows" and "key r = k"
proof (cases "k \<in> key ` set rows")
  case True
  then obtain r where "r \<in> set rows" "key r = k" by auto
  then show ?thesis using that(2) uniqueBy_filter_eq [OF assms] by blast
next
  case False
  then show ?thesis using that(1) by (auto simp: unused_iff filter_empty_conv)
qed

text \<open>A referenced table may grow, and its rows may be rewritten.\<close>

lemma grow_table [simp]:
  "tokens_table ts as \<Longrightarrow> tokens_table ts (as @ xs)"
  "packages_table ps as \<Longrightarrow> packages_table ps (as @ xs)"
  "tracks_table trs ps \<Longrightarrow> tracks_table trs (ps @ ys)"
  "revisions_table rs ps \<Longrightarrow> revisions_table rs (ps @ ys)"
  "definitions_table ds ps \<Longrightarrow> definitions_table ds (ps @ ys)"
  "releases_table ls ps \<Longrightarrow> releases_table ls (ps @ ys)"
  "resources_table rrs ds \<Longrightarrow> resources_table rrs (ds @ zs)"
  by (simp_all add: table_defs refersTo_grow)

lemma rewrite_table [simp]:
  "(\<And>r. acc_ID (f r) = acc_ID r) \<Longrightarrow> tokens_table ts (updateWhere A f as) = tokens_table ts as"
  "(\<And>r. acc_ID (f r) = acc_ID r) \<Longrightarrow> packages_table ps (updateWhere A f as) = packages_table ps as"
  "(\<And>r. pkg_ID (g r) = pkg_ID r) \<Longrightarrow> tracks_table trs (updateWhere B g ps) = tracks_table trs ps"
  "(\<And>r. pkg_ID (g r) = pkg_ID r) \<Longrightarrow> revisions_table rs (updateWhere B g ps) = revisions_table rs ps"
  "(\<And>r. pkg_ID (g r) = pkg_ID r) \<Longrightarrow> definitions_table ds (updateWhere B g ps) = definitions_table ds ps"
  "(\<And>r. pkg_ID (g r) = pkg_ID r) \<Longrightarrow> releases_table ls (updateWhere B g ps) = releases_table ls ps"
  "(\<And>r. rd_ID (h r) = rd_ID r) \<Longrightarrow> resources_table rrs (updateWhere C h ds) = resources_table rrs ds"
  by (simp_all add: table_defs)

text \<open>A row may be added when its keys are unused and its references resolve.\<close>

lemma add_row [simp]:
  "accounts_table (as @ [a]) \<longleftrightarrow> accounts_table as \<and> unused acc_ID (acc_ID a) as \<and> unused acc_Subject (acc_Subject a) as"
  "tokens_table (ts @ [t]) as \<longleftrightarrow> tokens_table ts as \<and> unused tok_SessionID (tok_SessionID t) ts
     \<and> unused tok_TokenHash (tok_TokenHash t) ts \<and> references acc_ID (tok_AccountID t) as"
  "packages_table (ps @ [p]) as \<longleftrightarrow> packages_table ps as \<and> unused pkg_ID (pkg_ID p) ps
     \<and> unused pkg_Name (pkg_Name p) ps \<and> references acc_ID (pkg_OwnerAccountID p) as"
  "tracks_table (trs @ [tr]) ps \<longleftrightarrow> tracks_table trs ps
     \<and> unused (\<lambda>r. (tr_PackageID r, trk_Name (tr_Track r))) (tr_PackageID tr, trk_Name (tr_Track tr)) trs
     \<and> references pkg_ID (tr_PackageID tr) ps"
  "uploads_table (us @ [u]) \<longleftrightarrow> uploads_table us \<and> unused upl_ID (upl_ID u) us"
  "revisions_table (rs @ [r]) ps \<longleftrightarrow> revisions_table rs ps \<and> unused rev_ID (rev_ID r) rs
     \<and> unused (\<lambda>r. (rev_PackageID r, rev_Revision r)) (rev_PackageID r, rev_Revision r) rs
     \<and> int4 (rev_Revision r) \<and> references pkg_ID (rev_PackageID r) ps"
  "definitions_table (ds @ [d]) ps \<longleftrightarrow> definitions_table ds ps \<and> unused rd_ID (rd_ID d) ds
     \<and> unused (\<lambda>r. (rd_PackageID r, rd_Name r)) (rd_PackageID d, rd_Name d) ds
     \<and> references pkg_ID (rd_PackageID d) ps"
  "resources_table (rrs @ [rr]) ds \<longleftrightarrow> resources_table rrs ds \<and> unused rr_ID (rr_ID rr) rrs
     \<and> unused (\<lambda>r. (rr_ResourceID r, rr_Revision r)) (rr_ResourceID rr, rr_Revision rr) rrs
     \<and> references rd_ID (rr_ResourceID rr) ds"
  "releases_table (ls @ [l]) ps \<longleftrightarrow> releases_table ls ps \<and> unused rel_ID (rel_ID l) ls
     \<and> unused (\<lambda>r. (rel_PackageID r, rel_Channel r)) (rel_PackageID l, rel_Channel l) ls
     \<and> references pkg_ID (rel_PackageID l) ps"
  by (auto simp: table_defs)

text \<open>A row may be rewritten when its keys and its references stay.\<close>

lemma update_row [simp]:
  "(\<And>r. acc_ID (f r) = acc_ID r \<and> acc_Subject (f r) = acc_Subject r) \<Longrightarrow> accounts_table (updateWhere A f as) = accounts_table as"
  "(\<And>r. tok_SessionID (g r) = tok_SessionID r \<and> tok_TokenHash (g r) = tok_TokenHash r \<and> tok_AccountID (g r) = tok_AccountID r) \<Longrightarrow>
     tokens_table (updateWhere B g ts) as = tokens_table ts as"
  "(\<And>r. pkg_ID (h r) = pkg_ID r \<and> pkg_Name (h r) = pkg_Name r \<and> pkg_OwnerAccountID (h r) = pkg_OwnerAccountID r) \<Longrightarrow>
     packages_table (updateWhere C h ps) as = packages_table ps as"
  "(\<And>r. upl_ID (u r) = upl_ID r) \<Longrightarrow> uploads_table (updateWhere D u us) = uploads_table us"
  "(\<And>r. rd_ID (d r) = rd_ID r \<and> rd_PackageID (d r) = rd_PackageID r \<and> rd_Name (d r) = rd_Name r) \<Longrightarrow>
     definitions_table (updateWhere E d ds) ps = definitions_table ds ps"
  "(\<And>r. rr_ID (rv r) = rr_ID r \<and> rr_ResourceID (rv r) = rr_ResourceID r \<and> rr_Revision (rv r) = rr_Revision r) \<Longrightarrow>
     resources_table (updateWhere F rv rrs) ds = resources_table rrs ds"
  "(\<And>r. rel_ID (l r) = rel_ID r \<and> rel_PackageID (l r) = rel_PackageID r \<and> rel_Channel (l r) = rel_Channel r) \<Longrightarrow>
     releases_table (updateWhere G l ls) ps = releases_table ls ps"
  by (simp_all add: table_defs)

lemma rows_keep [simp]:
  "tok_SessionID (tokenRow t) = tok_SessionID t" "tok_TokenHash (tokenRow t) = tok_TokenHash t"
  "tok_AccountID (tokenRow t) = tok_AccountID t" "tok_RevokedAt (tokenRow t) = map_option timestamptz (tok_RevokedAt t)"
  "pkg_ID (packageRow p) = pkg_ID p" "pkg_Name (packageRow p) = pkg_Name p"
  "pkg_OwnerAccountID (packageRow p) = pkg_OwnerAccountID p" "pkg_Private (packageRow p) = pkg_Private p"
  "pkg_ID (scanPackage p a) = pkg_ID p" "pkg_Name (scanPackage p a) = pkg_Name p"
  "pkg_OwnerAccountID (scanPackage p a) = pkg_OwnerAccountID p" "pkg_Private (scanPackage p a) = pkg_Private p"
  "trk_Name (trackRow tr) = trk_Name tr" "upl_ID (uploadRow u) = upl_ID u"
  "rev_ID (revisionRowOf r) = rev_ID r" "rev_PackageID (revisionRowOf r) = rev_PackageID r"
  "rev_Revision (revisionRowOf r) = rev_Revision r"
  "rd_ID (definitionRow d) = rd_ID d" "rd_PackageID (definitionRow d) = rd_PackageID d" "rd_Name (definitionRow d) = rd_Name d"
  "rr_ID (resourceRow rr) = rr_ID rr" "rr_ResourceID (resourceRow rr) = rr_ResourceID rr"
  "rr_Revision (resourceRow rr) = rr_Revision rr"
  "rel_ID (releaseRowOf i l) = rel_ID l" "rel_PackageID (releaseRowOf i l) = i"
  "rel_Channel (releaseRowOf i l) = rel_Channel l" "rel_Revision (releaseRowOf i l) = rel_Revision l"
  "rel_Base (releaseRowOf i l) = rel_Base l" "rel_Resources (releaseRowOf i l) = rel_Resources l"
  "rel_Progressive (releaseRowOf i l) = rel_Progressive l"
  by (simp_all add: tokenRow_def packageRow_def scanPackage_def trackRow_def uploadRow_def revisionRowOf_def
      definitionRow_def resourceRow_def releaseRowOf_def)

section \<open>Every command keeps the constraints\<close>

lemma insertUnless_keeps:
  assumes "I db" and "list_all fst cs \<Longrightarrow> I db'"
  shows "I (snd (insertUnless cs db db'))"
proof (cases "checks cs")
  case None
  then have "list_all fst cs" by (induction cs rule: checks.induct) (auto split: if_splits)
  then show ?thesis using assms None by (simp add: insertUnless_def)
qed (use assms in \<open>simp add: insertUnless_def\<close>)

lemma affected_keeps: "I db \<Longrightarrow> I db' \<Longrightarrow> I (snd (affected P rows db db'))"
  by (simp add: affected_def)

lemma snd_st_bind_pure: "snd (st_bind rs (\<lambda>x s. (Inr (g x s), s))) = snd rs"
  by (cases rs; cases "fst rs") auto

lemma snd_map_err: "snd (map_err_st f rs) = snd rs"
  by (cases rs; cases "fst rs") (auto simp: map_err_st_def)

lemma containsStr_mid: "containsStr (xs @ p @ ys) p"
proof (induction xs)
  case Nil
  have "hasPrefix (p @ ys) p" by (simp add: hasPrefix_def)
  then show ?case by (cases "p @ ys") auto
qed simp

lemma uniqueViolation_text [simp]: "containsStr (errText (uniqueViolation name)) ''duplicate key''"
  using containsStr_mid [of "''ERROR: ''" "''duplicate key''"
      "'' value violates unique constraint '' @ [CHR 0x22] @ name @ [CHR 0x22] @ '' (SQLSTATE '' @ ''23505'' @ '')''"]
  by (simp only: uniqueViolation_def pgError_def errText.simps append_assoc append.simps)

lemma pg_inv_EnsureAccount:
  assumes inv: "pg_inv db"
  shows "pg_inv (snd (Postgres_EnsureAccount t a db))"
proof (cases "filter (\<lambda>r. acc_Subject r = acc_Subject a) (db_accounts db)")
  case Nil
  then have "unused acc_Subject (acc_Subject a) (db_accounts db)" by (auto simp: unused_iff filter_empty_conv)
  then show ?thesis
    using inv Nil
    by (simp add: Postgres_EnsureAccount_def Let_def snd_st_bind_pure insertUnless_def pg_inv_def)
next
  case (Cons x xs)
  then show ?thesis using inv by (simp add: Postgres_EnsureAccount_def Let_def pg_inv_def)
qed

lemma pg_inv_CreateStoreToken: "pg_inv db \<Longrightarrow> pg_inv (snd (Postgres_CreateStoreToken tok db))"
  unfolding Postgres_CreateStoreToken_def by (rule insertUnless_keeps) (simp_all add: pg_inv_def)

lemma pg_inv_RevokeStoreToken: "pg_inv db \<Longrightarrow> pg_inv (snd (Postgres_RevokeStoreToken t sh aid sid who db))"
  unfolding Postgres_RevokeStoreToken_def by (rule affected_keeps) (simp_all add: pg_inv_def)

lemma pg_inv_CreatePackage: "pg_inv db \<Longrightarrow> pg_inv (snd (Postgres_CreatePackage p db))"
  unfolding Postgres_CreatePackage_def snd_map_err insertPackage_def
  by (rule insertUnless_keeps) (simp_all add: pg_inv_def)

lemma pg_inv_UpdatePackage: "pg_inv db \<Longrightarrow> pg_inv (snd (Postgres_UpdatePackage p db))"
  unfolding Postgres_UpdatePackage_def by (rule affected_keeps) (simp_all add: pg_inv_def)

lemma filter_table:
  "packages_table ps as \<Longrightarrow> packages_table (filter (\<lambda>r. pkg_ID r \<noteq> i) ps) as"
  "tracks_table trs ps \<Longrightarrow> tracks_table (filter (\<lambda>r. tr_PackageID r \<noteq> i) trs) (filter (\<lambda>r. pkg_ID r \<noteq> i) ps)"
  "revisions_table rs ps \<Longrightarrow> revisions_table (filter (\<lambda>r. rev_PackageID r \<noteq> i) rs) (filter (\<lambda>r. pkg_ID r \<noteq> i) ps)"
  "definitions_table ds ps \<Longrightarrow> definitions_table (filter (\<lambda>r. rd_PackageID r \<noteq> i) ds) (filter (\<lambda>r. pkg_ID r \<noteq> i) ps)"
  "releases_table ls ps \<Longrightarrow> releases_table (filter (\<lambda>r. rel_PackageID r \<noteq> i) ls) (filter (\<lambda>r. pkg_ID r \<noteq> i) ps)"
  "resources_table rrs ds \<Longrightarrow>
     resources_table (filter (\<lambda>r. rr_ResourceID r \<notin> set (map rd_ID (filter (\<lambda>d. rd_PackageID d = i) ds))) rrs)
       (filter (\<lambda>r. rd_PackageID r \<noteq> i) ds)"
  by (simp_all add: table_defs uniqueBy_filter list_all_iff) (force simp: refersTo_def)+

lemma cascade_sel:
  "db_accounts (cascade i db) = db_accounts db" "db_store_tokens (cascade i db) = db_store_tokens db"
  "db_uploads (cascade i db) = db_uploads db"
  "db_packages (cascade i db) = filter (\<lambda>r. pkg_ID r \<noteq> i) (db_packages db)"
  "db_tracks (cascade i db) = filter (\<lambda>r. tr_PackageID r \<noteq> i) (db_tracks db)"
  "db_revisions (cascade i db) = filter (\<lambda>r. rev_PackageID r \<noteq> i) (db_revisions db)"
  "db_resource_definitions (cascade i db) = filter (\<lambda>r. rd_PackageID r \<noteq> i) (db_resource_definitions db)"
  "db_resource_revisions (cascade i db) = filter (\<lambda>r. rr_ResourceID r \<notin>
     set (map rd_ID (filter (\<lambda>d. rd_PackageID d = i) (db_resource_definitions db)))) (db_resource_revisions db)"
  "db_releases (cascade i db) = filter (\<lambda>r. rel_PackageID r \<noteq> i) (db_releases db)"
  by (simp_all add: cascade_def Let_def)

lemma pg_inv_cascade:
  assumes "pg_inv db"
  shows "pg_inv (cascade packageID db)"
proof -
  have "accounts_table (db_accounts db)" "tokens_table (db_store_tokens db) (db_accounts db)"
    "packages_table (db_packages db) (db_accounts db)" "tracks_table (db_tracks db) (db_packages db)"
    "uploads_table (db_uploads db)" "revisions_table (db_revisions db) (db_packages db)"
    "definitions_table (db_resource_definitions db) (db_packages db)"
    "resources_table (db_resource_revisions db) (db_resource_definitions db)" "releases_table (db_releases db) (db_packages db)"
    using assms unfolding pg_inv_def by blast+
  note parts = this(1,2,5) filter_table(1) [OF this(3)] filter_table(2) [OF this(4)] filter_table(3) [OF this(6)]
    filter_table(4) [OF this(7)] filter_table(6) [OF this(8)] filter_table(5) [OF this(9)]
  show ?thesis unfolding pg_inv_def cascade_sel by (intro conjI parts)
qed

lemma pg_inv_DeletePackage: "pg_inv db \<Longrightarrow> pg_inv (snd (Postgres_DeletePackage packageID db))"
  unfolding Postgres_DeletePackage_def by (rule affected_keeps) (simp_all add: pg_inv_cascade)

lemma pg_inv_CreateTracks:
  assumes "pg_inv db"
  shows "pg_inv (snd (Postgres_CreateTracks packageID ts db))"
proof -
  have "pg_inv (snd (insertTracks packageID n ts db))" for n
    using assms
  proof (induction ts arbitrary: n db)
    case (Cons t ts)
    show ?case
    proof (cases "list_ex (\<lambda>r. tr_PackageID r = packageID \<and> trk_Name (tr_Track r) = trk_Name t) (db_tracks db)")
      case False
      let ?db' = "db\<lparr>db_tracks := db_tracks db @ [\<lparr>tr_PackageID = packageID, tr_Track = trackRow t\<rparr>]\<rparr>"
      have "unused (\<lambda>r. (tr_PackageID r, trk_Name (tr_Track r))) (packageID, trk_Name t) (db_tracks db)"
        using False by (auto simp: unused_iff list_ex_iff)
      then have "references pkg_ID packageID (db_packages db) \<Longrightarrow> pg_inv ?db'"
        using Cons.prems by (simp add: pg_inv_def)
      then show ?thesis
        using Cons.IH [of ?db'] Cons.prems False by (simp add: insertUnless_def)
    qed (use Cons in simp)
  qed simp
  then show ?thesis by (simp add: Postgres_CreateTracks_def)
qed

lemma pg_inv_CreateUpload: "pg_inv db \<Longrightarrow> pg_inv (snd (Postgres_CreateUpload u db))"
  unfolding Postgres_CreateUpload_def by (rule insertUnless_keeps) (simp_all add: pg_inv_def)

lemma pg_inv_ApproveUpload: "pg_inv db \<Longrightarrow> pg_inv (snd (Postgres_ApproveUpload t uid n errs db))"
  by (simp add: Postgres_ApproveUpload_def Let_def affected_def pg_inv_def split: option.split)

lemma pg_inv_CreateRevision: "pg_inv db \<Longrightarrow> pg_inv (snd (Postgres_CreateRevision rv db))"
  unfolding Postgres_CreateRevision_def by (rule insertUnless_keeps) (simp_all add: pg_inv_def)

lemma pg_inv_UpsertResourceDefinition:
  assumes inv: "pg_inv db"
  shows "pg_inv (snd (Postgres_UpsertResourceDefinition d db))"
proof (cases "filter (\<lambda>r. rd_PackageID r = rd_PackageID d \<and> rd_Name r = rd_Name d) (db_resource_definitions db)")
  case Nil
  then have "unused (\<lambda>r. (rd_PackageID r, rd_Name r)) (rd_PackageID d, rd_Name d) (db_resource_definitions db)"
    by (auto simp: unused_iff filter_empty_conv)
  then show ?thesis
    using inv Nil
    by (simp add: Postgres_UpsertResourceDefinition_def Let_def snd_st_bind_pure insertUnless_def pg_inv_def)
next
  case (Cons x xs)
  then show ?thesis using inv by (simp add: Postgres_UpsertResourceDefinition_def Let_def pg_inv_def)
qed

lemma pg_inv_CreateResourceRevision: "pg_inv db \<Longrightarrow> pg_inv (snd (Postgres_CreateResourceRevision rr db))"
  unfolding Postgres_CreateResourceRevision_def by (rule insertUnless_keeps) (simp_all add: pg_inv_def)

lemma pg_inv_UpdateResourceRevision: "pg_inv db \<Longrightarrow> pg_inv (snd (Postgres_UpdateResourceRevision rr db))"
  by (simp add: Postgres_UpdateResourceRevision_def Let_def affected_def pg_inv_def)

lemma pg_inv_ReplaceRelease:
  assumes inv: "pg_inv db"
  shows "pg_inv (snd (Postgres_ReplaceRelease pid rl db))"
proof (cases "list_ex (\<lambda>r. rel_PackageID r = pid \<and> rel_Channel r = rel_Channel rl) (db_releases db)")
  case True
  then show ?thesis using inv by (simp add: Postgres_ReplaceRelease_def Let_def pg_inv_def)
next
  case False
  then have "unused (\<lambda>r. (rel_PackageID r, rel_Channel r)) (pid, rel_Channel rl) (db_releases db)"
    by (auto simp: unused_iff list_ex_iff)
  then show ?thesis
    using inv False by (simp add: Postgres_ReplaceRelease_def Let_def insertUnless_def pg_inv_def)
qed

lemmas pg_inv_commands =
  pg_inv_EnsureAccount pg_inv_CreateStoreToken pg_inv_RevokeStoreToken pg_inv_CreatePackage pg_inv_UpdatePackage
  pg_inv_DeletePackage pg_inv_CreateTracks pg_inv_CreateUpload pg_inv_ApproveUpload pg_inv_CreateRevision
  pg_inv_UpsertResourceDefinition pg_inv_CreateResourceRevision pg_inv_UpdateResourceRevision pg_inv_ReplaceRelease

end
