(* ===== verification/Clients.thy ===== *)
theory Clients
  imports Contract Releases
begin

text \<open>
  What the services make of the contracts of the repository, over any store that fulfils them: a publication
  appends a revision, a release is what the next refresh of its channel resolves.
\<close>

section \<open>Publishing\<close>

context revision_store
begin

lemma upsertResources_revisions:
  assumes S: "svc_repo S = R"
  shows "upsertResources S ids i t pkg rs s = (r, s') \<Longrightarrow> GetRevisionByNumber R pid n s' = GetRevisionByNumber R pid n s"
proof (induction rs arbitrary: i s)
  case (Cons d rs)
  obtain q s1 where q: "UpsertResourceDefinition R \<lparr>rd_ID = ids i, rd_PackageID = pkg, rd_Name = fst d,
      rd_Type = crd_Type (snd d), rd_Description = crd_Description (snd d), rd_Filename = crd_Filename (snd d),
      rd_Optional = False, rd_CreatedAt = t\<rparr> s = (q, s1)" by fastforce
  have "GetRevisionByNumber R pid n s1 = GetRevisionByNumber R pid n s" by (rule upsert_revisions [OF q])
  then show ?case using Cons.IH [of "Suc i" s1] Cons.prems q by (cases d; cases q) (auto simp: S)
qed simp

text \<open>The number of the next revision, from what the store calls the latest one.\<close>

lemma publish_appends:
  assumes S: "svc_repo S = R" and inv: "inv s"
    and run: "publishRevision S E identity name p u arc s = (Inr url, s')"
  obtains n rv where "GetLatestRevision R (pkg_ID p) s = Inl ErrNotFound \<and> n = 1
      \<or> (\<exists>l. GetLatestRevision R (pkg_ID p) s = Inr l \<and> n = rev_Revision l + 1)"
    and "GetRevisionByNumber R (pkg_ID p) n s' = Inr rv"
    and "sameRevision (newRevision (uuid E 0) (now E 0) (pkg_ID p) (acc_ID (idn_Account identity)) n u arc) rv"
    and "\<And>pid k r. GetRevisionByNumber R pid k s = Inr r \<Longrightarrow> GetRevisionByNumber R pid k s' = Inr r"
proof -
  obtain n where n: "GetLatestRevision R (pkg_ID p) s = Inl ErrNotFound \<and> n = 1
      \<or> (\<exists>l. GetLatestRevision R (pkg_ID p) s = Inr l \<and> n = rev_Revision l + 1)"
    and run1: "publishRevision S E identity name p u arc s =
      (let t = now E 0;
         rv = newRevision (uuid E 0) t (pkg_ID p) (acc_ID (idn_Account identity)) n u arc in
       st_bind (CreateRevision R rv s) (\<lambda>_ s1.
       st_bind (ApproveUpload R (now E 1) (upl_ID u) (Some n) [] s1) (\<lambda>_ s2.
       st_bind (UpdatePackage R (publishedPackage t (arc_Manifest arc) p) s2) (\<lambda>_ s3.
       st_bind (upsertResources S (uuid E) 1 t (pkg_ID p) (go_range (order E 1) (man_Resources (arc_Manifest arc))) s3) (\<lambda>_ s4.
       (Inr (reviewURL name (upl_ID u)), s4))))))"
    using run by (auto simp: publishRevision_def S rd_bind_def split: sum.splits goerr.splits)
  let ?rv = "newRevision (uuid E 0) (now E 0) (pkg_ID p) (acc_ID (idn_Account identity)) n u arc"
  obtain s1 s2 s3 where s1: "CreateRevision R ?rv s = (Inr (), s1)"
    and s2: "ApproveUpload R (now E 1) (upl_ID u) (Some n) [] s1 = (Inr (), s2)"
    and s3: "UpdatePackage R (publishedPackage (now E 0) (arc_Manifest arc) p) s2 = (Inr (), s3)"
    and s4: "upsertResources S (uuid E) 1 (now E 0) (pkg_ID p)
        (go_range (order E 1) (man_Resources (arc_Manifest arc))) s3 = (Inr (), s')"
    using run unfolding run1 Let_def by (auto simp: res_iff)
  have later: "GetRevisionByNumber R pid k s' = GetRevisionByNumber R pid k s1" for pid k
    using upsertResources_revisions [OF S s4] update_revisions [OF s3] approve_revisions [OF s2] by simp
  have "\<exists>e. GetRevisionByNumber R (pkg_ID p) n s = Inl e"
  proof (cases "GetRevisionByNumber R (pkg_ID p) n s")
    case (Inr r)
    then show ?thesis using n latest_none [OF inv, of "pkg_ID p" n] latest_max [OF inv _ Inr] by auto
  qed simp
  then obtain rv where rv: "GetRevisionByNumber R (pkg_ID p) n s1 = Inr rv" "sameRevision ?rv rv"
    using created_found [OF inv, of ?rv _ "()" s1] s1 by auto
  show thesis
  proof (rule that [OF n])
    show "GetRevisionByNumber R (pkg_ID p) n s' = Inr rv" using rv(1) by (simp only: later)
    show "GetRevisionByNumber R pid k s' = Inr r" if "GetRevisionByNumber R pid k s = Inr r" for pid k r
      using old_found [OF inv that s1] by (simp only: later)
  qed (rule rv(2))
qed

end

section \<open>Releasing\<close>

text \<open>The abstract state of the releases: what each channel of each package delivers.  A request rewrites the
channels it names, in the order of its entries.\<close>

type_synonym channel_content = "int \<times> base option \<times> release_ref list \<times> float64 option"
type_synonym channel_table = "string \<Rightarrow> string \<Rightarrow> channel_content option"

definition delivers :: "release \<Rightarrow> channel_content" where
  "delivers rl = (rel_Revision rl, rel_Base rl, rel_Resources rl, rel_Progressive rl)"

definition channelTable :: "'s repository \<Rightarrow> 's \<Rightarrow> channel_table" where
  "channelTable R s pid channel = (case ResolveRelease R pid channel s of Inr rl \<Rightarrow> Some (delivers rl) | Inl _ \<Rightarrow> None)"

definition assignChannel :: "string \<Rightarrow> release \<Rightarrow> channel_table \<Rightarrow> channel_table" where
  "assignChannel pid r T = T(pid := (T pid)(rel_Channel r \<mapsto> delivers r))"

lemma delivers_same: "sameRelease r rl \<Longrightarrow> delivers rl = delivers r"
  by (simp add: sameRelease_def delivers_def)

lemma delivers_stamp [simp]: "delivers (stampRelease t i r) = delivers r"
  by (simp add: delivers_def)

context release_store
begin

lemma releaseLoop_resolves:
  assumes S: "svc_repo S = R"
  shows "inv s \<Longrightarrow> releaseLoop S ids identity t pid i requests acc s = (Inr out, s') \<Longrightarrow>
     inv s' \<and> (\<forall>q n. GetRevisionByNumber R q n s' = GetRevisionByNumber R q n s)
     \<and> (\<forall>r \<in> set requests. \<exists>rv. GetRevisionByNumber R pid (rel_Revision r) s = Inr rv)
     \<and> (\<forall>ch. case lastOn ch requests of
          None \<Rightarrow> ResolveRelease R pid ch s' = ResolveRelease R pid ch s
        | Some r \<Rightarrow> \<exists>rl. ResolveRelease R pid ch s' = Inr rl \<and> sameRelease r rl)"
proof (induction requests arbitrary: i "acc" s)
  case Nil
  then show ?case by simp
next
  case (Cons r requests)
  let ?r = "stampRelease t (ids i) r"
  obtain rv s1 where rv: "GetRevisionByNumber R pid (rel_Revision r) s = Inr rv"
    and s1: "ReplaceRelease R pid ?r s = (Inr (), s1)"
    and rest: "releaseLoop S ids identity t pid (if rel_ID r = [] then Suc i else i) requests (acc @ [?r]) s1 = (Inr out, s')"
    using Cons.prems(2) by (auto simp: S res_iff Let_def split: if_splits)
  have inv1: "inv s1" using replace_keeps_inv [OF Cons.prems(1) _ s1, of rv] rv by simp
  note IH = Cons.IH [OF inv1 rest]
  have revs: "GetRevisionByNumber R q n s1 = GetRevisionByNumber R q n s" for q n
    by (rule replace_revisions [OF Cons.prems(1) s1])
  obtain rl where rl: "ResolveRelease R pid (rel_Channel r) s1 = Inr rl" "sameRelease ?r rl"
    using resolve_replaced [OF Cons.prems(1) s1] by auto
  then have same: "sameRelease r rl" by (simp add: sameRelease_def)
  have other: "ch \<noteq> rel_Channel r \<Longrightarrow> ResolveRelease R pid ch s1 = ResolveRelease R pid ch s" for ch
    using resolve_other [OF Cons.prems(1) s1, of pid ch] by simp
  have "case lastOn ch (r # requests) of
          None \<Rightarrow> ResolveRelease R pid ch s' = ResolveRelease R pid ch s
        | Some r \<Rightarrow> \<exists>rl. ResolveRelease R pid ch s' = Inr rl \<and> sameRelease r rl" for ch
  proof (cases "lastOn ch requests")
    case None
    then have "ResolveRelease R pid ch s' = ResolveRelease R pid ch s1" using IH by (auto dest: spec [of _ ch])
    then show ?thesis using None rl same other by auto
  next
    case (Some r')
    then show ?thesis using IH by (auto dest: spec [of _ ch])
  qed
  then show ?case using IH rv revs by simp
qed

text \<open>An action that asks for a channel by its full name gets the release made last to it.\<close>

lemma released_resolves:
  assumes S: "svc_repo S = R" and inv: "inv s" and p: "GetPackageByName R name s = Inr p"
    and run: "Release S E identity name requests s = (Inr out, s')"
    and last: "lastOn ch requests = Some r" and ch: "ch \<noteq> []" "normalizeChannel (channelOrDefault (act_Channel action)) = ch"
    and unpinned: "act_Revision action = None"
  obtains rl rv where "resolveReleaseAndRevision S sh p action s' = Inr (rl, rv, ch, ch)"
    and "sameRelease r rl" and "GetRevisionByNumber R (pkg_ID p) (rel_Revision r) s' = Inr rv"
proof -
  obtain s1 q where loop: "releaseLoop S (uuid E) identity (now E 0) (pkg_ID p) 0 requests [] s = (Inr out, s1)"
    and upd: "UpdatePackage R (p\<lparr>pkg_Status := ''published'', pkg_UpdatedAt := now E 0\<rparr>) s1 = (q, s')"
    using run p by (auto simp: Release_def S res_iff)
  note L = releaseLoop_resolves [OF S inv loop]
  obtain rl where rl: "ResolveRelease R (pkg_ID p) ch s1 = Inr rl" "sameRelease r rl"
    using L last by (auto dest!: spec [of _ ch])
  have "r \<in> set requests" using last by (auto simp: lastOn_def dest: find_SomeD)
  then obtain rv where "GetRevisionByNumber R (pkg_ID p) (rel_Revision r) s = Inr rv" using L by blast
  then have rv: "GetRevisionByNumber R (pkg_ID p) (rel_Revision r) s' = Inr rv"
    using L update_revisions [OF upd] by simp
  have "ResolveRelease R (pkg_ID p) ch s' = Inr rl" using rl(1) update_releases [OF upd] by simp
  moreover have "rel_Revision rl = rel_Revision r" using rl(2) by (simp add: sameRelease_def)
  ultimately have "resolveReleaseAndRevision S sh p action s' = Inr (rl, rv, ch, ch)"
    using ch unpinned rv by (simp add: resolveReleaseAndRevision_def S Let_def)
  then show thesis using that rl(2) rv by blast
qed

text \<open>The loop implements the abstract assignment.\<close>

lemma replace_assigns:
  assumes inv: "inv s" and run: "ReplaceRelease R pid rl s = (Inr u, s')"
  shows "channelTable R s' = assignChannel pid rl (channelTable R s)"
proof (intro ext)
  fix q ch
  obtain rl' where rl': "ResolveRelease R pid (rel_Channel rl) s' = Inr rl'" "sameRelease rl rl'"
    using resolve_replaced [OF inv run] by blast
  show "channelTable R s' q ch = assignChannel pid rl (channelTable R s) q ch"
    using rl'(1) delivers_same [OF rl'(2)] resolve_other [OF inv run, of q ch]
    by (cases "q = pid \<and> ch = rel_Channel rl") (auto simp: channelTable_def assignChannel_def)
qed

lemma releaseLoop_assigns:
  assumes S: "svc_repo S = R"
  shows "inv s \<Longrightarrow> releaseLoop S ids identity t pid i requests acc s = (Inr out, s') \<Longrightarrow>
     channelTable R s' = fold (assignChannel pid) requests (channelTable R s)"
proof (induction requests arbitrary: i "acc" s)
  case (Cons r requests)
  let ?r = "stampRelease t (ids i) r"
  obtain rv s1 where rv: "GetRevisionByNumber R pid (rel_Revision r) s = Inr rv"
    and s1: "ReplaceRelease R pid ?r s = (Inr (), s1)"
    and rest: "releaseLoop S ids identity t pid (if rel_ID r = [] then Suc i else i) requests (acc @ [?r]) s1 = (Inr out, s')"
    using Cons.prems(2) by (auto simp: S res_iff Let_def split: if_splits)
  have inv1: "inv s1" using replace_keeps_inv [OF Cons.prems(1) _ s1, of rv] rv by simp
  have "assignChannel pid ?r = assignChannel pid r" by (simp add: assignChannel_def fun_eq_iff)
  then show ?case using Cons.IH [OF inv1 rest] replace_assigns [OF Cons.prems(1) s1] by simp
qed simp

lemma release_assigns:
  assumes S: "svc_repo S = R" and inv: "inv s" and run: "Release S E identity name requests s = (Inr out, s')"
  obtains p where "GetPackageByName R name s = Inr p"
    and "channelTable R s' = fold (assignChannel (pkg_ID p)) requests (channelTable R s)"
proof -
  obtain p s1 q where p: "GetPackageByName R name s = Inr p"
    and loop: "releaseLoop S (uuid E) identity (now E 0) (pkg_ID p) 0 requests [] s = (Inr out, s1)"
    and upd: "UpdatePackage R (p\<lparr>pkg_Status := ''published'', pkg_UpdatedAt := now E 0\<rparr>) s1 = (q, s')"
    using run by (auto simp: Release_def S res_iff)
  have "channelTable R s' = channelTable R s1" using update_releases [OF upd] by (simp add: channelTable_def fun_eq_iff)
  then show thesis using that [OF p] releaseLoop_assigns [OF S inv loop] by simp
qed

end

end
