(* ===== verification/PostgresContract.thy ===== *)
theory PostgresContract
  imports PostgresLaws Clients Concurrent
begin

text \<open>
  The PostgreSQL repository fulfils the contracts the services rely on, the same locales as the in-memory
  repository; what the queries return is characterised by the rows of the tables first.
\<close>

section \<open>The store keeps the contracts\<close>

lemma account_row:
  assumes "pg_inv db" and "a \<in> set (db_accounts db)"
  shows "filter (\<lambda>x. acc_ID x = acc_ID a) (db_accounts db) = [a]"
  using assms by (intro uniqueBy_filter_eq) (simp_all add: pg_inv_def accounts_table_def)

lemma package_row:
  assumes "pg_inv db" and "p \<in> set (db_packages db)"
  shows "filter (\<lambda>x. pkg_ID x = pkg_ID p) (db_packages db) = [p]"
    and "filter (\<lambda>x. pkg_Name x = pkg_Name p) (db_packages db) = [p]"
  using assms by (auto intro!: uniqueBy_filter_eq simp: pg_inv_def packages_table_def)

lemma package_owner:
  assumes inv: "pg_inv db" and p: "p \<in> set (db_packages db)"
  obtains a where "filter (\<lambda>x. acc_ID x = pkg_OwnerAccountID p) (db_accounts db) = [a]"
proof -
  have "pkg_OwnerAccountID p \<in> acc_ID ` set (db_accounts db)"
    using inv p by (auto simp: pg_inv_def packages_table_def refersTo_def)
  then obtain a where "a \<in> set (db_accounts db)" "acc_ID a = pkg_OwnerAccountID p" by (metis imageE)
  then show thesis using that account_row [OF inv] by metis
qed

lemma queryRow_mem: "queryRow rows = Inr r \<Longrightarrow> r \<in> set rows"
  by (auto simp: res_iff)

text \<open>A query for a package finds the row, joined with its owner.\<close>

definition joined :: "package \<Rightarrow> package \<Rightarrow> database \<Rightarrow> bool" where
  "joined q p db \<longleftrightarrow> p \<in> set (db_packages db) \<and>
     (\<exists>a. filter (\<lambda>x. acc_ID x = pkg_OwnerAccountID p) (db_accounts db) = [a] \<and> q = scanPackage p a)"

lemma joined_sel:
  "joined q p db \<Longrightarrow> pkg_ID q = pkg_ID p \<and> pkg_Name q = pkg_Name p \<and> pkg_Private q = pkg_Private p
     \<and> pkg_OwnerAccountID q = pkg_OwnerAccountID p \<and> p \<in> set (db_packages db)"
  by (auto simp: joined_def)

lemma joined_unique: "joined q p db \<Longrightarrow> joined q' p db \<Longrightarrow> q = q'"
  by (auto simp: joined_def)

lemma packageQuery_row:
  assumes "pg_inv db" and "p \<in> set (db_packages db)"
  shows "\<exists>q. joined q p db"
  using package_owner [OF assms] assms(2) by (auto simp: joined_def)

lemma GetPackage_row:
  assumes inv: "pg_inv db"
  shows "Postgres_GetPackageByID i db = Inr q \<longleftrightarrow> (\<exists>p. joined q p db \<and> pkg_ID p = i)"
    and "Postgres_GetPackageByName n db = Inr q \<longleftrightarrow> (\<exists>p. joined q p db \<and> pkg_Name p = n)"
proof -
  have hit: "queryRow (packageQuery P db) = Inr q \<longleftrightarrow> (\<exists>p. joined q p db \<and> P p)"
    if one: "\<And>p. p \<in> set (db_packages db) \<Longrightarrow> P p \<Longrightarrow> filter P (db_packages db) = [p]" for P
  proof (cases "\<exists>p \<in> set (db_packages db). P p")
    case True
    then obtain p where p: "p \<in> set (db_packages db)" "P p" by blast
    obtain a where a: "filter (\<lambda>x. acc_ID x = pkg_OwnerAccountID p) (db_accounts db) = [a]"
      by (rule package_owner [OF inv p(1)])
    have only: "p' = p" if "p' \<in> set (db_packages db)" "P p'" for p'
      using one [OF p] one [OF that] by simp
    have j: "joined (scanPackage p a) p db" using p(1) a by (simp add: joined_def)
    have run: "queryRow (packageQuery P db) = Inr (scanPackage p a)"
      using one [OF p] a by (simp add: packageQuery_def)
    show ?thesis
    proof
      assume "queryRow (packageQuery P db) = Inr q"
      then show "\<exists>p. joined q p db \<and> P p" using run j p(2) by (intro exI [of _ p]) simp
    next
      assume "\<exists>p. joined q p db \<and> P p"
      then obtain p' where p': "joined q p' db" "P p'" by blast
      then have "p' = p" using only joined_sel [OF p'(1)] by blast
      then show "queryRow (packageQuery P db) = Inr q" using run joined_unique [OF j] p'(1) by simp
    qed
  next
    case False
    then have "filter P (db_packages db) = []" by (simp add: filter_empty_conv)
    then show ?thesis using False by (auto simp: packageQuery_def joined_def)
  qed
  show "Postgres_GetPackageByID i db = Inr q \<longleftrightarrow> (\<exists>p. joined q p db \<and> pkg_ID p = i)"
    unfolding Postgres_GetPackageByID_def by (rule hit) (auto simp: package_row [OF inv])
  show "Postgres_GetPackageByName n db = Inr q \<longleftrightarrow> (\<exists>p. joined q p db \<and> pkg_Name p = n)"
    unfolding Postgres_GetPackageByName_def by (rule hit) (auto simp: package_row [OF inv])
qed

text \<open>The roles that let an account view or manage a package that is not its own.\<close>

lemma canAccess_row:
  assumes inv: "pg_inv db" and p: "p \<in> set (db_packages db)"
  shows "canAccess (pkg_ID p) a manage db = Inr (\<not> manage \<and> \<not> pkg_Private p \<or> a \<noteq> [] \<and> (pkg_OwnerAccountID p = a
     \<or> list_ex (\<lambda>acl. aclNames (pkg_ID p) a acl db
         \<and> acl_Role acl \<in> set (if manage then [''editor'', ''owner''] else [''viewer'', ''editor'', ''owner''])) (db_package_acl db)))"
  using package_row(1) [OF assms] by (auto simp: canAccess_def Let_def)

lemma canAccess_hit:
  assumes inv: "pg_inv db" and ok: "canAccess i a manage db = Inr r"
  obtains p where "p \<in> set (db_packages db)" and "pkg_ID p = i"
proof -
  have "filter (\<lambda>p. pkg_ID p = i) (db_packages db) \<noteq> []" using ok by (auto simp: canAccess_def)
  then show thesis using that by (auto simp: filter_empty_conv)
qed

interpretation pg_packages: package_store postgres_repo pg_inv
proof unfold_locales
  fix s n p
  assume inv: "pg_inv s" and "GetPackageByName postgres_repo n s = Inr p"
  then show "pkg_Name p = n \<and> GetPackageByID postgres_repo (pkg_ID p) s = Inr p"
    unfolding postgres_repo_sel GetPackage_row [OF inv] by (metis joined_sel)
next
  fix s i p
  assume inv: "pg_inv s" and "GetPackageByID postgres_repo i s = Inr p"
  then show "pkg_ID p = i \<and> GetPackageByName postgres_repo (pkg_Name p) s = Inr p"
    unfolding postgres_repo_sel GetPackage_row [OF inv] by (metis joined_sel)
next
  fix s i a
  assume inv: "pg_inv s" and m: "CanManagePackage postgres_repo i a s = Inr True"
  then have "canAccess i a True s = Inr True" by (simp add: Postgres_CanManagePackage_def)
  then obtain p where p: "p \<in> set (db_packages s)" "pkg_ID p = i" by (rule canAccess_hit [OF inv])
  show "CanViewPackage postgres_repo i a s = Inr True"
    using m unfolding postgres_repo_sel Postgres_CanManagePackage_def Postgres_CanViewPackage_def p(2) [symmetric]
      canAccess_row [OF inv p(1)]
    by (auto simp: list_ex_iff)
next
  fix s a i p
  assume inv: "pg_inv s" and a: "a \<noteq> []" and g: "GetPackageByID postgres_repo i s = Inr p" "pkg_OwnerAccountID p = a"
  then obtain q where q: "joined p q s" "pkg_ID q = i" by (auto simp: GetPackage_row [OF inv])
  then have "q \<in> set (db_packages s)" "pkg_OwnerAccountID q = a" using joined_sel [OF q(1)] g(2) by simp_all
  then show "CanManagePackage postgres_repo i a s = Inr True"
    using canAccess_row [OF inv, of q a True] a q(2) by (simp add: Postgres_CanManagePackage_def)
next
  fix s i p a
  assume inv: "pg_inv s" and g: "GetPackageByID postgres_repo i s = Inr p" "\<not> pkg_Private p"
  then obtain q where q: "joined p q s" "pkg_ID q = i" by (auto simp: GetPackage_row [OF inv])
  then have "q \<in> set (db_packages s)" "\<not> pkg_Private q" using joined_sel [OF q(1)] g(2) by simp_all
  then show "CanViewPackage postgres_repo i a s = Inr True"
    using canAccess_row [OF inv, of q a False] q(2) by (simp add: Postgres_CanViewPackage_def)
next
  fix s and p q :: package
  assume inv: "pg_inv s" and "GetPackageByName postgres_repo (pkg_Name p) s = Inr q"
  then obtain r where "r \<in> set (db_packages s)" "pkg_Name r = pkg_Name p"
    by (auto simp: GetPackage_row [OF inv] dest: joined_sel)
  then have "\<not> unused pkg_Name (pkg_Name p) (db_packages s)" by (auto simp: unused_def list_all_iff)
  then show "\<exists>w. CreatePackage postgres_repo p s = (Inl (ErrConflict w), s)"
    by (auto simp: Postgres_CreatePackage_def insertPackage_def insertUnless_def map_err_st_def uniqueViolation_text)
qed

section \<open>Tokens\<close>

text \<open>A token may be added when its keys are unused; the table keeps its times to the microsecond.\<close>

definition pg_fresh_token :: "store_token \<Rightarrow> database \<Rightarrow> bool" where
  "pg_fresh_token tok db \<longleftrightarrow> unused tok_SessionID (tok_SessionID tok) (db_store_tokens db)
     \<and> unused tok_TokenHash (tok_TokenHash tok) (db_store_tokens db)"

lemma FindStoreTokenByHash_row:
  assumes inv: "pg_inv db"
  shows "Postgres_FindStoreTokenByHash h db = Inr (tok, a) \<longleftrightarrow>
     tok \<in> set (db_store_tokens db) \<and> tok_TokenHash tok = h \<and> a \<in> set (db_accounts db) \<and> acc_ID a = tok_AccountID tok"
    (is "?L \<longleftrightarrow> ?R")
proof
  assume ?L
  then show ?R unfolding Postgres_FindStoreTokenByHash_def by (auto dest: queryRow_mem)
next
  assume R: ?R
  have "filter (\<lambda>t. tok_TokenHash t = tok_TokenHash tok) (db_store_tokens db) = [tok]"
    using inv R by (intro uniqueBy_filter_eq) (simp_all add: pg_inv_def tokens_table_def)
  moreover have "filter (\<lambda>x. acc_ID x = acc_ID a) (db_accounts db) = [a]"
    using account_row [OF inv] R by blast
  ultimately show ?L using R by (simp add: Postgres_FindStoreTokenByHash_def)
qed

text \<open>Revoking rewrites the tokens of a session.\<close>

definition revokedRow :: "time \<Rightarrow> string \<Rightarrow> string \<Rightarrow> string \<Rightarrow> store_token \<Rightarrow> store_token" where
  "revokedRow t aid sid who tok = (if tok_AccountID tok = aid \<and> tok_SessionID tok = sid
     then tok\<lparr>tok_RevokedAt := Some (timestamptz t), tok_RevokedBy := Some who\<rparr> else tok)"

lemma revokedRow_sel [simp]:
  "tok_TokenHash (revokedRow t aid sid who tok) = tok_TokenHash tok"
  "tok_AccountID (revokedRow t aid sid who tok) = tok_AccountID tok"
  by (simp_all add: revokedRow_def)

lemma RevokeStoreToken_rows:
  "Postgres_RevokeStoreToken t sh aid sid who db = (r, db') \<Longrightarrow>
     db' = db\<lparr>db_store_tokens := map (revokedRow t aid sid who) (db_store_tokens db)\<rparr>"
proof -
  have eq: "updateWhere (\<lambda>r. tok_AccountID r = aid \<and> tok_SessionID r = sid)
      (\<lambda>r. r\<lparr>tok_RevokedAt := Some (timestamptz t), tok_RevokedBy := Some who\<rparr>) rows = map (revokedRow t aid sid who) rows" for rows
    by (simp add: updateWhere_def revokedRow_def)
  have same: "map (revokedRow t aid sid who) (db_store_tokens db) = db_store_tokens db"
    if "\<not> (\<exists>r \<in> set (db_store_tokens db). tok_AccountID r = aid \<and> tok_SessionID r = sid)"
    using that by (intro map_idI) (auto simp: revokedRow_def)
  show "Postgres_RevokeStoreToken t sh aid sid who db = (r, db') \<Longrightarrow> ?thesis"
    using same by (auto simp: Postgres_RevokeStoreToken_def affected_def eq split: if_splits)
qed

interpretation pg_tokens: token_store postgres_repo pg_inv pg_fresh_token tokenRow
proof unfold_locales
  fix s t a a' s'
  assume inv: "pg_inv s" and run: "EnsureAccount postgres_repo t a s = (Inr a', s')"
  have inv': "pg_inv s'" using pg_inv_EnsureAccount [OF inv, of t a] run by simp
  show "acc_Subject a' = acc_Subject a \<and> acc_Username a' = acc_Username a
      \<and> acc_DisplayName a' = acc_DisplayName a \<and> acc_Email a' = acc_Email a"
    using run by (auto simp: Postgres_EnsureAccount_def Let_def res_iff filter_eq_Cons_iff split: list.splits)
  have "a' \<in> set (db_accounts s')"
    using run by (auto simp: Postgres_EnsureAccount_def Let_def res_iff filter_eq_Cons_iff insertUnless_Inr
        set_updateWhere split: list.splits)
  then show "GetAccountByID postgres_repo (acc_ID a') s' = Inr a'"
    using account_row [OF inv'] by (simp add: Postgres_GetAccountByID_def)
next
  fix tok :: store_token
  show "(tok_RevokedAt (tokenRow tok) = None) = (tok_RevokedAt tok = None)" by simp
next
  fix s tok u s' a
  assume inv: "pg_inv s" and run: "CreateStoreToken postgres_repo tok s = (Inr u, s')"
    and acc: "GetAccountByID postgres_repo (tok_AccountID tok) s = Inr a"
  have inv': "pg_inv s'" using pg_inv_CreateStoreToken [OF inv, of tok] run by simp
  have "a \<in> set (db_accounts s)" "acc_ID a = tok_AccountID tok"
    using acc by (auto simp: Postgres_GetAccountByID_def dest: queryRow_mem)
  moreover have "db_accounts s' = db_accounts s" "tokenRow tok \<in> set (db_store_tokens s')"
    using run by (auto simp: Postgres_CreateStoreToken_def insertUnless_Inr)
  ultimately show "FindStoreTokenByHash postgres_repo (tok_TokenHash tok) s' = Inr (tokenRow tok, a)"
    by (simp add: FindStoreTokenByHash_row [OF inv'])
next
  fix s tok u s'
  assume "pg_inv s" "CreateStoreToken postgres_repo tok s = (Inr u, s')"
  then show "pg_inv s'" using pg_inv_CreateStoreToken [of s tok] by simp
next
  fix s h tok a t sh who u s'
  assume inv: "pg_inv s" and f: "FindStoreTokenByHash postgres_repo h s = Inr (tok, a)"
    and r: "RevokeStoreToken postgres_repo t sh (tok_AccountID tok) (tok_SessionID tok) who s = (Inr u, s')"
  let ?tok = "revokedRow t (tok_AccountID tok) (tok_SessionID tok) who tok"
  have inv': "pg_inv s'"
    using pg_inv_RevokeStoreToken [OF inv, of t sh "tok_AccountID tok" "tok_SessionID tok" who] r by simp
  have s': "s' = s\<lparr>db_store_tokens := map (revokedRow t (tok_AccountID tok) (tok_SessionID tok) who) (db_store_tokens s)\<rparr>"
    using RevokeStoreToken_rows r by simp
  have "FindStoreTokenByHash postgres_repo h s' = Inr (?tok, a)"
    using f unfolding postgres_repo_sel FindStoreTokenByHash_row [OF inv] FindStoreTokenByHash_row [OF inv'] by (simp add: s')
  moreover have "tok_RevokedAt ?tok \<noteq> None" by (simp add: revokedRow_def)
  ultimately show "\<exists>tok'. FindStoreTokenByHash postgres_repo h s' = Inr (tok', a) \<and> tok_RevokedAt tok' \<noteq> None" by blast
next
  fix s h tok a t sh aid sid who r s'
  assume inv: "pg_inv s" and f: "FindStoreTokenByHash postgres_repo h s = Inr (tok, a)"
    and r: "RevokeStoreToken postgres_repo t sh aid sid who s = (r, s')"
    and other: "tok_AccountID tok \<noteq> aid \<or> tok_SessionID tok \<noteq> sid"
  have inv': "pg_inv s'" using pg_inv_RevokeStoreToken [OF inv, of t sh aid sid who] r by simp
  have s': "s' = s\<lparr>db_store_tokens := map (revokedRow t aid sid who) (db_store_tokens s)\<rparr>"
    using RevokeStoreToken_rows r by simp
  have "revokedRow t aid sid who tok = tok" using other by (auto simp: revokedRow_def)
  then have "tok \<in> set (db_store_tokens s) \<Longrightarrow> tok \<in> set (db_store_tokens s')" by (force simp: s')
  then show "FindStoreTokenByHash postgres_repo h s' = Inr (tok, a)"
    using f unfolding postgres_repo_sel FindStoreTokenByHash_row [OF inv] FindStoreTokenByHash_row [OF inv'] by (simp add: s')
qed

section \<open>Revisions and releases\<close>

lemma GetRevisionByNumber_row:
  assumes inv: "pg_inv db"
  shows "Postgres_GetRevisionByNumber i n db = Inr r \<longleftrightarrow> r \<in> set (db_revisions db) \<and> rev_PackageID r = i \<and> rev_Revision r = n"
    (is "?L \<longleftrightarrow> ?R")
proof
  assume ?L
  then show ?R
    by (auto simp: Postgres_GetRevisionByNumber_def Postgres_ListRevisions_def res_iff split: if_splits list.splits
        dest!: arg_cong [of _ _ set])
next
  assume R: ?R
  have u: "uniqueBy (\<lambda>r. (rev_PackageID r, rev_Revision r)) (db_revisions db)" and small: "int4 n"
    using inv R by (auto simp: pg_inv_def revisions_table_def list_all_iff)
  have "filter (\<lambda>x. rev_PackageID x = i \<and> rev_Revision x = n) (db_revisions db) = [r]"
    using uniqueBy_filter_eq [OF u, of r] R by simp
  moreover have "filter (\<lambda>x. rev_Revision x = n) (filter (\<lambda>x. rev_PackageID x = i) xs)
      = filter (\<lambda>x. rev_PackageID x = i \<and> rev_Revision x = n) xs" for xs
    by (simp add: conj_commute)
  ultimately show ?L using small by (simp add: Postgres_GetRevisionByNumber_def Postgres_ListRevisions_def Let_def)
qed

lemma revisions_cong:
  "db_revisions db' = db_revisions db \<Longrightarrow> Postgres_GetRevisionByNumber i n db' = Postgres_GetRevisionByNumber i n db"
  by (simp add: Postgres_GetRevisionByNumber_def Postgres_ListRevisions_def)

lemma GetLatestRevision_row:
  "Postgres_GetLatestRevision i db = Inr l \<Longrightarrow> l \<in> set (db_revisions db) \<and> rev_PackageID l = i
     \<and> (\<forall>r \<in> set (db_revisions db). rev_PackageID r = i \<longrightarrow> rev_Revision r \<le> rev_Revision l)"
  "Postgres_GetLatestRevision i db = Inl e \<Longrightarrow> e = ErrNotFound \<and> i \<notin> rev_PackageID ` set (db_revisions db)"
proof -
  let ?rows = "filter (\<lambda>r. rev_PackageID r = i) (db_revisions db)"
  let ?sorted = "sort_key (\<lambda>r. - rev_Revision r) ?rows"
  have set: "set ?sorted = set ?rows" and sorted: "sorted (map (\<lambda>r. - rev_Revision r) ?sorted)" by simp_all
  show "Postgres_GetLatestRevision i db = Inr l \<Longrightarrow> l \<in> set (db_revisions db) \<and> rev_PackageID l = i
     \<and> (\<forall>r \<in> set (db_revisions db). rev_PackageID r = i \<longrightarrow> rev_Revision r \<le> rev_Revision l)"
  proof -
    assume "Postgres_GetLatestRevision i db = Inr l"
    then obtain rest where rows: "?sorted = l # rest"
      by (auto simp: Postgres_GetLatestRevision_def Postgres_ListRevisions_def Let_def split: list.splits)
    have "set (l # rest) = set ?rows" using set unfolding rows .
    moreover have "\<forall>r \<in> set (l # rest). rev_Revision r \<le> rev_Revision l" using sorted unfolding rows by simp
    ultimately show ?thesis by auto
  qed
  show "Postgres_GetLatestRevision i db = Inl e \<Longrightarrow> e = ErrNotFound \<and> i \<notin> rev_PackageID ` set (db_revisions db)"
  proof -
    assume a: "Postgres_GetLatestRevision i db = Inl e"
    then have "?sorted = []" "e = ErrNotFound"
      by (auto simp: Postgres_GetLatestRevision_def Postgres_ListRevisions_def Let_def split: list.splits)
    then have "?rows = []" using set by simp
    then show ?thesis using \<open>e = ErrNotFound\<close> by (auto simp: filter_empty_conv)
  qed
qed

lemma CreateRevision_row:
  assumes "Postgres_CreateRevision rv db = (Inr u, db')"
  shows "db' = db\<lparr>db_revisions := db_revisions db @ [revisionRowOf rv]\<rparr>" and "int4 (rev_Revision rv)"
  using assms by (auto simp: Postgres_CreateRevision_def insertUnless_Inr)

lemma sameRevision_row: "sameRevision rv (revisionRowOf rv)"
  by (simp add: sameRevision_def revisionRowOf_def)

interpretation pg_revisions: revision_store postgres_repo pg_inv
proof unfold_locales
  fix s pid n
  assume inv: "pg_inv s" and "GetLatestRevision postgres_repo pid s = Inl ErrNotFound"
  then have none: "pid \<notin> rev_PackageID ` set (db_revisions s)" using GetLatestRevision_row(2) [of pid s] by simp
  show "\<exists>e. GetRevisionByNumber postgres_repo pid n s = Inl e"
  proof (cases "GetRevisionByNumber postgres_repo pid n s")
    case (Inr r)
    then show ?thesis using none by (auto simp: GetRevisionByNumber_row [OF inv])
  qed simp
next
  fix s pid n l r
  assume inv: "pg_inv s" and "GetLatestRevision postgres_repo pid s = Inr l"
    and "GetRevisionByNumber postgres_repo pid n s = Inr r"
  then show "n \<le> rev_Revision l"
    using GetLatestRevision_row(1) [of pid s l] by (auto simp: GetRevisionByNumber_row [OF inv])
next
  fix s rv e u s'
  assume inv: "pg_inv s" and run: "CreateRevision postgres_repo rv s = (Inr u, s')"
  have inv': "pg_inv s'" using pg_inv_CreateRevision [OF inv, of rv] run by simp
  have "GetRevisionByNumber postgres_repo (rev_PackageID rv) (rev_Revision rv) s' = Inr (revisionRowOf rv)"
    using CreateRevision_row(1) [of rv s u s'] run unfolding postgres_repo_sel GetRevisionByNumber_row [OF inv'] by simp
  then show "\<exists>rv'. GetRevisionByNumber postgres_repo (rev_PackageID rv) (rev_Revision rv) s' = Inr rv' \<and> sameRevision rv rv'"
    using sameRevision_row by blast
next
  fix s pid n r rv u s'
  assume inv: "pg_inv s" and run: "CreateRevision postgres_repo rv s = (Inr u, s')"
    and old: "GetRevisionByNumber postgres_repo pid n s = Inr r"
  have inv': "pg_inv s'" using pg_inv_CreateRevision [OF inv, of rv] run by simp
  show "GetRevisionByNumber postgres_repo pid n s' = Inr r"
    using old CreateRevision_row(1) [of rv s u s'] run
    unfolding postgres_repo_sel GetRevisionByNumber_row [OF inv] GetRevisionByNumber_row [OF inv'] by simp
next
  fix t i m errs s q s' pid n
  assume "ApproveUpload postgres_repo t i m errs s = (q, s')"
  then show "GetRevisionByNumber postgres_repo pid n s' = GetRevisionByNumber postgres_repo pid n s"
    unfolding postgres_repo_sel
    by (intro revisions_cong) (auto simp: Postgres_ApproveUpload_def Let_def affected_def split: option.splits if_splits)
next
  fix d s p s' pid n
  assume "UpsertResourceDefinition postgres_repo d s = (p, s')"
  then show "GetRevisionByNumber postgres_repo pid n s' = GetRevisionByNumber postgres_repo pid n s"
    unfolding postgres_repo_sel
    by (intro revisions_cong)
      (auto simp: Postgres_UpsertResourceDefinition_def Let_def insertUnless_def split: list.splits option.splits)
next
  fix pkg s u s' pid n
  assume "UpdatePackage postgres_repo pkg s = (u, s')"
  then show "GetRevisionByNumber postgres_repo pid n s' = GetRevisionByNumber postgres_repo pid n s"
    unfolding postgres_repo_sel by (intro revisions_cong) (auto simp: Postgres_UpdatePackage_def affected_def split: if_splits)
qed

lemma ResolveRelease_row:
  assumes inv: "pg_inv db"
  shows "Postgres_ResolveRelease i ch db = Inr r \<longleftrightarrow> r \<in> set (db_releases db) \<and> rel_PackageID r = i \<and> rel_Channel r = ch"
    (is "?L \<longleftrightarrow> ?R")
proof
  assume ?L
  then show ?R by (auto simp: Postgres_ResolveRelease_def releasesOf_def dest: queryRow_mem)
next
  assume R: ?R
  have u: "uniqueBy (\<lambda>r. (rel_PackageID r, rel_Channel r)) (db_releases db)"
    using inv by (simp add: pg_inv_def releases_table_def)
  have "filter (\<lambda>x. rel_PackageID x = i \<and> rel_Channel x = ch) (db_releases db) = [r]"
    using uniqueBy_filter_eq [OF u, of r] R by simp
  then show ?L by (simp add: Postgres_ResolveRelease_def releasesOf_def conj_commute)
qed

lemma ResolveRelease_none:
  "Postgres_ResolveRelease i ch db = Inl e \<longleftrightarrow> e = ErrNotFound \<and> (i, ch) \<notin> (\<lambda>r. (rel_PackageID r, rel_Channel r)) ` set (db_releases db)"
  by (auto simp: Postgres_ResolveRelease_def releasesOf_def res_iff filter_empty_conv)

text \<open>The row a release writes, in place or at the end.\<close>

definition replacedRow :: "string \<Rightarrow> release \<Rightarrow> release \<Rightarrow> release" where
  "replacedRow i rl r = (if rel_PackageID r = i \<and> rel_Channel r = rel_Channel rl
     then r\<lparr>rel_Revision := rel_Revision rl, rel_Base := rel_Base rl, rel_Resources := rel_Resources rl,
            rel_When := timestamptz (rel_When rl), rel_ExpirationDate := map_option timestamptz (rel_ExpirationDate rl),
            rel_Progressive := rel_Progressive rl\<rparr> else r)"

lemma replacedRow_key [simp]:
  "rel_PackageID (replacedRow i rl r) = rel_PackageID r" "rel_Channel (replacedRow i rl r) = rel_Channel r"
  by (simp_all add: replacedRow_def)

lemma replacedRow_other: "rel_PackageID r \<noteq> i \<or> rel_Channel r \<noteq> rel_Channel rl \<Longrightarrow> replacedRow i rl r = r"
  by (auto simp: replacedRow_def)

lemma ReplaceRelease_rows:
  assumes "Postgres_ReplaceRelease i rl db = (Inr u, db')"
  obtains (update) r where "r \<in> set (db_releases db)" and "rel_PackageID r = i" and "rel_Channel r = rel_Channel rl"
      and "db' = db\<lparr>db_releases := map (replacedRow i rl) (db_releases db)\<rparr>"
  | (insert) "(i, rel_Channel rl) \<notin> (\<lambda>r. (rel_PackageID r, rel_Channel r)) ` set (db_releases db)"
      and "db' = db\<lparr>db_releases := db_releases db @ [releaseRowOf i rl]\<rparr>"
proof (cases "list_ex (\<lambda>r. rel_PackageID r = i \<and> rel_Channel r = rel_Channel rl) (db_releases db)")
  case True
  then obtain r where "r \<in> set (db_releases db)" "rel_PackageID r = i" "rel_Channel r = rel_Channel rl"
    by (auto simp: list_ex_iff)
  moreover have eq: "updateWhere (\<lambda>r. rel_PackageID r = i \<and> rel_Channel r = rel_Channel rl)
      (\<lambda>r. r\<lparr>rel_Revision := rel_Revision (releaseRowOf i rl), rel_Base := rel_Base (releaseRowOf i rl),
        rel_Resources := rel_Resources (releaseRowOf i rl), rel_When := rel_When (releaseRowOf i rl),
        rel_ExpirationDate := rel_ExpirationDate (releaseRowOf i rl),
        rel_Progressive := rel_Progressive (releaseRowOf i rl)\<rparr>) rows = map (replacedRow i rl) rows" for rows
    by (simp add: updateWhere_def replacedRow_def releaseRowOf_def)
  have "db' = db\<lparr>db_releases := map (replacedRow i rl) (db_releases db)\<rparr>"
    using assms True unfolding Postgres_ReplaceRelease_def Let_def eq by (simp split: if_splits)
  ultimately show thesis by (rule update)
next
  case False
  then have "(i, rel_Channel rl) \<notin> (\<lambda>r. (rel_PackageID r, rel_Channel r)) ` set (db_releases db)"
    by (auto simp: list_ex_iff)
  moreover have "db' = db\<lparr>db_releases := db_releases db @ [releaseRowOf i rl]\<rparr>"
    using assms False by (simp add: Postgres_ReplaceRelease_def Let_def insertUnless_Inr split: if_splits)
  ultimately show thesis by (rule insert)
qed

lemma ReplaceRelease_others: "Postgres_ReplaceRelease i rl db = (r, db') \<Longrightarrow> db_revisions db' = db_revisions db"
  by (auto simp: Postgres_ReplaceRelease_def Let_def insertUnless_def split: if_splits option.splits)

lemma sameRelease_row:
  "sameRelease rl (releaseRowOf i rl)"
  "rel_PackageID r = i \<Longrightarrow> rel_Channel r = rel_Channel rl \<Longrightarrow> sameRelease rl (replacedRow i rl r)"
  by (simp_all add: sameRelease_def replacedRow_def)

lemma resolve_cong:
  "filter (\<lambda>r. rel_PackageID r = i \<and> rel_Channel r = ch) (db_releases db') =
   filter (\<lambda>r. rel_PackageID r = i \<and> rel_Channel r = ch) (db_releases db) \<Longrightarrow>
     Postgres_ResolveRelease i ch db' = Postgres_ResolveRelease i ch db"
  by (simp add: Postgres_ResolveRelease_def releasesOf_def conj_commute)

interpretation pg_releases: release_store postgres_repo pg_inv
proof unfold_locales
  fix s pid rl u s'
  assume inv: "pg_inv s" and run: "ReplaceRelease postgres_repo pid rl s = (Inr u, s')"
  have inv': "pg_inv s'" using pg_inv_ReplaceRelease [OF inv, of pid rl] run by simp
  from run have "Postgres_ReplaceRelease pid rl s = (Inr u, s')" by simp
  then show "\<exists>rl'. ResolveRelease postgres_repo pid (rel_Channel rl) s' = Inr rl' \<and> sameRelease rl rl'"
  proof (cases rule: ReplaceRelease_rows)
    case (update r)
    then have "ResolveRelease postgres_repo pid (rel_Channel rl) s' = Inr (replacedRow pid rl r)"
      unfolding postgres_repo_sel ResolveRelease_row [OF inv'] by simp
    then show ?thesis using sameRelease_row(2) update(2,3) by blast
  next
    case insert
    then have "ResolveRelease postgres_repo pid (rel_Channel rl) s' = Inr (releaseRowOf pid rl)"
      unfolding postgres_repo_sel ResolveRelease_row [OF inv'] by simp
    then show ?thesis using sameRelease_row(1) by blast
  qed
next
  fix s pid rl u s' pid' ch
  assume inv: "pg_inv s" and run: "ReplaceRelease postgres_repo pid rl s = (Inr u, s')"
    and other: "pid' \<noteq> pid \<or> ch \<noteq> rel_Channel rl"
  have "filter (\<lambda>r. rel_PackageID r = pid' \<and> rel_Channel r = ch) (map (replacedRow pid rl) xs)
      = filter (\<lambda>r. rel_PackageID r = pid' \<and> rel_Channel r = ch) xs" for xs
    using other by (induction xs) (auto simp: replacedRow_other)
  note same = this [of "db_releases s"]
  from run have "Postgres_ReplaceRelease pid rl s = (Inr u, s')" by simp
  then show "ResolveRelease postgres_repo pid' ch s' = ResolveRelease postgres_repo pid' ch s"
  proof (cases rule: ReplaceRelease_rows)
    case (update r)
    then show ?thesis unfolding postgres_repo_sel using same by (intro resolve_cong) (simp del: filter_map)
  next
    case insert
    then show ?thesis unfolding postgres_repo_sel using other by (intro resolve_cong) auto
  qed
next
  fix s pid rl r s' pid' n
  assume "ReplaceRelease postgres_repo pid rl s = (r, s')"
  then show "GetRevisionByNumber postgres_repo pid' n s' = GetRevisionByNumber postgres_repo pid' n s"
    unfolding postgres_repo_sel by (intro revisions_cong) (rule ReplaceRelease_others)
next
  fix s pid rl rv u s'
  assume "pg_inv s" "ReplaceRelease postgres_repo pid rl s = (Inr u, s')"
  then show "pg_inv s'" using pg_inv_ReplaceRelease [of s pid rl] by simp
next
  fix pkg s u s' pid ch
  assume "UpdatePackage postgres_repo pkg s = (u, s')"
  then show "ResolveRelease postgres_repo pid ch s' = ResolveRelease postgres_repo pid ch s"
    unfolding postgres_repo_sel by (intro resolve_cong) (auto simp: Postgres_UpdatePackage_def affected_def split: if_splits)
qed

section \<open>Requests\<close>

interpretation pg_keep: command_invariant postgres_repo pg_inv
  by unfold_locales (simp_all add: pg_inv_commands)

end
