(* ===== verification/PostgresExamples.thy ===== *)
theory PostgresExamples
  imports PostgresContract Charm Examples
begin

text \<open>
  Concrete tables for the witnesses over PostgreSQL: the accounts, the charm, its revisions and its resource of
  the in-memory examples, with Bob on the access list of the package as a viewer.
\<close>

definition pg_shop :: database where
  "pg_shop =
     \<lparr>db_accounts = [alice, bob], db_group_members = [], db_packages = [packageRow demo],
      db_package_acl = [\<lparr>acl_PackageID = ''p1'', acl_PrincipalType = ''account'', acl_PrincipalID = ''a2'', acl_Role = ''viewer''\<rparr>],
      db_tracks = [], db_uploads = [demo_upload],
      db_revisions = [demo_revision 1 ''uploads/u1/demo.charm'', demo_revision 2 ''uploads/u9/demo.charm''],
      db_resource_definitions = [demo_resource], db_resource_revisions = [demo_resource_revision],
      db_releases = [(demo_release ''latest/stable'' 1)\<lparr>rel_PackageID := ''p1''\<rparr>],
      db_store_tokens = [edge_token]\<rparr>"

definition pg_service :: "(database, memory_store) service" where
  "pg_service = NewService ex_cfg postgres_repo memory_blobs"

lemma pg_service_sel [simp]:
  "svc_repo pg_service = postgres_repo" "svc_blobs pg_service = memory_blobs" "svc_cfg pg_service = ex_cfg"
  by (simp_all add: pg_service_def NewService_def)

lemma pg_shop_sel [simp]:
  "db_accounts pg_shop = [alice, bob]" "db_packages pg_shop = [packageRow demo]" "db_uploads pg_shop = [demo_upload]"
  "db_group_members pg_shop = []" "db_tracks pg_shop = []"
  "db_revisions pg_shop = [demo_revision 1 ''uploads/u1/demo.charm'', demo_revision 2 ''uploads/u9/demo.charm'']"
  "db_resource_definitions pg_shop = [demo_resource]" "db_resource_revisions pg_shop = [demo_resource_revision]"
  "db_releases pg_shop = [(demo_release ''latest/stable'' 1)\<lparr>rel_PackageID := ''p1''\<rparr>]" "db_store_tokens pg_shop = [edge_token]"
  by (simp_all add: pg_shop_def)

lemma ex_keys [simp]:
  "acc_ID alice = ''a1''" "acc_ID bob = ''a2''" "acc_Subject alice = ''sub-alice''" "acc_Subject bob = ''sub-bob''"
  "pkg_ID demo = ''p1''" "pkg_Name demo = ''demo''" "pkg_OwnerAccountID demo = ''a1''" "pkg_Private demo"
  "upl_ID demo_upload = ''u1''" "upl_ObjectKey demo_upload = ''uploads/u1/demo.charm''"
  "rd_ID demo_resource = ''d1''" "rd_PackageID demo_resource = ''p1''" "rd_Name demo_resource = ''img''"
  "rr_ID demo_resource_revision = ''e1''" "rr_ResourceID demo_resource_revision = ''d1''"
  "rr_Revision demo_resource_revision = 1" "rr_ObjectKey demo_resource_revision = ''uploads/u2/img.bin''"
  "rev_PackageID (demo_revision n k) = ''p1''" "rev_Revision (demo_revision n k) = n" "rev_ID (demo_revision n k) = ''r'' @ itoa n"
  "tok_SessionID edge_token = ''s1''" "tok_TokenHash edge_token = ''h1''" "tok_AccountID edge_token = ''a1''"
  "rel_Channel (demo_release ch n) = ch" "rel_ID (demo_release ch n) = ''l1''" "rel_Revision (demo_release ch n) = n"
  by (simp_all add: ex_defs)

lemma pg_shop_inv: "pg_inv pg_shop"
proof -
  have "itoa 1 \<noteq> itoa 2" by code_simp
  then show ?thesis by (simp add: pg_inv_def table_defs uniqueBy_def refersTo_def int4_def)
qed

definition demo_stored_row :: package where
  "demo_stored_row = scanPackage (packageRow demo) alice"

lemma demo_row_sel [simp]:
  "pkg_ID demo_stored_row = ''p1''" "pkg_Name demo_stored_row = ''demo''" "pkg_Private demo_stored_row"
  "pkg_OwnerAccountID demo_stored_row = ''a1''"
  by (simp_all add: demo_stored_row_def)

lemma pg_demo:
  "Postgres_GetPackageByName ''demo'' pg_shop = Inr demo_stored_row"
  "Postgres_GetPackageByID ''p1'' pg_shop = Inr demo_stored_row"
  by (simp_all add: Postgres_GetPackageByName_def Postgres_GetPackageByID_def packageQuery_def demo_stored_row_def)

lemma pg_alice_manages:
  "requirePackageManage pg_service alice_in demo_stored_row permission pg_shop = Inr ()"
  by (simp add: requirePackageManage_iff tokenGrants_def tokenExcludesPackage_def alice_in_def
      Postgres_CanManagePackage_def canAccess_def Let_def)

lemma pg_alice_views: "requirePackageView pg_service alice_in demo_stored_row False pg_shop = Inr ()"
  by (simp add: requirePackageView_iff tokenExcludesPackage_def alice_in_def Postgres_CanViewPackage_def canAccess_def)

text \<open>The identifiers of the example environment are not in use.\<close>

lemma ex_uuid: "uuid ex_env i = replicate (Suc i) CHR ''n''" "now ex_env i = 1000"
  by (simp_all add: ex_env_def)

text \<open>An API over the tables, and an upload served by it.\<close>

definition pg_api :: "(database, memory_store) api" where
  "pg_api = \<lparr>api_cfg = ex_cfg, api_svc = pg_service, api_auth = \<lparr>au_config = ex_cfg, au_verifier = None\<rparr>\<rparr>"

lemma pg_api_sel [simp]: "api_svc pg_api = pg_service"
  by (simp add: pg_api_def)

lemma pg_upload_served:
  assumes "unused upl_ID ''n'' (db_uploads db)"
  obtains u b where "serves pg_api ex_lib (db, shop_blobs) (db\<lparr>db_uploads := db_uploads db @ [uploadRow u]\<rparr>, b)"
proof -
  let ?u = "newUpload (uuid ex_env 0) (now ex_env 0) ''d.charm'' ''zip''"
  let ?db' = "db\<lparr>db_uploads := db_uploads db @ [uploadRow ?u]\<rparr>"
  have "upl_ID ?u = ''n''" by (simp add: newUpload_def Let_def ex_uuid)
  then have "Postgres_CreateUpload ?u db = (Inr (), ?db')"
    using assms by (simp add: Postgres_CreateUpload_def insertUnless_def newUpload_def)
  then have "\<exists>r b. dispatch pg_api ex_lib ex_env (UnscannedUpload (Inr (''d.charm'', ''zip''))) db shop_blobs = (r, ?db', b)"
    by (simp add: dispatch_def handleUnscannedUpload_def Service_CreateUpload_def Let_def MemoryStore_Put_def)
  then obtain r b where "dispatch pg_api ex_lib ex_env (UnscannedUpload (Inr (''d.charm'', ''zip''))) db shop_blobs = (r, ?db', b)"
    by blast
  then have "serves pg_api ex_lib (db, shop_blobs) (?db', b)" by (rule serves.one [OF serves.none])
  then show thesis by (rule that)
qed

end
