(* ===== verification/PostgresConcurrent.thy ===== *)
theory PostgresConcurrent
  imports Concurrent PostgresExamples
begin

text \<open>
  Requests that run at the same time over PostgreSQL.  Whatever the interleaving of their calls, no constraint
  of the tables breaks and nothing published is lost, and a request that was accepted has left its row.
\<close>

section \<open>What the calls of the others keep\<close>

definition kept :: "('a \<Rightarrow> 'k) \<Rightarrow> 'a list \<Rightarrow> 'a list \<Rightarrow> bool" where
  "kept key rows rows' \<longleftrightarrow> key ` set rows \<subseteq> key ` set rows'"

definition rowsKept :: "database \<Rightarrow> database \<Rightarrow> bool" where
  "rowsKept db db' \<longleftrightarrow>
     kept (\<lambda>p. (pkg_ID p, pkg_Name p, pkg_OwnerAccountID p)) (db_packages db) (db_packages db')
     \<and> kept (\<lambda>u. (upl_ID u, upl_ObjectKey u)) (db_uploads db) (db_uploads db')
     \<and> kept (\<lambda>r. r) (db_revisions db) (db_revisions db')
     \<and> kept (\<lambda>d. (rd_ID d, rd_PackageID d, rd_Name d)) (db_resource_definitions db) (db_resource_definitions db')
     \<and> kept (\<lambda>r. (rr_ID r, rr_ResourceID r, rr_Revision r, rr_ObjectKey r)) (db_resource_revisions db) (db_resource_revisions db')"

definition tablesGrow :: "database \<Rightarrow> database \<Rightarrow> bool" where
  "tablesGrow db db' \<longleftrightarrow> (pg_inv db \<longrightarrow> pg_inv db') \<and> rowsKept db db'"

lemma kept_simps [simp]:
  "kept key rows rows" "kept key rows (rows @ xs)"
  by (auto simp: kept_def)

lemma kept_updateWhere [simp]: "(\<And>r. key (f r) = key r) \<Longrightarrow> kept key rows (updateWhere P f rows)"
  by (simp add: kept_def image_updateWhere)

lemma kept_trans: "kept key a b \<Longrightarrow> kept key b c \<Longrightarrow> kept key a c"
  by (auto simp: kept_def)

lemma tablesGrow_trans: "tablesGrow s t \<Longrightarrow> tablesGrow t u \<Longrightarrow> tablesGrow s u"
  unfolding tablesGrow_def rowsKept_def by (meson kept_trans)

lemma rowsKept_refl [simp]: "rowsKept db db"
  by (simp add: rowsKept_def)

lemma rowsKept_insertUnless: "rowsKept db db' \<Longrightarrow> rowsKept db (snd (insertUnless cs db db'))"
  by (simp add: insertUnless_def split: option.split)

lemma rowsKept_insertTracks: "rowsKept db (snd (insertTracks i n ts db))"
proof (induction ts arbitrary: n db)
  case (Cons t ts)
  let ?db' = "db\<lparr>db_tracks := db_tracks db @ [\<lparr>tr_PackageID = i, tr_Track = trackRow t\<rparr>]\<rparr>"
  have "rowsKept db (snd (insertTracks i (Suc n) ts ?db'))" using Cons.IH [of ?db' "Suc n"] by (simp add: rowsKept_def)
  then show ?case using Cons.IH [of db n] by (simp add: insertUnless_def)
qed simp

lemma rowsKept_commands:
  "rowsKept db (snd (Postgres_EnsureAccount t a db))"
  "rowsKept db (snd (Postgres_CreateStoreToken tok db))"
  "rowsKept db (snd (Postgres_RevokeStoreToken t sh aid sid who db))"
  "rowsKept db (snd (Postgres_CreateUpload u db))"
  "rowsKept db (snd (Postgres_UpdateResourceRevision rr db))"
  "rowsKept db (snd (Postgres_CreatePackage p db))"
  "rowsKept db (snd (Postgres_UpdatePackage p db))"
  "rowsKept db (snd (Postgres_CreateTracks i ts db))"
  "rowsKept db (snd (Postgres_ApproveUpload t uid n errs db))"
  "rowsKept db (snd (Postgres_CreateRevision rv db))"
  "rowsKept db (snd (Postgres_UpsertResourceDefinition d db))"
  "rowsKept db (snd (Postgres_CreateResourceRevision rr db))"
  "rowsKept db (snd (Postgres_ReplaceRelease i rl db))"
proof -
  show "rowsKept db (snd (Postgres_EnsureAccount t a db))"
    by (simp add: Postgres_EnsureAccount_def Let_def snd_st_bind_pure insertUnless_def rowsKept_def split: list.split option.split)
  show "rowsKept db (snd (Postgres_CreateStoreToken tok db))"
    unfolding Postgres_CreateStoreToken_def by (rule rowsKept_insertUnless) (simp add: rowsKept_def)
  show "rowsKept db (snd (Postgres_RevokeStoreToken t sh aid sid who db))"
    by (simp add: Postgres_RevokeStoreToken_def affected_simps rowsKept_def)
  show "rowsKept db (snd (Postgres_CreateUpload u db))"
    unfolding Postgres_CreateUpload_def by (rule rowsKept_insertUnless) (simp add: rowsKept_def)
  show "rowsKept db (snd (Postgres_UpdateResourceRevision rr db))"
    by (simp add: Postgres_UpdateResourceRevision_def Let_def affected_simps rowsKept_def)
  show "rowsKept db (snd (Postgres_CreatePackage p db))"
    unfolding Postgres_CreatePackage_def insertPackage_def snd_map_err by (rule rowsKept_insertUnless) (simp add: rowsKept_def)
  show "rowsKept db (snd (Postgres_UpdatePackage p db))"
    by (simp add: Postgres_UpdatePackage_def affected_simps rowsKept_def)
  show "rowsKept db (snd (Postgres_CreateTracks i ts db))"
    unfolding Postgres_CreateTracks_def by (rule rowsKept_insertTracks)
  show "rowsKept db (snd (Postgres_ApproveUpload t uid n errs db))"
    by (simp add: Postgres_ApproveUpload_def Let_def affected_simps rowsKept_def split: option.split)
  show "rowsKept db (snd (Postgres_CreateRevision rv db))"
    unfolding Postgres_CreateRevision_def by (rule rowsKept_insertUnless) (simp add: rowsKept_def)
  show "rowsKept db (snd (Postgres_UpsertResourceDefinition d db))"
    by (simp add: Postgres_UpsertResourceDefinition_def Let_def snd_st_bind_pure rowsKept_def insertUnless_def split: list.split option.split)
  show "rowsKept db (snd (Postgres_CreateResourceRevision rr db))"
    unfolding Postgres_CreateResourceRevision_def by (rule rowsKept_insertUnless) (simp add: rowsKept_def)
  show "rowsKept db (snd (Postgres_ReplaceRelease i rl db))"
    by (simp add: Postgres_ReplaceRelease_def Let_def insertUnless_def rowsKept_def split: option.split)
qed

section \<open>The requests keep it\<close>

text \<open>The states of a pool are the tables and the blob store; nothing is said about the payloads.\<close>

abbreviation storesGrow :: "database \<times> 'b \<Rightarrow> database \<times> 'b \<Rightarrow> bool" where
  "storesGrow sb sb' \<equiv> tablesGrow (fst sb) (fst sb')"

lemma tablesGrow_commands [simp]:
  "tablesGrow db db"
  "tablesGrow db (snd (Postgres_EnsureAccount t a db))"
  "tablesGrow db (snd (Postgres_CreateStoreToken tok db))"
  "tablesGrow db (snd (Postgres_RevokeStoreToken t sh aid sid who db))"
  "tablesGrow db (snd (Postgres_CreateUpload u db))"
  "tablesGrow db (snd (Postgres_UpdateResourceRevision rr db))"
  "tablesGrow db (snd (Postgres_CreatePackage p db))"
  "tablesGrow db (snd (Postgres_UpdatePackage p db))"
  "tablesGrow db (snd (Postgres_CreateTracks i ts db))"
  "tablesGrow db (snd (Postgres_ApproveUpload t uid n errs db))"
  "tablesGrow db (snd (Postgres_CreateRevision rv db))"
  "tablesGrow db (snd (Postgres_UpsertResourceDefinition d db))"
  "tablesGrow db (snd (Postgres_CreateResourceRevision rr db))"
  "tablesGrow db (snd (Postgres_ReplaceRelease i rl db))"
  by (simp_all add: tablesGrow_def rowsKept_commands pg_inv_commands)

interpretation pg_pool: protocol storesGrow
  by unfold_locales (simp, rule tablesGrow_trans)

interpretation pg_growth: command_relation postgres_repo tablesGrow False
  by unfold_locales (simp_all, rule tablesGrow_trans)

section \<open>What an accepted request leaves behind\<close>

definition recordedPackage :: "string \<Rightarrow> string \<Rightarrow> database \<Rightarrow> bool" where
  "recordedPackage i name db \<longleftrightarrow> (\<exists>p \<in> set (db_packages db). pkg_ID p = i \<and> pkg_Name p = name)"

definition recordedUpload :: "string \<Rightarrow> string \<Rightarrow> database \<Rightarrow> bool" where
  "recordedUpload i key db \<longleftrightarrow> (\<exists>u \<in> set (db_uploads db). upl_ID u = i \<and> upl_ObjectKey u = key)"

definition recordedRevision :: "string \<Rightarrow> string \<Rightarrow> string \<Rightarrow> database \<Rightarrow> bool" where
  "recordedRevision i name uploadID db \<longleftrightarrow> (\<exists>rv \<in> set (db_revisions db). rev_ID rv = i
     \<and> recordedPackage (rev_PackageID rv) name db \<and> recordedUpload uploadID (rev_ObjectKey rv) db)"

text \<open>The resource \<open>i\<close> is declared under a name by the package of a name.\<close>

definition declares :: "string \<Rightarrow> string \<Rightarrow> string \<Rightarrow> database \<Rightarrow> bool" where
  "declares name resource i db \<longleftrightarrow> (\<exists>d \<in> set (db_resource_definitions db). rd_ID d = i \<and> rd_Name d = resource
     \<and> recordedPackage (rd_PackageID d) name db)"

definition recordedResource :: "string \<Rightarrow> string \<Rightarrow> string \<Rightarrow> database \<Rightarrow> bool" where
  "recordedResource i name resource db \<longleftrightarrow>
     (\<exists>rr \<in> set (db_resource_revisions db). rr_ID rr = i \<and> declares name resource (rr_ResourceID rr) db)"

fun recorded :: "ambient \<Rightarrow> request \<Rightarrow> database \<Rightarrow> bool" where
  "recorded E (Register _ name _ _) db = recordedPackage (compactID (uuid E 0)) name db"
| "recorded E (Upload filename _) db = recordedUpload (uuid E 0) (uploadKey (uuid E 0) filename) db"
| "recorded E (Publish _ name uploadID) db = recordedRevision (uuid E 0) name uploadID db"
| "recorded E (PushRes _ name resource _) db = recordedResource (uuid E 0) name resource db"
| "recorded E _ db = True"

definition whenAccepted :: "(database \<Rightarrow> bool) \<Rightarrow> 'a res \<Rightarrow> database \<times> 'b \<Rightarrow> bool" where
  "whenAccepted P x sb = (case x of Inl _ \<Rightarrow> True | Inr _ \<Rightarrow> P (fst sb))"

lemma kept_mem: "kept key rows rows' \<Longrightarrow> r \<in> set rows \<Longrightarrow> \<exists>r' \<in> set rows'. key r' = key r"
  unfolding kept_def by (metis image_eqI image_iff subset_eq)

lemma recorded_grow:
  assumes "tablesGrow db db'"
  shows "recordedPackage i name db \<Longrightarrow> recordedPackage i name db'"
    and "recordedUpload i key db \<Longrightarrow> recordedUpload i key db'"
    and "recordedRevision i name uploadID db \<Longrightarrow> recordedRevision i name uploadID db'"
    and "declares name resource i db \<Longrightarrow> declares name resource i db'"
    and "recordedResource i name resource db \<Longrightarrow> recordedResource i name resource db'"
proof -
  have k: "kept (\<lambda>p. (pkg_ID p, pkg_Name p, pkg_OwnerAccountID p)) (db_packages db) (db_packages db')"
    "kept (\<lambda>u. (upl_ID u, upl_ObjectKey u)) (db_uploads db) (db_uploads db')"
    "kept (\<lambda>r. r) (db_revisions db) (db_revisions db')"
    "kept (\<lambda>d. (rd_ID d, rd_PackageID d, rd_Name d)) (db_resource_definitions db) (db_resource_definitions db')"
    "kept (\<lambda>r. (rr_ID r, rr_ResourceID r, rr_Revision r, rr_ObjectKey r)) (db_resource_revisions db) (db_resource_revisions db')"
    using assms by (simp_all add: tablesGrow_def rowsKept_def)
  show p: "recordedPackage i name db \<Longrightarrow> recordedPackage i name db'" for i
    unfolding recordedPackage_def using kept_mem [OF k(1)] by (metis prod.inject)
  show u: "recordedUpload i key db \<Longrightarrow> recordedUpload i key db'" for i key
    unfolding recordedUpload_def using kept_mem [OF k(2)] by (metis prod.inject)
  show "recordedRevision i name uploadID db \<Longrightarrow> recordedRevision i name uploadID db'"
    unfolding recordedRevision_def using kept_mem [OF k(3)] p u by metis
  show d: "declares name resource i db \<Longrightarrow> declares name resource i db'" for i
    unfolding declares_def using kept_mem [OF k(4)] p by (metis prod.inject)
  show "recordedResource i name resource db \<Longrightarrow> recordedResource i name resource db'"
    unfolding recordedResource_def using kept_mem [OF k(5)] d by (metis prod.inject)
qed

lemma recorded_stable: "pg_pool.stable (whenAccepted (recorded E r))"
proof -
  have "tablesGrow db db' \<Longrightarrow> recorded E r db \<Longrightarrow> recorded E r db'" for db db'
    by (cases r) (auto dest: recorded_grow)
  then show ?thesis by (auto simp: pg_pool.stable_def whenAccepted_def split: sum.splits)
qed

text \<open>The rules of the calls over the pair of the stores.\<close>

lemma secures_calls:
  fixes Q :: "'a res \<Rightarrow> database \<times> 'b \<Rightarrow> bool"
  assumes err: "\<And>e t. Q (Inl e) t"
  shows "(\<And>db bs x. tablesGrow (fst sb) db \<Longrightarrow> q db = Inr x \<Longrightarrow> secures storesGrow Q (k x) (db, bs)) \<Longrightarrow>
      secures storesGrow Q (askRepo q k) sb"
    and "(\<And>db bs x db'. tablesGrow (fst sb) db \<Longrightarrow> c db = (Inr x, db') \<Longrightarrow> secures storesGrow Q (k' x) (db', bs)) \<Longrightarrow>
      secures storesGrow Q (tellRepo c k') sb"
    and "(\<And>db bs x. tablesGrow (fst sb) db \<Longrightarrow> qb bs = Inr x \<Longrightarrow> secures storesGrow Q (k'' x) (db, bs)) \<Longrightarrow>
      secures storesGrow Q (askBlobs qb k'') sb"
    and "(\<And>db bs x. tablesGrow (fst sb) db \<Longrightarrow> secures storesGrow Q (k3 x) (db, bs)) \<Longrightarrow>
      secures storesGrow Q (tellBlobs cb k3) sb"
    and "(\<And>x. r = Inr x \<Longrightarrow> secures storesGrow Q (k4 x) sb) \<Longrightarrow> secures storesGrow Q (ownStep r k4) sb"
    and "secures storesGrow Q (tellAnyway d (Finished (Inl e))) sb"
proof -
  show "secures storesGrow Q (askRepo q k) sb"
    if "\<And>db bs x. tablesGrow (fst sb) db \<Longrightarrow> q db = Inr x \<Longrightarrow> secures storesGrow Q (k x) (db, bs)"
    unfolding askRepo_def by (rule pg_pool.secures_query) (use that err in auto)
  show "secures storesGrow Q (tellRepo c k') sb"
    if "\<And>db bs x db'. tablesGrow (fst sb) db \<Longrightarrow> c db = (Inr x, db') \<Longrightarrow> secures storesGrow Q (k' x) (db', bs)"
    unfolding tellRepo_def by (rule pg_pool.secures_command) (use that err in \<open>auto split: prod.splits\<close>)
  show "secures storesGrow Q (askBlobs qb k'') sb"
    if "\<And>db bs x. tablesGrow (fst sb) db \<Longrightarrow> qb bs = Inr x \<Longrightarrow> secures storesGrow Q (k'' x) (db, bs)"
    unfolding askBlobs_def by (rule pg_pool.secures_query) (use that err in auto)
  show "secures storesGrow Q (tellBlobs cb k3) sb"
    if "\<And>db bs x. tablesGrow (fst sb) db \<Longrightarrow> secures storesGrow Q (k3 x) (db, bs)"
    unfolding tellBlobs_def by (rule pg_pool.secures_command) (use that err in \<open>auto split: prod.splits\<close>)
  show "secures storesGrow Q (ownStep r k4) sb" if "\<And>x. r = Inr x \<Longrightarrow> secures storesGrow Q (k4 x) sb"
    using that err by (cases r) (simp_all add: ownStep_def)
  show "secures storesGrow Q (tellAnyway d (Finished (Inl e))) sb" using err by (simp add: tellAnyway_def attemptCall_def)
qed

lemma whenAccepted_Inl [simp]: "whenAccepted P (Inl e) t"
  by (simp add: whenAccepted_def)

lemma whenAccepted_map [simp]: "whenAccepted P (map_sum id f x) t = whenAccepted P x t"
  by (cases x) (simp_all add: whenAccepted_def)

lemma accepted: "(\<lambda>x. whenAccepted P (map_sum id f x)) = whenAccepted P"
  by (simp add: fun_eq_iff)

lemma secures_recorded:
  assumes "obeys storesGrow p" and "P (fst sb)" and "\<And>db db'. tablesGrow db db' \<Longrightarrow> P db \<Longrightarrow> P db'"
  shows "secures storesGrow (whenAccepted P) p sb"
  using assms(1)
  by (rule pg_pool.secures_rest) (use assms(2,3) in \<open>auto simp: pg_pool.stable_def whenAccepted_def split: sum.splits\<close>)

section \<open>Every accepted request has left its row\<close>

lemma GetPackageByName_recorded:
  "Postgres_GetPackageByName name db = Inr pkg \<Longrightarrow> recordedPackage (pkg_ID pkg) name db"
  unfolding Postgres_GetPackageByName_def by (drule queryRow_mem) (fastforce simp: recordedPackage_def packageQuery_def)

lemma GetUpload_recorded: "Postgres_GetUpload i db = Inr u \<Longrightarrow> upl_ID u = i \<and> recordedUpload i (upl_ObjectKey u) db"
  by (auto simp: Postgres_GetUpload_def recordedUpload_def dest!: queryRow_mem)

lemma secures_publishRevision:
  assumes S: "svc_repo S = postgres_repo" and p: "recordedPackage (pkg_ID pkg) name (fst sb)"
    and u: "recordedUpload uploadID (upl_ObjectKey upload) (fst sb)"
  shows "secures storesGrow (whenAccepted (recordedRevision (uuid E 0) name uploadID))
     (publishRevision_calls S E identity name pkg upload archive) sb"
  unfolding publishRevision_calls_def Let_def
proof (rule secures_calls(1), goal_cases)
  case (2 db bs n)
  show ?case
  proof (rule secures_calls(2), goal_cases)
    case (2 db1 bs1 x db2)
    let ?rv = "newRevision (uuid E 0) (now E 0) (pkg_ID pkg) (acc_ID (idn_Account identity)) n upload archive"
    have db2: "db2 = db1\<lparr>db_revisions := db_revisions db1 @ [revisionRowOf ?rv]\<rparr>"
      using 2(2) S by (simp add: Postgres_CreateRevision_def insertUnless_Inr)
    have "tablesGrow (fst sb) db1" using \<open>tablesGrow (fst sb) db\<close> 2(1) tablesGrow_trans by simp
    then have "recordedPackage (pkg_ID pkg) name db1" "recordedUpload uploadID (upl_ObjectKey upload) db1"
      using p u recorded_grow by blast+
    then have "recordedRevision (uuid E 0) name uploadID db2"
      by (simp add: recordedRevision_def recordedPackage_def recordedUpload_def db2 newRevision_def revisionRowOf_def)
    then show ?case
      by (intro secures_recorded) (auto simp: S intro!: pg_growth.obeys_calls pg_growth.obeys_upsertResources intro: recorded_grow)
  qed simp
qed simp

lemma secures_PushRevision:
  assumes S: "svc_repo S = postgres_repo"
  shows "secures storesGrow (whenAccepted (recordedRevision (uuid E 0) name uploadID))
     (PushRevision_calls S lib E identity name uploadID) sb"
  unfolding PushRevision_calls_def
proof (rule secures_calls(1), goal_cases)
  case (2 db1 bs1 pkg)
  then have p: "recordedPackage (pkg_ID pkg) name db1" using GetPackageByName_recorded by (simp add: S map_err_Inr)
  show ?case
  proof (rule secures_calls(1), goal_cases)
    case (2 db2 bs2 _)
    then have p: "recordedPackage (pkg_ID pkg) name db2" using p recorded_grow by simp
    show ?case
    proof (rule secures_calls(1), goal_cases)
      case (2 db3 bs3 upload)
      then have p: "recordedPackage (pkg_ID pkg) name db3" and u: "recordedUpload uploadID (upl_ObjectKey upload) db3"
        using p recorded_grow GetUpload_recorded by (simp_all add: S map_err_Inr)
      show ?case
      proof (rule secures_calls(3), goal_cases)
        case (2 db4 bs4 payload)
        then have "recordedPackage (pkg_ID pkg) name db4" "recordedUpload uploadID (upl_ObjectKey upload) db4"
          using p u recorded_grow by simp_all
        then show ?case by (simp add: S secures_calls(6) secures_publishRevision split: sum.split)
      qed simp
    qed simp
  qed simp
qed simp

lemma newResourceRevision_keys:
  "rr_ID (newResourceRevision i t d n req u payload) = i"
  "rr_ResourceID (newResourceRevision i t d n req u payload) = rd_ID d"
  by (simp_all add: newResourceRevision_def Let_def)

lemma secures_PushResource:
  assumes S: "svc_repo S = postgres_repo"
  shows "secures storesGrow (whenAccepted (recordedResource (uuid E 0) name resource))
     (PushResource_calls S E identity name resource req) sb"
  unfolding PushResource_calls_def Let_def
proof (rule secures_calls(1), goal_cases)
  case (2 db1 bs1 pkg)
  then have p: "recordedPackage (pkg_ID pkg) name db1" using GetPackageByName_recorded by (simp add: S map_err_Inr)
  show ?case
  proof (rule secures_calls(1), goal_cases)
    case (2 db2 bs2 _)
    then have p: "recordedPackage (pkg_ID pkg) name db2" using p recorded_grow by simp
    show ?case
    proof (rule secures_calls(1), goal_cases)
      case (2 db3 bs3 def)
      then have "def \<in> set (db_resource_definitions db3)" "rd_PackageID def = pkg_ID pkg" "rd_Name def = resource"
        by (auto simp: S map_err_Inr Postgres_GetResourceDefinition_def dest!: queryRow_mem)
      moreover have "recordedPackage (pkg_ID pkg) name db3" using 2 p recorded_grow by simp
      ultimately have d: "declares name resource (rd_ID def) db3" unfolding declares_def by metis
      show ?case
      proof (rule secures_calls(1), goal_cases)
        case (2 db4 bs4 upload)
        then have d: "declares name resource (rd_ID def) db4" using d recorded_grow by simp
        show ?case
        proof (rule secures_calls(3), goal_cases)
          case (2 db5 bs5 payload)
          then have d: "declares name resource (rd_ID def) db5" using d recorded_grow by simp
          show ?case
          proof (rule secures_calls(1), goal_cases)
            case (2 db6 bs6 existing)
            then have d: "declares name resource (rd_ID def) db6" using d recorded_grow by simp
            show ?case
            proof (rule secures_calls(2), goal_cases)
              case (2 db7 bs7 x db8)
              let ?rr = "newResourceRevision (uuid E 0) (now E 0) def
                (case existing of [] \<Rightarrow> 1 | r # _ \<Rightarrow> rr_Revision r + 1) req upload payload"
              have "db8 = db7\<lparr>db_resource_revisions := db_resource_revisions db7 @ [resourceRow ?rr]\<rparr>"
                using 2(2) by (simp add: S Postgres_CreateResourceRevision_def insertUnless_Inr)
              moreover have "declares name resource (rd_ID def) db7" using 2(1) d recorded_grow by simp
              ultimately have "recordedResource (uuid E 0) name resource db8"
                by (simp add: recordedResource_def declares_def recordedPackage_def newResourceRevision_keys)
              then show ?case
                by (intro secures_recorded) (auto simp: S intro!: pg_growth.obeys_calls intro: recorded_grow)
            qed simp
          qed simp
        qed simp
      qed simp
    qed simp
  qed simp
qed simp

lemma secures_RegisterPackage:
  assumes S: "svc_repo S = postgres_repo"
  shows "secures storesGrow (whenAccepted (recordedPackage (compactID (uuid E 0)) name))
     (RegisterPackage_calls S E identity name ty priv) sb"
  unfolding RegisterPackage_calls_def Let_def
proof (rule secures_calls(5), goal_cases)
  case (2 x)
  show ?case
  proof (rule secures_calls(2), goal_cases)
    case (2 db bs y db')
    then have "recordedPackage (compactID (uuid E 0)) name db'"
      by (auto simp: S map_err_st_Inr Postgres_CreatePackage_def insertPackage_def insertUnless_Inr
          recordedPackage_def newPackage_def)
    then show ?case by (intro secures_recorded) (auto simp: S intro!: pg_growth.obeys_calls intro: recorded_grow)
  qed simp
qed simp

lemma secures_CreateUpload:
  assumes S: "svc_repo S = postgres_repo"
  shows "secures storesGrow (whenAccepted (recordedUpload (uuid E 0) (uploadKey (uuid E 0) filename)))
     (CreateUpload_calls S E filename payload) sb"
  unfolding CreateUpload_calls_def Let_def
proof (rule secures_calls(4), goal_cases)
  case (2 db bs x)
  show ?case
  proof (rule secures_calls(2), goal_cases)
    case (2 db1 bs1 y db2)
    then have "recordedUpload (uuid E 0) (uploadKey (uuid E 0) filename) db2"
      by (auto simp: S Postgres_CreateUpload_def insertUnless_Inr recordedUpload_def newUpload_def uploadRow_def)
    then show ?case by (simp add: whenAccepted_def)
  qed simp
qed simp

lemma secures_request:
  assumes S: "svc_repo S = postgres_repo" and "\<not> removes r"
  shows "secures storesGrow (whenAccepted (recorded E r)) (request_calls S lib E r) sb"
proof -
  have rest: "secures storesGrow (whenAccepted (recorded E r)) (request_calls S lib E r) sb" if "\<And>db. recorded E r db"
    using that by (intro secures_recorded pg_growth.obeys_request) (use assms in simp_all)
  show ?thesis
  proof (cases r)
    case (Register identity name ty priv)
    have "recorded E r = recordedPackage (compactID (uuid E 0)) name" by (simp add: Register fun_eq_iff)
    then show ?thesis using secures_RegisterPackage [OF S] by (simp add: Register secures_map_process accepted)
  next
    case (Upload filename payload)
    have "recorded E r = recordedUpload (uuid E 0) (uploadKey (uuid E 0) filename)" by (simp add: Upload fun_eq_iff)
    then show ?thesis using secures_CreateUpload [OF S] by (simp add: Upload secures_map_process accepted)
  next
    case (Publish identity name uploadID)
    have "recorded E r = recordedRevision (uuid E 0) name uploadID" by (simp add: Publish fun_eq_iff)
    then show ?thesis using secures_PushRevision [OF S] by (simp add: Publish secures_map_process accepted)
  next
    case (PushRes identity name resource req)
    have "recorded E r = recordedResource (uuid E 0) name resource" by (simp add: PushRes fun_eq_iff)
    then show ?thesis using secures_PushResource [OF S] by (simp add: PushRes secures_map_process accepted)
  qed (rule rest, simp)+
qed

section \<open>Any interleaving\<close>


definition other_env :: ambient where
  "other_env = plain_ambient 1000 (\<lambda>i. replicate (Suc i) CHR ''m'')"

definition isAccepted :: "('s, 'a res) process \<Rightarrow> bool" where
  "isAccepted p = (case p of Finished (Inr _) \<Rightarrow> True | _ \<Rightarrow> False)"

lemma isAccepted_iff: "isAccepted p \<longleftrightarrow> (\<exists>x. p = Finished (Inr x))"
  by (auto simp: isAccepted_def split: process.splits sum.splits)


end
