(* ===== verification/PostgresRequests.thy ===== *)
theory PostgresRequests
  imports PostgresConcurrent Publishing
begin

text \<open>
  Requests over PostgreSQL: the constraints of the tables and the access list along any sequence of requests,
  releases as assignments to a table of channels, tokens to the microsecond, numbers outside their column.
\<close>

section \<open>The access list\<close>

text \<open>No command of the repository adds to the access list or touches the groups.\<close>

definition accessFrozen :: "package_acl set \<Rightarrow> (string \<times> string) list \<Rightarrow> database \<Rightarrow> bool" where
  "accessFrozen acls members db \<longleftrightarrow> set (db_package_acl db) \<subseteq> acls \<and> db_group_members db = members"

lemma insertTracks_access:
  "db_package_acl (snd (insertTracks pid n ts db)) = db_package_acl db
   \<and> db_group_members (snd (insertTracks pid n ts db)) = db_group_members db"
proof (induction ts arbitrary: n db)
  case (Cons t ts)
  show ?case
    using Cons.IH
    by (auto simp: insertUnless_def)
qed simp

interpretation pg_access: command_invariant postgres_repo "accessFrozen acls members"
proof unfold_locales
  fix s pid ts
  assume "accessFrozen acls members s"
  then show "accessFrozen acls members (snd (CreateTracks postgres_repo pid ts s))"
    using insertTracks_access [of pid 0 ts s] by (simp add: accessFrozen_def Postgres_CreateTracks_def)
next
  fix s pid
  assume "accessFrozen acls members s"
  then show "accessFrozen acls members (snd (DeletePackage postgres_repo pid s))"
    by (auto simp: accessFrozen_def Postgres_DeletePackage_def affected_def cascade_def Let_def)
qed (simp_all add: accessFrozen_def Postgres_EnsureAccount_def Postgres_CreateStoreToken_def Postgres_RevokeStoreToken_def
      Postgres_CreatePackage_def insertPackage_def Postgres_UpdatePackage_def Postgres_CreateUpload_def
      Postgres_ApproveUpload_def Postgres_CreateRevision_def Postgres_UpsertResourceDefinition_def
      Postgres_CreateResourceRevision_def Postgres_UpdateResourceRevision_def Postgres_ReplaceRelease_def
      insertUnless_def affected_def Let_def split: list.split option.split)

section \<open>Properties\<close>

text \<open>Whatever requests are served, the tables keep their constraints: keys stay unique, references resolve,
revision numbers fit their column.\<close>

lemma postgres_requests_keep_tables:
  assumes "svc_repo (api_svc A) = postgres_repo" and "serves A lib (db0, b0) (db, b)" and "pg_inv db0"
  shows "pg_inv db"
  using pg_keep.keep_serves [OF assms(2,1)] assms(3) by simp

text \<open>C16: However the calls of requests in progress are interleaved over PostgreSQL, removals included, the tables
keep their constraints (keys stay unique, references resolve, revision numbers fit their column), nobody is added to
the access list of a package, and the groups keep their members.\<close>

theorem postgres_pools_keep_tables:
  assumes "svc_repo S = postgres_repo" and "pg_inv db"
    and "interleaving (map (\<lambda>(E, r). request_calls S lib E r) requests, (db, bs)) (ps, (db', bs'))"
  shows "pg_inv db' \<and> set (db_package_acl db') \<subseteq> set (db_package_acl db) \<and> db_group_members db' = db_group_members db"
  using pg_keep.step.pool_keeps [OF assms(1) _ assms(3)]
    pg_access.step.pool_keeps [OF assms(1) _ assms(3), of "set (db_package_acl db)" "db_group_members db"] assms(2)
  by (simp add: accessFrozen_def)

lemma postgres_pools_keep_tables_witness:
  "\<exists>ps db b. interleaving ([request_calls pg_service ex_lib ex_env (Unregister bob_in ''demo''),
        request_calls pg_service ex_lib other_env (Upload ''d.charm'' ''zip'')], (pg_shop, shop_blobs)) (ps, (db, b))
     \<and> pg_inv db \<and> db_group_members db = []"
proof -
  let ?rs = "[(ex_env, Unregister bob_in ''demo''), (other_env, Upload ''d.charm'' ''zip'')]"
  have "\<exists>ps db b. interleaving (map (\<lambda>(E, r). request_calls pg_service ex_lib E r) ?rs, (pg_shop, shop_blobs)) (ps, (db, b)) \<and> True"
    by (rule scheduled_ex [where turns = "[0, 1, 0, 1]"]) (simp split: prod.split)
  then obtain ps db b where run: "interleaving (map (\<lambda>(E, r). request_calls pg_service ex_lib E r) ?rs, (pg_shop, shop_blobs)) (ps, (db, b))"
    by blast
  then show ?thesis using postgres_pools_keep_tables [OF pg_service_sel(1) pg_shop_inv run] by auto
qed

text \<open>C11: the schema has access lists with roles and groups, but no request can write them: when the list is empty
at the start, whatever requests are served only the owner of a package may manage it, and only its owner may
view it while it is private.\<close>

theorem postgres_only_owner_has_access:
  assumes A: "svc_repo (api_svc A) = postgres_repo" and run: "serves A lib (db0, b0) (db, b)"
    and inv: "pg_inv db0" and acl: "db_package_acl db0 = []"
  shows "(Postgres_CanManagePackage i a db = Inr True \<longleftrightarrow>
        a \<noteq> [] \<and> (\<exists>p \<in> set (db_packages db). pkg_ID p = i \<and> pkg_OwnerAccountID p = a))
    \<and> (Postgres_CanViewPackage i a db = Inr True \<longleftrightarrow>
        (\<exists>p \<in> set (db_packages db). pkg_ID p = i \<and> (pkg_Private p \<longrightarrow> a \<noteq> [] \<and> pkg_OwnerAccountID p = a)))"
proof -
  have inv': "pg_inv db" using pg_keep.keep_serves [OF run A] inv by simp
  have "accessFrozen {} (db_group_members db0) db"
    using pg_access.keep_serves [OF run A, of "{}" "db_group_members db0"] acl by (simp add: accessFrozen_def)
  then have none: "db_package_acl db = []" by (simp add: accessFrozen_def)
  have "canAccess i a manage db = Inr True \<longleftrightarrow> (\<exists>p \<in> set (db_packages db). pkg_ID p = i
      \<and> (\<not> manage \<and> \<not> pkg_Private p \<or> a \<noteq> [] \<and> pkg_OwnerAccountID p = a))" for manage
  proof -
    have row: "canAccess i a manage db = Inr (\<not> manage \<and> \<not> pkg_Private p \<or> a \<noteq> [] \<and> pkg_OwnerAccountID p = a)"
      if "p \<in> set (db_packages db)" "pkg_ID p = i" for p
      using canAccess_row [OF inv' that(1), of a manage] that(2) none by simp
    show ?thesis
    proof
      assume ok: "canAccess i a manage db = Inr True"
      obtain p where p: "p \<in> set (db_packages db)" "pkg_ID p = i" by (rule canAccess_hit [OF inv' ok])
      then show "\<exists>p \<in> set (db_packages db). pkg_ID p = i \<and> (\<not> manage \<and> \<not> pkg_Private p \<or> a \<noteq> [] \<and> pkg_OwnerAccountID p = a)"
        using row [OF p] ok by (intro bexI [OF _ p(1)]) simp
    next
      assume "\<exists>p \<in> set (db_packages db). pkg_ID p = i \<and> (\<not> manage \<and> \<not> pkg_Private p \<or> a \<noteq> [] \<and> pkg_OwnerAccountID p = a)"
      then obtain p where p: "p \<in> set (db_packages db)" "pkg_ID p = i"
        "\<not> manage \<and> \<not> pkg_Private p \<or> a \<noteq> [] \<and> pkg_OwnerAccountID p = a" by blast
      then show "canAccess i a manage db = Inr True" using row [OF p(1,2)] by (simp only: simp_thms)
    qed
  qed
  then show ?thesis by (auto simp: Postgres_CanManagePackage_def Postgres_CanViewPackage_def)
qed

lemma postgres_only_owner_has_access_witness:
  "\<exists>db b. serves pg_api ex_lib (pg_shop\<lparr>db_package_acl := []\<rparr>, shop_blobs) (db, b)
     \<and> Postgres_CanManagePackage ''p1'' ''a1'' db = Inr True \<and> Postgres_CanViewPackage ''p1'' ''a2'' db \<noteq> Inr True"
proof -
  let ?db0 = "pg_shop\<lparr>db_package_acl := []\<rparr>"
  have "unused upl_ID ''n'' (db_uploads ?db0)" by (simp add: unused_def)
  then obtain u b where run: "serves pg_api ex_lib (?db0, shop_blobs) (?db0\<lparr>db_uploads := db_uploads ?db0 @ [uploadRow u]\<rparr>, b)"
    by (rule pg_upload_served)
  have A: "svc_repo (api_svc pg_api) = postgres_repo" and inv: "pg_inv ?db0" and acl: "db_package_acl ?db0 = []"
    using pg_shop_inv by (simp_all add: pg_inv_def)
  show ?thesis
    using run postgres_only_owner_has_access [OF A run inv acl, of "''p1''" "''a1''"]
      postgres_only_owner_has_access [OF A run inv acl, of "''p1''" "''a2''"]
    by (intro exI conjI) (assumption, simp_all)
qed


definition edge_request :: release where
  "edge_request = (demo_release ''latest/edge'' 2)\<lparr>rel_ID := ''l2''\<rparr>"

lemma edge_request_sel [simp]:
  "rel_Channel edge_request = ''latest/edge''" "rel_Revision edge_request = 2" "rel_ID edge_request = ''l2''"
  by (simp_all add: edge_request_def)

lemma pg_release:
  obtains out db' where "Release pg_service ex_env alice_in ''demo'' [edge_request] pg_shop = (Inr out, db')"
proof -
  let ?r = "stampRelease (now ex_env 0) (uuid ex_env 0) edge_request"
  have id: "rel_ID ?r = ''l2''" by (simp add: stampRelease_def)
  have rev: "Postgres_GetRevisionByNumber ''p1'' 2 pg_shop = Inr (demo_revision 2 ''uploads/u9/demo.charm'')"
    by (simp add: GetRevisionByNumber_row [OF pg_shop_inv])
  have ch: "enforceChannelRestriction alice_in ''latest/edge'' = Inr ()"
    by (simp add: enforceChannelRestriction_def alice_in_def)
  obtain db1 where c1: "Postgres_ReplaceRelease ''p1'' ?r pg_shop = (Inr (), db1)" and same: "db_packages db1 = db_packages pg_shop"
    by (simp add: Postgres_ReplaceRelease_def Let_def insertUnless_def unused_def references_def int4_def id)
  then have loop: "releaseLoop pg_service (uuid ex_env) alice_in (now ex_env 0) ''p1'' 0 [edge_request] [] pg_shop = (Inr [?r], db1)"
    using rev ch by (simp add: Let_def)
  obtain db2 where "Postgres_UpdatePackage (demo_stored_row\<lparr>pkg_Status := ''published'', pkg_UpdatedAt := now ex_env 0\<rparr>) db1
      = (Inr (), db2)"
    using same by (simp add: Postgres_UpdatePackage_def affected_def)
  then have "Release pg_service ex_env alice_in ''demo'' [edge_request] pg_shop = (Inr [?r], db2)"
    using loop pg_demo(1) pg_alice_manages by (simp add: Release_def)
  then show thesis by (rule that)
qed


section \<open>Tokens\<close>

text \<open>C24: over PostgreSQL a store token that was issued authenticates its account until the microsecond of its
expiry; the token that is found has its times cut to microseconds.\<close>

theorem postgres_issued_token_authenticates:
  assumes S: "svc_repo S = postgres_repo" and inv: "pg_inv db"
    and issue: "IssueStoreToken S E identity req db = (Inr (raw, tok), db')"
    and time: "t \<le> timestamptz (tok_ValidUntil tok)"
  shows "\<exists>account. Postgres_GetAccountByID (acc_ID (idn_Account identity)) db = Inr account
     \<and> Authenticate A postgres_repo t (''Bearer '' @ raw) db' = Inr (claimsOfAccount account, Some (tokenRow tok))"
proof -
  have c: "Postgres_CreateStoreToken tok db = (Inr (), db')" and owner: "tok_AccountID tok = acc_ID (idn_Account identity)"
    using IssueStoreToken_Inr [OF issue] by (simp_all add: S)
  then have fresh: "pg_fresh_token tok db" and "references acc_ID (tok_AccountID tok) (db_accounts db)"
    by (simp_all add: Postgres_CreateStoreToken_def insertUnless_Inr pg_fresh_token_def)
  then obtain account where "account \<in> set (db_accounts db)" "acc_ID account = acc_ID (idn_Account identity)"
    using owner by (auto simp: references_def list_ex_iff)
  then have acc: "Postgres_GetAccountByID (acc_ID (idn_Account identity)) db = Inr account"
    using account_row [OF inv] by (metis Postgres_GetAccountByID_def queryRow_simps(2))
  moreover have "t \<le> tok_ValidUntil (tokenRow tok)" using time by (simp add: tokenRow_def)
  ultimately have "Authenticate A postgres_repo t (''Bearer '' @ raw) db' = Inr (claimsOfAccount account, Some (tokenRow tok))"
    using pg_tokens.issued_authenticates [OF S inv fresh _ issue, of account t A] by simp
  with acc show ?thesis by blast
qed

lemma postgres_issued_token_authenticates_witness:
  "\<exists>raw tok db'. IssueStoreToken pg_service ex_env alice_in ex_token_request pg_shop = (Inr (raw, tok), db')
     \<and> Authenticate \<lparr>au_config = ex_cfg, au_verifier = None\<rparr> postgres_repo 2000 (''Bearer '' @ raw) db'
         = Inr (claimsOfAccount alice, Some (tokenRow tok))"
proof -
  obtain raw h where raw: "NewOpaqueToken (rand ex_env) = Inr (raw, h)"
    by (simp add: NewOpaqueToken_def Let_def ex_env_def)
  then have h: "h = HashToken raw" by (rule newOpaqueToken_raw)
  have "h \<noteq> ''h1''" unfolding h by (rule HashToken_neq) simp
  moreover have ttl: "tokenTTL (Some 60) = 60000000000" by (simp add: tokenTTL_in_range)
  ultimately obtain tok db' where issue: "IssueStoreToken pg_service ex_env alice_in ex_token_request pg_shop = (Inr (raw, tok), db')"
      and until: "tok_ValidUntil tok = 60000001000"
    using raw by (simp add: IssueStoreToken_def ex_token_request_def Let_def Postgres_CreateStoreToken_def insertUnless_def
        unused_def references_def ex_uuid) (auto simp: alice_in_def)
  have "Postgres_GetAccountByID ''a1'' pg_shop = Inr alice" by (simp add: Postgres_GetAccountByID_def)
  moreover have "(2000::int) \<le> timestamptz (tok_ValidUntil tok)" by (simp add: until timestamptz_def)
  ultimately show ?thesis
    using postgres_issued_token_authenticates [OF pg_service_sel(1) pg_shop_inv issue, of 2000] issue
    by (auto simp: alice_in_def)
qed

section \<open>Numbers outside their column\<close>

text \<open>C25: asking for a revision whose number does not fit 32 bits is an internal error over PostgreSQL, where the
number cannot be encoded, and "not found" over the in-memory repository.\<close>

theorem large_revision_is_internal_error:
  assumes S: "svc_repo S = postgres_repo" and p: "Postgres_GetPackageByID i db = Inr p"
    and view: "requirePackageView S identity p False db = Inr ()"
    and q: "Memory_GetPackageByID i m = Inr q" and view': "requirePackageView (mem_service cfg) identity q False m = Inr ()"
    and n: "2147483648 \<le> n" and none: "\<And>r. Memory_GetRevisionByNumber (pkg_ID q) n m \<noteq> Inr r"
  shows "\<exists>e e'. DownloadCharm S identity i n db b = Inl e \<and> rs_Status (writeError e) = 500
     \<and> DownloadCharm (mem_service cfg) identity i n m b' = Inl e' \<and> rs_Status (writeError e') = 404"
proof -
  have "\<not> int4 n" using n by (simp add: int4_def)
  then have "DownloadCharm S identity i n db b = Inl (int4Error n)"
    using p view by (simp add: DownloadCharm_def S Postgres_GetRevisionByNumber_def Postgres_ListRevisions_def int4Error_def)
  moreover have "Memory_GetRevisionByNumber (pkg_ID q) n m = Inl ErrNotFound"
    using none by (cases "Memory_GetRevisionByNumber (pkg_ID q) n m") (auto simp: Memory_GetRevisionByNumber_def res_iff)
  then have "DownloadCharm (mem_service cfg) identity i n m b' = Inl (ServiceError 404 ''not-found'' ''revision not found'')"
    using q view' by (simp add: DownloadCharm_def)
  ultimately show ?thesis by (simp add: writeError_def int4Error_def writeJSON_def)
qed

lemma large_revision_is_internal_error_witness:
  "\<exists>e e'. DownloadCharm pg_service alice_in ''p1'' 2147483648 pg_shop shop_blobs = Inl e \<and> rs_Status (writeError e) = 500
     \<and> DownloadCharm (mem_service ex_cfg) alice_in ''p1'' 2147483648 shop shop_blobs = Inl e' \<and> rs_Status (writeError e') = 404"
proof -
  have mem: "Memory_GetPackageByID ''p1'' shop = Inr demo" by (simp add: Memory_GetPackageByID_def shop_def)
  have view': "requirePackageView (mem_service ex_cfg) alice_in demo False shop = Inr ()"
    using mayManage_mayView [OF alice_manages_demo] requirePackageView_mem [of shop demo demo ex_cfg alice_in False] demo_stored
    by (simp add: stored_def)
  have none: "Memory_GetRevisionByNumber (pkg_ID demo) 2147483648 shop \<noteq> Inr r" for r
    by (simp add: Memory_GetRevisionByNumber_def shop_def)
  show ?thesis
    by (rule large_revision_is_internal_error [OF pg_service_sel(1) pg_demo(2) pg_alice_views mem view' _ none]) simp
qed

end
