(* ===== verification/Config.thy ===== *)
theory Config
  imports Handlers
begin

text \<open>
  Reading the configuration, \<^verbatim>\<open>internal/config/config.go\<close>.  The process environment is a function from
  variable names to values; \<^verbatim>\<open>time.ParseDuration\<close>, which computes in floating point, is a parameter.  The
  properties follow the defaults into the HTTP layer.
\<close>

section \<open>Variables\<close>

type_synonym environment = "string \<Rightarrow> string option"

definition getenv :: "environment \<Rightarrow> string \<Rightarrow> string" where
  "getenv en key = (case en key of None \<Rightarrow> [] | Some v \<Rightarrow> v)"

definition env :: "environment \<Rightarrow> string \<Rightarrow> string \<Rightarrow> string" where
  "env en key fallback =
     (case en key of Some value \<Rightarrow> if value \<noteq> [] then value else fallback | None \<Rightarrow> fallback)"

text \<open>\<^verbatim>\<open>strconv.ParseBool\<close>\<close>

definition parseBool :: "string \<Rightarrow> bool res" where
  "parseBool s =
     (if s \<in> {''1'', ''t'', ''T'', ''TRUE'', ''true'', ''True''} then Inr True
      else if s \<in> {''0'', ''f'', ''F'', ''FALSE'', ''false'', ''False''} then Inr False
      else Inl (ErrSyntax s))"

text \<open>A variable that is unset, empty or does not parse gives the fallback.\<close>

definition envParsed :: "(string \<Rightarrow> 'a res) \<Rightarrow> environment \<Rightarrow> string \<Rightarrow> 'a \<Rightarrow> 'a" where
  "envParsed parse en key fallback =
     (case en key of
        None \<Rightarrow> fallback
      | Some raw \<Rightarrow>
          if raw = [] then fallback
          else (case parse raw of Inl err \<Rightarrow> fallback | Inr value \<Rightarrow> value))"

definition envBool :: "environment \<Rightarrow> string \<Rightarrow> bool \<Rightarrow> bool" where
  "envBool en key fallback = envParsed parseBool en key fallback"

text \<open>On a 64 bit platform \<^verbatim>\<open>Atoi\<close> and \<^verbatim>\<open>ParseInt(raw, 10, 64)\<close> accept the same numbers.\<close>

definition envInt :: "environment \<Rightarrow> string \<Rightarrow> int \<Rightarrow> int" where
  "envInt en key fallback = envParsed atoi en key fallback"

definition envInt64 :: "environment \<Rightarrow> string \<Rightarrow> int \<Rightarrow> int" where
  "envInt64 en key fallback = envParsed atoi en key fallback"

definition envDuration :: "(string \<Rightarrow> int res) \<Rightarrow> environment \<Rightarrow> string \<Rightarrow> int \<Rightarrow> int" where
  "envDuration parseDuration en key fallback = envParsed parseDuration en key fallback"

section \<open>Load\<close>

definition seconds :: "int \<Rightarrow> int" where
  "seconds n = n * 1000000000"

definition readConfig :: "(string \<Rightarrow> int res) \<Rightarrow> environment \<Rightarrow> config" where
  "readConfig parseDuration en =
     \<lparr>cfg_ListenAddress = env en ''CHARM_REGISTRY_LISTEN'' '':8080'',
      cfg_PublicAPIURL = trimRightChar CHR ''/'' (env en ''CHARM_REGISTRY_PUBLIC_API_URL'' ''http://localhost:8080''),
      cfg_PublicStorageURL =
        trimRightChar CHR ''/'' (env en ''CHARM_REGISTRY_PUBLIC_STORAGE_URL'' ''http://localhost:8080''),
      cfg_PublicRegistryURL =
        trimRightChar CHR ''/'' (env en ''CHARM_REGISTRY_PUBLIC_REGISTRY_URL'' ''http://localhost:5000''),
      cfg_DatabaseURL = getenv en ''CHARM_REGISTRY_DATABASE_URL'',
      cfg_S3Bucket = env en ''CHARM_REGISTRY_S3_BUCKET'' ''charm-registry'',
      cfg_S3Region = env en ''CHARM_REGISTRY_S3_REGION'' ''us-east-1'',
      cfg_S3Endpoint = trimRightChar CHR ''/'' (getenv en ''CHARM_REGISTRY_S3_ENDPOINT''),
      cfg_S3AccessKeyID = getenv en ''CHARM_REGISTRY_S3_ACCESS_KEY_ID'',
      cfg_S3SecretAccessKey = getenv en ''CHARM_REGISTRY_S3_SECRET_ACCESS_KEY'',
      cfg_S3UsePathStyle = envBool en ''CHARM_REGISTRY_S3_USE_PATH_STYLE'' True,
      cfg_S3DisableTLS = envBool en ''CHARM_REGISTRY_S3_DISABLE_TLS'' False,
      cfg_OIDCIssuerURL = trimRightChar CHR ''/'' (getenv en ''CHARM_REGISTRY_OIDC_ISSUER_URL''),
      cfg_OIDCClientID = getenv en ''CHARM_REGISTRY_OIDC_CLIENT_ID'',
      cfg_OIDCUsernameClaim = env en ''CHARM_REGISTRY_OIDC_USERNAME_CLAIM'' ''preferred_username'',
      cfg_OIDCDisplayNameClaim = env en ''CHARM_REGISTRY_OIDC_DISPLAY_NAME_CLAIM'' ''name'',
      cfg_OIDCEmailClaim = env en ''CHARM_REGISTRY_OIDC_EMAIL_CLAIM'' ''email'',
      cfg_EnableInsecureDevAuth = envBool en ''CHARM_REGISTRY_ENABLE_INSECURE_DEV_AUTH'' True,
      cfg_RegistryUsername = env en ''CHARM_REGISTRY_REGISTRY_USERNAME'' ''registry'',
      cfg_RegistryPassword = env en ''CHARM_REGISTRY_REGISTRY_PASSWORD'' ''registry-secret'',
      cfg_RegistryRepositoryRoot =
        trimChar CHR ''/'' (env en ''CHARM_REGISTRY_REGISTRY_REPOSITORY_ROOT'' ''charms''),
      cfg_ServerReadHeaderTimeout =
        envDuration parseDuration en ''CHARM_REGISTRY_SERVER_READ_HEADER_TIMEOUT'' (seconds 10),
      cfg_ServerReadTimeout = envDuration parseDuration en ''CHARM_REGISTRY_SERVER_READ_TIMEOUT'' (seconds 30),
      cfg_ServerWriteTimeout = envDuration parseDuration en ''CHARM_REGISTRY_SERVER_WRITE_TIMEOUT'' (seconds 30),
      cfg_ServerIdleTimeout = envDuration parseDuration en ''CHARM_REGISTRY_SERVER_IDLE_TIMEOUT'' (seconds 120),
      cfg_ServerShutdownTimeout =
        envDuration parseDuration en ''CHARM_REGISTRY_SERVER_SHUTDOWN_TIMEOUT'' (seconds 30),
      cfg_ServerMaxHeaderBytes = envInt en ''CHARM_REGISTRY_SERVER_MAX_HEADER_BYTES'' (2 ^ 20),
      cfg_MaxJSONBodyBytes = envInt64 en ''CHARM_REGISTRY_MAX_JSON_BODY_BYTES'' (2 ^ 20),
      cfg_MaxUploadBytes = envInt64 en ''CHARM_REGISTRY_MAX_UPLOAD_BYTES'' (64 * 2 ^ 20)\<rparr>"

definition Load :: "(string \<Rightarrow> int res) \<Rightarrow> environment \<Rightarrow> config res" where
  "Load parseDuration en =
     (let cfg = readConfig parseDuration en in
      if cfg_DatabaseURL cfg = [] then Inl (Errorf ''CHARM_REGISTRY_DATABASE_URL is required'')
      else Inr cfg)"

section \<open>Properties\<close>

definition devAuthVariable :: string where
  "devAuthVariable = ''CHARM_REGISTRY_ENABLE_INSECURE_DEV_AUTH''"

definition falseSpellings :: "string set" where
  "falseSpellings = {''0'', ''f'', ''F'', ''FALSE'', ''false'', ''False''}"

definition endsInSlash :: "string \<Rightarrow> bool" where
  "endsInSlash s \<longleftrightarrow> s \<noteq> [] \<and> last s = CHR ''/''"

lemma trimRightChar_last: "\<not> endsInSlash (trimRightChar CHR ''/'' s)"
proof (cases "dropWhile (\<lambda>x. x = CHR ''/'') (rev s)")
  case (Cons y ys)
  then have "y \<noteq> CHR ''/''" using hd_dropWhile [of "\<lambda>x. x = CHR ''/''" "rev s"] by simp
  then show ?thesis by (simp add: trimRightChar_def endsInSlash_def Cons)
qed (simp add: trimRightChar_def endsInSlash_def)

lemma envBool_true: "envBool en key True \<longleftrightarrow> en key \<notin> Some ` falseSpellings"
  by (auto simp: envBool_def envParsed_def parseBool_def falseSpellings_def split: option.split)

lemma load_flag:
  "Load parseDuration en = Inr cfg \<Longrightarrow> cfg_EnableInsecureDevAuth cfg \<longleftrightarrow> en devAuthVariable \<notin> Some ` falseSpellings"
  by (auto simp: Load_def readConfig_def envBool_true devAuthVariable_def Let_def split: if_splits)

text \<open>Loading fails exactly when the database URL is missing or empty.  Otherwise no URL ends in a slash,
and the insecure development login is off only when its variable is one of the six spellings of "false"
that the parser knows: unset, empty or mistyped, it is on.\<close>

lemma load_spec:
  "(case Load parseDuration en of
      Inl err \<Rightarrow> getenv en ''CHARM_REGISTRY_DATABASE_URL'' = []
    | Inr cfg \<Rightarrow> getenv en ''CHARM_REGISTRY_DATABASE_URL'' \<noteq> []
        \<and> cfg_DatabaseURL cfg = getenv en ''CHARM_REGISTRY_DATABASE_URL''
        \<and> \<not> endsInSlash (cfg_PublicAPIURL cfg)
        \<and> \<not> endsInSlash (cfg_PublicStorageURL cfg)
        \<and> \<not> endsInSlash (cfg_PublicRegistryURL cfg)
        \<and> (cfg_EnableInsecureDevAuth cfg \<longleftrightarrow> en devAuthVariable \<notin> Some ` falseSpellings))"
proof (cases "getenv en ''CHARM_REGISTRY_DATABASE_URL'' = []")
  case True
  then show ?thesis by (simp add: Load_def readConfig_def)
next
  case False
  then have "Load parseDuration en = Inr (readConfig parseDuration en)" by (simp add: Load_def readConfig_def)
  with load_flag [OF this] show ?thesis using False by (simp add: readConfig_def trimRightChar_last)
qed

text \<open>What the repository holds after the account of some claims was ensured.\<close>

lemma EnsureAccount_stored:
  "\<exists>account. fst (Memory_EnsureAccount t a m) = Inr account \<and> acc_Subject account = acc_Subject a
     \<and> map_of (accountsByID (snd (Memory_EnsureAccount t a m))) (acc_ID account) = Some account"
  if "memory_inv m"
  using that
  by (cases "map_of (accounts m) (acc_Subject a)")
    (auto simp: Memory_EnsureAccount_def Let_def memory_inv_def accounts_ok_def)

lemma ResolveIdentity_stored:
  assumes "memory_inv m" and "cl_Subject c \<noteq> []"
  obtains account m' where "ResolveIdentity (mem_service cfg) E c t m =
      (Inr \<lparr>idn_Account = account, idn_Token = t, idn_Authenticated = True\<rparr>, m')"
    and "acc_Subject account = cl_Subject c" and "map_of (accountsByID m') (acc_ID account) = Some account"
proof -
  obtain r m' where run: "Memory_EnsureAccount (now E 1) (accountOfClaims (uuid E 0) (now E 0) c) m = (r, m')"
    by (metis prod.exhaust)
  with EnsureAccount_stored [OF assms(1), of "now E 1" "accountOfClaims (uuid E 0) (now E 0) c"]
  obtain account where "r = Inr account" "acc_Subject account = cl_Subject c"
      "map_of (accountsByID m') (acc_ID account) = Some account"
    by (auto simp: accountOfClaims_def)
  then show ?thesis using that run assms(2) by (simp add: ResolveIdentity_def)
qed

lemma identityOf_anonymous:
  "hr_Authorization r = [] \<Longrightarrow> identityOf A E r s = (Inr anonymous, s)"
  by (simp add: identityOf_def Authenticate_def trimSpace_def trimSeqs.simps ResolveIdentity_def zero_claims_def)

text \<open>C40: a request without any credentials gets a store token exactly when the development login is on,
hence under the default configuration; the token belongs to the stored account with the subject
\<^verbatim>\<open>dev-auto\<close>, and without the login nothing changes.\<close>

theorem anonymous_token_needs_dev_auth:
  assumes load: "Load parseDuration en = Inr cfg" and A: "api_cfg A = cfg" "api_svc A = mem_service cfg"
    and inv: "memory_inv m" and anon: "hr_Authorization r = []"
    and req: "decodeJSON cfg (hr_Body r) = Inr req" and rnd: "NewOpaqueToken (rand E) = Inr (raw, hash)"
  shows "case handleIssueToken A E r m of (resp, m') \<Rightarrow>
      if en devAuthVariable \<in> Some ` falseSpellings then rs_Status resp = 401 \<and> m' = m
      else rs_Status resp = 200
        \<and> (\<exists>tok account. Memory_FindStoreTokenByHash (HashToken raw) m' = Inr (tok, account)
              \<and> acc_Subject account = ''dev-auto'')"
proof -
  have flag: "cfg_EnableInsecureDevAuth cfg \<longleftrightarrow> en devAuthVariable \<notin> Some ` falseSpellings"
    by (rule load_flag [OF load])
  have anonymous: "\<not> idn_Authenticated anonymous" by (simp add: anonymous_def)
  show ?thesis
  proof (cases "cfg_EnableInsecureDevAuth cfg")
    case False
    then have "handleIssueToken A E r m =
        (writeError (ServiceError 401 ''unauthorized'' ''authentication required''), m)"
      using A req anonymous
      by (simp add: handleIssueToken_def withIdentity_def identityOf_anonymous [OF anon] withBody_def
          IssueStoreToken_def)
    then show ?thesis using False flag by (simp add: writeError_def writeJSON_def)
  next
    case True
    obtain account m1 where dev: "ResolveIdentity (mem_service cfg) (skip 3 E) devClaims None m =
        (Inr \<lparr>idn_Account = account, idn_Token = None, idn_Authenticated = True\<rparr>, m1)"
        and acc: "acc_Subject account = ''dev-auto''" "map_of (accountsByID m1) (acc_ID account) = Some account"
      by (rule ResolveIdentity_stored [OF inv, of devClaims]) (simp_all add: devClaims_def)
    have hash: "hash = HashToken raw" by (rule newOpaqueToken_raw(1) [OF rnd])
    have "rand (skip 2 (skip 3 E)) = rand E" by (simp add: skip_def)
    then obtain tok m2 where issue: "IssueStoreToken (mem_service cfg) (skip 2 (skip 3 E))
          \<lparr>idn_Account = account, idn_Token = None, idn_Authenticated = True\<rparr> req m1 = (Inr (raw, tok), m2)"
        and m2: "map_of (tokens m2) (HashToken raw) = Some tok" "accountsByID m2 = accountsByID m1"
          "tok_AccountID tok = acc_ID account"
      using rnd hash by (auto simp: IssueStoreToken_def Let_def Memory_CreateStoreToken_def)
    have "handleIssueToken A E r m =
        (writeJSON 200 [(''macaroon'', VStr (WrapInMacaroon raw (cfg_PublicAPIURL cfg)))], m2)"
      using A True req anonymous dev issue
      by (simp add: handleIssueToken_def withIdentity_def identityOf_anonymous [OF anon] withBody_def)
    moreover have "Memory_FindStoreTokenByHash (HashToken raw) m2 = Inr (tok, account)"
      using m2 acc by (simp add: Memory_FindStoreTokenByHash_def)
    ultimately show ?thesis using True flag acc(1) by (simp add: writeJSON_def)
  qed
qed

definition ex_environment :: environment where
  "ex_environment = (\<lambda>key. if key = ''CHARM_REGISTRY_DATABASE_URL'' then Some ''postgres://db'' else None)"

definition default_cfg :: config where
  "default_cfg = readConfig (\<lambda>s. Inl (ErrSyntax s)) ex_environment"

definition default_api :: "(memory, memory_store) api" where
  "default_api = \<lparr>api_cfg = default_cfg, api_svc = mem_service default_cfg,
     api_auth = \<lparr>au_config = default_cfg, au_verifier = None\<rparr>\<rparr>"

lemma default_loads: "Load (\<lambda>s. Inl (ErrSyntax s)) ex_environment = Inr default_cfg"
  "ex_environment devAuthVariable \<notin> Some ` falseSpellings"
  by (simp_all add: Load_def default_cfg_def readConfig_def getenv_def ex_environment_def devAuthVariable_def)

lemma default_api_sel [simp]:
  "api_cfg default_api = default_cfg" "api_svc default_api = mem_service default_cfg"
  "au_config (api_auth default_api) = default_cfg"
  by (simp_all add: default_api_def)

definition ex_http :: "string \<Rightarrow> 'a \<Rightarrow> 'a http_request" where
  "ex_http authorization x = \<lparr>hr_Authorization = authorization, hr_Macaroons = [], hr_Query = (\<lambda>_. []),
     hr_Param = (\<lambda>_. []), hr_Body = \<lparr>body_first = Decoded x, body_ends = True\<rparr>\<rparr>"

lemma ex_http_sel [simp]:
  "hr_Authorization (ex_http a x) = a" "decodeJSON cfg (hr_Body (ex_http a x)) = Inr x"
  by (simp_all add: ex_http_def decodeJSON_def)

lemma anonymous_token_needs_dev_auth_witness:
  "\<exists>resp m'. handleIssueToken default_api ex_env (ex_http [] ex_token_request) NewMemory = (resp, m') \<and> rs_Status resp = 200"
proof -
  obtain raw h where "NewOpaqueToken (rand ex_env) = Inr (raw, h)"
    by (simp add: NewOpaqueToken_def Let_def ex_env_def)
  moreover obtain resp m' where run: "handleIssueToken default_api ex_env (ex_http [] ex_token_request) NewMemory = (resp, m')"
    by (metis prod.exhaust)
  ultimately have "rs_Status resp = 200"
    using anonymous_token_needs_dev_auth [OF default_loads(1), of default_api NewMemory "ex_http [] ex_token_request"
        ex_token_request ex_env raw h] memory_inv_new default_loads(2) by simp
  with run show ?thesis by blast
qed

text \<open>With the development login on, a bearer header of the form \<^verbatim>\<open>dev:SUBJECT:NAME\<close> makes the caller the
existing account with that subject, and overwrites the account's user name.\<close>

lemma dev_bearer_takes_over:
  assumes load: "Load parseDuration en = Inr cfg" and flag: "en devAuthVariable \<notin> Some ` falseSpellings"
    and A: "api_svc A = mem_service cfg" "au_config (api_auth A) = cfg"
    and header: "hr_Authorization r = ''Bearer dev:'' @ subject @ '':'' @ name"
    and plain: "CHR '':'' \<notin> set subject" "CHR '':'' \<notin> set name" "subject \<noteq> []" "name \<noteq> []" "solidChar (last name)"
    and victim: "memory_inv m" "map_of (accounts m) subject = Some victim"
  shows "\<exists>account m'. identityOf A E r m =
      (Inr \<lparr>idn_Account = account, idn_Token = None, idn_Authenticated = True\<rparr>, m')
     \<and> acc_ID account = acc_ID victim \<and> acc_Username account = name
     \<and> map_of (accountsByID m') (acc_ID victim) = Some account"
proof -
  have on: "cfg_EnableInsecureDevAuth cfg" using load_flag [OF load] flag by simp
  let ?secret = "''dev:'' @ subject @ '':'' @ name"
  let ?c = "\<lparr>cl_Subject = subject, cl_Username = name, cl_DisplayName = name, cl_Email = name @ ''@example.invalid''\<rparr>"
  have "splitOn CHR '':'' ?secret = [''dev'', subject, name]"
    using plain splitOn_append [of "CHR '':''" "''dev''"] splitOn_two [of "CHR '':''" subject name] by simp
  moreover have "hasPrefix ?secret ''dev:''" by (simp add: hasPrefix_def)
  ultimately have "parseInsecureToken cfg ?secret = Some ?c"
    using on by (simp add: parseInsecureToken_def Let_def)
  then have "authenticateSecret (api_auth A) memory_repo (now E 0) ?secret m = Inr (?c, None)"
    using A by (simp add: authenticateSecret_def)
  moreover have "solidChar (hd ?secret)" "solidChar (last ?secret)" using plain by (simp_all add: solidChar_def)
  ultimately have auth: "Authenticate (api_auth A) memory_repo (now E 0) (hr_Authorization r) m = Inr (?c, None)"
    using Authenticate_bearer [of ?secret "api_auth A" memory_repo "now E 0" m] header by simp
  obtain account m' where run: "ResolveIdentity (mem_service cfg) (skip 1 E) ?c None m =
      (Inr \<lparr>idn_Account = account, idn_Token = None, idn_Authenticated = True\<rparr>, m')"
      and acc: "map_of (accountsByID m') (acc_ID account) = Some account"
    by (rule ResolveIdentity_stored [OF victim(1), of ?c]) (simp_all add: plain)
  have "acc_ID account = acc_ID victim \<and> acc_Username account = name"
    using run victim plain
    by (auto simp: ResolveIdentity_def Memory_EnsureAccount_def accountOfClaims_def Let_def)
  then show ?thesis using auth run acc A by (simp add: identityOf_def)
qed

lemma dev_bearer_takes_over_witness:
  "\<exists>account m'. identityOf default_api ex_env (ex_http ''Bearer dev:sub-alice:mallory'' ()) shop =
      (Inr \<lparr>idn_Account = account, idn_Token = None, idn_Authenticated = True\<rparr>, m')
     \<and> acc_ID account = ''a1'' \<and> acc_Username account = ''mallory''"
proof -
  have "map_of (accounts shop) ''sub-alice'' = Some alice" "acc_ID alice = ''a1''"
    by (simp_all add: shop_def alice_def)
  moreover have "solidChar (last ''mallory'')" by (simp add: solidChar_def)
  ultimately show ?thesis
    using dev_bearer_takes_over [OF default_loads, of default_api "ex_http ''Bearer dev:sub-alice:mallory'' ()"
        "''sub-alice''" "''mallory''" shop alice ex_env] shop_inv by auto
qed

end
