(* ===== verification/Bodies.thy ===== *)
theory Bodies
  imports Dispatch Config
begin

text \<open>
  The request bodies as bytes: the decoders of the structs the handlers declare, the reading of a body under the
  limit of the configuration (\<^verbatim>\<open>decodeJSON\<close> of \<^verbatim>\<open>internal/api/http.go\<close>), and the table of routes of \<^verbatim>\<open>api.New\<close>,
  which takes a request as \<^verbatim>\<open>net/http\<close> delivers it to the call with the decoded body.  Two things stay outside: the
  router, which picks the route and the path parameters, and \<^verbatim>\<open>time.Time\<close>'s reading of a time stamp.
\<close>

section \<open>Structs\<close>

definition zero_selector :: package_selector where
  "zero_selector = \<lparr>sel_ID = [], sel_Name = [], sel_Type = []\<rparr>"

definition decodeSelector :: "package_selector decoder" where
  "decodeSelector = decodeStruct
     [field ''id'' sel_ID sel_ID_update decodeString,
      field ''name'' sel_Name sel_Name_update decodeString,
      field ''type'' sel_Type sel_Type_update decodeString]"

definition zero_base :: base where
  "zero_base = \<lparr>base_Architecture = [], base_Architectures = [], base_Channel = [], base_Name = []\<rparr>"

definition decodeBase :: "base decoder" where
  "decodeBase = decodeStruct
     [field ''architecture'' base_Architecture base_Architecture_update decodeString,
      field ''architectures'' base_Architectures base_Architectures_update (decodeSlice [] decodeString),
      field ''channel'' base_Channel base_Channel_update decodeString,
      field ''name'' base_Name base_Name_update decodeString]"

definition zero_ref :: release_ref where
  "zero_ref = \<lparr>ref_Name = [], ref_Revision = None\<rparr>"

definition decodeRef :: "release_ref decoder" where
  "decodeRef = decodeStruct
     [field ''name'' ref_Name ref_Name_update decodeString,
      field ''revision'' ref_Revision ref_Revision_update (decodePtr 0 decodeInt)]"

text \<open>\<^verbatim>\<open>Time_UnmarshalJSON\<close> gets the literal without its quotes, its escapes as they stand.\<close>

type_synonym time_parser = "string \<Rightarrow> time res"

definition decodeTime :: "time_parser \<Rightarrow> time decoder" where
  "decodeTime parse v old =
     (case v of
        JNull \<Rightarrow> Inr old
      | JString s \<Rightarrow> parse s
      | _ \<Rightarrow> Inl (Errorf ''Time.UnmarshalJSON: input is not a JSON string''))"

definition zero_track :: track where
  "zero_track = \<lparr>trk_Name = [], trk_VersionPattern = None, trk_AutomaticPhasingPercentage = None, trk_CreatedAt = 0\<rparr>"

definition decodeTrack :: "time_parser \<Rightarrow> track decoder" where
  "decodeTrack parse = decodeStruct
     [field ''name'' trk_Name trk_Name_update decodeString,
      field ''version-pattern'' trk_VersionPattern trk_VersionPattern_update (decodePtr [] decodeString),
      field ''automatic-phasing-percentage'' trk_AutomaticPhasingPercentage trk_AutomaticPhasingPercentage_update
        (decodePtr 0 decodeFloat),
      field ''created-at'' trk_CreatedAt trk_CreatedAt_update (decodeTime parse)]"

section \<open>Bodies\<close>

definition zero_issue_token :: issue_token_request where
  "zero_issue_token =
     \<lparr>itr_Description = None, itr_TTL = None, itr_Permissions = [], itr_Packages = [], itr_Channels = []\<rparr>"

definition decodeIssueToken :: "issue_token_request decoder" where
  "decodeIssueToken = decodeStruct
     [field ''description'' itr_Description itr_Description_update (decodePtr [] decodeString),
      field ''ttl'' itr_TTL itr_TTL_update (decodePtr 0 decodeInt),
      field ''permissions'' itr_Permissions itr_Permissions_update (decodeSlice [] decodeString),
      field ''packages'' itr_Packages itr_Packages_update (decodeSlice zero_selector decodeSelector),
      field ''channels'' itr_Channels itr_Channels_update (decodeSlice [] decodeString)]"

definition zero_patch :: metadata_patch where
  "zero_patch =
     \<lparr>mdp_Contact = None, mdp_DefaultTrack = None, mdp_Description = None, mdp_Links = None, mdp_Private = None,
      mdp_Summary = None, mdp_Title = None, mdp_Website = None\<rparr>"

definition decodePatch :: "metadata_patch decoder" where
  "decodePatch = decodeStruct
     [field ''contact'' mdp_Contact mdp_Contact_update (decodePtr [] decodeString),
      field ''default-track'' mdp_DefaultTrack mdp_DefaultTrack_update (decodePtr [] decodeString),
      field ''description'' mdp_Description mdp_Description_update (decodePtr [] decodeString),
      field ''links'' mdp_Links mdp_Links_update (decodeMap [] (decodeSlice [] decodeString)),
      field ''private'' mdp_Private mdp_Private_update (decodePtr False decodeBool),
      field ''summary'' mdp_Summary mdp_Summary_update (decodePtr [] decodeString),
      field ''title'' mdp_Title mdp_Title_update (decodePtr [] decodeString),
      field ''website'' mdp_Website mdp_Website_update (decodePtr [] decodeString)]"

definition zero_register :: register_body where
  "zero_register = \<lparr>rgb_Name = [], rgb_Private = None, rgb_Type = []\<rparr>"

definition decodeRegister :: "register_body decoder" where
  "decodeRegister = decodeStruct
     [field ''name'' rgb_Name rgb_Name_update decodeString,
      field ''private'' rgb_Private rgb_Private_update (decodePtr False decodeBool),
      field ''type'' rgb_Type rgb_Type_update decodeString]"

text \<open>A struct with one field is that field.\<close>

definition decodeOne :: "string \<Rightarrow> 'a decoder \<Rightarrow> 'a decoder" where
  "decodeOne name d = decodeStruct [field name id id d]"

definition decodePushRevision :: "string decoder" where
  "decodePushRevision = decodeOne ''upload-id'' decodeString"

definition zero_push_resource :: push_resource_request where
  "zero_push_resource =
     \<lparr>prq_UploadID = [], prq_Type = [], prq_Bases = [], prq_Architectures = [], prq_PackageRevision = None\<rparr>"

definition decodePushResource :: "push_resource_request decoder" where
  "decodePushResource = decodeStruct
     [field ''upload-id'' prq_UploadID prq_UploadID_update decodeString,
      field ''type'' prq_Type prq_Type_update decodeString,
      field ''bases'' prq_Bases prq_Bases_update (decodeSlice zero_base decodeBase),
      field ''architectures'' prq_Architectures prq_Architectures_update (decodeSlice [] decodeString),
      field ''package-revision'' prq_PackageRevision prq_PackageRevision_update (decodePtr 0 decodeInt)]"

definition zero_update :: resource_revision_update where
  "zero_update = \<lparr>rru_Revision = 0, rru_Bases = [], rru_Architectures = []\<rparr>"

definition decodeUpdates :: "resource_revision_update list decoder" where
  "decodeUpdates = decodeOne ''resource-revision-updates'' (decodeSlice zero_update (decodeStruct
     [field ''revision'' rru_Revision rru_Revision_update decodeInt,
      field ''bases'' rru_Bases rru_Bases_update (decodeSlice zero_base decodeBase),
      field ''architectures'' rru_Architectures rru_Architectures_update (decodeSlice [] decodeString)]))"

definition zero_release_item :: release_item where
  "zero_release_item = \<lparr>rit_Channel = [], rit_Revision = 0, rit_Resources = []\<rparr>"

definition decodeReleaseItems :: "release_item list decoder" where
  "decodeReleaseItems = decodeSlice zero_release_item (decodeStruct
     [field ''channel'' rit_Channel rit_Channel_update decodeString,
      field ''revision'' rit_Revision rit_Revision_update decodeInt,
      field ''resources'' rit_Resources rit_Resources_update (decodeSlice zero_ref decodeRef)])"

definition zero_context :: refresh_context where
  "zero_context =
     \<lparr>ctx_InstanceKey = [], ctx_ID = [], ctx_Revision = 0, ctx_Base = None, ctx_TrackingChannel = []\<rparr>"

definition decodeContext :: "refresh_context decoder" where
  "decodeContext = decodeStruct
     [field ''instance-key'' ctx_InstanceKey ctx_InstanceKey_update decodeString,
      field ''id'' ctx_ID ctx_ID_update decodeString,
      field ''revision'' ctx_Revision ctx_Revision_update decodeInt,
      field ''base'' ctx_Base ctx_Base_update (decodePtr zero_base decodeBase),
      field ''tracking-channel'' ctx_TrackingChannel ctx_TrackingChannel_update decodeString]"

definition zero_action :: refresh_action where
  "zero_action =
     \<lparr>act_Action = [], act_InstanceKey = [], act_ID = None, act_Name = None, act_Revision = None, act_Channel = None,
      act_Base = None, act_ResourceRevisions = []\<rparr>"

definition decodeAction :: "refresh_action decoder" where
  "decodeAction = decodeStruct
     [field ''action'' act_Action act_Action_update decodeString,
      field ''instance-key'' act_InstanceKey act_InstanceKey_update decodeString,
      field ''id'' act_ID act_ID_update (decodePtr [] decodeString),
      field ''name'' act_Name act_Name_update (decodePtr [] decodeString),
      field ''revision'' act_Revision act_Revision_update (decodePtr 0 decodeInt),
      field ''channel'' act_Channel act_Channel_update (decodePtr [] decodeString),
      field ''base'' act_Base act_Base_update (decodePtr zero_base decodeBase),
      field ''resource-revisions'' act_ResourceRevisions act_ResourceRevisions_update (decodeSlice zero_ref decodeRef)]"

text \<open>A map of which nil and empty are not told apart.\<close>

definition decodeGomap :: "'a \<Rightarrow> 'a decoder \<Rightarrow> (string, 'a) gomap decoder" where
  "decodeGomap zero d v old =
     map_sum id (\<lambda>m. case m of None \<Rightarrow> [] | Some m' \<Rightarrow> m') (decodeMap zero d v (Some old))"

definition zero_refresh :: refresh_request where
  "zero_refresh = \<lparr>rfr_Context = [], rfr_Actions = [], rfr_Fields = [], rfr_Metrics = []\<rparr>"

definition decodeRefresh :: "refresh_request decoder" where
  "decodeRefresh = decodeStruct
     [field ''context'' rfr_Context rfr_Context_update (decodeSlice zero_context decodeContext),
      field ''actions'' rfr_Actions rfr_Actions_update (decodeSlice zero_action decodeAction),
      field ''fields'' rfr_Fields rfr_Fields_update (decodeSlice [] decodeString),
      field ''metrics'' rfr_Metrics rfr_Metrics_update (decodeGomap [] (decodeGomap [] decodeString))]"

section \<open>Reading a body\<close>

text \<open>\<^verbatim>\<open>http.MaxBytesReader\<close> lets the bytes up to the limit through and fails where there are more; then come the two
calls of \<^verbatim>\<open>Decode\<close>.\<close>

definition readBody :: "config \<Rightarrow> 'a decoder \<Rightarrow> 'a \<Rightarrow> bytes \<Rightarrow> 'a body" where
  "readBody cfg d zero payload =
     (let n = nat (cfg_MaxJSONBodyBytes cfg);
          limited = (n < length payload) in
      case readValue limited (take n payload) of
        Inl LimitReached \<Rightarrow> \<lparr>body_first = DecodeTooLarge, body_ends = False\<rparr>
      | Inl (ReadErr err) \<Rightarrow> \<lparr>body_first = DecodeErr err, body_ends = False\<rparr>
      | Inr (v, rest) \<Rightarrow>
          \<lparr>body_first = (case d v zero of Inl err \<Rightarrow> DecodeErr err | Inr x \<Rightarrow> Decoded x),
           body_ends = (case readValue limited rest of Inl (ReadErr EOF) \<Rightarrow> True | _ \<Rightarrow> False)\<rparr>)"

section \<open>Routes\<close>

text \<open>A request whose route was found: its headers, query and path parameters, and its bytes.  The form of an upload
is what \<^verbatim>\<open>ParseMultipartForm\<close> makes of the body.\<close>

record wire_request =
  wr_Authorization :: string
  wr_Macaroons :: string
  wr_Query :: "string \<Rightarrow> string"
  wr_Param :: "string \<Rightarrow> string"
  wr_Body :: bytes
  wr_Form :: "(string \<times> bytes) res"

definition withDecoded :: "config \<Rightarrow> 'a decoder \<Rightarrow> 'a \<Rightarrow> wire_request \<Rightarrow> 'a http_request" where
  "withDecoded cfg d zero w =
     \<lparr>hr_Authorization = wr_Authorization w, hr_Macaroons = wr_Macaroons w, hr_Query = wr_Query w,
      hr_Param = wr_Param w, hr_Body = readBody cfg d zero (wr_Body w)\<rparr>"

text \<open>A handler that does not read the body.\<close>

definition bodiless :: "wire_request \<Rightarrow> unit http_request" where
  "bodiless w =
     \<lparr>hr_Authorization = wr_Authorization w, hr_Macaroons = wr_Macaroons w, hr_Query = wr_Query w,
      hr_Param = wr_Param w, hr_Body = \<lparr>body_first = Decoded (), body_ends = True\<rparr>\<rparr>"

type_synonym handler = "config \<Rightarrow> time_parser \<Rightarrow> wire_request \<Rightarrow> call"

definition reading :: "'a decoder \<Rightarrow> 'a \<Rightarrow> ('a http_request \<Rightarrow> call) \<Rightarrow> handler" where
  "reading d zero f = (\<lambda>cfg _ w. f (withDecoded cfg d zero w))"

definition ignoring :: "(unit http_request \<Rightarrow> call) \<Rightarrow> handler" where
  "ignoring f = (\<lambda>_ _ w. f (bodiless w))"

definition routes :: "(string \<times> string \<times> handler) list" where
  "routes =
     [(''get'', ''/'', \<lambda>_ _ _. GetRoot),
      (''get'', ''/openapi.yaml'', \<lambda>_ _ _. GetOpenAPI),
      (''get'', ''/docs'', \<lambda>_ _ _. GetDocs),
      (''get'', ''/v1/tokens'', ignoring GetTokens),
      (''post'', ''/v1/tokens'', reading decodeIssueToken zero_issue_token IssueToken),
      (''post'', ''/v1/tokens/exchange'', ignoring ExchangeToken),
      (''post'', ''/v1/tokens/offline/exchange'', ignoring ExchangeToken),
      (''post'', ''/v1/tokens/revoke'', reading (decodeOne ''session-id'' decodeString) [] RevokeToken),
      (''get'', ''/v1/tokens/whoami'', ignoring TokenWhoAmI),
      (''post'', ''/v1/tokens/dashboard/exchange'',
         reading (decodeOne ''client-description'' (decodePtr [] decodeString)) None DashboardExchange),
      (''get'', ''/v1/whoami'', ignoring WhoAmI),
      (''post'', ''/v1/charm/libraries/bulk'', \<lambda>_ _ _. LibrariesBulk),
      (''get'', ''/v1/charm'', ignoring ListPackages),
      (''post'', ''/v1/charm'', reading decodeRegister zero_register RegisterName),
      (''get'', ''/v1/charm/{name}'', ignoring GetMetadata),
      (''patch'', ''/v1/charm/{name}'', reading decodePatch zero_patch PatchMetadata),
      (''delete'', ''/v1/charm/{name}'', ignoring DeleteName),
      (''get'', ''/v1/charm/{name}/revisions'', ignoring ListRevisionsOf),
      (''post'', ''/v1/charm/{name}/revisions'', reading decodePushRevision [] PushRevisionTo),
      (''get'', ''/v1/charm/{name}/revisions/review'', ignoring Review),
      (''get'', ''/v1/charm/{name}/resources'', ignoring ListResourcesOf),
      (''get'', ''/v1/charm/{name}/resources/{resource}/revisions'', ignoring ListResourceRevisionsOf),
      (''post'', ''/v1/charm/{name}/resources/{resource}/revisions'',
         reading decodePushResource zero_push_resource PushResourceTo),
      (''patch'', ''/v1/charm/{name}/resources/{resource}/revisions'',
         reading decodeUpdates [] UpdateResourceRevisionsOf),
      (''get'', ''/v1/charm/{name}/resources/{resource}/oci-image/upload-credentials'', ignoring OCIUploadCredentials),
      (''post'', ''/v1/charm/{name}/resources/{resource}/oci-image/blob'',
         reading (decodeOne ''image-digest'' decodeString) [] OCIBlob),
      (''get'', ''/v1/charm/{name}/releases'', ignoring ListReleasesOf),
      (''post'', ''/v1/charm/{name}/releases'', reading decodeReleaseItems [] ReleaseTo),
      (''post'', ''/v1/charm/{name}/tracks'',
         \<lambda>cfg parse w. CreateTracksOf (withDecoded cfg (decodeSlice zero_track (decodeTrack parse)) [] w)),
      (''post'', ''/unscanned-upload/'', \<lambda>_ _ w. UnscannedUpload (wr_Form w)),
      (''get'', ''/v2/charms/find'', ignoring FindCharms),
      (''get'', ''/v2/charms/info/{name}'', ignoring InfoOf),
      (''post'', ''/v2/charms/refresh'', reading decodeRefresh zero_refresh RefreshCharms),
      (''get'', ''/api/v1/charms/download/{filename}'', ignoring CharmDownload),
      (''get'', ''/api/v1/resources/download/{filename}'', ignoring ResourceDownload)]"

text \<open>What the router hands over, given the route it picked by its method and its pattern.\<close>

definition serve ::
    "('s, 'b) api \<Rightarrow> archive_lib \<Rightarrow> time_parser \<Rightarrow> ambient \<Rightarrow> string \<times> string \<Rightarrow> wire_request \<Rightarrow> 's \<Rightarrow> 'b
       \<Rightarrow> (http_response \<times> 's \<times> 'b) option" where
  "serve A lib parse E picked w s b =
     map_option (\<lambda>h. dispatch A lib E (h (api_cfg A) parse w) s b)
       (map_of (map (\<lambda>(m, p, h). ((m, p), h)) routes) picked)"

section \<open>Reading terminates\<close>

text \<open>The two calls of \<^verbatim>\<open>Decode\<close> with a bound on the bytes each of them looks at; none is returned when the bound is
too small.\<close>

definition readWithin :: "nat \<Rightarrow> bool \<Rightarrow> bytes \<Rightarrow> (read_error + json \<times> bytes) option" where
  "readWithin n limited s = map_option (afterScan limited s) (scanWithin n (Scanner [] AwaitValue s))"

definition readBodyWithin :: "nat \<Rightarrow> config \<Rightarrow> 'a decoder \<Rightarrow> 'a \<Rightarrow> bytes \<Rightarrow> 'a body option" where
  "readBodyWithin k cfg d zero payload =
     (let n = nat (cfg_MaxJSONBodyBytes cfg);
          limited = (n < length payload) in
      case readWithin k limited (take n payload) of
        None \<Rightarrow> None
      | Some (Inl LimitReached) \<Rightarrow> Some \<lparr>body_first = DecodeTooLarge, body_ends = False\<rparr>
      | Some (Inl (ReadErr err)) \<Rightarrow> Some \<lparr>body_first = DecodeErr err, body_ends = False\<rparr>
      | Some (Inr (v, rest)) \<Rightarrow>
          (case readWithin k limited rest of
             None \<Rightarrow> None
           | Some r \<Rightarrow>
               Some \<lparr>body_first = (case d v zero of Inl err \<Rightarrow> DecodeErr err | Inr x \<Rightarrow> Decoded x),
                     body_ends = (case r of Inl (ReadErr EOF) \<Rightarrow> True | _ \<Rightarrow> False)\<rparr>))"

lemma readWithin_enough: "length s < n \<Longrightarrow> readWithin n limited s = Some (readValue limited s)"
  by (simp add: readWithin_def readValue_def scanValue_def scanWithin_enough)

lemma scanFrom_rest: "scanFrom m = Got v rest \<Longrightarrow> length rest \<le> length (unread m)"
proof (induction m rule: scanFrom.induct)
  case (1 m)
  show ?case
  proof (cases "scanStep m")
    case (Inl r)
    then have got: "scanStep m = Inl (Got v rest)" using 1(2) by (simp add: scanFrom.simps [of m])
    then show ?thesis
      by (cases m) (auto split: option.splits list.splits dest: consume_Got)
  next
    case (Inr m')
    then have "length rest \<le> length (unread m')" using 1 by (simp add: scanFrom.simps [of m])
    with scanStep_shorter [OF Inr] show ?thesis by simp
  qed
qed

lemma readValue_rest: "readValue limited s = Inr (v, rest) \<Longrightarrow> length rest \<le> length s"
  by (auto simp: readValue_def afterScan_def scanValue_def split: scan.splits if_splits dest: scanFrom_rest)

text \<open>C26: whatever bytes a client sends as a body, decoding them ends: each of the two calls of the decoder looks at
no more bytes than the limit of the configuration allows, and one round of its loop per byte is enough.\<close>

theorem body_decoding_terminates:
  "readBodyWithin (Suc (nat (cfg_MaxJSONBodyBytes cfg))) cfg d zero payload = Some (readBody cfg d zero payload)"
proof -
  let ?n = "nat (cfg_MaxJSONBodyBytes cfg)" and ?limited = "nat (cfg_MaxJSONBodyBytes cfg) < length payload"
  have first: "readWithin (Suc ?n) ?limited (take ?n payload) = Some (readValue ?limited (take ?n payload))"
    by (rule readWithin_enough) simp
  show ?thesis
  proof (cases "readValue ?limited (take ?n payload)")
    case (Inl e)
    with first show ?thesis
      by (cases e) (simp_all add: readBodyWithin_def readBody_def Let_def)
  next
    case (Inr p)
    obtain v rest where p: "p = (v, rest)" by (cases p)
    have "length rest < Suc ?n" using readValue_rest [OF Inr [unfolded p]] by simp
    from readWithin_enough [OF this, of ?limited] first show ?thesis
      by (simp add: readBodyWithin_def readBody_def Let_def Inr p)
  qed
qed

section \<open>What is accepted\<close>

lemma readValue_spaces: "readValue False s = Inl (ReadErr EOF) \<longleftrightarrow> list_all isSpaceJSON s"
proof -
  have spaces: "scanValue s = Short" if "list_all isSpaceJSON s"
    using that
  proof (induction s)
    case (Cons c s)
    then show ?case by (simp add: scanValue_def scanFrom_consume consume_def)
  qed (simp add: scanValue_def scanFrom.simps)
  have "err \<noteq> EOF" if "scanValue s = Bad err" for err
    using scanFrom_text that by (auto simp: scanValue_def textError_def)
  with spaces show ?thesis
    by (auto simp: readValue_def afterScan_def split: scan.splits if_splits)
qed

lemma readValue_limited: "readValue True s \<noteq> Inl (ReadErr EOF)"
  using scanFrom_text by (fastforce simp: readValue_def afterScan_def scanValue_def textError_def split: scan.splits if_splits)

lemma dropWhile_all: "dropWhile P s = [] \<longleftrightarrow> list_all P s"
  by (induction s) auto

text \<open>C13: a body is accepted exactly when it is no longer than the limit and, as a whole, one JSON document of the
type the handler declares: reading a stream with two calls of the decoder is \<^verbatim>\<open>json.Unmarshal\<close> on the bytes.\<close>

theorem body_accepted_iff:
  assumes "0 \<le> cfg_MaxJSONBodyBytes cfg"
  shows "decodeJSON cfg (readBody cfg d zero payload) = Inr x
     \<longleftrightarrow> int (length payload) \<le> cfg_MaxJSONBodyBytes cfg \<and> Unmarshal d zero payload = Inr x"
proof (cases "nat (cfg_MaxJSONBodyBytes cfg) < length payload")
  case True
  let ?s = "take (nat (cfg_MaxJSONBodyBytes cfg)) payload"
  have "decodeJSON cfg (readBody cfg d zero payload) \<noteq> Inr x"
    using True readValue_limited
    by (auto simp: readBody_def decodeJSON_def Let_def split: sum.splits read_error.splits goerr.splits prod.splits)
  moreover have "\<not> int (length payload) \<le> cfg_MaxJSONBodyBytes cfg" using True by linarith
  ultimately show ?thesis by simp
next
  case False
  then have fits: "take (nat (cfg_MaxJSONBodyBytes cfg)) payload = payload"
    "int (length payload) \<le> cfg_MaxJSONBodyBytes cfg" using assms by simp_all
  show ?thesis
  proof (cases "scanValue payload")
    case (Got v rest)
    show ?thesis
    proof (cases "list_all isSpaceJSON rest")
      case True
      then have "readValue False rest = Inl (ReadErr EOF)" by (simp add: readValue_spaces)
      moreover have "dropWhile isSpaceJSON rest = []" unfolding dropWhile_all by (rule True)
      then have "parseDocument payload = Inr v" by (simp only: parseDocument_def Got scan.case list.case)
      ultimately show ?thesis
        using False fits Got
        by (simp add: readBody_def decodeJSON_def readValue_def [of _ payload] afterScan_def Unmarshal_def
            res_bind_def split: sum.split)
    next
      case spaces: False
      then have "readValue False rest \<noteq> Inl (ReadErr EOF)" by (simp add: readValue_spaces)
      then have "\<not> body_ends (readBody cfg d zero payload)"
        using False fits Got
        by (auto simp: readBody_def readValue_def [of _ payload] afterScan_def split: sum.splits read_error.splits goerr.splits)
      then have "decodeJSON cfg (readBody cfg d zero payload) \<noteq> Inr x"
        by (auto simp: decodeJSON_def split: decoded.splits)
      moreover have "dropWhile isSpaceJSON rest \<noteq> []" using spaces by (simp add: list_all_iff)
      ultimately show ?thesis using Got
        by (auto simp: Unmarshal_def parseDocument_def res_bind_def list_all_iff split: list.splits)
    qed
  qed (use False fits in \<open>auto simp: readBody_def decodeJSON_def readValue_def afterScan_def Unmarshal_def
        parseDocument_def res_bind_def split: if_splits\<close>)
qed

definition ex_register_bytes :: bytes where
  "ex_register_bytes = render (JObject [(''name'', JString ''demo''), (''private'', JBool True)]) @ [CHR 0x0A]"

lemma body_accepted_iff_witness:
  "decodeJSON ex_cfg (readBody ex_cfg decodeRegister zero_register ex_register_bytes)
     = Inr \<lparr>rgb_Name = ''demo'', rgb_Private = Some True, rgb_Type = []\<rparr>"
proof -
  let ?v = "JObject [(''name'', JString ''demo''), (''private'', JBool True)]"
  have names: "list_all plainJSON ''name''" "list_all plainJSON ''private''" "list_all plainJSON ''demo''"
    by code_simp+
  note literal = names [THEN plain_literal(2)] names [THEN plain_literal(3)]
  have "scanValue ex_register_bytes = Got ?v [CHR 0x0A]"
    unfolding ex_register_bytes_def
    by (rule scanValue_render) (simp_all add: literal maxNestingDepth_def afterNumber_def isSpaceJSON_def)
  then have "parseDocument ex_register_bytes = Inr ?v" by (simp add: parseDocument_def isSpaceJSON_def)
  then have "Unmarshal decodeRegister zero_register ex_register_bytes
      = Inr \<lparr>rgb_Name = ''demo'', rgb_Private = Some True, rgb_Type = []\<rparr>"
    by (simp add: Unmarshal_def res_bind_def decodeRegister_def decodeStruct_def fieldFor_def field_def literal
        decodeString_def decodePtr_def decodeBool_def zero_register_def del: unquote.simps)
  moreover have "int (length ex_register_bytes) \<le> cfg_MaxJSONBodyBytes ex_cfg" and "0 \<le> cfg_MaxJSONBodyBytes ex_cfg"
    by (simp_all add: ex_register_bytes_def ex_cfg_def)
  ultimately show ?thesis using body_accepted_iff [of ex_cfg decodeRegister zero_register ex_register_bytes] by blast
qed

section \<open>What is refused\<close>

lemma text_errors_time [text_errors]: "(\<And>s err. parse s = Inl err \<Longrightarrow> textError err) \<Longrightarrow> textErrors (decodeTime parse)"
  by (auto simp: textErrors_def decodeTime_def split: json.splits)

lemma text_errors_gomap [text_errors]: "textErrors d \<Longrightarrow> textErrors (decodeGomap zero d)"
  using text_errors_map [of d zero] by (auto simp: textErrors_def decodeGomap_def map_sum_def split: sum.splits)

lemma text_errors_one [text_errors]: "textErrors d \<Longrightarrow> textErrors (decodeOne name d)"
  by (simp add: decodeOne_def text_errors)

lemma text_errors_bodies:
  "textErrors decodeSelector" "textErrors decodeBase" "textErrors decodeRef" "textErrors decodeIssueToken"
  "textErrors decodePatch" "textErrors decodeRegister" "textErrors decodePushRevision" "textErrors decodePushResource"
  "textErrors decodeUpdates" "textErrors decodeReleaseItems" "textErrors decodeContext" "textErrors decodeAction"
  "textErrors decodeRefresh"
proof -
  show sel: "textErrors decodeSelector" and base: "textErrors decodeBase" and ref: "textErrors decodeRef"
    by (simp_all add: decodeSelector_def decodeBase_def decodeRef_def text_errors)
  show "textErrors decodeIssueToken" by (simp add: decodeIssueToken_def sel text_errors)
  show "textErrors decodePatch" by (simp add: decodePatch_def text_errors)
  show "textErrors decodeRegister" by (simp add: decodeRegister_def text_errors)
  show "textErrors decodePushRevision" by (simp add: decodePushRevision_def text_errors)
  show "textErrors decodePushResource" by (simp add: decodePushResource_def base text_errors)
  show "textErrors decodeUpdates" by (simp add: decodeUpdates_def base text_errors)
  show "textErrors decodeReleaseItems" by (simp add: decodeReleaseItems_def ref text_errors)
  show ctx: "textErrors decodeContext" by (simp add: decodeContext_def base text_errors)
  show act: "textErrors decodeAction" by (simp add: decodeAction_def base ref text_errors)
  show "textErrors decodeRefresh" by (simp add: decodeRefresh_def ctx act text_errors)
qed

text \<open>What a call makes of its body, when it reads one.\<close>

definition readAs :: "config \<Rightarrow> 'a http_request \<Rightarrow> unit res option" where
  "readAs cfg r = Some (map_sum id (\<lambda>_. ()) (decodeJSON cfg (hr_Body r)))"

fun bodyResult :: "config \<Rightarrow> call \<Rightarrow> unit res option" where
  "bodyResult cfg (IssueToken r) = readAs cfg r"
| "bodyResult cfg (RevokeToken r) = readAs cfg r"
| "bodyResult cfg (DashboardExchange r) = readAs cfg r"
| "bodyResult cfg (RegisterName r) = readAs cfg r"
| "bodyResult cfg (PatchMetadata r) = readAs cfg r"
| "bodyResult cfg (PushRevisionTo r) = readAs cfg r"
| "bodyResult cfg (PushResourceTo r) = readAs cfg r"
| "bodyResult cfg (UpdateResourceRevisionsOf r) = readAs cfg r"
| "bodyResult cfg (OCIBlob r) = readAs cfg r"
| "bodyResult cfg (ReleaseTo r) = readAs cfg r"
| "bodyResult cfg (CreateTracksOf r) = readAs cfg r"
| "bodyResult cfg (RefreshCharms r) = readAs cfg r"
| "bodyResult cfg _ = None"

definition refusal :: "goerr \<Rightarrow> bool" where
  "refusal err \<longleftrightarrow> textError err \<or> err = EOF \<or> (\<exists>message. err = ServiceError 413 ''request-too-large'' message)"

lemma refusal_status: "refusal err \<Longrightarrow> rs_Status (writeError (invalidRequestError err)) \<in> {400, 413}"
  by (auto simp: refusal_def textError_def invalidRequestError_def writeError_def serviceError_def writeJSON_def)

lemma scanValue_text: "scanValue s = Bad err \<Longrightarrow> textError err"
  unfolding scanValue_def by (rule scanFrom_text)

lemma decodeJSON_refusal:
  assumes "textErrors d" and "decodeJSON cfg (readBody cfg d zero payload) = Inl err"
  shows "refusal err"
  using assms
  by (auto simp: decodeJSON_def readBody_def readValue_def afterScan_def Let_def refusal_def serviceError_def
      split: sum.splits read_error.splits scan.splits if_splits dest: scanValue_text textErrorsD)

lemma readAs_refusal:
  "textErrors d \<Longrightarrow> readAs cfg (withDecoded cfg d zero w) = Some (Inl err) \<Longrightarrow> refusal err"
  using decodeJSON_refusal [of d cfg zero "wr_Body w"]
  by (auto simp: readAs_def withDecoded_def map_sum_def split: sum.splits)

lemma routes_refusal:
  assumes "(m, p, h) \<in> set routes" and "\<And>s err. parse s = Inl err \<Longrightarrow> textError err"
    and "bodyResult cfg (h cfg parse w) = Some (Inl err)"
  shows "refusal err"
proof -
  have tracks: "textErrors (decodeSlice zero_track (decodeTrack parse))"
    by (simp add: decodeTrack_def text_errors assms(2))
  note refused = text_errors_bodies [THEN readAs_refusal] readAs_refusal [OF tracks]
    readAs_refusal [OF text_errors_one [OF text_errors_basic(1)]]
    readAs_refusal [OF text_errors_one [OF text_errors_ptr [OF text_errors_basic(1)]]]
  show ?thesis
    using assms(1,3) by (auto simp: routes_def reading_def ignoring_def dest: refused)
qed

text \<open>Every handler that reads a body gives up at a refused one, after the caller was identified.\<close>

lemma withBody_refused:
  "readAs (api_cfg A) r = Some (Inl err) \<Longrightarrow> withBody A r s f = (writeError (invalidRequestError err), s)"
  by (auto simp: readAs_def withBody_def map_err_def map_sum_def split: sum.splits)

lemma refuse_IssueToken:
  "identityOf A E r s = (Inr identity, s1) \<Longrightarrow> idn_Authenticated identity \<Longrightarrow> readAs (api_cfg A) r = Some (Inl err) \<Longrightarrow>
     handleIssueToken A E r s = (writeError (invalidRequestError err), s1)"
  by (simp add: handleIssueToken_def withIdentity_def withBody_refused)

lemma refuse_RevokeToken:
  "identityOf A E r s = (Inr identity, s1) \<Longrightarrow> readAs (api_cfg A) r = Some (Inl err) \<Longrightarrow>
     handleRevokeToken A E r s = (writeError (invalidRequestError err), s1)"
  by (simp add: handleRevokeToken_def withIdentity_def withBody_refused)

lemma refuse_RegisterPackage:
  "identityOf A E r s = (Inr identity, s1) \<Longrightarrow> readAs (api_cfg A) r = Some (Inl err) \<Longrightarrow>
     handleRegisterPackage A E r s = (writeError (invalidRequestError err), s1)"
  by (simp add: handleRegisterPackage_def withIdentity_def withBody_refused)

lemma refuse_PatchPackage:
  "identityOf A E r s = (Inr identity, s1) \<Longrightarrow> readAs (api_cfg A) r = Some (Inl err) \<Longrightarrow>
     handlePatchPackage A E r s = (writeError (invalidRequestError err), s1)"
  by (simp add: handlePatchPackage_def withIdentity_def withBody_refused)

lemma refuse_PushRevision:
  "identityOf A E r s = (Inr identity, s1) \<Longrightarrow> readAs (api_cfg A) r = Some (Inl err) \<Longrightarrow>
     handlePushRevision A lib E r s b = (writeError (invalidRequestError err), s1)"
  by (simp add: handlePushRevision_def withIdentity_def withBody_refused)

lemma refuse_PushResource:
  "identityOf A E r s = (Inr identity, s1) \<Longrightarrow> readAs (api_cfg A) r = Some (Inl err) \<Longrightarrow>
     handlePushResource A E r s b = (writeError (invalidRequestError err), s1)"
  by (simp add: handlePushResource_def withIdentity_def withBody_refused)

lemma refuse_UpdateResourceRevisions:
  "identityOf A E r s = (Inr identity, s1) \<Longrightarrow> readAs (api_cfg A) r = Some (Inl err) \<Longrightarrow>
     handleUpdateResourceRevisions A E r s = (writeError (invalidRequestError err), s1)"
  by (simp add: handleUpdateResourceRevisions_def withIdentity_def withBody_refused)

lemma refuse_OCIImageBlob:
  "identityOf A E r s = (Inr identity, s1) \<Longrightarrow> readAs (api_cfg A) r = Some (Inl err) \<Longrightarrow>
     handleOCIImageBlob A E r s = (writeError (invalidRequestError err), s1)"
  by (simp add: handleOCIImageBlob_def withIdentity_def withBody_refused)

lemma refuse_Release:
  "identityOf A E r s = (Inr identity, s1) \<Longrightarrow> readAs (api_cfg A) r = Some (Inl err) \<Longrightarrow>
     handleRelease A E r s = (writeError (invalidRequestError err), s1)"
  by (simp add: handleRelease_def withIdentity_def withBody_refused)

lemma refuse_CreateTracks:
  "identityOf A E r s = (Inr identity, s1) \<Longrightarrow> readAs (api_cfg A) r = Some (Inl err) \<Longrightarrow>
     handleCreateTracks A E r s = (writeError (invalidRequestError err), s1)"
  by (simp add: handleCreateTracks_def withIdentity_def withBody_refused)

lemma refuse_Refresh:
  "identityOf A E r s = (Inr identity, s1) \<Longrightarrow> readAs (api_cfg A) r = Some (Inl err) \<Longrightarrow>
     handleRefresh A E r s = (writeError (invalidRequestError err), s1)"
  by (simp add: handleRefresh_def withIdentity_def withBody_refused)

lemma refuse_DashboardExchange:
  "identityOf A E r s = (Inr identity, s1) \<Longrightarrow> err \<noteq> EOF \<Longrightarrow> readAs (api_cfg A) r = Some (Inl err) \<Longrightarrow>
     handleDashboardExchange A E r s = (writeError (invalidRequestError err), s1)"
  by (cases err) (auto simp: readAs_def handleDashboardExchange_def withIdentity_def map_sum_def split: sum.splits)

lemmas refuse_handlers = refuse_IssueToken refuse_RevokeToken refuse_RegisterPackage refuse_PatchPackage refuse_PushRevision
  refuse_PushResource refuse_UpdateResourceRevisions refuse_OCIImageBlob refuse_Release refuse_CreateTracks
  refuse_Refresh refuse_DashboardExchange

lemma identityOf_withDecoded [simp]: "identityOf A E (withDecoded cfg d zero w) s = identityOf A E (bodiless w) s"
  by (simp add: identityOf_def withDecoded_def bodiless_def)

lemma routes_identity:
  assumes "identityOf A E (bodiless w) s = (Inr identity, s1)" and "idn_Authenticated identity"
    and "(m, p, h) \<in> set routes" and "bodyResult (api_cfg A) (h (api_cfg A) parse w) = Some (Inl err)"
    and "err \<noteq> EOF \<or> p \<noteq> ''/v1/tokens/dashboard/exchange''"
  shows "route A lib E (h (api_cfg A) parse w) s b = (writeError (invalidRequestError err), s1, b)"
proof -
  note refused = refuse_handlers [OF trans [OF identityOf_withDecoded assms(1)]]
  have "list_all (\<lambda>(m, p, h). bodyResult (api_cfg A) (h (api_cfg A) parse w) = Some (Inl err) \<longrightarrow>
      err \<noteq> EOF \<or> p \<noteq> ''/v1/tokens/dashboard/exchange'' \<longrightarrow>
      route A lib E (h (api_cfg A) parse w) s b = (writeError (invalidRequestError err), s1, b)) routes"
    unfolding routes_def reading_def ignoring_def
    by (simp add: keepBlobs_def assms(2) refused)
  then show ?thesis using assms(3-5) by (auto simp: list_all_iff)
qed


text \<open>A body with a member the struct does not have.\<close>

definition ex_stray_bytes :: bytes where
  "ex_stray_bytes = render (JObject [(''name'', JString ''demo''), (''owner'', JString ''alice'')])"

lemma stray_member_refused:
  assumes "31 \<le> cfg_MaxJSONBodyBytes cfg"
  shows "bodyResult cfg (RegisterName (withDecoded cfg decodeRegister zero_register (w\<lparr>wr_Body := ex_stray_bytes\<rparr>)))
    = Some (Inl (Errorf ''json: unknown field''))"
proof -
  let ?v = "JObject [(''name'', JString ''demo''), (''owner'', JString ''alice'')]"
  have names: "list_all plainJSON ''name''" "list_all plainJSON ''owner''" "list_all plainJSON ''demo''"
    "list_all plainJSON ''alice''"
    by code_simp+
  note literal = names [THEN plain_literal(2)] names [THEN plain_literal(3)]
  have "scanValue (ex_stray_bytes @ []) = Got ?v []"
    unfolding ex_stray_bytes_def
    by (rule scanValue_render) (simp_all add: literal maxNestingDepth_def afterNumber_def)
  moreover have "decodeRegister ?v zero_register = Inl (Errorf ''json: unknown field'')"
    by (simp add: res_bind_def decodeRegister_def decodeStruct_def fieldFor_def field_def literal foldName.simps
        decodeString_def lowerChar_def del: unquote.simps)
  moreover have "length ex_stray_bytes = 31" by (simp add: ex_stray_bytes_def)
  ultimately show ?thesis using assms
    by (simp add: readAs_def withDecoded_def decodeJSON_def readBody_def readValue_def afterScan_def Let_def)
qed

definition ex_wire :: wire_request where
  "ex_wire =
     \<lparr>wr_Authorization = ''Bearer dev:sub-alice:mallory'', wr_Macaroons = [], wr_Query = (\<lambda>_. []), wr_Param = (\<lambda>_. []),
      wr_Body = ex_stray_bytes, wr_Form = Inl EOF\<rparr>"


section \<open>The document and the routes\<close>

text \<open>The OpenAPI document describes no operation that is not served.  No two routes have the same method and
pattern.\<close>

lemma routes_distinct: "distinct (map (\<lambda>(m, p, h). (m, p)) routes)"
  by (simp add: routes_def)

lemma documented_operations:
  "set (specOperations [] openAPILines) \<subseteq> set (map (\<lambda>(m, p, h). (m, p)) routes)"
  "length (specOperations [] openAPILines) = 19" "length routes = 35"
  by (simp_all add: routes_def openAPILines_def hasPrefix_def trimSuffix_def hasSuffix_def)

end
