(* ===== verification/Login.thy ===== *)
theory Login
  imports PostgresRequests Bodies
begin

text \<open>
  The login of \<^verbatim>\<open>charmcraft\<close> from end to end: the macaroon in which the server wraps an issued token, the header the
  client builds of it, and the identity the exchange route makes of the header.
\<close>

lemma newOpaqueToken_valid:
  assumes "NewOpaqueToken seed = Inr (raw, hash)"
  shows "validUTF8 raw"
proof -
  obtain bs where raw: "raw = ''cr_'' @ base64RawURL bs"
    using assms by (auto simp: NewOpaqueToken_def res_iff Let_def)
  have "list_all plainJSON base64Alphabet" by code_simp
  then have "list_all plainJSON (base64RawURL bs)"
    using base64RawURL_alphabet [of bs] by (auto simp: list_all_iff)
  moreover have "list_all plainJSON ''cr_''" by code_simp
  ultimately show ?thesis by (intro validUTF8_plain) (auto simp: raw list_all_iff)
qed

text \<open>The header of a login: an array that starts with the macaroon of the token.\<close>

definition loginHeader :: "string \<Rightarrow> string \<Rightarrow> string \<Rightarrow> bool" where
  "loginHeader raw location header \<longleftrightarrow>
     (\<exists>bs discharges. list_all macaroonLike discharges
        \<and> bs = ''['' @ joinWith '','' (WrapInMacaroon raw location # map render discharges) @ '']''
        \<and> (header = base64URL bs \<or> header = base64RawURL bs))"

lemma loginHeader_extract:
  assumes "loginHeader raw location header" and "validUTF8 raw" and "raw \<noteq> []"
  shows "ExtractTokenFromMacaroons header = Inr raw"
proof -
  obtain bs discharges where d: "list_all macaroonLike discharges"
    and bs: "bs = ''['' @ joinWith '','' (WrapInMacaroon raw location # map render discharges) @ '']''"
    and header: "header = base64URL bs \<or> header = base64RawURL bs"
    using assms(1) unfolding loginHeader_def by (elim exE conjE)
  show ?thesis by (rule extract_wrapped [OF header bs assms(2,3) d])
qed

lemma base64URL_not_Nil: "bs \<noteq> [] \<Longrightarrow> base64URL bs \<noteq> [] \<and> base64RawURL bs \<noteq> []"
  by (cases bs rule: base64URL.cases) (simp_all add: Let_def)

lemma loginHeader_not_Nil: "loginHeader raw location header \<Longrightarrow> header \<noteq> []"
  unfolding loginHeader_def using base64URL_not_Nil by (elim exE conjE disjE) simp_all

context token_store
begin

lemma macaroon_resolves:
  assumes S: "svc_repo (api_svc A) = R" and inv: "inv s" and new: "fresh tok s"
    and acc: "GetAccountByID R (acc_ID (idn_Account identity)) s = Inr account"
    and issue: "IssueStoreToken (api_svc A) E identity req s = (Inr (raw, tok), s')"
    and header: "loginHeader raw location (hr_Macaroons r)"
    and time: "now E' 0 \<le> tok_ValidUntil (kept tok)"
  shows "exchangeIdentity A E' r anonymous s'
    = ResolveIdentity (api_svc A) (skip 1 E') (claimsOfAccount account) (Some (kept tok)) s'"
proof -
  note i = IssueStoreToken_Inr [OF issue]
  note raw = newOpaqueToken_raw [OF i(2)]
  have "FindStoreTokenByHash R (HashToken raw) s' = Inr (kept tok, account)"
    using find_created [OF inv new] i(3,4) S acc raw(1) by simp
  then have "AuthenticateToken R (now E' 0) raw s' = Inr (claimsOfAccount account, Some (kept tok))"
    using i(10) time by (simp add: AuthenticateToken_def tokenDead_def kept_unrevoked)
  moreover have "ExtractTokenFromMacaroons (hr_Macaroons r) = Inr raw"
    using loginHeader_extract [OF header newOpaqueToken_valid [OF i(2)] raw(3)] .
  ultimately show ?thesis
    using loginHeader_not_Nil [OF header] by (simp add: exchangeIdentity_def anonymous_def S)
qed

end

lemma postgres_ensures:
  assumes inv: "pg_inv db" and a: "account \<in> set (db_accounts db)" and same: "acc_Subject new = acc_Subject account"
  shows "\<exists>a' db'. Postgres_EnsureAccount t new db = (Inr a', db') \<and> acc_ID a' = acc_ID account
     \<and> acc_Subject a' = acc_Subject account"
proof -
  have "filter (\<lambda>r. acc_Subject r = acc_Subject account) (db_accounts db) = [account]"
    using inv a by (intro uniqueBy_filter_eq) (simp_all add: pg_inv_def accounts_table_def)
  then show ?thesis by (simp add: Postgres_EnsureAccount_def same Let_def)
qed

text \<open>C6: the login of \<^verbatim>\<open>charmcraft\<close> over PostgreSQL: whoever sends back the macaroon it was given, in either base64 form
and with or without discharges, is on the exchange route the account the token was issued to, with that very token
and so with its restrictions, until the token expires.\<close>

theorem macaroon_login:
  assumes S: "svc_repo (api_svc A) = postgres_repo" and inv: "pg_inv db"
    and issue: "IssueStoreToken (api_svc A) E identity req db = (Inr (raw, tok), db')"
    and header: "loginHeader raw location (hr_Macaroons r)"
    and time: "now E' 0 \<le> timestamptz (tok_ValidUntil tok)"
    and subject: "list_all (\<lambda>a. acc_Subject a \<noteq> []) (db_accounts db)"
  shows "\<exists>id' db''. exchangeIdentity A E' r anonymous db' = (Inr id', db'') \<and> idn_Authenticated id'
     \<and> acc_ID (idn_Account id') = acc_ID (idn_Account identity) \<and> idn_Token id' = Some (tokenRow tok)"
proof -
  have c: "Postgres_CreateStoreToken tok db = (Inr (), db')" and owner: "tok_AccountID tok = acc_ID (idn_Account identity)"
    using IssueStoreToken_Inr [OF issue] by (simp_all add: S)
  then have fresh: "pg_fresh_token tok db" and "references acc_ID (tok_AccountID tok) (db_accounts db)"
    and accounts: "db_accounts db' = db_accounts db"
    by (auto simp: Postgres_CreateStoreToken_def insertUnless_Inr pg_fresh_token_def)
  then obtain account where account: "account \<in> set (db_accounts db)" "acc_ID account = acc_ID (idn_Account identity)"
    using owner by (auto simp: references_def list_ex_iff)
  then have acc: "Postgres_GetAccountByID (acc_ID (idn_Account identity)) db = Inr account"
    using account_row [OF inv] by (metis Postgres_GetAccountByID_def queryRow_simps(2))
  have inv': "pg_inv db'" using pg_tokens.create_keeps_inv [OF inv fresh] c by simp
  have "exchangeIdentity A E' r anonymous db'
      = ResolveIdentity (api_svc A) (skip 1 E') (claimsOfAccount account) (Some (tokenRow tok)) db'"
    using pg_tokens.macaroon_resolves [OF S inv fresh _ issue header, of account E'] acc time by (simp add: tokenRow_def)
  moreover have "account \<in> set (db_accounts db')" "acc_Subject account \<noteq> []"
    using account subject by (simp_all add: accounts list_all_iff)
  ultimately show ?thesis
    using postgres_ensures [OF inv', of account "accountOfClaims (uuid (skip 1 E') 0) (now (skip 1 E') 0) (claimsOfAccount account)"
        "now (skip 1 E') 1"] account(2)
    by (auto simp: ResolveIdentity_def S claimsOfAccount_def accountOfClaims_def)
qed

lemma macaroon_login_witness:
  "\<exists>raw tok db' r id' db''. IssueStoreToken pg_service ex_env alice_in ex_token_request pg_shop = (Inr (raw, tok), db')
     \<and> loginHeader raw ''https://charms'' (hr_Macaroons (r :: unit http_request))
     \<and> exchangeIdentity pg_api ex_env r anonymous db' = (Inr id', db'')
     \<and> acc_ID (idn_Account id') = ''a1'' \<and> idn_Token id' = Some (tokenRow tok)"
proof -
  obtain raw h where raw: "NewOpaqueToken (rand ex_env) = Inr (raw, h)"
    by (simp add: NewOpaqueToken_def Let_def ex_env_def)
  then have h: "h = HashToken raw" by (rule newOpaqueToken_raw)
  have "h \<noteq> ''h1''" unfolding h by (rule HashToken_neq) simp
  moreover have ttl: "tokenTTL (Some 60) = 60000000000" by (simp add: tokenTTL_in_range)
  ultimately obtain tok db' where issue: "IssueStoreToken pg_service ex_env alice_in ex_token_request pg_shop = (Inr (raw, tok), db')"
      and until: "tok_ValidUntil tok = 60000001000"
    using raw by (simp add: IssueStoreToken_def ex_token_request_def Let_def Postgres_CreateStoreToken_def insertUnless_def
        unused_def references_def ex_uuid) (auto simp: alice_in_def)
  let ?bs = "''['' @ joinWith '','' (WrapInMacaroon raw ''https://charms'' # map render []) @ '']''"
  let ?r = "\<lparr>hr_Authorization = [], hr_Macaroons = base64URL ?bs, hr_Query = (\<lambda>_. []), hr_Param = (\<lambda>_. []),
      hr_Body = \<lparr>body_first = Decoded (), body_ends = True\<rparr>\<rparr>"
  have header: "loginHeader raw ''https://charms'' (hr_Macaroons ?r)"
    unfolding loginHeader_def by (rule exI [of _ ?bs], rule exI [of _ "[]"]) simp
  have "now ex_env 0 \<le> timestamptz (tok_ValidUntil tok)" by (simp add: until timestamptz_def ex_env_def)
  moreover have "list_all (\<lambda>a. acc_Subject a \<noteq> []) (db_accounts pg_shop)" by (simp add: alice_def bob_def)
  moreover have "svc_repo (api_svc pg_api) = postgres_repo" "api_svc pg_api = pg_service" by simp_all
  ultimately obtain id' db'' where "exchangeIdentity pg_api ex_env ?r anonymous db' = (Inr id', db'')"
      and "acc_ID (idn_Account id') = acc_ID (idn_Account alice_in)" "idn_Token id' = Some (tokenRow tok)"
    using macaroon_login [of pg_api pg_shop ex_env alice_in ex_token_request raw tok db' "''https://charms''" ?r ex_env]
      pg_shop_inv issue header by auto
  then show ?thesis using issue header by (intro exI) (auto simp: alice_in_def alice_def)
qed

end
