(* ===== verification/Columns.thy ===== *)
theory Columns
  imports Bodies
begin

text \<open>
  The columns of type \<^verbatim>\<open>JSONB\<close>: \<^verbatim>\<open>mustJSON\<close> and \<^verbatim>\<open>unmarshalJSON\<close> of \<^verbatim>\<open>internal/repo/postgres_scan.go\<close>, the encoding of the
  types the repository stores in such columns, and the proof that what a scan reads is what was stored although the
  server writes a document in a form of its own.  It justifies that a row of \<open>Database\<close> holds values in these
  columns.  The time stamps of track guardrails are left out.
\<close>

section \<open>Encoding\<close>

text \<open>\<^verbatim>\<open>json.Marshal\<close> of the types of the columns.  A nil slice or map is \<^verbatim>\<open>null\<close>, an empty one is not; the order of a
map's members is left open.\<close>

definition stringJSON :: "string \<Rightarrow> json" where
  "stringJSON s = JString (escapeJSON s)"

definition intJSON :: "int \<Rightarrow> json" where
  "intJSON i = JNumber (itoa i)"

definition ptrJSON :: "('a \<Rightarrow> json) \<Rightarrow> 'a option \<Rightarrow> json" where
  "ptrJSON enc p = (case p of None \<Rightarrow> JNull | Some x \<Rightarrow> enc x)"

definition sliceJSON :: "bool \<Rightarrow> ('a \<Rightarrow> json) \<Rightarrow> 'a list \<Rightarrow> json" where
  "sliceJSON isNil enc xs = (if xs = [] \<and> isNil then JNull else JArray (map enc xs))"

definition mapJSON :: "bool \<Rightarrow> shuffle \<Rightarrow> ('a \<Rightarrow> json) \<Rightarrow> (string, 'a) gomap \<Rightarrow> json" where
  "mapJSON isNil sh enc m =
     (if m = [] \<and> isNil then JNull else JObject (map (\<lambda>(k, x). (escapeJSON k, enc x)) (go_range sh m)))"

text \<open>A member of a struct under \<^verbatim>\<open>omitempty\<close>.\<close>

definition omitEmpty :: "bool \<Rightarrow> string \<Rightarrow> json \<Rightarrow> (string \<times> json) list" where
  "omitEmpty absent name v = (if absent then [] else [(name, v)])"

definition baseJSON :: "base \<Rightarrow> json" where
  "baseJSON b = JObject
     (omitEmpty (base_Architecture b = []) ''architecture'' (stringJSON (base_Architecture b))
      @ omitEmpty (base_Architectures b = []) ''architectures'' (sliceJSON False stringJSON (base_Architectures b))
      @ omitEmpty (base_Channel b = []) ''channel'' (stringJSON (base_Channel b))
      @ omitEmpty (base_Name b = []) ''name'' (stringJSON (base_Name b)))"

definition refJSON :: "release_ref \<Rightarrow> json" where
  "refJSON r = JObject [(''name'', stringJSON (ref_Name r)), (''revision'', ptrJSON intJSON (ref_Revision r))]"

definition selectorJSON :: "package_selector \<Rightarrow> json" where
  "selectorJSON p = JObject
     (omitEmpty (sel_ID p = []) ''id'' (stringJSON (sel_ID p)) @ omitEmpty (sel_Name p = []) ''name'' (stringJSON (sel_Name p))
      @ [(''type'', stringJSON (sel_Type p))])"

definition mediaJSON :: "media \<Rightarrow> json" where
  "mediaJSON m = JObject [(''type'', stringJSON (med_Type m)), (''url'', stringJSON (med_URL m))]"

definition errorJSON :: "api_error \<Rightarrow> json" where
  "errorJSON e = JObject [(''code'', stringJSON (err_Code e)), (''message'', stringJSON (err_Message e))]"

definition relationJSON :: "relation \<Rightarrow> json" where
  "relationJSON r = JObject [(''interface'', stringJSON (rlt_Interface r))]"

definition mustJSON :: "json \<Rightarrow> bytes" where
  "mustJSON v = render v"

section \<open>Scanning\<close>

text \<open>\<^verbatim>\<open>json.Unmarshal\<close> skips a member the struct does not have.\<close>

fun looseFields :: "'r fields \<Rightarrow> (string \<times> json) list \<Rightarrow> 'r \<Rightarrow> 'r res" where
  "looseFields fs [] r = Inr r"
| "looseFields fs ((k, v) # ms) r =
     (case fieldFor fs (unquote k) of
        None \<Rightarrow> looseFields fs ms r
      | Some d \<Rightarrow> res_bind (d v r) (looseFields fs ms))"

definition decodeLoose :: "'r fields \<Rightarrow> 'r decoder" where
  "decodeLoose fs v old =
     (case v of JNull \<Rightarrow> Inr old | JObject ms \<Rightarrow> looseFields fs ms old | _ \<Rightarrow> Inl typeError)"

definition scanBase :: "base decoder" where
  "scanBase = decodeLoose
     [field ''architecture'' base_Architecture base_Architecture_update decodeString,
      field ''architectures'' base_Architectures base_Architectures_update (decodeSlice [] decodeString),
      field ''channel'' base_Channel base_Channel_update decodeString,
      field ''name'' base_Name base_Name_update decodeString]"

definition scanRef :: "release_ref decoder" where
  "scanRef = decodeLoose
     [field ''name'' ref_Name ref_Name_update decodeString,
      field ''revision'' ref_Revision ref_Revision_update (decodePtr 0 decodeInt)]"

definition scanSelector :: "package_selector decoder" where
  "scanSelector = decodeLoose
     [field ''id'' sel_ID sel_ID_update decodeString, field ''name'' sel_Name sel_Name_update decodeString,
      field ''type'' sel_Type sel_Type_update decodeString]"

definition zero_media :: media where
  "zero_media = \<lparr>med_Type = [], med_URL = []\<rparr>"

definition scanMedia :: "media decoder" where
  "scanMedia = decodeLoose
     [field ''type'' med_Type med_Type_update decodeString, field ''url'' med_URL med_URL_update decodeString]"

definition zero_error :: api_error where
  "zero_error = \<lparr>err_Code = [], err_Message = []\<rparr>"

definition scanError :: "api_error decoder" where
  "scanError = decodeLoose
     [field ''code'' err_Code err_Code_update decodeString, field ''message'' err_Message err_Message_update decodeString]"

definition zero_relation :: relation where
  "zero_relation = \<lparr>rlt_Interface = []\<rparr>"

definition scanRelation :: "relation decoder" where
  "scanRelation = decodeLoose [field ''interface'' rlt_Interface rlt_Interface_update decodeString]"

text \<open>\<^verbatim>\<open>unmarshalJSON\<close> drops the error of the decoder; \<open>None\<close> stands for what is left in the target then.\<close>

definition unmarshalJSON :: "'a decoder \<Rightarrow> 'a \<Rightarrow> bytes \<Rightarrow> 'a option" where
  "unmarshalJSON d zero payload =
     (if payload = [] \<or> payload = ''null'' then Some zero
      else case Unmarshal d zero payload of Inr x \<Rightarrow> Some x | Inl _ \<Rightarrow> None)"

text \<open>The base of a release in \<^verbatim>\<open>scanRelease\<close>.\<close>

definition scanReleaseBase :: "bytes \<Rightarrow> base option option" where
  "scanReleaseBase column =
     (if column \<noteq> ''null'' \<and> column \<noteq> [] then map_option Some (unmarshalJSON scanBase zero_base column) else Some None)"

section \<open>The server\<close>

text \<open>The same value: strings may be escaped differently, the members of an object may come in another order.\<close>

inductive sameJSON :: "json \<Rightarrow> json \<Rightarrow> bool" where
  null: "sameJSON JNull JNull"
| bool: "sameJSON (JBool b) (JBool b)"
| number: "sameJSON (JNumber d) (JNumber d)"
| string: "unquote s = unquote t \<Longrightarrow> sameJSON (JString s) (JString t)"
| array: "list_all2 sameJSON vs ws \<Longrightarrow> sameJSON (JArray vs) (JArray ws)"
| object: "list_all2 (\<lambda>m n. unquote (fst m) = unquote (fst n) \<and> sameJSON (snd m) (snd n)) ms ns \<Longrightarrow>
    mset ns = mset ns' \<Longrightarrow> sameJSON (JObject ms) (JObject ns')"

inductive_simps sameJSON_simps [simp]:
  "sameJSON JNull v" "sameJSON (JBool b) v" "sameJSON (JNumber d) v" "sameJSON (JString s) v" "sameJSON (JArray vs) v"

inductive_cases sameJSON_objectE: "sameJSON (JObject ms) v"

text \<open>No string holds a zero byte, which the server refuses.\<close>

fun zeroFree :: "json \<Rightarrow> bool" where
  "zeroFree (JString s) = (CHR 0x00 \<notin> set (unquote s))"
| "zeroFree (JArray vs) = list_all zeroFree vs"
| "zeroFree (JObject ms) = list_all (\<lambda>(k, v). CHR 0x00 \<notin> set (unquote k) \<and> zeroFree v) ms"
| "zeroFree _ = True"

text \<open>What the server promises of the type: the document that comes out denotes the value that went in.\<close>

definition jsonb :: "(bytes \<Rightarrow> bytes) \<Rightarrow> bool" where
  "jsonb server \<longleftrightarrow> server ''null'' = ''null'' \<and>
     (\<forall>v. rendersAs v \<and> nesting v \<le> maxNestingDepth \<and> zeroFree v \<longrightarrow>
        (\<exists>w. parseDocument (server (render v)) = Inr w \<and> sameJSON v w))"

lemma sameJSON_refl: "sameJSON v v"
proof (induction v)
  case (JArray vs)
  then show ?case by (auto intro: list.rel_refl_strong)
next
  case (JObject ms)
  have "list_all2 (\<lambda>m n. unquote (fst m) = unquote (fst n) \<and> sameJSON (snd m) (snd n)) ms ms"
    using JObject by (intro list.rel_refl_strong) (auto simp: snds.simps)
  then show ?case by (rule sameJSON.object) simp
qed simp_all

lemma jsonb_id: "jsonb (\<lambda>t. t)"
  using parseDocument_render sameJSON_refl by (auto simp: jsonb_def)

section \<open>Columns\<close>

text \<open>A value \<open>x\<close> encoded as \<open>v\<close>: the document can be stored, and every form of it is read as \<open>x\<close>, up to \<open>R\<close>.\<close>

definition column :: "nat \<Rightarrow> 'a decoder \<Rightarrow> 'a \<Rightarrow> ('a \<Rightarrow> 'a \<Rightarrow> bool) \<Rightarrow> json \<Rightarrow> 'a \<Rightarrow> bool" where
  "column n d zero R v x \<longleftrightarrow> rendersAs v \<and> nesting v \<le> n \<and> zeroFree v
     \<and> (\<forall>w. sameJSON v w \<longrightarrow> (\<exists>y. d w zero = Inr y \<and> R x y))"

definition validText :: "string \<Rightarrow> bool" where
  "validText s \<longleftrightarrow> validUTF8 s \<and> CHR 0x00 \<notin> set s"

lemma columnI:
  "rendersAs v \<Longrightarrow> nesting v \<le> n \<Longrightarrow> zeroFree v \<Longrightarrow> (\<And>w. sameJSON v w \<Longrightarrow> d w zero = Inr x) \<Longrightarrow> column n d zero (=) v x"
  by (simp add: column_def)

lemma columnD:
  assumes "column n d zero (=) v x"
  shows "rendersAs v" and "nesting v \<le> n" and "zeroFree v" and "sameJSON v w \<Longrightarrow> d w zero = Inr x"
  using assms by (auto simp: column_def)

lemma column_mono: "column m d zero R v x \<Longrightarrow> m \<le> n \<Longrightarrow> column n d zero R v x"
  by (auto simp: column_def)

lemma unmarshal_column:
  assumes server: "jsonb server" and c: "column n d zero R v x" and "n \<le> maxNestingDepth" and null: "d JNull zero = Inr zero"
  shows "\<exists>y. unmarshalJSON d zero (server (mustJSON v)) = Some y \<and> R x y"
proof -
  have v: "rendersAs v" "nesting v \<le> maxNestingDepth" "zeroFree v" using c assms(3) by (auto simp: column_def)
  then obtain w where w: "parseDocument (server (render v)) = Inr w" "sameJSON v w"
    using server by (auto simp: jsonb_def)
  then obtain y where y: "d w zero = Inr y" "R x y" using c by (auto simp: column_def)
  have "parseDocument [] \<noteq> Inr w" by (simp add: parseDocument_def scanValue_def scanFrom.simps)
  then have "server (render v) \<noteq> []" using w by auto
  moreover have "y = zero" if "server (render v) = ''null''"
  proof -
    have "parseDocument (render JNull) = Inr JNull" by (rule parseDocument_render) simp_all
    then show ?thesis using w y that null by simp
  qed
  ultimately show ?thesis
    using w y by (auto simp: unmarshalJSON_def mustJSON_def Unmarshal_def res_bind_def)
qed

lemma column_string [intro]: "validText s \<Longrightarrow> column 0 decodeString old (=) (stringJSON s) s"
  by (intro columnI) (auto simp: stringJSON_def stringLiteral_escape validText_def unquote_escape decodeString_def
      simp del: unquote.simps escapeJSON.simps)

lemma column_int [intro]: "- (2 ^ 63) \<le> i \<Longrightarrow> i < 2 ^ 63 \<Longrightarrow> column 0 decodeInt old (=) (intJSON i) i"
  by (intro columnI) (auto simp: intJSON_def integerLiteral_def decodeInt_def atoi_itoa map_err_def)

lemma column_ptr:
  assumes "\<And>x old. p = Some x \<Longrightarrow> column n d old (=) (enc x) x" and "\<And>x. enc x \<noteq> JNull"
  shows "column n (decodePtr zero d) old (=) (ptrJSON enc p) p"
proof (cases p)
  case None
  then show ?thesis by (intro columnI) (auto simp: ptrJSON_def decodePtr_def)
next
  case (Some x)
  note c = columnD [OF assms(1) [OF Some]]
  have "w \<noteq> JNull" if "sameJSON (enc x) w" for w using that assms(2) [of x] by (cases rule: sameJSON.cases) auto
  then show ?thesis using Some c by (intro columnI) (auto simp: ptrJSON_def decodePtr_def)
qed

lemma decodeElems_zero: "list_all2 (\<lambda>x w. d w zero = Inr x) xs ws \<Longrightarrow> decodeElems zero d ws [] = Inr xs"
  by (induction rule: list_all2_induct) simp_all

lemma decodeElems_any: "list_all2 (\<lambda>x w. \<forall>old. d w old = Inr x) xs ws \<Longrightarrow> decodeElems zero d ws old = Inr xs"
  by (induction arbitrary: old rule: list_all2_induct) simp_all

lemma slice_document:
  assumes "\<And>x. x \<in> set xs \<Longrightarrow> rendersAs (enc x) \<and> nesting (enc x) \<le> n \<and> zeroFree (enc x)"
  shows "rendersAs (sliceJSON b enc xs)" and "nesting (sliceJSON b enc xs) \<le> Suc n" and "zeroFree (sliceJSON b enc xs)"
  using assms by (auto simp: sliceJSON_def list_all_iff fold_max_le)

lemma sameJSON_slice:
  "sameJSON (sliceJSON b enc xs) w \<Longrightarrow> (xs = [] \<and> w = JNull) \<or> (\<exists>ws. w = JArray ws \<and> list_all2 (\<lambda>x. sameJSON (enc x)) xs ws)"
  by (auto simp: sliceJSON_def list_all2_map1 split: if_splits)

lemma column_slice:
  assumes "\<And>x. x \<in> set xs \<Longrightarrow> column n d zero (=) (enc x) x"
  shows "column (Suc n) (decodeSlice zero d) [] (=) (sliceJSON b enc xs) xs"
proof (rule columnI)
  fix w
  assume "sameJSON (sliceJSON b enc xs) w"
  then consider "xs = []" "w = JNull" | ws where "w = JArray ws" "list_all2 (\<lambda>x. sameJSON (enc x)) xs ws"
    using sameJSON_slice by blast
  then show "decodeSlice zero d w [] = Inr xs"
  proof cases
    case 2
    then have "list_all2 (\<lambda>x w. d w zero = Inr x) xs ws"
      using columnD(4) [OF assms] by (auto simp: list_all2_conv_all_nth)
    then show ?thesis using 2 by (simp add: decodeSlice_def decodeElems_zero)
  qed (simp add: decodeSlice_def)
qed (use slice_document [of xs enc n b] columnD(1-3) [OF assms] in blast)+

lemma column_slice_any:
  assumes "\<And>x old. x \<in> set xs \<Longrightarrow> column n d old (=) (enc x) x"
  shows "column (Suc n) (decodeSlice zero d) old (=) (sliceJSON b enc xs) xs"
proof (rule columnI)
  fix w
  assume "sameJSON (sliceJSON b enc xs) w"
  then consider "xs = []" "w = JNull" | ws where "w = JArray ws" "list_all2 (\<lambda>x. sameJSON (enc x)) xs ws"
    using sameJSON_slice by blast
  then show "decodeSlice zero d w old = Inr xs"
  proof cases
    case 2
    then have "list_all2 (\<lambda>x w. \<forall>old. d w old = Inr x) xs ws"
      using columnD(4) [OF assms] by (auto simp: list_all2_conv_all_nth)
    then show ?thesis using 2 by (simp add: decodeSlice_def decodeElems_any)
  qed (simp add: decodeSlice_def)
qed (use slice_document [of xs enc n b] columnD(1-3) [OF assms] in blast)+

section \<open>Objects\<close>

lemma list_all2_member: "list_all2 P xs ys \<Longrightarrow> y \<in> set ys \<Longrightarrow> \<exists>x \<in> set xs. P x y"
  by (induction rule: list_all2_induct) auto

lemma sameJSON_object:
  assumes "sameJSON (JObject ms) w"
  obtains ns where "w = JObject ns" and "mset (map (unquote \<circ> fst) ns) = mset (map (unquote \<circ> fst) ms)"
    and "\<And>k v. (k, v) \<in> set ns \<Longrightarrow> \<exists>k' v'. (k', v') \<in> set ms \<and> unquote k = unquote k' \<and> sameJSON v' v"
proof -
  obtain us ns where l: "list_all2 (\<lambda>m n. unquote (fst m) = unquote (fst n) \<and> sameJSON (snd m) (snd n)) ms us"
      and p: "mset us = mset ns" and w: "w = JObject ns"
    using assms by (elim sameJSON_objectE)
  have "map (unquote \<circ> fst) us = map (unquote \<circ> fst) ms"
    using l by (induction rule: list_all2_induct) (simp_all del: unquote.simps)
  moreover have "mset (map (unquote \<circ> fst) ns) = mset (map (unquote \<circ> fst) us)" by (simp add: p)
  ultimately have names: "mset (map (unquote \<circ> fst) ns) = mset (map (unquote \<circ> fst) ms)" by simp
  have "\<exists>k' v'. (k', v') \<in> set ms \<and> unquote k = unquote k' \<and> sameJSON v' v" if "(k, v) \<in> set ns" for k v
  proof -
    have "(k, v) \<in> set us" using that p by (metis set_mset_mset)
    from list_all2_member [OF l this] obtain m where "m \<in> set ms" "unquote (fst m) = unquote k" "sameJSON (snd m) v"
      by auto
    then show ?thesis by (intro exI [of _ "fst m"] exI [of _ "snd m"]) (simp del: unquote.simps)
  qed
  with names show thesis by (rule that [OF w])
qed

lemma looseFields_fold:
  assumes "\<And>k v. (k, v) \<in> set ms \<Longrightarrow> \<exists>d. fieldFor fs (unquote k) = Some d \<and> (\<forall>r. d v r = Inr (upd (unquote k) r))"
  shows "looseFields fs ms r = Inr (fold upd (map (unquote \<circ> fst) ms) r)"
  using assms
proof (induction ms arbitrary: r)
  case (Cons m ms)
  then obtain d where "fieldFor fs (unquote (fst m)) = Some d" "\<forall>r. d (snd m) r = Inr (upd (unquote (fst m)) r)"
    by (metis list.set_intros(1) prod.collapse)
  moreover have "looseFields fs ms r' = Inr (fold upd (map (unquote \<circ> fst) ms) r')" for r'
    using Cons.IH Cons.prems by (metis list.set_intros(2))
  ultimately show ?case by (cases m) (simp add: o_def del: unquote.simps)
qed simp

text \<open>A struct: the members set different fields, so their order does not matter.\<close>

definition plainName :: "string \<Rightarrow> bool" where
  "plainName k \<longleftrightarrow> list_all plainJSON k"

lemma plainName_zero: "plainName k \<Longrightarrow> CHR 0x00 \<notin> set k"
proof -
  have "\<not> plainJSON (CHR 0x00)" by (simp add: plainJSON_def byteNat_def)
  then show "plainName k \<Longrightarrow> CHR 0x00 \<notin> set k" by (auto simp: plainName_def list_all_iff)
qed

lemma column_struct:
  assumes each: "list_all (\<lambda>(k, v). plainName k \<and> rendersAs v \<and> nesting v \<le> n \<and> zeroFree v
      \<and> (\<exists>d. fieldFor fs k = Some d \<and> (\<forall>w r. sameJSON v w \<longrightarrow> d w r = Inr (upd k r)))) members"
    and commute: "\<And>k k'. upd k \<circ> upd k' = upd k' \<circ> upd k"
    and final: "fold upd (map fst members) zero = x"
  shows "column (Suc n) (decodeLoose fs) zero (=) (JObject members) x"
proof (rule columnI)
  have keys: "unquote k = k" "stringLiteral k" "CHR 0x00 \<notin> set k" if "(k, v) \<in> set members" for k v
  proof -
    have plain: "plainName k" using that each by (auto simp: list_all_iff)
    then show "unquote k = k" "stringLiteral k" unfolding plainName_def by (rule plain_literal)+
    show "CHR 0x00 \<notin> set k" using plain by (rule plainName_zero)
  qed
  show "rendersAs (JObject members)" "nesting (JObject members) \<le> Suc n" "zeroFree (JObject members)"
    using each keys by (auto simp: list_all_iff fold_max_le simp del: unquote.simps)
  fix w
  assume "sameJSON (JObject members) w"
  then obtain ns where w: "w = JObject ns" and m: "mset (map (unquote \<circ> fst) ns) = mset (map (unquote \<circ> fst) members)"
    and vals: "\<And>k v. (k, v) \<in> set ns \<Longrightarrow> \<exists>k' v'. (k', v') \<in> set members \<and> unquote k = unquote k' \<and> sameJSON v' v"
    by (rule sameJSON_object) metis
  have "\<exists>d. fieldFor fs (unquote k) = Some d \<and> (\<forall>r. d v r = Inr (upd (unquote k) r))" if "(k, v) \<in> set ns" for k v
    using vals [OF that] keys each by (fastforce simp: list_all_iff simp del: unquote.simps)
  then have "decodeLoose fs w zero = Inr (fold upd (map (unquote \<circ> fst) ns) zero)"
    by (simp add: w decodeLoose_def looseFields_fold)
  also have "fold upd (map (unquote \<circ> fst) ns) = fold upd (map (unquote \<circ> fst) members)"
    using commute m by (intro fold_multiset_equiv) simp_all
  also have "map (unquote \<circ> fst) members = map fst members"
    using keys(1) by (auto simp del: unquote.simps)
  finally show "decodeLoose fs w zero = Inr x" using final by simp
qed

section \<open>Maps\<close>

definition relMap :: "('a \<Rightarrow> 'b \<Rightarrow> bool) \<Rightarrow> (string, 'a) gomap \<Rightarrow> (string, 'b) gomap \<Rightarrow> bool" where
  "relMap R m m' \<longleftrightarrow> (\<forall>k. rel_option R (map_of m k) (map_of m' k))"

lemma relMap_eq [simp]: "relMap (=) m m' \<longleftrightarrow> map_of m = map_of m'"
  by (auto simp: relMap_def option.rel_eq)

lemma decodeMembers_reads:
  assumes "\<And>k v. (k, v) \<in> set ns \<Longrightarrow> \<exists>y. d v zero = Inr y \<and> Q (unquote k) y"
  shows "\<exists>m'. decodeMembers zero d ns m = Inr m' \<and> (\<forall>k. if k \<in> set (map (unquote \<circ> fst) ns)
      then \<exists>y. map_of m' k = Some y \<and> Q k y else map_of m' k = map_of m k)"
  using assms
proof (induction ns arbitrary: m)
  case (Cons n ns)
  obtain y where y: "d (snd n) zero = Inr y" "Q (unquote (fst n)) y"
    using Cons.prems [of "fst n" "snd n"] by auto
  obtain m' where m': "decodeMembers zero d ns (AList.update (unquote (fst n)) y m) = Inr m'"
      "\<And>k. if k \<in> set (map (unquote \<circ> fst) ns) then \<exists>y. map_of m' k = Some y \<and> Q k y
        else map_of m' k = map_of (AList.update (unquote (fst n)) y m) k"
    using Cons.IH [of "AList.update (unquote (fst n)) y m"] Cons.prems by (metis list.set_intros(2))
  have "\<forall>k. if k \<in> set (map (unquote \<circ> fst) (n # ns)) then \<exists>y. map_of m' k = Some y \<and> Q k y else map_of m' k = map_of m k"
  proof
    fix k
    show "if k \<in> set (map (unquote \<circ> fst) (n # ns)) then \<exists>y. map_of m' k = Some y \<and> Q k y else map_of m' k = map_of m k"
      using m'(2) [of k] y(2) by (cases "k = unquote (fst n)") (auto simp: update_conv' simp del: unquote.simps split: if_splits)
  qed
  moreover have "decodeMembers zero d (n # ns) m = Inr m'" using y m'(1) by (cases n) (simp del: unquote.simps)
  ultimately show ?case by blast
qed simp

lemma column_map:
  assumes dist: "distinct (map fst m)" and keys: "\<And>k x. (k, x) \<in> set m \<Longrightarrow> validText k"
    and elems: "\<And>k x. (k, x) \<in> set m \<Longrightarrow> column n d zero R (enc x) x"
  shows "column (Suc n) (decodeGomap zero d) [] (relMap R) (mapJSON b sh enc m) m"
proof -
  let ?ms = "map (\<lambda>(k, x). (escapeJSON k, enc x)) (go_range sh m)"
  have key: "unquote (escapeJSON k) = k" "CHR 0x00 \<notin> set k" if "(k, x) \<in> set m" for k x
    using keys [OF that] by (simp_all add: validText_def unquote_escape)
  have doc: "rendersAs (JObject ?ms)" "nesting (JObject ?ms) \<le> Suc n" "zeroFree (JObject ?ms)"
    using key elems by (auto simp: list_all_iff fold_max_le column_def stringLiteral_escape
        simp del: unquote.simps escapeJSON.simps)
  have read: "\<exists>y. decodeGomap zero d w [] = Inr y \<and> relMap R m y" if same: "sameJSON (JObject ?ms) w" for w
  proof -
    obtain ns where w: "w = JObject ns" and names: "mset (map (unquote \<circ> fst) ns) = mset (map (unquote \<circ> fst) ?ms)"
      and vals: "\<And>k v. (k, v) \<in> set ns \<Longrightarrow> \<exists>k' v'. (k', v') \<in> set ?ms \<and> unquote k = unquote k' \<and> sameJSON v' v"
      by (rule sameJSON_object [OF same]) metis
    let ?Q = "\<lambda>k y. \<exists>x. map_of m k = Some x \<and> R x y"
    have "\<exists>y. d v zero = Inr y \<and> ?Q (unquote k) y" if kv: "(k, v) \<in> set ns" for k v
    proof -
      obtain k' x where "(k', x) \<in> set m" "unquote k = k'" "sameJSON (enc x) v"
        using vals [OF kv] key by (auto simp del: unquote.simps escapeJSON.simps)
      then show ?thesis using elems dist by (fastforce simp: column_def)
    qed
    from decodeMembers_reads [of ns d zero ?Q "[]", OF this] obtain m' where m': "decodeMembers zero d ns [] = Inr m'"
      "\<And>k. if k \<in> set (map (unquote \<circ> fst) ns) then \<exists>y. map_of m' k = Some y \<and> ?Q k y else map_of m' k = None"
      by auto
    have "set (map (unquote \<circ> fst) ns) = set (map (unquote \<circ> fst) ?ms)" using names by (metis set_mset_mset)
    also have "\<dots> = fst ` set m" using key by (force simp: image_iff simp del: unquote.simps escapeJSON.simps)
    finally have "set (map (unquote \<circ> fst) ns) = fst ` set m" .
    then have "relMap R m m'" unfolding relMap_def
      using m'(2) by (metis map_of_eq_None_iff option.rel_intros)
    then show ?thesis using m'(1) by (simp add: w decodeGomap_def decodeMap_def)
  qed
  show ?thesis
  proof (cases "m = [] \<and> b")
    case True
    then show ?thesis by (simp add: column_def mapJSON_def decodeGomap_def decodeMap_def relMap_def)
  next
    case False
    then have "mapJSON b sh enc m = JObject ?ms" unfolding mapJSON_def by (rule if_not_P)
    then show ?thesis using doc read unfolding column_def by simp
  qed
qed

section \<open>Structs\<close>

lemma list_all_omitEmpty [simp]: "list_all P (omitEmpty absent name v) \<longleftrightarrow> absent \<or> P (name, v)"
  by (simp add: omitEmpty_def)

lemma names [simp]:
  "plainName ''architecture''" "plainName ''architectures''" "plainName ''channel''" "plainName ''name''"
  "plainName ''revision''" "plainName ''id''" "plainName ''type''" "plainName ''url''" "plainName ''code''"
  "plainName ''message''" "plainName ''interface''"
  by code_simp+

lemma column_text: "validText s \<Longrightarrow> column n decodeString old (=) (stringJSON s) s"
  using column_string by (rule column_mono) simp_all

definition validBase :: "base \<Rightarrow> bool" where
  "validBase b \<longleftrightarrow> validText (base_Architecture b) \<and> list_all validText (base_Architectures b)
     \<and> validText (base_Channel b) \<and> validText (base_Name b)"

lemma column_base [intro]:
  assumes "validBase b"
  shows "column 2 scanBase zero_base (=) (baseJSON b) b"
proof -
  let ?upd = "\<lambda>k r. if k = ''architecture'' then r\<lparr>base_Architecture := base_Architecture b\<rparr>
      else if k = ''architectures'' then r\<lparr>base_Architectures := base_Architectures b\<rparr>
      else if k = ''channel'' then r\<lparr>base_Channel := base_Channel b\<rparr>
      else if k = ''name'' then r\<lparr>base_Name := base_Name b\<rparr> else r"
  have slices: "column 1 (decodeSlice [] decodeString) old (=) (sliceJSON False stringJSON (base_Architectures b))
      (base_Architectures b)" for old
    using column_slice_any [of "base_Architectures b" 0 decodeString stringJSON "[]" old False] assms
    by (simp add: validBase_def list_all_iff column_string)
  have "column (Suc 1) scanBase zero_base (=) (baseJSON b) b"
    unfolding scanBase_def baseJSON_def
  proof (rule column_struct [where upd = ?upd])
    show "fold ?upd (map fst (omitEmpty (base_Architecture b = []) ''architecture'' (stringJSON (base_Architecture b))
      @ omitEmpty (base_Architectures b = []) ''architectures'' (sliceJSON False stringJSON (base_Architectures b))
      @ omitEmpty (base_Channel b = []) ''channel'' (stringJSON (base_Channel b))
      @ omitEmpty (base_Name b = []) ''name'' (stringJSON (base_Name b)))) zero_base = b"
      by (cases b) (simp add: omitEmpty_def zero_base_def)
  qed (use assms columnD [OF column_text] columnD [OF slices] in \<open>auto simp: fun_eq_iff validBase_def fieldFor_def field_def\<close>)
  then show ?thesis by (simp add: numeral_2_eq_2)
qed

definition validRef :: "release_ref \<Rightarrow> bool" where
  "validRef r \<longleftrightarrow> validText (ref_Name r) \<and> pred_option (\<lambda>i. - (2 ^ 63) \<le> i \<and> i < 2 ^ 63) (ref_Revision r)"

lemma column_ref [intro]:
  assumes "validRef r"
  shows "column 2 scanRef zero_ref (=) (refJSON r) r"
proof -
  let ?upd = "\<lambda>k x. if k = ''name'' then x\<lparr>ref_Name := ref_Name r\<rparr>
      else if k = ''revision'' then x\<lparr>ref_Revision := ref_Revision r\<rparr> else x"
  have number: "column 1 (decodePtr 0 decodeInt) old (=) (ptrJSON intJSON (ref_Revision r)) (ref_Revision r)" for old
    using assms column_mono [OF column_int, of _ 1] by (intro column_ptr) (auto simp: validRef_def intJSON_def)
  have "column (Suc 1) scanRef zero_ref (=) (refJSON r) r"
    unfolding scanRef_def refJSON_def
  proof (rule column_struct [where upd = ?upd])
    show "fold ?upd (map fst [(''name'', stringJSON (ref_Name r)), (''revision'', ptrJSON intJSON (ref_Revision r))]) zero_ref = r"
      by (cases r) (simp add: zero_ref_def)
  qed (use assms columnD [OF column_text] columnD [OF number] in \<open>auto simp: fun_eq_iff validRef_def fieldFor_def field_def\<close>)
  then show ?thesis by (simp add: numeral_2_eq_2)
qed

definition validSelector :: "package_selector \<Rightarrow> bool" where
  "validSelector p \<longleftrightarrow> validText (sel_ID p) \<and> validText (sel_Name p) \<and> validText (sel_Type p)"

lemma column_selector [intro]:
  assumes "validSelector p"
  shows "column (Suc 0) scanSelector zero_selector (=) (selectorJSON p) p"
proof -
  let ?upd = "\<lambda>k x. if k = ''id'' then x\<lparr>sel_ID := sel_ID p\<rparr> else if k = ''name'' then x\<lparr>sel_Name := sel_Name p\<rparr>
      else if k = ''type'' then x\<lparr>sel_Type := sel_Type p\<rparr> else x"
  show "column (Suc 0) scanSelector zero_selector (=) (selectorJSON p) p"
    unfolding scanSelector_def selectorJSON_def
  proof (rule column_struct [where upd = ?upd])
    show "fold ?upd (map fst (omitEmpty (sel_ID p = []) ''id'' (stringJSON (sel_ID p))
      @ omitEmpty (sel_Name p = []) ''name'' (stringJSON (sel_Name p)) @ [(''type'', stringJSON (sel_Type p))])) zero_selector = p"
      by (cases p) (simp add: omitEmpty_def zero_selector_def)
  qed (use assms columnD [OF column_string] in \<open>auto simp: fun_eq_iff validSelector_def fieldFor_def field_def\<close>)
qed

lemma column_media [intro]:
  assumes "validText (med_Type m)" and "validText (med_URL m)"
  shows "column (Suc 0) scanMedia zero_media (=) (mediaJSON m) m"
proof -
  let ?upd = "\<lambda>k x. if k = ''type'' then x\<lparr>med_Type := med_Type m\<rparr>
      else if k = ''url'' then x\<lparr>med_URL := med_URL m\<rparr> else x"
  show "column (Suc 0) scanMedia zero_media (=) (mediaJSON m) m"
    unfolding scanMedia_def mediaJSON_def
  proof (rule column_struct [where upd = ?upd])
    show "fold ?upd (map fst [(''type'', stringJSON (med_Type m)), (''url'', stringJSON (med_URL m))]) zero_media = m"
      by (cases m) (simp add: zero_media_def)
  qed (use assms columnD [OF column_string] in \<open>auto simp: fun_eq_iff fieldFor_def field_def\<close>)
qed

lemma column_error [intro]:
  assumes "validText (err_Code e)" and "validText (err_Message e)"
  shows "column (Suc 0) scanError zero_error (=) (errorJSON e) e"
proof -
  let ?upd = "\<lambda>k x. if k = ''code'' then x\<lparr>err_Code := err_Code e\<rparr>
      else if k = ''message'' then x\<lparr>err_Message := err_Message e\<rparr> else x"
  show "column (Suc 0) scanError zero_error (=) (errorJSON e) e"
    unfolding scanError_def errorJSON_def
  proof (rule column_struct [where upd = ?upd])
    show "fold ?upd (map fst [(''code'', stringJSON (err_Code e)), (''message'', stringJSON (err_Message e))]) zero_error = e"
      by (cases e) (simp add: zero_error_def)
  qed (use assms columnD [OF column_string] in \<open>auto simp: fun_eq_iff fieldFor_def field_def\<close>)
qed

lemma column_relation [intro]:
  assumes "validText (rlt_Interface r)"
  shows "column (Suc 0) scanRelation zero_relation (=) (relationJSON r) r"
proof -
  let ?upd = "\<lambda>k x. if k = ''interface'' then x\<lparr>rlt_Interface := rlt_Interface r\<rparr> else x"
  show "column (Suc 0) scanRelation zero_relation (=) (relationJSON r) r"
    unfolding scanRelation_def relationJSON_def
  proof (rule column_struct [where upd = ?upd])
    show "fold ?upd (map fst [(''interface'', stringJSON (rlt_Interface r))]) zero_relation = r"
      by (cases r) (simp add: zero_relation_def)
  qed (use assms columnD [OF column_string] in \<open>auto simp: fun_eq_iff fieldFor_def field_def\<close>)
qed

section \<open>Rows\<close>

text \<open>The scans of the repository: \<open>item\<close> is the row without its JSON columns, which start at their zero values.\<close>

definition scanRelease :: "release \<Rightarrow> bytes \<Rightarrow> bytes \<Rightarrow> release option" where
  "scanRelease item columnBase columnResources =
     Option.bind (scanReleaseBase columnBase) (\<lambda>b.
     Option.bind (unmarshalJSON (decodeSlice zero_ref scanRef) [] columnResources) (\<lambda>refs.
     Some (item\<lparr>rel_Base := b, rel_Resources := refs\<rparr>)))"

definition scanRevision :: "revision \<Rightarrow> bytes \<Rightarrow> bytes \<Rightarrow> bytes \<Rightarrow> revision option" where
  "scanRevision item columnBases columnAttributes columnRelations =
     Option.bind (unmarshalJSON (decodeSlice zero_base scanBase) [] columnBases) (\<lambda>bases.
     Option.bind (unmarshalJSON (decodeGomap [] decodeString) [] columnAttributes) (\<lambda>attributes.
     Option.bind (unmarshalJSON (decodeGomap [] (decodeGomap zero_relation scanRelation)) [] columnRelations) (\<lambda>relations.
     Some (item\<lparr>rev_Bases := bases, rev_Attributes := attributes, rev_Relations := relations\<rparr>))))"

definition scanResourceRevision :: "resource_revision \<Rightarrow> bytes \<Rightarrow> bytes \<Rightarrow> resource_revision option" where
  "scanResourceRevision item columnBases columnArchitectures =
     Option.bind (unmarshalJSON (decodeSlice zero_base scanBase) [] columnBases) (\<lambda>bases.
     Option.bind (unmarshalJSON (decodeSlice [] decodeString) [] columnArchitectures) (\<lambda>architectures.
     Some (item\<lparr>rr_Bases := bases, rr_Architectures := architectures\<rparr>)))"

definition scanToken :: "store_token \<Rightarrow> bytes \<Rightarrow> bytes \<Rightarrow> bytes \<Rightarrow> store_token option" where
  "scanToken item columnPackages columnChannels columnPermissions =
     Option.bind (unmarshalJSON (decodeSlice zero_selector scanSelector) [] columnPackages) (\<lambda>packages.
     Option.bind (unmarshalJSON (decodeSlice [] decodeString) [] columnChannels) (\<lambda>channels.
     Option.bind (unmarshalJSON (decodeSlice [] decodeString) [] columnPermissions) (\<lambda>permissions.
     Some (item\<lparr>tok_Packages := packages, tok_Channels := channels, tok_Permissions := permissions\<rparr>))))"

definition scanUpload :: "upload \<Rightarrow> bytes \<Rightarrow> upload option" where
  "scanUpload item columnErrors =
     Option.bind (unmarshalJSON (decodeSlice zero_error scanError) [] columnErrors) (\<lambda>errs.
     Some (item\<lparr>upl_Errors := errs\<rparr>))"

text \<open>The links and the media of a package.\<close>

definition scanPackageLinks :: "package \<Rightarrow> bytes \<Rightarrow> bytes \<Rightarrow> package option" where
  "scanPackageLinks item columnLinks columnMedia =
     Option.bind (unmarshalJSON (decodeGomap [] (decodeSlice [] decodeString)) [] columnLinks) (\<lambda>links.
     Option.bind (unmarshalJSON (decodeSlice zero_media scanMedia) [] columnMedia) (\<lambda>media.
     Some (item\<lparr>pkg_Links := links, pkg_Media := media\<rparr>)))"

text \<open>Texts that the columns can hold: valid UTF-8 without zero bytes, and 64-bit numbers.\<close>

definition validMap :: "('a \<Rightarrow> bool) \<Rightarrow> (string, 'a) gomap \<Rightarrow> bool" where
  "validMap P m \<longleftrightarrow> distinct (map fst m) \<and> list_all (\<lambda>(k, x). validText k \<and> P x) m"

definition validRelease :: "release \<Rightarrow> bool" where
  "validRelease rl \<longleftrightarrow> pred_option validBase (rel_Base rl) \<and> list_all validRef (rel_Resources rl)"

definition validRevision :: "revision \<Rightarrow> bool" where
  "validRevision rv \<longleftrightarrow> list_all validBase (rev_Bases rv) \<and> validMap validText (rev_Attributes rv)
     \<and> validMap (validMap (\<lambda>r. validText (rlt_Interface r))) (rev_Relations rv)"

definition validToken :: "store_token \<Rightarrow> bool" where
  "validToken tok \<longleftrightarrow> list_all validSelector (tok_Packages tok) \<and> list_all validText (tok_Channels tok)
     \<and> list_all validText (tok_Permissions tok)"

definition validPackage :: "package \<Rightarrow> bool" where
  "validPackage p \<longleftrightarrow> validMap (list_all validText) (pkg_Links p)
     \<and> list_all (\<lambda>m. validText (med_Type m) \<and> validText (med_URL m)) (pkg_Media p)"

lemma slice_stored:
  assumes "jsonb server" and "list_all (\<lambda>x. column k d zero (=) (enc x) x) xs" and "k < 10000"
  shows "unmarshalJSON (decodeSlice zero d) [] (server (mustJSON (sliceJSON n enc xs))) = Some xs"
  using unmarshal_column [OF assms(1) column_slice, of xs k d zero enc n] assms(2,3)
  by (simp add: list_all_iff maxNestingDepth_def decodeSlice_def)

lemma map_stored:
  assumes "jsonb server" and "distinct (map fst m)"
    and "list_all (\<lambda>(key, x). validText key \<and> column k d zero R (enc x) x) m" and "k < 10000"
  shows "\<exists>m'. unmarshalJSON (decodeGomap zero d) [] (server (mustJSON (mapJSON n sh enc m))) = Some m' \<and> relMap R m m'"
  using assms(2-4)
  by (intro unmarshal_column [OF assms(1) column_map, of _ k]) (auto simp: list_all_iff maxNestingDepth_def decodeGomap_def decodeMap_def)

lemma base_stored:
  assumes server: "jsonb server" and "pred_option validBase b"
  shows "scanReleaseBase (server (mustJSON (ptrJSON baseJSON b))) = Some b"
proof (cases b)
  case None
  then show ?thesis using server by (simp add: ptrJSON_def mustJSON_def scanReleaseBase_def jsonb_def)
next
  case (Some x)
  note c = column_base [of x]
  have x: "validBase x" using assms(2) Some by simp
  have "unmarshalJSON scanBase zero_base (server (mustJSON (baseJSON x))) = Some x"
    using unmarshal_column [OF server c [OF x]] by (simp add: maxNestingDepth_def scanBase_def decodeLoose_def)
  moreover obtain w where w: "parseDocument (server (render (baseJSON x))) = Inr w" "sameJSON (baseJSON x) w"
    using server columnD(1-3) [OF c [OF x]] by (auto simp: jsonb_def maxNestingDepth_def)
  have "parseDocument (render JNull) = Inr JNull" by (rule parseDocument_render) simp_all
  moreover have "w \<noteq> JNull" using w(2) by (auto simp: baseJSON_def elim: sameJSON_objectE)
  moreover have "parseDocument [] \<noteq> Inr w" by (simp add: parseDocument_def scanValue_def scanFrom.simps)
  ultimately show ?thesis using w(1) Some by (auto simp: scanReleaseBase_def ptrJSON_def mustJSON_def)
qed

lemma release_stored:
  assumes "jsonb server" and "validRelease rl"
  shows "scanRelease item (server (mustJSON (ptrJSON baseJSON (rel_Base rl)))) (server (mustJSON (sliceJSON n refJSON (rel_Resources rl))))
    = Some (item\<lparr>rel_Base := rel_Base rl, rel_Resources := rel_Resources rl\<rparr>)"
  using assms base_stored [OF assms(1)] slice_stored [OF assms(1), of 2 scanRef zero_ref refJSON "rel_Resources rl" n]
  by (simp add: scanRelease_def validRelease_def list_all_iff column_ref)

lemma resource_stored:
  assumes "jsonb server" and "list_all validBase (rr_Bases rr)" and "list_all validText (rr_Architectures rr)"
  shows "scanResourceRevision item (server (mustJSON (sliceJSON n baseJSON (rr_Bases rr))))
      (server (mustJSON (sliceJSON n' stringJSON (rr_Architectures rr))))
    = Some (item\<lparr>rr_Bases := rr_Bases rr, rr_Architectures := rr_Architectures rr\<rparr>)"
  using assms slice_stored [OF assms(1), of 2 scanBase zero_base baseJSON "rr_Bases rr" n]
    slice_stored [OF assms(1), of 0 decodeString "[]" stringJSON "rr_Architectures rr" n']
  by (simp add: scanResourceRevision_def list_all_iff column_base column_string)

lemma token_stored:
  assumes "jsonb server" and "validToken tok"
  shows "scanToken item (server (mustJSON (sliceJSON n selectorJSON (tok_Packages tok))))
      (server (mustJSON (sliceJSON n' stringJSON (tok_Channels tok)))) (server (mustJSON (sliceJSON n'' stringJSON (tok_Permissions tok))))
    = Some (item\<lparr>tok_Packages := tok_Packages tok, tok_Channels := tok_Channels tok, tok_Permissions := tok_Permissions tok\<rparr>)"
  using assms slice_stored [OF assms(1), of 1 scanSelector zero_selector selectorJSON "tok_Packages tok" n]
    slice_stored [OF assms(1), of 0 decodeString "[]" stringJSON "tok_Channels tok" n']
    slice_stored [OF assms(1), of 0 decodeString "[]" stringJSON "tok_Permissions tok" n'']
  by (simp add: scanToken_def validToken_def list_all_iff column_selector column_string)

lemma upload_stored:
  assumes "jsonb server" and "list_all (\<lambda>e. validText (err_Code e) \<and> validText (err_Message e)) (upl_Errors u)"
  shows "scanUpload item (server (mustJSON (sliceJSON n errorJSON (upl_Errors u)))) = Some (item\<lparr>upl_Errors := upl_Errors u\<rparr>)"
  using assms slice_stored [OF assms(1), of 1 scanError zero_error errorJSON "upl_Errors u" n]
  by (simp add: scanUpload_def list_all_iff column_error)

lemma revision_stored:
  assumes server: "jsonb server" and rv: "validRevision rv"
  shows "\<exists>attributes relations. scanRevision item (server (mustJSON (sliceJSON n baseJSON (rev_Bases rv))))
      (server (mustJSON (mapJSON n' sh stringJSON (rev_Attributes rv))))
      (server (mustJSON (mapJSON n'' sh' (mapJSON False sh'' relationJSON) (rev_Relations rv))))
    = Some (item\<lparr>rev_Bases := rev_Bases rv, rev_Attributes := attributes, rev_Relations := relations\<rparr>)
    \<and> map_of attributes = map_of (rev_Attributes rv) \<and> relMap (\<lambda>m m'. map_of m = map_of m') (rev_Relations rv) relations"
proof -
  have "unmarshalJSON (decodeSlice zero_base scanBase) [] (server (mustJSON (sliceJSON n baseJSON (rev_Bases rv)))) = Some (rev_Bases rv)"
    using rv by (intro slice_stored [OF server, of 2]) (auto simp: validRevision_def list_all_iff)
  moreover have attribute: "list_all (\<lambda>(key, x). validText key \<and> column 0 decodeString [] (=) (stringJSON x) x) (rev_Attributes rv)"
      "distinct (map fst (rev_Attributes rv))"
    using rv by (auto simp: validRevision_def validMap_def list_all_iff)
  then obtain attributes where "unmarshalJSON (decodeGomap [] decodeString) []
      (server (mustJSON (mapJSON n' sh stringJSON (rev_Attributes rv)))) = Some attributes"
      "map_of attributes = map_of (rev_Attributes rv)"
    using map_stored [OF server attribute(2,1), of n' sh] by auto
  moreover have inner: "column 2 (decodeGomap zero_relation scanRelation) [] (relMap (=)) (mapJSON False sh'' relationJSON m) m"
    if "(k, m) \<in> set (rev_Relations rv)" for k m
    using column_map [of m "Suc 0" scanRelation zero_relation "(=)" relationJSON False sh''] rv that
    by (fastforce simp: validRevision_def validMap_def list_all_iff numeral_2_eq_2)
  have "list_all (\<lambda>(key, m). validText key
      \<and> column 2 (decodeGomap zero_relation scanRelation) [] (relMap (=)) (mapJSON False sh'' relationJSON m) m) (rev_Relations rv)"
      and "distinct (map fst (rev_Relations rv))"
    using rv inner by (auto simp: validRevision_def validMap_def list_all_iff)
  then obtain relations where "unmarshalJSON (decodeGomap [] (decodeGomap zero_relation scanRelation)) []
      (server (mustJSON (mapJSON n'' sh' (mapJSON False sh'' relationJSON) (rev_Relations rv)))) = Some relations"
      "relMap (relMap (=)) (rev_Relations rv) relations"
    using map_stored [OF server, of "rev_Relations rv" 2 "decodeGomap zero_relation scanRelation" "[]" "relMap (=)"
        "mapJSON False sh'' relationJSON" n'' sh'] by auto
  ultimately show ?thesis by (auto simp: scanRevision_def relMap_eq [abs_def])
qed

lemma package_stored:
  assumes server: "jsonb server" and p: "validPackage p"
  shows "\<exists>links. scanPackageLinks item (server (mustJSON (mapJSON n sh (sliceJSON n' stringJSON) (pkg_Links p))))
      (server (mustJSON (sliceJSON n'' mediaJSON (pkg_Media p)))) = Some (item\<lparr>pkg_Links := links, pkg_Media := pkg_Media p\<rparr>)
    \<and> map_of links = map_of (pkg_Links p)"
proof -
  have "unmarshalJSON (decodeSlice zero_media scanMedia) [] (server (mustJSON (sliceJSON n'' mediaJSON (pkg_Media p)))) = Some (pkg_Media p)"
    using p by (intro slice_stored [OF server, of 1]) (auto simp: validPackage_def list_all_iff)
  moreover have inner: "column 1 (decodeSlice [] decodeString) [] (=) (sliceJSON n' stringJSON xs) xs" if "(k, xs) \<in> set (pkg_Links p)" for k xs
    using column_slice [of xs 0 decodeString "[]" stringJSON n'] p that
    by (fastforce simp: validPackage_def validMap_def list_all_iff)
  have "list_all (\<lambda>(key, xs). validText key
      \<and> column 1 (decodeSlice [] decodeString) [] (=) (sliceJSON n' stringJSON xs) xs) (pkg_Links p)" and "distinct (map fst (pkg_Links p))"
    using p inner by (auto simp: validPackage_def validMap_def list_all_iff)
  then obtain links where "unmarshalJSON (decodeGomap [] (decodeSlice [] decodeString)) []
      (server (mustJSON (mapJSON n sh (sliceJSON n' stringJSON) (pkg_Links p)))) = Some links" "map_of links = map_of (pkg_Links p)"
    using map_stored [OF server, of "pkg_Links p" 1 "decodeSlice [] decodeString" "[]" "(=)" "sliceJSON n' stringJSON" n sh] by auto
  ultimately show ?thesis by (auto simp: scanPackageLinks_def)
qed


lemma plain_text: "plainName s \<Longrightarrow> validText s"
  using plainName_zero [of s] validUTF8_plain [of s] by (simp add: validText_def plainName_def list_all_iff)

lemma plain_texts:
  "plainName ''demo''" "plainName ''latest/edge''" "plainName ''package-manage''" "plainName ''img''" "plainName ''ubuntu''"
  "plainName ''22.04''" "plainName ''amd64''" "plainName []"
  by code_simp+


end
