(* ===== verification/Queries.thy ===== *)
theory Queries
  imports Postgres
begin

text \<open>
  The query package that \<^verbatim>\<open>sqlc\<close> generates from \<^verbatim>\<open>internal/repo/queries\<close> (\<^verbatim>\<open>internal/repo/db\<close>): the structs of its
  rows and parameters with 32-bit revision numbers, and one definition per query over the tables.
\<close>

section \<open>Rows and parameters\<close>

text \<open>The structs that are not already those of the data model: a \<^verbatim>\<open>CreateXParams\<close> has the fields of the row it
inserts.  \<^verbatim>\<open>Account\<close>, \<^verbatim>\<open>StoreToken\<close> and \<^verbatim>\<open>ResourceDefinition\<close> have the fields of the data model, \<^verbatim>\<open>Track\<close>
those of a row of the table.\<close>

type_synonym int32 = "32 word"

record queries_package =
  qp_ID :: string
  qp_Name :: string
  qp_Type :: string
  qp_Private :: bool
  qp_Status :: string
  qp_OwnerAccountID :: string
  qp_Authority :: "string option"
  qp_Contact :: "string option"
  qp_DefaultTrack :: "string option"
  qp_Description :: "string option"
  qp_Summary :: "string option"
  qp_Title :: "string option"
  qp_Website :: "string option"
  qp_Links :: "(string, string list) gomap"
  qp_Media :: "media list"
  qp_TrackGuardrails :: "track_guardrail list"
  qp_CreatedAt :: time
  qp_UpdatedAt :: time

text \<open>\<^verbatim>\<open>GetPackageByIDRow\<close>, \<^verbatim>\<open>GetPackageByNameRow\<close>, \<^verbatim>\<open>ListPackagesForAccountRow\<close>, \<^verbatim>\<open>SearchPackagesRow\<close>\<close>

record package_row = queries_package +
  qp_PubID :: string
  qp_PubUsername :: string
  qp_PubDisplayName :: string
  qp_PubEmail :: string
  qp_PubValidation :: string

record update_package_params =
  up_ID :: string
  up_Private :: bool
  up_Status :: string
  up_Authority :: "string option"
  up_Contact :: "string option"
  up_DefaultTrack :: "string option"
  up_Description :: "string option"
  up_Summary :: "string option"
  up_Title :: "string option"
  up_Website :: "string option"
  up_Links :: "(string, string list) gomap"
  up_Media :: "media list"
  up_TrackGuardrails :: "track_guardrail list"
  up_UpdatedAt :: time

record package_owner_row =
  por_Private :: bool
  por_OwnerAccountID :: string

text \<open>\<^verbatim>\<open>CanViewPackageParams\<close>, \<^verbatim>\<open>CanManagePackageParams\<close>\<close>

record package_access_params =
  pap_PackageID :: string
  pap_PrincipalID :: string
  pap_Column3 :: "string list"

record token_row = store_token +
  tkr_AccID :: string
  tkr_AccSubject :: string
  tkr_AccUsername :: string
  tkr_AccDisplayName :: string
  tkr_AccEmail :: string
  tkr_AccValidation :: string
  tkr_AccCreatedAt :: time

record revoke_store_token_params =
  rst_AccountID :: string
  rst_SessionID :: string
  rst_RevokedBy :: "string option"

record queries_revision =
  qr_ID :: string
  qr_PackageID :: string
  qr_Revision :: int32
  qr_Version :: string
  qr_Status :: string
  qr_CreatedAt :: time
  qr_CreatedBy :: string
  qr_Size :: int
  qr_Sha256 :: string
  qr_Sha384 :: string
  qr_ObjectKey :: string
  qr_MetadataYaml :: string
  qr_ConfigYaml :: string
  qr_ActionsYaml :: string
  qr_BundleYaml :: string
  qr_ReadmeMd :: string
  qr_Bases :: "base list"
  qr_Attributes :: "(string, string) gomap"
  qr_Relations :: "(string, (string, relation) gomap) gomap"
  qr_Subordinate :: bool

record revision_by_number_params =
  rbn_PackageID :: string
  rbn_Revision :: int32

record queries_upload =
  qu_ID :: string
  qu_Filename :: string
  qu_ObjectKey :: string
  qu_Size :: int
  qu_Sha256 :: string
  qu_Sha384 :: string
  qu_Status :: string
  qu_Kind :: string
  qu_CreatedAt :: time
  qu_ApprovedAt :: "time option"
  qu_Revision :: "int32 option"
  qu_Errors :: "api_error list"

record approve_upload_params =
  au_ID :: string
  au_Revision :: "int32 option"
  au_Errors :: "api_error list"
  au_Status :: string

record queries_resource_revision =
  qrr_ID :: string
  qrr_ResourceID :: string
  qrr_Revision :: int32
  qrr_Name :: string
  qrr_Type :: string
  qrr_Description :: string
  qrr_Filename :: string
  qrr_CreatedAt :: time
  qrr_Size :: int
  qrr_Sha256 :: string
  qrr_Sha384 :: string
  qrr_Sha512 :: string
  qrr_Sha3384 :: string
  qrr_ObjectKey :: string
  qrr_Bases :: "base list"
  qrr_Architectures :: "string list"
  qrr_OciImageDigest :: string
  qrr_OciImageBlob :: string

record resource_definition_params =
  rdp_PackageID :: string
  rdp_Name :: string

record resource_revision_params =
  rrp_ResourceID :: string
  rrp_Revision :: int32

record update_resource_revision_params =
  urr_ResourceID :: string
  urr_Revision :: int32
  urr_ID :: string
  urr_Bases :: "base list"
  urr_Architectures :: "string list"
  urr_OciImageDigest :: string
  urr_OciImageBlob :: string

record queries_release =
  ql_ID :: string
  ql_PackageID :: string
  ql_Channel :: string
  ql_Revision :: int32
  ql_Base :: "base option"
  ql_Resources :: "release_ref list"
  ql_WhenCreated :: time
  ql_ExpirationDate :: "time option"
  ql_Progressive :: "float64 option"

record resolve_release_params =
  rrl_PackageID :: string
  rrl_Channel :: string

section \<open>Scans\<close>

text \<open>The destination a row is scanned into, and the row that holds the values of a struct.\<close>

definition narrow :: "int \<Rightarrow> int32" where
  "narrow n = word_of_int n"

definition packageColumns :: "package \<Rightarrow> queries_package" where
  "packageColumns p =
     \<lparr>qp_ID = pkg_ID p, qp_Name = pkg_Name p, qp_Type = pkg_Type p, qp_Private = pkg_Private p, qp_Status = pkg_Status p,
      qp_OwnerAccountID = pkg_OwnerAccountID p, qp_Authority = pkg_Authority p, qp_Contact = pkg_Contact p,
      qp_DefaultTrack = pkg_DefaultTrack p, qp_Description = pkg_Description p, qp_Summary = pkg_Summary p,
      qp_Title = pkg_Title p, qp_Website = pkg_Website p, qp_Links = pkg_Links p, qp_Media = pkg_Media p,
      qp_TrackGuardrails = pkg_TrackGuardrails p, qp_CreatedAt = pkg_CreatedAt p, qp_UpdatedAt = pkg_UpdatedAt p\<rparr>"

definition packageOf :: "'a queries_package_scheme \<Rightarrow> package" where
  "packageOf q =
     \<lparr>pkg_ID = qp_ID q, pkg_Name = qp_Name q, pkg_Type = qp_Type q, pkg_Private = qp_Private q, pkg_Status = qp_Status q,
      pkg_OwnerAccountID = qp_OwnerAccountID q, pkg_Authority = qp_Authority q, pkg_Contact = qp_Contact q,
      pkg_DefaultTrack = qp_DefaultTrack q, pkg_Description = qp_Description q, pkg_Summary = qp_Summary q,
      pkg_Title = qp_Title q, pkg_Website = qp_Website q, pkg_Links = qp_Links q, pkg_Media = qp_Media q,
      pkg_TrackGuardrails = qp_TrackGuardrails q, pkg_Tracks = [], pkg_Publisher = zero_publisher, pkg_Store = [],
      pkg_CreatedAt = qp_CreatedAt q, pkg_UpdatedAt = qp_UpdatedAt q\<rparr>"

definition scanPackageRow :: "package \<Rightarrow> account \<Rightarrow> package_row" where
  "scanPackageRow p a = queries_package.extend (packageColumns p)
     (package_row.fields (acc_ID a) (acc_Username a) (acc_DisplayName a) (acc_Email a) (acc_Validation a))"

definition scanTokenRow :: "store_token \<Rightarrow> account \<Rightarrow> token_row" where
  "scanTokenRow t a = store_token.extend t
     (token_row.fields (acc_ID a) (acc_Subject a) (acc_Username a) (acc_DisplayName a) (acc_Email a) (acc_Validation a)
       (acc_CreatedAt a))"

definition revisionColumns :: "revision \<Rightarrow> queries_revision" where
  "revisionColumns r =
     \<lparr>qr_ID = rev_ID r, qr_PackageID = rev_PackageID r, qr_Revision = narrow (rev_Revision r), qr_Version = rev_Version r,
      qr_Status = rev_Status r, qr_CreatedAt = rev_CreatedAt r, qr_CreatedBy = rev_CreatedBy r, qr_Size = rev_Size r,
      qr_Sha256 = rev_SHA256 r, qr_Sha384 = rev_SHA384 r, qr_ObjectKey = rev_ObjectKey r,
      qr_MetadataYaml = rev_MetadataYAML r, qr_ConfigYaml = rev_ConfigYAML r, qr_ActionsYaml = rev_ActionsYAML r,
      qr_BundleYaml = rev_BundleYAML r, qr_ReadmeMd = rev_ReadmeMD r, qr_Bases = rev_Bases r,
      qr_Attributes = rev_Attributes r, qr_Relations = rev_Relations r, qr_Subordinate = rev_Subordinate r\<rparr>"

definition revisionOf :: "queries_revision \<Rightarrow> revision" where
  "revisionOf q =
     \<lparr>rev_ID = qr_ID q, rev_PackageID = qr_PackageID q, rev_Revision = sint (qr_Revision q), rev_Version = qr_Version q,
      rev_Status = qr_Status q, rev_CreatedAt = qr_CreatedAt q, rev_CreatedBy = qr_CreatedBy q, rev_Size = qr_Size q,
      rev_SHA256 = qr_Sha256 q, rev_SHA384 = qr_Sha384 q, rev_ObjectKey = qr_ObjectKey q,
      rev_MetadataYAML = qr_MetadataYaml q, rev_ConfigYAML = qr_ConfigYaml q, rev_ActionsYAML = qr_ActionsYaml q,
      rev_BundleYAML = qr_BundleYaml q, rev_ReadmeMD = qr_ReadmeMd q, rev_Bases = qr_Bases q,
      rev_Attributes = qr_Attributes q, rev_Relations = qr_Relations q, rev_Subordinate = qr_Subordinate q,
      rev_Resources = []\<rparr>"

definition uploadColumns :: "upload \<Rightarrow> queries_upload" where
  "uploadColumns u =
     \<lparr>qu_ID = upl_ID u, qu_Filename = upl_Filename u, qu_ObjectKey = upl_ObjectKey u, qu_Size = upl_Size u,
      qu_Sha256 = upl_SHA256 u, qu_Sha384 = upl_SHA384 u, qu_Status = upl_Status u, qu_Kind = upl_Kind u,
      qu_CreatedAt = upl_CreatedAt u, qu_ApprovedAt = upl_ApprovedAt u, qu_Revision = map_option narrow (upl_Revision u),
      qu_Errors = upl_Errors u\<rparr>"

definition uploadOf :: "queries_upload \<Rightarrow> upload" where
  "uploadOf q =
     \<lparr>upl_ID = qu_ID q, upl_Filename = qu_Filename q, upl_ObjectKey = qu_ObjectKey q, upl_Size = qu_Size q,
      upl_SHA256 = qu_Sha256 q, upl_SHA384 = qu_Sha384 q, upl_Status = qu_Status q, upl_Kind = qu_Kind q,
      upl_CreatedAt = qu_CreatedAt q, upl_ApprovedAt = qu_ApprovedAt q, upl_Revision = map_option sint (qu_Revision q),
      upl_Errors = qu_Errors q\<rparr>"

definition resourceColumns :: "resource_revision \<Rightarrow> queries_resource_revision" where
  "resourceColumns r =
     \<lparr>qrr_ID = rr_ID r, qrr_ResourceID = rr_ResourceID r, qrr_Revision = narrow (rr_Revision r), qrr_Name = rr_Name r,
      qrr_Type = rr_Type r, qrr_Description = rr_Description r, qrr_Filename = rr_Filename r,
      qrr_CreatedAt = rr_CreatedAt r, qrr_Size = rr_Size r, qrr_Sha256 = rr_SHA256 r, qrr_Sha384 = rr_SHA384 r,
      qrr_Sha512 = rr_SHA512 r, qrr_Sha3384 = rr_SHA3384 r, qrr_ObjectKey = rr_ObjectKey r, qrr_Bases = rr_Bases r,
      qrr_Architectures = rr_Architectures r, qrr_OciImageDigest = rr_OCIImageDigest r,
      qrr_OciImageBlob = rr_OCIImageBlob r\<rparr>"

definition resourceOf :: "queries_resource_revision \<Rightarrow> resource_revision" where
  "resourceOf q =
     \<lparr>rr_ID = qrr_ID q, rr_ResourceID = qrr_ResourceID q, rr_Name = qrr_Name q, rr_Type = qrr_Type q,
      rr_Description = qrr_Description q, rr_Filename = qrr_Filename q, rr_Revision = sint (qrr_Revision q),
      rr_CreatedAt = qrr_CreatedAt q, rr_Size = qrr_Size q, rr_SHA256 = qrr_Sha256 q, rr_SHA384 = qrr_Sha384 q,
      rr_SHA512 = qrr_Sha512 q, rr_SHA3384 = qrr_Sha3384 q, rr_ObjectKey = qrr_ObjectKey q, rr_Bases = qrr_Bases q,
      rr_Architectures = qrr_Architectures q, rr_OCIImageDigest = qrr_OciImageDigest q,
      rr_OCIImageBlob = qrr_OciImageBlob q, rr_Download = zero_download\<rparr>"

definition releaseColumns :: "release \<Rightarrow> queries_release" where
  "releaseColumns r =
     \<lparr>ql_ID = rel_ID r, ql_PackageID = rel_PackageID r, ql_Channel = rel_Channel r, ql_Revision = narrow (rel_Revision r),
      ql_Base = rel_Base r, ql_Resources = rel_Resources r, ql_WhenCreated = rel_When r,
      ql_ExpirationDate = rel_ExpirationDate r, ql_Progressive = rel_Progressive r\<rparr>"

definition releaseOf :: "queries_release \<Rightarrow> release" where
  "releaseOf q =
     \<lparr>rel_ID = ql_ID q, rel_PackageID = ql_PackageID q, rel_Channel = ql_Channel q, rel_Revision = sint (ql_Revision q),
      rel_Base = ql_Base q, rel_Resources = ql_Resources q, rel_When = ql_WhenCreated q,
      rel_ExpirationDate = ql_ExpirationDate q, rel_Progressive = ql_Progressive q\<rparr>"

text \<open>A query for one row without a row; the number of rows a statement changed.\<close>

definition ErrNoRows :: goerr where
  "ErrNoRows = Errorf ''no rows in result set''"

definition oneRow :: "'a list \<Rightarrow> 'a res" where
  "oneRow rows = (case rows of [] \<Rightarrow> Inl ErrNoRows | r # _ \<Rightarrow> Inr r)"

definition rowsAffected :: "('a \<Rightarrow> bool) \<Rightarrow> 'a list \<Rightarrow> 'd \<Rightarrow> nat res \<times> 'd" where
  "rowsAffected P rows db' = (Inr (length (filter P rows)), db')"

section \<open>Queries on accounts and tokens\<close>

definition Queries_EnsureAccount :: "account \<Rightarrow> database \<Rightarrow> account res \<times> database" where
  "Queries_EnsureAccount arg db =
     (let conflicting = (\<lambda>r. acc_Subject r = acc_Subject arg);
          update = (\<lambda>r. r\<lparr>acc_Username := acc_Username arg, acc_DisplayName := acc_DisplayName arg,
                          acc_Email := acc_Email arg, acc_Validation := acc_Validation arg\<rparr>);
          row = arg\<lparr>acc_CreatedAt := timestamptz (acc_CreatedAt arg)\<rparr> in
      if list_ex conflicting (db_accounts db)
      then (oneRow (map update (filter conflicting (db_accounts db))),
            db\<lparr>db_accounts := updateWhere conflicting update (db_accounts db)\<rparr>)
      else if list_ex (\<lambda>r. acc_ID r = acc_ID arg) (db_accounts db) then (Inl (uniqueViolation ''accounts_pkey''), db)
      else (oneRow [row], db\<lparr>db_accounts := db_accounts db @ [row]\<rparr>))"

definition Queries_GetAccountByID :: "string \<Rightarrow> database \<Rightarrow> account res" where
  "Queries_GetAccountByID i db = oneRow (filter (\<lambda>r. acc_ID r = i) (db_accounts db))"

definition Queries_CreateStoreToken :: "store_token \<Rightarrow> database \<Rightarrow> unit res \<times> database" where
  "Queries_CreateStoreToken arg db =
     (if list_ex (\<lambda>r. tok_SessionID r = tok_SessionID arg) (db_store_tokens db)
      then (Inl (uniqueViolation ''store_tokens_pkey''), db)
      else if list_ex (\<lambda>r. tok_TokenHash r = tok_TokenHash arg) (db_store_tokens db)
      then (Inl (uniqueViolation ''store_tokens_token_hash_key''), db)
      else if \<not> list_ex (\<lambda>a. acc_ID a = tok_AccountID arg) (db_accounts db)
      then (Inl (foreignKeyViolation ''store_tokens'' ''store_tokens_account_id_fkey''), db)
      else (Inr (), db\<lparr>db_store_tokens := db_store_tokens db @ [tokenRow arg]\<rparr>))"

definition Queries_FindStoreTokenByHash :: "string \<Rightarrow> database \<Rightarrow> token_row res" where
  "Queries_FindStoreTokenByHash hash db =
     oneRow [scanTokenRow t a. t \<leftarrow> db_store_tokens db, tok_TokenHash t = hash,
                               a \<leftarrow> db_accounts db, acc_ID a = tok_AccountID t]"

text \<open>\<^verbatim>\<open>NOW()\<close> is a parameter; rows with the same \<^verbatim>\<open>valid_since\<close> come in any order.\<close>

definition Queries_ListActiveStoreTokens :: "time \<Rightarrow> shuffle \<Rightarrow> string \<Rightarrow> database \<Rightarrow> store_token list res" where
  "Queries_ListActiveStoreTokens t sh accountID db =
     Inr (sort_key tok_ValidSince (go_range sh [r \<leftarrow> db_store_tokens db. tok_AccountID r = accountID
       \<and> tok_RevokedAt r = None \<and> timestamptz t < tok_ValidUntil r]))"

definition Queries_ListAllStoreTokens :: "shuffle \<Rightarrow> string \<Rightarrow> database \<Rightarrow> store_token list res" where
  "Queries_ListAllStoreTokens sh accountID db =
     Inr (sort_key tok_ValidSince (go_range sh [r \<leftarrow> db_store_tokens db. tok_AccountID r = accountID]))"

definition Queries_RevokeStoreToken :: "time \<Rightarrow> revoke_store_token_params \<Rightarrow> database \<Rightarrow> nat res \<times> database" where
  "Queries_RevokeStoreToken t arg db =
     (let hit = (\<lambda>r. tok_AccountID r = rst_AccountID arg \<and> tok_SessionID r = rst_SessionID arg) in
      rowsAffected hit (db_store_tokens db)
        (db\<lparr>db_store_tokens := updateWhere hit
           (\<lambda>r. r\<lparr>tok_RevokedAt := Some (timestamptz t), tok_RevokedBy := rst_RevokedBy arg\<rparr>) (db_store_tokens db)\<rparr>))"

section \<open>Queries on packages\<close>

definition Queries_CreatePackage :: "queries_package \<Rightarrow> database \<Rightarrow> unit res \<times> database" where
  "Queries_CreatePackage arg db =
     (if list_ex (\<lambda>r. pkg_ID r = qp_ID arg) (db_packages db) then (Inl (uniqueViolation ''packages_pkey''), db)
      else if list_ex (\<lambda>r. pkg_Name r = qp_Name arg) (db_packages db) then (Inl (uniqueViolation ''packages_name_key''), db)
      else if \<not> list_ex (\<lambda>a. acc_ID a = qp_OwnerAccountID arg) (db_accounts db)
      then (Inl (foreignKeyViolation ''packages'' ''packages_owner_account_id_fkey''), db)
      else (Inr (), db\<lparr>db_packages := db_packages db @ [packageRow (packageOf arg)]\<rparr>))"

definition Queries_UpdatePackage :: "update_package_params \<Rightarrow> database \<Rightarrow> nat res \<times> database" where
  "Queries_UpdatePackage arg db =
     rowsAffected (\<lambda>r. pkg_ID r = up_ID arg) (db_packages db)
       (db\<lparr>db_packages := updateWhere (\<lambda>r. pkg_ID r = up_ID arg)
          (\<lambda>r. r\<lparr>pkg_Private := up_Private arg, pkg_Status := up_Status arg, pkg_Authority := up_Authority arg,
                 pkg_Contact := up_Contact arg, pkg_DefaultTrack := up_DefaultTrack arg,
                 pkg_Description := up_Description arg, pkg_Summary := up_Summary arg, pkg_Title := up_Title arg,
                 pkg_Website := up_Website arg, pkg_Links := up_Links arg, pkg_Media := up_Media arg,
                 pkg_TrackGuardrails := up_TrackGuardrails arg, pkg_UpdatedAt := timestamptz (up_UpdatedAt arg)\<rparr>)
          (db_packages db)\<rparr>)"

text \<open>The statement removes, with the row, the rows that reference it.\<close>

definition Queries_DeletePackage :: "string \<Rightarrow> database \<Rightarrow> nat res \<times> database" where
  "Queries_DeletePackage i db = rowsAffected (\<lambda>r. pkg_ID r = i) (db_packages db)
     (if list_ex (\<lambda>r. pkg_ID r = i) (db_packages db) then cascade i db else db)"

definition Queries_GetPackageByID :: "string \<Rightarrow> database \<Rightarrow> package_row res" where
  "Queries_GetPackageByID i db =
     oneRow [scanPackageRow p a. p \<leftarrow> db_packages db, pkg_ID p = i, a \<leftarrow> db_accounts db, acc_ID a = pkg_OwnerAccountID p]"

definition Queries_GetPackageByName :: "string \<Rightarrow> database \<Rightarrow> package_row res" where
  "Queries_GetPackageByName name db =
     oneRow [scanPackageRow p a. p \<leftarrow> db_packages db, pkg_Name p = name, a \<leftarrow> db_accounts db, acc_ID a = pkg_OwnerAccountID p]"

definition Queries_GetPackageOwner :: "string \<Rightarrow> database \<Rightarrow> package_owner_row res" where
  "Queries_GetPackageOwner i db =
     oneRow [\<lparr>por_Private = pkg_Private p, por_OwnerAccountID = pkg_OwnerAccountID p\<rparr>. p \<leftarrow> db_packages db, pkg_ID p = i]"

definition Queries_ListPackagesForAccount :: "shuffle \<Rightarrow> string \<Rightarrow> database \<Rightarrow> package_row list res" where
  "Queries_ListPackagesForAccount sh ownerAccountID db =
     Inr (go_range sh [scanPackageRow p a. p \<leftarrow> db_packages db, pkg_OwnerAccountID p = ownerAccountID,
                                           a \<leftarrow> db_accounts db, acc_ID a = pkg_OwnerAccountID p])"

text \<open>\<^verbatim>\<open>ORDER BY p.name\<close> is the order of the collation.\<close>

definition Queries_SearchPackages :: "shuffle \<Rightarrow> string \<Rightarrow> database \<Rightarrow> package_row list res" where
  "Queries_SearchPackages sh name db =
     Inr (go_range sh [scanPackageRow p a. p \<leftarrow> db_packages db, ilike (pkg_Name p) name,
                                           a \<leftarrow> db_accounts db, acc_ID a = pkg_OwnerAccountID p])"

definition Queries_CanViewPackage :: "package_access_params \<Rightarrow> database \<Rightarrow> bool res" where
  "Queries_CanViewPackage arg db =
     Inr (list_ex (\<lambda>acl. acl_PackageID acl = pap_PackageID arg \<and> acl_Role acl \<in> set (pap_Column3 arg)
       \<and> (acl_PrincipalType acl = ''account'' \<and> acl_PrincipalID acl = pap_PrincipalID arg
          \<or> list_ex (\<lambda>(gid, aid). acl_PrincipalType acl = ''group'' \<and> acl_PrincipalID acl = gid
                                 \<and> aid = pap_PrincipalID arg) (db_group_members db))) (db_package_acl db))"

definition Queries_CanManagePackage :: "package_access_params \<Rightarrow> database \<Rightarrow> bool res" where
  "Queries_CanManagePackage arg db =
     Inr (list_ex (\<lambda>acl. acl_PackageID acl = pap_PackageID arg \<and> acl_Role acl \<in> set (pap_Column3 arg)
       \<and> (acl_PrincipalType acl = ''account'' \<and> acl_PrincipalID acl = pap_PrincipalID arg
          \<or> list_ex (\<lambda>(gid, aid). acl_PrincipalType acl = ''group'' \<and> acl_PrincipalID acl = gid
                                 \<and> aid = pap_PrincipalID arg) (db_group_members db))) (db_package_acl db))"

section \<open>Queries on tracks\<close>

definition Queries_CreateTrack :: "track_row \<Rightarrow> database \<Rightarrow> nat res \<times> database" where
  "Queries_CreateTrack arg db =
     (if list_ex (\<lambda>r. tr_PackageID r = tr_PackageID arg \<and> trk_Name (tr_Track r) = trk_Name (tr_Track arg)) (db_tracks db)
      then (Inr 0, db)
      else if \<not> list_ex (\<lambda>p. pkg_ID p = tr_PackageID arg) (db_packages db)
      then (Inl (foreignKeyViolation ''tracks'' ''tracks_package_id_fkey''), db)
      else (Inr 1, db\<lparr>db_tracks := db_tracks db @ [arg\<lparr>tr_Track := trackRow (tr_Track arg)\<rparr>]\<rparr>))"

definition Queries_ListTracks :: "shuffle \<Rightarrow> string \<Rightarrow> database \<Rightarrow> track list res" where
  "Queries_ListTracks sh packageID db =
     Inr (sort_key trk_CreatedAt (go_range sh [tr_Track r. r \<leftarrow> db_tracks db, tr_PackageID r = packageID]))"

section \<open>Queries on uploads and revisions\<close>

definition Queries_CreateUpload :: "queries_upload \<Rightarrow> database \<Rightarrow> unit res \<times> database" where
  "Queries_CreateUpload arg db =
     (if list_ex (\<lambda>r. upl_ID r = qu_ID arg) (db_uploads db) then (Inl (uniqueViolation ''uploads_pkey''), db)
      else (Inr (), db\<lparr>db_uploads := db_uploads db @ [uploadRow (uploadOf arg)]\<rparr>))"

definition Queries_GetUpload :: "string \<Rightarrow> database \<Rightarrow> queries_upload res" where
  "Queries_GetUpload i db = oneRow [uploadColumns r. r \<leftarrow> db_uploads db, upl_ID r = i]"

definition Queries_ApproveUpload :: "time \<Rightarrow> approve_upload_params \<Rightarrow> database \<Rightarrow> nat res \<times> database" where
  "Queries_ApproveUpload t arg db =
     rowsAffected (\<lambda>r. upl_ID r = au_ID arg) (db_uploads db)
       (db\<lparr>db_uploads := updateWhere (\<lambda>r. upl_ID r = au_ID arg)
          (\<lambda>r. r\<lparr>upl_ApprovedAt := Some (timestamptz t), upl_Revision := map_option sint (au_Revision arg),
                 upl_Errors := au_Errors arg, upl_Status := au_Status arg\<rparr>) (db_uploads db)\<rparr>)"

definition Queries_CreateRevision :: "queries_revision \<Rightarrow> database \<Rightarrow> unit res \<times> database" where
  "Queries_CreateRevision arg db =
     (if list_ex (\<lambda>r. rev_ID r = qr_ID arg) (db_revisions db) then (Inl (uniqueViolation ''revisions_pkey''), db)
      else if list_ex (\<lambda>r. rev_PackageID r = qr_PackageID arg \<and> rev_Revision r = sint (qr_Revision arg)) (db_revisions db)
      then (Inl (uniqueViolation ''revisions_package_id_revision_key''), db)
      else if \<not> list_ex (\<lambda>p. pkg_ID p = qr_PackageID arg) (db_packages db)
      then (Inl (foreignKeyViolation ''revisions'' ''revisions_package_id_fkey''), db)
      else (Inr (), db\<lparr>db_revisions := db_revisions db @ [revisionRowOf (revisionOf arg)]\<rparr>))"

definition Queries_GetRevisionByNumber :: "revision_by_number_params \<Rightarrow> database \<Rightarrow> queries_revision res" where
  "Queries_GetRevisionByNumber arg db =
     oneRow [revisionColumns r. r \<leftarrow> db_revisions db, rev_PackageID r = rbn_PackageID arg
       \<and> rev_Revision r = sint (rbn_Revision arg)]"

definition Queries_ListRevisions :: "string \<Rightarrow> database \<Rightarrow> queries_revision list res" where
  "Queries_ListRevisions packageID db =
     Inr (map revisionColumns (sort_key (\<lambda>r. - rev_Revision r) [r \<leftarrow> db_revisions db. rev_PackageID r = packageID]))"

section \<open>Queries on resources\<close>

definition Queries_UpsertResourceDefinition ::
    "resource_definition \<Rightarrow> database \<Rightarrow> resource_definition res \<times> database" where
  "Queries_UpsertResourceDefinition arg db =
     (let conflicting = (\<lambda>r. rd_PackageID r = rd_PackageID arg \<and> rd_Name r = rd_Name arg);
          update = (\<lambda>r. r\<lparr>rd_Type := rd_Type arg, rd_Description := rd_Description arg,
                          rd_Filename := rd_Filename arg, rd_Optional := rd_Optional arg\<rparr>) in
      if list_ex conflicting (db_resource_definitions db)
      then (oneRow (map update (filter conflicting (db_resource_definitions db))),
            db\<lparr>db_resource_definitions := updateWhere conflicting update (db_resource_definitions db)\<rparr>)
      else if list_ex (\<lambda>r. rd_ID r = rd_ID arg) (db_resource_definitions db)
      then (Inl (uniqueViolation ''resource_definitions_pkey''), db)
      else if \<not> list_ex (\<lambda>p. pkg_ID p = rd_PackageID arg) (db_packages db)
      then (Inl (foreignKeyViolation ''resource_definitions'' ''resource_definitions_package_id_fkey''), db)
      else (oneRow [definitionRow arg],
            db\<lparr>db_resource_definitions := db_resource_definitions db @ [definitionRow arg]\<rparr>))"

definition Queries_GetResourceDefinition :: "resource_definition_params \<Rightarrow> database \<Rightarrow> resource_definition res" where
  "Queries_GetResourceDefinition arg db =
     oneRow [r \<leftarrow> db_resource_definitions db. rd_PackageID r = rdp_PackageID arg \<and> rd_Name r = rdp_Name arg]"

definition Queries_ListResourceDefinitions :: "shuffle \<Rightarrow> string \<Rightarrow> database \<Rightarrow> resource_definition list res" where
  "Queries_ListResourceDefinitions sh packageID db =
     Inr (go_range sh [r \<leftarrow> db_resource_definitions db. rd_PackageID r = packageID])"

definition Queries_CreateResourceRevision :: "queries_resource_revision \<Rightarrow> database \<Rightarrow> unit res \<times> database" where
  "Queries_CreateResourceRevision arg db =
     (if list_ex (\<lambda>r. rr_ID r = qrr_ID arg) (db_resource_revisions db)
      then (Inl (uniqueViolation ''resource_revisions_pkey''), db)
      else if list_ex (\<lambda>r. rr_ResourceID r = qrr_ResourceID arg \<and> rr_Revision r = sint (qrr_Revision arg))
        (db_resource_revisions db)
      then (Inl (uniqueViolation ''resource_revisions_resource_id_revision_key''), db)
      else if \<not> list_ex (\<lambda>d. rd_ID d = qrr_ResourceID arg) (db_resource_definitions db)
      then (Inl (foreignKeyViolation ''resource_revisions'' ''resource_revisions_resource_id_fkey''), db)
      else (Inr (), db\<lparr>db_resource_revisions := db_resource_revisions db @ [resourceRow (resourceOf arg)]\<rparr>))"

definition Queries_GetResourceRevision :: "resource_revision_params \<Rightarrow> database \<Rightarrow> queries_resource_revision res" where
  "Queries_GetResourceRevision arg db =
     oneRow [resourceColumns r. r \<leftarrow> db_resource_revisions db, rr_ResourceID r = rrp_ResourceID arg
       \<and> rr_Revision r = sint (rrp_Revision arg)]"

definition Queries_ListResourceRevisions :: "string \<Rightarrow> database \<Rightarrow> queries_resource_revision list res" where
  "Queries_ListResourceRevisions resourceID db =
     Inr (map resourceColumns
       (sort_key (\<lambda>r. - rr_Revision r) [r \<leftarrow> db_resource_revisions db. rr_ResourceID r = resourceID]))"

definition Queries_UpdateResourceRevision :: "update_resource_revision_params \<Rightarrow> database \<Rightarrow> nat res \<times> database" where
  "Queries_UpdateResourceRevision arg db =
     (let hit = (\<lambda>r. rr_ResourceID r = urr_ResourceID arg \<and> rr_Revision r = sint (urr_Revision arg) \<and> rr_ID r = urr_ID arg) in
      rowsAffected hit (db_resource_revisions db)
        (db\<lparr>db_resource_revisions := updateWhere hit
           (\<lambda>r. r\<lparr>rr_Bases := urr_Bases arg, rr_Architectures := urr_Architectures arg,
                  rr_OCIImageDigest := urr_OciImageDigest arg, rr_OCIImageBlob := urr_OciImageBlob arg\<rparr>)
           (db_resource_revisions db)\<rparr>))"

section \<open>Queries on releases\<close>

definition Queries_ReplaceRelease :: "queries_release \<Rightarrow> database \<Rightarrow> unit res \<times> database" where
  "Queries_ReplaceRelease arg db =
     (let excluded = releaseRowOf (ql_PackageID arg) (releaseOf arg);
          conflicting = (\<lambda>r. rel_PackageID r = ql_PackageID arg \<and> rel_Channel r = ql_Channel arg) in
      if list_ex conflicting (db_releases db)
      then (Inr (), db\<lparr>db_releases := updateWhere conflicting
              (\<lambda>r. excluded\<lparr>rel_ID := rel_ID r, rel_PackageID := rel_PackageID r, rel_Channel := rel_Channel r\<rparr>)
              (db_releases db)\<rparr>)
      else if list_ex (\<lambda>r. rel_ID r = ql_ID arg) (db_releases db) then (Inl (uniqueViolation ''releases_pkey''), db)
      else if \<not> list_ex (\<lambda>p. pkg_ID p = ql_PackageID arg) (db_packages db)
      then (Inl (foreignKeyViolation ''releases'' ''releases_package_id_fkey''), db)
      else (Inr (), db\<lparr>db_releases := db_releases db @ [excluded]\<rparr>))"

text \<open>\<^verbatim>\<open>ORDER BY channel\<close> is the order of the collation.\<close>

definition Queries_ListReleases :: "shuffle \<Rightarrow> string \<Rightarrow> database \<Rightarrow> queries_release list res" where
  "Queries_ListReleases sh packageID db =
     Inr (go_range sh [releaseColumns r. r \<leftarrow> db_releases db, rel_PackageID r = packageID])"

definition Queries_ResolveRelease :: "resolve_release_params \<Rightarrow> database \<Rightarrow> queries_release res" where
  "Queries_ResolveRelease arg db =
     oneRow [releaseColumns r. r \<leftarrow> db_releases db, rel_PackageID r = rrl_PackageID arg \<and> rel_Channel r = rrl_Channel arg]"

definition Queries_ResolveDefaultRelease :: "string \<Rightarrow> database \<Rightarrow> queries_release res" where
  "Queries_ResolveDefaultRelease i db =
     oneRow (map releaseColumns (sort_key (\<lambda>r. - rel_When r)
       [r. p \<leftarrow> db_packages db, pkg_ID p = i, r \<leftarrow> db_releases db, rel_PackageID r = pkg_ID p \<and>
           (case pkg_DefaultTrack p of Some track \<Rightarrow> rel_Channel r = track @ ''/stable''
            | None \<Rightarrow> rel_Channel r = ''latest/stable'')]))"

definition Queries_ResolveLatestRelease :: "shuffle \<Rightarrow> string \<Rightarrow> database \<Rightarrow> queries_release res" where
  "Queries_ResolveLatestRelease sh packageID db =
     oneRow (map releaseColumns (sort_key (\<lambda>r. - rel_When r)
       (go_range sh [r \<leftarrow> db_releases db. rel_PackageID r = packageID])))"

end
