(* ===== verification/QueryRepository.thy ===== *)
theory QueryRepository
  imports Queries PostgresRequests
begin

text \<open>
  The interface \<^verbatim>\<open>repo.Repository\<close> written on the generated queries, and the proof that in every state the program
  reaches it is the hand-written repository.
\<close>

section \<open>The repository on the generated queries\<close>

text \<open>What the methods of \<^verbatim>\<open>repo.Repository\<close> add to a query: no row, or no changed row, is \<^verbatim>\<open>ErrNotFound\<close>; a number
that does not fit the 32 bits of a parameter is refused as the driver refuses it; the row becomes a value of the
data model.\<close>

definition notFound :: "('q \<Rightarrow> 'a) \<Rightarrow> 'q res \<Rightarrow> 'a res" where
  "notFound f r = (case r of Inl e \<Rightarrow> Inl (if e = ErrNoRows then ErrNotFound else e) | Inr q \<Rightarrow> Inr (f q))"

definition noneChanged :: "nat res \<times> database \<Rightarrow> unit res \<times> database" where
  "noneChanged r = st_bind r (\<lambda>n db. (if n = 0 then Inl ErrNotFound else Inr (), db))"

definition fitting :: "int \<Rightarrow> database \<Rightarrow> 'a res \<times> database \<Rightarrow> 'a res \<times> database" where
  "fitting n db r = (if int4 n then r else (Inl (int4Error n), db))"

definition packageOfRow :: "package_row \<Rightarrow> package" where
  "packageOfRow q = (packageOf q)\<lparr>pkg_Publisher :=
     \<lparr>pub_ID = qp_PubID q, pub_Username = qp_PubUsername q, pub_DisplayName = qp_PubDisplayName q,
      pub_Email = qp_PubEmail q, pub_Validation = qp_PubValidation q\<rparr>\<rparr>"

definition tokenOfRow :: "token_row \<Rightarrow> store_token \<times> account" where
  "tokenOfRow q = (store_token.truncate q,
     \<lparr>acc_ID = tkr_AccID q, acc_Subject = tkr_AccSubject q, acc_Username = tkr_AccUsername q,
      acc_DisplayName = tkr_AccDisplayName q, acc_Email = tkr_AccEmail q, acc_Validation = tkr_AccValidation q,
      acc_CreatedAt = tkr_AccCreatedAt q\<rparr>)"

definition updateParams :: "package \<Rightarrow> update_package_params" where
  "updateParams p =
     \<lparr>up_ID = pkg_ID p, up_Private = pkg_Private p, up_Status = pkg_Status p, up_Authority = pkg_Authority p,
      up_Contact = pkg_Contact p, up_DefaultTrack = pkg_DefaultTrack p, up_Description = pkg_Description p,
      up_Summary = pkg_Summary p, up_Title = pkg_Title p, up_Website = pkg_Website p, up_Links = pkg_Links p,
      up_Media = pkg_Media p, up_TrackGuardrails = pkg_TrackGuardrails p, up_UpdatedAt = pkg_UpdatedAt p\<rparr>"

definition updateResourceParams :: "resource_revision \<Rightarrow> update_resource_revision_params" where
  "updateResourceParams r =
     \<lparr>urr_ResourceID = rr_ResourceID r, urr_Revision = narrow (rr_Revision r), urr_ID = rr_ID r, urr_Bases = rr_Bases r,
      urr_Architectures = rr_Architectures r, urr_OciImageDigest = rr_OCIImageDigest r,
      urr_OciImageBlob = rr_OCIImageBlob r\<rparr>"

definition queriesAccess ::
    "(package_access_params \<Rightarrow> database \<Rightarrow> bool res) \<Rightarrow> bool \<Rightarrow> string list \<Rightarrow> string \<Rightarrow> string \<Rightarrow> database \<Rightarrow> bool res" where
  "queriesAccess granted public roles packageID accountID db =
     res_bind (notFound (\<lambda>q. q) (Queries_GetPackageOwner packageID db)) (\<lambda>row.
     if public \<and> \<not> por_Private row then Inr True
     else if accountID = [] then Inr False
     else if por_OwnerAccountID row = accountID then Inr True
     else granted \<lparr>pap_PackageID = packageID, pap_PrincipalID = accountID, pap_Column3 = roles\<rparr> db)"

fun createEach :: "string \<Rightarrow> nat \<Rightarrow> track list \<Rightarrow> database \<Rightarrow> nat res \<times> database" where
  "createEach packageID created [] db = (Inr created, db)"
| "createEach packageID created (t # ts) db =
     st_bind (Queries_CreateTrack \<lparr>tr_PackageID = packageID, tr_Track = t\<rparr> db)
       (\<lambda>n db1. createEach packageID (created + n) ts db1)"

text \<open>No generated query lists the packages of the collaborations; that method keeps the statement of the
hand-written one.\<close>

definition queries_repo :: "database repository" where
  "queries_repo =
     \<lparr>EnsureAccount = \<lambda>t account. Queries_EnsureAccount account,
      GetAccountByID = \<lambda>i db. notFound (\<lambda>a. a) (Queries_GetAccountByID i db),
      CreateStoreToken = Queries_CreateStoreToken,
      ListStoreTokens = \<lambda>clk sh i inactive db.
        if inactive then Queries_ListAllStoreTokens sh i db else Queries_ListActiveStoreTokens (clk 0) sh i db,
      RevokeStoreToken = \<lambda>t sh i sid who db.
        noneChanged (Queries_RevokeStoreToken t \<lparr>rst_AccountID = i, rst_SessionID = sid, rst_RevokedBy = Some who\<rparr> db),
      FindStoreTokenByHash = \<lambda>hash db. notFound tokenOfRow (Queries_FindStoreTokenByHash hash db),
      CreatePackage = \<lambda>p db. map_err_st (\<lambda>err. if containsStr (errText err) ''duplicate key''
        then ErrConflict ''package already exists: conflict'' else err) (Queries_CreatePackage (packageColumns p) db),
      UpdatePackage = \<lambda>p db. noneChanged (Queries_UpdatePackage (updateParams p) db),
      DeletePackage = \<lambda>i db. noneChanged (Queries_DeletePackage i db),
      GetPackageByName = \<lambda>name db. notFound packageOfRow (Queries_GetPackageByName name db),
      GetPackageByID = \<lambda>i db. notFound packageOfRow (Queries_GetPackageByID i db),
      ListPackagesForAccount = \<lambda>sh i collaborations db.
        if collaborations then Postgres_ListPackagesForAccount sh i True db
        else notFound (map packageOfRow) (Queries_ListPackagesForAccount sh i db),
      SearchPackages = \<lambda>sh q db. notFound (map packageOfRow) (Queries_SearchPackages sh (searchPattern q) db),
      CanViewPackage = queriesAccess Queries_CanViewPackage True [''viewer'', ''editor'', ''owner''],
      CanManagePackage = queriesAccess Queries_CanManagePackage False [''editor'', ''owner''],
      CreateTracks = \<lambda>i. createEach i 0,
      ListTracks = Queries_ListTracks,
      CreateUpload = \<lambda>u db. (case upl_Revision u of None \<Rightarrow> Queries_CreateUpload (uploadColumns u) db
        | Some n \<Rightarrow> fitting n db (Queries_CreateUpload (uploadColumns u) db)),
      GetUpload = \<lambda>i db. notFound uploadOf (Queries_GetUpload i db),
      ApproveUpload = \<lambda>t i revision errs db.
        (let call = noneChanged (Queries_ApproveUpload t \<lparr>au_ID = i, au_Revision = map_option narrow revision,
           au_Errors = errs, au_Status = (if errs \<noteq> [] then ''rejected'' else ''approved'')\<rparr> db) in
         case revision of None \<Rightarrow> call | Some n \<Rightarrow> fitting n db call),
      CreateRevision = \<lambda>r db. fitting (rev_Revision r) db (Queries_CreateRevision (revisionColumns r) db),
      ListRevisions = \<lambda>i revision db.
        (case revision of None \<Rightarrow> notFound (map revisionOf) (Queries_ListRevisions i db)
         | Some n \<Rightarrow> if int4 n then notFound (map revisionOf \<circ> filter (\<lambda>r. qr_Revision r = narrow n)) (Queries_ListRevisions i db)
                     else Inl (int4Error n)),
      GetRevisionByNumber = \<lambda>i n db.
        if int4 n then notFound revisionOf (Queries_GetRevisionByNumber \<lparr>rbn_PackageID = i, rbn_Revision = narrow n\<rparr> db)
        else Inl (int4Error n),
      GetLatestRevision = \<lambda>i db. res_bind (Queries_ListRevisions i db) (\<lambda>rows. notFound revisionOf (oneRow rows)),
      UpsertResourceDefinition = Queries_UpsertResourceDefinition,
      GetResourceDefinition = \<lambda>i name db.
        notFound (\<lambda>d. d) (Queries_GetResourceDefinition \<lparr>rdp_PackageID = i, rdp_Name = name\<rparr> db),
      ListResourceDefinitions = Queries_ListResourceDefinitions,
      CreateResourceRevision = \<lambda>r db. fitting (rr_Revision r) db (Queries_CreateResourceRevision (resourceColumns r) db),
      UpdateResourceRevision = \<lambda>r db.
        fitting (rr_Revision r) db (noneChanged (Queries_UpdateResourceRevision (updateResourceParams r) db)),
      ListResourceRevisions = \<lambda>i db. notFound (map resourceOf) (Queries_ListResourceRevisions i db),
      GetResourceRevision = \<lambda>i n db.
        if int4 n then notFound resourceOf (Queries_GetResourceRevision \<lparr>rrp_ResourceID = i, rrp_Revision = narrow n\<rparr> db)
        else Inl ErrNotFound,
      ReplaceRelease = \<lambda>i r db.
        fitting (rel_Revision r) db (Queries_ReplaceRelease (releaseColumns (r\<lparr>rel_PackageID := i\<rparr>)) db),
      ListReleases = \<lambda>sh i db. notFound (map releaseOf) (Queries_ListReleases sh i db),
      ResolveRelease = \<lambda>i channel db.
        notFound releaseOf (Queries_ResolveRelease \<lparr>rrl_PackageID = i, rrl_Channel = channel\<rparr> db),
      ResolveDefaultRelease = \<lambda>sh i db. notFound releaseOf
        (case Queries_ResolveDefaultRelease i db of Inr q \<Rightarrow> Inr q
         | Inl e \<Rightarrow> if e = ErrNoRows then Queries_ResolveLatestRelease sh i db else Inl e)\<rparr>"

section \<open>The two repositories\<close>

text \<open>Every row holds what the struct it is scanned into can hold: the numbers fit 32 bits, and the fields of the data
model that have no column are at their zero values.\<close>

definition rowsFit :: "database \<Rightarrow> bool" where
  "rowsFit db \<longleftrightarrow> list_all (\<lambda>p. packageOf (packageColumns p) = p) (db_packages db)
     \<and> list_all (\<lambda>u. uploadOf (uploadColumns u) = u) (db_uploads db)
     \<and> list_all (\<lambda>r. revisionOf (revisionColumns r) = r) (db_revisions db)
     \<and> list_all (\<lambda>r. resourceOf (resourceColumns r) = r) (db_resource_revisions db)
     \<and> list_all (\<lambda>r. releaseOf (releaseColumns r) = r) (db_releases db)"

text \<open>Every method of the interface gives the same result and leaves the same state.\<close>

definition agreeOn :: "'s repository \<Rightarrow> 's repository \<Rightarrow> 's \<Rightarrow> bool" where
  "agreeOn R R' s \<longleftrightarrow>
     (\<forall>t a. EnsureAccount R t a s = EnsureAccount R' t a s)
     \<and> (\<forall>i. GetAccountByID R i s = GetAccountByID R' i s)
     \<and> (\<forall>tok. CreateStoreToken R tok s = CreateStoreToken R' tok s)
     \<and> (\<forall>clk sh i f. ListStoreTokens R clk sh i f s = ListStoreTokens R' clk sh i f s)
     \<and> (\<forall>t sh i sid who. RevokeStoreToken R t sh i sid who s = RevokeStoreToken R' t sh i sid who s)
     \<and> (\<forall>h. FindStoreTokenByHash R h s = FindStoreTokenByHash R' h s)
     \<and> (\<forall>p. CreatePackage R p s = CreatePackage R' p s)
     \<and> (\<forall>p. UpdatePackage R p s = UpdatePackage R' p s)
     \<and> (\<forall>i. DeletePackage R i s = DeletePackage R' i s)
     \<and> (\<forall>name. GetPackageByName R name s = GetPackageByName R' name s)
     \<and> (\<forall>i. GetPackageByID R i s = GetPackageByID R' i s)
     \<and> (\<forall>sh i f. ListPackagesForAccount R sh i f s = ListPackagesForAccount R' sh i f s)
     \<and> (\<forall>sh q. SearchPackages R sh q s = SearchPackages R' sh q s)
     \<and> (\<forall>i a. CanViewPackage R i a s = CanViewPackage R' i a s)
     \<and> (\<forall>i a. CanManagePackage R i a s = CanManagePackage R' i a s)
     \<and> (\<forall>i ts. CreateTracks R i ts s = CreateTracks R' i ts s)
     \<and> (\<forall>sh i. ListTracks R sh i s = ListTracks R' sh i s)
     \<and> (\<forall>u. CreateUpload R u s = CreateUpload R' u s)
     \<and> (\<forall>i. GetUpload R i s = GetUpload R' i s)
     \<and> (\<forall>t i n errs. ApproveUpload R t i n errs s = ApproveUpload R' t i n errs s)
     \<and> (\<forall>r. CreateRevision R r s = CreateRevision R' r s)
     \<and> (\<forall>i n. ListRevisions R i n s = ListRevisions R' i n s)
     \<and> (\<forall>i n. GetRevisionByNumber R i n s = GetRevisionByNumber R' i n s)
     \<and> (\<forall>i. GetLatestRevision R i s = GetLatestRevision R' i s)
     \<and> (\<forall>d. UpsertResourceDefinition R d s = UpsertResourceDefinition R' d s)
     \<and> (\<forall>i name. GetResourceDefinition R i name s = GetResourceDefinition R' i name s)
     \<and> (\<forall>sh i. ListResourceDefinitions R sh i s = ListResourceDefinitions R' sh i s)
     \<and> (\<forall>r. CreateResourceRevision R r s = CreateResourceRevision R' r s)
     \<and> (\<forall>r. UpdateResourceRevision R r s = UpdateResourceRevision R' r s)
     \<and> (\<forall>i. ListResourceRevisions R i s = ListResourceRevisions R' i s)
     \<and> (\<forall>i n. GetResourceRevision R i n s = GetResourceRevision R' i n s)
     \<and> (\<forall>i r. ReplaceRelease R i r s = ReplaceRelease R' i r s)
     \<and> (\<forall>sh i. ListReleases R sh i s = ListReleases R' sh i s)
     \<and> (\<forall>i ch. ResolveRelease R i ch s = ResolveRelease R' i ch s)
     \<and> (\<forall>sh i. ResolveDefaultRelease R sh i s = ResolveDefaultRelease R' sh i s)"

section \<open>Lemmas\<close>

lemma sint_narrow [simp]: "int4 n \<Longrightarrow> sint (narrow n) = n"
  unfolding narrow_def int4_def by transfer (simp add: signed_take_bit_int_eq_self)

lemma int4_sint [simp]: "int4 (sint (w :: int32))"
  using sint_ge [of w] sint_lt [of w] by (simp add: int4_def)

lemma sint_narrow_iff: "sint (narrow n) = n \<longleftrightarrow> int4 n"
  using int4_sint [of "narrow n"] sint_narrow [of n] by metis

lemma narrow_eq_iff [simp]: "int4 m \<Longrightarrow> int4 n \<Longrightarrow> narrow m = narrow n \<longleftrightarrow> m = n"
  using sint_narrow by metis

lemma package_columns: "packageOf (packageColumns p) = p \<longleftrightarrow>
    pkg_Tracks p = [] \<and> pkg_Publisher p = zero_publisher \<and> pkg_Store p = []"
  by (cases p) (auto simp: packageOf_def packageColumns_def)

lemma upload_columns: "uploadOf (uploadColumns u) = u \<longleftrightarrow> pred_option int4 (upl_Revision u)"
  by (cases u; cases "upl_Revision u") (auto simp: uploadOf_def uploadColumns_def sint_narrow_iff)

lemma revision_columns: "revisionOf (revisionColumns r) = r \<longleftrightarrow> int4 (rev_Revision r) \<and> rev_Resources r = []"
  by (cases r) (auto simp: revisionOf_def revisionColumns_def sint_narrow_iff)

lemma resource_columns: "resourceOf (resourceColumns r) = r \<longleftrightarrow> int4 (rr_Revision r) \<and> rr_Download r = zero_download"
  by (cases r) (auto simp: resourceOf_def resourceColumns_def sint_narrow_iff)

lemma release_columns: "releaseOf (releaseColumns r) = r \<longleftrightarrow> int4 (rel_Revision r)"
  by (cases r) (auto simp: releaseOf_def releaseColumns_def sint_narrow_iff)

lemmas columns = package_columns upload_columns revision_columns resource_columns release_columns

text \<open>What an \<^verbatim>\<open>INSERT\<close> stores of a value does not depend on the struct it came in.\<close>

lemma stored_rows [simp]:
  "packageRow (packageOf (packageColumns p)) = packageRow p"
  "pred_option int4 (upl_Revision u) \<Longrightarrow> uploadRow (uploadOf (uploadColumns u)) = uploadRow u"
  "int4 (rev_Revision r) \<Longrightarrow> revisionRowOf (revisionOf (revisionColumns r)) = revisionRowOf r"
  "int4 (rr_Revision x) \<Longrightarrow> resourceRow (resourceOf (resourceColumns x)) = resourceRow x"
  "int4 (rel_Revision l) \<Longrightarrow> releaseOf (releaseColumns l) = l"
  by (simp_all only: upload_columns [THEN iffD2])
    (simp_all add: packageRow_def packageOf_def packageColumns_def revisionRowOf_def revisionOf_def
      revisionColumns_def resourceRow_def resourceOf_def resourceColumns_def release_columns)

lemma go_range_map: "go_range sh (map f xs) = map f (go_range sh xs)"
proof (cases "mset (sh (length xs)) = mset [0..<length xs]")
  case True
  then have "set (sh (length xs)) = {..<length xs}" by (metis atLeast_upt set_mset_mset)
  then show ?thesis by (auto simp: go_range_def)
qed (simp add: go_range_def)

lemma find_filter: "find P xs = (case filter P xs of [] \<Rightarrow> None | x # _ \<Rightarrow> Some x)"
  by (induction xs) simp_all

lemma notFound_oneRow: "notFound f (oneRow rows) = queryRow (map f rows)"
  by (simp add: notFound_def oneRow_def ErrNoRows_def split: list.split)

lemma notFound_Inr [simp]: "notFound f (Inr q) = Inr (f q)"
  by (simp add: notFound_def)

lemma noneChanged_rows: "noneChanged (rowsAffected P rows db') = (if \<exists>r \<in> set rows. P r then (Inr (), db') else (Inl ErrNotFound, db'))"
  by (auto simp: noneChanged_def rowsAffected_def st_bind_def filter_empty_conv)

lemma updateWhere_none: "\<not> (\<exists>r \<in> set rows. P r) \<Longrightarrow> updateWhere P f rows = rows"
  by (auto simp: updateWhere_def intro: map_idI)

lemma join_filter: "[f x y. x \<leftarrow> xs, P x, y \<leftarrow> ys, Q x y] = concat (map (\<lambda>x. map (f x) (filter (Q x) ys)) (filter P xs))"
proof -
  have inner: "concat (map (\<lambda>y. if Q x y then [f x y] else []) ys) = map (f x) (filter (Q x) ys)" for x
    by (induction ys) simp_all
  show ?thesis by (induction xs) (simp_all add: inner)
qed

lemma select_filter: "[f x. x \<leftarrow> xs, P x] = map f (filter P xs)"
  by (induction xs) simp_all

lemma packageOfRow_scan: "packageOf (packageColumns p) = p \<Longrightarrow> packageOfRow (scanPackageRow p a) = scanPackage p a"
  by (cases p) (simp add: packageOfRow_def scanPackageRow_def scanPackage_def package_columns packageOf_def packageColumns_def
      queries_package.defs package_row.defs)

lemma tokenOfRow_scan: "tokenOfRow (scanTokenRow t a) = (t, a)"
  by (cases t; cases a) (simp add: tokenOfRow_def scanTokenRow_def store_token.defs token_row.defs)

section \<open>Method by method\<close>

lemma list_ex_filter: "list_ex P xs \<longleftrightarrow> filter P xs \<noteq> []"
  by (induction xs) simp_all

lemma not_unused: "(\<not> unused key k rows) = list_ex (\<lambda>r. key r = k) rows"
  by (auto simp: unused_def list_all_iff list_ex_iff)

lemma not_unused_pair: "(\<not> unused (\<lambda>r. (f r, g r)) (a, b) rows) = list_ex (\<lambda>r. f r = a \<and> g r = b) rows"
  by (simp add: not_unused)

lemmas inserts = insertUnless_def checks.simps references_def

lemma same_accounts:
  "Queries_EnsureAccount a db = Postgres_EnsureAccount t a db"
  "notFound (\<lambda>x. x) (Queries_GetAccountByID i db) = Postgres_GetAccountByID i db"
proof -
  show "Queries_EnsureAccount a db = Postgres_EnsureAccount t a db"
    by (cases "filter (\<lambda>r. acc_Subject r = acc_Subject a) (db_accounts db)")
      (auto simp: Queries_EnsureAccount_def Postgres_EnsureAccount_def list_ex_filter [of "\<lambda>r. acc_Subject r = acc_Subject a"]
        inserts Let_def oneRow_def st_bind_def not_unused [symmetric])
  show "notFound (\<lambda>x. x) (Queries_GetAccountByID i db) = Postgres_GetAccountByID i db"
    by (simp add: Queries_GetAccountByID_def Postgres_GetAccountByID_def notFound_oneRow)
qed

lemma same_tokens:
  "Queries_CreateStoreToken tok db = Postgres_CreateStoreToken tok db"
  "(if inactive then Queries_ListAllStoreTokens sh i db else Queries_ListActiveStoreTokens (clk 0) sh i db)
     = Postgres_ListStoreTokens clk sh i inactive db"
  "noneChanged (Queries_RevokeStoreToken t \<lparr>rst_AccountID = i, rst_SessionID = sid, rst_RevokedBy = Some who\<rparr> db)
     = Postgres_RevokeStoreToken t sh i sid who db"
  "notFound tokenOfRow (Queries_FindStoreTokenByHash hash db) = Postgres_FindStoreTokenByHash hash db"
proof -
  show "Queries_CreateStoreToken tok db = Postgres_CreateStoreToken tok db"
    by (simp add: Queries_CreateStoreToken_def Postgres_CreateStoreToken_def inserts not_unused [symmetric])
  show "(if inactive then Queries_ListAllStoreTokens sh i db else Queries_ListActiveStoreTokens (clk 0) sh i db)
     = Postgres_ListStoreTokens clk sh i inactive db"
    by (simp add: Queries_ListAllStoreTokens_def Queries_ListActiveStoreTokens_def Postgres_ListStoreTokens_def)
  show "noneChanged (Queries_RevokeStoreToken t \<lparr>rst_AccountID = i, rst_SessionID = sid, rst_RevokedBy = Some who\<rparr> db)
     = Postgres_RevokeStoreToken t sh i sid who db"
    by (simp add: Queries_RevokeStoreToken_def Postgres_RevokeStoreToken_def noneChanged_rows affected_def Let_def
        updateWhere_none)
  show "notFound tokenOfRow (Queries_FindStoreTokenByHash hash db) = Postgres_FindStoreTokenByHash hash db"
    by (simp add: Queries_FindStoreTokenByHash_def Postgres_FindStoreTokenByHash_def notFound_oneRow join_filter
        map_concat o_def tokenOfRow_scan)
qed

text \<open>The rows of a query, scanned and turned into values of the data model.\<close>

lemma map_selected:
  assumes "\<And>r. r \<in> set rows \<Longrightarrow> back (col r) = r"
  shows "map back [col r. r \<leftarrow> rows, P r] = filter P rows"
  using assms by (auto simp: select_filter intro: map_idI)

lemma map_packages:
  assumes "rowsFit db"
  shows "map packageOfRow [scanPackageRow p a. p \<leftarrow> db_packages db, P p, a \<leftarrow> db_accounts db, acc_ID a = pkg_OwnerAccountID p]
    = packageQuery P db"
proof -
  have "map packageOfRow (map (scanPackageRow p) as) = map (scanPackage p) as" if "p \<in> set (db_packages db)" for p as
    using that assms by (auto simp: rowsFit_def list_all_iff packageOfRow_scan)
  then have "map (map packageOfRow \<circ> (\<lambda>p. map (scanPackageRow p) (filter (\<lambda>a. acc_ID a = pkg_OwnerAccountID p) (db_accounts db))))
       (filter P (db_packages db))
     = map (\<lambda>p. map (scanPackage p) (filter (\<lambda>a. acc_ID a = pkg_OwnerAccountID p) (db_accounts db))) (filter P (db_packages db))"
    by (intro map_cong) (auto simp del: map_map)
  then show ?thesis by (simp only: join_filter map_concat packageQuery_def map_map)
qed

lemma same_package_queries:
  assumes fit: "rowsFit db"
  shows "notFound packageOfRow (Queries_GetPackageByName name db) = Postgres_GetPackageByName name db"
    and "notFound packageOfRow (Queries_GetPackageByID i db) = Postgres_GetPackageByID i db"
    and "notFound (map packageOfRow) (Queries_ListPackagesForAccount sh i db) = Postgres_ListPackagesForAccount sh i False db"
    and "notFound (map packageOfRow) (Queries_SearchPackages sh (searchPattern q) db) = Postgres_SearchPackages sh q db"
  unfolding Queries_GetPackageByName_def Queries_GetPackageByID_def Queries_ListPackagesForAccount_def
    Queries_SearchPackages_def notFound_oneRow notFound_Inr go_range_map [symmetric] map_packages [OF fit]
  by (simp_all add: Postgres_GetPackageByName_def Postgres_GetPackageByID_def Postgres_ListPackagesForAccount_def
      Postgres_SearchPackages_def)

lemma same_package_commands:
  "map_err_st (\<lambda>err. if containsStr (errText err) ''duplicate key''
     then ErrConflict ''package already exists: conflict'' else err) (Queries_CreatePackage (packageColumns p) db)
   = Postgres_CreatePackage p db"
  "noneChanged (Queries_UpdatePackage (updateParams p) db) = Postgres_UpdatePackage p db"
  "noneChanged (Queries_DeletePackage i db) = Postgres_DeletePackage i db"
proof -
  have "Queries_CreatePackage (packageColumns p) db = insertPackage p db"
    by (simp add: Queries_CreatePackage_def insertPackage_def inserts not_unused [symmetric])
      (simp add: packageColumns_def not_unused [symmetric])
  then show "map_err_st (\<lambda>err. if containsStr (errText err) ''duplicate key''
     then ErrConflict ''package already exists: conflict'' else err) (Queries_CreatePackage (packageColumns p) db)
   = Postgres_CreatePackage p db" by (simp add: Postgres_CreatePackage_def)
  show "noneChanged (Queries_UpdatePackage (updateParams p) db) = Postgres_UpdatePackage p db"
    by (simp add: Queries_UpdatePackage_def Postgres_UpdatePackage_def updateParams_def noneChanged_rows affected_def
        updateWhere_none)
  show "noneChanged (Queries_DeletePackage i db) = Postgres_DeletePackage i db"
    by (auto simp: Queries_DeletePackage_def Postgres_DeletePackage_def noneChanged_rows affected_def list_ex_iff)
qed

lemma same_access:
  "queriesAccess Queries_CanViewPackage True [''viewer'', ''editor'', ''owner''] i a db = Postgres_CanViewPackage i a db"
  "queriesAccess Queries_CanManagePackage False [''editor'', ''owner''] i a db = Postgres_CanManagePackage i a db"
proof -
  have owner: "notFound (\<lambda>q. q) (Queries_GetPackageOwner i db)
      = queryRow (map (\<lambda>p. \<lparr>por_Private = pkg_Private p, por_OwnerAccountID = pkg_OwnerAccountID p\<rparr>)
          (filter (\<lambda>p. pkg_ID p = i) (db_packages db)))"
    by (simp add: Queries_GetPackageOwner_def notFound_oneRow select_filter)
  have granted: "Queries_CanViewPackage \<lparr>pap_PackageID = i, pap_PrincipalID = a, pap_Column3 = R\<rparr> db
      = Inr (list_ex (\<lambda>acl. aclNames i a acl db \<and> acl_Role acl \<in> set R) (db_package_acl db))"
    "Queries_CanManagePackage \<lparr>pap_PackageID = i, pap_PrincipalID = a, pap_Column3 = R\<rparr> db
      = Inr (list_ex (\<lambda>acl. aclNames i a acl db \<and> acl_Role acl \<in> set R) (db_package_acl db))" for R
    by (auto simp: Queries_CanViewPackage_def Queries_CanManagePackage_def aclNames_def list_ex_iff)
  show "queriesAccess Queries_CanViewPackage True [''viewer'', ''editor'', ''owner''] i a db = Postgres_CanViewPackage i a db"
    by (cases "filter (\<lambda>p. pkg_ID p = i) (db_packages db)")
      (simp_all add: queriesAccess_def owner granted Postgres_CanViewPackage_def canAccess_def)
  show "queriesAccess Queries_CanManagePackage False [''editor'', ''owner''] i a db = Postgres_CanManagePackage i a db"
    by (cases "filter (\<lambda>p. pkg_ID p = i) (db_packages db)")
      (simp_all add: queriesAccess_def owner granted Postgres_CanManagePackage_def canAccess_def)
qed

lemma same_tracks:
  "createEach i n ts db = insertTracks i n ts db"
  "Queries_ListTracks sh i db = Postgres_ListTracks sh i db"
proof -
  show "createEach i n ts db = insertTracks i n ts db"
    by (induction ts arbitrary: n db) (simp_all add: Queries_CreateTrack_def inserts)
  show "Queries_ListTracks sh i db = Postgres_ListTracks sh i db"
    by (simp add: Queries_ListTracks_def Postgres_ListTracks_def select_filter)
qed

lemma same_upload_queries:
  assumes fit: "rowsFit db"
  shows "notFound uploadOf (Queries_GetUpload i db) = Postgres_GetUpload i db"
proof -
  have "map uploadOf [uploadColumns u. u \<leftarrow> db_uploads db, upl_ID u = i] = filter (\<lambda>u. upl_ID u = i) (db_uploads db)"
    using fit by (intro map_selected) (simp add: rowsFit_def list_all_iff)
  then show ?thesis by (simp only: Queries_GetUpload_def Postgres_GetUpload_def notFound_oneRow)
qed

lemma queries_create_upload:
  "pred_option int4 (upl_Revision u) \<Longrightarrow> Queries_CreateUpload (uploadColumns u) db
     = insertUnless [(unused upl_ID (upl_ID u) (db_uploads db), uniqueViolation ''uploads_pkey'')]
         db (db\<lparr>db_uploads := db_uploads db @ [uploadRow u]\<rparr>)"
  by (simp add: Queries_CreateUpload_def inserts not_unused [symmetric]) (simp add: uploadColumns_def not_unused [symmetric])

lemma same_upload_commands:
  "(case upl_Revision u of None \<Rightarrow> Queries_CreateUpload (uploadColumns u) db
      | Some n \<Rightarrow> fitting n db (Queries_CreateUpload (uploadColumns u) db)) = Postgres_CreateUpload u db"
  "(let call = noneChanged (Queries_ApproveUpload t \<lparr>au_ID = i, au_Revision = map_option narrow revision,
        au_Errors = errs, au_Status = (if errs \<noteq> [] then ''rejected'' else ''approved'')\<rparr> db) in
      case revision of None \<Rightarrow> call | Some n \<Rightarrow> fitting n db call) = Postgres_ApproveUpload t i revision errs db"
proof -
  show "(case upl_Revision u of None \<Rightarrow> Queries_CreateUpload (uploadColumns u) db
      | Some n \<Rightarrow> fitting n db (Queries_CreateUpload (uploadColumns u) db)) = Postgres_CreateUpload u db"
    by (cases "upl_Revision u")
      (simp_all add: queries_create_upload Postgres_CreateUpload_def fitting_def inserts)
  show "(let call = noneChanged (Queries_ApproveUpload t \<lparr>au_ID = i, au_Revision = map_option narrow revision,
        au_Errors = errs, au_Status = (if errs \<noteq> [] then ''rejected'' else ''approved'')\<rparr> db) in
      case revision of None \<Rightarrow> call | Some n \<Rightarrow> fitting n db call) = Postgres_ApproveUpload t i revision errs db"
    by (cases revision) (simp_all add: Queries_ApproveUpload_def Postgres_ApproveUpload_def noneChanged_rows affected_def
        updateWhere_none fitting_def)
qed

text \<open>The rows with one revision number come out of a listing in the order of the table.\<close>

lemma filter_sorted_number:
  "filter (\<lambda>r. num r = n) (sort_key (\<lambda>r. - num r) xs) = filter (\<lambda>r. num r = (n :: int)) xs"
  using sort_key_stable [of "\<lambda>r. - num r" "- n" xs] by simp

lemma same_revision_commands:
  "fitting (rev_Revision r) db (Queries_CreateRevision (revisionColumns r) db) = Postgres_CreateRevision r db"
proof (cases "int4 (rev_Revision r)")
  case True
  then show ?thesis
    by (simp add: fitting_def Queries_CreateRevision_def Postgres_CreateRevision_def inserts not_unused [symmetric])
      (simp add: revisionColumns_def not_unused [symmetric] not_unused_pair [symmetric])
qed (simp add: fitting_def Postgres_CreateRevision_def inserts)

lemma revisions_listed:
  assumes fit: "rowsFit db"
  shows "notFound (map revisionOf) (Queries_ListRevisions i db) = Postgres_ListRevisions i None db"
proof -
  have "map revisionOf (map revisionColumns rows) = rows" if "set rows \<subseteq> set (db_revisions db)" for rows
    using that fit by (auto simp: rowsFit_def list_all_iff intro!: map_idI)
  then show ?thesis by (simp add: Queries_ListRevisions_def Postgres_ListRevisions_def del: map_map)
qed

lemma same_revision_queries:
  assumes fit: "rowsFit db"
  shows "(case revision of None \<Rightarrow> notFound (map revisionOf) (Queries_ListRevisions i db)
      | Some n \<Rightarrow> if int4 n then notFound (map revisionOf \<circ> filter (\<lambda>r. qr_Revision r = narrow n)) (Queries_ListRevisions i db)
                 else Inl (int4Error n)) = Postgres_ListRevisions i revision db"
    and "(if int4 n then notFound revisionOf (Queries_GetRevisionByNumber \<lparr>rbn_PackageID = i, rbn_Revision = narrow n\<rparr> db)
      else Inl (int4Error n)) = Postgres_GetRevisionByNumber i n db"
    and "res_bind (Queries_ListRevisions i db) (\<lambda>rows. notFound revisionOf (oneRow rows)) = Postgres_GetLatestRevision i db"
proof -
  let ?rows = "filter (\<lambda>r. rev_PackageID r = i) (db_revisions db)"
  have row: "revisionOf (revisionColumns r) = r" "int4 (rev_Revision r)" if "r \<in> set (db_revisions db)" for r
    using fit that revision_columns [of r] by (simp_all add: rowsFit_def list_all_iff)
  have numbered: "map revisionOf (filter (\<lambda>r. qr_Revision r = narrow n) (map revisionColumns xs))
      = filter (\<lambda>r. rev_Revision r = n) xs" if "int4 n" "set xs \<subseteq> set (db_revisions db)" for xs n
  proof -
    have "qr_Revision (revisionColumns r) = narrow n \<longleftrightarrow> rev_Revision r = n" if "r \<in> set xs" for r
      using that \<open>set xs \<subseteq> set (db_revisions db)\<close> \<open>int4 n\<close> row(2) by (auto simp: revisionColumns_def)
    then have "filter (\<lambda>r. qr_Revision r = narrow n) (map revisionColumns xs) = map revisionColumns (filter (\<lambda>r. rev_Revision r = n) xs)"
      by (simp add: filter_map o_def cong: filter_cong)
    then show ?thesis using that(2) row(1) by (auto intro!: map_idI)
  qed
  show "(case revision of None \<Rightarrow> notFound (map revisionOf) (Queries_ListRevisions i db)
      | Some n \<Rightarrow> if int4 n then notFound (map revisionOf \<circ> filter (\<lambda>r. qr_Revision r = narrow n)) (Queries_ListRevisions i db)
                 else Inl (int4Error n)) = Postgres_ListRevisions i revision db"
  proof (cases revision)
    case (Some n)
    have "sort_key (\<lambda>r. - rev_Revision r) (filter (\<lambda>r. rev_Revision r = n) ?rows) = filter (\<lambda>r. rev_Revision r = n) ?rows"
      using filter_sorted_number [of rev_Revision n ?rows] by (simp add: filter_sort)
    then show ?thesis
      using Some numbered [of n "sort_key (\<lambda>r. - rev_Revision r) ?rows"]
      by (auto simp: Queries_ListRevisions_def Postgres_ListRevisions_def filter_sorted_number)
  qed (simp add: revisions_listed [OF fit])
  have "map revisionOf [revisionColumns r. r \<leftarrow> db_revisions db, rev_PackageID r = i \<and> rev_Revision r = n]
      = filter (\<lambda>r. rev_Revision r = n) ?rows" for n
    using map_selected [of "db_revisions db" revisionOf revisionColumns "\<lambda>r. rev_PackageID r = i \<and> rev_Revision r = n"] row(1)
    by (simp add: conj_commute)
  then show "(if int4 n then notFound revisionOf (Queries_GetRevisionByNumber \<lparr>rbn_PackageID = i, rbn_Revision = narrow n\<rparr> db)
      else Inl (int4Error n)) = Postgres_GetRevisionByNumber i n db"
    using filter_sorted_number [of rev_Revision n ?rows]
    by (simp add: Queries_GetRevisionByNumber_def Postgres_GetRevisionByNumber_def Postgres_ListRevisions_def notFound_oneRow
        queryRow_def filter_sort)
  show "res_bind (Queries_ListRevisions i db) (\<lambda>rows. notFound revisionOf (oneRow rows)) = Postgres_GetLatestRevision i db"
    by (simp add: Postgres_GetLatestRevision_def revisions_listed [OF fit, symmetric] Queries_ListRevisions_def
        notFound_oneRow queryRow_def)
qed

lemma same_definitions:
  "Queries_UpsertResourceDefinition d db = Postgres_UpsertResourceDefinition d db"
  "notFound (\<lambda>d. d) (Queries_GetResourceDefinition \<lparr>rdp_PackageID = i, rdp_Name = name\<rparr> db) = Postgres_GetResourceDefinition i name db"
  "Queries_ListResourceDefinitions sh i db = Postgres_ListResourceDefinitions sh i db"
proof -
  let ?same = "\<lambda>r. rd_PackageID r = rd_PackageID d \<and> rd_Name r = rd_Name d"
  show "Queries_UpsertResourceDefinition d db = Postgres_UpsertResourceDefinition d db"
    by (cases "filter ?same (db_resource_definitions db)")
      (auto simp: Queries_UpsertResourceDefinition_def Postgres_UpsertResourceDefinition_def list_ex_filter [of ?same]
        inserts Let_def oneRow_def st_bind_def not_unused [symmetric])
  show "notFound (\<lambda>d. d) (Queries_GetResourceDefinition \<lparr>rdp_PackageID = i, rdp_Name = name\<rparr> db)
    = Postgres_GetResourceDefinition i name db"
    by (simp add: Queries_GetResourceDefinition_def Postgres_GetResourceDefinition_def notFound_oneRow)
  show "Queries_ListResourceDefinitions sh i db = Postgres_ListResourceDefinitions sh i db"
    by (simp add: Queries_ListResourceDefinitions_def Postgres_ListResourceDefinitions_def)
qed

lemma same_resource_commands:
  "fitting (rr_Revision r) db (Queries_CreateResourceRevision (resourceColumns r) db) = Postgres_CreateResourceRevision r db"
  "fitting (rr_Revision r) db (noneChanged (Queries_UpdateResourceRevision (updateResourceParams r) db))
     = Postgres_UpdateResourceRevision r db"
proof -
  show "fitting (rr_Revision r) db (Queries_CreateResourceRevision (resourceColumns r) db) = Postgres_CreateResourceRevision r db"
  proof (cases "int4 (rr_Revision r)")
    case True
    then show ?thesis
      by (simp add: fitting_def Queries_CreateResourceRevision_def Postgres_CreateResourceRevision_def inserts not_unused [symmetric])
        (simp add: resourceColumns_def not_unused [symmetric] not_unused_pair [symmetric])
  qed (simp add: fitting_def Postgres_CreateResourceRevision_def inserts)
  show "fitting (rr_Revision r) db (noneChanged (Queries_UpdateResourceRevision (updateResourceParams r) db))
     = Postgres_UpdateResourceRevision r db"
    by (cases "int4 (rr_Revision r)") (auto simp: fitting_def Queries_UpdateResourceRevision_def
        Postgres_UpdateResourceRevision_def updateResourceParams_def noneChanged_rows affected_def Let_def updateWhere_none)
qed

lemma same_resource_queries:
  assumes fit: "rowsFit db"
  shows "notFound (map resourceOf) (Queries_ListResourceRevisions i db) = Postgres_ListResourceRevisions i db"
    and "(if int4 n then notFound resourceOf (Queries_GetResourceRevision \<lparr>rrp_ResourceID = i, rrp_Revision = narrow n\<rparr> db)
      else Inl ErrNotFound) = Postgres_GetResourceRevision i n db"
proof -
  let ?rows = "filter (\<lambda>r. rr_ResourceID r = i) (db_resource_revisions db)"
  have row: "resourceOf (resourceColumns r) = r" "int4 (rr_Revision r)" if "r \<in> set (db_resource_revisions db)" for r
    using fit that resource_columns [of r] by (simp_all add: rowsFit_def list_all_iff)
  have "map resourceOf (map resourceColumns rows) = rows" if "set rows \<subseteq> set (db_resource_revisions db)" for rows
    using that row(1) by (auto intro!: map_idI)
  then show "notFound (map resourceOf) (Queries_ListResourceRevisions i db) = Postgres_ListResourceRevisions i db"
    by (simp add: Queries_ListResourceRevisions_def Postgres_ListResourceRevisions_def del: map_map)
  have selected: "map resourceOf [resourceColumns r. r \<leftarrow> db_resource_revisions db, rr_ResourceID r = i \<and> rr_Revision r = n]
      = filter (\<lambda>r. rr_Revision r = n) ?rows"
    using map_selected [of "db_resource_revisions db" resourceOf resourceColumns "\<lambda>r. rr_ResourceID r = i \<and> rr_Revision r = n"]
      row(1) by (simp add: conj_commute)
  have "\<not> int4 n \<Longrightarrow> filter (\<lambda>r. rr_Revision r = n) ?rows = []"
    using row(2) by (auto simp: filter_empty_conv)
  then show "(if int4 n then notFound resourceOf (Queries_GetResourceRevision \<lparr>rrp_ResourceID = i, rrp_Revision = narrow n\<rparr> db)
      else Inl ErrNotFound) = Postgres_GetResourceRevision i n db"
    using selected filter_sorted_number [of rr_Revision n ?rows]
    by (simp add: Queries_GetResourceRevision_def Postgres_GetResourceRevision_def Postgres_ListResourceRevisions_def
        notFound_oneRow queryRow_def find_filter split: list.split)
qed

lemma same_release_commands:
  "fitting (rel_Revision r) db (Queries_ReplaceRelease (releaseColumns (r\<lparr>rel_PackageID := i\<rparr>)) db) = Postgres_ReplaceRelease i r db"
proof (cases "int4 (rel_Revision r)")
  case True
  let ?r = "r\<lparr>rel_PackageID := i\<rparr>"
  have keys: "ql_PackageID (releaseColumns ?r) = i" "ql_Channel (releaseColumns ?r) = rel_Channel r" "ql_ID (releaseColumns ?r) = rel_ID r"
    by (simp_all add: releaseColumns_def)
  have stored: "releaseRowOf i ?r = releaseRowOf i r"
    by (simp add: releaseRowOf_def)
  have kept: "(releaseRowOf i r)\<lparr>rel_ID := rel_ID q, rel_PackageID := rel_PackageID q, rel_Channel := rel_Channel q\<rparr>
      = q\<lparr>rel_Revision := rel_Revision (releaseRowOf i r), rel_Base := rel_Base (releaseRowOf i r),
          rel_Resources := rel_Resources (releaseRowOf i r), rel_When := rel_When (releaseRowOf i r),
          rel_ExpirationDate := rel_ExpirationDate (releaseRowOf i r), rel_Progressive := rel_Progressive (releaseRowOf i r)\<rparr>" for q
    by (cases q) (simp add: releaseRowOf_def)
  show ?thesis
    using True by (simp add: fitting_def Queries_ReplaceRelease_def Postgres_ReplaceRelease_def keys stored kept Let_def
        inserts not_unused [symmetric])
qed (simp add: fitting_def Postgres_ReplaceRelease_def Let_def)

lemma same_release_queries:
  assumes fit: "rowsFit db"
  shows "notFound (map releaseOf) (Queries_ListReleases sh i db) = Postgres_ListReleases sh i db"
    and "notFound releaseOf (Queries_ResolveRelease \<lparr>rrl_PackageID = i, rrl_Channel = channel\<rparr> db) = Postgres_ResolveRelease i channel db"
    and "notFound releaseOf (case Queries_ResolveDefaultRelease i db of Inr q \<Rightarrow> Inr q
         | Inl e \<Rightarrow> if e = ErrNoRows then Queries_ResolveLatestRelease sh i db else Inl e) = Postgres_ResolveDefaultRelease sh i db"
proof -
  have row: "releaseOf (releaseColumns r) = r" if "r \<in> set (db_releases db)" for r
    using fit that by (simp add: rowsFit_def list_all_iff)
  note selected = map_selected [of "db_releases db" releaseOf releaseColumns, OF row]
  show "notFound (map releaseOf) (Queries_ListReleases sh i db) = Postgres_ListReleases sh i db"
    using selected [of "\<lambda>r. rel_PackageID r = i"]
    by (simp only: Queries_ListReleases_def Postgres_ListReleases_def releasesOf_def notFound_Inr go_range_map [symmetric])
  show "notFound releaseOf (Queries_ResolveRelease \<lparr>rrl_PackageID = i, rrl_Channel = channel\<rparr> db) = Postgres_ResolveRelease i channel db"
    using selected [of "\<lambda>r. rel_PackageID r = i \<and> rel_Channel r = channel"]
    by (simp add: Queries_ResolveRelease_def Postgres_ResolveRelease_def releasesOf_def notFound_oneRow conj_commute)
  have rows: "map releaseOf (map releaseColumns rs) = rs" if "set rs \<subseteq> set (db_releases db)" for rs
    using that row by (auto intro!: map_idI)
  let ?Q = "\<lambda>p r. rel_PackageID r = pkg_ID p \<and> (case pkg_DefaultTrack p of Some track \<Rightarrow> rel_Channel r = track @ ''/stable''
      | None \<Rightarrow> rel_Channel r = ''latest/stable'')"
  let ?D = "concat (map (\<lambda>p. filter (?Q p) (db_releases db)) (filter (\<lambda>p. pkg_ID p = i) (db_packages db)))"
  let ?sorted = "sort_key (\<lambda>r. - rel_When r)"
  have default: "Queries_ResolveDefaultRelease i db = oneRow (map releaseColumns (?sorted ?D))"
    unfolding Queries_ResolveDefaultRelease_def join_filter [where f = "\<lambda>p r. r"] by simp
  have "filter (?Q p) (db_releases db) = filter (\<lambda>r. rel_Channel r =
      (case pkg_DefaultTrack p of Some track \<Rightarrow> track @ ''/stable'' | None \<Rightarrow> ''latest/stable'')) (releasesOf i db)"
    if "pkg_ID p = i" for p
    using that by (cases "pkg_DefaultTrack p") (auto simp: releasesOf_def intro: filter_cong)
  then have "?D = concat (map (\<lambda>p. filter (\<lambda>r. rel_Channel r =
      (case pkg_DefaultTrack p of Some track \<Rightarrow> track @ ''/stable'' | None \<Rightarrow> ''latest/stable'')) (releasesOf i db))
        (filter (\<lambda>p. pkg_ID p = i) (db_packages db)))"
    by (intro arg_cong [of _ _ concat] map_cong) auto
  then have handwritten: "Postgres_ResolveDefaultRelease sh i db = (case queryRow (?sorted ?D) of
      Inl ErrNotFound \<Rightarrow> queryRow (?sorted (go_range sh (releasesOf i db))) | r \<Rightarrow> r)"
    unfolding Postgres_ResolveDefaultRelease_def Let_def by (rule ssubst) (rule refl)
  have latest: "notFound releaseOf (Queries_ResolveLatestRelease sh i db) = queryRow (?sorted (go_range sh (releasesOf i db)))"
    unfolding Queries_ResolveLatestRelease_def notFound_oneRow releasesOf_def by (subst rows) auto
  show "notFound releaseOf (case Queries_ResolveDefaultRelease i db of Inr q \<Rightarrow> Inr q
         | Inl e \<Rightarrow> if e = ErrNoRows then Queries_ResolveLatestRelease sh i db else Inl e) = Postgres_ResolveDefaultRelease sh i db"
  proof (cases "?sorted ?D")
    case Nil
    then show ?thesis by (simp only: default handwritten latest oneRow_def queryRow_simps(1) list.case list.map
        sum.case goerr.case simp_thms if_True)
  next
    case (Cons r rs)
    then have "r \<in> set (?sorted ?D)" by simp
    then have "releaseOf (releaseColumns r) = r" using row by auto
    then show ?thesis
      by (simp only: default handwritten Cons oneRow_def queryRow_def list.case list.map sum.case notFound_Inr)
  qed
qed

lemmas same_statements =
  same_accounts same_tokens same_package_commands same_access same_tracks same_upload_commands same_revision_commands
  same_definitions same_resource_commands same_release_commands

lemmas same_selections =
  same_package_queries same_upload_queries same_revision_queries same_resource_queries same_release_queries

lemma rowsFit_agree:
  assumes "rowsFit db"
  shows "agreeOn queries_repo postgres_repo db"
  unfolding agreeOn_def queries_repo_def repository.simps postgres_repo_sel
  by (intro conjI allI same_statements same_selections [OF assms])
    (simp_all add: same_selections [OF assms] Postgres_CreateTracks_def same_tracks)

section \<open>Every reachable state\<close>

lemma rows_fit [simp]:
  "packageOf (packageColumns (packageRow p)) = packageRow p"
  "pred_option int4 (upl_Revision u) \<Longrightarrow> uploadOf (uploadColumns (uploadRow u)) = uploadRow u"
  "int4 (rev_Revision r) \<Longrightarrow> revisionOf (revisionColumns (revisionRowOf r)) = revisionRowOf r"
  "int4 (rr_Revision x) \<Longrightarrow> resourceOf (resourceColumns (resourceRow x)) = resourceRow x"
  "int4 (rel_Revision l) \<Longrightarrow> releaseOf (releaseColumns (releaseRowOf i l)) = releaseRowOf i l"
  by (simp_all add: columns packageRow_def uploadRow_def revisionRowOf_def resourceRow_def releaseRowOf_def)

lemma list_all_updateWhere: "list_all P rows \<Longrightarrow> (\<And>r. P r \<Longrightarrow> P (f r)) \<Longrightarrow> list_all P (updateWhere Q f rows)"
  by (auto simp: updateWhere_def list_all_iff)

lemma list_all_filter: "list_all P rows \<Longrightarrow> list_all P (filter Q rows)"
  by (simp add: list_all_iff)

lemma rowsFit_insertTracks: "rowsFit db \<Longrightarrow> rowsFit (snd (insertTracks i n ts db))"
proof (induction ts arbitrary: n db)
  case (Cons t ts)
  then show ?case by (simp add: insertUnless_def rowsFit_def)
qed simp

interpretation pg_rows: command_invariant postgres_repo rowsFit
proof unfold_locales
  fix s t a
  assume "rowsFit s"
  then show "rowsFit (snd (EnsureAccount postgres_repo t a s))"
    by (simp add: Postgres_EnsureAccount_def Let_def insertUnless_def rowsFit_def split: list.split)
next
  fix s p
  assume fit: "rowsFit s"
  then show "rowsFit (snd (CreatePackage postgres_repo p s))"
    unfolding postgres_repo_sel Postgres_CreatePackage_def snd_map_err insertPackage_def
    by (rule insertUnless_keeps) (use fit in \<open>simp add: rowsFit_def\<close>)
  show "rowsFit (snd (UpdatePackage postgres_repo p s))"
    unfolding postgres_repo_sel Postgres_UpdatePackage_def
    by (rule affected_keeps) (use fit in \<open>auto simp: rowsFit_def columns intro!: list_all_updateWhere\<close>)
next
  fix s i
  assume fit: "rowsFit s"
  then show "rowsFit (snd (DeletePackage postgres_repo i s))"
    unfolding postgres_repo_sel Postgres_DeletePackage_def
    by (rule affected_keeps) (use fit in \<open>simp add: rowsFit_def cascade_sel list_all_filter\<close>)
next
  fix s i ts
  assume "rowsFit s"
  then show "rowsFit (snd (CreateTracks postgres_repo i ts s))"
    by (simp add: Postgres_CreateTracks_def rowsFit_insertTracks)
next
  fix s u
  assume fit: "rowsFit s"
  then show "rowsFit (snd (CreateUpload postgres_repo u s))"
    unfolding postgres_repo_sel Postgres_CreateUpload_def
    by (rule insertUnless_keeps) (use fit in \<open>cases "upl_Revision u"; simp add: rowsFit_def\<close>)
next
  fix s t i n errs
  assume fit: "rowsFit s"
  then show "rowsFit (snd (ApproveUpload postgres_repo t i n errs s))"
    by (auto simp: Postgres_ApproveUpload_def Let_def affected_def rowsFit_def columns split: option.split
        intro!: list_all_updateWhere)
next
  fix s r
  assume fit: "rowsFit s"
  then show "rowsFit (snd (CreateRevision postgres_repo r s))"
    unfolding postgres_repo_sel Postgres_CreateRevision_def
    by (rule insertUnless_keeps) (use fit in \<open>simp add: rowsFit_def\<close>)
next
  fix s d
  assume "rowsFit s"
  then show "rowsFit (snd (UpsertResourceDefinition postgres_repo d s))"
    by (simp add: Postgres_UpsertResourceDefinition_def Let_def insertUnless_def rowsFit_def split: list.split)
next
  fix s r
  assume fit: "rowsFit s"
  then show "rowsFit (snd (CreateResourceRevision postgres_repo r s))"
    unfolding postgres_repo_sel Postgres_CreateResourceRevision_def
    by (rule insertUnless_keeps) (use fit in \<open>simp add: rowsFit_def\<close>)
  show "rowsFit (snd (UpdateResourceRevision postgres_repo r s))"
    using fit by (auto simp: Postgres_UpdateResourceRevision_def Let_def affected_def rowsFit_def columns
        intro!: list_all_updateWhere)
next
  fix s i r
  assume fit: "rowsFit s"
  then show "rowsFit (snd (ReplaceRelease postgres_repo i r s))"
    by (auto simp: Postgres_ReplaceRelease_def Let_def insertUnless_def rowsFit_def columns releaseRowOf_def
        intro!: list_all_updateWhere)
qed (simp_all add: rowsFit_def Postgres_CreateStoreToken_def Postgres_RevokeStoreToken_def insertUnless_def affected_def)



end
