(* ===== verification/PostgresService.thy ===== *)
theory PostgresService
  imports PostgresExamples Resources
begin

text \<open>
  The services over the PostgreSQL repository, with any blob store: what a publication, a pushed resource,
  a release and a token look like to the requests that follow.
\<close>

section \<open>Lemmas: what publications leave alone\<close>

text \<open>Who may see and manage which package, and under which name, is the same in both states.\<close>

definition accessKey :: "package \<Rightarrow> string \<times> string \<times> bool \<times> string" where
  "accessKey p = (pkg_ID p, pkg_Name p, pkg_Private p, pkg_OwnerAccountID p)"

definition sameAccess :: "database \<Rightarrow> database \<Rightarrow> bool" where
  "sameAccess db db' \<longleftrightarrow> map accessKey (db_packages db') = map accessKey (db_packages db)
     \<and> db_accounts db' = db_accounts db \<and> db_package_acl db' = db_package_acl db
     \<and> db_group_members db' = db_group_members db"

lemma sameAccess_refl [simp]: "sameAccess db db"
  by (simp add: sameAccess_def)

lemma sameAccess_trans: "sameAccess a b \<Longrightarrow> sameAccess b c \<Longrightarrow> sameAccess a c"
  by (simp add: sameAccess_def)

lemma accessKey_row:
  assumes "sameAccess db db'" and "p \<in> set (db_packages db)"
  obtains p' where "p' \<in> set (db_packages db')" and "accessKey p' = accessKey p"
proof -
  have "accessKey p \<in> set (map accessKey (db_packages db'))"
    using assms by (simp add: sameAccess_def)
  then show thesis using that by (metis image_iff set_map)
qed

lemma canAccess_same:
  assumes inv: "pg_inv db" and inv': "pg_inv db'" and same: "sameAccess db db'" and "canAccess i a manage db = Inr r"
  shows "canAccess i a manage db' = Inr r"
proof -
  obtain p where p: "p \<in> set (db_packages db)" "pkg_ID p = i" by (rule canAccess_hit [OF inv assms(4)])
  obtain p' where p': "p' \<in> set (db_packages db')" "accessKey p' = accessKey p" by (rule accessKey_row [OF same p(1)])
  have key: "pkg_ID p' = i" "pkg_Private p' = pkg_Private p" "pkg_OwnerAccountID p' = pkg_OwnerAccountID p"
    using p'(2) p(2) by (simp_all add: accessKey_def)
  have acl: "aclNames i a acl db' = aclNames i a acl db" "db_package_acl db' = db_package_acl db" for acl
    using same by (simp_all add: aclNames_def sameAccess_def)
  have "canAccess i a manage db' = canAccess i a manage db"
    using canAccess_row [OF inv p(1), of a manage] canAccess_row [OF inv' p'(1), of a manage]
    by (simp only: key p(2) acl)
  then show ?thesis using assms(4) by simp
qed

lemma package_same:
  assumes inv: "pg_inv db" and inv': "pg_inv db'" and same: "sameAccess db db'"
    and "Postgres_GetPackageByID i db = Inr p"
  obtains p' where "Postgres_GetPackageByID i db' = Inr p'" and "accessKey p' = accessKey p"
proof -
  obtain r where r: "joined p r db" "pkg_ID r = i" using assms(4) unfolding GetPackage_row [OF inv] by blast
  then have "r \<in> set (db_packages db)" by (simp add: joined_def)
  then obtain r' where r': "r' \<in> set (db_packages db')" "accessKey r' = accessKey r" by (rule accessKey_row [OF same])
  obtain p' where p': "joined p' r' db'" using packageQuery_row [OF inv' r'(1)] by blast
  have "pkg_ID r' = i" using r'(2) r(2) by (simp add: accessKey_def)
  then have "Postgres_GetPackageByID i db' = Inr p'" using p' unfolding GetPackage_row [OF inv'] by blast
  moreover have "accessKey p' = accessKey p"
    using joined_sel [OF p'] joined_sel [OF r(1)] r'(2) by (simp add: accessKey_def)
  ultimately show thesis by (rule that)
qed

lemma view_same:
  assumes S: "svc_repo S = postgres_repo" and inv: "pg_inv db" and inv': "pg_inv db'" and same: "sameAccess db db'"
    and view: "requirePackageView S identity p tp db = Inr u" and p': "accessKey p' = accessKey p"
  shows "requirePackageView S identity p' tp db' = Inr u"
proof -
  have "tokenExcludesPackage identity p' = tokenExcludesPackage identity p"
    using p' by (intro tokenExcludesPackage_cong) (simp_all add: accessKey_def)
  then show ?thesis
    using view p' canAccess_same [OF inv inv' same]
    by (auto simp: requirePackageView_iff S Postgres_CanViewPackage_def accessKey_def split: if_splits)
qed

lemma pg_manage_view:
  assumes S: "svc_repo S = postgres_repo" and inv: "pg_inv db"
    and "requirePackageManage S identity p permission db = Inr u"
  shows "requirePackageView S identity p False db = Inr ()"
  using assms(3) pg_packages.manage_view [OF inv]
  by (auto simp: requirePackageManage_iff requirePackageView_iff S tokenGrants_def)

text \<open>The commands of a publication.\<close>

lemma same_CreateRevision: "Postgres_CreateRevision rv db = (r, db') \<Longrightarrow>
    sameAccess db db' \<and> db_resource_definitions db' = db_resource_definitions db
    \<and> db_resource_revisions db' = db_resource_revisions db"
  by (auto simp: Postgres_CreateRevision_def insertUnless_def sameAccess_def split: option.splits)

lemma same_ApproveUpload: "Postgres_ApproveUpload t uid n errs db = (r, db') \<Longrightarrow>
    sameAccess db db' \<and> db_resource_definitions db' = db_resource_definitions db
    \<and> db_resource_revisions db' = db_resource_revisions db"
  by (auto simp: Postgres_ApproveUpload_def Let_def affected_def sameAccess_def split: option.splits if_splits)

lemma same_UpdatePackage:
  assumes inv: "pg_inv db" and "Postgres_UpdatePackage q db = (r, db')"
    and p: "p \<in> set (db_packages db)" "pkg_ID q = pkg_ID p" "pkg_Private q = pkg_Private p"
  shows "sameAccess db db' \<and> db_resource_definitions db' = db_resource_definitions db
    \<and> db_resource_revisions db' = db_resource_revisions db"
proof -
  have "p' = p" if "p' \<in> set (db_packages db)" "pkg_ID p' = pkg_ID q" for p'
    using package_row(1) [OF inv p(1)] package_row(1) [OF inv that(1)] that(2) p(2) by simp
  then have "pkg_Private p' = pkg_Private q" if "p' \<in> set (db_packages db)" "pkg_ID p' = pkg_ID q" for p'
    using that p(3) by blast
  then show ?thesis
    using assms(2) by (auto simp: Postgres_UpdatePackage_def affected_def sameAccess_def updateWhere_def accessKey_def
        split: if_splits)
qed

text \<open>Declaring a resource again keeps its identifier.\<close>

definition keepsDefs :: "database \<Rightarrow> database \<Rightarrow> bool" where
  "keepsDefs db db' \<longleftrightarrow> sameAccess db db' \<and> db_resource_revisions db' = db_resource_revisions db
     \<and> (\<forall>i name d. Postgres_GetResourceDefinition i name db = Inr d \<longrightarrow>
          (\<exists>d'. Postgres_GetResourceDefinition i name db' = Inr d' \<and> rd_ID d' = rd_ID d))"

lemma keepsDefs_trans: "keepsDefs a b \<Longrightarrow> keepsDefs b c \<Longrightarrow> keepsDefs a c"
  unfolding keepsDefs_def using sameAccess_trans by metis

lemma keepsDefs_same:
  "sameAccess db db' \<and> db_resource_definitions db' = db_resource_definitions db
    \<and> db_resource_revisions db' = db_resource_revisions db \<Longrightarrow> keepsDefs db db'"
  by (simp add: keepsDefs_def Postgres_GetResourceDefinition_def)

lemma queryRow_updateWhere:
  assumes "\<And>r. Q (f r) = Q r" and "queryRow (filter Q rows) = Inr r"
  shows "queryRow (filter Q (updateWhere P f rows)) = Inr (if P r then f r else r)"
proof -
  obtain rest where "filter Q rows = r # rest" using assms(2) by (auto simp: res_iff)
  then have "filter Q (updateWhere P f rows) = updateWhere P f (r # rest)" using filter_updateWhere [of Q f] assms(1) by metis
  then show ?thesis by (simp add: updateWhere_def)
qed

lemma queryRow_append: "queryRow rows = Inr r \<Longrightarrow> queryRow (rows @ rest) = Inr r"
  by (auto simp: res_iff)

lemma keepsDefs_Upsert:
  assumes "Postgres_UpsertResourceDefinition d db = (Inr s, db')"
  shows "keepsDefs db db'"
proof (cases "filter (\<lambda>r. rd_PackageID r = rd_PackageID d \<and> rd_Name r = rd_Name d) (db_resource_definitions db)")
  case Nil
  then have "db' = db\<lparr>db_resource_definitions := db_resource_definitions db @ [definitionRow d]\<rparr>"
    using assms by (auto simp: Postgres_UpsertResourceDefinition_def Let_def res_iff insertUnless_Inr)
  then show ?thesis by (auto simp: keepsDefs_def sameAccess_def Postgres_GetResourceDefinition_def queryRow_append)
next
  case (Cons x xs)
  let ?f = "\<lambda>r. r\<lparr>rd_Type := rd_Type d, rd_Description := rd_Description d, rd_Filename := rd_Filename d,
    rd_Optional := rd_Optional d\<rparr>"
  let ?same = "\<lambda>r. rd_PackageID r = rd_PackageID d \<and> rd_Name r = rd_Name d"
  have db': "db' = db\<lparr>db_resource_definitions := updateWhere ?same ?f (db_resource_definitions db)\<rparr>"
    using assms Cons by (auto simp: Postgres_UpsertResourceDefinition_def Let_def)
  have "\<exists>d'. Postgres_GetResourceDefinition i name db' = Inr d' \<and> rd_ID d' = rd_ID e"
    if "Postgres_GetResourceDefinition i name db = Inr e" for i name e
  proof -
    have "Postgres_GetResourceDefinition i name db' = Inr (if ?same e then ?f e else e)"
      using that unfolding Postgres_GetResourceDefinition_def db' by (simp add: queryRow_updateWhere)
    then show ?thesis by simp
  qed
  then show ?thesis by (simp add: keepsDefs_def sameAccess_def db')
qed

lemma keepsDefs_upsertResources:
  assumes S: "svc_repo S = postgres_repo"
  shows "upsertResources S ids i t pkg rs db = (Inr u, db') \<Longrightarrow> keepsDefs db db'"
proof (induction rs arbitrary: i db)
  case Nil
  then show ?case by (simp add: keepsDefs_def)
next
  case (Cons r rs)
  obtain d db1 where d: "Postgres_UpsertResourceDefinition \<lparr>rd_ID = ids i, rd_PackageID = pkg, rd_Name = fst r,
      rd_Type = crd_Type (snd r), rd_Description = crd_Description (snd r), rd_Filename = crd_Filename (snd r),
      rd_Optional = False, rd_CreatedAt = t\<rparr> db = (Inr d, db1)"
    and rest: "upsertResources S ids (Suc i) t pkg rs db1 = (Inr u, db')"
    using Cons.prems by (cases r) (auto simp: S res_iff)
  show ?case by (rule keepsDefs_trans [OF keepsDefs_Upsert [OF d] Cons.IH [OF rest]])
qed

lemma keepsDefs_publish:
  assumes S: "svc_repo S = postgres_repo" and inv: "pg_inv db" and p: "Postgres_GetPackageByName name db = Inr p"
    and run: "publishRevision S E identity name p u arc db = (Inr url, db')"
  shows "keepsDefs db db'"
proof -
  obtain row where row: "row \<in> set (db_packages db)" "pkg_ID p = pkg_ID row" "pkg_Private p = pkg_Private row"
    using p joined_sel unfolding GetPackage_row [OF inv] by metis
  obtain n db1 db2 db3 where
      c1: "Postgres_CreateRevision (newRevision (uuid E 0) (now E 0) (pkg_ID p) (acc_ID (idn_Account identity)) n u arc) db
        = (Inr (), db1)"
    and c2: "Postgres_ApproveUpload (now E 1) (upl_ID u) (Some n) [] db1 = (Inr (), db2)"
    and c3: "Postgres_UpdatePackage (publishedPackage (now E 0) (arc_Manifest arc) p) db2 = (Inr (), db3)"
    and c4: "upsertResources S (uuid E) 1 (now E 0) (pkg_ID p)
        (go_range (order E 1) (man_Resources (arc_Manifest arc))) db3 = (Inr (), db')"
    using run by (auto simp: publishRevision_def S Let_def res_iff)
  have same1: "sameAccess db db2" "keepsDefs db db2"
    using same_CreateRevision [OF c1] same_ApproveUpload [OF c2] sameAccess_trans keepsDefs_same keepsDefs_trans by metis+
  have inv2: "pg_inv db2"
    using pg_inv_CreateRevision [OF inv] pg_inv_ApproveUpload c1 c2 by (metis snd_conv)
  obtain row' where row': "row' \<in> set (db_packages db2)" "accessKey row' = accessKey row"
    by (rule accessKey_row [OF same1(1) row(1)])
  have "keepsDefs db2 db3"
    by (rule keepsDefs_same, rule same_UpdatePackage [OF inv2 c3 row'(1)])
      (use row'(2) row(2,3) in \<open>simp_all add: accessKey_def\<close>)
  then show ?thesis using same1(2) keepsDefs_upsertResources [OF S c4] keepsDefs_trans by metis
qed

lemma PushRevision_Inr_any:
  assumes "PushRevision S lib E identity name uid s b = (Inr url, s')"
  obtains p u payload arc where "GetPackageByName (svc_repo S) name s = Inr p"
    and "requirePackageManage S identity p permPackageManageRevisions s = Inr ()"
    and "GetUpload (svc_repo S) uid s = Inr u" and "blob_Get (svc_blobs S) (upl_ObjectKey u) b = Inr payload"
    and "publishRevision S E identity name p u arc s = (Inr url, s')"
proof -
  obtain p u payload where g: "GetPackageByName (svc_repo S) name s = Inr p"
    "requirePackageManage S identity p permPackageManageRevisions s = Inr ()"
    "GetUpload (svc_repo S) uid s = Inr u" "blob_Get (svc_blobs S) (upl_ObjectKey u) b = Inr payload"
    using assms by (auto simp: PushRevision_def res_iff)
  then obtain arc where "publishRevision S E identity name p u arc s = (Inr url, s')"
    using assms by (cases "ParseArchive lib (order E 0) payload") (simp_all add: PushRevision_def)
  then show thesis using that g by blast
qed

lemma DownloadCharm_any:
  "GetPackageByID (svc_repo S) i s = Inr p \<Longrightarrow> requirePackageView S identity p False s = Inr () \<Longrightarrow>
   GetRevisionByNumber (svc_repo S) (pkg_ID p) n s = Inr rv \<Longrightarrow>
     DownloadCharm S identity i n s b = blob_Get (svc_blobs S) (rev_ObjectKey rv) b"
  by (simp add: DownloadCharm_def)

lemma newRevision_ID [simp]: "rev_ID (newRevision i t pkg aid n u arc) = i"
  by (simp add: newRevision_def)

text \<open>A publication succeeds when the identifiers it draws are new.\<close>

lemma upsertResources_succeeds:
  assumes S: "svc_repo S = postgres_repo" and inj: "inj ids"
  shows "references pkg_ID pkg (db_packages db) \<Longrightarrow>
     (\<And>j. i \<le> j \<Longrightarrow> unused rd_ID (ids j) (db_resource_definitions db)) \<Longrightarrow>
     \<exists>db'. upsertResources S ids i t pkg rs db = (Inr (), db')"
proof (induction rs arbitrary: i db)
  case (Cons r rs)
  let ?d = "\<lparr>rd_ID = ids i, rd_PackageID = pkg, rd_Name = fst r, rd_Type = crd_Type (snd r),
      rd_Description = crd_Description (snd r), rd_Filename = crd_Filename (snd r), rd_Optional = False, rd_CreatedAt = t\<rparr>"
  have "\<exists>x db1. Postgres_UpsertResourceDefinition ?d db = (Inr x, db1) \<and> db_packages db1 = db_packages db
     \<and> (\<forall>j \<ge> Suc i. unused rd_ID (ids j) (db_resource_definitions db1))"
  proof (cases "filter (\<lambda>r. rd_PackageID r = rd_PackageID ?d \<and> rd_Name r = rd_Name ?d) (db_resource_definitions db)")
    case Nil
    have "ids i \<noteq> ids j" if "Suc i \<le> j" for j using that inj by (simp add: inj_eq)
    then show ?thesis
      using Nil Cons.prems
      by (simp add: Postgres_UpsertResourceDefinition_def Let_def insertUnless_def unused_def)
  next
    case (Cons x xs)
    then show ?thesis
      using Cons.prems(2)
      by (auto simp: Postgres_UpsertResourceDefinition_def Let_def unused_iff image_updateWhere)
  qed
  then obtain x db1 where d: "Postgres_UpsertResourceDefinition ?d db = (Inr x, db1)" "db_packages db1 = db_packages db"
    "\<And>j. Suc i \<le> j \<Longrightarrow> unused rd_ID (ids j) (db_resource_definitions db1)" by blast
  have ref: "references pkg_ID pkg (db_packages db1)" using Cons.prems(1) d(2) by simp
  obtain db' where "upsertResources S ids (Suc i) t pkg rs db1 = (Inr (), db')"
    using Cons.IH [OF ref, of "Suc i"] d(3) by blast
  then show ?case using d(1) by (cases r) (simp add: S)
qed simp

lemma publish_succeeds:
  assumes S: "svc_repo S = postgres_repo" and inv: "pg_inv db" and p: "Postgres_GetPackageByName name db = Inr p"
    and u: "Postgres_GetUpload (upl_ID u) db = Inr u"
    and n: "n = (case Postgres_GetLatestRevision (pkg_ID p) db of Inr l \<Rightarrow> rev_Revision l + 1 | Inl _ \<Rightarrow> 1)" "int4 n"
    and ids: "inj (uuid E)" "unused rev_ID (uuid E 0) (db_revisions db)"
      "\<And>j. unused rd_ID (uuid E j) (db_resource_definitions db)"
  obtains db' where "publishRevision S E identity name p u arc db = (Inr (reviewURL name (upl_ID u)), db')"
proof -
  obtain row where row: "row \<in> set (db_packages db)" "pkg_ID row = pkg_ID p"
    using p joined_sel unfolding GetPackage_row [OF inv] by metis
  then have pkg: "references pkg_ID (pkg_ID p) (db_packages db)" by (auto simp: references_def list_ex_iff)
  let ?rv = "newRevision (uuid E 0) (now E 0) (pkg_ID p) (acc_ID (idn_Account identity)) n u arc"
  let ?q = "publishedPackage (now E 0) (arc_Manifest arc) p"
  have num: "(case GetLatestRevision (svc_repo S) (pkg_ID p) db of Inr latest \<Rightarrow> Inr (rev_Revision latest + 1)
      | Inl ErrNotFound \<Rightarrow> Inr 1 | Inl err \<Rightarrow> Inl err) = Inr n"
    using GetLatestRevision_row(2) [of "pkg_ID p" db] n(1) by (auto simp: S split: sum.splits goerr.splits)
  have free: "unused (\<lambda>r. (rev_PackageID r, rev_Revision r)) (pkg_ID p, n) (db_revisions db)"
  proof (cases "Postgres_GetLatestRevision (pkg_ID p) db")
    case (Inl e)
    then show ?thesis using GetLatestRevision_row(2) [OF Inl] by (auto simp: unused_iff)
  next
    case (Inr l)
    then show ?thesis using GetLatestRevision_row(1) [OF Inr] n(1) by (fastforce simp: unused_iff)
  qed
  obtain db1 where c1: "Postgres_CreateRevision ?rv db = (Inr (), db1)"
    using n(2) ids(2) free pkg by (simp add: Postgres_CreateRevision_def insertUnless_ok)
  have db1: "db1 = db\<lparr>db_revisions := db_revisions db @ [revisionRowOf ?rv]\<rparr>" by (rule CreateRevision_row(1) [OF c1])
  have "u \<in> set (db_uploads db1)" using u db1 by (auto simp: Postgres_GetUpload_def dest: queryRow_mem)
  then have "\<exists>r \<in> set (db_uploads db1). upl_ID r = upl_ID u" by blast
  then obtain db2 where c2: "Postgres_ApproveUpload (now E 1) (upl_ID u) (Some n) [] db1 = (Inr (), db2)"
    using n(2) by (auto simp: Postgres_ApproveUpload_def affected_def)
  then have db2: "db_packages db2 = db_packages db" "db_resource_definitions db2 = db_resource_definitions db"
    by (auto simp: db1 Postgres_ApproveUpload_def affected_def split: if_splits)
  have "\<exists>r \<in> set (db_packages db2). pkg_ID r = pkg_ID ?q" using row db2(1) by auto
  then obtain db3 where c3: "Postgres_UpdatePackage ?q db2 = (Inr (), db3)"
    by (auto simp: Postgres_UpdatePackage_def affected_def)
  then have db3: "references pkg_ID (pkg_ID p) (db_packages db3)" "db_resource_definitions db3 = db_resource_definitions db"
    using pkg db2 by (auto simp: Postgres_UpdatePackage_def affected_def references_iff image_updateWhere split: if_splits)
  obtain db' where "upsertResources S (uuid E) 1 (now E 0) (pkg_ID p)
      (go_range (order E 1) (man_Resources (arc_Manifest arc))) db3 = (Inr (), db')"
    using upsertResources_succeeds [OF S ids(1) db3(1)] ids(3) db3(2) by metis
  then have "publishRevision S E identity name p u arc db = (Inr (reviewURL name (upl_ID u)), db')"
    unfolding publishRevision_def num using c1 c2 c3 by (simp add: S Let_def)
  then show thesis by (rule that)
qed

lemma push_download:
  assumes S: "svc_repo S = postgres_repo" and inv: "pg_inv db"
    and run: "PushRevision S lib E identity name uid db b = (Inr url, db')"
  shows "\<exists>p u n payload. Postgres_GetPackageByName name db = Inr p \<and> Postgres_GetUpload uid db = Inr u
     \<and> n = (case Postgres_GetLatestRevision (pkg_ID p) db of Inr l \<Rightarrow> rev_Revision l + 1 | Inl _ \<Rightarrow> 1)
     \<and> blob_Get (svc_blobs S) (upl_ObjectKey u) b = Inr payload
     \<and> (\<exists>rv arc. Postgres_GetRevisionByNumber (pkg_ID p) n db' = Inr rv
          \<and> sameRevision (newRevision (uuid E 0) (now E 0) (pkg_ID p) (acc_ID (idn_Account identity)) n u arc) rv)
     \<and> DownloadCharm S identity (pkg_ID p) n db' b = Inr payload
     \<and> (\<forall>i k r. Postgres_GetRevisionByNumber i k db = Inr r \<longrightarrow> Postgres_GetRevisionByNumber i k db' = Inr r)
     \<and> pg_inv db'"
proof -
  obtain p u payload arc where p: "Postgres_GetPackageByName name db = Inr p"
    and manage: "requirePackageManage S identity p permPackageManageRevisions db = Inr ()"
    and u: "Postgres_GetUpload uid db = Inr u" and payload: "blob_Get (svc_blobs S) (upl_ObjectKey u) b = Inr payload"
    and pub: "publishRevision S E identity name p u arc db = (Inr url, db')"
    by (rule PushRevision_Inr_any [OF run]) (simp add: S)
  have inv': "pg_inv db'" using pg_keep.keep_publishRevision [OF S inv, of E identity name p u arc] pub by simp
  obtain n rv where n: "Postgres_GetLatestRevision (pkg_ID p) db = Inl ErrNotFound \<and> n = 1
      \<or> (\<exists>l. Postgres_GetLatestRevision (pkg_ID p) db = Inr l \<and> n = rev_Revision l + 1)"
    and rv: "Postgres_GetRevisionByNumber (pkg_ID p) n db' = Inr rv"
      "sameRevision (newRevision (uuid E 0) (now E 0) (pkg_ID p) (acc_ID (idn_Account identity)) n u arc) rv"
    and old: "\<And>i k r. Postgres_GetRevisionByNumber i k db = Inr r \<Longrightarrow> Postgres_GetRevisionByNumber i k db' = Inr r"
    by (rule pg_revisions.publish_appends [OF S inv pub]) simp
  have same: "sameAccess db db'" using keepsDefs_publish [OF S inv p pub] by (simp add: keepsDefs_def)
  have byID: "Postgres_GetPackageByID (pkg_ID p) db = Inr p" using pg_packages.byName_byID [OF inv] p by simp
  obtain p' where p': "Postgres_GetPackageByID (pkg_ID p) db' = Inr p'" "accessKey p' = accessKey p"
    by (rule package_same [OF inv inv' same byID])
  have "requirePackageView S identity p' False db' = Inr ()"
    by (rule view_same [OF S inv inv' same pg_manage_view [OF S inv manage] p'(2)])
  moreover have "pkg_ID p' = pkg_ID p" using p'(2) by (simp add: accessKey_def)
  moreover have "rev_ObjectKey rv = upl_ObjectKey u"
    using arg_cong [OF rv(2) [unfolded sameRevision_def], of rev_ObjectKey] by simp
  ultimately have "DownloadCharm S identity (pkg_ID p) n db' b = Inr payload"
    using DownloadCharm_any [of S "pkg_ID p" db' p' identity n rv b] p'(1) rv(1) payload by (simp add: S)
  then show ?thesis using p u n payload old inv' rv by (intro exI [of _ p] exI [of _ u] exI [of _ n] exI [of _ payload]) auto
qed

section \<open>Properties\<close>

text \<open>C9: over PostgreSQL a publication that is accepted can be downloaded at once by the publisher, byte for
byte, under a number one past the latest; every revision there was is found unchanged and the tables keep
their constraints.\<close>

theorem postgres_push_download:
  assumes S: "svc_repo S = postgres_repo" and inv: "pg_inv db"
    and run: "PushRevision S lib E identity name uid db b = (Inr url, db')"
  shows "\<exists>p u n payload. Postgres_GetPackageByName name db = Inr p \<and> Postgres_GetUpload uid db = Inr u
     \<and> n = (case Postgres_GetLatestRevision (pkg_ID p) db of Inr l \<Rightarrow> rev_Revision l + 1 | Inl _ \<Rightarrow> 1)
     \<and> blob_Get (svc_blobs S) (upl_ObjectKey u) b = Inr payload
     \<and> DownloadCharm S identity (pkg_ID p) n db' b = Inr payload
     \<and> (\<forall>i k r. Postgres_GetRevisionByNumber i k db = Inr r \<longrightarrow> Postgres_GetRevisionByNumber i k db' = Inr r)
     \<and> pg_inv db'"
  using push_download [OF assms] by blast

text \<open>Alice publishes from any upload of a charm, over any blob store.\<close>

lemma pg_push_from:
  assumes S: "svc_repo S = postgres_repo" and us: "uploads_table us" and u: "queryRow (filter (\<lambda>r. upl_ID r = uid) us) = Inr u"
    and get: "blob_Get (svc_blobs S) (upl_ObjectKey u) b = Inr ''zip''"
  obtains url db' where
    "PushRevision S ex_lib ex_env alice_in ''demo'' uid (pg_shop\<lparr>db_uploads := us\<rparr>) b = (Inr url, db')"
proof -
  let ?db = "pg_shop\<lparr>db_uploads := us\<rparr>"
  obtain arc where arc: "ParseArchive ex_lib (order ex_env 0) ''zip'' = Inr arc"
    unfolding ex_env_def plain_ambient_simps by (rule ex_lib_parses)
  have inv: "pg_inv ?db" using pg_shop_inv us by (simp add: pg_inv_def)
  have latest: "Postgres_GetLatestRevision ''p1'' ?db = Inr (demo_revision 2 ''uploads/u9/demo.charm'')"
    by (simp add: Postgres_GetLatestRevision_def Postgres_ListRevisions_def)
  have p: "Postgres_GetPackageByName ''demo'' ?db = Inr demo_stored_row"
    using pg_demo(1) by (simp add: Postgres_GetPackageByName_def packageQuery_def)
  have manage: "requirePackageManage S alice_in demo_stored_row permPackageManageRevisions ?db = Inr ()"
    by (simp add: requirePackageManage_iff S tokenGrants_def tokenExcludesPackage_def alice_in_def
        Postgres_CanManagePackage_def canAccess_def Let_def)
  have up: "Postgres_GetUpload uid ?db = Inr u" using u by (simp add: Postgres_GetUpload_def)
  then have id: "upl_ID u = uid" by (auto simp: Postgres_GetUpload_def dest: queryRow_mem)
  have "inj (uuid ex_env)" by (simp add: inj_def ex_uuid)
  moreover have "unused rev_ID (uuid ex_env 0) (db_revisions ?db)" by (simp add: unused_def ex_uuid)
  moreover have "unused rd_ID (uuid ex_env j) (db_resource_definitions ?db)" for j by (simp add: unused_def ex_uuid)
  ultimately obtain db' where "publishRevision S ex_env alice_in ''demo'' demo_stored_row u arc ?db
      = (Inr (reviewURL ''demo'' (upl_ID u)), db')"
    using publish_succeeds [OF S inv p, of u 3 ex_env alice_in arc] up id latest by (auto simp: int4_def)
  then have "PushRevision S ex_lib ex_env alice_in ''demo'' uid ?db b = (Inr (reviewURL ''demo'' (upl_ID u)), db')"
    using arc up manage p get by (simp add: PushRevision_def S)
  then show thesis by (rule that)
qed

lemma pg_push:
  obtains url db' where "PushRevision pg_service ex_lib ex_env alice_in ''demo'' ''u1'' pg_shop shop_blobs = (Inr url, db')"
proof (rule pg_push_from [of pg_service "[demo_upload]" "''u1''" demo_upload shop_blobs])
  show "blob_Get (svc_blobs pg_service) (upl_ObjectKey demo_upload) shop_blobs = Inr ''zip''"
    by (simp add: MemoryStore_Get_def shop_blobs_def)
  show "PushRevision pg_service ex_lib ex_env alice_in ''demo'' ''u1'' (pg_shop\<lparr>db_uploads := [demo_upload]\<rparr>) shop_blobs
      = (Inr url, db') \<Longrightarrow> thesis" for url db'
    using that by (simp add: pg_shop_def)
qed (simp_all add: uploads_table_def uniqueBy_def)

lemma postgres_push_download_witness:
  "\<exists>url db' n payload. PushRevision pg_service ex_lib ex_env alice_in ''demo'' ''u1'' pg_shop shop_blobs = (Inr url, db')
     \<and> DownloadCharm pg_service alice_in ''p1'' n db' shop_blobs = Inr payload \<and> n = 3"
proof -
  obtain url db' where run: "PushRevision pg_service ex_lib ex_env alice_in ''demo'' ''u1'' pg_shop shop_blobs = (Inr url, db')"
    by (rule pg_push)
  have "Postgres_GetLatestRevision ''p1'' pg_shop = Inr (demo_revision 2 ''uploads/u9/demo.charm'')"
    by (simp add: Postgres_GetLatestRevision_def Postgres_ListRevisions_def)
  then show ?thesis
    using postgres_push_download [OF pg_service_sel(1) pg_shop_inv run] run pg_demo(1) by auto
qed

text \<open>C22: over PostgreSQL a publication leaves the resources of every package where they were: whatever
revision of a resource could be downloaded before can be downloaded afterwards with the same content.\<close>

theorem postgres_push_keeps_resources:
  assumes S: "svc_repo S = postgres_repo" and inv: "pg_inv db"
    and run: "PushRevision S lib E identity name uid db b = (Inr url, db')"
    and get: "DownloadResource S reader i resourceName n db b = Inr payload"
  shows "DownloadResource S reader i resourceName n db' b = Inr payload"
proof -
  obtain p u arc where p: "Postgres_GetPackageByName name db = Inr p"
    and pub: "publishRevision S E identity name p u arc db = (Inr url, db')"
    by (rule PushRevision_Inr_any [OF run]) (simp add: S)
  have inv': "pg_inv db'" using pg_keep.keep_publishRevision [OF S inv, of E identity name p u arc] pub by simp
  note keeps = keepsDefs_publish [OF S inv p pub]
  then have same: "sameAccess db db'" by (simp add: keepsDefs_def)
  obtain q d rr where q: "Postgres_GetPackageByID i db = Inr q" and view: "requirePackageView S reader q False db = Inr ()"
    and d: "Postgres_GetResourceDefinition (pkg_ID q) resourceName db = Inr d"
    and rr: "Postgres_GetResourceRevision (rd_ID d) n db = Inr rr"
    and content: "(if rr_ObjectKey rr = [] then Inr (rr_OCIImageBlob rr) else blob_Get (svc_blobs S) (rr_ObjectKey rr) b) = Inr payload"
    using get by (auto simp: DownloadResource_def S res_iff)
  obtain q' where q': "Postgres_GetPackageByID i db' = Inr q'" "accessKey q' = accessKey q"
    by (rule package_same [OF inv inv' same q])
  have "requirePackageView S reader q' False db' = Inr ()" by (rule view_same [OF S inv inv' same view q'(2)])
  moreover have "pkg_ID q' = pkg_ID q" using q'(2) by (simp add: accessKey_def)
  moreover obtain d' where "Postgres_GetResourceDefinition (pkg_ID q) resourceName db' = Inr d'" "rd_ID d' = rd_ID d"
    using keeps d unfolding keepsDefs_def by blast
  moreover have "Postgres_GetResourceRevision (rd_ID d) n db' = Inr rr"
    using rr keeps by (simp add: keepsDefs_def Postgres_GetResourceRevision_def Postgres_ListResourceRevisions_def)
  ultimately show ?thesis using q'(1) content by (simp add: DownloadResource_def S)
qed

lemma postgres_push_keeps_resources_witness:
  "\<exists>url db'. PushRevision pg_service ex_lib ex_env alice_in ''demo'' ''u1'' pg_shop shop_blobs = (Inr url, db')
     \<and> DownloadResource pg_service alice_in ''p1'' ''img'' 1 db' shop_blobs = Inr ''img''"
proof -
  obtain url db' where run: "PushRevision pg_service ex_lib ex_env alice_in ''demo'' ''u1'' pg_shop shop_blobs = (Inr url, db')"
    by (rule pg_push)
  have "Postgres_GetResourceDefinition ''p1'' ''img'' pg_shop = Inr demo_resource"
    "Postgres_GetResourceRevision ''d1'' 1 pg_shop = Inr demo_resource_revision"
    by (simp_all add: Postgres_GetResourceDefinition_def Postgres_GetResourceRevision_def Postgres_ListResourceRevisions_def)
  moreover have "requirePackageView pg_service alice_in demo_stored_row False pg_shop = Inr ()"
    by (rule pg_alice_views)
  ultimately have "DownloadResource pg_service alice_in ''p1'' ''img'' 1 pg_shop shop_blobs = Inr ''img''"
    using pg_demo(2) by (simp add: DownloadResource_def MemoryStore_Get_def shop_blobs_def)
  with run show ?thesis
    using postgres_push_keeps_resources [OF pg_service_sel(1) pg_shop_inv run] by blast
qed

section \<open>Resources\<close>

lemma ListResourceRevisions_head:
  assumes "Postgres_ListResourceRevisions i db = Inr rows"
  shows "set rows = {r \<in> set (db_resource_revisions db). rr_ResourceID r = i}"
    and "rows = first # rest \<Longrightarrow> r \<in> set rows \<Longrightarrow> rr_Revision r \<le> rr_Revision first"
proof -
  let ?rows = "filter (\<lambda>r. rr_ResourceID r = i) (db_resource_revisions db)"
  have rows: "rows = sort_key (\<lambda>r. - rr_Revision r) ?rows"
    using assms by (simp add: Postgres_ListResourceRevisions_def)
  show "set rows = {r \<in> set (db_resource_revisions db). rr_ResourceID r = i}" unfolding rows by simp
  have "sorted (map (\<lambda>r. - rr_Revision r) rows)" unfolding rows by simp
  then show "rows = first # rest \<Longrightarrow> r \<in> set rows \<Longrightarrow> rr_Revision r \<le> rr_Revision first" by auto
qed

lemma GetResourceRevision_row:
  assumes inv: "pg_inv db"
  shows "Postgres_GetResourceRevision i n db = Inr r \<longleftrightarrow>
     r \<in> set (db_resource_revisions db) \<and> rr_ResourceID r = i \<and> rr_Revision r = n"
proof -
  obtain rows where rows: "Postgres_ListResourceRevisions i db = Inr rows" by (simp add: Postgres_ListResourceRevisions_def)
  note rset = ListResourceRevisions_head(1) [OF rows]
  have "uniqueBy (\<lambda>r. (rr_ResourceID r, rr_Revision r)) (db_resource_revisions db)"
    using inv by (simp add: pg_inv_def resources_table_def)
  then have inj: "inj_on (\<lambda>r. (rr_ResourceID r, rr_Revision r)) (set (db_resource_revisions db))"
    by (simp add: uniqueBy_def distinct_map)
  show ?thesis
  proof
    assume "Postgres_GetResourceRevision i n db = Inr r"
    then have "find (\<lambda>item. rr_Revision item = n) rows = Some r"
      by (auto simp: Postgres_GetResourceRevision_def rows split: option.splits)
    then have "r \<in> set rows \<and> rr_Revision r = n" by (rule find_SomeD)
    then show "r \<in> set (db_resource_revisions db) \<and> rr_ResourceID r = i \<and> rr_Revision r = n" by (simp add: rset)
  next
    assume r: "r \<in> set (db_resource_revisions db) \<and> rr_ResourceID r = i \<and> rr_Revision r = n"
    show "Postgres_GetResourceRevision i n db = Inr r"
    proof (cases "find (\<lambda>item. rr_Revision item = n) rows")
      case None
      then show ?thesis using r rset by (auto simp: find_None_all)
    next
      case (Some x)
      then have "x \<in> set rows \<and> rr_Revision x = n" by (rule find_SomeD)
      then have "x = r" using r rset inj by (auto simp: inj_on_def)
      then show ?thesis using Some by (simp add: Postgres_GetResourceRevision_def rows)
    qed
  qed
qed

lemma GetResourceDefinition_same:
  "db_resource_definitions db' = db_resource_definitions db \<Longrightarrow>
     Postgres_GetResourceDefinition i name db' = Postgres_GetResourceDefinition i name db"
  by (simp add: Postgres_GetResourceDefinition_def)

lemma newResourceRevision_ID [simp]: "rr_ID (newResourceRevision i t def n req u payload) = i"
  by (simp add: newResourceRevision_def Let_def)

lemma resourceRow_sel [simp]:
  "rr_ObjectKey (resourceRow rr) = rr_ObjectKey rr" "rr_OCIImageBlob (resourceRow rr) = rr_OCIImageBlob rr"
  by (simp_all add: resourceRow_def)

text \<open>C23: over PostgreSQL a resource can be pushed any number of times: the revision gets the number after the
greatest one, its content is what is downloaded under that number, and the revisions before it are found as
they were.\<close>

theorem postgres_resource_push_download:
  assumes S: "svc_repo S = postgres_repo" and inv: "pg_inv db"
    and run: "PushResource S E identity name resourceName req db b = (Inr url, db')"
    and key: "\<And>u. Postgres_GetUpload (prq_UploadID req) db = Inr u \<Longrightarrow> upl_ObjectKey u \<noteq> []"
  shows "\<exists>p d u n payload. Postgres_GetPackageByName name db = Inr p \<and> Postgres_GetUpload (prq_UploadID req) db = Inr u
     \<and> Postgres_GetResourceDefinition (pkg_ID p) resourceName db = Inr d
     \<and> blob_Get (svc_blobs S) (upl_ObjectKey u) b = Inr payload
     \<and> (\<forall>k r. Postgres_GetResourceRevision (rd_ID d) k db = Inr r \<longrightarrow> k < n
            \<and> Postgres_GetResourceRevision (rd_ID d) k db' = Inr r)
     \<and> DownloadResource S identity (pkg_ID p) resourceName n db' b = Inr payload"
proof -
  obtain p d u payload rows n db1 where p: "Postgres_GetPackageByName name db = Inr p"
    and manage: "requirePackageManage S identity p permPackageManageRevisions db = Inr ()"
    and d: "Postgres_GetResourceDefinition (pkg_ID p) resourceName db = Inr d"
    and u: "Postgres_GetUpload (prq_UploadID req) db = Inr u"
    and payload: "blob_Get (svc_blobs S) (upl_ObjectKey u) b = Inr payload"
    and rows: "Postgres_ListResourceRevisions (rd_ID d) db = Inr rows"
    and n: "n = (case rows of [] \<Rightarrow> 1 | r # _ \<Rightarrow> rr_Revision r + 1)"
    and c1: "Postgres_CreateResourceRevision (newResourceRevision (uuid E 0) (now E 0) d n req u payload) db = (Inr (), db1)"
    and c2: "Postgres_ApproveUpload (now E 1) (upl_ID u) (Some n) [] db1 = (Inr (), db')"
    using run by (auto simp: PushResource_def S Let_def res_iff)
  let ?rr = "newResourceRevision (uuid E 0) (now E 0) d n req u payload"
  have db1: "db1 = db\<lparr>db_resource_revisions := db_resource_revisions db @ [resourceRow ?rr]\<rparr>"
    using c1 by (simp add: Postgres_CreateResourceRevision_def insertUnless_Inr)
  have inv': "pg_inv db'"
    using pg_inv_CreateResourceRevision [OF inv] pg_inv_ApproveUpload c1 c2 by (metis snd_conv)
  note approve = same_ApproveUpload [OF c2]
  have same: "sameAccess db db'" using approve db1 by (simp add: sameAccess_def)
  have defs: "db_resource_definitions db' = db_resource_definitions db"
    and revs: "db_resource_revisions db' = db_resource_revisions db @ [resourceRow ?rr]"
    using approve by (simp_all add: db1)
  have old: "k < n \<and> Postgres_GetResourceRevision (rd_ID d) k db' = Inr r"
    if "Postgres_GetResourceRevision (rd_ID d) k db = Inr r" for k r
  proof
    have r: "r \<in> set (db_resource_revisions db)" "rr_ResourceID r = rd_ID d" "rr_Revision r = k"
      using that unfolding GetResourceRevision_row [OF inv] by simp_all
    then have "r \<in> set rows" using ListResourceRevisions_head(1) [OF rows] by simp
    then show "k < n" using ListResourceRevisions_head(2) [OF rows] r(3) unfolding n by (cases rows) fastforce+
    show "Postgres_GetResourceRevision (rd_ID d) k db' = Inr r"
      using r unfolding GetResourceRevision_row [OF inv'] revs by simp
  qed
  have byID: "Postgres_GetPackageByID (pkg_ID p) db = Inr p" using pg_packages.byName_byID [OF inv] p by simp
  obtain p' where p': "Postgres_GetPackageByID (pkg_ID p) db' = Inr p'" "accessKey p' = accessKey p"
    by (rule package_same [OF inv inv' same byID])
  have "requirePackageView S identity p' False db' = Inr ()"
    by (rule view_same [OF S inv inv' same pg_manage_view [OF S inv manage] p'(2)])
  moreover have "pkg_ID p' = pkg_ID p" using p'(2) by (simp add: accessKey_def)
  moreover have "Postgres_GetResourceRevision (rd_ID d) n db' = Inr (resourceRow ?rr)"
    unfolding GetResourceRevision_row [OF inv'] revs by simp
  ultimately have "DownloadResource S identity (pkg_ID p) resourceName n db' b = Inr payload"
    using p'(1) d GetResourceDefinition_same [OF defs] payload key [OF u]
      newResourceRevision_content [of "uuid E 0" "now E 0" d n req u payload]
    by (auto simp: DownloadResource_def S)
  then show ?thesis using p d u payload old
    by (intro exI [of _ p] exI [of _ d] exI [of _ u] exI [of _ n] exI [of _ payload]) simp
qed

lemma postgres_resource_push_download_witness:
  "\<exists>url db' n payload. PushResource pg_service ex_env alice_in ''demo'' ''img'' ex_push_request pg_shop shop_blobs = (Inr url, db')
     \<and> DownloadResource pg_service alice_in ''p1'' ''img'' n db' shop_blobs = Inr payload \<and> 1 < n"
proof -
  let ?rr = "newResourceRevision (uuid ex_env 0) (now ex_env 0) demo_resource 2 ex_push_request demo_upload ''zip''"
  have u: "Postgres_GetUpload (prq_UploadID ex_push_request) pg_shop = Inr demo_upload"
    by (simp add: Postgres_GetUpload_def ex_push_request_def)
  have d: "Postgres_GetResourceDefinition ''p1'' ''img'' pg_shop = Inr demo_resource"
    "Postgres_ListResourceRevisions ''d1'' pg_shop = Inr [demo_resource_revision]"
    "Postgres_GetResourceRevision ''d1'' 1 pg_shop = Inr demo_resource_revision"
    by (simp_all add: Postgres_GetResourceDefinition_def Postgres_ListResourceRevisions_def Postgres_GetResourceRevision_def)
  have "Postgres_CreateResourceRevision ?rr pg_shop =
      (Inr (), pg_shop\<lparr>db_resource_revisions := [demo_resource_revision, resourceRow ?rr]\<rparr>)"
    by (simp add: Postgres_CreateResourceRevision_def insertUnless_def ex_uuid int4_def unused_def references_def)
  then obtain url db' where run:
      "PushResource pg_service ex_env alice_in ''demo'' ''img'' ex_push_request pg_shop shop_blobs = (Inr url, db')"
    using u d pg_demo(1) pg_alice_manages
    by (simp add: PushResource_def MemoryStore_Get_def shop_blobs_def Let_def Postgres_ApproveUpload_def affected_def int4_def)
  have key: "upl_ObjectKey u \<noteq> []" if "Postgres_GetUpload (prq_UploadID ex_push_request) pg_shop = Inr u" for u
    using that u by simp
  show ?thesis
    using postgres_resource_push_download [OF pg_service_sel(1) pg_shop_inv run key] run pg_demo(1) d by auto
qed

end
