(* ===== verification/PostgresSearch.thy ===== *)
theory PostgresSearch
  imports PostgresExamples
begin

text \<open>
  Searching over PostgreSQL: the query of a client becomes a pattern of \<^verbatim>\<open>ILIKE\<close> without being escaped.  Without
  the characters that mean something in a pattern the search is the one of the in-memory repository.
\<close>

section \<open>Lemmas\<close>

definition plainText :: "string \<Rightarrow> bool" where
  "plainText s \<longleftrightarrow> list_all (\<lambda>c. c \<noteq> CHR ''%'' \<and> c \<noteq> CHR ''_'' \<and> c \<noteq> CHR 0x5C) s"

lemma like_percent [simp]: "like ''%'' s"
  by (induction s) simp_all

lemma like_prefix: "plainText p \<Longrightarrow> like (p @ ''%'') s \<longleftrightarrow> hasPrefix s p"
proof (induction p arbitrary: s)
  case Nil
  then show ?case using like_percent [of s] by (simp only: append.simps) (simp add: hasPrefix_def)
next
  case (Cons c p)
  then show ?case by (cases s) (auto simp: plainText_def hasPrefix_def)
qed

lemma like_contains: "plainText p \<Longrightarrow> like (''%'' @ p @ ''%'') s \<longleftrightarrow> containsStr s p"
proof (induction s)
  case Nil
  have "like (''%'' @ p @ ''%'') [] \<longleftrightarrow> like (p @ ''%'') []" by simp
  then show ?case using like_prefix [OF Nil, of "[]"] by (auto simp: hasPrefix_def)
next
  case (Cons c s)
  have "like (''%'' @ p @ ''%'') (c # s) \<longleftrightarrow> like (p @ ''%'') (c # s) \<or> like (''%'' @ p @ ''%'') s" by simp
  then show ?case using Cons like_prefix [OF Cons.prems, of "c # s"] by simp
qed

lemma lowerChar_code:
  "of_char (lowerChar c) = (let k = (of_char c :: nat) in if 65 \<le> k \<and> k \<le> 90 then k + 32 else k)"
  by (simp add: lowerChar_def Let_def)

lemma lowerChar_special:
  "lowerChar c = CHR ''%'' \<longleftrightarrow> c = CHR ''%''" "lowerChar c = CHR ''_'' \<longleftrightarrow> c = CHR ''_''"
  "lowerChar c = CHR 0x5C \<longleftrightarrow> c = CHR 0x5C"
proof -
  have code: "c = d \<longleftrightarrow> (of_char c :: nat) = of_char d" for c d :: char by (simp add: of_char_eq_iff)
  have codes: "(of_char (CHR ''%'') :: nat) = 37" "(of_char (CHR ''_'') :: nat) = 95" "(of_char (CHR 0x5C) :: nat) = 92"
    by simp_all
  show "lowerChar c = CHR ''%'' \<longleftrightarrow> c = CHR ''%''" "lowerChar c = CHR ''_'' \<longleftrightarrow> c = CHR ''_''"
    "lowerChar c = CHR 0x5C \<longleftrightarrow> c = CHR 0x5C"
    unfolding code lowerChar_code codes Let_def by auto
qed

lemma plainText_lower: "plainText (toLower s) = plainText s"
  by (simp add: plainText_def toLower_def list.pred_map comp_def lowerChar_special)

lemma toLower_append: "toLower (a @ b) = toLower a @ toLower b"
  by (simp add: toLower_def)

text \<open>What the in-memory repository calls a match.\<close>

definition nameMatches :: "string \<Rightarrow> package \<Rightarrow> bool" where
  "nameMatches query pkg \<longleftrightarrow> containsStr (toLower (pkg_Name pkg)) (toLower (trimSpace query))"

lemma Memory_SearchPackages_matches:
  "Memory_SearchPackages sh query m = Inr (filter (nameMatches query) (go_range sh (map snd (packages m))))"
proof -
  have "needle = [] \<or> containsStr s needle \<longleftrightarrow> containsStr s needle" for s needle by auto
  then show ?thesis by (simp only: Memory_SearchPackages_def Let_def nameMatches_def [abs_def])
qed

lemma ilike_plain:
  assumes "plainText (trimSpace query)"
  shows "ilike name (searchPattern query) = containsStr (toLower name) (toLower (trimSpace query))"
proof (cases "trimSpace query = []")
  case True
  have "toLower ''%'' = ''%''" by code_simp
  then have "ilike name (searchPattern query)"
    using True like_percent by (simp only: searchPattern_def ilike_def Let_def simp_thms if_False)
  then show ?thesis using True by (simp add: toLower_def)
next
  case False
  have "toLower ''%'' = ''%''" by code_simp
  then have "toLower (searchPattern query) = ''%'' @ toLower (trimSpace query) @ ''%''"
    using False by (simp only: searchPattern_def Let_def toLower_append if_True simp_thms)
  then show ?thesis
    using like_contains [of "toLower (trimSpace query)"] assms plainText_lower [of "trimSpace query"]
    by (simp only: ilike_def)
qed

lemma packageQuery_set:
  assumes inv: "pg_inv db"
  shows "x \<in> set (packageQuery P db) \<longleftrightarrow> (\<exists>p. joined x p db \<and> P p)"
proof -
  have "x \<in> set (packageQuery P db) \<longleftrightarrow>
      (\<exists>p \<in> set (db_packages db). P p \<and> x \<in> scanPackage p ` set (filter (\<lambda>a. acc_ID a = pkg_OwnerAccountID p) (db_accounts db)))"
    by (auto simp: packageQuery_def)
  also have "\<dots> \<longleftrightarrow> (\<exists>p. joined x p db \<and> P p)"
  proof
    assume "\<exists>p \<in> set (db_packages db). P p \<and> x \<in> scanPackage p ` set (filter (\<lambda>a. acc_ID a = pkg_OwnerAccountID p) (db_accounts db))"
    then obtain p where p: "p \<in> set (db_packages db)" "P p"
      "x \<in> scanPackage p ` set (filter (\<lambda>a. acc_ID a = pkg_OwnerAccountID p) (db_accounts db))" by blast
    obtain a where a: "filter (\<lambda>x. acc_ID x = pkg_OwnerAccountID p) (db_accounts db) = [a]" by (rule package_owner [OF inv p(1)])
    then have "x = scanPackage p a" using p(3) by simp
    then have "joined x p db" using p(1) a by (simp add: joined_def)
    then show "\<exists>p. joined x p db \<and> P p" using p(2) by blast
  next
    assume "\<exists>p. joined x p db \<and> P p"
    then obtain p a where p: "p \<in> set (db_packages db)" "P p" "x = scanPackage p a"
      and a: "filter (\<lambda>x. acc_ID x = pkg_OwnerAccountID p) (db_accounts db) = [a]"
      unfolding joined_def by blast
    show "\<exists>p \<in> set (db_packages db). P p \<and> x \<in> scanPackage p ` set (filter (\<lambda>a. acc_ID a = pkg_OwnerAccountID p) (db_accounts db))"
      by (rule bexI [of _ p]) (simp_all only: p a list.set image_insert image_empty singleton_iff simp_thms)
  qed
  finally show ?thesis .
qed

text \<open>A search lists exactly the packages whose name satisfies the condition.\<close>

definition packagesOf :: "database \<Rightarrow> package set" where
  "packagesOf db = {x. Postgres_GetPackageByName (pkg_Name x) db = Inr x}"

lemma search_set:
  assumes inv: "pg_inv db" and P: "\<And>n. ilike n (searchPattern query) = P n"
  shows "\<exists>out. Postgres_SearchPackages sh query db = Inr out \<and> set out = {x \<in> packagesOf db. P (pkg_Name x)}"
proof -
  have "x \<in> set (packageQuery (\<lambda>p. P (pkg_Name p)) db) \<longleftrightarrow> x \<in> packagesOf db \<and> P (pkg_Name x)" for x
  proof -
    have name: "joined x p db \<Longrightarrow> pkg_Name p = pkg_Name x" for p using joined_sel by metis
    have "(\<exists>p. joined x p db \<and> P (pkg_Name p)) \<longleftrightarrow> (\<exists>p. joined x p db \<and> pkg_Name p = pkg_Name x) \<and> P (pkg_Name x)"
      using name by metis
    then show ?thesis
      unfolding packageQuery_set [OF inv] packagesOf_def mem_Collect_eq GetPackage_row [OF inv] .
  qed
  then show ?thesis by (simp add: Postgres_SearchPackages_def P set_eq_iff)
qed

lemma pg_shop_packages: "packagesOf pg_shop = {demo_stored_row}"
proof -
  have "x = demo_stored_row" if hit: "Postgres_GetPackageByName (pkg_Name x) pg_shop = Inr x" for x
  proof -
    obtain p where "joined x p pg_shop" using hit unfolding GetPackage_row [OF pg_shop_inv] by blast
    then show ?thesis by (auto simp: joined_def demo_stored_row_def)
  qed
  then show ?thesis using pg_demo(1) by (auto simp: packagesOf_def)
qed

definition search_memory :: memory where
  "search_memory = NewMemory\<lparr>packages := [(''demo'', demo_stored_row)]\<rparr>"

lemma search_memory_same: "set (map snd (packages search_memory)) = packagesOf pg_shop"
  by (simp add: search_memory_def pg_shop_packages)

section \<open>Properties\<close>

text \<open>A search for text without \<^verbatim>\<open>%\<close>, \<^verbatim>\<open>_\<close> and backslash gives over PostgreSQL exactly the packages it gives over
the in-memory repository with the same packages: those whose name contains the text, whatever the case.\<close>

lemma search_plain_agrees:
  assumes inv: "pg_inv db" and plain: "plainText (trimSpace query)"
    and same: "set (map snd (packages m)) = packagesOf db"
  shows "\<exists>out out'. Postgres_SearchPackages sh query db = Inr out \<and> Memory_SearchPackages sh' query m = Inr out'
     \<and> set out = set out' \<and> set out = {x \<in> packagesOf db. containsStr (toLower (pkg_Name x)) (toLower (trimSpace query))}"
proof -
  from search_set [OF inv, of query "\<lambda>n. containsStr (toLower n) (toLower (trimSpace query))" sh, OF ilike_plain [OF plain]]
  obtain out where out: "Postgres_SearchPackages sh query db = Inr out"
      "set out = {x \<in> packagesOf db. containsStr (toLower (pkg_Name x)) (toLower (trimSpace query))}"
    by blast
  moreover have "set (filter (nameMatches query) (go_range sh' (map snd (packages m)))) = set out"
    using same unfolding out(2) by (auto simp: nameMatches_def)
  ultimately show ?thesis unfolding Memory_SearchPackages_matches by blast
qed

lemma search_plain_agrees_witness:
  "\<exists>out out'. Postgres_SearchPackages in_order ''EM'' pg_shop = Inr out \<and> Memory_SearchPackages in_order ''EM'' search_memory = Inr out'
     \<and> demo_stored_row \<in> set out \<and> demo_stored_row \<in> set out'"
proof -
  have texts: "trimSpace ''EM'' = ''EM''" "plainText ''EM''" "containsStr (toLower ''demo'') (toLower ''EM'')" by code_simp+
  show ?thesis
    using search_plain_agrees [OF pg_shop_inv _ search_memory_same, of "''EM''" in_order in_order] texts
    by (auto simp: pg_shop_packages)
qed

text \<open>Over PostgreSQL the query \<^verbatim>\<open>_\<close> finds every package, because it reaches the pattern as it is; over the
in-memory repository it finds the packages with an underscore in their name.\<close>

lemma search_underscore_finds_everything:
  assumes inv: "pg_inv db" and same: "set (map snd (packages m)) = packagesOf db"
  shows "\<exists>out out'. Postgres_SearchPackages sh ''_'' db = Inr out \<and> Memory_SearchPackages sh' ''_'' m = Inr out'
     \<and> set out = {x \<in> packagesOf db. pkg_Name x \<noteq> []} \<and> set out' = {x \<in> packagesOf db. CHR ''_'' \<in> set (toLower (pkg_Name x))}"
proof -
  have pattern: "trimSpace ''_'' = ''_''" "toLower (searchPattern ''_'') = ''%_%''" "toLower ''_'' = ''_''" by code_simp+
  have "like ''%_%'' s \<longleftrightarrow> s \<noteq> []" for s
  proof (induction s)
    case (Cons c s)
    have "like ''%_%'' (c # s) \<longleftrightarrow> like ''_%'' (c # s) \<or> like ''%_%'' s" by simp
    moreover have "like ''_%'' (c # s)" using like_percent [of s] by (subst like.simps(2)) simp
    ultimately show ?case by simp
  qed simp
  then have "ilike name (searchPattern ''_'') \<longleftrightarrow> name \<noteq> []" for name
    by (simp only: ilike_def pattern) (simp add: toLower_def)
  from search_set [OF inv, of "''_''" "\<lambda>n. n \<noteq> []" sh, OF this]
  obtain out where "Postgres_SearchPackages sh ''_'' db = Inr out" "set out = {x \<in> packagesOf db. pkg_Name x \<noteq> []}" by blast
  moreover have "set (filter (nameMatches ''_'') (go_range sh' (map snd (packages m)))) =
      {x \<in> packagesOf db. CHR ''_'' \<in> set (toLower (pkg_Name x))}"
    using same by (auto simp: nameMatches_def pattern containsStr_single)
  ultimately show ?thesis unfolding Memory_SearchPackages_matches by blast
qed

lemma search_underscore_finds_everything_witness:
  "\<exists>out out'. Postgres_SearchPackages in_order ''_'' pg_shop = Inr out \<and> Memory_SearchPackages in_order ''_'' search_memory = Inr out'
     \<and> set out = {demo_stored_row} \<and> set out' = {}"
proof -
  have lower: "toLower (pkg_Name demo_stored_row) = ''demo''" unfolding demo_row_sel by code_simp
  obtain out out' where "Postgres_SearchPackages in_order ''_'' pg_shop = Inr out"
    "Memory_SearchPackages in_order ''_'' search_memory = Inr out'"
    and all: "set out = {x \<in> {demo_stored_row}. pkg_Name x \<noteq> []}"
    and named: "set out' = {x \<in> {demo_stored_row}. CHR ''_'' \<in> set (toLower (pkg_Name x))}"
    using search_underscore_finds_everything [OF pg_shop_inv search_memory_same, of in_order in_order]
    unfolding pg_shop_packages by blast
  moreover have "set out = {demo_stored_row}" unfolding all by auto
  moreover have "set out' = {}" unfolding named Collect_empty_eq using lower by auto
  ultimately show ?thesis by blast
qed

end
