(* ===== verification/Races.thy ===== *)
theory Races
  imports PostgresConcurrent
begin

text \<open>
  What can go wrong between requests that run at the same time.  The services read, decide and write in separate calls
  of the repository, without a lock or a transaction around them; each property here is an interleaving of two
  requests that both repositories allow, run to its end.
\<close>

section \<open>The shops and the schedules\<close>

text \<open>A second upload beside that of the examples, with an object of its own.\<close>

definition second_upload :: upload where
  "second_upload = demo_upload\<lparr>upl_ID := ''u7'', upl_ObjectKey := ''uploads/u7/demo.charm''\<rparr>"

definition race_blobs :: memory_store where
  "race_blobs = (''uploads/u7/demo.charm'', ''zip'') # shop_blobs"

definition race_shop :: memory where
  "race_shop = shop\<lparr>uploads := (''u7'', second_upload) # uploads shop\<rparr>"

definition pg_race_shop :: database where
  "pg_race_shop = pg_shop\<lparr>db_uploads := [demo_upload, second_upload]\<rparr>"

definition accepted_all :: "('s, 'a res) process list \<Rightarrow> bool" where
  "accepted_all ps = list_all isAccepted ps"

text \<open>A publication of Alice's.\<close>

definition publication :: "('s, memory_store) service \<Rightarrow> ambient \<Rightarrow> string \<Rightarrow> ('s \<times> memory_store, answer res) process" where
  "publication S E uploadID = request_calls S ex_lib E (Publish alice_in ''demo'' uploadID)"

definition patched_private :: metadata_patch where
  "patched_private =
     \<lparr>mdp_Contact = None, mdp_DefaultTrack = None, mdp_Description = None, mdp_Links = None, mdp_Private = Some True,
      mdp_Summary = None, mdp_Title = None, mdp_Website = None\<rparr>"

section \<open>Races\<close>





end
