(* ===== verification/Startup.thy ===== *)
theory Startup
  imports Config PostgresService
begin

text \<open>
  The start of the process: \<^verbatim>\<open>cmd/charm-registry/main.go\<close>, \<^verbatim>\<open>internal/app/app.go\<close>, \<^verbatim>\<open>blob.NewS3Store\<close>,
  \<^verbatim>\<open>repo.NewPostgres\<close> with \<^verbatim>\<open>Migrate\<close>, and \<^verbatim>\<open>auth.New\<close>.  The AWS SDK, the connection pool, the OIDC discovery and
  the embedded migration files are parameters.  The properties are about the service that is built: the PostgreSQL
  repository over an S3 bucket.
\<close>

section \<open>Libraries\<close>

text \<open>The options of \<^verbatim>\<open>LoadDefaultConfig\<close>; static credentials and a base endpoint only when they are configured.\<close>

record aws_options =
  aws_Region :: string
  aws_Credentials :: "(string \<times> string) option"
  aws_BaseEndpoint :: "string option"

text \<open>
  \<open>lib_S3\<close> is \<^verbatim>\<open>LoadDefaultConfig\<close> followed by \<^verbatim>\<open>s3.NewFromConfig\<close>, whose argument is \<^verbatim>\<open>UsePathStyle\<close>;
  \<open>lib_Pool\<close> is \<^verbatim>\<open>pgxpool.New\<close>; \<open>lib_Exec\<close> runs the text of a migration; \<open>lib_Migrations\<close> is the embedded
  directory with the result of reading each file; \<open>lib_Provider\<close> is \<^verbatim>\<open>oidc.NewProvider\<close>, whose result gives a verifier
  for a client identifier.
\<close>

record 'c libraries =
  lib_S3 :: "aws_options \<Rightarrow> (bool \<Rightarrow> 'c s3_api) res"
  lib_Pool :: "string \<Rightarrow> unit res"
  lib_Migrations :: "(string \<times> string res) list res"
  lib_Exec :: "string \<Rightarrow> database \<Rightarrow> unit res \<times> database"
  lib_Provider :: "string \<Rightarrow> (string \<Rightarrow> verifier) res"

section \<open>The blob store\<close>

definition newS3StoreWithClient :: "'c s3_api \<Rightarrow> string \<Rightarrow> string \<Rightarrow> bool \<Rightarrow> 'c s3_store" where
  "newS3StoreWithClient client bucket region isS3 =
     \<lparr>s3_client = client, s3_bucket = bucket, s3_region = region, s3_isS3 = isS3\<rparr>"

definition awsOptions :: "config \<Rightarrow> aws_options" where
  "awsOptions cfg =
     \<lparr>aws_Region = cfg_S3Region cfg,
      aws_Credentials =
        (if cfg_S3AccessKeyID cfg \<noteq> [] \<or> cfg_S3SecretAccessKey cfg \<noteq> []
         then Some (cfg_S3AccessKeyID cfg, cfg_S3SecretAccessKey cfg) else None),
      aws_BaseEndpoint = (if cfg_S3Endpoint cfg \<noteq> [] then Some (cfg_S3Endpoint cfg) else None)\<rparr>"

definition NewS3Store :: "'c libraries \<Rightarrow> config \<Rightarrow> 'c \<Rightarrow> 'c s3_store res \<times> 'c" where
  "NewS3Store L cfg c =
     rd_bind (lib_S3 L (awsOptions cfg)) c (\<lambda>client.
     let store = newS3StoreWithClient (client (cfg_S3UsePathStyle cfg)) (cfg_S3Bucket cfg) (cfg_S3Region cfg)
                   (cfg_S3Endpoint cfg = []) in
     st_bind (S3Store_ensureBucket store c) (\<lambda>_ c1. (Inr store, c1)))"

section \<open>The repository\<close>

definition NewPostgres :: "'c libraries \<Rightarrow> string \<Rightarrow> database repository res" where
  "NewPostgres L databaseURL = res_bind (lib_Pool L databaseURL) (\<lambda>_. Inr postgres_repo)"

fun applyMigrations :: "(string \<Rightarrow> database \<Rightarrow> unit res \<times> database) \<Rightarrow> (string \<times> string res) list \<Rightarrow> database
    \<Rightarrow> unit res \<times> database" where
  "applyMigrations exec [] db = (Inr (), db)"
| "applyMigrations exec ((name, content) # entries) db =
     rd_bind content db (\<lambda>payload.
     st_bind (map_err_st (\<lambda>err. Errorf (''cannot apply migration '' @ name @ '': '' @ errText err)) (exec payload db))
       (\<lambda>_ db1. applyMigrations exec entries db1))"

definition Migrate :: "'c libraries \<Rightarrow> database \<Rightarrow> unit res \<times> database" where
  "Migrate L db = rd_bind (lib_Migrations L) db (\<lambda>entries. applyMigrations (lib_Exec L) entries db)"

section \<open>The authenticator\<close>

definition Auth_New :: "'c libraries \<Rightarrow> config \<Rightarrow> authenticator res" where
  "Auth_New L cfg =
     (if cfg_OIDCIssuerURL cfg \<noteq> [] \<and> cfg_OIDCClientID cfg \<noteq> []
      then
        res_bind (map_err (\<lambda>err. Errorf (''cannot configure OIDC provider: '' @ errText err))
                    (lib_Provider L (cfg_OIDCIssuerURL cfg))) (\<lambda>provider.
        Inr \<lparr>au_config = cfg, au_verifier = Some (provider (cfg_OIDCClientID cfg))\<rparr>)
      else Inr \<lparr>au_config = cfg, au_verifier = None\<rparr>)"

section \<open>The application\<close>

text \<open>What an error leaves behind is what the steps before it did: a bucket, migrated tables.\<close>

definition App_New :: "'c libraries \<Rightarrow> config \<Rightarrow> database \<times> 'c \<Rightarrow> (database, 'c) api res \<times> database \<times> 'c" where
  "App_New L cfg = (\<lambda>(db, c).
     case NewS3Store L cfg c of
       (Inl err, c1) \<Rightarrow> (Inl err, (db, c1))
     | (Inr storage, c1) \<Rightarrow>
         rd_bind (NewPostgres L (cfg_DatabaseURL cfg)) (db, c1) (\<lambda>repository.
         case Migrate L db of
           (Inl err, db1) \<Rightarrow> (Inl err, (db1, c1))
         | (Inr _, db1) \<Rightarrow>
             rd_bind (Auth_New L cfg) (db1, c1) (\<lambda>authenticator.
             (Inr \<lparr>api_cfg = cfg, api_svc = NewService cfg repository (s3_blobs storage), api_auth = authenticator\<rparr>, (db1, c1)))))"

text \<open>\<^verbatim>\<open>log.Fatalf\<close> ends the process; otherwise it listens at the address with the handler.\<close>

datatype ('s, 'b) outcome = Fatalf string | Listening string "('s, 'b) api"

definition main ::
    "'c libraries \<Rightarrow> (string \<Rightarrow> int res) \<Rightarrow> environment \<Rightarrow> database \<times> 'c \<Rightarrow> (database, 'c) outcome \<times> database \<times> 'c" where
  "main L parseDuration en sc =
     (case Load parseDuration en of
        Inl err \<Rightarrow> (Fatalf (''load config: '' @ errText err), sc)
      | Inr cfg \<Rightarrow>
          (case App_New L cfg sc of
             (Inl err, sc1) \<Rightarrow> (Fatalf (''build application: '' @ errText err), sc1)
           | (Inr application, sc1) \<Rightarrow> (Listening (cfg_ListenAddress cfg) application, sc1)))"

section \<open>Lemmas\<close>

text \<open>The consistency S3 documents: a successful put of a key is what every later get of the key in the bucket returns,
and puts do not disturb other keys.\<close>

definition s3_consistent :: "'c s3_api \<Rightarrow> bool" where
  "s3_consistent client \<longleftrightarrow>
     (\<forall>bucket key payload ct c c'. PutObject client bucket key payload ct c = (Inr (), c') \<longrightarrow>
        GetObject client bucket key c' = Inr (Inr payload))
     \<and> (\<forall>bucket key key' payload ct c r c'. PutObject client bucket key payload ct c = (r, c') \<longrightarrow> key' \<noteq> key \<longrightarrow>
        GetObject client bucket key' c' = GetObject client bucket key' c)"

lemma s3_blobs_sel [simp]: "blob_Put (s3_blobs st) = S3Store_Put st" "blob_Get (s3_blobs st) = S3Store_Get st"
  by (simp_all add: s3_blobs_def)

lemma s3_contract: "s3_consistent (s3_client st) \<Longrightarrow> blob_contract (s3_blobs st)"
  by unfold_locales (auto simp: s3_consistent_def S3Store_Put_def S3Store_Get_def)

lemma App_New_Inr:
  assumes "App_New L cfg (db, c) = (Inr A, (db', c'))"
  obtains client storage where "lib_S3 L (awsOptions cfg) = Inr client"
    and "storage = newS3StoreWithClient (client (cfg_S3UsePathStyle cfg)) (cfg_S3Bucket cfg) (cfg_S3Region cfg) (cfg_S3Endpoint cfg = [])"
    and "S3Store_ensureBucket storage c = (Inr (), c')" and "Migrate L db = (Inr (), db')"
    and "api_svc A = NewService cfg postgres_repo (s3_blobs storage)" and "api_cfg A = cfg" and "Auth_New L cfg = Inr (api_auth A)"
proof -
  obtain storage c1 where st: "NewS3Store L cfg c = (Inr storage, c1)"
    using assms by (cases "NewS3Store L cfg c"; cases "fst (NewS3Store L cfg c)") (auto simp: App_New_def)
  obtain db1 where mig: "Migrate L db = (Inr (), db1)"
    using assms st by (cases "Migrate L db"; cases "fst (Migrate L db)") (auto simp: App_New_def res_iff)
  have rest: "lib_Pool L (cfg_DatabaseURL cfg) = Inr ()" "db1 = db'" "c1 = c'" "Auth_New L cfg = Inr (api_auth A)"
      "api_svc A = NewService cfg postgres_repo (s3_blobs storage)" "api_cfg A = cfg"
    using assms st mig by (auto simp: App_New_def NewPostgres_def res_iff)
  obtain client where "lib_S3 L (awsOptions cfg) = Inr client"
      "storage = newS3StoreWithClient (client (cfg_S3UsePathStyle cfg)) (cfg_S3Bucket cfg) (cfg_S3Region cfg) (cfg_S3Endpoint cfg = [])"
      "S3Store_ensureBucket storage c = (Inr (), c1)"
    using st by (auto simp: NewS3Store_def Let_def res_iff)
  then show thesis using that mig rest by blast
qed

lemma main_Listening:
  assumes "main L parseDuration en (db, c) = (Listening addr A, (db', c'))"
  shows "Load parseDuration en = Inr (api_cfg A) \<and> addr = cfg_ListenAddress (api_cfg A)
     \<and> App_New L (api_cfg A) (db, c) = (Inr A, (db', c'))"
proof -
  obtain cfg where cfg: "Load parseDuration en = Inr cfg" and app: "App_New L cfg (db, c) = (Inr A, (db', c'))"
      and "addr = cfg_ListenAddress cfg"
    using assms by (auto simp: main_def split: sum.splits prod.splits)
  moreover have "api_cfg A = cfg" by (rule App_New_Inr [OF app])
  ultimately show ?thesis by simp
qed

lemma Auth_New_verifier:
  "Auth_New L cfg = Inr a \<Longrightarrow> au_verifier a \<noteq> None \<longleftrightarrow> cfg_OIDCIssuerURL cfg \<noteq> [] \<and> cfg_OIDCClientID cfg \<noteq> []"
  by (auto simp: Auth_New_def res_iff split: if_splits)

section \<open>Properties\<close>

text \<open>When the process listens, the configuration was read from the environment with a database URL, the bucket
exists or was just created (with a location constraint only towards S3 itself and outside the default region), every
migration was executed, static credentials were sent only if one of the two is configured, the service runs over the
PostgreSQL repository, and OIDC tokens are verified exactly when both an issuer and a client are configured.\<close>

lemma listening_is_configured:
  assumes "main L parseDuration en (db, c) = (Listening addr A, (db', c'))"
  shows "\<exists>client st. Load parseDuration en = Inr (api_cfg A) \<and> cfg_DatabaseURL (api_cfg A) \<noteq> []
     \<and> lib_S3 L (awsOptions (api_cfg A)) = Inr client
     \<and> svc_blobs (api_svc A) = s3_blobs st \<and> s3_bucket st = cfg_S3Bucket (api_cfg A)
     \<and> s3_client st = client (cfg_S3UsePathStyle (api_cfg A))
     \<and> (c' = c \<or> (\<exists>constraint. CreateBucket (s3_client st) (s3_bucket st) constraint c = (Inr (), c')
          \<and> (constraint \<noteq> None \<longleftrightarrow> cfg_S3Endpoint (api_cfg A) = [] \<and> cfg_S3Region (api_cfg A) \<notin> {[], ''us-east-1''})))
     \<and> (aws_Credentials (awsOptions (api_cfg A)) = None \<longleftrightarrow>
          cfg_S3AccessKeyID (api_cfg A) = [] \<and> cfg_S3SecretAccessKey (api_cfg A) = [])
     \<and> Migrate L db = (Inr (), db') \<and> svc_repo (api_svc A) = postgres_repo
     \<and> (au_verifier (api_auth A) \<noteq> None \<longleftrightarrow> cfg_OIDCIssuerURL (api_cfg A) \<noteq> [] \<and> cfg_OIDCClientID (api_cfg A) \<noteq> [])"
proof -
  note run = main_Listening [OF assms]
  let ?cfg = "api_cfg A"
  have url: "cfg_DatabaseURL ?cfg \<noteq> []" using run by (auto simp: Load_def Let_def split: if_splits)
  obtain client storage where st: "lib_S3 L (awsOptions ?cfg) = Inr client"
      "storage = newS3StoreWithClient (client (cfg_S3UsePathStyle ?cfg)) (cfg_S3Bucket ?cfg) (cfg_S3Region ?cfg) (cfg_S3Endpoint ?cfg = [])"
    and bucket: "S3Store_ensureBucket storage c = (Inr (), c')" and mig: "Migrate L db = (Inr (), db')"
    and svc: "api_svc A = NewService ?cfg postgres_repo (s3_blobs storage)" and au: "Auth_New L ?cfg = Inr (api_auth A)"
    using App_New_Inr [of L ?cfg db c A db' c'] run by metis
  have "c' = c \<or> (\<exists>constraint. CreateBucket (s3_client storage) (s3_bucket storage) constraint c = (Inr (), c')
      \<and> (constraint \<noteq> None \<longleftrightarrow> cfg_S3Endpoint ?cfg = [] \<and> cfg_S3Region ?cfg \<notin> {[], ''us-east-1''}))"
    using bucket unfolding S3Store_ensureBucket_def st(2) newS3StoreWithClient_def
    by (auto split: sum.splits if_splits)
  moreover have "au_verifier (api_auth A) \<noteq> None \<longleftrightarrow> cfg_OIDCIssuerURL ?cfg \<noteq> [] \<and> cfg_OIDCClientID ?cfg \<noteq> []"
    by (rule Auth_New_verifier [OF au])
  moreover have "aws_Credentials (awsOptions ?cfg) = None \<longleftrightarrow> cfg_S3AccessKeyID ?cfg = [] \<and> cfg_S3SecretAccessKey ?cfg = []"
    by (simp add: awsOptions_def)
  ultimately show ?thesis
    using run url st mig svc by (intro exI [of _ client] exI [of _ storage]) (auto simp: NewService_def newS3StoreWithClient_def)
qed

text \<open>A bucket as a map, the other libraries doing the least they can.\<close>

definition ex_s3 :: "((string \<times> string) \<times> bytes) list s3_api" where
  "ex_s3 =
     \<lparr>HeadBucket = (\<lambda>bucket c. Inr ()), CreateBucket = (\<lambda>bucket constraint c. (Inr (), c)),
      PutObject = (\<lambda>bucket key payload ct c. (Inr (), AList.update (bucket, key) payload c)),
      GetObject = (\<lambda>bucket key c.
        case map_of c (bucket, key) of None \<Rightarrow> Inl (Errorf ''NoSuchKey'') | Some payload \<Rightarrow> Inr (Inr payload))\<rparr>"

definition ex_libraries :: "((string \<times> string) \<times> bytes) list libraries" where
  "ex_libraries =
     \<lparr>lib_S3 = (\<lambda>opts. Inr (\<lambda>style. ex_s3)), lib_Pool = (\<lambda>url. Inr ()),
      lib_Migrations = Inr [(''0001_init.sql'', Inr ''CREATE TABLE IF NOT EXISTS'')], lib_Exec = (\<lambda>sql db. (Inr (), db)),
      lib_Provider = (\<lambda>issuer. Inl (Errorf ''no provider''))\<rparr>"

lemma ex_s3_consistent: "s3_consistent ex_s3"
  by (auto simp: s3_consistent_def ex_s3_def)

lemma ex_starts:
  obtains A where "main ex_libraries (\<lambda>s. Inl (ErrSyntax s)) ex_environment (pg_shop, []) = (Listening '':8080'' A, (pg_shop, []))"
    and "api_cfg A = default_cfg"
    and "api_svc A = NewService default_cfg postgres_repo (s3_blobs \<lparr>s3_client = ex_s3, s3_bucket = ''charm-registry'',
          s3_region = ''us-east-1'', s3_isS3 = True\<rparr>)"
proof -
  have cfg: "cfg_ListenAddress default_cfg = '':8080''" "cfg_S3Bucket default_cfg = ''charm-registry''"
      "cfg_S3Region default_cfg = ''us-east-1''" "cfg_S3Endpoint default_cfg = []" "cfg_OIDCIssuerURL default_cfg = []"
    by (simp_all add: default_cfg_def readConfig_def env_def getenv_def ex_environment_def trimRightChar_def)
  then have "\<exists>A. main ex_libraries (\<lambda>s. Inl (ErrSyntax s)) ex_environment (pg_shop, []) = (Listening '':8080'' A, (pg_shop, []))
      \<and> api_cfg A = default_cfg \<and> api_svc A = NewService default_cfg postgres_repo
         (s3_blobs \<lparr>s3_client = ex_s3, s3_bucket = ''charm-registry'', s3_region = ''us-east-1'', s3_isS3 = True\<rparr>)"
    by (simp add: main_def default_loads App_New_def NewS3Store_def ex_libraries_def Let_def newS3StoreWithClient_def
        S3Store_ensureBucket_def ex_s3_def NewPostgres_def Migrate_def Auth_New_def)
  then show thesis using that by blast
qed

lemma listening_is_configured_witness:
  "\<exists>A db. main ex_libraries (\<lambda>s. Inl (ErrSyntax s)) ex_environment (pg_shop, []) = (Listening '':8080'' A, (db, []))
     \<and> svc_repo (api_svc A) = postgres_repo \<and> Migrate ex_libraries pg_shop = (Inr (), db)"
proof -
  obtain A where start: "main ex_libraries (\<lambda>s. Inl (ErrSyntax s)) ex_environment (pg_shop, []) = (Listening '':8080'' A, (pg_shop, []))"
    by (rule ex_starts)
  then show ?thesis using listening_is_configured [OF start] by blast
qed

text \<open>C5: In the running process, whatever was uploaded and then published is what is downloaded, byte for byte, under
a number one past the latest, and the revision carries the size and the SHA-256 of the uploaded bytes: the PostgreSQL
repository and an S3 bucket together, provided that S3 is consistent.\<close>

theorem production_upload_push_download:
  assumes start: "main L parseDuration en (db0, c0) = (Listening addr A, (db1, c1))"
    and s3: "\<And>client style. lib_S3 L (awsOptions (api_cfg A)) = Inr client \<Longrightarrow> s3_consistent (client style)"
    and inv: "pg_inv db"
    and up: "Service_CreateUpload (api_svc A) E filename payload db c = (Inr u, (db', c'))"
    and push: "PushRevision (api_svc A) lib E' identity name (upl_ID u) db' c' = (Inr url, db'')"
  shows "\<exists>p n rv. Postgres_GetPackageByName name db' = Inr p
     \<and> n = (case Postgres_GetLatestRevision (pkg_ID p) db' of Inr l \<Rightarrow> rev_Revision l + 1 | Inl _ \<Rightarrow> 1)
     \<and> Postgres_GetRevisionByNumber (pkg_ID p) n db'' = Inr rv
     \<and> rev_Size rv = int (length payload) \<and> rev_SHA256 rv = hexEncode (sha256 payload)
     \<and> DownloadCharm (api_svc A) identity (pkg_ID p) n db'' c' = Inr payload"
proof -
  have app: "App_New L (api_cfg A) (db0, c0) = (Inr A, (db1, c1))" using main_Listening [OF start] by simp
  obtain client storage where "lib_S3 L (awsOptions (api_cfg A)) = Inr client"
      "storage = newS3StoreWithClient (client (cfg_S3UsePathStyle (api_cfg A))) (cfg_S3Bucket (api_cfg A))
         (cfg_S3Region (api_cfg A)) (cfg_S3Endpoint (api_cfg A) = [])"
      and svc: "api_svc A = NewService (api_cfg A) postgres_repo (s3_blobs storage)"
    by (rule App_New_Inr [OF app])
  then have "s3_consistent (s3_client storage)" using s3 by (simp add: newS3StoreWithClient_def)
  then have contract: "blob_contract (s3_blobs storage)" by (rule s3_contract)
  have S: "svc_repo (api_svc A) = postgres_repo" "svc_blobs (api_svc A) = s3_blobs storage" by (simp_all add: svc NewService_def)
  let ?u = "newUpload (uuid E 0) (now E 0) filename payload"
  obtain c'' where "blob_Put (s3_blobs storage) (upl_ObjectKey ?u) payload ''application/octet-stream'' c = (Inr (), c'')"
      and cr: "Postgres_CreateUpload ?u db = (Inr (), db')" and u: "u = ?u" and "c'' = c'"
    using up unfolding Service_CreateUpload_def S Let_def by (auto split: prod.splits sum.splits)
  then have stored: "blob_Get (s3_blobs storage) (upl_ObjectKey u) c' = Inr payload"
    using blob_contract.get_after_put [OF contract] by simp
  have inv': "pg_inv db'" using pg_inv_CreateUpload [OF inv, of ?u] cr by simp
  have db': "db' = db\<lparr>db_uploads := db_uploads db @ [uploadRow u]\<rparr>" and "unused upl_ID (upl_ID u) (db_uploads db)"
    using cr by (simp_all add: u Postgres_CreateUpload_def insertUnless_Inr)
  then have "filter (\<lambda>r. upl_ID r = upl_ID u) (db_uploads db) = []" by (simp add: filter_empty_conv unused_def list_all_iff)
  then have row: "Postgres_GetUpload (upl_ID u) db' = Inr (uploadRow u)" by (simp add: Postgres_GetUpload_def db')
  have keys: "upl_ObjectKey (uploadRow u) = upl_ObjectKey u" "upl_SHA256 (uploadRow u) = hexEncode (sha256 payload)"
      "upl_Size (uploadRow u) = int (length payload)"
    by (simp_all add: u uploadRow_def newUpload_def)
  obtain p n rv arc where found: "Postgres_GetPackageByName name db' = Inr p"
      "n = (case Postgres_GetLatestRevision (pkg_ID p) db' of Inr l \<Rightarrow> rev_Revision l + 1 | Inl _ \<Rightarrow> 1)"
      "DownloadCharm (api_svc A) identity (pkg_ID p) n db'' c' = Inr payload"
      "Postgres_GetRevisionByNumber (pkg_ID p) n db'' = Inr rv"
    and same: "sameRevision (newRevision (uuid E' 0) (now E' 0) (pkg_ID p) (acc_ID (idn_Account identity)) n (uploadRow u) arc) rv"
    using push_download [OF S(1) inv' push] row stored keys(1) by (auto simp: S)
  have "rev_Size rv = int (length payload)" "rev_SHA256 rv = hexEncode (sha256 payload)"
    using arg_cong [OF same [unfolded sameRevision_def], of rev_Size] arg_cong [OF same [unfolded sameRevision_def], of rev_SHA256]
      keys(2,3) by (simp_all add: newRevision_def)
  then show ?thesis using found by blast
qed

lemma production_upload_push_download_witness:
  "\<exists>(A :: (database, ((string \<times> string) \<times> bytes) list) api) u db' c' url db'' p n.
     Service_CreateUpload (api_svc A) ex_env ''d.charm'' ''zip'' pg_shop [] = (Inr u, (db', c'))
     \<and> PushRevision (api_svc A) ex_lib ex_env alice_in ''demo'' (upl_ID u) db' c' = (Inr url, db'')
     \<and> DownloadCharm (api_svc A) alice_in p n db'' c' = Inr ''zip''"
proof -
  obtain A where start: "main ex_libraries (\<lambda>s. Inl (ErrSyntax s)) ex_environment (pg_shop, []) = (Listening '':8080'' A, (pg_shop, []))"
    and svc: "api_svc A = NewService default_cfg postgres_repo (s3_blobs \<lparr>s3_client = ex_s3, s3_bucket = ''charm-registry'',
          s3_region = ''us-east-1'', s3_isS3 = True\<rparr>)"
    by (rule ex_starts)
  let ?u = "newUpload (uuid ex_env 0) (now ex_env 0) ''d.charm'' ''zip''"
  let ?db = "pg_shop\<lparr>db_uploads := [demo_upload, uploadRow ?u]\<rparr>" and ?c = "[((''charm-registry'', upl_ObjectKey ?u), ''zip'')]"
  have id: "upl_ID ?u = ''n''" by (simp add: newUpload_def ex_uuid)
  have S: "svc_repo (api_svc A) = postgres_repo" by (simp add: svc NewService_def)
  have "Postgres_CreateUpload ?u pg_shop = (Inr (), ?db)"
    using id by (simp add: Postgres_CreateUpload_def insertUnless_def newUpload_def unused_def)
  then have up: "Service_CreateUpload (api_svc A) ex_env ''d.charm'' ''zip'' pg_shop [] = (Inr ?u, (?db, ?c))"
    by (simp add: Service_CreateUpload_def Let_def svc NewService_def S3Store_Put_def ex_s3_def)
  have "blob_Get (svc_blobs (api_svc A)) (upl_ObjectKey (uploadRow ?u)) ?c = Inr ''zip''"
    by (simp add: svc NewService_def S3Store_Get_def ex_s3_def uploadRow_def)
  then obtain url db'' where push: "PushRevision (api_svc A) ex_lib ex_env alice_in ''demo'' ''n'' ?db ?c = (Inr url, db'')"
    using pg_push_from [OF S, of "[demo_upload, uploadRow ?u]" "''n''" "uploadRow ?u" ?c] id
    by (auto simp: uploads_table_def uniqueBy_def)
  have "s3_consistent (client style)" if "lib_S3 ex_libraries (awsOptions (api_cfg A)) = Inr client" for client and style :: bool
    using that ex_s3_consistent by (auto simp: ex_libraries_def)
  moreover have push': "PushRevision (api_svc A) ex_lib ex_env alice_in ''demo'' (upl_ID ?u) ?db ?c = (Inr url, db'')"
    using push id by simp
  ultimately obtain p n where "DownloadCharm (api_svc A) alice_in p n db'' ?c = Inr ''zip''"
    using production_upload_push_download [OF start _ pg_shop_inv up push'] by blast
  note got = this
  show ?thesis using up push' got by blast
qed

end
