(* ===== verification/Refreshing.thy ===== *)
theory Refreshing
  imports Releases
begin

text \<open>
  Properties of releasing and refreshing over the in-memory repository: what a release request leaves
  behind, also when it fails half way; that a restricted token never reaches another channel; that a
  refresh delivers what was released, and where it does not; how errors of single actions are kept apart.
\<close>

section \<open>The effect of a release request\<close>

lemma takeWhile_split:
  "\<exists>us vs. xs = us @ vs \<and> (\<forall>x \<in> set us. P x) \<and> (vs = [] \<or> (\<exists>v ws. vs = v # ws \<and> \<not> P v))"
proof (intro exI conjI)
  show "xs = takeWhile P xs @ dropWhile P xs" by simp
  show "\<forall>x \<in> set (takeWhile P xs). P x" by (auto dest: set_takeWhileD)
  show "dropWhile P xs = [] \<or> (\<exists>v ws. dropWhile P xs = v # ws \<and> \<not> P v)"
    by (metis hd_dropWhile list.collapse)
qed

lemma stamped_sel:
  assumes "list_all2 (\<lambda>r r'. \<exists>newID. r' = stampRelease t newID r) rs out"
  shows "map rel_Channel out = map rel_Channel rs" "map rel_Revision out = map rel_Revision rs"
    "map rel_Resources out = map rel_Resources rs"
  using assms by (induction rule: list_all2_induct) auto

lemma stamped_channels:
  assumes "list_all2 (\<lambda>r r'. \<exists>newID. r' = stampRelease t newID r) rs out"
  shows "rel_Channel ` set out = rel_Channel ` set rs"
  using arg_cong [OF stamped_sel(1) [OF assms], of set] by simp

lemma released_to_kept:
  "released_to pid out m m1 \<Longrightarrow> channel \<notin> rel_Channel ` set out \<Longrightarrow>
     map_of (at_key (releases m1) q) channel = map_of (at_key (releases m) q) channel"
  by (simp add: released_to_def lastOn_None [THEN iffD2])

lemma Release_effect:
  assumes inv: "memory_inv m"
  shows "\<exists>pid out m1 ps qs. snd (Release (mem_service cfg) E identity name requests m)
        = m1\<lparr>packages := ps, packagesByID := qs\<rparr>
     \<and> released_to pid out m m1 \<and> memory_inv (m1\<lparr>packages := ps, packagesByID := qs\<rparr>)
     \<and> (\<forall>r \<in> set out. channelAllowed identity (rel_Channel r))"
    (is "\<exists>pid out m1 ps qs. ?P pid out m1 ps qs")
proof -
  have stay: ?thesis if "snd (Release (mem_service cfg) E identity name requests m) = m"
    using that inv by (intro exI [of _ "[]"] exI [of _ m] exI [of _ "packages m"] exI [of _ "packagesByID m"]) simp
  show ?thesis
  proof (cases "\<exists>p. map_of (packages m) name = Some p \<and> mayManage identity p permPackageManageReleases")
    case False
    then have "snd (Release (mem_service cfg) E identity name requests m) = m"
    proof (cases "map_of (packages m) name")
      case (Some p)
      then have "stored p m" using stored_name [OF inv] by blast
      with False Some requirePackageManage_refused [of p m identity permPackageManageReleases cfg]
      show ?thesis by (auto simp: Release_def Memory_GetPackageByName_def)
    qed (simp add: Release_def Memory_GetPackageByName_def)
    then show ?thesis by (rule stay)
  next
    case True
    then obtain p where p: "stored p m" "pkg_Name p = name" "mayManage identity p permPackageManageReleases"
      using stored_name [OF inv] by blast
    obtain us vs where split: "requests = us @ vs"
        and ok: "\<forall>r \<in> set us. releasable m identity (pkg_ID p) r"
        and rest: "vs = [] \<or> (\<exists>v ws. vs = v # ws \<and> \<not> releasable m identity (pkg_ID p) v)"
      using takeWhile_split [of requests "releasable m identity (pkg_ID p)"] by blast
    have chan: "\<forall>r \<in> set out. channelAllowed identity (rel_Channel r)"
      if "list_all2 (\<lambda>r r'. \<exists>newID. r' = stampRelease t newID r) us out" for t out
      using stamped_channels [OF that] ok by (auto simp: releasable_def image_iff) (metis imageE image_eqI)
    from rest show ?thesis
    proof (elim disjE exE conjE)
      assume vs: "vs = []"
      obtain out m1 ps qs where "Release (mem_service cfg) E identity (pkg_Name p) us m
            = (Inr out, m1\<lparr>packages := ps, packagesByID := qs\<rparr>)"
          "list_all2 (\<lambda>r r'. \<exists>newID. r' = stampRelease (now E 0) newID r) us out"
          "released_to (pkg_ID p) out m m1" "memory_inv (m1\<lparr>packages := ps, packagesByID := qs\<rparr>)"
        by (rule Release_mem [OF inv p(1) p(3), of us cfg E]) (use ok in auto)
      then have "?P (pkg_ID p) out m1 ps qs" using chan split vs p(2) by simp
      then show ?thesis by blast
    next
      fix v ws assume vs: "vs = v # ws" and bad: "\<not> releasable m identity (pkg_ID p) v"
      obtain out m1 where "Release (mem_service cfg) E identity (pkg_Name p) (us @ v # ws) m
            = (Inl (releaseError m identity (pkg_ID p) v), m1)"
          "list_all2 (\<lambda>r r'. \<exists>newID. r' = stampRelease (now E 0) newID r) us out"
          "released_to (pkg_ID p) out m m1" "memory_inv m1"
        using Release_stop [OF inv p(1) p(3) _ bad, of us cfg E ws] ok by blast
      then have "?P (pkg_ID p) out m1 (packages m1) (packagesByID m1)" using chan split vs p(2) by simp
      then show ?thesis by blast
    qed
  qed
qed

text \<open>C29: a token restricted to some channels never changes another channel, whatever the request contains
and however it ends: on every other channel, of every package, the store holds the release it held before.\<close>

theorem release_respects_token_channels:
  assumes inv: "memory_inv m" and tok: "idn_Token identity = Some token" "tok_Channels token \<noteq> []"
    and other: "channel \<notin> set (tok_Channels token)"
  shows "map_of (at_key (releases (snd (Release (mem_service cfg) E identity name requests m))) pid) channel
       = map_of (at_key (releases m) pid) channel"
proof -
  obtain q out m1 ps qs where eff: "snd (Release (mem_service cfg) E identity name requests m)
        = m1\<lparr>packages := ps, packagesByID := qs\<rparr>" "released_to q out m m1"
      and chan: "\<forall>r \<in> set out. channelAllowed identity (rel_Channel r)"
    using Release_effect [OF inv, of cfg E identity name requests] by auto
  have "channel \<notin> rel_Channel ` set out"
    using chan tok other by (auto simp: channelAllowed_def enforceChannelRestriction_iff)
  then show ?thesis using released_to_kept [OF eff(2), of channel pid] eff(1) by simp
qed

lemma shop_releases:
  "at_key (releases shop) ''p1'' = [(''latest/stable'', demo_release ''latest/stable'' 1),
       (''latest/edge'', demo_release ''latest/edge'' 2)]"
  "pkg_ID demo = ''p1''" "pkg_Name demo = ''demo''"
  by (simp_all add: shop_def demo_def)

text \<open>A request entry as a client sends it.\<close>

definition release_request :: "string \<Rightarrow> int \<Rightarrow> release" where
  "release_request channel n =
     \<lparr>rel_ID = [], rel_PackageID = [], rel_Channel = channel, rel_Revision = n, rel_Base = None,
      rel_Resources = [], rel_When = 0, rel_ExpirationDate = None, rel_Progressive = None\<rparr>"

lemma release_request_sel [simp]:
  "rel_Channel (release_request c n) = c" "rel_Revision (release_request c n) = n"
  "rel_Resources (release_request c n) = []"
  by (simp_all add: release_request_def)

lemma release_respects_token_channels_witness:
  "map_of (at_key (releases (snd (Release (mem_service ex_cfg) ex_env alice_edge ''demo''
      [release_request ''latest/edge'' 1, release_request ''latest/stable'' 2] shop))) ''p1'') ''latest/stable''
    = Some (demo_release ''latest/stable'' 1)"
  using release_respects_token_channels [OF shop_inv, of alice_edge edge_token "''latest/stable''" ex_cfg ex_env
      "''demo''" "[release_request ''latest/edge'' 1, release_request ''latest/stable'' 2]" "''p1''"]
  by (simp add: shop_releases alice_edge_def alice_in_def edge_token_def)

text \<open>A release request is not atomic.  It stops at the first entry that cannot be released (no channel,
an unknown revision, a channel the token does not allow) with the error of that entry; the entries before
it stay released, each on its channel, and the package itself is not touched.\<close>

lemma release_stops_at_bad_entry:
  assumes inv: "memory_inv m" and p: "stored p m" and manage: "mayManage identity p permPackageManageReleases"
    and ok: "list_all (releasable m identity (pkg_ID p)) us" and bad: "\<not> releasable m identity (pkg_ID p) v"
  shows "\<exists>out m1. Release (mem_service cfg) E identity (pkg_Name p) (us @ v # vs) m
       = (Inl (releaseError m identity (pkg_ID p) v), m1)
     \<and> map rel_Channel out = map rel_Channel us \<and> map rel_Revision out = map rel_Revision us
     \<and> released_to (pkg_ID p) out m m1 \<and> stored p m1 \<and> memory_inv m1"
proof -
  obtain out m1 where "Release (mem_service cfg) E identity (pkg_Name p) (us @ v # vs) m
        = (Inl (releaseError m identity (pkg_ID p) v), m1)"
      and out: "list_all2 (\<lambda>r r'. \<exists>newID. r' = stampRelease (now E 0) newID r) us out"
      and rel: "released_to (pkg_ID p) out m m1" and "memory_inv m1"
    using Release_stop [OF inv p manage _ bad, of us cfg E vs] ok unfolding list_all_iff by blast
  moreover have "stored p m1" using p rel by (auto simp: released_to_def stored_def)
  ultimately show ?thesis using stamped_sel(1,2) [OF out] by blast
qed

lemma releasable_demo:
  "channel \<noteq> [] \<Longrightarrow> n = 1 \<or> n = 2 \<Longrightarrow> idn_Token identity = None \<Longrightarrow>
     releasable shop identity ''p1'' (release_request channel n)"
  by (auto simp: releasable_def channelAllowed_def enforceChannelRestriction_def Memory_GetRevisionByNumber_def
      shop_def demo_revision_def)

lemma release_stops_at_bad_entry_witness:
  "\<exists>m1 r. Release (mem_service ex_cfg) ex_env alice_in ''demo''
      [release_request ''latest/stable'' 2, release_request ''latest/beta'' 7] shop
    = (Inl (ServiceError 404 ''not-found'' ''revision not found''), m1)
    \<and> map_of (at_key (releases m1) ''p1'') ''latest/stable'' = Some r \<and> rel_Revision r = 2"
proof -
  have err: "releaseError shop alice_in ''p1'' (release_request ''latest/beta'' 7) =
      ServiceError 404 ''not-found'' ''revision not found''"
    by (simp add: releaseError_def Memory_GetRevisionByNumber_def shop_def demo_revision_def)
  have bad: "\<not> releasable shop alice_in (pkg_ID demo) (release_request ''latest/beta'' 7)"
    by (simp add: releasable_def Memory_GetRevisionByNumber_def shop_def demo_revision_def demo_def)
  have ok: "list_all (releasable shop alice_in (pkg_ID demo)) [release_request ''latest/stable'' 2]"
    using releasable_demo [of "''latest/stable''" 2 alice_in] by (simp add: shop_releases alice_in_def)
  obtain out m1 where run: "Release (mem_service ex_cfg) ex_env alice_in (pkg_Name demo)
        ([release_request ''latest/stable'' 2] @ release_request ''latest/beta'' 7 # []) shop
        = (Inl (releaseError shop alice_in (pkg_ID demo) (release_request ''latest/beta'' 7)), m1)"
      and o: "map rel_Channel out = map rel_Channel [release_request ''latest/stable'' 2]"
        "map rel_Revision out = map rel_Revision [release_request ''latest/stable'' 2]"
      and rel: "released_to (pkg_ID demo) out shop m1"
    using release_stops_at_bad_entry [OF shop_inv demo_stored alice_manages_demo ok bad, of ex_cfg ex_env "[]"]
    by blast
  have out: "map rel_Channel out = [''latest/stable'']" "map rel_Revision out = [2]" using o by simp_all
  obtain r where r: "out = [r]" using out(1) by (cases out) auto
  then have "map_of (at_key (releases m1) ''p1'') ''latest/stable'' = Some r"
    using rel out by (simp add: released_to_def shop_releases)
  then show ?thesis using run r out err by (auto simp: shop_releases)
qed

section \<open>What a refresh selects\<close>

text \<open>The package, the revision and the resources an action asks for, stated on the store.\<close>

definition refreshTarget :: "memory \<Rightarrow> refresh_action \<Rightarrow> package option" where
  "refreshTarget m action =
     (if stringValue (act_Name action) \<noteq> [] then map_of (packages m) (stringValue (act_Name action))
      else if stringValue (act_ID action) \<noteq> [] then map_of (packagesByID m) (stringValue (act_ID action))
      else None)"

definition refreshChannel :: "refresh_action \<Rightarrow> string" where
  "refreshChannel action = normalizeChannel (stringValue (act_Channel action))"

definition askedRevision :: "refresh_action \<Rightarrow> int" where
  "askedRevision action = (case act_Revision action of None \<Rightarrow> 0 | Some n \<Rightarrow> n)"

definition refreshAvailable :: "memory \<Rightarrow> string \<Rightarrow> refresh_action \<Rightarrow> bool" where
  "refreshAvailable m packageID action \<longleftrightarrow>
     (if askedRevision action > 0
      then \<exists>rv. Memory_GetRevisionByNumber packageID (askedRevision action) m = Inr rv
      else if refreshChannel action \<noteq> []
      then \<exists>rl. map_of (at_key (releases m) packageID) (refreshChannel action) = Some rl
      else at_key (releases m) packageID \<noteq> [])"

text \<open>The resource references of the releases point to stored resource revisions.\<close>

definition refOk :: "memory \<Rightarrow> string \<Rightarrow> release_ref \<Rightarrow> bool" where
  "refOk m packageID ref \<longleftrightarrow>
     (\<exists>d. map_of (at_key (resourceDefs m) packageID) (ref_Name ref) = Some d
        \<and> (\<forall>n. ref_Revision ref = Some n \<longrightarrow> (\<exists>rr. Memory_GetResourceRevision (rd_ID d) n m = Inr rr)))"

definition refs_ok :: "memory \<Rightarrow> bool" where
  "refs_ok m \<longleftrightarrow>
     (\<forall>pid. \<forall>rl \<in> set (map snd (at_key (releases m) pid)). list_all (refOk m pid) (rel_Resources rl))"

lemma resolveReleaseRefs_ok:
  "list_all (refOk m pid) refs \<Longrightarrow> \<exists>out. resolveReleaseRefs (mem_service cfg) pid refs m = Inr out"
proof (induction refs)
  case (Cons ref refs)
  then obtain d out where d: "map_of (at_key (resourceDefs m) pid) (ref_Name ref) = Some d"
      "\<forall>n. ref_Revision ref = Some n \<longrightarrow> (\<exists>rr. Memory_GetResourceRevision (rd_ID d) n m = Inr rr)"
      and out: "resolveReleaseRefs (mem_service cfg) pid refs m = Inr out"
    by (auto simp: refOk_def)
  then show ?case
    by (cases "ref_Revision ref") (auto simp: Memory_GetResourceDefinition_def)
qed simp

lemma resolveReleaseRefs_unknown:
  "map_of (at_key (resourceDefs m) pid) (ref_Name ref) = None \<Longrightarrow>
     resolveReleaseRefs (mem_service cfg) pid (ref # refs) m = Inl ErrNotFound"
  by (simp add: Memory_GetResourceDefinition_def)

lemma GetRevisionByNumber_cases:
  obtains rv where "Memory_GetRevisionByNumber pid n m = Inr rv" "rev_Revision rv = n"
  | "Memory_GetRevisionByNumber pid n m = Inl ErrNotFound"
  by (cases "Memory_GetRevisionByNumber pid n m")
    (auto simp: Memory_GetRevisionByNumber_def res_iff dest: find_SomeD)

lemma resolveReleaseAndRevision_unfold:
  "resolveReleaseAndRevision (mem_service cfg) sh pkg action m =
     (if askedRevision action > 0 then
        res_bind (map_err (translateRepoError ''revision not found'')
                    (Memory_GetRevisionByNumber (pkg_ID pkg) (askedRevision action) m)) (\<lambda>rv.
        Inr (explicitRelease (refreshChannel action) rv, rv, refreshChannel action, refreshChannel action))
      else
        res_bind (map_err (translateRepoError ''release not found'')
          (if refreshChannel action \<noteq> [] then Memory_ResolveRelease (pkg_ID pkg) (refreshChannel action) m
           else Memory_ResolveDefaultRelease sh (pkg_ID pkg) m)) (\<lambda>rl.
        res_bind (Memory_GetRevisionByNumber (pkg_ID pkg) (rel_Revision rl) m) (\<lambda>rv.
        let c = (if refreshChannel action \<noteq> [] then refreshChannel action else rel_Channel rl) in
        Inr (rl, rv, c, c))))"
  by (simp add: resolveReleaseAndRevision_def Let_def askedRevision_def refreshChannel_def channelOrDefault_def
      stringValue_def)

lemma selection_available:
  assumes inv: "memory_inv m" and av: "refreshAvailable m (pkg_ID pkg) action"
  shows "\<exists>rl rv c. resolveReleaseAndRevision (mem_service cfg) sh pkg action m = Inr (rl, rv, c, c)
     \<and> Memory_GetRevisionByNumber (pkg_ID pkg) (rel_Revision rl) m = Inr rv
     \<and> (rl \<in> set (map snd (at_key (releases m) (pkg_ID pkg))) \<or> rel_Resources rl = [])"
proof (cases "askedRevision action > 0")
  case True
  then show ?thesis
    using av by (cases rule: GetRevisionByNumber_cases [of "pkg_ID pkg" "askedRevision action" m])
      (auto simp: resolveReleaseAndRevision_unfold refreshAvailable_def explicitRelease_def)
next
  case False
  obtain rl where rl: "(if refreshChannel action \<noteq> [] then Memory_ResolveRelease (pkg_ID pkg) (refreshChannel action) m
      else Memory_ResolveDefaultRelease sh (pkg_ID pkg) m) = Inr rl" "rl \<in> set (map snd (at_key (releases m) (pkg_ID pkg)))"
  proof (cases "refreshChannel action = []")
    case True
    with av False ResolveDefaultRelease_mem [OF inv, of sh "pkg_ID pkg"] that show ?thesis
      by (auto simp: refreshAvailable_def)
  next
    case ch: False
    with av False obtain rl where "map_of (at_key (releases m) (pkg_ID pkg)) (refreshChannel action) = Some rl"
      by (auto simp: refreshAvailable_def)
    then show ?thesis using ch that map_of_in_snd by (fastforce simp: Memory_ResolveRelease_def)
  qed
  obtain rv where "Memory_GetRevisionByNumber (pkg_ID pkg) (rel_Revision rl) m = Inr rv"
    using release_has_revision [OF inv rl(2)] by blast
  then show ?thesis
    unfolding resolveReleaseAndRevision_unfold rl(1) using rl(2) False by (simp add: Let_def)
qed

lemma selection_missing:
  assumes "\<not> refreshAvailable m (pkg_ID pkg) action"
  shows "\<exists>msg. resolveReleaseAndRevision (mem_service cfg) sh pkg action m = Inl (ServiceError 404 ''not-found'' msg)"
  using assms
  by (cases rule: GetRevisionByNumber_cases [of "pkg_ID pkg" "askedRevision action" m])
    (auto simp: resolveReleaseAndRevision_unfold refreshAvailable_def Memory_ResolveRelease_def
      Memory_ResolveDefaultRelease_def)

section \<open>One action, and all of them\<close>

lemma resolvePackageForRefresh_mem:
  "resolvePackageForRefresh (mem_service cfg) action m =
     (case refreshTarget m action of
        Some p \<Rightarrow> Inr p
      | None \<Rightarrow> Inl (if stringValue (act_Name action) = [] \<and> stringValue (act_ID action) = []
           then ServiceError 400 ''invalid-request'' ''refresh action must include id or name''
           else ServiceError 404 ''not-found'' ''package not found''))"
  by (auto simp: resolvePackageForRefresh_def refreshTarget_def Memory_GetPackageByName_def
      Memory_GetPackageByID_def newError_def split: option.splits)

lemma refreshTarget_stored: "memory_inv m \<Longrightarrow> refreshTarget m action = Some p \<Longrightarrow> stored p m"
  using stored_name stored_id by (fastforce simp: refreshTarget_def split: if_splits)

lemma refreshItem_doc:
  "doc_at (refreshItem cfg p a rl rv rs c d) ''error'' = None"
  "doc_at (refreshItem cfg p a rl rv rs c d) ''instance-key'' = Some (VStr (act_InstanceKey a))"
  "doc_at (refreshItem cfg p a rl rv rs c d) ''effective-channel'' = Some (VStr c)"
  "doc_at (refreshItem cfg p a rl rv rs c d) ''charm'' = Some (VMap (refreshEntity p (rv\<lparr>rev_Resources := rs\<rparr>) rs cfg))"
  by (simp_all add: refreshItem_def)

lemma errorResult_doc:
  "\<exists>item. errorResult a (ServiceError st c msg) = Inr item \<and> doc_at item ''error'' \<noteq> None
     \<and> doc_at item ''instance-key'' = Some (VStr (act_InstanceKey a))"
  by simp

definition refreshFine :: "memory \<Rightarrow> identity \<Rightarrow> refresh_action \<Rightarrow> bool" where
  "refreshFine m identity action \<longleftrightarrow>
     (\<exists>p. refreshTarget m action = Some p \<and> mayView identity p \<and> refreshAvailable m (pkg_ID p) action)"

lemma resolveRefreshAction_mem:
  assumes inv: "memory_inv m" and refs: "refs_ok m" and plain: "act_ResourceRevisions action = []"
  shows "\<exists>item. resolveRefreshAction (mem_service cfg) shs i identity action m = Inr item
     \<and> doc_at item ''instance-key'' = Some (VStr (act_InstanceKey action))
     \<and> (doc_at item ''error'' = None \<longleftrightarrow> refreshFine m identity action)"
proof (cases "refreshTarget m action")
  case None
  then show ?thesis
    by (auto simp: resolveRefreshAction_def resolvePackageForRefresh_mem refreshFine_def)
next
  case (Some p)
  then have p: "map_of (packagesByID m) (pkg_ID p) = Some p"
    using refreshTarget_stored [OF inv] by (simp add: stored_def)
  show ?thesis
  proof (cases "mayView identity p")
    case False
    with requirePackageView_refused [OF p False, of cfg False] Some show ?thesis
      by (auto simp: resolveRefreshAction_def resolvePackageForRefresh_mem refreshFine_def)
  next
    case view: True
    then have guard: "requirePackageView (mem_service cfg) identity p False m = Inr ()"
      using p by (simp add: requirePackageView_mem)
    show ?thesis
    proof (cases "refreshAvailable m (pkg_ID p) action")
      case False
      then obtain msg where "resolveReleaseAndRevision (mem_service cfg) (shs i) p action m
          = Inl (ServiceError 404 ''not-found'' msg)"
        using selection_missing by blast
      then show ?thesis using Some guard False
        by (simp add: resolveRefreshAction_def resolvePackageForRefresh_mem resolveRefreshSelection_def refreshFine_def)
    next
      case True
      then obtain rl rv c where sel: "resolveReleaseAndRevision (mem_service cfg) (shs i) p action m = Inr (rl, rv, c, c)"
          "rl \<in> set (map snd (at_key (releases m) (pkg_ID p))) \<or> rel_Resources rl = []"
        using selection_available [OF inv] by blast
      have "list_all (refOk m (pkg_ID p)) (rel_Resources rl)"
        using sel(2) refs unfolding refs_ok_def by fastforce
      then obtain out where "resolveReleaseRefs (mem_service cfg) (pkg_ID p) (rel_Resources rl) m = Inr out"
        using resolveReleaseRefs_ok by blast
      then show ?thesis using Some guard sel(1) plain True view
        by (simp add: resolveRefreshAction_def resolvePackageForRefresh_mem resolveRefreshSelection_def
            Memory_ListResourceDefinitions_def resolveReleaseResources_def applyResourceOverrides_def refreshItem_doc
            refreshFine_def)
    qed
  qed
qed


text \<open>An action that asks for a package by its name and for a channel.\<close>

definition install :: "string \<Rightarrow> string \<Rightarrow> string \<Rightarrow> refresh_action" where
  "install key name channel =
     \<lparr>act_Action = ''install'', act_InstanceKey = key, act_ID = None, act_Name = Some name,
      act_Revision = None, act_Channel = Some channel, act_Base = None, act_ResourceRevisions = []\<rparr>"

definition refresh_of :: "refresh_action list \<Rightarrow> refresh_request" where
  "refresh_of actions = \<lparr>rfr_Context = [], rfr_Actions = actions, rfr_Fields = [], rfr_Metrics = []\<rparr>"

lemma install_sel [simp]:
  "act_InstanceKey (install k n c) = k" "act_ResourceRevisions (install k n c) = []"
  "askedRevision (install k n c) = 0" "refreshChannel (install k n c) = normalizeChannel c"
  "refreshTarget m (install k n c) = (if n = [] then None else map_of (packages m) n)"
  "rfr_Actions (refresh_of acts) = acts"
  by (simp_all add: install_def refresh_of_def askedRevision_def refreshChannel_def refreshTarget_def stringValue_def)

lemma shop_refs: "refs_ok shop"
proof -
  have "at_key (releases shop) pid = (if pid = ''p1'' then [(''latest/stable'', demo_release ''latest/stable'' 1),
       (''latest/edge'', demo_release ''latest/edge'' 2)] else [])" for pid
    by (simp add: shop_def)
  moreover have "refOk shop ''p1'' \<lparr>ref_Name = ''img'', ref_Revision = Some 1\<rparr>"
    by (simp add: refOk_def shop_def Memory_GetResourceRevision_def demo_resource_def demo_resource_revision_def)
  ultimately show ?thesis
    by (simp add: refs_ok_def demo_release_def)
qed


section \<open>From a release to a refresh\<close>

lemma install_result:
  assumes p: "stored p m" and view: "mayView identity p" and named: "pkg_Name p \<noteq> []"
  shows "resolveRefreshAction (mem_service cfg) shs i identity (install key (pkg_Name p) channel) m =
     (case resolveReleaseAndRevision (mem_service cfg) (shs i) p (install key (pkg_Name p) channel) m of
        Inl err \<Rightarrow> errorResult (install key (pkg_Name p) channel) err
      | Inr (rl, rv, c, d) \<Rightarrow>
          (case resolveReleaseRefs (mem_service cfg) (pkg_ID p) (rel_Resources rl) m of
             Inl err \<Rightarrow> errorResult (install key (pkg_Name p) channel) err
           | Inr rs \<Rightarrow> Inr (refreshItem cfg p (install key (pkg_Name p) channel) rl rv rs c d)))"
proof -
  have "requirePackageView (mem_service cfg) identity p False m = Inr ()"
    using p view by (simp add: requirePackageView_mem [of m p p] stored_def)
  moreover have "refreshTarget m (install key (pkg_Name p) channel) = Some p"
    using p named by (simp add: stored_def)
  ultimately show ?thesis
    by (auto simp: resolveRefreshAction_def resolvePackageForRefresh_mem resolveRefreshSelection_def
        Memory_ListResourceDefinitions_def resolveReleaseResources_def applyResourceOverrides_def res_bind_def
        split: sum.split)
qed

lemma lastOn_stamped:
  assumes "list_all2 (\<lambda>r r'. \<exists>newID. r' = stampRelease t newID r) rs out" and "lastOn channel rs = Some r"
  shows "\<exists>newID. lastOn channel out = Some (stampRelease t newID r)"
  using assms
proof (induction rule: list_all2_induct)
  case (Cons x xs y ys)
  then show ?case
  proof (cases "lastOn channel xs")
    case None
    then have "lastOn channel ys = None"
      using stamped_channels [OF Cons.hyps(2)] by (simp add: lastOn_None)
    then show ?thesis using Cons None by (auto split: if_splits)
  qed auto
qed simp



text \<open>C39: a release to a bare risk such as \<^verbatim>\<open>edge\<close> is accepted but never delivered: it is stored under the bare
name, while a refresh looks up the name with the track spelled out, so the same channel name is answered
with "release not found" right after the release.\<close>

theorem bare_channel_release_is_lost:
  assumes inv: "memory_inv m" and p: "stored p m" and manage: "mayManage identity p permPackageManageReleases"
    and ok: "releasable m identity (pkg_ID p) r" and bare: "CHR ''/'' \<notin> set (rel_Channel r)"
    and free: "map_of (at_key (releases m) (pkg_ID p)) (''latest/'' @ rel_Channel r) = None"
    and view: "mayView viewer p" and named: "pkg_Name p \<noteq> []"
  shows "\<exists>out m'. Release (mem_service cfg) E identity (pkg_Name p) [r] m = (Inr out, m')
     \<and> Refresh (mem_service cfg) E' viewer (refresh_of [install key (pkg_Name p) (rel_Channel r)]) m'
         = Inr [(''error-list'', VList []), (''results'', VList [VMap
             [(''instance-key'', VStr key), (''result'', VStr ''error''),
              (''error'', VAPIError \<lparr>err_Code = ''not-found'', err_Message = ''release not found''\<rparr>)]])]"
proof -
  let ?new = "p\<lparr>pkg_Status := ''published'', pkg_UpdatedAt := now E 0\<rparr>"
  obtain out m1 ps qs where run: "Release (mem_service cfg) E identity (pkg_Name p) [r] m
        = (Inr out, m1\<lparr>packages := ps, packagesByID := qs\<rparr>)"
      and out: "list_all2 (\<lambda>r r'. \<exists>newID. r' = stampRelease (now E 0) newID r) [r] out"
      and rel: "released_to (pkg_ID p) out m m1"
      and new: "stored ?new (m1\<lparr>packages := ps, packagesByID := qs\<rparr>)"
    by (rule Release_mem [OF inv p manage, of "[r]" cfg E]) (use ok in auto)
  let ?m = "m1\<lparr>packages := ps, packagesByID := qs\<rparr>"
  have ne: "rel_Channel r \<noteq> []" using ok by (simp add: releasable_def)
  have ch: "normalizeChannel (rel_Channel r) = ''latest/'' @ rel_Channel r"
    using bare ne by (simp add: normalizeChannel_def containsStr_single)
  have "''latest/'' @ rel_Channel r \<notin> rel_Channel ` set out"
    using stamped_channels [OF out] by simp
  then have none: "map_of (at_key (releases m1) (pkg_ID p)) (''latest/'' @ rel_Channel r) = None"
    using released_to_kept [OF rel] free by simp
  have view1: "mayView viewer ?new" using view mayView_cong [of ?new p viewer] by simp
  have "resolveReleaseAndRevision (mem_service cfg) sh ?new (install key (pkg_Name p) (rel_Channel r)) ?m
      = Inl (ServiceError 404 ''not-found'' ''release not found'')" for sh
    using none ne by (simp add: resolveReleaseAndRevision_unfold Memory_ResolveRelease_def ch)
  then show ?thesis
    using run install_result [OF new view1, of cfg "order E'" 0 key "rel_Channel r"] named by (simp add: Refresh_def)
qed

lemma bare_channel_release_is_lost_witness:
  "\<exists>out m'. Release (mem_service ex_cfg) ex_env alice_in ''demo'' [release_request ''beta'' 1] shop = (Inr out, m')
     \<and> Refresh (mem_service ex_cfg) ex_env alice_in (refresh_of [install ''k'' ''demo'' ''beta'']) m'
         = Inr [(''error-list'', VList []), (''results'', VList [VMap
             [(''instance-key'', VStr ''k''), (''result'', VStr ''error''),
              (''error'', VAPIError \<lparr>err_Code = ''not-found'', err_Message = ''release not found''\<rparr>)]])]"
proof -
  have "releasable shop alice_in (pkg_ID demo) (release_request ''beta'' 1)"
    using releasable_demo [of "''beta''" 1 alice_in] by (simp add: shop_releases alice_in_def)
  from bare_channel_release_is_lost [OF shop_inv demo_stored alice_manages_demo this,
      of alice_in ex_cfg ex_env ex_env "''k''"] mayManage_mayView [OF alice_manages_demo]
  show ?thesis by (simp add: shop_releases)
qed

text \<open>A release may name a resource that does not exist, and then a refresh of that channel fails as a
whole with the store's bare "not found", also for the actions that are fine by themselves.\<close>

lemma dangling_resource_fails_refresh:
  assumes inv: "memory_inv m" and p: "stored p m" and view: "mayView identity p" and named: "pkg_Name p \<noteq> []"
    and rl: "map_of (at_key (releases m) (pkg_ID p)) (normalizeChannel channel) = Some rl" and ch: "channel \<noteq> []"
    and ref: "rel_Resources rl = ref # refs" "map_of (at_key (resourceDefs m) (pkg_ID p)) (ref_Name ref) = None"
    and good: "Refresh (mem_service cfg) E identity (refresh_of actions) m = Inr doc"
  shows "Refresh (mem_service cfg) E identity (refresh_of (actions @ install key (pkg_Name p) channel # rest)) m
       = Inl ErrNotFound"
proof -
  let ?a = "install key (pkg_Name p) channel"
  have mem: "rl \<in> set (map snd (at_key (releases m) (pkg_ID p)))" using rl by (rule map_of_in_snd)
  obtain rv where rv: "Memory_GetRevisionByNumber (pkg_ID p) (rel_Revision rl) m = Inr rv"
    using release_has_revision [OF inv mem] by blast
  have "resolveReleaseAndRevision (mem_service cfg) sh p ?a m
      = Inr (rl, rv, normalizeChannel channel, normalizeChannel channel)" for sh
    using rl ch rv by (simp add: resolveReleaseAndRevision_unfold Memory_ResolveRelease_def Let_def)
  then have bad: "resolveRefreshAction (mem_service cfg) shs i identity ?a m = Inl ErrNotFound" for shs i
    using install_result [OF p view named, of cfg shs i key channel] ref
    by (simp add: Memory_GetResourceDefinition_def)
  have "refreshLoop (mem_service cfg) shs i identity (acts @ ?a # rest) m = Inl ErrNotFound"
    if "refreshLoop (mem_service cfg) shs i identity acts m = Inr items" for shs i acts items
    using that by (induction acts arbitrary: i items) (auto simp: bad res_iff)
  then show ?thesis using good by (auto simp: Refresh_def res_iff)
qed

lemma dangling_resource_fails_refresh_witness:
  "Refresh (mem_service ex_cfg) ex_env alice_in
     (refresh_of [install ''k1'' ''demo'' ''stable'', install ''k2'' ''demo'' ''2.0/beta''])
     (shop\<lparr>releases := [(''p1'', [(''latest/stable'', demo_release ''latest/stable'' 1),
        (''2.0/beta'', (demo_release ''2.0/beta'' 2)\<lparr>rel_Resources := [\<lparr>ref_Name = ''gone'', ref_Revision = Some 1\<rparr>]\<rparr>)])]\<rparr>)
   = Inl ErrNotFound"
proof -
  let ?m = "shop\<lparr>releases := [(''p1'', [(''latest/stable'', demo_release ''latest/stable'' 1),
        (''2.0/beta'', (demo_release ''2.0/beta'' 2)\<lparr>rel_Resources := [\<lparr>ref_Name = ''gone'', ref_Revision = Some 1\<rparr>]\<rparr>)])]\<rparr>"
  have "releases_ok ?m"
    by (auto simp: releases_ok_def shop_def demo_revision_def demo_release_def split: if_splits)
  then have inv: "memory_inv ?m" using shop_inv by (simp add: memory_inv_def)
  have p: "stored demo ?m" using demo_stored by (simp add: stored_def)
  have ch: "normalizeChannel ''stable'' = ''latest/stable''" "normalizeChannel ''2.0/beta'' = ''2.0/beta''"
    by (simp_all add: normalizeChannel_def hasPrefix_def)
  have view: "mayView alice_in demo" by (rule mayManage_mayView [OF alice_manages_demo])
  have rl: "map_of (at_key (releases ?m) (pkg_ID demo)) ''latest/stable'' = Some (demo_release ''latest/stable'' 1)"
    by (simp add: demo_def)
  have rv: "Memory_GetRevisionByNumber ''p1'' (rel_Revision (demo_release ''latest/stable'' 1)) ?m
      = Inr (demo_revision 1 ''uploads/u1/demo.charm'')"
    by (simp add: Memory_GetRevisionByNumber_def shop_def demo_def demo_release_def demo_revision_def)
  have "list_all (refOk ?m (pkg_ID demo)) (rel_Resources (demo_release ''latest/stable'' 1))"
    by (simp add: refOk_def demo_release_def shop_def demo_def Memory_GetResourceRevision_def demo_resource_def
        demo_resource_revision_def)
  then obtain rs where rs: "resolveReleaseRefs (mem_service ex_cfg) (pkg_ID demo)
      (rel_Resources (demo_release ''latest/stable'' 1)) ?m = Inr rs"
    using resolveReleaseRefs_ok by blast
  have name: "pkg_Name demo = ''demo''" by (simp add: demo_def)
  have "resolveReleaseAndRevision (mem_service ex_cfg) in_order demo (install ''k1'' ''demo'' ''stable'') ?m
      = Inr (demo_release ''latest/stable'' 1, demo_revision 1 ''uploads/u1/demo.charm'', ''latest/stable'', ''latest/stable'')"
    unfolding resolveReleaseAndRevision_unfold
    by (simp add: ch Memory_ResolveRelease_def rv Let_def shop_releases(2))
  then have "\<exists>item. resolveRefreshAction (mem_service ex_cfg) (order ex_env) 0 alice_in (install ''k1'' ''demo'' ''stable'') ?m
      = Inr item"
    using install_result [OF p view, of ex_cfg "order ex_env" 0 "''k1''" "''stable''"] name rs
    by (simp add: ex_env_def)
  then obtain doc where "Refresh (mem_service ex_cfg) ex_env alice_in (refresh_of [install ''k1'' ''demo'' ''stable'']) ?m = Inr doc"
    by (auto simp: Refresh_def)
  from dangling_resource_fails_refresh [OF inv p view _ _ _ _ _ this, of "''2.0/beta''"
      "(demo_release ''2.0/beta'' 2)\<lparr>rel_Resources := [\<lparr>ref_Name = ''gone'', ref_Revision = Some 1\<rparr>]\<rparr>"
      "\<lparr>ref_Name = ''gone'', ref_Revision = Some 1\<rparr>" "[]" "''k2''" "[]"]
  show ?thesis by (simp add: ch demo_def shop_def)
qed

end
