(* ===== verification/ReleaseMap.thy ===== *)
theory ReleaseMap
  imports Releases
begin

text \<open>
  Properties of the release map and of the creation of tracks over the in-memory repository.
\<close>

section \<open>The release map\<close>

text \<open>The map of revisions built by the loop: sound, complete, keyed by the number.\<close>

definition revisionsOf :: "memory \<Rightarrow> string \<Rightarrow> release list \<Rightarrow> revision set" where
  "revisionsOf m packageID rels =
     {rv. \<exists>rl \<in> set rels. Memory_GetRevisionByNumber packageID (rel_Revision rl) m = Inr rv}"

definition mapsRevisions :: "memory \<Rightarrow> string \<Rightarrow> (int, revision) gomap \<Rightarrow> bool" where
  "mapsRevisions m packageID x \<longleftrightarrow>
     wf_map x \<and> (\<forall>n rv. map_of x n = Some rv \<longrightarrow>
        rev_Revision rv = n \<and> Memory_GetRevisionByNumber packageID n m = Inr rv)"

lemma revisionsMapLoop_mem:
  assumes "\<forall>rl \<in> set rels. \<exists>rv. Memory_GetRevisionByNumber pid (rel_Revision rl) m = Inr rv"
    and "mapsRevisions m pid acc"
  shows "\<exists>x. revisionsMapLoop (mem_service cfg) pid acc rels m = Inr x \<and> mapsRevisions m pid x
     \<and> dom (map_of x) = dom (map_of acc) \<union> rel_Revision ` set rels"
  using assms
proof (induction rels arbitrary: acc)
  case Nil
  then show ?case by auto
next
  case (Cons rl rels)
  obtain rv where rv: "Memory_GetRevisionByNumber pid (rel_Revision rl) m = Inr rv" "rev_Revision rv = rel_Revision rl"
    using Cons.prems(1) by (auto simp: Memory_GetRevisionByNumber_def res_iff dest: find_SomeD)
  let ?acc = "AList.update (rev_Revision rv) rv acc"
  have "mapsRevisions m pid ?acc"
    using Cons.prems(2) rv by (simp add: mapsRevisions_def)
  moreover have "\<forall>rl \<in> set rels. \<exists>rv. Memory_GetRevisionByNumber pid (rel_Revision rl) m = Inr rv"
    using Cons.prems(1) by simp
  ultimately obtain x where x: "revisionsMapLoop (mem_service cfg) pid ?acc rels m = Inr x" "mapsRevisions m pid x"
      "dom (map_of x) = dom (map_of ?acc) \<union> rel_Revision ` set rels"
    using Cons.IH [of ?acc] by blast
  have "dom (map_of ?acc) = insert (rel_Revision rl) (dom (map_of acc))"
    using rv(2) by (simp add: update_conv')
  then show ?case using x rv(1) by (intro exI [of _ x]) simp
qed

lemma snd_of_map: "wf_map x \<Longrightarrow> set (map snd x) = {v. \<exists>k. map_of x k = Some v}"
  by (force simp: map_of_eq_Some_iff)

lemma sorted_numbers:
  assumes "mapsRevisions m pid x"
  shows "sorted_wrt (<) (map rev_Revision (sort_key rev_Revision (go_range sh (map snd x))))"
proof -
  have eq: "map rev_Revision (map snd x) = map fst x"
    using assms by (auto simp: mapsRevisions_def map_of_eq_Some_iff)
  have "distinct (map rev_Revision (map snd x))"
    unfolding eq using assms by (simp add: mapsRevisions_def)
  moreover have "mset (map rev_Revision (sort_key rev_Revision (go_range sh (map snd x)))) = mset (map rev_Revision (map snd x))"
    by (simp only: mset_map mset_sort mset_go_range)
  ultimately have "distinct (map rev_Revision (sort_key rev_Revision (go_range sh (map snd x))))"
    by (metis mset_eq_imp_distinct_iff)
  moreover have "sorted (map rev_Revision (sort_key rev_Revision (go_range sh (map snd x))))"
    by simp
  ultimately show ?thesis by (simp add: strict_sorted_iff)
qed

text \<open>The release map shows every release of the package once, and below it every revision that is released,
each once and in ascending order of the numbers, whatever the iteration orders of the two maps are.\<close>

lemma list_releases_spec:
  assumes inv: "memory_inv m" and p: "stored p m" and view: "mayView identity p"
    and token: "pkg_Private p \<or> idn_Authenticated identity \<Longrightarrow> tokenGrants identity permPackageView"
  shows "\<exists>rels rvs. mset rels = mset (map snd (at_key (releases m) (pkg_ID p)))
     \<and> set rvs = revisionsOf m (pkg_ID p) rels \<and> sorted_wrt (<) (map rev_Revision rvs)
     \<and> Service_ListReleases (mem_service cfg) E identity (pkg_Name p) m = Inr
         [(''channel-map'', VList (map (VMap \<circ> releaseRow) rels)),
          (''craft-channel-map'', VList []),
          (''package'', VMap [(''channels'', VList (map VMap (packageChannels (pkg_Tracks p))))]),
          (''revisions'', VList (map VMap (map revisionRow rvs)))]"
proof -
  let ?pid = "pkg_ID p" and ?rels = "go_range (order E 1) (map snd (at_key (releases m) (pkg_ID p)))"
  have ex: "\<exists>rv. Memory_GetRevisionByNumber ?pid (rel_Revision rl) m = Inr rv" if "rl \<in> set ?rels" for rl
    using release_has_revision [OF inv] that unfolding set_go_range by blast
  have "mapsRevisions m ?pid []" by (simp add: mapsRevisions_def)
  then have "\<exists>x. revisionsMapLoop (mem_service cfg) ?pid [] ?rels m = Inr x \<and> mapsRevisions m ?pid x
      \<and> dom (map_of x) = dom (map_of ([] :: (int \<times> revision) list)) \<union> rel_Revision ` set ?rels"
    using ex by (intro revisionsMapLoop_mem) blast+
  then obtain x where x: "revisionsMapLoop (mem_service cfg) ?pid [] ?rels m = Inr x" and maps: "mapsRevisions m ?pid x"
      and dom: "dom (map_of x) = rel_Revision ` set ?rels"
    by auto
  have wf: "wf_map x" and look: "\<And>n rv. map_of x n = Some rv \<Longrightarrow> Memory_GetRevisionByNumber ?pid n m = Inr rv"
    using maps by (simp_all add: mapsRevisions_def)
  let ?rvs = "sort_key rev_Revision (go_range (order E 2) (map snd x))"
  have "set ?rvs = {rv. \<exists>n. map_of x n = Some rv}"
    using snd_of_map [OF wf] by simp
  also have "\<dots> = revisionsOf m ?pid ?rels"
  proof (intro set_eqI iffI)
    fix rv assume "rv \<in> {rv. \<exists>n. map_of x n = Some rv}"
    then obtain n where n: "map_of x n = Some rv" by blast
    then have "n \<in> rel_Revision ` set ?rels" using dom by (auto simp: dom_def)
    then show "rv \<in> revisionsOf m ?pid ?rels" using look n unfolding revisionsOf_def by blast
  next
    fix rv assume "rv \<in> revisionsOf m ?pid ?rels"
    then obtain rl where rl: "rl \<in> set ?rels" "Memory_GetRevisionByNumber ?pid (rel_Revision rl) m = Inr rv"
      unfolding revisionsOf_def by blast
    then obtain rv' where "map_of x (rel_Revision rl) = Some rv'" using dom by (metis domD image_eqI)
    then show "rv \<in> {rv. \<exists>n. map_of x n = Some rv}" using look rl(2) by fastforce
  qed
  finally have set: "set ?rvs = revisionsOf m ?pid ?rels" .
  have sorted: "sorted_wrt (<) (map rev_Revision ?rvs)"
    by (rule sorted_numbers [OF maps])
  have "requirePackageView (mem_service cfg) identity p True m = Inr ()"
    using p view token by (simp add: requirePackageView_mem [of m p p] stored_def)
  moreover have "enrichPackage (mem_service cfg) (order E 0) p m = Inr (withStore cfg p)"
    using p by (simp add: enrichPackage_mem stored_def)
  ultimately have "Service_ListReleases (mem_service cfg) E identity (pkg_Name p) m = Inr
         [(''channel-map'', VList (map (VMap \<circ> releaseRow) ?rels)),
          (''craft-channel-map'', VList []),
          (''package'', VMap [(''channels'', VList (map VMap (packageChannels (pkg_Tracks p))))]),
          (''revisions'', VList (map VMap (map revisionRow ?rvs)))]"
    using p x by (simp add: Service_ListReleases_def Memory_GetPackageByName_def stored_def
        Memory_ListReleases_def Let_def)
  then show ?thesis using set sorted by (intro exI [of _ ?rels] exI [of _ ?rvs]) simp
qed

lemma list_releases_spec_witness:
  "\<exists>doc rows. Service_ListReleases (mem_service ex_cfg) ex_env alice_in ''demo'' shop = Inr doc
     \<and> doc_at doc ''revisions'' = Some (VList rows) \<and> length rows = 2"
proof -
  have token: "tokenGrants alice_in permPackageView" by (simp add: tokenGrants_def alice_in_def)
  obtain rels rvs where rels: "mset rels = mset (map snd (at_key (releases shop) (pkg_ID demo)))"
      and rvs: "set rvs = revisionsOf shop (pkg_ID demo) rels" "sorted_wrt (<) (map rev_Revision rvs)"
      and doc: "Service_ListReleases (mem_service ex_cfg) ex_env alice_in (pkg_Name demo) shop = Inr
         [(''channel-map'', VList (map (VMap \<circ> releaseRow) rels)),
          (''craft-channel-map'', VList []),
          (''package'', VMap [(''channels'', VList (map VMap (packageChannels (pkg_Tracks demo))))]),
          (''revisions'', VList (map VMap (map revisionRow rvs)))]"
    using list_releases_spec [OF shop_inv demo_stored mayManage_mayView [OF alice_manages_demo] token,
        of ex_cfg ex_env] by blast
  have "set rels = {demo_release ''latest/stable'' 1, demo_release ''latest/edge'' 2}"
    using arg_cong [OF rels, of set_mset] by (simp add: shop_def demo_def)
  then have "set rvs = {demo_revision 1 ''uploads/u1/demo.charm'', demo_revision 2 ''uploads/u9/demo.charm''}"
    unfolding rvs(1) revisionsOf_def
    by (auto simp: Memory_GetRevisionByNumber_def shop_def demo_def demo_release_def demo_revision_def)
  moreover have "distinct (map rev_Revision rvs)" using rvs(2) by (simp add: strict_sorted_iff)
  then have "card (set rvs) = length rvs" using distinct_card distinct_map by blast
  ultimately have "length rvs = 2" by (simp add: demo_revision_def)
  then show ?thesis using doc by (simp add: demo_def)
qed

section \<open>Tracks\<close>

lemma addTracks_spec:
  "\<exists>ys. addTracks ts n new = (ts @ ys, n + length ys) \<and> set ys \<subseteq> set new
     \<and> trk_Name ` set (ts @ ys) = trk_Name ` set (ts @ new)"
proof (induction ts n new rule: addTracks.induct)
  case (2 existing created track ts)
  show ?case
  proof (cases "\<exists>e \<in> set existing. trk_Name e = trk_Name track")
    case True
    then have "trk_Name track \<in> trk_Name ` set existing" by (metis image_eqI)
    then show ?thesis using 2(1) [OF True] True by auto
  next
    case False
    obtain ys where "addTracks (existing @ [track]) (Suc created) ts = (existing @ track # ys, Suc created + length ys)"
        "set ys \<subseteq> set ts" "trk_Name ` set ((existing @ [track]) @ ys) = trk_Name ` set ((existing @ [track]) @ ts)"
      using 2(2) [OF False] by auto
    then show ?thesis using False by (intro exI [of _ "track # ys"]) auto
  qed
qed auto

lemma stored_tracks: "memory_inv m \<Longrightarrow> stored p m \<Longrightarrow> distinct (map trk_Name (pkg_Tracks p))"
  unfolding memory_inv_def packages_ok_def stored_def by blast

lemma stampTrack_name [simp]: "trk_Name (stampTrack t tr) = trk_Name tr"
  by (simp add: stampTrack_def)

text \<open>Creating tracks adds exactly the names the package does not have yet, each once even when the request
repeats it, keeps the tracks it has as they are and in their place, counts the new ones, and changes no other
package.\<close>

lemma create_tracks_spec:
  assumes inv: "memory_inv m" and p: "stored p m" and manage: "mayManage identity p permPackageManageMetadata"
  shows "\<exists>added m'. Service_CreateTracks (mem_service cfg) E identity (pkg_Name p) newTracks m = (Inr (length added), m')
     \<and> stored (p\<lparr>pkg_Tracks := pkg_Tracks p @ added\<rparr>) m' \<and> memory_inv m'
     \<and> distinct (map trk_Name (pkg_Tracks p @ added))
     \<and> trk_Name ` set (pkg_Tracks p @ added) = trk_Name ` set (pkg_Tracks p) \<union> trk_Name ` set newTracks
     \<and> (\<forall>q. stored q m \<longrightarrow> q \<noteq> p \<longrightarrow> stored q m')"
proof -
  let ?new = "map (stampTrack (now E 0)) newTracks"
  obtain added where add: "addTracks (pkg_Tracks p) 0 ?new = (pkg_Tracks p @ added, length added)"
      and names: "trk_Name ` set (pkg_Tracks p @ added) = trk_Name ` set (pkg_Tracks p @ ?new)"
    using addTracks_spec [of "pkg_Tracks p" 0 ?new] by auto
  let ?p = "p\<lparr>pkg_Tracks := pkg_Tracks p @ added\<rparr>"
  let ?m = "m\<lparr>packagesByID := AList.update (pkg_ID p) ?p (packagesByID m),
              packages := AList.update (pkg_Name p) ?p (packages m)\<rparr>"
  have run: "Memory_CreateTracks (pkg_ID p) ?new m = (Inr (length added), ?m)"
    using p add by (simp add: Memory_CreateTracks_def stored_def Let_def)
  have inv': "memory_inv ?m" using memory_inv_CreateTracks [OF inv, of "pkg_ID p" ?new] run by simp
  have st: "stored ?p ?m" by (simp add: stored_def)
  have "distinct (map trk_Name (pkg_Tracks p @ added))"
    using stored_tracks [OF inv' st] by simp
  moreover have "stored q ?m" if "stored q m" "q \<noteq> p" for q
  proof -
    have "pkg_ID q \<noteq> pkg_ID p" "pkg_Name q \<noteq> pkg_Name p"
      using stored_unique [OF that(1) p] that(2) by blast+
    then show ?thesis using that(1) by (simp add: stored_def)
  qed
  moreover have "trk_Name ` set (pkg_Tracks p @ added) = trk_Name ` set (pkg_Tracks p) \<union> trk_Name ` set newTracks"
    using names by (simp add: image_Un image_image)
  moreover have "Service_CreateTracks (mem_service cfg) E identity (pkg_Name p) newTracks m = (Inr (length added), ?m)"
    using p run requirePackageManage_Inr [OF p manage]
    by (simp add: Service_CreateTracks_def Memory_GetPackageByName_def stored_def)
  ultimately show ?thesis using st inv' by blast
qed

lemma create_tracks_spec_witness:
  "\<exists>m'. Service_CreateTracks (mem_service ex_cfg) ex_env alice_in ''demo''
     [stampTrack 7 \<lparr>trk_Name = ''2.0'', trk_VersionPattern = None, trk_AutomaticPhasingPercentage = None, trk_CreatedAt = 0\<rparr>,
      \<lparr>trk_Name = ''latest'', trk_VersionPattern = None, trk_AutomaticPhasingPercentage = None, trk_CreatedAt = 0\<rparr>,
      \<lparr>trk_Name = ''2.0'', trk_VersionPattern = None, trk_AutomaticPhasingPercentage = None, trk_CreatedAt = 0\<rparr>] shop
     = (Inr 1, m')"
proof -
  let ?ts = "[stampTrack 7 \<lparr>trk_Name = ''2.0'', trk_VersionPattern = None, trk_AutomaticPhasingPercentage = None, trk_CreatedAt = 0\<rparr>,
      \<lparr>trk_Name = ''latest'', trk_VersionPattern = None, trk_AutomaticPhasingPercentage = None, trk_CreatedAt = 0\<rparr>,
      \<lparr>trk_Name = ''2.0'', trk_VersionPattern = None, trk_AutomaticPhasingPercentage = None, trk_CreatedAt = 0\<rparr>]"
  obtain added m' where run: "Service_CreateTracks (mem_service ex_cfg) ex_env alice_in (pkg_Name demo) ?ts shop = (Inr (length added), m')"
      and d: "distinct (map trk_Name (pkg_Tracks demo @ added))"
      and n: "trk_Name ` set (pkg_Tracks demo @ added) = trk_Name ` set (pkg_Tracks demo) \<union> trk_Name ` set ?ts"
    using create_tracks_spec [OF shop_inv demo_stored alice_manages_demo, of ex_cfg ex_env ?ts] by blast
  have "card (set (map trk_Name (pkg_Tracks demo @ added))) = Suc (length added)"
    using distinct_card [OF d] by (simp add: demo_def)
  moreover have "set (map trk_Name (pkg_Tracks demo @ added)) = {''latest'', ''2.0''}"
    unfolding set_map n by (auto simp: demo_def)
  ultimately have "length added = 1" by simp
  then show ?thesis using run by (auto simp: demo_def)
qed

end
