(* ===== verification/System.thy ===== *)
theory System
  imports Dispatch Refreshing ReleaseMap
begin

text \<open>
  The invariant of the two in-memory stores together: the invariant of the repository, and the statement that
  every object key it stores is a key of the blob store.  Every operation of the service layer keeps it,
  provided that the identifiers it draws are new.
\<close>

section \<open>The invariant\<close>

definition has :: "memory_store \<Rightarrow> string \<Rightarrow> bool" where
  "has b key \<longleftrightarrow> map_of b key \<noteq> None"

definition blobs_ok :: "memory \<Rightarrow> memory_store \<Rightarrow> bool" where
  "blobs_ok m b \<longleftrightarrow>
     (\<forall>i u. map_of (uploads m) i = Some u \<longrightarrow> has b (upl_ObjectKey u)) \<and>
     (\<forall>pid. \<forall>rv \<in> set (at_key (revisions m) pid). has b (rev_ObjectKey rv)) \<and>
     (\<forall>rid. \<forall>rr \<in> set (at_key (resourceRevisions m) rid). rr_ObjectKey rr = [] \<or> has b (rr_ObjectKey rr))"

definition sys_ok :: "memory \<Rightarrow> memory_store \<Rightarrow> bool" where
  "sys_ok m b \<longleftrightarrow> memory_inv m \<and> blobs_ok m b"

lemma sys_ok_new: "sys_ok NewMemory NewMemoryStore"
  using memory_inv_new by (simp add: sys_ok_def blobs_ok_def NewMemory_def)

lemma blobs_ok_frame [simp]:
  "blobs_ok (m\<lparr>accounts := x\<rparr>) b = blobs_ok m b"
  "blobs_ok (m\<lparr>accountsByID := x\<rparr>) b = blobs_ok m b"
  "blobs_ok (m\<lparr>tokens := xt\<rparr>) b = blobs_ok m b"
  "blobs_ok (m\<lparr>packages := xp\<rparr>) b = blobs_ok m b"
  "blobs_ok (m\<lparr>packagesByID := xp\<rparr>) b = blobs_ok m b"
  "blobs_ok (m\<lparr>resourceDefs := xd\<rparr>) b = blobs_ok m b"
  "blobs_ok (m\<lparr>releases := xr\<rparr>) b = blobs_ok m b"
  by (simp_all add: blobs_ok_def)

lemma blobs_ok_mono: "blobs_ok m b \<Longrightarrow> (\<And>k. has b k \<Longrightarrow> has b' k) \<Longrightarrow> blobs_ok m b'"
  unfolding blobs_ok_def by blast

section \<open>Fresh identifiers\<close>

text \<open>
  What \<^verbatim>\<open>uuid.NewString\<close> and the secure random source promise, up to collisions: the identifiers a request
  draws are new to the store and different from each other, and the hash of the random token is new.
\<close>

definition fresh_env :: "ambient \<Rightarrow> memory \<Rightarrow> bool" where
  "fresh_env E m \<longleftrightarrow>
     inj (uuid E) \<and>
     (\<forall>i. map_of (accountsByID m) (uuid E i) = None
        \<and> map_of (packagesByID m) (compactID (uuid E i)) = None
        \<and> (\<forall>h tok. map_of (tokens m) h = Some tok \<longrightarrow> tok_SessionID tok \<noteq> uuid E i)) \<and>
     (\<forall>raw h. NewOpaqueToken (rand E) = Inr (raw, h) \<longrightarrow> map_of (tokens m) h = None)"

lemma skip_sel [simp]:
  "uuid (skip k E) i = uuid E (i + k)" "now (skip k E) i = now E (i + k)" "rand (skip k E) = rand E"
  by (simp_all add: skip_def)

lemma fresh_env_skip: "fresh_env E m \<Longrightarrow> fresh_env (skip k E) m"
  by (auto simp: fresh_env_def inj_eq intro!: injI)

lemma snd_st_bind_pass [simp]: "snd (st_bind rs (\<lambda>x s. (f x, s))) = snd rs"
  by (cases rs; cases "fst rs") auto

section \<open>Every service keeps the invariant\<close>

lemma EnsureAccount_effect:
  assumes "memory_inv m"
  shows "\<exists>x y r. Memory_EnsureAccount t a m = (Inr r, m\<lparr>accounts := x, accountsByID := y\<rparr>)
     \<and> dom (map_of y) \<subseteq> insert (acc_ID a) (dom (map_of (accountsByID m)))"
proof (cases "map_of (accounts m) (acc_Subject a)")
  case None
  then have "Memory_EnsureAccount t a m = (Inr (a\<lparr>acc_CreatedAt := t\<rparr>), m\<lparr>
      accounts := AList.update (acc_Subject a) (a\<lparr>acc_CreatedAt := t\<rparr>) (accounts m),
      accountsByID := AList.update (acc_ID a) (a\<lparr>acc_CreatedAt := t\<rparr>) (accountsByID m)\<rparr>)"
    by (simp add: Memory_EnsureAccount_def Let_def)
  moreover have "dom (map_of (AList.update (acc_ID a) (a\<lparr>acc_CreatedAt := t\<rparr>) (accountsByID m)))
      \<subseteq> insert (acc_ID a) (dom (map_of (accountsByID m)))"
    by (auto simp: update_conv')
  ultimately show ?thesis by blast
next
  case (Some old)
  then have "map_of (accountsByID m) (acc_ID old) = Some old"
    using assms unfolding memory_inv_def accounts_ok_def by blast
  then have "dom (map_of (AList.update (acc_ID old) (old\<lparr>acc_Email := acc_Email a,
       acc_DisplayName := acc_DisplayName a, acc_Username := acc_Username a\<rparr>) (accountsByID m)))
      \<subseteq> insert (acc_ID a) (dom (map_of (accountsByID m)))"
    by (auto simp: update_conv')
  moreover have "Memory_EnsureAccount t a m = (Inr (old\<lparr>acc_Email := acc_Email a,
       acc_DisplayName := acc_DisplayName a, acc_Username := acc_Username a\<rparr>), m\<lparr>
      accounts := AList.update (acc_Subject a) (old\<lparr>acc_Email := acc_Email a,
       acc_DisplayName := acc_DisplayName a, acc_Username := acc_Username a\<rparr>) (accounts m),
      accountsByID := AList.update (acc_ID old) (old\<lparr>acc_Email := acc_Email a,
       acc_DisplayName := acc_DisplayName a, acc_Username := acc_Username a\<rparr>) (accountsByID m)\<rparr>)"
    using Some by (simp add: Memory_EnsureAccount_def Let_def)
  ultimately show ?thesis by blast
qed

lemma ResolveIdentity_effect:
  assumes "memory_inv m"
  shows "\<exists>x y r. ResolveIdentity (mem_service cfg) E c t m = (Inr r, m\<lparr>accounts := x, accountsByID := y\<rparr>)
     \<and> dom (map_of y) \<subseteq> insert (uuid E 0) (dom (map_of (accountsByID m)))"
proof (cases "cl_Subject c = []")
  case True
  then show ?thesis
    by (intro exI [of _ "accounts m"] exI [of _ "accountsByID m"]) (auto simp: ResolveIdentity_def)
next
  case False
  obtain x y r where "Memory_EnsureAccount (now E 1) (accountOfClaims (uuid E 0) (now E 0) c) m
        = (Inr r, m\<lparr>accounts := x, accountsByID := y\<rparr>)"
      "dom (map_of y) \<subseteq> insert (uuid E 0) (dom (map_of (accountsByID m)))"
    using EnsureAccount_effect [OF assms, of "now E 1" "accountOfClaims (uuid E 0) (now E 0) c"]
    by (auto simp: accountOfClaims_def)
  then show ?thesis using False by (auto simp: ResolveIdentity_def)
qed

lemma ResolveIdentity_inv:
  assumes inv: "memory_inv m" and fresh: "fresh_env E m"
  shows "memory_inv (snd (ResolveIdentity (mem_service cfg) E c t m))"
proof -
  have "acc_ID (accountOfClaims (uuid E 0) (now E 0) c) = uuid E 0" by (simp add: accountOfClaims_def)
  then have "memory_inv (snd (Memory_EnsureAccount (now E 1) (accountOfClaims (uuid E 0) (now E 0) c) m))"
    using fresh by (intro memory_inv_EnsureAccount [OF inv]) (simp add: fresh_env_def)
  then show ?thesis using inv by (simp add: ResolveIdentity_def)
qed

lemma ResolveIdentity_ok:
  assumes ok: "sys_ok m b" and fresh: "fresh_env E m"
  shows "sys_ok (snd (ResolveIdentity (mem_service cfg) E c t m)) b"
proof -
  have inv: "memory_inv m" using ok by (simp add: sys_ok_def)
  obtain x y r where "ResolveIdentity (mem_service cfg) E c t m = (Inr r, m\<lparr>accounts := x, accountsByID := y\<rparr>)"
    using ResolveIdentity_effect [OF inv] by blast
  then show ?thesis
    using ResolveIdentity_inv [OF inv fresh, of cfg c t] ok by (simp add: sys_ok_def)
qed

lemma ResolveIdentity_fresh:
  assumes inv: "memory_inv m" and fresh: "fresh_env E m" and k: "0 < k"
  shows "fresh_env (skip k E) (snd (ResolveIdentity (mem_service cfg) E c t m))"
proof -
  obtain x y r where eff: "ResolveIdentity (mem_service cfg) E c t m = (Inr r, m\<lparr>accounts := x, accountsByID := y\<rparr>)"
      and dom: "dom (map_of y) \<subseteq> insert (uuid E 0) (dom (map_of (accountsByID m)))"
    using ResolveIdentity_effect [OF inv] by blast
  have "map_of y (uuid E (i + k)) = None" for i
  proof -
    have "uuid E (i + k) \<noteq> uuid E 0" using fresh k by (auto simp: fresh_env_def inj_def)
    moreover have "uuid E (i + k) \<notin> dom (map_of (accountsByID m))" using fresh by (auto simp: fresh_env_def)
    ultimately show ?thesis using dom by blast
  qed
  then show ?thesis
    using fresh_env_skip [OF fresh, of k] eff by (simp add: fresh_env_def)
qed

text \<open>Chains keep what their parts keep.\<close>

lemma sys_rd_bind:
  "sys_ok s b \<Longrightarrow> (\<And>x. r = Inr x \<Longrightarrow> sys_ok (snd (f x)) b) \<Longrightarrow> sys_ok (snd (rd_bind r s f)) b"
  by (rule snd_rd_bind)

lemma sys_st_bind:
  "sys_ok (snd rs) b \<Longrightarrow> (\<And>x. fst rs = Inr x \<Longrightarrow> sys_ok (snd (f x (snd rs))) b) \<Longrightarrow> sys_ok (snd (st_bind rs f)) b"
  by (rule snd_st_bind)

lemma IssueStoreToken_ok:
  assumes ok: "sys_ok m b" and fresh: "fresh_env E m"
  shows "sys_ok (snd (IssueStoreToken (mem_service cfg) E identity req m)) b"
proof (cases "requireAuth identity")
  case (Inr u)
  show ?thesis
  proof (cases "NewOpaqueToken (rand E)")
    case (Inr rh)
    obtain raw hash where rh: "rh = (raw, hash)" by (cases rh)
    let ?tok = "\<lparr>tok_SessionID = uuid E 0, tok_TokenHash = hash, tok_AccountID = acc_ID (idn_Account identity),
       tok_Description = itr_Description req, tok_Packages = itr_Packages req, tok_Channels = itr_Channels req,
       tok_Permissions = (if itr_Permissions req = [] then defaultPermissions else itr_Permissions req),
       tok_ValidSince = now E 0, tok_ValidUntil = now E 0 + tokenTTL (itr_TTL req), tok_RevokedAt = None, tok_RevokedBy = None\<rparr>"
    have "fresh_token ?tok m" using fresh Inr rh by (auto simp: fresh_token_def fresh_env_def)
    then have "memory_inv (snd (Memory_CreateStoreToken ?tok m))"
      using ok by (intro memory_inv_CreateStoreToken) (simp_all add: sys_ok_def)
    moreover have "snd (IssueStoreToken (mem_service cfg) E identity req m) = snd (Memory_CreateStoreToken ?tok m)"
      using Inr rh \<open>requireAuth identity = Inr u\<close> by (simp add: IssueStoreToken_def Let_def)
    ultimately show ?thesis using ok by (simp add: sys_ok_def Memory_CreateStoreToken_def)
  qed (use ok \<open>requireAuth identity = Inr u\<close> in \<open>simp add: IssueStoreToken_def\<close>)
qed (use ok in \<open>simp add: IssueStoreToken_def\<close>)

lemma RevokeStoreToken_ok:
  assumes "sys_ok m b"
  shows "sys_ok (snd (Service_RevokeStoreToken (mem_service cfg) E identity sid m)) b"
proof -
  have "sys_ok (snd (Memory_RevokeStoreToken t sh aid sid who m)) b" for t sh aid who
    using assms memory_inv_RevokeStoreToken [of m t sh aid sid who]
    by (auto simp: sys_ok_def Memory_RevokeStoreToken_def split: option.split)
  then show ?thesis
    unfolding Service_RevokeStoreToken_def by (intro sys_rd_bind assms) simp
qed

text \<open>Packages, tracks and releases: the blob keys are not touched.\<close>

lemma RegisterPackage_ok:
  assumes ok: "sys_ok m b" and fresh: "fresh_env E m"
  shows "sys_ok (snd (RegisterPackage (mem_service cfg) E identity name ty private m)) b"
proof -
  let ?p = "newPackage cfg (compactID (uuid E 0)) (now E 0) (idn_Account identity) name ty private"
  have "memory_inv (snd (Memory_CreatePackage ?p m))"
    using ok fresh by (intro memory_inv_CreatePackage) (simp_all add: sys_ok_def fresh_env_def)
  then have create: "sys_ok (snd (Memory_CreatePackage ?p m)) b"
    using ok by (auto simp: sys_ok_def Memory_CreatePackage_def split: option.splits)
  have tracks: "sys_ok (snd (Memory_CreateTracks pid ts m')) b" if "sys_ok m' b" for pid ts m'
    using that memory_inv_CreateTracks [of m' pid ts]
    by (auto simp: sys_ok_def Memory_CreateTracks_def Let_def split: option.splits prod.splits)
  show ?thesis
    unfolding RegisterPackage_def Let_def
    by (intro sys_rd_bind sys_st_bind ok) (simp_all add: create tracks)
qed

lemma UpdatePackage_ok:
  assumes ok: "sys_ok m b" and old: "stored old m"
    and same: "pkg_ID new = pkg_ID old" "pkg_Name new = pkg_Name old" "pkg_Tracks new = pkg_Tracks old"
  shows "sys_ok (snd (Memory_UpdatePackage new m)) b"
proof -
  have "memory_inv m" using ok by (simp add: sys_ok_def)
  then obtain ps qs where "Memory_UpdatePackage new m = (Inr (), m\<lparr>packages := ps, packagesByID := qs\<rparr>)"
      "memory_inv (m\<lparr>packages := ps, packagesByID := qs\<rparr>)"
    using update_stored [OF _ old same] by metis
  then show ?thesis using ok by (simp add: sys_ok_def)
qed

lemma Service_UpdatePackage_ok:
  assumes ok: "sys_ok m b"
  shows "sys_ok (snd (Service_UpdatePackage (mem_service cfg) E identity name patch m)) b"
proof -
  have "sys_ok (snd (Memory_UpdatePackage ((applyPatch patch p)\<lparr>pkg_UpdatedAt := t\<rparr>) m)) b"
    if "Memory_GetPackageByName name m = Inr p" for p t
  proof (rule UpdatePackage_ok [OF ok])
    show "stored p m"
      using that ok stored_name by (auto simp: Memory_GetPackageByName_def res_iff sys_ok_def)
  qed simp_all
  then show ?thesis
    unfolding Service_UpdatePackage_def Let_def
    by (intro sys_rd_bind sys_st_bind ok) (auto simp: res_iff)
qed

lemma UnregisterPackage_ok:
  assumes ok: "sys_ok m b"
  shows "sys_ok (snd (UnregisterPackage (mem_service cfg) identity name m)) b"
proof -
  have "sys_ok (snd (Memory_DeletePackage pid m)) b" for pid
    using ok memory_inv_DeletePackage [of m pid]
    by (auto simp: sys_ok_def Memory_DeletePackage_def split: option.splits)
  then show ?thesis
    using ok unfolding UnregisterPackage_def by (intro sys_rd_bind) (auto intro: sys_rd_bind)
qed

lemma CreateTracks_ok:
  assumes ok: "sys_ok m b"
  shows "sys_ok (snd (Service_CreateTracks (mem_service cfg) E identity name ts m)) b"
proof -
  have "sys_ok (snd (Memory_CreateTracks pid xs m)) b" for pid xs
    using ok memory_inv_CreateTracks [of m pid xs]
    by (auto simp: sys_ok_def Memory_CreateTracks_def Let_def split: option.splits prod.splits)
  then show ?thesis
    unfolding Service_CreateTracks_def by (intro sys_rd_bind ok) simp
qed

lemma Release_ok:
  assumes ok: "sys_ok m b"
  shows "sys_ok (snd (Release (mem_service cfg) E identity name requests m)) b"
proof -
  have "memory_inv m" using ok by (simp add: sys_ok_def)
  then obtain pid out m1 ps qs where eff: "snd (Release (mem_service cfg) E identity name requests m)
        = m1\<lparr>packages := ps, packagesByID := qs\<rparr>" "released_to pid out m m1"
      "memory_inv (m1\<lparr>packages := ps, packagesByID := qs\<rparr>)"
    using Release_effect by blast
  then show ?thesis using ok by (auto simp: sys_ok_def released_to_def)
qed

text \<open>Uploads and publications: the key is stored in the blob store first.\<close>

lemma put_blob_ok: "sys_ok m b \<Longrightarrow> sys_ok m (AList.update key payload b)"
  by (auto simp: sys_ok_def has_def elim!: blobs_ok_mono)

lemma put_upload_ok:
  assumes ok: "sys_ok m b" and key: "has b (upl_ObjectKey u)"
  shows "sys_ok (snd (Memory_CreateUpload u m)) b"
proof -
  have "blobs_ok (snd (Memory_CreateUpload u m)) b"
    using ok key unfolding sys_ok_def blobs_ok_def Memory_CreateUpload_def by simp
  then show ?thesis using ok memory_inv_CreateUpload by (simp add: sys_ok_def)
qed

lemma CreateUpload_ok:
  assumes ok: "sys_ok m b" and run: "Service_CreateUpload (mem_service cfg) E name payload m b = (r, m', b')"
  shows "sys_ok m' b'"
proof -
  define u where "u = newUpload (uuid E 0) (now E 0) name payload"
  have "m' = snd (Memory_CreateUpload u m)" "b' = AList.update (upl_ObjectKey u) payload b"
    using run by (auto simp: Service_CreateUpload_def Let_def MemoryStore_Put_def Memory_CreateUpload_def u_def)
  then show ?thesis
    using put_upload_ok [OF put_blob_ok [OF ok], of "upl_ObjectKey u" payload u] by (simp add: has_def)
qed

lemma ApproveUpload_ok:
  assumes ok: "sys_ok m b"
  shows "sys_ok (snd (Memory_ApproveUpload t uid n errs m)) b"
  using assms memory_inv_ApproveUpload [of m t uid n errs]
  by (auto simp: sys_ok_def blobs_ok_def Memory_ApproveUpload_def split: option.splits)

lemma publishRevision_ok:
  assumes ok: "sys_ok m b" and p: "stored p m" and u: "map_of (uploads m) (upl_ID u) = Some u"
  shows "sys_ok (snd (publishRevision (mem_service cfg) E identity name p u arc m)) b"
proof -
  have inv: "memory_inv m" and blobs: "blobs_ok m b" using ok by (simp_all add: sys_ok_def)
  have key: "has b (upl_ObjectKey u)" using blobs u unfolding blobs_ok_def by blast
  show ?thesis
    by (rule publish_mem [OF inv p u, of cfg E identity name arc])
      (use blobs key in \<open>auto simp: sys_ok_def blobs_ok_def\<close>)
qed

lemma PushRevision_ok:
  assumes ok: "sys_ok m b"
  shows "sys_ok (snd (PushRevision (mem_service cfg) lib E identity name uid m b)) b"
proof -
  have st: "stored p m" if "Memory_GetPackageByName name m = Inr p" for p
    using that ok stored_name by (auto simp: Memory_GetPackageByName_def res_iff sys_ok_def)
  have up: "map_of (uploads m) (upl_ID u) = Some u" if "Memory_GetUpload uid m = Inr u" for u
    using that ok by (auto simp: Memory_GetUpload_def res_iff sys_ok_def memory_inv_def uploads_ok_def)
  show ?thesis
    unfolding PushRevision_def
    by (intro sys_rd_bind ok)
      (auto simp: res_iff st up publishRevision_ok ok ApproveUpload_ok split: sum.split)
qed

lemma PushResource_ok:
  assumes ok: "sys_ok m b"
  shows "sys_ok (snd (PushResource (mem_service cfg) E identity name res req m b)) b"
proof -
  have "sys_ok (snd (Memory_CreateResourceRevision (newResourceRevision i t d n req u payload) m)) b"
    if "Memory_GetUpload uid m = Inr u" for i t d n u payload uid
  proof -
    have "has b (upl_ObjectKey u)"
      using that ok unfolding sys_ok_def blobs_ok_def by (auto simp: Memory_GetUpload_def res_iff)
    then have "blobs_ok (snd (Memory_CreateResourceRevision (newResourceRevision i t d n req u payload) m)) b"
      using ok newResourceRevision_content [of i t d n req u payload]
      by (auto simp: sys_ok_def blobs_ok_def Memory_CreateResourceRevision_def)
    then show ?thesis
      using ok memory_inv_CreateResourceRevision [of m "newResourceRevision i t d n req u payload"]
      by (simp add: sys_ok_def)
  qed
  then show ?thesis
    unfolding PushResource_def Let_def
    by (intro sys_rd_bind sys_st_bind ok) (auto simp: res_iff ApproveUpload_ok)
qed

lemma replaceRevision_set: "replaceRevision rv entries = Some out \<Longrightarrow> set out \<subseteq> insert rv (set entries)"
  by (induction entries arbitrary: out) (fastforce split: if_splits)+

lemma UpdateResourceRevisions_ok:
  assumes ok: "sys_ok m b"
  shows "sys_ok (snd (UpdateResourceRevisions (mem_service cfg) identity name res us m)) b"
proof -
  have upd: "sys_ok (snd (Memory_UpdateResourceRevision (item\<lparr>rr_Bases := x, rr_Architectures := y\<rparr>) m)) b"
    if ok: "sys_ok m b" and item: "Memory_GetResourceRevision rid n m = Inr item" for m rid n item x y
  proof -
    let ?item = "item\<lparr>rr_Bases := x, rr_Architectures := y\<rparr>"
    have "item \<in> set (at_key (resourceRevisions m) rid)"
      using item by (auto simp: Memory_GetResourceRevision_def res_iff dest: find_SomeD)
    then have key: "rr_ObjectKey ?item = [] \<or> has b (rr_ObjectKey ?item)"
      using ok unfolding sys_ok_def blobs_ok_def by simp
    show ?thesis
    proof (cases "replaceRevision ?item (at_key (resourceRevisions m) (rr_ResourceID ?item))")
      case (Some out)
      have "\<forall>rr \<in> set out. rr_ObjectKey rr = [] \<or> has b (rr_ObjectKey rr)"
        using replaceRevision_set [OF Some] key ok unfolding sys_ok_def blobs_ok_def by blast
      then show ?thesis
        using ok Some memory_inv_UpdateResourceRevision [of m ?item]
        by (auto simp: sys_ok_def blobs_ok_def Memory_UpdateResourceRevision_def)
    qed (use ok in \<open>simp add: Memory_UpdateResourceRevision_def\<close>)
  qed
  have "sys_ok (snd (updateLoop (mem_service cfg) rid us n m)) b" if "sys_ok m b" for rid us n m
    using that
  proof (induction us arbitrary: n m)
    case (Cons u us)
    show ?case
      unfolding updateLoop.simps mem_service_sel memory_repo_sel
      by (intro sys_rd_bind sys_st_bind Cons.prems Cons.IH) (auto intro: upd [OF Cons.prems])
  qed simp
  then show ?thesis
    unfolding UpdateResourceRevisions_def by (intro sys_rd_bind ok) (simp add: ok)
qed

end
