(* ===== verification/Serving.thy ===== *)
theory Serving
  imports System
begin

text \<open>
  What every operation of the service layer keeps, every HTTP request keeps.  The locale names the
  operations that write; its lemmas follow the handlers and the routes.  It is interpreted on the invariant
  of the stores here and on the growth of the history in \<^verbatim>\<open>History\<close>.
\<close>

locale service_invariant =
  fixes cfg :: config and Q :: "memory \<Rightarrow> memory_store \<Rightarrow> bool"
  assumes Q_inv: "Q m b \<Longrightarrow> memory_inv m"
    and ResolveIdentity_ok: "Q m b \<Longrightarrow> fresh_env E m \<Longrightarrow> Q (snd (ResolveIdentity (mem_service cfg) E c t m)) b"
    and IssueStoreToken_ok: "Q m b \<Longrightarrow> fresh_env E m \<Longrightarrow> Q (snd (IssueStoreToken (mem_service cfg) E identity req m)) b"
    and RevokeStoreToken_ok: "Q m b \<Longrightarrow> Q (snd (Service_RevokeStoreToken (mem_service cfg) E identity sid m)) b"
    and RegisterPackage_ok: "Q m b \<Longrightarrow> fresh_env E m \<Longrightarrow> Q (snd (RegisterPackage (mem_service cfg) E identity name ty priv m)) b"
    and Service_UpdatePackage_ok: "Q m b \<Longrightarrow> Q (snd (Service_UpdatePackage (mem_service cfg) E identity name patch m)) b"
    and UnregisterPackage_ok: "Q m b \<Longrightarrow> Q (snd (UnregisterPackage (mem_service cfg) identity name m)) b"
    and CreateTracks_ok: "Q m b \<Longrightarrow> Q (snd (Service_CreateTracks (mem_service cfg) E identity name ts m)) b"
    and Release_ok: "Q m b \<Longrightarrow> Q (snd (Release (mem_service cfg) E identity name requests m)) b"
    and PushRevision_ok: "Q m b \<Longrightarrow> Q (snd (PushRevision (mem_service cfg) lib E identity name uid m b)) b"
    and PushResource_ok: "Q m b \<Longrightarrow> Q (snd (PushResource (mem_service cfg) E identity name res rq m b)) b"
    and UpdateResourceRevisions_ok: "Q m b \<Longrightarrow> Q (snd (UpdateResourceRevisions (mem_service cfg) identity name res us m)) b"
    and CreateUpload_ok: "Q m b \<Longrightarrow> Service_CreateUpload (mem_service cfg) E filename payload m b = (r, m', b') \<Longrightarrow> Q m' b'"

context service_invariant
begin

lemma ExchangeStoreToken_ok:
  assumes "Q m b" and "fresh_env E m"
  shows "Q (snd (ExchangeStoreToken (mem_service cfg) E identity d m)) b"
proof -
  have "snd (ExchangeStoreToken (mem_service cfg) E identity d m)
      = snd (IssueStoreToken (mem_service cfg) E identity (exchangeRequest identity d) m)"
    unfolding ExchangeStoreToken_def
    by (cases "IssueStoreToken (mem_service cfg) E identity (exchangeRequest identity d) m";
        cases "fst (IssueStoreToken (mem_service cfg) E identity (exchangeRequest identity d) m)") auto
  then show ?thesis using IssueStoreToken_ok [OF assms] by simp
qed

lemma orError_ok:
  "Q s b \<Longrightarrow> (\<And>x. r = Inr x \<Longrightarrow> Q (snd (f x)) b) \<Longrightarrow> Q (snd (orError r s f)) b"
  by (cases r) auto

lemma orErrorSt_ok:
  "Q (snd rs) b \<Longrightarrow> (\<And>x. fst rs = Inr x \<Longrightarrow> Q (snd (f x (snd rs))) b) \<Longrightarrow> Q (snd (orErrorSt rs f)) b"
  by (cases rs; cases "fst rs") auto

lemma withBody_ok:
  "Q s b \<Longrightarrow> (\<And>x. Q (snd (f x)) b) \<Longrightarrow> Q (snd (withBody A r s f)) b"
  unfolding withBody_def by (rule orError_ok)

lemma identityOf_ok:
  assumes A: "api_svc A = mem_service cfg" and ok: "Q m b" and fresh: "fresh_env E m"
  shows "Q (snd (identityOf A E r m)) b \<and> fresh_env (skip 3 E) (snd (identityOf A E r m))"
proof (cases "Authenticate (api_auth A) memory_repo (now E 0) (hr_Authorization r) m")
  case (Inl e)
  then show ?thesis using ok fresh_env_skip [OF fresh] A by (simp add: identityOf_def)
next
  case (Inr ct)
  obtain c t where ct: "ct = (c, t)" by (cases ct)
  note fresh1 = fresh_env_skip [OF fresh, of 1]
  have inv: "memory_inv m" using ok by (rule Q_inv)
  have "skip 2 (skip 1 E) = skip 3 E" by (simp add: skip_def numeral_3_eq_3)
  then have "fresh_env (skip 3 E) (snd (ResolveIdentity (mem_service cfg) (skip 1 E) c t m))"
    using ResolveIdentity_fresh [OF inv fresh1, of 2 cfg c t] by simp
  then show ?thesis
    using Inr ct A ResolveIdentity_ok [OF ok fresh1, of c t] by (simp add: identityOf_def)
qed

lemma withIdentity_ok:
  assumes "api_svc A = mem_service cfg" and "Q m b" and "fresh_env E m"
    and "\<And>identity m1. Q m1 b \<Longrightarrow> fresh_env (skip 3 E) m1 \<Longrightarrow> Q (snd (f identity m1)) b"
  shows "Q (snd (withIdentity A E r m f)) b"
  unfolding withIdentity_def
  using identityOf_ok [OF assms(1-3), of r] by (intro orErrorSt_ok assms(4)) auto

lemmas serve_intros = withIdentity_ok withBody_ok orError_ok orErrorSt_ok

text \<open>The handlers that only read.\<close>

lemma reading_ok:
  assumes A: "api_svc A = mem_service cfg" and ok: "Q m b" and fresh: "fresh_env E m"
  shows "Q (snd (handleGetTokens A E r m)) b" and "Q (snd (handleTokenWhoAmI A E r m)) b"
    and "Q (snd (handleWhoAmI A E r m)) b" and "Q (snd (handleListPackages A E r m)) b"
    and "Q (snd (handleGetPackage A E r m)) b" and "Q (snd (handleListRevisions A E r m)) b"
    and "Q (snd (handleReviewUpload A E r m)) b" and "Q (snd (handleListResources A E r m)) b"
    and "Q (snd (handleListResourceRevisions A E r m)) b" and "Q (snd (handleOCIUploadCredentials A E r m)) b"
    and "Q (snd (handleOCIImageBlob A E rs m)) b" and "Q (snd (handleListReleases A E r m)) b"
    and "Q (snd (handleFind A E r m)) b" and "Q (snd (handleInfo A E r m)) b"
    and "Q (snd (handleRefresh A E rr m)) b" and "Q (snd (handleCharmDownload A E r m b)) b"
    and "Q (snd (handleResourceDownload A E r m b)) b"
  unfolding handleGetTokens_def handleTokenWhoAmI_def handleWhoAmI_def handleListPackages_def handleGetPackage_def
    handleListRevisions_def handleReviewUpload_def handleListResources_def handleListResourceRevisions_def
    handleOCIUploadCredentials_def handleOCIImageBlob_def handleListReleases_def handleFind_def handleInfo_def
    handleRefresh_def handleCharmDownload_def handleResourceDownload_def Let_def
  by (rule withIdentity_ok [OF A ok fresh]; auto intro!: withBody_ok orError_ok split: prod.split)+

text \<open>The handlers that write.\<close>

lemma writing_ok:
  assumes A: "api_svc A = mem_service cfg" and ok: "Q m b" and fresh: "fresh_env E m"
  shows "Q (snd (handleRegisterPackage A E r1 m)) b" and "Q (snd (handlePatchPackage A E r2 m)) b"
    and "Q (snd (handleDeletePackage A E r3 m)) b" and "Q (snd (handlePushRevision A lib E r4 m b)) b"
    and "Q (snd (handlePushResource A E r5 m b)) b" and "Q (snd (handleUpdateResourceRevisions A E r6 m)) b"
    and "Q (snd (handleRelease A E r7 m)) b" and "Q (snd (handleCreateTracks A E r8 m)) b"
    and "Q (snd (handleDashboardExchange A E r9 m)) b" and "Q (snd (handleRevokeToken A E r4 m)) b"
  unfolding handleRegisterPackage_def handlePatchPackage_def handleDeletePackage_def handlePushRevision_def
    handlePushResource_def handleUpdateResourceRevisions_def handleRelease_def handleCreateTracks_def
    handleDashboardExchange_def handleRevokeToken_def Let_def A
  by (rule withIdentity_ok [OF A ok fresh];
      intro withBody_ok orError_ok orErrorSt_ok RegisterPackage_ok Service_UpdatePackage_ok UnregisterPackage_ok
        PushRevision_ok PushResource_ok UpdateResourceRevisions_ok Release_ok CreateTracks_ok ExchangeStoreToken_ok
        RevokeStoreToken_ok;
      simp add: RegisterPackage_ok Service_UpdatePackage_ok UnregisterPackage_ok
        PushRevision_ok PushResource_ok UpdateResourceRevisions_ok Release_ok CreateTracks_ok ExchangeStoreToken_ok
        RevokeStoreToken_ok)+

lemma handleIssueToken_ok:
  assumes A: "api_svc A = mem_service cfg" and ok: "Q m b" and fresh: "fresh_env E m"
  shows "Q (snd (handleIssueToken A E r m)) b"
  unfolding handleIssueToken_def A
proof (rule withIdentity_ok [OF A ok fresh])
  fix identity0 m1 assume ok1: "Q m1 b" and fresh1: "fresh_env (skip 3 E) m1"
  let ?dev = "if \<not> idn_Authenticated identity0 \<and> cfg_EnableInsecureDevAuth (api_cfg A)
    then ResolveIdentity (mem_service cfg) (skip 3 E) devClaims None m1 else (Inr identity0, m1)"
  have inv1: "memory_inv m1" using ok1 by (rule Q_inv)
  have dev: "Q (snd ?dev) b" "fresh_env (skip 2 (skip 3 E)) (snd ?dev)"
    using ok1 fresh1 ResolveIdentity_ok [OF ok1 fresh1] ResolveIdentity_fresh [OF inv1 fresh1, of 2] fresh_env_skip [OF fresh1]
    by auto
  show "Q (snd (orErrorSt ?dev (\<lambda>identity s2. withBody A r s2 (\<lambda>req.
      orErrorSt (IssueStoreToken (mem_service cfg) (skip 2 (skip 3 E)) identity req s2) (\<lambda>(raw, _) s3.
      (writeJSON 200 [(''macaroon'', VStr (WrapInMacaroon raw (cfg_PublicAPIURL (api_cfg A))))], s3)))))) b"
  proof -
    obtain res m2 where d: "?dev = (res, m2)" by (cases ?dev)
    have "Q m2 b" "fresh_env (skip 2 (skip 3 E)) m2" using dev unfolding d by simp_all
    then show ?thesis
      unfolding d by (cases res) (auto intro!: withBody_ok orErrorSt_ok IssueStoreToken_ok split: prod.split)
  qed
qed

lemma exchangeIdentity_ok:
  assumes A: "api_svc A = mem_service cfg" and ok: "Q m b" and fresh: "fresh_env E m"
  shows "Q (snd (exchangeIdentity A E r identity m)) b \<and> fresh_env (skip 3 E) (snd (exchangeIdentity A E r identity m))"
proof -
  have inv: "memory_inv m" using ok by (rule Q_inv)
  note fresh1 = fresh_env_skip [OF fresh, of 1]
  have "skip 2 (skip 1 E) = skip 3 E" by (simp add: skip_def numeral_3_eq_3)
  then have "fresh_env (skip 3 E) (snd (ResolveIdentity (mem_service cfg) (skip 1 E) c t m))" for c t
    using ResolveIdentity_fresh [OF inv fresh1, of 2 cfg c t] by simp
  then show ?thesis
    using ok fresh_env_skip [OF fresh, of 3] ResolveIdentity_ok [OF ok fresh1]
    by (auto simp: exchangeIdentity_def A split: sum.split)
qed

lemma handleExchangeToken_ok:
  assumes A: "api_svc A = mem_service cfg" and ok: "Q m b" and fresh: "fresh_env E m"
  shows "Q (snd (handleExchangeToken A E r m)) b"
  unfolding handleExchangeToken_def
proof (rule withIdentity_ok [OF A ok fresh])
  fix identity0 m1 assume ok1: "Q m1 b" and fresh1: "fresh_env (skip 3 E) m1"
  note ex = exchangeIdentity_ok [OF A ok1 fresh1, of r identity0]
  show "Q (snd (orErrorSt (exchangeIdentity A (skip 3 E) r identity0 m1) (\<lambda>identity s2.
     orErrorSt (ExchangeStoreToken (api_svc A) (skip 3 (skip 3 E)) identity None s2) (\<lambda>raw s3.
     (writeJSON 200 [(''macaroon'', VStr raw)], s3))))) b"
    using ex by (intro orErrorSt_ok) (simp_all add: A ExchangeStoreToken_ok)
qed

lemma route_ok:
  assumes A: "api_svc A = mem_service cfg" and ok: "Q m b" and fresh: "fresh_env E m"
    and run: "route A lib E c m b = (resp, m', b')"
  shows "Q m' b'"
proof (cases c)
  case (UnscannedUpload form)
  show ?thesis
  proof (cases form)
    case (Inr np)
    obtain name payload r m1 b1 where "np = (name, payload)"
        and up: "Service_CreateUpload (mem_service cfg) E name payload m b = (r, m1, b1)"
      by (metis prod.exhaust)
    then show ?thesis
      using run UnscannedUpload Inr A CreateUpload_ok [OF ok up]
      by (cases r) (auto simp: handleUnscannedUpload_def)
  qed (use run ok UnscannedUpload in \<open>simp add: handleUnscannedUpload_def\<close>)
qed (use run ok reading_ok [OF A ok fresh] writing_ok [OF A ok fresh] handleIssueToken_ok [OF A ok fresh]
      handleExchangeToken_ok [OF A ok fresh] in \<open>auto simp: keepBlobs_def\<close>)

end

interpretation sys: service_invariant cfg sys_ok
  by unfold_locales
    (simp_all add: sys_ok_def [THEN iffD1] ResolveIdentity_ok IssueStoreToken_ok RevokeStoreToken_ok RegisterPackage_ok
      Service_UpdatePackage_ok UnregisterPackage_ok CreateTracks_ok Release_ok PushRevision_ok PushResource_ok
      UpdateResourceRevisions_ok CreateUpload_ok)

end
