(* ===== verification/History.thy ===== *)
theory History
  imports Serving "HOL-Library.Sublist"
begin

text \<open>
  What a registry never forgets.  One request is one step over the two stores; between two states of a run,
  accounts keep their identity, a store token keeps everything but its revocation mark and a revoked token
  stays revoked, the published revisions of a package are only appended to, and no object disappears.
\<close>

section \<open>Growth\<close>

definition tokenSuccessor :: "store_token \<Rightarrow> store_token \<Rightarrow> bool" where
  "tokenSuccessor tok tok' \<longleftrightarrow>
     tok' = tok\<lparr>tok_RevokedAt := tok_RevokedAt tok', tok_RevokedBy := tok_RevokedBy tok'\<rparr>
     \<and> (tok_RevokedAt tok \<noteq> None \<longrightarrow> tok_RevokedAt tok' \<noteq> None)"

definition tokensKept :: "memory \<Rightarrow> memory \<Rightarrow> bool" where
  "tokensKept m m' \<longleftrightarrow>
     (\<forall>h tok. map_of (tokens m) h = Some tok \<longrightarrow> (\<exists>tok'. map_of (tokens m') h = Some tok' \<and> tokenSuccessor tok tok'))"

definition accountsKept :: "memory \<Rightarrow> memory \<Rightarrow> bool" where
  "accountsKept m m' \<longleftrightarrow>
     (\<forall>i a. map_of (accountsByID m) i = Some a \<longrightarrow>
        (\<exists>a'. map_of (accountsByID m') i = Some a' \<and> acc_Subject a' = acc_Subject a))"

definition revisionsKept :: "memory \<Rightarrow> memory \<Rightarrow> bool" where
  "revisionsKept m m' \<longleftrightarrow> (\<forall>pid. prefix (at_key (revisions m) pid) (at_key (revisions m') pid))"

definition grows :: "memory \<Rightarrow> memory \<Rightarrow> bool" where
  "grows m m' \<longleftrightarrow> tokensKept m m' \<and> accountsKept m m' \<and> revisionsKept m m'"

lemma tokenSuccessor_refl [simp]: "tokenSuccessor tok tok"
  by (simp add: tokenSuccessor_def)

lemma tokenSuccessor_trans: "tokenSuccessor a b \<Longrightarrow> tokenSuccessor b c \<Longrightarrow> tokenSuccessor a c"
  unfolding tokenSuccessor_def by (cases a; cases b; cases c) auto

lemma grows_refl [simp]: "grows m m"
  by (simp add: grows_def tokensKept_def accountsKept_def revisionsKept_def)

lemma grows_trans: "grows m1 m2 \<Longrightarrow> grows m2 m3 \<Longrightarrow> grows m1 m3"
proof -
  assume "grows m1 m2" "grows m2 m3"
  then have t: "tokensKept m1 m2" "tokensKept m2 m3" and a: "accountsKept m1 m2" "accountsKept m2 m3"
    and r: "revisionsKept m1 m2" "revisionsKept m2 m3" by (simp_all add: grows_def)
  have "tokensKept m1 m3" using t unfolding tokensKept_def by (metis tokenSuccessor_trans)
  moreover have "accountsKept m1 m3" using a unfolding accountsKept_def by metis
  moreover have "revisionsKept m1 m3" using r unfolding revisionsKept_def by (meson prefix_order.trans)
  ultimately show ?thesis by (simp add: grows_def)
qed

text \<open>The maps that are not part of the history.\<close>

lemma grows_frame:
  assumes "tokens m' = tokens m" and "accountsByID m' = accountsByID m" and "revisions m' = revisions m"
  shows "grows m m'"
  using assms by (simp add: grows_def tokensKept_def accountsKept_def revisionsKept_def)

lemma grows_rd_bind: "grows m s \<Longrightarrow> (\<And>x. r = Inr x \<Longrightarrow> grows m (snd (f x))) \<Longrightarrow> grows m (snd (rd_bind r s f))"
  by (rule snd_rd_bind)

lemma grows_st_bind:
  "grows m (snd rs) \<Longrightarrow> (\<And>x. fst rs = Inr x \<Longrightarrow> grows m (snd (f x (snd rs)))) \<Longrightarrow> grows m (snd (st_bind rs f))"
  by (rule snd_st_bind)

section \<open>Every service lets the history grow\<close>

lemma EnsureAccount_grows:
  assumes inv: "memory_inv m" and new: "map_of (accountsByID m) (acc_ID a) = None"
  shows "grows m (snd (Memory_EnsureAccount t a m))"
proof -
  have ids: "acc_ID old = i" if "map_of (accountsByID m) i = Some old" for i old
    using inv that by (auto simp: memory_inv_def accounts_ok_def)
  have same: "map_of (accountsByID m) (acc_ID old) = Some old" if "map_of (accounts m) s = Some old" for s old
    using inv that by (auto simp: memory_inv_def accounts_ok_def)
  have "accountsKept m (snd (Memory_EnsureAccount t a m))"
    using new same
    by (cases "map_of (accounts m) (acc_Subject a)")
      (fastforce simp: accountsKept_def Memory_EnsureAccount_def Let_def)+
  then show ?thesis
    by (auto simp: grows_def tokensKept_def revisionsKept_def Memory_EnsureAccount_def Let_def split: option.split)
qed

lemma ResolveIdentity_grows:
  assumes "memory_inv m" and "fresh_env E m"
  shows "grows m (snd (ResolveIdentity (mem_service cfg) E c t m))"
proof -
  have "acc_ID (accountOfClaims (uuid E 0) (now E 0) c) = uuid E 0" by (simp add: accountOfClaims_def)
  then have "grows m (snd (Memory_EnsureAccount (now E 1) (accountOfClaims (uuid E 0) (now E 0) c) m))"
    using assms by (intro EnsureAccount_grows) (simp_all add: fresh_env_def)
  then show ?thesis by (simp add: ResolveIdentity_def)
qed

lemma IssueStoreToken_grows:
  assumes fresh: "fresh_env E m"
  shows "grows m (snd (IssueStoreToken (mem_service cfg) E identity req m))"
proof -
  have "grows m (snd (Memory_CreateStoreToken tok m))" if "map_of (tokens m) (tok_TokenHash tok) = None" for tok
    using that by (auto simp: grows_def tokensKept_def accountsKept_def revisionsKept_def Memory_CreateStoreToken_def)
  then show ?thesis
    using fresh unfolding IssueStoreToken_def Let_def
    by (intro grows_rd_bind grows_refl) (auto simp: fresh_env_def split: prod.split)
qed

lemma RevokeStoreToken_grows:
  assumes inv: "memory_inv m"
  shows "grows m (snd (Service_RevokeStoreToken (mem_service cfg) E identity sid m))"
proof -
  have "grows m (snd (Memory_RevokeStoreToken t sh aid sid who m))" for t sh aid who
  proof (cases "find (\<lambda>(hash, token). tok_AccountID token = aid \<and> tok_SessionID token = sid) (go_range sh (tokens m))")
    case (Some ht)
    obtain h tok where ht: "ht = (h, tok)" by (cases ht)
    have "(h, tok) \<in> set (tokens m)" using Some ht by (auto dest: find_SomeD)
    then have old: "map_of (tokens m) h = Some tok"
      using inv by (simp add: memory_inv_def tokens_ok_def map_of_eq_Some_iff)
    have "tokenSuccessor tok (tok\<lparr>tok_RevokedAt := Some t, tok_RevokedBy := Some who\<rparr>)"
      by (simp add: tokenSuccessor_def)
    then have "tokensKept m (snd (Memory_RevokeStoreToken t sh aid sid who m))"
      using Some ht old by (auto simp: tokensKept_def Memory_RevokeStoreToken_def)
    then show ?thesis
      using Some ht by (simp add: grows_def accountsKept_def revisionsKept_def Memory_RevokeStoreToken_def)
  qed (simp add: Memory_RevokeStoreToken_def)
  then show ?thesis unfolding Service_RevokeStoreToken_def by (intro grows_rd_bind) simp_all
qed

lemma package_ops_grow [simp]:
  "grows m (snd (Memory_CreatePackage p m))" "grows m (snd (Memory_UpdatePackage p m))"
  "grows m (snd (Memory_DeletePackage pid m))" "grows m (snd (Memory_CreateTracks pid ts m))"
  "grows m (snd (Memory_CreateUpload u m))" "grows m (snd (Memory_ApproveUpload t uid n errs m))"
  "grows m (snd (Memory_CreateResourceRevision rr m))" "grows m (snd (Memory_UpdateResourceRevision rr m))"
  by (auto intro!: grows_frame simp: memory_ops Let_def Memory_UpdateResourceRevision_def
      split: option.split prod.split)

lemma RegisterPackage_grows: "grows m (snd (RegisterPackage (mem_service cfg) E identity name ty private m))"
  unfolding RegisterPackage_def Let_def
  by (intro grows_rd_bind grows_st_bind) (auto intro: grows_trans [OF package_ops_grow(1) package_ops_grow(4)])

lemma Service_UpdatePackage_grows: "grows m (snd (Service_UpdatePackage (mem_service cfg) E identity name patch m))"
  unfolding Service_UpdatePackage_def Let_def by (intro grows_rd_bind grows_st_bind) auto

lemma UnregisterPackage_grows: "grows m (snd (UnregisterPackage (mem_service cfg) identity name m))"
  unfolding UnregisterPackage_def by (intro grows_rd_bind) (auto intro: grows_rd_bind)

lemma CreateTracks_grows: "grows m (snd (Service_CreateTracks (mem_service cfg) E identity name ts m))"
  unfolding Service_CreateTracks_def by (intro grows_rd_bind) auto

lemma Release_grows:
  assumes "memory_inv m"
  shows "grows m (snd (Release (mem_service cfg) E identity name requests m))"
proof -
  obtain pid out m1 ps qs where "snd (Release (mem_service cfg) E identity name requests m)
        = m1\<lparr>packages := ps, packagesByID := qs\<rparr>" "released_to pid out m m1"
    using Release_effect [OF assms] by blast
  then show ?thesis by (auto intro!: grows_frame simp: released_to_def)
qed

lemma publishRevision_grows:
  assumes "memory_inv m" and "stored p m" and "map_of (uploads m) (upl_ID u) = Some u"
  shows "grows m (snd (publishRevision (mem_service cfg) E identity name p u arc m))"
  by (rule publish_mem [OF assms, of cfg E identity name arc])
    (auto simp: grows_def tokensKept_def accountsKept_def revisionsKept_def)

lemma PushRevision_grows:
  assumes inv: "memory_inv m"
  shows "grows m (snd (PushRevision (mem_service cfg) lib E identity name uid m b))"
proof -
  have st: "stored p m" if "Memory_GetPackageByName name m = Inr p" for p
    using that inv stored_name by (auto simp: Memory_GetPackageByName_def res_iff)
  have up: "map_of (uploads m) (upl_ID u) = Some u" if "Memory_GetUpload uid m = Inr u" for u
    using that inv by (auto simp: Memory_GetUpload_def res_iff memory_inv_def uploads_ok_def)
  show ?thesis
    unfolding PushRevision_def
    by (intro grows_rd_bind) (auto simp: res_iff st up publishRevision_grows inv split: sum.split)
qed

lemma PushResource_grows: "grows m (snd (PushResource (mem_service cfg) E identity name res req m b))"
  unfolding PushResource_def Let_def
  by (intro grows_rd_bind grows_st_bind) (auto intro: grows_trans [OF package_ops_grow(7) package_ops_grow(6)])

lemma updateLoop_grows: "grows m (snd (updateLoop (mem_service cfg) rid us n m))"
proof (induction us arbitrary: n m)
  case (Cons u us)
  show ?case
    unfolding updateLoop.simps mem_service_sel memory_repo_sel
    by (intro grows_rd_bind grows_st_bind grows_refl package_ops_grow grows_trans [OF package_ops_grow(8) Cons.IH])
qed simp

lemma UpdateResourceRevisions_grows: "grows m (snd (UpdateResourceRevisions (mem_service cfg) identity name res us m))"
  unfolding UpdateResourceRevisions_def by (intro grows_rd_bind) (simp_all add: updateLoop_grows)

section \<open>Runs\<close>

text \<open>The state of a run that started at \<open>(m0, b0)\<close>: the stores are in order and nothing was forgotten.\<close>

definition grown :: "memory \<Rightarrow> memory_store \<Rightarrow> memory \<Rightarrow> memory_store \<Rightarrow> bool" where
  "grown m0 b0 m b \<longleftrightarrow> sys_ok m b \<and> grows m0 m \<and> (\<forall>k. has b0 k \<longrightarrow> has b k)"

lemma grown_keep:
  assumes "grown m0 b0 m b" and "sys_ok m b \<Longrightarrow> sys_ok m' b" and "memory_inv m \<Longrightarrow> grows m m'"
  shows "grown m0 b0 m' b"
  using assms grows_trans [of m0 m m'] by (simp add: grown_def sys_ok_def)

lemma grown_upload:
  assumes g: "grown m0 b0 m b" and run: "Service_CreateUpload (mem_service cfg) E filename payload m b = (r, m', b')"
  shows "grown m0 b0 m' b'"
proof -
  have "m' = snd (Memory_CreateUpload (newUpload (uuid E 0) (now E 0) filename payload) m)"
    using run by (auto simp: Service_CreateUpload_def Let_def MemoryStore_Put_def Memory_CreateUpload_def)
  then have "grows m0 m'" using g grows_trans [OF _ package_ops_grow(5)] by (auto simp: grown_def)
  moreover have "has b k \<Longrightarrow> has b' k" for k
    using run by (auto simp: Service_CreateUpload_def Let_def MemoryStore_Put_def Memory_CreateUpload_def has_def)
  ultimately show ?thesis using g CreateUpload_ok [OF _ run] by (simp add: grown_def)
qed

interpretation grow: service_invariant cfg "grown m0 b0"
proof
  show "memory_inv m" if "grown m0 b0 m b" for m b using that by (simp add: grown_def sys_ok_def)
qed (erule grown_keep; simp add: ResolveIdentity_ok ResolveIdentity_grows IssueStoreToken_ok IssueStoreToken_grows
       RevokeStoreToken_ok RevokeStoreToken_grows RegisterPackage_ok RegisterPackage_grows Service_UpdatePackage_ok
       Service_UpdatePackage_grows UnregisterPackage_ok UnregisterPackage_grows CreateTracks_ok CreateTracks_grows
       Release_ok Release_grows PushRevision_ok PushRevision_grows PushResource_ok PushResource_grows
       UpdateResourceRevisions_ok UpdateResourceRevisions_grows
     | erule grown_upload, assumption)+

text \<open>A sequence of requests, each served to its end with an environment of its own.\<close>

inductive runs ::
    "(memory, memory_store) api \<Rightarrow> archive_lib \<Rightarrow> memory \<times> memory_store \<Rightarrow> memory \<times> memory_store \<Rightarrow> bool"
  for A :: "(memory, memory_store) api" and lib :: archive_lib and s :: "memory \<times> memory_store" where
  idle: "runs A lib s s"
| serve: "runs A lib s (m, b) \<Longrightarrow> fresh_env E m \<Longrightarrow> dispatch A lib E c m b = (resp, m', b')
     \<Longrightarrow> runs A lib s (m', b')"

lemma dispatch_route: "dispatch A lib E c m b = (resp, m', b') \<Longrightarrow> \<exists>r. route A lib E c m b = (r, m', b')"
  by (auto simp: dispatch_def split: prod.splits)

lemma runs_grown:
  assumes "runs A lib s s'" and "api_svc A = mem_service cfg" and "sys_ok (fst s) (snd s)"
  shows "grown (fst s) (snd s) (fst s') (snd s')"
  using assms
proof (induction rule: runs.induct)
  case idle
  then show ?case by (simp add: grown_def)
next
  case (serve m b E c resp m' b')
  then have "grown (fst s) (snd s) m b" by simp
  with serve.hyps(2,3) serve.prems(1) show ?case
    using grow.route_ok [of A cfg "fst s" "snd s" m b E] dispatch_route by fastforce
qed

lemma find_by_key: "distinct (map f xs) \<Longrightarrow> x \<in> set xs \<Longrightarrow> find (\<lambda>y. f y = f x) xs = Some x"
  by (induction xs) (auto simp: rev_image_eqI)

lemma revision_found:
  assumes "memory_inv m" and "rv \<in> set (at_key (revisions m) pid)"
  shows "Memory_GetRevisionByNumber pid (rev_Revision rv) m = Inr rv"
proof -
  have "map rev_Revision (at_key (revisions m) pid) = map (int \<circ> Suc) [0..<length (at_key (revisions m) pid)]"
    using assms(1) by (simp add: memory_inv_def revisions_ok_def)
  moreover have "distinct (map (int \<circ> Suc) [0..<n])" for n by (simp add: distinct_map inj_on_def)
  ultimately have "distinct (map rev_Revision (at_key (revisions m) pid))" by metis
  then show ?thesis using find_by_key [of rev_Revision, OF _ assms(2)] by (simp add: Memory_GetRevisionByNumber_def)
qed

text \<open>Inputs for the witnesses: the example shop with all its objects, and one upload.\<close>

definition ex_api :: "(memory, memory_store) api" where
  "ex_api = \<lparr>api_cfg = ex_cfg, api_svc = mem_service ex_cfg, api_auth = \<lparr>au_config = ex_cfg, au_verifier = None\<rparr>\<rparr>"

definition full_blobs :: memory_store where
  "full_blobs = (''uploads/u9/demo.charm'', ''zip2'') # shop_blobs"

lemma ex_api_sel [simp]: "api_svc ex_api = mem_service ex_cfg" "api_cfg ex_api = ex_cfg"
  by (simp_all add: ex_api_def)

lemma shop_ok: "sys_ok shop full_blobs"
proof -
  have "blobs_ok shop full_blobs"
    by (auto simp: blobs_ok_def shop_def full_blobs_def shop_blobs_def demo_upload_def demo_revision_def
        demo_resource_revision_def has_def split: if_splits)
  then show ?thesis using shop_inv by (simp add: sys_ok_def)
qed

definition one_upload :: call where
  "one_upload = UnscannedUpload (Inr (''d.charm'', ''zip''))"

lemma ex_uuids: "uuid ex_env i = replicate (Suc i) CHR ''n''"
  by (simp add: ex_env_def)

lemma ex_fresh: "fresh_env ex_env NewMemory" "fresh_env ex_env shop"
proof -
  have inj: "inj (uuid ex_env)" by (auto simp: inj_def ex_uuids dest: arg_cong [where f = length])
  then show "fresh_env ex_env NewMemory" by (simp add: fresh_env_def NewMemory_def)
  have "compactID (uuid ex_env i) = replicate (Suc i) CHR ''n''" for i
    unfolding compactID_def ex_uuids replaceChar_def by (induction i) auto
  moreover have "h \<noteq> ''h1''" if "NewOpaqueToken (rand ex_env) = Inr (raw, h)" for raw h
    using newOpaqueToken_raw(1) [OF that] HashToken_neq [of "''h1''" raw] by auto
  ultimately show "fresh_env ex_env shop"
    using inj by (auto simp: fresh_env_def ex_uuids shop_def demo_def edge_token_def)
qed

lemma ex_run:
  assumes "fresh_env ex_env m"
  obtains m' b' where "runs ex_api lib (m, b) (m', b')" and "m' = m\<lparr>uploads := uploads m'\<rparr>"
proof -
  obtain resp m' b' where d: "dispatch ex_api lib ex_env one_upload m b = (resp, m', b')" by (metis prod.exhaust)
  then have "m' = m\<lparr>uploads := uploads m'\<rparr>"
    by (auto simp: dispatch_def one_upload_def handleUnscannedUpload_def Service_CreateUpload_def Let_def
        MemoryStore_Put_def Memory_CreateUpload_def split: prod.splits sum.splits)
  moreover have "runs ex_api lib (m, b) (m', b')" by (rule serve [OF idle assms d])
  ultimately show ?thesis using that by blast
qed

section \<open>Properties\<close>

text \<open>C1: every state that a sequence of requests reaches from the empty stores satisfies the invariant of the
repository, and every object key of an upload, a revision or a resource revision is in the blob store.\<close>

theorem reachable_states_ok:
  assumes "api_svc A = mem_service cfg" and "runs A lib (NewMemory, NewMemoryStore) (m, b)"
  shows "memory_inv m \<and> blobs_ok m b"
  using runs_grown [OF assms(2,1)] sys_ok_new by (simp add: grown_def sys_ok_def)

lemma reachable_states_ok_witness:
  "\<exists>m b. runs ex_api ex_lib (NewMemory, NewMemoryStore) (m, b) \<and> memory_inv m \<and> blobs_ok m b"
proof -
  obtain m b where run: "runs ex_api ex_lib (NewMemory, NewMemoryStore) (m, b)"
    by (rule ex_run [OF ex_fresh(1)])
  with reachable_states_ok [OF _ run, of ex_cfg] show ?thesis by auto
qed

text \<open>C4: in every state of a run, whoever may view a package can download every revision that was ever
published for it, and the revision of every one of its releases.\<close>

theorem published_can_be_downloaded:
  assumes "api_svc A = mem_service cfg" and "sys_ok m0 b0" and "runs A lib (m0, b0) (m, b)"
    and "stored p m" and "mayView identity p"
    and "rv \<in> set (at_key (revisions m0) (pkg_ID p)) \<or> rv \<in> set (at_key (revisions m) (pkg_ID p))
       \<or> (\<exists>channel r. map_of (at_key (releases m) (pkg_ID p)) channel = Some r
             \<and> Memory_GetRevisionByNumber (pkg_ID p) (rel_Revision r) m = Inr rv)"
  shows "\<exists>payload. DownloadCharm (mem_service cfg) identity (pkg_ID p) (rev_Revision rv) m b = Inr payload"
proof -
  have ok: "sys_ok m b" and pre: "prefix (at_key (revisions m0) (pkg_ID p)) (at_key (revisions m) (pkg_ID p))"
    using runs_grown [OF assms(3,1)] assms(2) by (simp_all add: grown_def grows_def revisionsKept_def)
  have rv: "rv \<in> set (at_key (revisions m) (pkg_ID p))"
    using assms(6) set_mono_prefix [OF pre] by (auto simp: Memory_GetRevisionByNumber_def res_iff dest: find_SomeD)
  have key: "has b (rev_ObjectKey rv)" using ok rv unfolding sys_ok_def blobs_ok_def by blast
  have "Memory_GetRevisionByNumber (pkg_ID p) (rev_Revision rv) m = Inr rv"
    using ok rv revision_found [of m rv "pkg_ID p"] by (simp add: sys_ok_def)
  then show ?thesis
    using DownloadCharm_mem [OF assms(4,5), of "rev_Revision rv" rv cfg b] key
    by (auto simp: MemoryStore_Get_def has_def)
qed

lemma published_can_be_downloaded_witness:
  "\<exists>m b. runs ex_api ex_lib (shop, full_blobs) (m, b)
     \<and> (\<exists>payload. DownloadCharm (mem_service ex_cfg) alice_in ''p1'' 2 m b = Inr payload)"
proof -
  obtain m b where run: "runs ex_api ex_lib (shop, full_blobs) (m, b)" and m: "m = shop\<lparr>uploads := uploads m\<rparr>"
    by (rule ex_run [OF ex_fresh(2)])
  let ?rv = "demo_revision 2 ''uploads/u9/demo.charm''"
  have "stored demo m" using demo_stored by (subst m) (simp add: stored_def)
  moreover have "mayView alice_in demo" using alice_manages_demo mayManage_mayView by blast
  moreover have "?rv \<in> set (at_key (revisions shop) (pkg_ID demo))" by (simp add: shop_def demo_def)
  ultimately have "\<exists>payload. DownloadCharm (mem_service ex_cfg) alice_in (pkg_ID demo) (rev_Revision ?rv) m b = Inr payload"
    using published_can_be_downloaded [OF _ shop_ok run, of ex_cfg demo alice_in ?rv] by simp
  then show ?thesis using run by (auto simp: demo_def demo_revision_def)
qed

text \<open>C2: between two states of a run nothing published is changed or lost: the earlier revisions of a package
are a prefix of the later ones, an account keeps its identifier and subject, and a store token keeps its
owner, rights and life time.\<close>

theorem history_is_append_only:
  assumes "api_svc A = mem_service cfg" and "sys_ok m b" and "runs A lib (m, b) (m', b')"
  shows "prefix (at_key (revisions m) pid) (at_key (revisions m') pid)
    \<and> (map_of (accountsByID m) i = Some a \<longrightarrow> (\<exists>a'. map_of (accountsByID m') i = Some a' \<and> acc_Subject a' = acc_Subject a))
    \<and> (map_of (tokens m) h = Some tok \<longrightarrow> (\<exists>tok'. map_of (tokens m') h = Some tok'
          \<and> tok' = tok\<lparr>tok_RevokedAt := tok_RevokedAt tok', tok_RevokedBy := tok_RevokedBy tok'\<rparr>))"
  using runs_grown [OF assms(3,1)] assms(2)
  unfolding grown_def grows_def revisionsKept_def accountsKept_def tokensKept_def tokenSuccessor_def fst_conv snd_conv
  by blast

lemma history_is_append_only_witness:
  "\<exists>m b. runs ex_api ex_lib (shop, full_blobs) (m, b) \<and> prefix (at_key (revisions shop) ''p1'') (at_key (revisions m) ''p1'')
     \<and> (\<exists>tok. map_of (tokens m) ''h1'' = Some tok \<and> tok_Channels tok = [''latest/edge''])"
proof -
  obtain m b where run: "runs ex_api ex_lib (shop, full_blobs) (m, b)"
    by (rule ex_run [OF ex_fresh(2)])
  have "map_of (tokens shop) ''h1'' = Some edge_token" by (simp add: shop_def)
  then obtain tok where "map_of (tokens m) ''h1'' = Some tok"
      "tok = edge_token\<lparr>tok_RevokedAt := tok_RevokedAt tok, tok_RevokedBy := tok_RevokedBy tok\<rparr>"
    using history_is_append_only [OF _ shop_ok run, of ex_cfg] by fastforce
  moreover from this have "tok_Channels tok = [''latest/edge'']" by (cases tok) (simp add: edge_token_def)
  ultimately show ?thesis using history_is_append_only [OF _ shop_ok run, of ex_cfg] run by auto
qed

text \<open>C3: once its owner has revoked a token, no later request, whoever sends it, makes the token valid again.\<close>

theorem revoked_stays_revoked:
  assumes "api_svc A = mem_service cfg" and "sys_ok m b"
    and "Memory_FindStoreTokenByHash (HashToken raw) m = Inr (tok, account)"
    and "tok_AccountID tok = acc_ID (idn_Account identity)"
    and "Service_RevokeStoreToken (mem_service cfg) E identity (tok_SessionID tok) m = (Inr u, m1)"
    and "runs A lib (m1, b) (m2, b2)"
  shows "AuthenticateToken memory_repo t raw m2 = Inl (Errorf ''cannot authenticate: token revoked or expired'')"
proof -
  have ok1: "sys_ok m1 b" using RevokeStoreToken_ok [OF assms(2), of cfg E identity "tok_SessionID tok"] assms(5) by simp
  have g: "grows m1 m2" using runs_grown [OF assms(6,1)] ok1 by (simp add: grown_def)
  have inv: "memory_inv m" using assms(2) by (simp add: sys_ok_def)
  obtain tok1 where "Memory_FindStoreTokenByHash (HashToken raw) m1 = Inr (tok1, account)"
      and rev1: "tok_RevokedAt tok1 \<noteq> None"
    using mem_tokens.find_revoked [OF inv, of "HashToken raw" tok account "now E 0" "order E 0"
        "acc_ID (idn_Account identity)" u m1] assms(3-5)
    by (auto simp: Service_RevokeStoreToken_def res_iff)
  then have old: "map_of (tokens m1) (HashToken raw) = Some tok1" "map_of (accountsByID m1) (tok_AccountID tok1) = Some account"
    by (auto simp: Memory_FindStoreTokenByHash_def res_iff)
  then obtain tok2 account2 where "map_of (tokens m2) (HashToken raw) = Some tok2" "tokenSuccessor tok1 tok2"
      "map_of (accountsByID m2) (tok_AccountID tok1) = Some account2"
    using g unfolding grows_def tokensKept_def accountsKept_def by metis
  moreover from this have "tok_AccountID tok2 = tok_AccountID tok1" "tok_RevokedAt tok2 \<noteq> None"
    using rev1 by (cases tok1; cases tok2; simp add: tokenSuccessor_def)+
  ultimately have "Memory_FindStoreTokenByHash (HashToken raw) m2 = Inr (tok2, account2)"
    by (simp add: Memory_FindStoreTokenByHash_def)
  then show ?thesis using \<open>tok_RevokedAt tok2 \<noteq> None\<close> by (simp add: AuthenticateToken_def tokenDead_def)
qed

lemma revoked_stays_revoked_witness:
  "\<exists>m1 m2 b2. runs ex_api ex_lib (m1, full_blobs) (m2, b2)
     \<and> AuthenticateToken memory_repo 50 ''cr_x'' m2 = Inl (Errorf ''cannot authenticate: token revoked or expired'')"
proof -
  let ?tok = "edge_token\<lparr>tok_TokenHash := HashToken ''cr_x'', tok_SessionID := ''s9''\<rparr>"
  let ?m = "snd (Memory_CreateStoreToken ?tok shop)"
  let ?m1 = "snd (Service_RevokeStoreToken (mem_service ex_cfg) ex_env alice_in ''s9'' ?m)"
  have h: "HashToken ''cr_x'' \<noteq> ''h1''" by (rule HashToken_neq) simp
  then have "fresh_token ?tok shop" by (simp add: fresh_token_def shop_def edge_token_def)
  then have "memory_inv ?m" by (rule memory_inv_CreateStoreToken [OF shop_inv])
  then have ok: "sys_ok ?m full_blobs" using shop_ok by (simp add: sys_ok_def Memory_CreateStoreToken_def)
  have found: "Memory_FindStoreTokenByHash (HashToken ''cr_x'') ?m = Inr (?tok, alice)"
    using h by (simp add: memory_ops shop_def edge_token_def)
  have revoke: "Service_RevokeStoreToken (mem_service ex_cfg) ex_env alice_in (tok_SessionID ?tok) ?m = (Inr (), ?m1)"
    using h by (simp add: Service_RevokeStoreToken_def memory_ops shop_def ex_env_def alice_in_def
        edge_token_def alice_def)
  have owner: "tok_AccountID ?tok = acc_ID (idn_Account alice_in)"
    by (simp add: edge_token_def alice_in_def alice_def)
  have idle: "runs ex_api ex_lib (?m1, full_blobs) (?m1, full_blobs)" by (rule idle)
  show ?thesis using revoked_stays_revoked [OF ex_api_sel(1) ok found owner revoke idle, of 50] idle by blast
qed

end
