(* ===== verification/Exposure.thy ===== *)
theory Exposure
  imports Handlers
begin

text \<open>
  What a caller without rights can and cannot get out of the registry: every reading operation refuses a
  private package, and one route hands out the registry password to everybody.
\<close>

definition refused :: "'a res \<Rightarrow> bool" where
  "refused r \<longleftrightarrow> (\<exists>status code msg. r = Inl (ServiceError status code msg) \<and> (status = 401 \<or> status = 403))"

lemma refused_bind: "refused r \<Longrightarrow> refused (res_bind r f)"
  by (auto simp: refused_def)

text \<open>C28: no operation that reads a package by its name or identifier answers a caller who may not view it:
metadata, information, revisions, reviews, resources, releases and both downloads are refused with 401 or
403, whatever the arguments.\<close>

theorem private_package_is_closed:
  assumes p: "stored p m" and hidden: "\<not> mayView identity p"
  shows "refused (GetPackage (mem_service cfg) E identity (pkg_Name p) flag m)
    \<and> refused (Info (mem_service cfg) E identity (pkg_Name p) m)
    \<and> refused (Service_ListRevisions (mem_service cfg) identity (pkg_Name p) number m)
    \<and> refused (ReviewUpload (mem_service cfg) identity (pkg_Name p) uploadID m)
    \<and> refused (DownloadCharm (mem_service cfg) identity (pkg_ID p) n m b)
    \<and> refused (ListResources (mem_service cfg) E identity (pkg_Name p) m)
    \<and> refused (Service_ListResourceRevisions (mem_service cfg) identity (pkg_Name p) resourceName m)
    \<and> refused (DownloadResource (mem_service cfg) identity (pkg_ID p) resourceName n m b)
    \<and> refused (Service_ListReleases (mem_service cfg) E identity (pkg_Name p) m)"
proof -
  have guard: "refused (requirePackageView (mem_service cfg) identity p tp m)" for tp
    using requirePackageView_refused [OF _ hidden] p by (simp add: stored_def refused_def)
  have name: "Memory_GetPackageByName (pkg_Name p) m = Inr p" and id: "Memory_GetPackageByID (pkg_ID p) m = Inr p"
    using p by (simp_all add: stored_def Memory_GetPackageByName_def Memory_GetPackageByID_def)
  have get: "refused (GetPackage (mem_service cfg) E identity (pkg_Name p) tp m)" for tp
    using guard by (simp add: GetPackage_def name refused_bind)
  show ?thesis
    using guard get
    by (simp add: Info_def Service_ListRevisions_def ReviewUpload_def DownloadCharm_def ListResources_def
        Service_ListResourceRevisions_def DownloadResource_def Service_ListReleases_def name id refused_bind)
qed

lemma private_package_is_closed_witness:
  "refused (DownloadCharm (mem_service ex_cfg) bob_in ''p1'' 1 shop shop_blobs)"
proof -
  have "\<not> mayView bob_in demo" by (simp add: mayView_def bob_in_def bob_def demo_def)
  moreover have "pkg_ID demo = ''p1''" by (simp add: demo_def)
  ultimately show ?thesis using private_package_is_closed [OF demo_stored, of bob_in ex_cfg ex_env] by metis
qed

definition contains_member :: "string \<Rightarrow> string \<Rightarrow> string \<Rightarrow> bool" where
  "contains_member json key v \<longleftrightarrow> (\<exists>before after. json = before @ quoteJSON key @ '':'' @ quoteJSON v @ after)"

lemma contains_member_object:
  "i < length kvs \<Longrightarrow> kvs ! i = (key, quoteJSON v) \<Longrightarrow> contains_member (objectJSON kvs) key v"
proof (induction i arbitrary: kvs)
  case 0
  then obtain rest where "kvs = (key, quoteJSON v) # rest" by (cases kvs) auto
  moreover have "\<exists>after. joinWith '','' (map member ((key, quoteJSON v) # rest)) = quoteJSON key @ '':'' @ quoteJSON v @ after"
    by (cases rest) (auto simp: member_def)
  ultimately show ?case
    unfolding contains_member_def objectJSON_def by (metis append_assoc)
next
  case (Suc i)
  then obtain kv rest where kvs: "kvs = kv # rest" by (cases kvs) auto
  have rest: "rest \<noteq> []" using kvs Suc.prems(1) by auto
  have "contains_member (objectJSON rest) key v" using Suc kvs by simp
  then obtain before after where eq: "''{'' @ joinWith '','' (map member rest) @ ''}'' = before @ quoteJSON key @ '':'' @ quoteJSON v @ after"
    unfolding contains_member_def objectJSON_def by blast
  have "before \<noteq> []" using eq by (auto simp: quoteJSON_def)
  then obtain before' where before: "before = CHR ''{'' # before'" using eq by (cases before) auto
  have "joinWith '','' (map member kvs) = member kv @ '','' @ joinWith '','' (map member rest)"
    using rest kvs by (cases rest) auto
  then have "objectJSON kvs = (''{'' @ member kv @ '','' @ before') @ quoteJSON key @ '':'' @ quoteJSON v @ after"
    using eq before by (simp add: objectJSON_def)
  then show ?case unfolding contains_member_def by blast
qed

lemma requirePackageManage_anonymous:
  "\<not> idn_Authenticated identity \<Longrightarrow> refused (requirePackageManage (mem_service cfg) identity p permission m)"
  by (auto simp: requirePackageManage_def requirePermission_def requireAuth_def refused_def newError_def)

text \<open>A request without credentials for the OCI blob of any charm and resource, registered or not, is
answered with 200 and a descriptor that contains the registry's user name and password; asking for the
upload credentials themselves, which are the same, is refused.\<close>

lemma registry_password_is_public:
  assumes "hr_Authorization r = []" and "decodeJSON (api_cfg A) (hr_Body r) = Inr digest"
    and "api_svc A = mem_service cfg"
  shows "\<exists>content. handleOCIImageBlob A E r m = (attachment ''oci-image-blob.json'' ''text/plain; charset=utf-8'' content, m)
      \<and> contains_member content ''Password'' (cfg_RegistryPassword cfg)
      \<and> contains_member content ''Username'' (cfg_RegistryUsername cfg)
      \<and> (\<forall>p. stored p m \<longrightarrow> refused (OCIImageUploadCredentials (mem_service cfg) anonymous (pkg_Name p) resourceName m))"
proof -
  let ?content = "OCIImageBlob (mem_service cfg) anonymous (hr_Param r ''name'') (hr_Param r ''resource'') digest"
  have "identityOf A E r m = (Inr anonymous, m)"
    using assms(1) by (simp add: identityOf_def Authenticate_def trimSpace_def trimSeqs.simps ResolveIdentity_def zero_claims_def)
  then have "handleOCIImageBlob A E r m = (attachment ''oci-image-blob.json'' ''text/plain; charset=utf-8'' ?content, m)"
    using assms(2,3) by (simp add: handleOCIImageBlob_def withIdentity_def withBody_def)
  moreover have "contains_member ?content ''Password'' (cfg_RegistryPassword cfg)"
    unfolding OCIImageBlob_def by (rule contains_member_object [of 2]) simp_all
  moreover have "contains_member ?content ''Username'' (cfg_RegistryUsername cfg)"
    unfolding OCIImageBlob_def by (rule contains_member_object [of 3]) simp_all
  moreover have "refused (OCIImageUploadCredentials (mem_service cfg) anonymous (pkg_Name p) resourceName m)"
    if "stored p m" for p
    using that requirePackageManage_anonymous [of anonymous cfg p permPackageManageRevisions m]
    by (simp add: OCIImageUploadCredentials_def stored_def Memory_GetPackageByName_def refused_bind anonymous_def)
  ultimately show ?thesis by blast
qed

lemma registry_password_is_public_witness:
  "\<exists>content. contains_member content ''Password'' (cfg_RegistryPassword ex_cfg)"
  using registry_password_is_public
    [of "\<lparr>hr_Authorization = [], hr_Macaroons = [], hr_Query = (\<lambda>_. []), hr_Param = (\<lambda>_. ''x''),
        hr_Body = \<lparr>body_first = Decoded ''sha256:0'', body_ends = True\<rparr>\<rparr>"
      "\<lparr>api_cfg = ex_cfg, api_svc = mem_service ex_cfg, api_auth = \<lparr>au_config = ex_cfg, au_verifier = None\<rparr>\<rparr>" "''sha256:0''" ex_cfg ex_env shop]
  by (auto simp: decodeJSON_def)

end
