(* ===== verification/Spec2Isabelle.thy ===== *)
theory Spec2Isabelle
  imports Login Columns QueryRepository PostgresService PostgresSearch PostgresRequests Races Startup History Exposure Refreshing ReleaseMap Charm Channels
begin

text \<open>
  A model of the private charm registry: an HTTP service through which \<^verbatim>\<open>charmcraft\<close> registers, uploads,
  publishes and releases charms and their resources, and through which \<^verbatim>\<open>juju\<close> searches, resolves and downloads
  them.  A request passes three layers.  \<^verbatim>\<open>internal/api\<close> routes it, resolves the caller with
  \<^verbatim>\<open>internal/auth\<close> and renders the answer.  \<^verbatim>\<open>internal/service\<close> decides: it authorizes the caller, reads and
  writes through the interface \<^verbatim>\<open>repo.Repository\<close>, and stores payloads through \<^verbatim>\<open>blob.Store\<close>.
  \<^verbatim>\<open>internal/repo\<close> holds two implementations of the interface, maps under a lock and PostgreSQL;
  \<^verbatim>\<open>internal/blob\<close> holds two, a map and S3.  \<^verbatim>\<open>cmd/charm-registry\<close> and \<^verbatim>\<open>internal/app\<close> build the
  production combination, PostgreSQL and S3.

  \<^bold>\<open>How the code is translated.\<close>  A struct is a record with the fields of the struct under a prefix of its
  own, in their order; a definition has the name of its Go function (\<open>Memory_\<close>, \<open>Postgres_\<close> and \<open>Service_\<close> keep
  methods of the same name apart).  A function that returns an error returns a sum, \<open>Inl\<close> the error (\<open>goerr\<close>);
  \<open>res_bind\<close>, \<open>rd_bind\<close> and \<open>st_bind\<close> are the three shapes of the early return, the last two keep what was written
  before the error.  A Go map is an association list; the order of \<^verbatim>\<open>range\<close>, and the order of rows that a
  statement leaves open, is a \<open>shuffle\<close> every theorem is about.  \<^verbatim>\<open>int\<close> and \<^verbatim>\<open>int64\<close> are integers except
  where they can overflow: there the 64-bit product, the 32-bit column or the parser's range is written out.
  What a request takes from outside is its environment \<open>E\<close> of type \<open>ambient\<close>: the readings of the clock, the
  identifiers it draws, the random bytes, the iteration orders; \<open>skip k E\<close> is what is left after \<open>k\<close> draws.
  Every definition is total: recursions are over the data (lists, strings, the clauses of a request) or have a
  measure.  One theorem counts rounds: \<open>scanWithin\<close> is the scanner of JSON with a number of rounds to spend, and one
  round per byte is proved enough.

  \<^bold>\<open>Foundations.\<close>  \<open>Prelude\<close>: errors, binds, maps, environments, with the simplification and \<open>res_iff\<close>
  collections the components use.  \<open>GoStrings\<close>: the string, number and path functions of the standard library.
  \<open>Hash\<close>: SHA-256, SHA-384 and SHA-512 over machine words, hexadecimal and base64.  \<open>Json\<close>: the strings of
  \<^verbatim>\<open>encoding/json\<close>; \<open>JsonScan\<close> its scanner as a machine over the bytes, \<open>JsonDecode\<close> the decoding of values into
  Go types and of documents and streams, \<open>JsonText\<close> the round trips of rendering and reading.  \<open>Core\<close>: \<^verbatim>\<open>internal/core/types.go\<close>, the configuration record, the dynamic documents.

  \<^bold>\<open>Stores.\<close>  \<open>Repository\<close>: the interface as a record of methods over the type of a store's state.
  \<open>Contract\<close>: what the services rely on, as the locales \<open>account_store\<close>, \<open>token_store\<close>, \<open>package_store\<close>,
  \<open>revision_store\<close> and \<open>release_store\<close>.  \<open>Memory\<close> and \<open>MemoryLaws\<close>: \<^verbatim>\<open>memory.go\<close>, its invariant, the
  interpretations of the contracts.  \<open>Database\<close>: the tables of \<^verbatim>\<open>migrations/0001_init.sql\<close> and the SQL the
  statements use.  \<open>Postgres\<close>: \<^verbatim>\<open>postgres*.go\<close>, each method the meaning of its statements on the tables.
  \<open>PostgresLaws\<close>: \<open>pg_inv\<close>, the constraints of the schema, kept by every method.  \<open>PostgresContract\<close>: the same
  contracts, interpreted on PostgreSQL.  \<open>Queries\<close>: the generated query package \<^verbatim>\<open>internal/repo/db\<close>, one definition
  per query; \<open>QueryRepository\<close>: the interface written on these queries, and its equivalence with \<open>Postgres\<close>.  \<open>Columns\<close>: the
  encoding of \<^verbatim>\<open>JSONB\<close> columns and the scans that decode them, for any server that keeps the value of a document,
  which is why the tables hold values in these columns.  \<open>Blob\<close>: both blob stores and the locale \<open>blob_contract\<close>.

  \<^bold>\<open>Services.\<close>  \<open>Access\<close> and \<open>Guards\<close>: authorization, and who may view and manage what (\<^verbatim>\<open>service.go\<close>,
  \<^verbatim>\<open>helpers.go\<close>).  \<open>Auth\<close>, \<open>Tokens\<close>, \<open>Macaroon\<close>: credentials, identities, the life of store tokens.
  \<open>Channels\<close>, \<open>Views\<close>: channel names, response documents.  \<open>Charm\<close>: reading archives.  \<open>Packages\<close>,
  \<open>Revisions\<close>, \<open>Resources\<close>, \<open>Releases\<close>: one theory per file of \<^verbatim>\<open>internal/service\<close>; \<open>Publishing\<close>,
  \<open>Refreshing\<close>, \<open>ReleaseMap\<close> hold what follows over the in-memory stores, \<open>Clients\<close> what follows from the
  contracts over any store, \<open>PostgresService\<close> and \<open>PostgresSearch\<close> what follows over PostgreSQL.

  \<^bold>\<open>Requests.\<close>  \<open>Http\<close>, \<open>Pages\<close>, \<open>Handlers\<close>, \<open>Dispatch\<close>: requests and responses, the pages of constant text, the
  handlers of \<^verbatim>\<open>internal/api\<close>, the routes.  \<open>Bodies\<close>: request bodies from their bytes and the table of routes.
  \<open>Login\<close>: the login of \<^verbatim>\<open>charmcraft\<close> through the macaroon, end to end.
  \<open>System\<close>, \<open>Serving\<close> (locale \<open>service_invariant\<close>) and \<open>History\<close>: what every sequence of requests over the
  in-memory stores keeps, and that nothing published or revoked is forgotten.  \<open>Keeping\<close> (locale
  \<open>command_invariant\<close>, relation \<open>serves\<close>) and \<open>PostgresRequests\<close>: the same for any store, and over PostgreSQL.
  \<open>Exposure\<close>: what a private package lets out.

  \<^bold>\<open>Concurrency.\<close>  \<open>Processes\<close>: a request as a process, a tree of atomic calls of the stores; \<open>interleaving\<close>
  is the step relation of a pool of processes, the locale \<open>protocol\<close> its rely-guarantee rule.  \<open>Concurrent\<close>: the
  thirteen operations that change a store as processes, the proof that a process alone is the operation of the
  services, and the locale \<open>command_relation\<close> for what every call keeps.  \<open>PostgresConcurrent\<close>: what holds in
  every interleaving over PostgreSQL.  \<open>Races\<close>: interleavings that go wrong.

  \<^bold>\<open>Start.\<close>  \<open>Config\<close>: the environment variables.  \<open>Startup\<close>: the construction of the stores, of the
  authenticator and of the application, and the round trip of an uploaded charm in the running process.
  \<open>Examples\<close> and \<open>PostgresExamples\<close> hold the concrete inputs of the witnesses.

  \<^bold>\<open>Assumptions.\<close>  Identifiers drawn by a request are new where a theorem says so (\<open>fresh_env\<close>); the theorems
  about \<open>serves\<close> and \<open>interleaving\<close> need no such assumption.  S3 is consistent (\<open>s3_consistent\<close>) where a payload
  is read back from it.  A method of a repository is atomic: the in-memory repository holds its lock, a method of
  the other is one statement, except \<open>CreateTracks\<close>.

  \<^bold>\<open>Not modelled.\<close>  Parameters, because they are not in the repository: the form the server stores a JSON document
  in (\<open>jsonb\<close> states what it promises), the zip reader and the YAML decoder, the
  OIDC library, the AWS SDK, the connection pool and the execution of the migration text, the reading of time stamps
  by \<^verbatim>\<open>time.Time\<close>, \<^verbatim>\<open>time.ParseDuration\<close>.  Left out: the router's choice of a route and of its path parameters, the
  parser of multipart forms, the other middleware of the router, the HTTP server with its time-outs and its shutdown,
  lost connections and cancelled contexts, text that is not valid UTF-8 in PostgreSQL, the texts of the driver's and
  of the JSON decoder's errors beyond the parts the code looks at, and the elements a slice keeps in its spare
  capacity when the same member of a JSON object is decoded more than twice.
\<close>

end
